(* ===== verification/Prelude.thy ===== *)
theory Prelude
  imports Complex_Main
begin

text \<open>
  Shared vocabulary of the development: the errors of \<open>backend/app/core/exceptions.py\<close>, the
  result type of every operation that can raise, its sequencing combinators (bind, the loop over
  a list that stops at the first error, the loop that threads a state) and the lemmas about them
  every component uses.

  A Python exception is the \<open>Inl\<close> of a sum. An operation on the database returns
  \<open>Inr (result, new state)\<close>; its \<open>Inl\<close> carries no state because \<open>get_session\<close> of
  \<open>core/database.py\<close> rolls the transaction back on every exception.
\<close>

section \<open>Errors\<close>

text \<open>
  The exception classes of \<open>core/exceptions.py\<close>. A \<open>ValidationFailed\<close> carries its message and its
  field/message map; \<open>InvalidPayload\<close> is the same exception raised by the schema validator, with
  its ordered list of (field, code, message). Text that the code interpolates into a message is
  left out of it. The last three stand for exceptions that are not \<open>DomainError\<close>s: a unique index
  or trigger refusing a write, a number that does not fit its column, and an uncaught Python error.
\<close>

datatype domain_error =
    AuthRequired string
  | AccessDenied string
  | NotFound string
  | Conflict string string "(string \<times> string) list"
  | InvalidState string
  | ValidationFailed string "(string \<times> string) list"
  | InvalidPayload string "(string \<times> string \<times> string) list"
  | DomainError string string nat
  | IntegrityError string
  | DataError string
  | PythonError string

type_synonym 'a res = "domain_error + 'a"

text \<open>The stable code and the HTTP status each exception class fixes in its constructor.\<close>

fun error_code :: "domain_error \<Rightarrow> string" where
  "error_code (AuthRequired c) = c"
| "error_code (AccessDenied _) = ''ACCESS_DENIED''"
| "error_code (NotFound _) = ''REFERENCE_NOT_FOUND''"
| "error_code (Conflict c _ _) = c"
| "error_code (InvalidState _) = ''INVALID_STATE_TRANSITION''"
| "error_code (ValidationFailed _ _) = ''VALIDATION_ERROR''"
| "error_code (InvalidPayload _ _) = ''VALIDATION_ERROR''"
| "error_code (DomainError c _ _) = c"
| "error_code (IntegrityError _) = ''''"
| "error_code (DataError _) = ''''"
| "error_code (PythonError _) = ''''"

fun status_code :: "domain_error \<Rightarrow> nat" where
  "status_code (AuthRequired _) = 401"
| "status_code (AccessDenied _) = 403"
| "status_code (NotFound _) = 404"
| "status_code (Conflict _ _ _) = 409"
| "status_code (InvalidState _) = 409"
| "status_code (ValidationFailed _ _) = 422"
| "status_code (InvalidPayload _ _) = 422"
| "status_code (DomainError _ _ s) = s"
| "status_code (IntegrityError _) = 500"
| "status_code (DataError _) = 500"
| "status_code (PythonError _) = 500"

lemma pred_option_code [code]: "pred_option P None = True" "pred_option P (Some x) = P x"
  by simp_all

section \<open>Sequencing\<close>

definition ebind :: "'e + 'a \<Rightarrow> ('a \<Rightarrow> 'e + 'b) \<Rightarrow> 'e + 'b" where
  "ebind m f = (case m of Inl e \<Rightarrow> Inl e | Inr x \<Rightarrow> f x)"

text \<open>Evaluation replaces a bind by its case distinction, so a continuation waits for its value.\<close>

declare ebind_def [code_unfold] Let_def [code_unfold]

text \<open>\<open>guard c e\<close> is \<open>if c: raise e\<close>.\<close>

definition raise_if :: "bool \<Rightarrow> 'e \<Rightarrow> 'e + unit" where
  "raise_if c e = (if c then Inl e else Inr ())"

definition require_some :: "'a option \<Rightarrow> 'e \<Rightarrow> 'e + 'a" where
  "require_some x e = (case x of None \<Rightarrow> Inl e | Some v \<Rightarrow> Inr v)"

fun emap :: "('a \<Rightarrow> 'e + 'b) \<Rightarrow> 'a list \<Rightarrow> 'e + 'b list" where
  "emap f [] = Inr []"
| "emap f (x # xs) = ebind (f x) (\<lambda>y. ebind (emap f xs) (\<lambda>ys. Inr (y # ys)))"

fun efold :: "('a \<Rightarrow> 's \<Rightarrow> 'e + 's) \<Rightarrow> 'a list \<Rightarrow> 's \<Rightarrow> 'e + 's" where
  "efold f [] s = Inr s"
| "efold f (x # xs) s = ebind (f x s) (efold f xs)"

text \<open>\<open>enumerate(xs, start=n)\<close> of the source.\<close>

definition py_enumerate :: "nat \<Rightarrow> 'a list \<Rightarrow> (nat \<times> 'a) list" where
  "py_enumerate n xs = zip [n..<n + length xs] xs"

subsection \<open>Lemmas\<close>

lemma ebind_simps [simp]:
  "ebind (Inl e) f = Inl e"
  "ebind (Inr x) f = f x"
  by (simp_all add: ebind_def)

lemma ebind_Inr_iff: "ebind m f = Inr y \<longleftrightarrow> (\<exists>x. m = Inr x \<and> f x = Inr y)"
  by (cases m) auto

lemma ebind_Inl_iff: "ebind m f = Inl e \<longleftrightarrow> m = Inl e \<or> (\<exists>x. m = Inr x \<and> f x = Inl e)"
  by (cases m) auto

lemma raise_if_simps [simp]:
  "raise_if True e = Inl e"
  "raise_if False e = Inr ()"
  by (simp_all add: raise_if_def)

lemma raise_if_Inr_iff [simp]: "raise_if c e = Inr u \<longleftrightarrow> \<not> c"
  by (simp add: raise_if_def)

lemma raise_if_Inl_iff [simp]: "raise_if c e = Inl e' \<longleftrightarrow> c \<and> e' = e"
  by (auto simp: raise_if_def)

lemma require_some_simps [simp]:
  "require_some None e = Inl e"
  "require_some (Some v) e = Inr v"
  by (simp_all add: require_some_def)

lemma require_some_Inr_iff [simp]: "require_some x e = Inr v \<longleftrightarrow> x = Some v"
  by (simp add: require_some_def split: option.splits)

lemmas res_iffs = ebind_Inr_iff raise_if_Inr_iff require_some_Inr_iff

lemma emap_list_all2: "emap f xs = Inr ys \<longleftrightarrow> list_all2 (\<lambda>x y. f x = Inr y) xs ys"
  by (induction xs arbitrary: ys) (auto simp: ebind_Inr_iff list_all2_Cons1)

lemma emap_length: "emap f xs = Inr ys \<Longrightarrow> length ys = length xs"
  by (simp add: emap_list_all2 list_all2_lengthD)

lemma emap_in_set:
  assumes "emap f xs = Inr ys" and "y \<in> set ys"
  obtains x where "x \<in> set xs" and "f x = Inr y"
proof -
  from assms obtain i where "i < length ys" and "y = ys ! i"
    by (auto simp: in_set_conv_nth)
  with assms(1) have "i < length xs" and "f (xs ! i) = Inr y"
    by (auto simp: emap_list_all2 list_all2_conv_all_nth)
  then show ?thesis using that nth_mem by blast
qed

lemma emap_total: "(\<And>x. x \<in> set xs \<Longrightarrow> \<exists>y. f x = Inr y) \<Longrightarrow> \<exists>ys. emap f xs = Inr ys"
  by (induction xs) (auto, force)

lemma emap_Inr_map: "(\<And>x. x \<in> set xs \<Longrightarrow> f x = Inr (g x)) \<Longrightarrow> emap f xs = Inr (map g xs)"
  by (induction xs) auto

text \<open>The invariant rule for a loop that threads a state and may stop with an error.\<close>

lemma efold_invariant:
  assumes "efold f xs s = Inr s'" and "I s"
    and "\<And>x t t'. x \<in> set xs \<Longrightarrow> I t \<Longrightarrow> f x t = Inr t' \<Longrightarrow> I t'"
  shows "I s'"
  using assms
proof (induction xs arbitrary: s)
  case Nil
  then show ?case by simp
next
  case (Cons x xs)
  from Cons.prems(1) obtain t where "f x s = Inr t" and rest: "efold f xs t = Inr s'"
    by (auto simp: ebind_Inr_iff)
  have "I t"
    by (rule Cons.prems(3) [of x s]) (use Cons.prems(2) \<open>f x s = Inr t\<close> in auto)
  with rest show ?case by (rule Cons.IH) (use Cons.prems(3) in auto)
qed

lemma efold_append: "efold f (xs @ ys) s = ebind (efold f xs s) (efold f ys)"
proof (induction xs arbitrary: s)
  case Nil
  then show ?case by simp
next
  case (Cons x xs)
  then show ?case by (cases "f x s") auto
qed

lemma py_enumerate_simps [simp]:
  "py_enumerate n [] = []"
  "py_enumerate n (x # xs) = (n, x) # py_enumerate (Suc n) xs"
proof -
  show "py_enumerate n [] = []" by (simp add: py_enumerate_def)
  have "[n..<n + length (x # xs)] = n # [Suc n..<Suc n + length xs]"
    by (simp add: upt_rec)
  then show "py_enumerate n (x # xs) = (n, x) # py_enumerate (Suc n) xs"
    by (simp add: py_enumerate_def)
qed

lemma map_snd_py_enumerate [simp]: "map snd (py_enumerate n xs) = xs"
  by (simp add: py_enumerate_def)

lemma length_py_enumerate [simp]: "length (py_enumerate n xs) = length xs"
  by (simp add: py_enumerate_def)

section \<open>Sums over lists\<close>

lemma sum_list_filter_partition:
  fixes f :: "'a \<Rightarrow> 'b :: comm_monoid_add"
  shows "sum_list (map f xs) = sum_list (map f (filter P xs)) + sum_list (map f (filter (\<lambda>x. \<not> P x) xs))"
  by (induction xs) (auto simp: ac_simps)

lemma sum_list_nonneg_map:
  fixes f :: "'a \<Rightarrow> 'b :: ordered_comm_monoid_add"
  shows "(\<And>x. x \<in> set xs \<Longrightarrow> 0 \<le> f x) \<Longrightarrow> 0 \<le> sum_list (map f xs)"
  by (induction xs) auto

lemma sum_list_member_le:
  fixes f :: "'a \<Rightarrow> 'b :: ordered_comm_monoid_add"
  assumes "x \<in> set xs" and "\<And>x. x \<in> set xs \<Longrightarrow> 0 \<le> f x"
  shows "f x \<le> sum_list (map f xs)"
  using assms
proof (induction xs)
  case Nil
  then show ?case by simp
next
  case (Cons y ys)
  show ?case
  proof (cases "x = y")
    case True
    with Cons.prems have "0 \<le> sum_list (map f ys)" by (auto intro: sum_list_nonneg_map)
    then show ?thesis using True add_left_mono [of 0 _ "f x"] by fastforce
  next
    case False
    with Cons have "f x \<le> sum_list (map f ys)" and "0 \<le> f y" by auto
    then show ?thesis using add_mono [of 0 "f y" "f x"] by fastforce
  qed
qed

text \<open>A key that is distinct in a list selects at most one element.\<close>

lemma length_filter_distinct_key:
  "distinct (map f xs) \<Longrightarrow> length (filter (\<lambda>x. f x = k) xs) = (if k \<in> f ` set xs then 1 else 0)"
proof (induction xs)
  case Nil
  then show ?case by simp
next
  case (Cons x xs)
  then show ?case by (auto simp: image_iff)
qed

end
