(* ===== verification/PyValues.thy ===== *)
theory PyValues
  imports Prelude
begin

text \<open>
  The Python values a request payload is made of, and what the code does with them before any
  business rule: text operations (\<open>strip\<close>, \<open>upper\<close>, \<open>casefold\<close>, \<open>isdigit\<close>), truthiness, the number
  constructors \<open>Decimal(str(v))\<close> and \<open>int(v)\<close>, and dictionaries in insertion order.

  Text is a list of characters of the ASCII range; \<open>str.isdigit\<close>, \<open>upper\<close> and white space are
  those of ASCII. A float is carried by its \<open>repr\<close>, because the code only ever reads a float
  through \<open>str\<close>. A \<open>Decimal\<close> is a rational or one of the non-finite values.
\<close>

section \<open>Dates\<close>

text \<open>\<open>datetime.date\<close>, ordered as Python orders it.\<close>

datatype date = Date (date_year: int) (date_month: int) (date_day: int)

instantiation date :: linorder
begin

fun less_eq_date :: "date \<Rightarrow> date \<Rightarrow> bool" where
  "less_eq_date (Date y m d) (Date y' m' d') \<longleftrightarrow>
     y < y' \<or> (y = y' \<and> (m < m' \<or> (m = m' \<and> d \<le> d')))"

fun less_date :: "date \<Rightarrow> date \<Rightarrow> bool" where
  "less_date (Date y m d) (Date y' m' d') \<longleftrightarrow>
     y < y' \<or> (y = y' \<and> (m < m' \<or> (m = m' \<and> d < d')))"

instance
proof
  fix x y z :: date
  show "x < y \<longleftrightarrow> x \<le> y \<and> \<not> y \<le> x" by (cases x; cases y) auto
  show "x \<le> x" by (cases x) simp
  show "x \<le> y \<Longrightarrow> y \<le> z \<Longrightarrow> x \<le> z" by (cases x; cases y; cases z) auto
  show "x \<le> y \<Longrightarrow> y \<le> x \<Longrightarrow> x = y" by (cases x; cases y) auto
  show "x \<le> y \<or> y \<le> x" by (cases x; cases y) auto
qed

end

section \<open>Values\<close>

text \<open>An infinity carries whether it is negative.\<close>

datatype pydecimal = DFin rat | DNaN | DInf bool

datatype pyval =
    PNone
  | PBool bool
  | PInt int
  | PFloat string
  | PStr string
  | PDec pydecimal
  | PDate date
  | PList "pyval list"
  | PDict "(string \<times> pyval) list"

type_synonym payload = "(string \<times> pyval) list"

section \<open>Text\<close>

definition is_space :: "char \<Rightarrow> bool" where
  "is_space c = (let n = (of_char c :: nat) in n = 32 \<or> (9 \<le> n \<and> n \<le> 13) \<or> (28 \<le> n \<and> n \<le> 31))"

definition is_digit :: "char \<Rightarrow> bool" where
  "is_digit c = (let n = (of_char c :: nat) in 48 \<le> n \<and> n \<le> 57)"

definition is_upper :: "char \<Rightarrow> bool" where
  "is_upper c = (let n = (of_char c :: nat) in 65 \<le> n \<and> n \<le> 90)"

definition is_lower :: "char \<Rightarrow> bool" where
  "is_lower c = (let n = (of_char c :: nat) in 97 \<le> n \<and> n \<le> 122)"

definition upper_char :: "char \<Rightarrow> char" where
  "upper_char c = (if is_lower c then char_of ((of_char c :: nat) - 32) else c)"

definition lower_char :: "char \<Rightarrow> char" where
  "lower_char c = (if is_upper c then char_of ((of_char c :: nat) + 32) else c)"

definition py_upper :: "string \<Rightarrow> string" where
  "py_upper s = List.map upper_char s"

definition py_lower :: "string \<Rightarrow> string" where
  "py_lower s = List.map lower_char s"

definition py_lstrip :: "string \<Rightarrow> string" where
  "py_lstrip s = dropWhile is_space s"

definition py_strip :: "string \<Rightarrow> string" where
  "py_strip s = rev (py_lstrip (rev (py_lstrip s)))"

definition py_isdigit :: "string \<Rightarrow> bool" where
  "py_isdigit s \<longleftrightarrow> s \<noteq> [] \<and> list_all is_digit s"

definition py_isalpha :: "string \<Rightarrow> bool" where
  "py_isalpha s \<longleftrightarrow> s \<noteq> [] \<and> list_all (\<lambda>c. is_upper c \<or> is_lower c) s"

definition py_isupper :: "string \<Rightarrow> bool" where
  "py_isupper s \<longleftrightarrow> list_ex is_upper s \<and> \<not> list_ex is_lower s"

definition digit_val :: "char \<Rightarrow> nat" where
  "digit_val c = of_char c - 48"

definition digits_val :: "string \<Rightarrow> nat" where
  "digits_val s = foldl (\<lambda>a c. 10 * a + digit_val c) 0 s"

fun show_nat :: "nat \<Rightarrow> string" where
  "show_nat n = (if n < 10 then [char_of (48 + n)] else show_nat (n div 10) @ [char_of (48 + n mod 10)])"

declare show_nat.simps [simp del]

definition show_int :: "int \<Rightarrow> string" where
  "show_int i = (if i < 0 then CHR ''-'' # show_nat (nat (- i)) else show_nat (nat i))"

text \<open>\<open>s.zfill(w)\<close> for the digits of a non-negative number.\<close>

definition zfill :: "string \<Rightarrow> nat \<Rightarrow> string" where
  "zfill s w = replicate (w - length s) CHR ''0'' @ s"

definition starts_with :: "string \<Rightarrow> string \<Rightarrow> bool" where
  "starts_with s p \<longleftrightarrow> take (length p) s = p"

definition ends_with :: "string \<Rightarrow> string \<Rightarrow> bool" where
  "ends_with s p \<longleftrightarrow> length p \<le> length s \<and> drop (length s - length p) s = p"

section \<open>Numbers from text\<close>

text \<open>
  \<open>Decimal(text)\<close>: optional sign, digits with an optional point, optional exponent; or the names
  of the non-finite values. Underscores between digits are accepted and dropped, as the
  constructor does.
\<close>

definition take_sign :: "string \<Rightarrow> int \<times> string" where
  "take_sign s = (case s of [] \<Rightarrow> (1, [])
     | c # r \<Rightarrow> if c = CHR ''-'' then (-1, r) else if c = CHR ''+'' then (1, r) else (1, s))"

definition parse_exponent :: "string \<Rightarrow> int option" where
  "parse_exponent s = (case s of [] \<Rightarrow> Some 0
     | c # r \<Rightarrow> if c = CHR ''e'' then
         (let (sg, ds) = take_sign r in if py_isdigit ds then Some (sg * int (digits_val ds)) else None)
       else None)"

definition scale10 :: "rat \<Rightarrow> int \<Rightarrow> rat" where
  "scale10 r e = (if 0 \<le> e then r * 10 ^ nat e else r / 10 ^ nat (- e))"

definition parse_finite :: "string \<Rightarrow> rat option" where
  "parse_finite s =
     (let ip = takeWhile is_digit s; r = dropWhile is_digit s;
          fp = (case r of c # t \<Rightarrow> if c = CHR ''.'' then takeWhile is_digit t else [] | [] \<Rightarrow> []);
          r' = (case r of c # t \<Rightarrow> if c = CHR ''.'' then dropWhile is_digit t else r | [] \<Rightarrow> [])
      in if ip = [] \<and> fp = [] then None
         else (case parse_exponent r' of None \<Rightarrow> None
               | Some e \<Rightarrow> Some (scale10 (of_nat (digits_val (ip @ fp))) (e - int (length fp)))))"

definition parse_decimal_text :: "string \<Rightarrow> pydecimal option" where
  "parse_decimal_text t =
     (let s = filter (\<lambda>c. c \<noteq> CHR ''_'') (py_lower (py_strip t)); (sg, b) = take_sign s
      in if b = ''inf'' \<or> b = ''infinity'' then Some (DInf (sg < 0))
         else if starts_with b ''nan'' \<and> list_all is_digit (drop 3 b) then Some DNaN
         else if starts_with b ''snan'' \<and> list_all is_digit (drop 4 b) then Some DNaN
         else map_option (\<lambda>r. DFin (of_int sg * r)) (parse_finite b))"

text \<open>\<open>int(text)\<close>.\<close>

definition parse_int_text :: "string \<Rightarrow> int option" where
  "parse_int_text t =
     (let (sg, b) = take_sign (py_strip t)
      in if py_isdigit b then Some (sg * int (digits_val b)) else None)"

text \<open>
  \<open>Decimal(str(v).strip())\<close>: \<open>None\<close> where the constructor raises. A boolean is the word \<open>True\<close> or
  \<open>False\<close>, a date and a container have digits and punctuation the constructor refuses.
\<close>

fun decimal_of :: "pyval \<Rightarrow> pydecimal option" where
  "decimal_of (PInt i) = Some (DFin (of_int i))"
| "decimal_of (PFloat s) = parse_decimal_text s"
| "decimal_of (PStr s) = parse_decimal_text s"
| "decimal_of (PDec d) = Some d"
| "decimal_of _ = None"

text \<open>\<open>int(v)\<close>: \<open>None\<close> where it raises \<open>TypeError\<close> or \<open>ValueError\<close>; a fraction is truncated.\<close>

definition trunc_rat :: "rat \<Rightarrow> int" where
  "trunc_rat r = (if 0 \<le> r then floor r else - floor (- r))"

fun int_of :: "pyval \<Rightarrow> int option" where
  "int_of (PBool b) = Some (if b then 1 else 0)"
| "int_of (PInt i) = Some i"
| "int_of (PFloat s) = (case parse_decimal_text s of Some (DFin r) \<Rightarrow> Some (trunc_rat r) | _ \<Rightarrow> None)"
| "int_of (PStr s) = parse_int_text s"
| "int_of (PDec (DFin r)) = Some (trunc_rat r)"
| "int_of _ = None"

section \<open>Truthiness, text of a value, dictionaries\<close>

fun truthy :: "pyval \<Rightarrow> bool" where
  "truthy PNone = False"
| "truthy (PBool b) = b"
| "truthy (PInt i) = (i \<noteq> 0)"
| "truthy (PFloat s) = (parse_decimal_text s \<noteq> Some (DFin 0))"
| "truthy (PStr s) = (s \<noteq> [])"
| "truthy (PDec d) = (d \<noteq> DFin 0)"
| "truthy (PDate _) = True"
| "truthy (PList xs) = (xs \<noteq> [])"
| "truthy (PDict xs) = (xs \<noteq> [])"

definition py_or :: "pyval \<Rightarrow> pyval \<Rightarrow> pyval" where
  "py_or a b = (if truthy a then a else b)"

text \<open>The tests \<open>v in (None, "")\<close> and \<open>v not in (None, "")\<close> of the source.\<close>

definition none_or_empty :: "pyval \<Rightarrow> bool" where
  "none_or_empty v \<longleftrightarrow> v = PNone \<or> v = PStr []"

definition show_date :: "date \<Rightarrow> string" where
  "show_date d = zfill (show_int (date_year d)) 4 @ ''-'' @ zfill (show_int (date_month d)) 2
     @ ''-'' @ zfill (show_int (date_day d)) 2"

text \<open>
  \<open>str(v)\<close> for the scalars the services turn into text. A \<open>Decimal\<close> or a container never reaches
  one of those places; their text is left empty.
\<close>

fun py_str :: "pyval \<Rightarrow> string" where
  "py_str PNone = ''None''"
| "py_str (PBool b) = (if b then ''True'' else ''False'')"
| "py_str (PInt i) = show_int i"
| "py_str (PFloat s) = s"
| "py_str (PStr s) = s"
| "py_str (PDate d) = show_date d"
| "py_str (PDec _) = []"
| "py_str (PList _) = []"
| "py_str (PDict _) = []"

text \<open>\<open>d.get(k)\<close>, \<open>k in d\<close>, \<open>d[k] = v\<close> and \<open>d.pop(k, None)\<close> on a dictionary in insertion order.\<close>

definition dget :: "payload \<Rightarrow> string \<Rightarrow> pyval" where
  "dget d k = (case map_of d k of None \<Rightarrow> PNone | Some v \<Rightarrow> v)"

definition has_key :: "payload \<Rightarrow> string \<Rightarrow> bool" where
  "has_key d k \<longleftrightarrow> map_of d k \<noteq> None"

fun dset :: "payload \<Rightarrow> string \<Rightarrow> pyval \<Rightarrow> payload" where
  "dset [] k v = [(k, v)]"
| "dset ((k', v') # d) k v = (if k' = k then (k, v) # d else (k', v') # dset d k v)"

definition dpop :: "payload \<Rightarrow> string \<Rightarrow> payload" where
  "dpop d k = filter (\<lambda>(k', _). k' \<noteq> k) d"

text \<open>A text column read from a payload: \<open>None\<close> stays null.\<close>

fun str_or_none :: "pyval \<Rightarrow> string option" where
  "str_or_none PNone = None"
| "str_or_none v = Some (py_str v)"

subsection \<open>Lemmas\<close>

lemma map_of_dset: "map_of (dset d k v) = (map_of d)(k \<mapsto> v)"
  by (induction d k v rule: dset.induct) auto

lemma dget_dset [simp]: "dget (dset d k v) k' = (if k' = k then v else dget d k')"
  by (simp add: dget_def map_of_dset)

lemma map_of_dpop: "map_of (dpop d k) k' = (if k' = k then None else map_of d k')"
  by (induction d) (auto simp: dpop_def)

lemma dget_dpop [simp]: "dget (dpop d k) k' = (if k' = k then PNone else dget d k')"
  by (simp add: dget_def map_of_dpop)

lemma fst_set_dset: "fst ` set (dset d k v) = insert k (fst ` set d)"
  by (induction d k v rule: dset.induct) auto

lemma distinct_dset: "distinct (map fst d) \<Longrightarrow> distinct (map fst (dset d k v))"
proof (induction d k v rule: dset.induct)
  case (1 k v)
  then show ?case by simp
next
  case (2 k' v' d k v)
  then show ?case using fst_set_dset [of d k v] by (auto simp: image_iff)
qed

lemma py_strip_trimmed:
  assumes "s \<noteq> []" and "\<not> is_space (hd s)" and "\<not> is_space (last s)"
  shows "py_strip s = s"
proof -
  from assms have "dropWhile is_space s = s"
    by (simp add: dropWhile_eq_self_iff)
  moreover from assms have "dropWhile is_space (rev s) = rev s"
    by (simp add: dropWhile_eq_self_iff hd_rev)
  ultimately show ?thesis by (simp add: py_strip_def py_lstrip_def)
qed

subsection \<open>The text of a number determines it\<close>

lemma of_char_digit: "d < 10 \<Longrightarrow> (of_char (char_of (48 + d)) :: nat) = 48 + d"
  by (simp add: of_char_of)

lemma digit_val_char [simp]: "d < 10 \<Longrightarrow> digit_val (char_of (48 + d)) = d"
  by (simp add: digit_val_def of_char_digit)

lemma digits_val_snoc [simp]: "digits_val (s @ [c]) = 10 * digits_val s + digit_val c"
  by (simp add: digits_val_def)

lemma digits_val_show_nat [simp]: "digits_val (show_nat n) = n"
proof (induction n rule: show_nat.induct)
  case (1 n)
  show ?case
  proof (cases "n < 10")
    case True
    then show ?thesis by (simp add: show_nat.simps [of n] digits_val_def)
  next
    case False
    with 1 show ?thesis by (simp add: show_nat.simps [of n])
  qed
qed

lemma is_digit_char: "d < 10 \<Longrightarrow> is_digit (char_of (48 + d :: nat))"
  by (simp add: is_digit_def of_char_digit Let_def)

lemma show_nat_digits: "show_nat n \<noteq> [] \<and> list_all is_digit (show_nat n)"
proof (induction n rule: show_nat.induct)
  case (1 n)
  show ?case
  proof (cases "n < 10")
    case True
    then show ?thesis by (simp add: show_nat.simps [of n] is_digit_char)
  next
    case False
    with 1 show ?thesis by (simp add: show_nat.simps [of n] is_digit_char)
  qed
qed

lemma digit_not_space: "is_digit c \<Longrightarrow> \<not> is_space c"
  by (auto simp: is_digit_def is_space_def Let_def)

lemma minus_not_digit: "\<not> is_digit (CHR ''-'')" and minus_not_space: "\<not> is_space (CHR ''-'')"
  and plus_not_digit: "\<not> is_digit (CHR ''+'')"
  by code_simp+

lemma py_strip_show_int: "py_strip (show_int i) = show_int i"
proof (rule py_strip_trimmed)
  obtain d where d: "d \<noteq> []" "\<forall>c \<in> set d. is_digit c" and s: "show_int i = (if i < 0 then CHR ''-'' # d else d)"
    using show_nat_digits [of "nat (- i)"] show_nat_digits [of "nat i"]
    unfolding show_int_def list_all_iff by (cases "i < 0") auto
  show "show_int i \<noteq> []" using d by (simp add: s)
  show "\<not> is_space (hd (show_int i))" using d minus_not_space digit_not_space by (auto simp: s)
  show "\<not> is_space (last (show_int i))" using d digit_not_space by (auto simp: s)
qed

lemma parse_show_int [simp]: "parse_int_text (show_int i) = Some i"
proof (cases "i < 0")
  case True
  then have "take_sign (show_int i) = (- 1, show_nat (nat (- i)))" by (simp add: show_int_def take_sign_def)
  with True show ?thesis
    using show_nat_digits [of "nat (- i)"] by (simp add: parse_int_text_def py_strip_show_int py_isdigit_def)
next
  case False
  obtain c r where c: "show_nat (nat i) = c # r" "is_digit c"
    using show_nat_digits [of "nat i"] by (cases "show_nat (nat i)") auto
  then have "c \<noteq> CHR ''-''" "c \<noteq> CHR ''+''" using minus_not_digit plus_not_digit by auto
  with c False have "take_sign (show_int i) = (1, show_nat (nat i))" by (simp add: show_int_def take_sign_def)
  with False show ?thesis
    using show_nat_digits [of "nat i"] by (simp add: parse_int_text_def py_strip_show_int py_isdigit_def)
qed

lemma show_int_inject [simp]: "show_int i = show_int j \<longleftrightarrow> i = j"
  by (metis option.inject parse_show_int)

lemma digits_val_zeros [simp]: "digits_val (replicate k CHR ''0'' @ s) = digits_val s"
proof -
  have "digit_val (CHR ''0'') = 0" by (simp add: digit_val_def)
  then have "foldl (\<lambda>a c. 10 * a + digit_val c) 0 (replicate k (CHR ''0'')) = 0"
    by (induction k) auto
  then show ?thesis by (simp add: digits_val_def)
qed

lemma digits_val_zfill: "digits_val (zfill s w) = digits_val s"
  by (simp add: zfill_def)

end
