(* ===== verification/Calendar.thy ===== *)
theory Calendar
  imports PyValues
begin

text \<open>
  The calendar arithmetic the services use: validity of a date, the day before a date
  (\<open>d - timedelta(days=1)\<close>), and the two text parsers, \<open>date.fromisoformat\<close> on a ten-character text
  and \<open>datetime.strptime(text, "%Y-%m-%d").date()\<close>.
\<close>

section \<open>The proleptic Gregorian calendar\<close>

definition is_leap :: "int \<Rightarrow> bool" where
  "is_leap y \<longleftrightarrow> y mod 4 = 0 \<and> (y mod 100 \<noteq> 0 \<or> y mod 400 = 0)"

definition days_in_month :: "int \<Rightarrow> int \<Rightarrow> int" where
  "days_in_month y m =
     (if m = 2 then (if is_leap y then 29 else 28)
      else if m = 4 \<or> m = 6 \<or> m = 9 \<or> m = 11 then 30 else 31)"

definition valid_date :: "date \<Rightarrow> bool" where
  "valid_date d \<longleftrightarrow> 1 \<le> date_year d \<and> date_year d \<le> 9999 \<and> 1 \<le> date_month d \<and> date_month d \<le> 12
     \<and> 1 \<le> date_day d \<and> date_day d \<le> days_in_month (date_year d) (date_month d)"

fun previous_day :: "date \<Rightarrow> date" where
  "previous_day (Date y m d) =
     (if 1 < d then Date y m (d - 1)
      else if 1 < m then Date y (m - 1) (days_in_month y (m - 1))
      else Date (y - 1) 12 31)"

lemma days_in_month_bounds: "28 \<le> days_in_month y m" "days_in_month y m \<le> 31"
  by (auto simp: days_in_month_def)

lemma previous_day_first:
  "1 \<le> m \<Longrightarrow> previous_day (Date y (m + 1) 1) = Date y m (days_in_month y m)"
  by simp

lemma valid_date_upto_month_end:
  "valid_date (Date y m d) \<Longrightarrow> Date y m d \<le> Date y m (days_in_month y m)"
  by (simp add: valid_date_def)

section \<open>Parsing\<close>

definition mk_date :: "nat \<Rightarrow> nat \<Rightarrow> nat \<Rightarrow> date option" where
  "mk_date y m d = (let r = Date (int y) (int m) (int d) in if valid_date r then Some r else None)"

text \<open>A text of the shape \<open>dddd-dd-dd\<close>, the only one that reaches \<open>date.fromisoformat\<close>.\<close>

definition iso_date :: "string \<Rightarrow> date option" where
  "iso_date s =
     (if length s = 10 \<and> s ! 4 = CHR ''-'' \<and> s ! 7 = CHR ''-''
         \<and> py_isdigit (take 4 s) \<and> py_isdigit (take 2 (drop 5 s)) \<and> py_isdigit (drop 8 s)
      then mk_date (digits_val (take 4 s)) (digits_val (take 2 (drop 5 s))) (digits_val (drop 8 s))
      else None)"

text \<open>
  \<open>strptime\<close> also takes a month or a day of one digit, and a day written with a leading space; it
  refuses text left over. Its pattern prefers the longest month and day that match.
\<close>

definition strptime_day :: "string \<Rightarrow> nat option" where
  "strptime_day s =
     (case s of
        [a] \<Rightarrow> if is_digit a \<and> a \<noteq> CHR ''0'' then Some (digit_val a) else None
      | [a, b] \<Rightarrow> if is_digit b \<and> is_digit a \<and> 1 \<le> digits_val s \<and> digits_val s \<le> 31 then Some (digits_val s)
                else if a = CHR '' '' \<and> is_digit b \<and> b \<noteq> CHR ''0'' then Some (digit_val b) else None
      | _ \<Rightarrow> None)"

definition strptime_date :: "string \<Rightarrow> date option" where
  "strptime_date s =
     (if 5 \<le> length s \<and> py_isdigit (take 4 s) \<and> s ! 4 = CHR ''-'' then
        (let r = drop 5 s; m = takeWhile is_digit r; r' = dropWhile is_digit r
         in case r' of
              c # t \<Rightarrow>
                if c = CHR ''-'' \<and> (length m = 1 \<or> length m = 2) \<and> 1 \<le> digits_val m \<and> digits_val m \<le> 12
                then (case strptime_day t of None \<Rightarrow> None
                      | Some d \<Rightarrow> mk_date (digits_val (take 4 s)) (digits_val m) d)
                else None
            | [] \<Rightarrow> None)
      else None)"

lemma mk_date_valid: "mk_date y m d = Some r \<Longrightarrow> valid_date r"
  by (auto simp: mk_date_def Let_def split: if_splits)

lemma iso_date_valid: "iso_date s = Some r \<Longrightarrow> valid_date r"
  by (auto simp: iso_date_def dest: mk_date_valid split: if_splits)

lemma strptime_date_valid: "strptime_date s = Some r \<Longrightarrow> valid_date r"
  by (auto simp: strptime_date_def Let_def dest: mk_date_valid
      split: if_splits list.splits option.splits)

end
