(* ===== verification/Decimals.thy ===== *)
theory Decimals
  imports PyValues
begin

text \<open>
  \<open>decimal.Decimal\<close> arithmetic under the default context (28 significant digits, half-even) and the
  \<open>Numeric(p, s)\<close> columns of \<open>finance/models.py\<close>. Sums and differences of stored amounts are exact
  in 28 digits (lemma \<open>sum_of_columns_exact\<close>), so the model adds rationals; products and quotients
  can need more digits, so they round: \<open>dmul\<close> and \<open>ddiv\<close>.
\<close>

section \<open>Rounding\<close>

text \<open>\<open>ROUND_HALF_UP\<close> of the decimal module and PostgreSQL's numeric rounding: ties away from 0.\<close>

definition round_half_up :: "rat \<Rightarrow> int" where
  "round_half_up x = (if 0 \<le> x then floor (x + 1 / 2) else - floor (- x + 1 / 2))"

definition round_half_even :: "rat \<Rightarrow> int" where
  "round_half_even x =
     (let f = floor x; r = x - of_int f
      in if r < 1 / 2 then f else if 1 / 2 < r then f + 1 else if even f then f else f + 1)"

text \<open>\<open>x.quantize(Decimal(1).scaleb(-p), rounding=ROUND_HALF_UP)\<close>.\<close>

definition quantize :: "nat \<Rightarrow> rat \<Rightarrow> rat" where
  "quantize p x = of_int (round_half_up (x * 10 ^ p)) / 10 ^ p"

text \<open>The number of decimal digits of a natural number, 0 for 0.\<close>

fun ndigits :: "nat \<Rightarrow> nat" where
  "ndigits n = (if n = 0 then 0 else Suc (ndigits (n div 10)))"

declare ndigits.simps [simp del]

text \<open>
  The adjusted exponent: \<open>10 ^ e \<le> |x| < 10 ^ (e + 1)\<close>. The digit counts of numerator and denominator
  give it up to one.
\<close>

definition adjusted :: "rat \<Rightarrow> int" where
  "adjusted x =
     (let (p, q) = quotient_of x; e = int (ndigits (nat \<bar>p\<bar>)) - int (ndigits (nat q))
      in if scale10 1 e \<le> \<bar>x\<bar> then e else e - 1)"

definition context_prec :: int where
  "context_prec = 28"

text \<open>Rounding a result to the context precision.\<close>

definition dec_round :: "rat \<Rightarrow> rat" where
  "dec_round x =
     (if x = 0 then 0
      else let k = context_prec - 1 - adjusted x
           in scale10 (of_int (round_half_even (scale10 x k))) (- k))"

definition dmul :: "rat \<Rightarrow> rat \<Rightarrow> rat" where
  "dmul a b = dec_round (a * b)"

definition ddiv :: "rat \<Rightarrow> rat \<Rightarrow> rat" where
  "ddiv a b = dec_round (a / b)"

definition dadd :: "rat \<Rightarrow> rat \<Rightarrow> rat" where
  "dadd a b = dec_round (a + b)"

definition dsub :: "rat \<Rightarrow> rat \<Rightarrow> rat" where
  "dsub a b = dec_round (a - b)"

text \<open>
  Whether a number has at most \<open>p\<close> decimal places, that is
  \<open>max(0, -x.normalize().as_tuple().exponent) \<le> p\<close>; \<open>normalize\<close> first rounds to the context.
\<close>

definition has_places :: "nat \<Rightarrow> rat \<Rightarrow> bool" where
  "has_places p x \<longleftrightarrow> of_int (floor (x * 10 ^ p)) = x * 10 ^ p"

text \<open>\<open>used > places\<close> of the validators.\<close>

definition too_precise :: "nat \<Rightarrow> rat \<Rightarrow> bool" where
  "too_precise p x \<longleftrightarrow> \<not> has_places p (dec_round x)"

section \<open>Columns\<close>

text \<open>\<open>Numeric(p, s)\<close>: a value is rounded to the scale, and must keep below \<open>10 ^ (p - s)\<close>.\<close>

definition fits_column :: "nat \<Rightarrow> nat \<Rightarrow> rat \<Rightarrow> bool" where
  "fits_column p s x \<longleftrightarrow> \<bar>x\<bar> < 10 ^ (p - s)"

definition in_column :: "nat \<Rightarrow> nat \<Rightarrow> rat \<Rightarrow> bool" where
  "in_column p s x \<longleftrightarrow> has_places s x \<and> fits_column p s x"

abbreviation col4 :: "rat \<Rightarrow> rat" where
  "col4 \<equiv> quantize 4"

abbreviation money :: "rat \<Rightarrow> bool" where
  "money \<equiv> in_column 19 4"

section \<open>Lemmas\<close>

lemma has_places_iff: "has_places p x \<longleftrightarrow> (\<exists>n::int. x = of_int n / 10 ^ p)"
proof
  assume "has_places p x"
  then have "of_int (floor (x * 10 ^ p)) = x * 10 ^ p"
    unfolding has_places_def .
  then have "x = of_int (floor (x * 10 ^ p)) / 10 ^ p"
    by (metis nonzero_mult_div_cancel_right power_not_zero zero_neq_numeral)
  then show "\<exists>n::int. x = of_int n / 10 ^ p" ..
next
  assume "\<exists>n::int. x = of_int n / 10 ^ p"
  then obtain n :: int where "x * 10 ^ p = of_int n" by auto
  then show "has_places p x" by (simp add: has_places_def)
qed

lemma has_places_0 [simp]: "has_places p 0"
  by (simp add: has_places_def)

lemma has_places_uminus [simp]: "has_places p (- x) = has_places p x"
proof -
  have "has_places p y \<Longrightarrow> has_places p (- y)" for y
    by (metis has_places_iff minus_divide_left of_int_minus)
  from this [of x] this [of "- x"] show ?thesis by auto
qed

lemma has_places_add: "has_places p x \<Longrightarrow> has_places p y \<Longrightarrow> has_places p (x + y)"
  by (metis add_divide_distrib has_places_iff of_int_add)

lemma has_places_diff: "has_places p x \<Longrightarrow> has_places p y \<Longrightarrow> has_places p (x - y)"
  using has_places_add [of p x "- y"] by simp

lemma floor_half [simp]: "floor (1 / 2 :: rat) = 0"
  by (rule floor_unique) simp_all

lemma round_half_up_of_int [simp]: "round_half_up (of_int n) = n"
proof (cases "0 \<le> n")
  case True
  then show ?thesis by (simp add: round_half_up_def floor_unique)
next
  case False
  have "floor (- rat_of_int n + 1 / 2) = - n"
    by (rule floor_unique) auto
  with False show ?thesis by (simp add: round_half_up_def)
qed

lemma round_half_up_mono: "x \<le> y \<Longrightarrow> round_half_up x \<le> round_half_up y"
proof -
  assume xy: "x \<le> y"
  consider "0 \<le> x" | "y < 0" | "x < 0" "0 \<le> y" by linarith
  then show ?thesis
  proof cases
    case 1
    with xy show ?thesis by (simp add: round_half_up_def floor_mono)
  next
    case 2
    with xy show ?thesis by (simp add: round_half_up_def floor_mono)
  next
    case 3
    then have "floor (1 / 2 :: rat) \<le> floor (- x + 1 / 2)" and "floor (1 / 2 :: rat) \<le> floor (y + 1 / 2)"
      by (auto intro: floor_mono)
    then have "0 \<le> floor (- x + 1 / 2)" and "0 \<le> floor (y + 1 / 2)" by simp_all
    then have "- floor (- x + 1 / 2) \<le> floor (y + 1 / 2)" by linarith
    with 3 show ?thesis by (simp add: round_half_up_def)
  qed
qed

lemma round_half_up_uminus: "round_half_up (- x) = - round_half_up x"
  by (cases "x = 0") (auto simp: round_half_up_def)

lemma round_half_up_close: "\<bar>of_int (round_half_up x) - x\<bar> \<le> 1 / 2"
proof -
  have near: "\<bar>of_int (floor (y + 1 / 2)) - y\<bar> \<le> 1 / 2" for y :: rat
    using floor_correct [of "y + 1 / 2"] unfolding abs_le_iff by (auto simp: field_simps)
  show ?thesis
    using near [of x] near [of "- x"] by (auto simp: round_half_up_def abs_minus_commute add.commute)
qed

lemma quantize_has_places [simp]: "has_places p (quantize p x)"
  by (auto simp: has_places_iff quantize_def)

lemma quantize_exact: "has_places p x \<Longrightarrow> quantize p x = x"
  by (auto simp: has_places_iff quantize_def)

lemma quantize_idem [simp]: "quantize p (quantize p x) = quantize p x"
  by (simp add: quantize_exact)

lemma quantize_0 [simp]: "quantize p 0 = 0"
  by (simp add: quantize_exact)

lemma quantize_mono: "x \<le> y \<Longrightarrow> quantize p x \<le> quantize p y"
  by (simp add: quantize_def divide_right_mono round_half_up_mono)

lemma quantize_nonneg: "0 \<le> x \<Longrightarrow> 0 \<le> quantize p x"
  using quantize_mono [of 0 x p] by simp

lemma quantize_uminus: "quantize p (- x) = - quantize p x"
  by (simp add: quantize_def round_half_up_uminus)

lemma quantize_close: "\<bar>quantize p x - x\<bar> \<le> 1 / (2 * 10 ^ p)"
proof -
  have "quantize p x - x = (of_int (round_half_up (x * 10 ^ p)) - x * 10 ^ p) / 10 ^ p"
    by (simp add: quantize_def field_simps)
  then have "\<bar>quantize p x - x\<bar> = \<bar>of_int (round_half_up (x * 10 ^ p)) - x * 10 ^ p\<bar> / 10 ^ p"
    by (simp add: abs_divide)
  also have "\<dots> \<le> (1 / 2) / 10 ^ p"
    by (intro divide_right_mono round_half_up_close) simp
  finally show ?thesis by simp
qed

lemma has_places_mono: "has_places p x \<Longrightarrow> p \<le> q \<Longrightarrow> has_places q x"
proof -
  assume "has_places p x" and "p \<le> q"
  then obtain n where x: "x = of_int n / 10 ^ p" by (auto simp: has_places_iff)
  have "x = of_int (n * 10 ^ (q - p)) / 10 ^ q"
    using \<open>p \<le> q\<close> by (simp add: x field_simps power_add [symmetric])
  then show ?thesis unfolding has_places_iff ..
qed

subsection \<open>Sums of column values are exact in the context\<close>

lemma scale10_powi: "scale10 r e = r * 10 powi e"
proof (cases "0 \<le> e")
  case True
  then show ?thesis by (simp add: scale10_def power_int_def)
next
  case False
  then have "(10 :: rat) powi e = inverse (10 ^ nat (- e))"
    by (simp only: power_int_def power_inverse if_False)
  with False show ?thesis by (simp only: scale10_def divide_inverse if_False)
qed

lemma ndigits_bounds: "0 < n \<Longrightarrow> 10 ^ (ndigits n - 1) \<le> n \<and> n < 10 ^ ndigits n"
proof (induction n rule: ndigits.induct)
  case (1 n)
  show ?case
  proof (cases "n < 10")
    case True
    with 1 show ?thesis by (simp add: ndigits.simps [of n] ndigits.simps [of 0])
  next
    case False
    then have "0 < n div 10" by auto
    with 1 have ih: "10 ^ (ndigits (n div 10) - 1) \<le> n div 10" "n div 10 < 10 ^ ndigits (n div 10)"
      by auto
    have pos: "0 < ndigits (n div 10)"
      using \<open>0 < n div 10\<close> by (simp add: ndigits.simps [of "n div 10"])
    have n: "ndigits n = Suc (ndigits (n div 10))"
      using False by (simp add: ndigits.simps [of n])
    have "10 ^ ndigits (n div 10) = 10 * (10 :: nat) ^ (ndigits (n div 10) - 1)"
      using pos by (cases "ndigits (n div 10)") auto
    also have "\<dots> \<le> n" using ih(1) by linarith
    finally have "10 ^ ndigits (n div 10) \<le> n" .
    moreover have "n < 10 * 10 ^ ndigits (n div 10)" using ih(2) by linarith
    ultimately show ?thesis by (simp add: n)
  qed
qed

lemma adjusted_lower:
  assumes "x \<noteq> 0"
  shows "10 powi adjusted x \<le> \<bar>x\<bar>"
proof -
  obtain p q where pq: "quotient_of x = (p, q)" by (cases "quotient_of x")
  have q: "0 < q" using quotient_of_denom_pos [OF pq] .
  have x: "x = of_int p / of_int q" using quotient_of_div [OF pq] .
  with assms have p: "p \<noteq> 0" by auto
  define a b where "a = ndigits (nat \<bar>p\<bar>)" and "b = ndigits (nat q)"
  have "10 ^ (a - 1) \<le> nat \<bar>p\<bar>" and "nat q < 10 ^ b"
    using ndigits_bounds [of "nat \<bar>p\<bar>"] ndigits_bounds [of "nat q"] p q by (auto simp: a_def b_def)
  then have ip: "10 ^ (a - 1) \<le> \<bar>p\<bar>" and iq: "q < 10 ^ b"
    using p q by (simp_all add: le_nat_iff nat_less_iff)
  have a0: "0 < a" using p by (simp add: a_def ndigits.simps [of "nat \<bar>p\<bar>"])
  have "rat_of_int (10 ^ (a - 1)) \<le> rat_of_int \<bar>p\<bar>" and "rat_of_int q \<le> rat_of_int (10 ^ b)"
    using ip iq by (simp_all only: of_int_le_iff)
  then have rp: "(10 :: rat) ^ (a - 1) \<le> \<bar>of_int p\<bar>" and rq: "of_int q \<le> (10 :: rat) ^ b"
    by simp_all
  have "(10 :: rat) powi (int a - int b - 1) = 10 ^ (a - 1) / 10 ^ b"
  proof -
    have "int a - int b - 1 = int (a - 1) - int b" using a0 by auto
    then have "(10 :: rat) powi (int a - int b - 1) = 10 powi (int (a - 1) - int b)"
      by (rule arg_cong)
    also have "\<dots> = 10 powi int (a - 1) / 10 powi int b"
      by (rule power_int_diff) simp
    finally have "(10 :: rat) powi (int a - int b - 1) = 10 powi int (a - 1) / 10 powi int b" .
    then show ?thesis by (simp only: power_int_of_nat)
  qed
  also have "\<dots> \<le> \<bar>of_int p\<bar> / of_int q"
    using rp rq q by (intro frac_le) auto
  also have "\<dots> = \<bar>x\<bar>" using q by (simp add: x abs_divide)
  finally have low: "(10 :: rat) powi (int a - int b - 1) \<le> \<bar>x\<bar>" .
  then show ?thesis
    by (auto simp: adjusted_def pq Let_def scale10_powi a_def [symmetric] b_def [symmetric] diff_diff_eq)
qed

lemma round_half_even_of_int [simp]: "round_half_even (of_int n) = n"
  by (simp add: round_half_even_def)

lemma dec_round_exact:
  assumes "has_places p x" and "\<bar>x\<bar> < 10 powi (28 - int p)"
  shows "dec_round x = x"
proof (cases "x = 0")
  case True
  then show ?thesis by (simp add: dec_round_def)
next
  case False
  define k where "k = context_prec - 1 - adjusted x"
  have "(10 :: rat) powi adjusted x < 10 powi (28 - int p)"
    using adjusted_lower [OF False] assms(2) by linarith
  then have "adjusted x < 28 - int p"
    by (meson linorder_not_less one_le_numeral power_int_increasing)
  then have k: "int p \<le> k" by (simp add: k_def context_prec_def)
  then have "has_places (nat k) x"
    using has_places_mono [OF assms(1), of "nat k"] by linarith
  then obtain n where "x = of_int n / 10 ^ nat k" by (auto simp: has_places_iff)
  then have n: "scale10 x k = of_int n" using k by (simp add: scale10_def)
  have "dec_round x = scale10 (of_int n) (- k)"
    by (simp add: dec_round_def False Let_def k_def [symmetric] n)
  also have "\<dots> = x"
    by (simp add: n [symmetric] scale10_powi power_int_add [symmetric] mult.assoc)
  finally show ?thesis .
qed

text \<open>
  Any sum of fewer than a thousand million amounts of a \<open>Numeric(19, 4)\<close> column needs at most 28
  digits, so the running \<open>Decimal\<close> sum of the code, which rounds after every addition, is the
  rational sum.
\<close>

lemma sum_list_abs_bound:
  fixes xs :: "rat list"
  assumes "\<And>x. x \<in> set xs \<Longrightarrow> \<bar>x\<bar> < B" and "0 \<le> B"
  shows "\<bar>sum_list xs\<bar> \<le> of_nat (length xs) * B"
  using assms
proof (induction xs)
  case Nil
  then show ?case by simp
next
  case (Cons x xs)
  then have "\<bar>sum_list xs\<bar> \<le> of_nat (length xs) * B" and "\<bar>x\<bar> < B" by auto
  moreover have "\<bar>x + sum_list xs\<bar> \<le> \<bar>x\<bar> + \<bar>sum_list xs\<bar>" by (rule abs_triangle_ineq)
  ultimately show ?case by (simp add: algebra_simps)
qed

lemma has_places_sum_list: "(\<And>x. x \<in> set xs \<Longrightarrow> has_places p x) \<Longrightarrow> has_places p (sum_list xs)"
  by (induction xs) (auto intro: has_places_add)

lemma dec_sum_exact:
  assumes "\<And>x. x \<in> set xs \<Longrightarrow> money x" and "length xs < 10 ^ 9"
  shows "dec_round (sum_list xs) = sum_list xs"
proof (rule dec_round_exact [of 4])
  show "has_places 4 (sum_list xs)"
    using assms(1) by (auto intro!: has_places_sum_list simp: in_column_def)
  have "\<bar>sum_list xs\<bar> \<le> of_nat (length xs) * 10 ^ 15"
    using assms(1) by (intro sum_list_abs_bound) (auto simp: in_column_def fits_column_def)
  also have "\<dots> < 10 ^ 9 * 10 ^ 15"
  proof (rule mult_strict_right_mono)
    show "rat_of_nat (length xs) < 10 ^ 9"
      using assms(2) by (metis of_nat_less_iff of_nat_numeral of_nat_power)
  qed simp
  finally show "\<bar>sum_list xs\<bar> < 10 powi (28 - int 4)" by simp
qed

text \<open>\<open>sum((x for x in xs), Decimal("0"))\<close> as the code runs it.\<close>

fun dec_sum_from :: "rat \<Rightarrow> rat list \<Rightarrow> rat" where
  "dec_sum_from a [] = a"
| "dec_sum_from a (x # xs) = dec_sum_from (dec_round (a + x)) xs"

lemma sum_of_columns_exact:
  assumes "\<And>x. x \<in> set xs \<Longrightarrow> money x" and "length xs < 10 ^ 9"
  shows "dec_sum_from 0 xs = sum_list xs"
proof -
  have "dec_sum_from (sum_list ys) zs = sum_list (ys @ zs)" if "ys @ zs = xs" for ys zs
    using that
  proof (induction zs arbitrary: ys)
    case Nil
    then show ?case by simp
  next
    case (Cons z zs)
    have "dec_round (sum_list (ys @ [z])) = sum_list (ys @ [z])"
      using assms Cons.prems by (intro dec_sum_exact) auto
    with Cons.IH [of "ys @ [z]"] Cons.prems show ?case by simp
  qed
  from this [of "[]" xs] show ?thesis by simp
qed

section \<open>Evaluation\<close>

text \<open>
  Code equations on numerator and denominator, so that a rounded amount evaluates to one fraction
  in lowest terms instead of the arithmetic that gives it.
\<close>

definition rat_of_pair :: "int \<times> int \<Rightarrow> rat" where
  "rat_of_pair x = Fract (fst x) (snd x)"

lemma quotient_of_rat_of_pair [code abstract]: "quotient_of (rat_of_pair x) = Rat.normalize x"
  by (simp add: rat_of_pair_def quotient_of_Fract)

lemma quotient_rat:
  assumes "quotient_of x = (n, d)"
  shows "x = of_int n / of_int d" and "0 < d"
  using assms quotient_of_div quotient_of_denom_pos by blast+

lemma rat_of_pair_div: "d \<noteq> 0 \<Longrightarrow> rat_of_pair (n, d) = of_int n / of_int d"
  by (simp add: rat_of_pair_def Fract_of_int_quotient)

lemma floor_ratio: "0 < d \<Longrightarrow> floor ((of_int a / of_int d :: rat) + 1 / 2) = (2 * a + d) div (2 * d)"
proof -
  assume "0 < d"
  then have "(of_int a / of_int d :: rat) + 1 / 2 = of_int (2 * a + d) / of_int (2 * d)"
    by (simp add: field_simps)
  then show ?thesis by (simp only: floor_divide_of_int_eq)
qed

lemma quantize_code [code]:
  "quantize p x = (case quotient_of x of (n, d) \<Rightarrow>
     rat_of_pair (if 0 \<le> n then (2 * (n * 10 ^ p) + d) div (2 * d) else - ((2 * (- n * 10 ^ p) + d) div (2 * d)), 10 ^ p))"
proof -
  obtain n d where q: "quotient_of x = (n, d)" by fastforce
  note x = quotient_rat [OF q]
  have s: "x * 10 ^ p = of_int (n * 10 ^ p) / of_int d"
      "- (of_int (n * 10 ^ p) / of_int d) = (of_int (- n * 10 ^ p) / of_int d :: rat)"
    by (simp_all add: x(1))
  have "0 \<le> x * 10 ^ p \<longleftrightarrow> 0 \<le> n"
  proof -
    have "(10 :: rat) ^ p > 0" "(of_int d :: rat) > 0" using x(2) by simp_all
    then show ?thesis by (simp add: x(1) zero_le_divide_iff zero_le_mult_iff less_le_not_le)
  qed
  then have sg: "(0 \<le> (of_int (n * 10 ^ p) / of_int d :: rat)) \<longleftrightarrow> 0 \<le> n" by (simp only: s)
  have "round_half_up (x * 10 ^ p) = (if 0 \<le> n then (2 * (n * 10 ^ p) + d) div (2 * d) else - ((2 * (- n * 10 ^ p) + d) div (2 * d)))"
    unfolding round_half_up_def s floor_ratio [OF x(2)] sg by (rule refl)
  then show ?thesis unfolding quantize_def q by (simp add: rat_of_pair_div)
qed

definition dec_round_digits :: "rat \<Rightarrow> rat" where
  "dec_round_digits = dec_round"

lemma dec_round_digits_code [code]:
  "dec_round_digits x = (if x = 0 then 0
      else let k = context_prec - 1 - adjusted x
           in scale10 (of_int (round_half_even (scale10 x k))) (- k))"
  by (simp add: dec_round_digits_def dec_round_def)

lemma dec_round_code [code]:
  "dec_round x = (case quotient_of x of (n, d) \<Rightarrow>
     if 10 ^ 8 mod d = 0 \<and> \<bar>n\<bar> < 10 ^ 20 * d then rat_of_pair (n, d) else dec_round_digits x)"
proof -
  obtain n d where q: "quotient_of x = (n, d)" by fastforce
  note x = quotient_rat [OF q]
  have "dec_round x = x" if "10 ^ 8 mod d = 0" "\<bar>n\<bar> < 10 ^ 20 * d"
  proof (rule dec_round_exact [of 8])
    from that(1) have "d dvd 10 ^ 8" by presburger
    then obtain k where k: "10 ^ 8 = d * k" by (rule dvdE)
    have "x = of_int (n * k) / 10 ^ 8"
    proof -
      have "(10 ^ 8 :: rat) = of_int d * of_int k" using k by (metis of_int_mult of_int_numeral of_int_power)
      moreover from this have "of_int k \<noteq> (0 :: rat)" by auto
      ultimately show ?thesis using x by (simp only:) (simp add: field_simps)
    qed
    then show "has_places 8 x" unfolding has_places_iff by blast
    have "\<bar>x\<bar> = of_int \<bar>n\<bar> / of_int d" using x by simp
    also have "\<dots> < 10 ^ 20"
    proof -
      have "(of_int \<bar>n\<bar> :: rat) < of_int (10 ^ 20 * d)" using that(2) by (simp only: of_int_less_iff)
      then show ?thesis using x(2) by (simp add: divide_less_eq)
    qed
    finally show "\<bar>x\<bar> < 10 powi (28 - int 8)" by (simp add: power_int_def)
  qed
  then show ?thesis unfolding q using x(2) by (simp add: rat_of_pair_div dec_round_digits_def x(1) [symmetric])
qed

lemma has_places_code [code]: "has_places p x \<longleftrightarrow> 10 ^ p mod snd (quotient_of x) = 0"
proof -
  obtain n d where q: "quotient_of x = (n, d)" by fastforce
  note x = quotient_rat [OF q]
  have co: "coprime n d" using q by (rule quotient_of_coprime)
  have "has_places p x \<longleftrightarrow> (\<exists>m::int. n * 10 ^ p = m * d)"
  proof -
    have "(x = of_int m / 10 ^ p) \<longleftrightarrow> n * 10 ^ p = m * d" for m
    proof -
      have "(x = of_int m / 10 ^ p) \<longleftrightarrow> (of_int (n * 10 ^ p) :: rat) = of_int (m * d)"
        using x(2) by (simp add: x(1) field_simps)
      then show ?thesis by (simp only: of_int_eq_iff)
    qed
    then show ?thesis by (simp add: has_places_iff)
  qed
  also have "\<dots> \<longleftrightarrow> d dvd n * 10 ^ p" by (auto simp: dvd_def mult.commute)
  also have "\<dots> \<longleftrightarrow> d dvd 10 ^ p"
    using co by (metis coprime_commute coprime_dvd_mult_right_iff dvd_mult)
  finally show ?thesis by (simp add: q dvd_eq_mod_eq_0)
qed

end
