(* ===== verification/Validation.thy ===== *)
theory Validation
  imports Calendar Decimals
begin

text \<open>
  \<open>backend/app/core/validation.py\<close>: the declarative payload validator. A schema is data (a list of
  field rules); \<open>validate_schema\<close> returns the normalised copy of a payload or the ordered list of
  (field, code, message) failures. The kind \<open>datetime\<close> is left out: no schema of the modelled
  components declares one.
\<close>

section \<open>Field rules\<close>

datatype field_kind = KString | KEmail | KPhone | KUrl | KInteger | KDecimal | KBoolean | KDate
  | KReference | KJson

record field_spec =
  fs_key :: string
  fs_kind :: field_kind
  fs_required :: bool
  fs_min_length :: "nat option"
  fs_max_length :: "nat option"
  fs_minimum :: "rat option"
  fs_maximum :: "rat option"
  fs_decimal_places :: "nat option"
  fs_pattern :: "(string \<Rightarrow> bool) option"
  fs_choices :: "string list option"
  fs_strip :: bool
  fs_aliases :: "string list"

text \<open>The defaults of the dataclass: \<open>FieldSpec(key)\<close>.\<close>

definition field_spec_default :: "string \<Rightarrow> field_spec" where
  "field_spec_default k = \<lparr>fs_key = k, fs_kind = KString, fs_required = False, fs_min_length = None,
     fs_max_length = None, fs_minimum = None, fs_maximum = None, fs_decimal_places = None,
     fs_pattern = None, fs_choices = None, fs_strip = True, fs_aliases = []\<rparr>"

type_synonym error_item = "string \<times> string \<times> string"

record record_schema =
  sch_fields :: "field_spec list"
  sch_cross_field :: "(payload \<Rightarrow> error_item option) list"
  sch_readonly :: "string list"
  sch_reject_unknown :: bool

text \<open>\<open>_Invalid(code, message)\<close> is an \<open>Inl\<close> of the pair.\<close>

type_synonym 'a checked = "(string \<times> string) + 'a"

abbreviation invalid :: "string \<Rightarrow> string \<Rightarrow> 'a checked" where
  "invalid code msg \<equiv> Inl (code, msg)"

section \<open>Normalising one value\<close>

fun is_blank :: "pyval \<Rightarrow> bool" where
  "is_blank PNone = True"
| "is_blank (PStr s) = (py_strip s = [])"
| "is_blank (PList xs) = (xs = [])"
| "is_blank (PDict xs) = (xs = [])"
| "is_blank _ = False"

definition ws_or_at :: "char \<Rightarrow> bool" where
  "ws_or_at c \<longleftrightarrow> is_space c \<or> c = CHR ''@''"

text \<open>\<open>^[^\s@]+@[^\s@]+\.[^\s@]{2,}$\<close>\<close>

definition email_ok :: "string \<Rightarrow> bool" where
  "email_ok t =
     (let user = takeWhile (\<lambda>c. \<not> ws_or_at c) t; r = dropWhile (\<lambda>c. \<not> ws_or_at c) t
      in user \<noteq> [] \<and> (case r of [] \<Rightarrow> False
           | c # host \<Rightarrow> c = CHR ''@'' \<and> list_all (\<lambda>c. \<not> ws_or_at c) host
               \<and> list_ex (\<lambda>i. host ! i = CHR ''.'' \<and> 1 \<le> i \<and> i + 3 \<le> length host) [0..<length host]))"

text \<open>\<open>^\+?[\d(][\d\s().-]{4,20}$\<close>, then 6 to 15 digits.\<close>

definition phone_ok :: "string \<Rightarrow> bool" where
  "phone_ok t =
     (let r = (case t of c # s \<Rightarrow> if c = CHR ''+'' then s else t | [] \<Rightarrow> []);
          ok = (\<lambda>c. is_digit c \<or> is_space c \<or> c \<in> set ''().-'')
      in (case r of [] \<Rightarrow> False
          | c # s \<Rightarrow> (is_digit c \<or> c = CHR ''('') \<and> list_all ok s \<and> 4 \<le> length s \<and> length s \<le> 20)
         \<and> 6 \<le> length (filter is_digit t) \<and> length (filter is_digit t) \<le> 15)"

text \<open>\<open>^https?://[^\s.]+\.[^\s]{2,}$\<close>, ignoring case.\<close>

definition url_ok :: "string \<Rightarrow> bool" where
  "url_ok t =
     (let l = py_lower t;
          r = (if starts_with l ''https://'' then drop 8 t else drop 7 t);
          host = takeWhile (\<lambda>c. \<not> is_space c \<and> c \<noteq> CHR ''.'') r;
          rest = dropWhile (\<lambda>c. \<not> is_space c \<and> c \<noteq> CHR ''.'') r
      in (starts_with l ''https://'' \<or> starts_with l ''http://'') \<and> host \<noteq> []
         \<and> (case rest of [] \<Rightarrow> False
             | c # s \<Rightarrow> c = CHR ''.'' \<and> 2 \<le> length s \<and> list_all (\<lambda>c. \<not> is_space c) s))"

definition matches_choice :: "string \<Rightarrow> string list \<Rightarrow> bool" where
  "matches_choice text choices = (py_lower text \<in> set (map py_lower choices))"

definition opt_le :: "'a option \<Rightarrow> 'a :: ord \<Rightarrow> bool" where
  "opt_le b x = (case b of None \<Rightarrow> True | Some m \<Rightarrow> m \<le> x)"

definition opt_ge :: "'a option \<Rightarrow> 'a :: ord \<Rightarrow> bool" where
  "opt_ge b x = (case b of None \<Rightarrow> True | Some m \<Rightarrow> x \<le> m)"

text \<open>The checks of \<open>_string\<close> on the trimmed text, in their order.\<close>

definition check_text :: "field_spec \<Rightarrow> string \<Rightarrow> pyval checked" where
  "check_text spec text =
     (if fs_required spec \<and> text = [] then invalid ''REQUIRED'' ''This field is required.''
      else if \<not> opt_le (fs_min_length spec) (length text)
      then invalid ''TOO_SHORT'' ''Use at least that many characters.''
      else if \<not> opt_ge (fs_max_length spec) (length text)
      then invalid ''TOO_LONG'' ''Use at most that many characters.''
      else if fs_kind spec = KEmail \<and> \<not> email_ok text
      then invalid ''INVALID_FORMAT'' ''Enter a valid email address.''
      else if fs_kind spec = KPhone \<and> \<not> phone_ok text
      then invalid ''INVALID_FORMAT'' ''Enter a valid phone number.''
      else if fs_kind spec = KUrl \<and> \<not> url_ok text
      then invalid ''INVALID_FORMAT'' ''Enter a valid web address.''
      else if \<not> pred_option (matches_choice text) (fs_choices spec)
      then invalid ''INVALID_CHOICE'' ''Choose one of the available options.''
      else if \<not> pred_option (\<lambda>q. q text) (fs_pattern spec)
      then invalid ''INVALID_FORMAT'' ''Enter a value in the expected format.''
      else Inr (PStr text))"

definition norm_string :: "field_spec \<Rightarrow> pyval \<Rightarrow> pyval checked" where
  "norm_string spec v =
     (case v of
        PStr s \<Rightarrow> check_text spec (if fs_strip spec then py_strip s else s)
      | _ \<Rightarrow> invalid ''INVALID_TYPE'' ''Enter text.'')"

definition to_number :: "pyval \<Rightarrow> rat checked" where
  "to_number v = (case decimal_of v of Some (DFin r) \<Rightarrow> Inr r | _ \<Rightarrow> invalid ''INVALID_TYPE'' ''Enter a number.'')"

definition enforce_range :: "field_spec \<Rightarrow> rat \<Rightarrow> unit checked" where
  "enforce_range spec n =
     (if \<not> opt_le (fs_minimum spec) n
      then invalid ''OUT_OF_RANGE'' ''Enter a value greater than or equal to the minimum.''
      else if \<not> opt_ge (fs_maximum spec) n
      then invalid ''OUT_OF_RANGE'' ''Enter a value less than or equal to the maximum.''
      else Inr ())"

definition norm_integer :: "field_spec \<Rightarrow> pyval \<Rightarrow> pyval checked" where
  "norm_integer spec v =
     ebind (to_number v) (\<lambda>n.
       if of_int (floor n) \<noteq> n then invalid ''INVALID_TYPE'' ''Enter a whole number.''
       else ebind (enforce_range spec n) (\<lambda>_. Inr (PInt (floor n))))"

definition norm_decimal :: "field_spec \<Rightarrow> pyval \<Rightarrow> pyval checked" where
  "norm_decimal spec v =
     ebind (to_number v) (\<lambda>n.
       ebind (enforce_range spec n) (\<lambda>_.
         if \<not> pred_option (\<lambda>q. \<not> too_precise q n) (fs_decimal_places spec)
         then invalid ''INVALID_PRECISION'' ''Use at most that many decimal places.''
         else Inr (PDec (DFin n))))"

definition TRUE_TEXT :: "string list" where
  "TRUE_TEXT = [''true'', ''yes'', ''y'', ''1'', ''on'', ''active'', ''enabled'']"

definition FALSE_TEXT :: "string list" where
  "FALSE_TEXT = [''false'', ''no'', ''n'', ''0'', ''off'', ''inactive'', ''disabled'']"

definition norm_boolean :: "pyval \<Rightarrow> pyval checked" where
  "norm_boolean v =
     (let no = invalid ''INVALID_TYPE'' ''Choose Yes or No.''
      in case v of
           PBool b \<Rightarrow> Inr (PBool b)
         | PInt i \<Rightarrow> if i = 0 then Inr (PBool False) else if i = 1 then Inr (PBool True) else no
         | PStr s \<Rightarrow>
             (let text = py_lower (py_strip s)
              in if text \<in> set TRUE_TEXT then Inr (PBool True)
                 else if text \<in> set FALSE_TEXT then Inr (PBool False) else no)
         | _ \<Rightarrow> no)"

definition norm_date :: "pyval \<Rightarrow> pyval checked" where
  "norm_date v =
     (case v of
        PDate d \<Rightarrow> Inr (PDate d)
      | _ \<Rightarrow> (case iso_date (take 10 (py_strip (py_str v))) of
               Some d \<Rightarrow> Inr (PDate d)
             | None \<Rightarrow> invalid ''INVALID_FORMAT'' ''Enter a valid date.''))"

definition norm_reference :: "field_spec \<Rightarrow> pyval \<Rightarrow> pyval checked" where
  "norm_reference spec v =
     (let no = invalid ''INVALID_TYPE'' ''Choose a valid record.''
      in case v of
           PInt i \<Rightarrow> if i \<le> 0 then no else Inr (PInt i)
         | PFloat s \<Rightarrow>
             (case parse_decimal_text s of
                Some (DFin r) \<Rightarrow> if of_int (floor r) \<noteq> r \<or> r \<le> 0 then no else Inr (PInt (floor r))
              | _ \<Rightarrow> no)
         | PStr s \<Rightarrow>
             (let text = py_strip s
              in if \<not> opt_ge (fs_max_length spec) (length text)
                 then invalid ''TOO_LONG'' ''Use at most that many characters.''
                 else Inr (PStr text))
         | _ \<Rightarrow> no)"

definition norm_json :: "pyval \<Rightarrow> pyval checked" where
  "norm_json v = (case v of PDec _ \<Rightarrow> invalid ''INVALID_TYPE'' ''Enter a valid value.''
     | PDate _ \<Rightarrow> invalid ''INVALID_TYPE'' ''Enter a valid value.'' | _ \<Rightarrow> Inr v)"

text \<open>\<open>_normalize(spec, value)\<close>.\<close>

definition normalize_value :: "field_spec \<Rightarrow> pyval \<Rightarrow> pyval checked" where
  "normalize_value spec v =
     (if is_blank v then
        (if fs_required spec then invalid ''REQUIRED'' ''This field is required.''
         else Inr (if fs_kind spec = KJson then v else PNone))
      else case fs_kind spec of
        KString \<Rightarrow> norm_string spec v
      | KEmail \<Rightarrow> norm_string spec v
      | KPhone \<Rightarrow> norm_string spec v
      | KUrl \<Rightarrow> norm_string spec v
      | KInteger \<Rightarrow> norm_integer spec v
      | KDecimal \<Rightarrow> norm_decimal spec v
      | KBoolean \<Rightarrow> norm_boolean v
      | KDate \<Rightarrow> norm_date v
      | KReference \<Rightarrow> norm_reference spec v
      | KJson \<Rightarrow> norm_json v)"

section \<open>Validating a payload\<close>

text \<open>The key a rule reads: its own when present, else the first alias that is.\<close>

definition source_key :: "field_spec \<Rightarrow> payload \<Rightarrow> string option" where
  "source_key spec p =
     (if has_key p (fs_key spec) then Some (fs_key spec)
      else find (has_key p) (fs_aliases spec))"

text \<open>One turn of the loop over the fields: the errors so far and the normalised copy.\<close>

definition validate_field ::
    "payload \<Rightarrow> bool \<Rightarrow> error_item list \<times> payload \<Rightarrow> field_spec \<Rightarrow> error_item list \<times> payload" where
  "validate_field p partial st spec =
     (let (errs, out) = st
      in case source_key spec p of
           None \<Rightarrow>
             (if fs_required spec \<and> \<not> partial
              then (errs @ [(fs_key spec, ''REQUIRED'', ''This field is required.'')], out)
              else (errs, out))
         | Some k \<Rightarrow>
             (case normalize_value spec (dget p k) of
                Inl (code, msg) \<Rightarrow> (errs @ [(fs_key spec, code, msg)], out)
              | Inr v \<Rightarrow>
                  (let out' = dset out (fs_key spec) v
                   in (errs, if k \<noteq> fs_key spec then dpop out' k else out'))))"

definition allowed_keys :: "record_schema \<Rightarrow> string list" where
  "allowed_keys s = map fs_key (sch_fields s) @ sch_readonly s @ concat (map fs_aliases (sch_fields s))"

definition unknown_errors :: "record_schema \<Rightarrow> payload \<Rightarrow> error_item list" where
  "unknown_errors s p =
     (if sch_reject_unknown s
      then map (\<lambda>(k, _). (k, ''UNKNOWN_FIELD'', ''Unknown field.'')) (filter (\<lambda>(k, _). k \<notin> set (allowed_keys s)) p)
      else [])"

definition dmerge :: "payload \<Rightarrow> payload \<Rightarrow> payload" where
  "dmerge a b = foldl (\<lambda>d (k, v). dset d k v) a b"

definition cross_errors :: "record_schema \<Rightarrow> payload \<Rightarrow> payload \<Rightarrow> error_item list" where
  "cross_errors s p out = List.map_filter (\<lambda>rule. rule (dmerge p out)) (sch_cross_field s)"

definition validate_schema :: "record_schema \<Rightarrow> payload \<Rightarrow> bool \<Rightarrow> payload res" where
  "validate_schema s p partial =
     (let (errs, out) = foldl (validate_field p partial) (unknown_errors s p, p) (sch_fields s);
          errs' = (if errs = [] then cross_errors s p out else errs)
      in if errs' \<noteq> [] then Inl (InvalidPayload ''Please correct the highlighted fields.'' errs')
         else Inr out)"

text \<open>\<open>validate_id_list(payload, field)\<close> of the bulk-delete endpoints.\<close>

definition id_of_member :: "pyval \<Rightarrow> int option" where
  "id_of_member v =
     (case v of
        PInt i \<Rightarrow> if 0 < i then Some i else None
      | PStr s \<Rightarrow> (if py_isdigit (py_strip s) \<and> 0 < digits_val (py_strip s)
                  then Some (int (digits_val (py_strip s))) else None)
      | _ \<Rightarrow> None)"

definition index_path :: "string \<Rightarrow> nat \<Rightarrow> string" where
  "index_path f i = f @ ''.'' @ show_nat i"

definition validate_id_list :: "payload \<Rightarrow> string \<Rightarrow> int list res" where
  "validate_id_list p f =
     (let raw = dget p f
      in if none_or_empty raw \<or> raw = PList [] then Inr []
         else case raw of
           PList xs \<Rightarrow>
             (let errs = map (\<lambda>(i, _). (index_path f i, ''INVALID_TYPE'', ''Choose a valid record id.''))
                           (filter (\<lambda>(_, v). id_of_member v = None) (py_enumerate 0 xs))
              in if errs \<noteq> [] then Inl (InvalidPayload ''Please correct the selected records.'' errs)
                 else Inr (List.map_filter id_of_member xs))
         | _ \<Rightarrow> Inl (ValidationFailed ''Please correct the selected records.''
                    [(f, ''Provide a list of record ids.'')]))"

text \<open>\<open>validate_line_items(value, schema, field="lines")\<close>; \<open>rstrip(".")\<close> drops trailing points.\<close>

definition rstrip_dots :: "string \<Rightarrow> string" where
  "rstrip_dots s = rev (dropWhile (\<lambda>c. c = CHR ''.'') (rev s))"

definition line_errors :: "nat \<Rightarrow> domain_error \<Rightarrow> error_item list" where
  "line_errors i e =
     (case e of
        InvalidPayload _ items \<Rightarrow>
          map (\<lambda>(f, code, msg). (rstrip_dots (index_path ''lines'' i @ ''.'' @ f), code, msg)) items
      | _ \<Rightarrow> [])"

definition validate_line :: "record_schema \<Rightarrow> nat \<times> pyval \<Rightarrow> error_item list \<times> payload option" where
  "validate_line s item =
     (case item of (i, v) \<Rightarrow>
       (case v of
          PDict d \<Rightarrow> (case validate_schema s d False of
                       Inr out \<Rightarrow> ([], Some out)
                     | Inl e \<Rightarrow> (line_errors i e, None))
        | _ \<Rightarrow> ([(index_path ''lines'' i, ''INVALID_TYPE'', ''Enter a valid row.'')], None)))"

definition validate_line_items :: "pyval \<Rightarrow> record_schema \<Rightarrow> payload list res" where
  "validate_line_items v s =
     (if none_or_empty v then Inr []
      else case v of
        PList xs \<Rightarrow>
          (let rs = map (validate_line s) (py_enumerate 0 xs); errs = concat (map fst rs)
           in if errs \<noteq> [] then Inl (InvalidPayload ''Please correct the document lines.'' errs)
              else Inr (List.map_filter snd rs))
      | _ \<Rightarrow> Inl (ValidationFailed ''Please correct the document lines.'' [(''lines'', ''Provide a list of rows.'')]))"

section \<open>Line-item helpers\<close>

definition line_refusal :: "string \<Rightarrow> string \<Rightarrow> domain_error" where
  "line_refusal f msg = ValidationFailed ''Please correct the document lines.'' [(f, msg)]"

definition parse_decimal :: "pyval \<Rightarrow> string \<Rightarrow> rat \<Rightarrow> nat option \<Rightarrow> rat res" where
  "parse_decimal v f dflt places =
     (if none_or_empty v then Inr dflt
      else case decimal_of v of
        Some (DFin n) \<Rightarrow>
          (if \<not> pred_option (\<lambda>q. \<not> too_precise q n) places
           then Inl (line_refusal f ''Use at most that many decimal places.'')
           else Inr n)
      | _ \<Rightarrow> Inl (line_refusal f ''Enter a number.''))"

definition resolve_line_tax :: "payload \<Rightarrow> rat \<Rightarrow> string \<Rightarrow> (string \<times> rat \<times> rat) res" where
  "resolve_line_tax line taxable prefix =
     (let fp = (if prefix = [] then [] else prefix @ ''.'')
      in if \<not> none_or_empty (dget line ''taxRate'') then
           ebind (parse_decimal (dget line ''taxRate'') (fp @ ''taxRate'') 0 (Some 4))
             (\<lambda>rate. Inr (''taxRate'', ddiv (dmul taxable rate) 100, rate))
         else if \<not> none_or_empty (dget line ''taxAmount'') then
           ebind (parse_decimal (dget line ''taxAmount'') (fp @ ''taxAmount'') 0 (Some 4))
             (\<lambda>amount. Inr (''taxAmount'', amount, if 0 < taxable then dmul (ddiv amount taxable) 100 else 0))
         else if \<not> none_or_empty (dget line ''tax'') then
           ebind (parse_decimal (dget line ''tax'') (fp @ ''tax'') 0 (Some 4))
             (\<lambda>rate. Inr (''tax'', ddiv (dmul taxable rate) 100, rate))
         else Inr (''taxRate'', 0, 0))"

section \<open>What a normalised value is\<close>

definition text_ok :: "field_spec \<Rightarrow> string \<Rightarrow> bool" where
  "text_ok spec t \<longleftrightarrow> (fs_required spec \<longrightarrow> t \<noteq> []) \<and> opt_le (fs_min_length spec) (length t)
     \<and> opt_ge (fs_max_length spec) (length t)
     \<and> (fs_kind spec = KEmail \<longrightarrow> email_ok t) \<and> (fs_kind spec = KPhone \<longrightarrow> phone_ok t)
     \<and> (fs_kind spec = KUrl \<longrightarrow> url_ok t)
     \<and> pred_option (matches_choice t) (fs_choices spec) \<and> pred_option (\<lambda>q. q t) (fs_pattern spec)"

text \<open>The shape a stored value has, by the kind of its field; null only where the field is optional.\<close>

definition value_ok :: "field_spec \<Rightarrow> pyval \<Rightarrow> bool" where
  "value_ok spec v =
     (if is_blank v then \<not> fs_required spec \<and> (fs_kind spec = KJson \<or> v = PNone)
      else case fs_kind spec of
        KInteger \<Rightarrow> (case v of PInt i \<Rightarrow> opt_le (fs_minimum spec) (of_int i) \<and> opt_ge (fs_maximum spec) (of_int i)
                      | _ \<Rightarrow> False)
      | KDecimal \<Rightarrow> (case v of PDec (DFin r) \<Rightarrow> opt_le (fs_minimum spec) r \<and> opt_ge (fs_maximum spec) r
                        \<and> pred_option (\<lambda>q. \<not> too_precise q r) (fs_decimal_places spec)
                      | _ \<Rightarrow> False)
      | KBoolean \<Rightarrow> (case v of PBool _ \<Rightarrow> True | _ \<Rightarrow> False)
      | KDate \<Rightarrow> (case v of PDate _ \<Rightarrow> True | _ \<Rightarrow> False)
      | KReference \<Rightarrow> (case v of PInt i \<Rightarrow> 0 < i | PStr t \<Rightarrow> opt_ge (fs_max_length spec) (length t) | _ \<Rightarrow> False)
      | KJson \<Rightarrow> (case v of PDec _ \<Rightarrow> False | PDate _ \<Rightarrow> False | _ \<Rightarrow> True)
      | _ \<Rightarrow> (case v of PStr t \<Rightarrow> text_ok spec t | _ \<Rightarrow> False))"

subsection \<open>Stripping\<close>

lemma lstrip_hd: "py_lstrip s \<noteq> [] \<Longrightarrow> \<not> is_space (hd (py_lstrip s))"
  unfolding py_lstrip_def by (rule hd_dropWhile)

lemma py_strip_ends:
  assumes "py_strip s \<noteq> []"
  shows "\<not> is_space (hd (py_strip s))" and "\<not> is_space (last (py_strip s))"
proof -
  define l where "l = py_lstrip s"
  define r where "r = py_lstrip (rev l)"
  have strip: "py_strip s = rev r" by (simp add: py_strip_def l_def r_def)
  with assms have r: "r \<noteq> []" by simp
  then have l: "l \<noteq> []" by (auto simp: r_def py_lstrip_def)
  show "\<not> is_space (last (py_strip s))"
    using lstrip_hd [of "rev l"] r by (simp add: strip r_def last_rev)
  obtain pre where "rev l = pre @ r"
    using takeWhile_dropWhile_id [of is_space "rev l"] by (metis r_def py_lstrip_def)
  then have "l = rev r @ rev pre" by (metis rev_append rev_rev_ident)
  then have "hd (rev r) = hd l" using r by simp
  then show "\<not> is_space (hd (py_strip s))"
    using lstrip_hd [of s] l by (simp add: strip l_def)
qed

lemma py_strip_idem [simp]: "py_strip (py_strip s) = py_strip s"
proof (cases "py_strip s = []")
  case True
  moreover have "py_strip [] = []" by (simp add: py_strip_def py_lstrip_def)
  ultimately show ?thesis by simp
next
  case False
  then show ?thesis using py_strip_ends [of s] by (intro py_strip_trimmed)
qed

subsection \<open>Every accepted value has its shape, and normalising it again changes nothing\<close>

lemma check_text_Inr_iff: "check_text spec t = Inr w \<longleftrightarrow> w = PStr t \<and> text_ok spec t"
  by (simp add: check_text_def text_ok_def) blast

lemma norm_string_Inr_iff:
  "norm_string spec v = Inr w \<longleftrightarrow>
     (\<exists>s. v = PStr s \<and> w = PStr (if fs_strip spec then py_strip s else s)
        \<and> text_ok spec (if fs_strip spec then py_strip s else s))"
  by (cases v) (simp_all add: norm_string_def check_text_Inr_iff)

lemma enforce_range_Inr_iff:
  "enforce_range spec n = Inr u \<longleftrightarrow> opt_le (fs_minimum spec) n \<and> opt_ge (fs_maximum spec) n"
  by (simp add: enforce_range_def)

lemma to_number_Inr_iff: "to_number v = Inr n \<longleftrightarrow> decimal_of v = Some (DFin n)"
  by (simp add: to_number_def split: option.splits pydecimal.splits)

lemma norm_integer_Inr_iff:
  "norm_integer spec v = Inr w \<longleftrightarrow>
     (\<exists>i. decimal_of v = Some (DFin (of_int i)) \<and> w = PInt i
        \<and> opt_le (fs_minimum spec) (of_int i) \<and> opt_ge (fs_maximum spec) (of_int i))"
proof
  assume "norm_integer spec v = Inr w"
  then obtain n where "decimal_of v = Some (DFin n)" and "of_int (floor n) = n" and "w = PInt (floor n)"
    and "opt_le (fs_minimum spec) n" and "opt_ge (fs_maximum spec) n"
    by (auto simp: norm_integer_def ebind_Inr_iff to_number_Inr_iff enforce_range_Inr_iff split: if_splits)
  then show "\<exists>i. decimal_of v = Some (DFin (of_int i)) \<and> w = PInt i
        \<and> opt_le (fs_minimum spec) (of_int i) \<and> opt_ge (fs_maximum spec) (of_int i)"
    by metis
qed (auto simp: norm_integer_def ebind_Inr_iff to_number_Inr_iff enforce_range_Inr_iff)

lemma norm_decimal_Inr_iff:
  "norm_decimal spec v = Inr w \<longleftrightarrow>
     (\<exists>r. decimal_of v = Some (DFin r) \<and> w = PDec (DFin r)
        \<and> opt_le (fs_minimum spec) r \<and> opt_ge (fs_maximum spec) r
        \<and> pred_option (\<lambda>q. \<not> too_precise q r) (fs_decimal_places spec))"
  by (auto simp: norm_decimal_def ebind_Inr_iff to_number_Inr_iff enforce_range_Inr_iff)

lemma norm_boolean_Inr: "norm_boolean v = Inr w \<Longrightarrow> \<exists>b. w = PBool b"
  by (auto simp: norm_boolean_def Let_def split: pyval.splits if_splits)

lemma norm_date_Inr: "norm_date v = Inr w \<Longrightarrow> \<exists>d. w = PDate d"
  by (auto simp: norm_date_def split: pyval.splits option.splits)

lemma norm_reference_Inr:
  "norm_reference spec v = Inr w \<Longrightarrow>
     (\<exists>i > 0. w = PInt i) \<or> (\<exists>s. v = PStr s \<and> w = PStr (py_strip s) \<and> opt_ge (fs_max_length spec) (length (py_strip s)))"
  by (auto simp: norm_reference_def opt_ge_def Let_def not_less split: pyval.splits if_splits
      option.splits pydecimal.splits)

lemma norm_json_Inr: "norm_json v = Inr w \<Longrightarrow> w = v \<and> (\<forall>d. v \<noteq> PDec d) \<and> (\<forall>d. v \<noteq> PDate d)"
  by (auto simp: norm_json_def split: pyval.splits)

lemma normalize_cases [consumes 1, case_names blank str integer number boolean day ref json]:
  assumes "normalize_value spec v = Inr w"
  obtains "is_blank v" "\<not> fs_required spec" "w = (if fs_kind spec = KJson then v else PNone)"
  | "\<not> is_blank v" "fs_kind spec \<in> {KString, KEmail, KPhone, KUrl}" "norm_string spec v = Inr w"
  | "\<not> is_blank v" "fs_kind spec = KInteger" "norm_integer spec v = Inr w"
  | "\<not> is_blank v" "fs_kind spec = KDecimal" "norm_decimal spec v = Inr w"
  | "\<not> is_blank v" "fs_kind spec = KBoolean" "norm_boolean v = Inr w"
  | "\<not> is_blank v" "fs_kind spec = KDate" "norm_date v = Inr w"
  | "\<not> is_blank v" "fs_kind spec = KReference" "norm_reference spec v = Inr w"
  | "\<not> is_blank v" "fs_kind spec = KJson" "norm_json v = Inr w"
  using assms by (auto simp: normalize_value_def split: if_splits field_kind.splits)

lemma normalize_value_ok:
  assumes "normalize_value spec v = Inr w"
  shows "value_ok spec w"
  using assms
proof (cases rule: normalize_cases)
  case blank
  then show ?thesis by (simp add: value_ok_def)
next
  case str
  then obtain s where "v = PStr s" and w: "w = PStr (if fs_strip spec then py_strip s else s)"
    and "text_ok spec (if fs_strip spec then py_strip s else s)"
    by (auto simp: norm_string_Inr_iff)
  moreover from this str have "\<not> is_blank w" by auto
  ultimately show ?thesis using str(2) by (auto simp: value_ok_def)
next
  case integer
  then show ?thesis by (auto simp: value_ok_def norm_integer_Inr_iff)
next
  case number
  then show ?thesis by (auto simp: value_ok_def norm_decimal_Inr_iff)
next
  case boolean
  then show ?thesis by (auto simp: value_ok_def dest!: norm_boolean_Inr)
next
  case day
  then show ?thesis by (auto simp: value_ok_def dest!: norm_date_Inr)
next
  case ref
  then show ?thesis by (auto simp: value_ok_def dest!: norm_reference_Inr)
next
  case json
  then show ?thesis by (auto simp: value_ok_def dest!: norm_json_Inr split: pyval.splits)
qed

lemma normalize_idem:
  assumes "normalize_value spec v = Inr w"
  shows "normalize_value spec w = Inr w"
  using assms
proof (cases rule: normalize_cases)
  case blank
  then show ?thesis by (auto simp: normalize_value_def)
next
  case str
  then obtain s where v: "v = PStr s" and w: "w = PStr (if fs_strip spec then py_strip s else s)"
    and ok: "text_ok spec (if fs_strip spec then py_strip s else s)"
    by (auto simp: norm_string_Inr_iff)
  from v w str have "\<not> is_blank w" by auto
  moreover have "norm_string spec w = Inr w" using ok by (cases "fs_strip spec") (simp_all add: norm_string_Inr_iff w)
  ultimately show ?thesis using str(2) by (auto simp: normalize_value_def)
next
  case integer
  then show ?thesis by (auto simp: normalize_value_def norm_integer_Inr_iff)
next
  case number
  then show ?thesis by (auto simp: normalize_value_def norm_decimal_Inr_iff)
next
  case boolean
  from norm_boolean_Inr [OF boolean(3)] boolean(2) show ?thesis
    by (auto simp: normalize_value_def norm_boolean_def)
next
  case day
  from norm_date_Inr [OF day(3)] day(2) show ?thesis
    by (auto simp: normalize_value_def norm_date_def)
next
  case ref
  from norm_reference_Inr [OF ref(3)] ref(1,2) show ?thesis
    by (auto simp: normalize_value_def norm_reference_def opt_ge_def)
next
  case json
  with norm_json_Inr [OF json(3)] show ?thesis by (simp add: normalize_value_def)
qed

subsection \<open>What a validated payload is\<close>

text \<open>
  A schema is well formed when no two fields share a key and no alias is another field's key; then
  dropping an alias never drops a normalised value.
\<close>

definition schema_wf :: "record_schema \<Rightarrow> bool" where
  "schema_wf s \<longleftrightarrow> distinct (map fs_key (sch_fields s))
     \<and> list_all (\<lambda>f. list_all (\<lambda>a. a \<notin> set (map fs_key (sch_fields s))) (fs_aliases f)) (sch_fields s)"

lemma source_key_cases:
  "source_key spec p = Some k \<Longrightarrow> has_key p k \<and> (k = fs_key spec \<or> k \<in> set (fs_aliases spec))"
  by (auto simp: source_key_def find_Some_iff split: if_splits)

lemma validate_field_errors:
  "fst (validate_field p partial st spec) = [] \<Longrightarrow>
     fst st = [] \<and>
     (case source_key spec p of None \<Rightarrow> \<not> (fs_required spec \<and> \<not> partial)
      | Some k \<Rightarrow> \<exists>v. normalize_value spec (dget p k) = Inr v
          \<and> dget (snd (validate_field p partial st spec)) (fs_key spec) = v)"
  by (auto simp: validate_field_def Let_def split: option.splits sum.splits prod.splits if_splits)

lemma validate_field_frame:
  "k \<noteq> fs_key spec \<Longrightarrow> k \<notin> set (fs_aliases spec) \<Longrightarrow>
     dget (snd (validate_field p partial st spec)) k = dget (snd st) k"
  using source_key_cases [of spec p]
  by (auto simp: validate_field_def Let_def split: option.splits sum.splits prod.splits)

lemma validate_fold_errors:
  "fst (foldl (validate_field p partial) st specs) = [] \<Longrightarrow> fst st = []"
proof (induction specs arbitrary: st)
  case Nil
  then show ?case by simp
next
  case (Cons f specs)
  then have "fst (validate_field p partial st f) = []" by simp
  then show ?case using validate_field_errors [of p partial st f] by simp
qed

lemma validate_fold_frame:
  "k \<notin> set (map fs_key specs) \<Longrightarrow> (\<And>f. f \<in> set specs \<Longrightarrow> k \<notin> set (fs_aliases f)) \<Longrightarrow>
     dget (snd (foldl (validate_field p partial) st specs)) k = dget (snd st) k"
  by (induction specs arbitrary: st) (auto simp: validate_field_frame)

lemma validate_fold_field:
  assumes "fst (foldl (validate_field p partial) st specs) = []" and "spec \<in> set specs"
    and "distinct (map fs_key specs)"
    and "\<And>f g. f \<in> set specs \<Longrightarrow> g \<in> set specs \<Longrightarrow> fs_key g \<notin> set (fs_aliases f)"
  shows "case source_key spec p of None \<Rightarrow> \<not> (fs_required spec \<and> \<not> partial)
      | Some k \<Rightarrow> \<exists>v. normalize_value spec (dget p k) = Inr v
          \<and> dget (snd (foldl (validate_field p partial) st specs)) (fs_key spec) = v"
  using assms
proof (induction specs arbitrary: st)
  case Nil
  then show ?case by simp
next
  case (Cons f specs)
  show ?case
  proof (cases "spec = f")
    case True
    from Cons.prems(1) have "fst (validate_field p partial st f) = []"
      by (auto dest: validate_fold_errors)
    moreover have "dget (snd (foldl (validate_field p partial) (validate_field p partial st f) specs)) (fs_key f)
        = dget (snd (validate_field p partial st f)) (fs_key f)"
      using Cons.prems(3,4) by (intro validate_fold_frame) auto
    ultimately show ?thesis
      using validate_field_errors [of p partial st f] unfolding True by (auto split: option.splits)
  next
    case False
    with Cons.prems have "spec \<in> set specs" by auto
    with Cons.prems show ?thesis
      using Cons.IH [of "validate_field p partial st f"] by (auto split: option.splits)
  qed
qed

lemma validate_schema_field:
  assumes ok: "validate_schema s p partial = Inr out" and wf: "schema_wf s" and "spec \<in> set (sch_fields s)"
  shows "case source_key spec p of None \<Rightarrow> \<not> (fs_required spec \<and> \<not> partial)
      | Some k \<Rightarrow> value_ok spec (dget out (fs_key spec))"
proof -
  let ?r = "foldl (validate_field p partial) (unknown_errors s p, p) (sch_fields s)"
  from ok have "fst ?r = []" and out: "out = snd ?r"
    by (auto simp: validate_schema_def Let_def split: prod.splits if_splits)
  moreover from wf have "distinct (map fs_key (sch_fields s))"
    and "\<And>f g. f \<in> set (sch_fields s) \<Longrightarrow> g \<in> set (sch_fields s) \<Longrightarrow> fs_key g \<notin> set (fs_aliases f)"
    by (auto simp: schema_wf_def list_all_iff)
  ultimately show ?thesis
    using validate_fold_field [of p partial "(unknown_errors s p, p)" "sch_fields s" spec] assms(3)
    by (auto split: option.splits dest: normalize_value_ok)
qed

lemma validate_schema_no_unknown:
  assumes "validate_schema s p partial = Inr out" and "sch_reject_unknown s" and "k \<in> fst ` set p"
  shows "k \<in> set (allowed_keys s)"
proof -
  from assms(1) have "fst (foldl (validate_field p partial) (unknown_errors s p, p) (sch_fields s)) = []"
    by (auto simp: validate_schema_def Let_def split: prod.splits if_splits)
  then have "unknown_errors s p = []" by (auto dest: validate_fold_errors)
  with assms(2,3) show ?thesis by (fastforce simp: unknown_errors_def filter_empty_conv)
qed

end
