(* ===== verification/FinanceSchemas.thy ===== *)
theory FinanceSchemas
  imports Validation
begin

text \<open>
  The request schemas of \<open>modules/finance/schemas.py\<close>, as data for the validator. Labels only
  decorate messages and are left out.
\<close>

section \<open>Schemas\<close>

text \<open>\<open>[A-Za-z0-9][A-Za-z0-9._-]*\<close>\<close>

definition code_char :: "char \<Rightarrow> bool" where
  "code_char c \<longleftrightarrow> is_digit c \<or> is_upper c \<or> is_lower c"

definition account_code_ok :: "string \<Rightarrow> bool" where
  "account_code_ok s =
     (case s of [] \<Rightarrow> False
      | c # r \<Rightarrow> code_char c \<and> list_all (\<lambda>c. code_char c \<or> c \<in> set ''._-'') r)"

definition ACCOUNT_TYPES :: "string list" where
  "ACCOUNT_TYPES = [''ASSET'', ''LIABILITY'', ''EQUITY'', ''REVENUE'', ''EXPENSE'']"

definition NORMAL_BALANCES :: "string list" where
  "NORMAL_BALANCES = [''DEBIT'', ''CREDIT'']"

definition ACTIVE_STATUSES :: "string list" where
  "ACTIVE_STATUSES = [''ACTIVE'', ''INACTIVE'']"

definition FINANCIAL_ACCOUNT_TYPES :: "string list" where
  "FINANCIAL_ACCOUNT_TYPES = [''BANK'', ''CASH'']"

definition PERIOD_STATUSES :: "string list" where
  "PERIOD_STATUSES = [''OPEN'', ''CLOSED'']"

definition ACCOUNT_SCHEMA :: record_schema where
  "ACCOUNT_SCHEMA = \<lparr>sch_fields =
     [field_spec_default ''accountCode''
       \<lparr>fs_required := True, fs_min_length := Some 1, fs_max_length := Some 32,
         fs_pattern := Some account_code_ok, fs_aliases := [''account_code'']\<rparr>,
      field_spec_default ''accountName''
       \<lparr>fs_required := True, fs_min_length := Some 1, fs_max_length := Some 255,
         fs_aliases := [''account_name'']\<rparr>,
      field_spec_default ''accountType''
       \<lparr>fs_max_length := Some 20, fs_choices := Some ACCOUNT_TYPES,
         fs_aliases := [''account_type'']\<rparr>,
      field_spec_default ''normalBalance''
       \<lparr>fs_max_length := Some 10, fs_choices := Some NORMAL_BALANCES,
         fs_aliases := [''normal_balance'']\<rparr>,
      field_spec_default ''parentCode''
       \<lparr>fs_max_length := Some 32, fs_aliases := [''parent_code'']\<rparr>,
      field_spec_default ''postable''
       \<lparr>fs_kind := KBoolean\<rparr>,
      field_spec_default ''status''
       \<lparr>fs_max_length := Some 20, fs_choices := Some ACTIVE_STATUSES\<rparr>],
     sch_cross_field = [], sch_readonly = [], sch_reject_unknown = False\<rparr>"

definition FINANCIAL_ACCOUNT_SCHEMA :: record_schema where
  "FINANCIAL_ACCOUNT_SCHEMA = \<lparr>sch_fields =
     [field_spec_default ''ledgerCode''
       \<lparr>fs_required := True, fs_min_length := Some 1, fs_max_length := Some 32,
         fs_aliases := [''ledger_code'']\<rparr>,
      field_spec_default ''accountName''
       \<lparr>fs_required := True, fs_min_length := Some 1, fs_max_length := Some 255,
         fs_aliases := [''account_name'']\<rparr>,
      field_spec_default ''accountType''
       \<lparr>fs_max_length := Some 32, fs_choices := Some FINANCIAL_ACCOUNT_TYPES,
         fs_aliases := [''account_type'']\<rparr>,
      field_spec_default ''currency''
       \<lparr>fs_min_length := Some 3, fs_max_length := Some 3\<rparr>,
      field_spec_default ''bankName''
       \<lparr>fs_max_length := Some 255, fs_aliases := [''bank_name'']\<rparr>,
      field_spec_default ''accountNumberMasked''
       \<lparr>fs_max_length := Some 64, fs_aliases := [''account_number_masked'']\<rparr>,
      field_spec_default ''status''
       \<lparr>fs_max_length := Some 20, fs_choices := Some ACTIVE_STATUSES\<rparr>],
     sch_cross_field = [], sch_readonly = [], sch_reject_unknown = False\<rparr>"

definition PERIOD_WRITE_SCHEMA :: record_schema where
  "PERIOD_WRITE_SCHEMA = \<lparr>sch_fields =
     [field_spec_default ''status''
       \<lparr>fs_max_length := Some 20, fs_choices := Some PERIOD_STATUSES\<rparr>,
      field_spec_default ''reason''
       \<lparr>fs_max_length := Some 2000, fs_aliases := [''note'']\<rparr>],
     sch_cross_field = [], sch_readonly = [], sch_reject_unknown = True\<rparr>"

definition SEQUENCE_WRITE_SCHEMA :: record_schema where
  "SEQUENCE_WRITE_SCHEMA = \<lparr>sch_fields =
     [field_spec_default ''documentType''
       \<lparr>fs_required := True, fs_min_length := Some 1, fs_max_length := Some 64,
         fs_aliases := [''document_type'']\<rparr>,
      field_spec_default ''year''
       \<lparr>fs_kind := KInteger, fs_minimum := Some (2000), fs_maximum := Some (2200)\<rparr>,
      field_spec_default ''prefix''
       \<lparr>fs_max_length := Some 16\<rparr>,
      field_spec_default ''lastValue''
       \<lparr>fs_kind := KInteger, fs_minimum := Some (0), fs_aliases := [''last_value'']\<rparr>,
      field_spec_default ''paddingLength''
       \<lparr>fs_kind := KInteger, fs_minimum := Some (1), fs_maximum := Some (12),
         fs_aliases := [''padding_length'']\<rparr>,
      field_spec_default ''status''
       \<lparr>fs_max_length := Some 20, fs_choices := Some ACTIVE_STATUSES\<rparr>],
     sch_cross_field = [], sch_readonly = [''id'', ''nextNumberPreview'', ''createdAt'', ''updatedAt''], sch_reject_unknown = False\<rparr>"

definition DOCUMENT_WRITE_SCHEMA :: record_schema where
  "DOCUMENT_WRITE_SCHEMA = \<lparr>sch_fields =
     [field_spec_default ''documentNo''
       \<lparr>fs_max_length := Some 50,
         fs_aliases := [''document_no'', ''debitNoteNo'', ''debit_note_no'']\<rparr>,
      field_spec_default ''documentType''
       \<lparr>fs_max_length := Some 32, fs_aliases := [''document_type'']\<rparr>,
      field_spec_default ''documentTypeId''
       \<lparr>fs_kind := KReference, fs_aliases := [''document_type_id'']\<rparr>,
      field_spec_default ''date''
       \<lparr>fs_kind := KDate\<rparr>,
      field_spec_default ''documentDate''
       \<lparr>fs_kind := KDate, fs_aliases := [''document_date'']\<rparr>,
      field_spec_default ''postingDate''
       \<lparr>fs_kind := KDate, fs_aliases := [''posting_date'']\<rparr>,
      field_spec_default ''dueDate''
       \<lparr>fs_kind := KDate, fs_aliases := [''due_date'']\<rparr>,
      field_spec_default ''valueDate''
       \<lparr>fs_kind := KDate, fs_aliases := [''value_date'']\<rparr>,
      field_spec_default ''currency''
       \<lparr>fs_min_length := Some 3, fs_max_length := Some 3\<rparr>,
      field_spec_default ''exchangeRate''
       \<lparr>fs_kind := KDecimal, fs_minimum := Some (0), fs_decimal_places := Some 8,
         fs_aliases := [''exchange_rate'']\<rparr>,
      field_spec_default ''baseCurrency''
       \<lparr>fs_min_length := Some 3, fs_max_length := Some 3, fs_aliases := [''base_currency'']\<rparr>,
      field_spec_default ''partyId''
       \<lparr>fs_kind := KReference, fs_aliases := [''party_id'']\<rparr>,
      field_spec_default ''serviceOrderId''
       \<lparr>fs_kind := KReference, fs_aliases := [''service_order_id'']\<rparr>,
      field_spec_default ''referenceNumber''
       \<lparr>fs_max_length := Some 128, fs_aliases := [''reference_number'', ''referenceNo'']\<rparr>,
      field_spec_default ''remark''
       \<lparr>fs_max_length := Some 10000\<rparr>,
      field_spec_default ''description''
       \<lparr>fs_max_length := Some 10000\<rparr>,
      field_spec_default ''paymentMethod''
       \<lparr>fs_max_length := Some 64, fs_aliases := [''payment_method'']\<rparr>,
      field_spec_default ''financialAccountId''
       \<lparr>fs_kind := KReference, fs_aliases := [''financial_account_id'']\<rparr>],
     sch_cross_field = [], sch_readonly = [''id'', ''status'', ''subtotal'', ''discount'', ''tax'', ''total'', ''paidAmount'', ''outstanding'', ''baseTotal'', ''createdAt'', ''updatedAt''], sch_reject_unknown = False\<rparr>"

definition DOCUMENT_LINE_SCHEMA :: record_schema where
  "DOCUMENT_LINE_SCHEMA = \<lparr>sch_fields =
     [field_spec_default ''description''
       \<lparr>fs_max_length := Some 1000\<rparr>,
      field_spec_default ''feeTypeId''
       \<lparr>fs_kind := KReference, fs_aliases := [''fee_type_id'']\<rparr>,
      field_spec_default ''feeType''
       \<lparr>fs_kind := KReference, fs_max_length := Some 255, fs_aliases := [''fee_type'']\<rparr>,
      field_spec_default ''quantity''
       \<lparr>fs_kind := KDecimal, fs_minimum := Some (0), fs_decimal_places := Some 3\<rparr>,
      field_spec_default ''unitPrice''
       \<lparr>fs_kind := KDecimal, fs_aliases := [''unit_price'', ''unitAmount'', ''unit_amount'']\<rparr>,
      field_spec_default ''discount''
       \<lparr>fs_kind := KDecimal, fs_minimum := Some (0),
         fs_aliases := [''discountAmount'', ''discount_amount'']\<rparr>,
      field_spec_default ''taxRate''
       \<lparr>fs_kind := KDecimal, fs_minimum := Some (0), fs_maximum := Some (100),
         fs_aliases := [''tax_rate'', ''tax'']\<rparr>,
      field_spec_default ''taxAmount''
       \<lparr>fs_kind := KDecimal, fs_minimum := Some (0), fs_aliases := [''tax_amount'']\<rparr>,
      field_spec_default ''unit''
       \<lparr>fs_max_length := Some 32, fs_aliases := [''unitCode'', ''unit_code'']\<rparr>,
      field_spec_default ''accountCode''
       \<lparr>fs_kind := KReference, fs_max_length := Some 32, fs_aliases := [''account_code'']\<rparr>,
      field_spec_default ''accountId''
       \<lparr>fs_kind := KReference, fs_aliases := [''account_id'']\<rparr>,
      field_spec_default ''serviceOrderId''
       \<lparr>fs_kind := KReference, fs_aliases := [''service_order_id'']\<rparr>,
      field_spec_default ''serviceOrderContainerId''
       \<lparr>fs_kind := KReference,
         fs_aliases := [''service_order_container_id'', ''containerId'']\<rparr>],
     sch_cross_field = [], sch_readonly = [''id'', ''lineNo'', ''line_no'', ''amount'', ''total'', ''createdAt'', ''updatedAt''], sch_reject_unknown = False\<rparr>"

definition JOURNAL_WRITE_SCHEMA :: record_schema where
  "JOURNAL_WRITE_SCHEMA = \<lparr>sch_fields =
     [field_spec_default ''entryNo''
       \<lparr>fs_max_length := Some 50, fs_aliases := [''entry_no'']\<rparr>,
      field_spec_default ''entryType''
       \<lparr>fs_max_length := Some 64, fs_aliases := [''entry_type'']\<rparr>,
      field_spec_default ''entryDate''
       \<lparr>fs_kind := KDate, fs_aliases := [''entry_date'']\<rparr>,
      field_spec_default ''postingDate''
       \<lparr>fs_kind := KDate, fs_aliases := [''posting_date'']\<rparr>,
      field_spec_default ''description''
       \<lparr>fs_max_length := Some 10000\<rparr>],
     sch_cross_field = [], sch_readonly = [''id'', ''status'', ''debitTotal'', ''creditTotal'', ''createdAt'', ''updatedAt''], sch_reject_unknown = False\<rparr>"

definition JOURNAL_LINE_SCHEMA :: record_schema where
  "JOURNAL_LINE_SCHEMA = \<lparr>sch_fields =
     [field_spec_default ''accountId''
       \<lparr>fs_kind := KReference, fs_aliases := [''account_id'']\<rparr>,
      field_spec_default ''accountCode''
       \<lparr>fs_kind := KReference, fs_max_length := Some 32, fs_aliases := [''account_code'']\<rparr>,
      field_spec_default ''debitAmount''
       \<lparr>fs_kind := KDecimal, fs_decimal_places := Some 4, fs_aliases := [''debit_amount'']\<rparr>,
      field_spec_default ''creditAmount''
       \<lparr>fs_kind := KDecimal, fs_decimal_places := Some 4, fs_aliases := [''credit_amount'']\<rparr>,
      field_spec_default ''exchangeRate''
       \<lparr>fs_kind := KDecimal, fs_minimum := Some (0), fs_decimal_places := Some 8,
         fs_aliases := [''exchange_rate'']\<rparr>,
      field_spec_default ''currency''
       \<lparr>fs_min_length := Some 3, fs_max_length := Some 3\<rparr>,
      field_spec_default ''description''
       \<lparr>fs_max_length := Some 1000\<rparr>,
      field_spec_default ''party''
       \<lparr>fs_kind := KReference, fs_aliases := [''partyId'', ''party_id'']\<rparr>,
      field_spec_default ''serviceOrder''
       \<lparr>fs_kind := KReference, fs_aliases := [''serviceOrderId'', ''service_order_id'']\<rparr>],
     sch_cross_field = [], sch_readonly = [''id'', ''lineNo'', ''line_no'', ''baseDebit'', ''baseCredit'', ''createdAt'', ''updatedAt''], sch_reject_unknown = False\<rparr>"

definition ALLOCATION_WRITE_SCHEMA :: record_schema where
  "ALLOCATION_WRITE_SCHEMA = \<lparr>sch_fields =
     [field_spec_default ''targetDocumentId''
       \<lparr>fs_kind := KReference, fs_aliases := [''target_document_id'']\<rparr>,
      field_spec_default ''amount''
       \<lparr>fs_kind := KDecimal, fs_minimum := Some (1 / 10000), fs_decimal_places := Some 4,
         fs_aliases := [''allocated_amount'', ''allocatedAmount'']\<rparr>],
     sch_cross_field = [], sch_readonly = [''id'', ''allocatedCurrencyCode'', ''exchangeRate'', ''paymentBaseAmount'', ''targetBaseAmount''], sch_reject_unknown = False\<rparr>"

definition REVERSAL_WRITE_SCHEMA :: record_schema where
  "REVERSAL_WRITE_SCHEMA = \<lparr>sch_fields =
     [field_spec_default ''reason''
       \<lparr>fs_max_length := Some 2000, fs_aliases := [''note'']\<rparr>],
     sch_cross_field = [], sch_readonly = [], sch_reject_unknown = True\<rparr>"

definition POSTING_RULE_WRITE_SCHEMA :: record_schema where
  "POSTING_RULE_WRITE_SCHEMA = \<lparr>sch_fields =
     [field_spec_default ''documentType''
       \<lparr>fs_min_length := Some 1, fs_max_length := Some 32, fs_aliases := [''document_type'']\<rparr>,
      field_spec_default ''feeTypeId''
       \<lparr>fs_kind := KReference, fs_aliases := [''fee_type_id'']\<rparr>,
      field_spec_default ''debitAccount''
       \<lparr>fs_min_length := Some 1, fs_max_length := Some 64, fs_aliases := [''debit_account'']\<rparr>,
      field_spec_default ''creditAccount''
       \<lparr>fs_min_length := Some 1, fs_max_length := Some 64, fs_aliases := [''credit_account'']\<rparr>,
      field_spec_default ''taxAccount''
       \<lparr>fs_max_length := Some 64, fs_aliases := [''tax_account'']\<rparr>,
      field_spec_default ''status''
       \<lparr>fs_max_length := Some 20\<rparr>,
      field_spec_default ''priority''
       \<lparr>fs_kind := KJson\<rparr>,
      field_spec_default ''description''
       \<lparr>fs_max_length := Some 2000\<rparr>],
     sch_cross_field = [], sch_readonly = [], sch_reject_unknown = True\<rparr>"

section \<open>Every schema is well formed\<close>

text \<open>No two fields share a key and no alias hides another field, so what a schema accepts has the
  declared shape (lemma \<open>validate_schema_field\<close>).\<close>

definition finance_schemas :: "record_schema list" where
  "finance_schemas = [ACCOUNT_SCHEMA, FINANCIAL_ACCOUNT_SCHEMA, PERIOD_WRITE_SCHEMA,
     SEQUENCE_WRITE_SCHEMA, DOCUMENT_WRITE_SCHEMA, DOCUMENT_LINE_SCHEMA, JOURNAL_WRITE_SCHEMA,
     JOURNAL_LINE_SCHEMA, ALLOCATION_WRITE_SCHEMA, REVERSAL_WRITE_SCHEMA, POSTING_RULE_WRITE_SCHEMA]"

lemma field_spec_default_simps [simp]:
  "fs_key (field_spec_default k) = k"
  "fs_kind (field_spec_default k) = KString"
  "fs_required (field_spec_default k) = False"
  "fs_aliases (field_spec_default k) = []"
  "fs_minimum (field_spec_default k) = None"
  "fs_maximum (field_spec_default k) = None"
  "fs_decimal_places (field_spec_default k) = None"
  by (simp_all add: field_spec_default_def)

lemmas finance_schema_defs = finance_schemas_def ACCOUNT_SCHEMA_def FINANCIAL_ACCOUNT_SCHEMA_def PERIOD_WRITE_SCHEMA_def SEQUENCE_WRITE_SCHEMA_def DOCUMENT_WRITE_SCHEMA_def DOCUMENT_LINE_SCHEMA_def JOURNAL_WRITE_SCHEMA_def JOURNAL_LINE_SCHEMA_def ALLOCATION_WRITE_SCHEMA_def REVERSAL_WRITE_SCHEMA_def POSTING_RULE_WRITE_SCHEMA_def

lemma finance_schemas_wf: "list_all schema_wf finance_schemas"
  by (simp add: finance_schema_defs schema_wf_def)

lemma finance_schema_wf: "s \<in> set finance_schemas \<Longrightarrow> schema_wf s"
  using finance_schemas_wf by (simp add: list_all_iff)

end
