(* ===== verification/Fx.thy ===== *)
theory Fx
  imports Decimals
begin

text \<open>
  \<open>backend/app/core/fx.py\<close>: what a usable exchange rate is, the rate a document stores, and how a
  converted amount is rounded to the precision of its currency.
\<close>

section \<open>Constants\<close>

definition rate_places :: nat where
  "rate_places = 8"

definition DEFAULT_CURRENCY_PRECISION :: int where
  "DEFAULT_CURRENCY_PRECISION = 2"

definition MAX_CURRENCY_PRECISION :: int where
  "MAX_CURRENCY_PRECISION = 6"

definition MAX_RATE :: rat where
  "MAX_RATE = 1000000000"

definition RATE_FIELD :: string where
  "RATE_FIELD = ''exchangeRate''"

section \<open>Coercion\<close>

fun is_pybool :: "pyval \<Rightarrow> bool" where
  "is_pybool (PBool _) = True"
| "is_pybool _ = False"

text \<open>\<open>to_decimal(value, default)\<close>.\<close>

definition to_decimal :: "pyval \<Rightarrow> pydecimal option \<Rightarrow> pydecimal res" where
  "to_decimal v dflt =
     (if none_or_empty v then Inr (case dflt of Some d \<Rightarrow> d | None \<Rightarrow> DFin 0)
      else case v of
        PDec d \<Rightarrow> Inr d
      | PBool _ \<Rightarrow> Inl (ValidationFailed ''is not a number.'' [])
      | _ \<Rightarrow> (case decimal_of v of
               Some d \<Rightarrow> Inr d
             | None \<Rightarrow> (case dflt of Some d \<Rightarrow> Inr d
                       | None \<Rightarrow> Inl (ValidationFailed ''is not a valid number.'' []))))"

definition is_valid_rate :: "pyval \<Rightarrow> bool" where
  "is_valid_rate v =
     (case to_decimal v None of
        Inr (DFin r) \<Rightarrow> 0 < r \<and> r \<le> MAX_RATE
      | _ \<Rightarrow> False)"

section \<open>Rates\<close>

definition rate_refusal :: "string \<Rightarrow> string \<Rightarrow> domain_error" where
  "rate_refusal msg field_msg = ValidationFailed msg [(RATE_FIELD, field_msg)]"

definition normalize_rate :: "pyval \<Rightarrow> rat res" where
  "normalize_rate v =
     (case to_decimal v None of
        Inl _ \<Rightarrow> Inl (rate_refusal ''The exchange rate must be a number greater than zero.''
                    ''Enter a rate greater than zero.'')
      | Inr (DFin rate) \<Rightarrow>
          (if rate \<le> 0
           then Inl (rate_refusal ''The exchange rate must be greater than zero.'' ''Enter a rate greater than zero.'')
           else if MAX_RATE < rate
           then Inl (rate_refusal ''The exchange rate is not plausible.'' ''This rate looks like a data-entry error.'')
           else let quantized = quantize rate_places rate
                in if quantized \<le> 0
                   then Inl (rate_refusal ''The exchange rate is too small to store.'' ''Use a rate of at least 1E-8.'')
                   else Inr quantized)
      | Inr _ \<Rightarrow> Inl (rate_refusal ''The exchange rate must be greater than zero.''
                    ''Enter a rate greater than zero.''))"

text \<open>A missing currency is \<open>None\<close>; \<open>str(x or "").strip().upper()\<close> reads it as the empty text.\<close>

definition code_text :: "string option \<Rightarrow> string" where
  "code_text c = py_upper (py_strip (case c of None \<Rightarrow> [] | Some s \<Rightarrow> s))"

definition same_currency :: "string option \<Rightarrow> string option \<Rightarrow> bool" where
  "same_currency document_currency base_currency =
     (let left = code_text document_currency; right = code_text base_currency
      in left \<noteq> [] \<and> left = right)"

definition document_rate :: "string option \<Rightarrow> string option \<Rightarrow> pyval \<Rightarrow> rat res" where
  "document_rate document_currency base_currency rate =
     (if same_currency document_currency base_currency then Inr 1
      else if none_or_empty rate
      then Inl (rate_refusal ''An exchange rate is required when the currency differs from the base currency.''
             ''Enter the exchange rate for this currency.'')
      else normalize_rate rate)"

section \<open>Rounding converted amounts\<close>

text \<open>\<open>currency_precision(configured)\<close>; \<open>int(Decimal("Infinity"))\<close> raises an uncaught \<open>OverflowError\<close>.\<close>

definition clamp_precision :: "int \<Rightarrow> int" where
  "clamp_precision p = max 0 (min p MAX_CURRENCY_PRECISION)"

definition currency_precision_of :: "pyval \<Rightarrow> int res" where
  "currency_precision_of v =
     (if none_or_empty v then Inr DEFAULT_CURRENCY_PRECISION
      else case to_decimal v None of
        Inl _ \<Rightarrow> Inr DEFAULT_CURRENCY_PRECISION
      | Inr DNaN \<Rightarrow> Inr DEFAULT_CURRENCY_PRECISION
      | Inr (DInf _) \<Rightarrow> Inl (PythonError ''OverflowError'')
      | Inr (DFin r) \<Rightarrow> Inr (clamp_precision (trunc_rat r)))"

text \<open>
  \<open>quantize_money\<close> and \<open>convert_to_base\<close> on the \<open>Decimal\<close> amounts every caller passes. \<open>quantize\<close>
  raises \<open>InvalidOperation\<close> when the result needs more digits than the context has.
\<close>

definition quantize_money :: "rat \<Rightarrow> int \<Rightarrow> rat res" where
  "quantize_money amount precision =
     (let places = nat (clamp_precision precision); r = quantize places amount
      in if 10 ^ (28 - places) \<le> \<bar>r\<bar> then Inl (PythonError ''InvalidOperation'') else Inr r)"

definition convert_to_base :: "rat \<Rightarrow> rat \<Rightarrow> int \<Rightarrow> rat res" where
  "convert_to_base amount rate precision = quantize_money (dmul amount rate) precision"

section \<open>Lemmas\<close>

lemma to_decimal_PDec [simp]: "to_decimal (PDec d) x = Inr d"
  by (simp add: to_decimal_def none_or_empty_def)

lemma normalize_rate_Inr_iff:
  "normalize_rate v = Inr q \<longleftrightarrow>
     (\<exists>r. to_decimal v None = Inr (DFin r) \<and> 0 < r \<and> r \<le> MAX_RATE \<and> q = quantize rate_places r \<and> 0 < q)"
  by (auto simp: normalize_rate_def Let_def not_le split: sum.splits pydecimal.splits if_splits)

lemma normalize_rate_error:
  "normalize_rate v = Inl e \<Longrightarrow> \<exists>msg fmsg. e = ValidationFailed msg [(''exchangeRate'', fmsg)]"
  by (auto simp: normalize_rate_def rate_refusal_def RATE_FIELD_def Let_def
      split: sum.splits pydecimal.splits if_splits)

lemma MAX_RATE_places: "quantize rate_places MAX_RATE = MAX_RATE"
proof (rule quantize_exact)
  show "has_places rate_places MAX_RATE"
    by (rule has_places_mono [of 0]) (auto simp: has_places_iff MAX_RATE_def intro: exI [of _ 1000000000])
qed

lemma normalize_rate_range:
  assumes "normalize_rate v = Inr q"
  shows "0 < q" and "q \<le> MAX_RATE" and "has_places rate_places q"
proof -
  from assms obtain r where r: "r \<le> MAX_RATE" "q = quantize rate_places r" "0 < q"
    by (auto simp: normalize_rate_Inr_iff)
  show "0 < q" by fact
  show "has_places rate_places q" by (simp add: r(2))
  have "quantize rate_places r \<le> quantize rate_places MAX_RATE" using r(1) by (rule quantize_mono)
  then show "q \<le> MAX_RATE" by (simp add: r(2) MAX_RATE_places)
qed

lemma normalize_rate_stored:
  "normalize_rate v = Inr q \<Longrightarrow> normalize_rate (PDec (DFin q)) = Inr q"
  by (auto simp: normalize_rate_Inr_iff quantize_exact
      dest: normalize_rate_range [unfolded normalize_rate_Inr_iff] intro: normalize_rate_range)
    (metis normalize_rate_Inr_iff normalize_rate_range(2))

lemma document_rate_range:
  assumes "document_rate c b v = Inr q"
  shows "0 < q" and "q \<le> MAX_RATE" and "has_places rate_places q"
proof -
  have one: "has_places rate_places (1 :: rat)"
    by (rule has_places_mono [of 0]) (auto simp: has_places_iff intro: exI [of _ 1])
  have "0 < q \<and> q \<le> MAX_RATE \<and> has_places rate_places q"
  proof (cases "same_currency c b")
    case True
    with assms one show ?thesis by (simp add: document_rate_def MAX_RATE_def)
  next
    case False
    with assms have "normalize_rate v = Inr q"
      by (auto simp: document_rate_def split: if_splits)
    then show ?thesis by (blast intro: normalize_rate_range)
  qed
  then show "0 < q" "q \<le> MAX_RATE" "has_places rate_places q" by auto
qed

lemma clamp_precision_range [simp]: "0 \<le> clamp_precision p" "clamp_precision p \<le> 6"
  by (auto simp: clamp_precision_def MAX_CURRENCY_PRECISION_def)

lemma clamp_precision_idem [simp]: "clamp_precision (clamp_precision p) = clamp_precision p"
  by (simp add: clamp_precision_def MAX_CURRENCY_PRECISION_def)

lemma convert_to_base_result:
  "convert_to_base a r p = Inr b \<Longrightarrow> b = quantize (nat (clamp_precision p)) (dmul a r)"
  by (auto simp: convert_to_base_def quantize_money_def Let_def split: if_splits)

lemma same_currency_sym: "same_currency a b = same_currency b a"
  by (auto simp: same_currency_def Let_def)

end
