(* ===== verification/Tables.thy ===== *)
theory Tables
  imports Prelude
begin

text \<open>
  The object-relational layer as far as the services use it: a table is its rows in the order of
  their identifiers, with the next value of the primary-key sequence. \<open>session.get\<close> is a lookup,
  \<open>session.add\<close> appends a row under a fresh identifier, an attribute assignment puts a row back,
  \<open>session.delete\<close> and \<open>delete(...).where(...)\<close> remove rows, \<open>select(...).where(...)\<close> filters.

  The interface \<open>row_store\<close> is what a loop that loads and rewrites single rows relies on.
\<close>

section \<open>Tables\<close>

record 'r table =
  rows :: "(int \<times> 'r) list"
  next_id :: int

definition empty_table :: "'r table" where
  "empty_table = \<lparr>rows = [], next_id = 1\<rparr>"

definition t_get :: "'r table \<Rightarrow> int \<Rightarrow> 'r option" where
  "t_get t i = map_of (rows t) i"

text \<open>\<open>session.add(row)\<close> and the flush that assigns its identifier.\<close>

definition t_add :: "'r \<Rightarrow> 'r table \<Rightarrow> 'r table" where
  "t_add r t = t\<lparr>rows := rows t @ [(next_id t, r)], next_id := next_id t + 1\<rparr>"

fun t_add_all :: "'r list \<Rightarrow> 'r table \<Rightarrow> 'r table" where
  "t_add_all [] t = t"
| "t_add_all (r # rs) t = t_add_all rs (t_add r t)"

definition t_put :: "int \<Rightarrow> 'r \<Rightarrow> 'r table \<Rightarrow> 'r table" where
  "t_put i r t = t\<lparr>rows := map (\<lambda>(j, x). if j = i then (j, r) else (j, x)) (rows t)\<rparr>"

definition t_del :: "int \<Rightarrow> 'r table \<Rightarrow> 'r table" where
  "t_del i t = t\<lparr>rows := filter (\<lambda>(j, _). j \<noteq> i) (rows t)\<rparr>"

definition t_del_where :: "('r \<Rightarrow> bool) \<Rightarrow> 'r table \<Rightarrow> 'r table" where
  "t_del_where P t = t\<lparr>rows := filter (\<lambda>(_, r). \<not> P r) (rows t)\<rparr>"

definition t_where :: "('r \<Rightarrow> bool) \<Rightarrow> 'r table \<Rightarrow> (int \<times> 'r) list" where
  "t_where P t = filter (\<lambda>(_, r). P r) (rows t)"

definition t_vals :: "'r table \<Rightarrow> 'r list" where
  "t_vals t = map snd (rows t)"

text \<open>\<open>select(...).where(...)\<close> read with \<open>.scalars().first()\<close>.\<close>

definition t_first :: "('r \<Rightarrow> bool) \<Rightarrow> 'r table \<Rightarrow> (int \<times> 'r) option" where
  "t_first P t = (case t_where P t of [] \<Rightarrow> None | r # _ \<Rightarrow> Some r)"

text \<open>\<open>coalesce(sum(f), 0)\<close> over the rows that satisfy a condition.\<close>

definition t_sum :: "('r \<Rightarrow> 'a :: comm_monoid_add) \<Rightarrow> ('r \<Rightarrow> bool) \<Rightarrow> 'r table \<Rightarrow> 'a" where
  "t_sum f P t = sum_list (map f (filter P (t_vals t)))"

text \<open>Identifiers are unique and below the sequence.\<close>

definition table_ok :: "'r table \<Rightarrow> bool" where
  "table_ok t \<longleftrightarrow> distinct (map fst (rows t)) \<and> list_all (\<lambda>(i, _). i < next_id t) (rows t)"

section \<open>Laws of a table\<close>

subsection \<open>Lookup\<close>

lemma t_get_Some_rows: "t_get t i = Some r \<Longrightarrow> (i, r) \<in> set (rows t)"
  unfolding t_get_def by (rule map_of_SomeD)

lemma t_get_rows: "table_ok t \<Longrightarrow> (i, r) \<in> set (rows t) \<Longrightarrow> t_get t i = Some r"
  by (simp add: t_get_def table_ok_def map_of_is_SomeI)

lemma t_get_below: "table_ok t \<Longrightarrow> t_get t i = Some r \<Longrightarrow> i < next_id t"
  by (auto simp: table_ok_def list_all_iff dest: t_get_Some_rows)

lemma t_get_next [simp]: "table_ok t \<Longrightarrow> t_get t (next_id t) = None"
  using t_get_below by fastforce

lemma t_vals_get:
  assumes ok: "table_ok t"
  shows "r \<in> set (t_vals t) \<longleftrightarrow> (\<exists>i. t_get t i = Some r)"
proof
  assume "r \<in> set (t_vals t)"
  then obtain i where "(i, r) \<in> set (rows t)" by (auto simp: t_vals_def)
  with ok show "\<exists>i. t_get t i = Some r" by (blast intro: t_get_rows)
next
  assume "\<exists>i. t_get t i = Some r"
  then show "r \<in> set (t_vals t)" by (force simp: t_vals_def dest: t_get_Some_rows)
qed

subsection \<open>The identifiers a table may hold stay unique\<close>

lemma table_ok_empty [simp]: "table_ok empty_table"
  by (simp add: table_ok_def empty_table_def)

lemma table_ok_add [simp]: "table_ok t \<Longrightarrow> table_ok (t_add r t)"
  by (fastforce simp: table_ok_def t_add_def list_all_iff)

lemma table_ok_add_all [simp]: "table_ok t \<Longrightarrow> table_ok (t_add_all rs t)"
  by (induction rs t rule: t_add_all.induct) auto

lemma map_fst_t_put [simp]: "map fst (rows (t_put i r t)) = map fst (rows t)"
  by (auto simp: t_put_def)

lemma table_ok_put [simp]: "table_ok (t_put i r t) = table_ok t"
proof -
  have "list_all (\<lambda>(i, _). i < b) xs = list_all (\<lambda>i. i < b) (map fst xs)" for xs :: "(int \<times> 'a) list" and b
    by (induction xs) auto
  moreover have "next_id (t_put i r t) = next_id t" by (simp add: t_put_def)
  ultimately show ?thesis by (simp only: table_ok_def map_fst_t_put)
qed

lemma distinct_map_fst_filter: "distinct (map fst xs) \<Longrightarrow> distinct (map fst (filter P xs))"
  by (induction xs) auto

lemma table_ok_del [simp]: "table_ok t \<Longrightarrow> table_ok (t_del i t)"
  by (auto simp: table_ok_def t_del_def distinct_map_fst_filter list_all_iff)

lemma table_ok_del_where [simp]: "table_ok t \<Longrightarrow> table_ok (t_del_where P t)"
  by (auto simp: table_ok_def t_del_where_def distinct_map_fst_filter list_all_iff)

subsection \<open>Reading back\<close>

lemma t_get_add [simp]: "table_ok t \<Longrightarrow> t_get (t_add r t) i = (if i = next_id t then Some r else t_get t i)"
  using t_get_next [of t] by (auto simp: t_get_def t_add_def map_add_def split: option.splits)

lemma t_get_put [simp]: "t_get (t_put i r t) j = (if j = i then map_option (\<lambda>_. r) (t_get t i) else t_get t j)"
proof -
  have "map_of (map (\<lambda>(j, x). if j = i then (j, r) else (j, x)) xs) j
      = (if j = i then map_option (\<lambda>_. r) (map_of xs i) else map_of xs j)" for xs :: "(int \<times> 'a) list"
    by (induction xs) auto
  then show ?thesis by (simp add: t_get_def t_put_def)
qed

lemma t_get_del [simp]: "t_get (t_del i t) j = (if j = i then None else t_get t j)"
proof -
  have "map_of (filter (\<lambda>(j, _). j \<noteq> i) xs) j = (if j = i then None else map_of xs j)" for xs :: "(int \<times> 'a) list"
    by (induction xs) auto
  then show ?thesis by (simp add: t_get_def t_del_def)
qed

lemma t_get_del_where:
  assumes "table_ok t"
  shows "t_get (t_del_where P t) j = (case t_get t j of None \<Rightarrow> None | Some r \<Rightarrow> if P r then None else Some r)"
proof -
  have "distinct (map fst xs) \<Longrightarrow>
      map_of (filter (\<lambda>(_, r). \<not> P r) xs) j = (case map_of xs j of None \<Rightarrow> None | Some r \<Rightarrow> if P r then None else Some r)"
    for xs :: "(int \<times> 'a) list"
  proof (induction xs)
    case (Cons x xs)
    obtain k r where x: "x = (k, r)" by fastforce
    show ?case
    proof (cases "k = j")
      case True
      with Cons.prems x have "map_of xs j = None" by (auto simp: map_of_eq_None_iff)
      with Cons x True show ?thesis by auto
    qed (use Cons x in auto)
  qed simp
  with assms show ?thesis by (simp add: t_get_def t_del_where_def table_ok_def)
qed

lemma next_id_simps [simp]:
  "next_id (t_add r t) = next_id t + 1"
  "next_id (t_put i r t) = next_id t"
  "next_id (t_del i t) = next_id t"
  "next_id (t_del_where P t) = next_id t"
  by (simp_all add: t_add_def t_put_def t_del_def t_del_where_def)

subsection \<open>Values and sums\<close>

lemma t_vals_add [simp]: "t_vals (t_add r t) = t_vals t @ [r]"
  by (simp add: t_vals_def t_add_def)

lemma t_vals_add_all [simp]: "t_vals (t_add_all rs t) = t_vals t @ rs"
  by (induction rs t rule: t_add_all.induct) auto

lemma t_vals_del_where [simp]: "t_vals (t_del_where P t) = filter (\<lambda>r. \<not> P r) (t_vals t)"
  by (simp add: t_vals_def t_del_where_def filter_map comp_def case_prod_unfold)

lemma map_snd_t_where: "map snd (t_where P t) = filter P (t_vals t)"
  by (simp add: t_where_def t_vals_def filter_map comp_def case_prod_unfold)

lemma t_vals_empty [simp]: "t_vals empty_table = []"
  by (simp add: t_vals_def empty_table_def)

lemma t_sum_add: "t_sum f P (t_add r t) = t_sum f P t + (if P r then f r else 0)"
  by (simp add: t_sum_def)

lemma t_sum_add_all: "t_sum f P (t_add_all rs t) = t_sum f P t + sum_list (map f (filter P rs))"
  by (simp add: t_sum_def)

lemma t_sum_cong: "t_vals t = t_vals t' \<Longrightarrow> t_sum f P t = t_sum f P t'"
  by (simp add: t_sum_def)

lemma t_sum_del_where_disjoint:
  "(\<And>r. r \<in> set (t_vals t) \<Longrightarrow> P r \<Longrightarrow> \<not> Q r) \<Longrightarrow> t_sum f P (t_del_where Q t) = t_sum f P t"
  unfolding t_sum_def t_vals_del_where filter_filter
  by (rule arg_cong [where f = "\<lambda>xs. sum_list (map f xs)"], rule filter_cong) auto

lemma t_sum_nonneg:
  fixes f :: "'r \<Rightarrow> 'a :: ordered_comm_monoid_add"
  shows "(\<And>r. r \<in> set (t_vals t) \<Longrightarrow> P r \<Longrightarrow> 0 \<le> f r) \<Longrightarrow> 0 \<le> t_sum f P t"
  unfolding t_sum_def by (rule sum_list_nonneg_map) auto

lemma t_first_Some: "t_first P t = Some (i, r) \<Longrightarrow> (i, r) \<in> set (rows t) \<and> P r"
  unfolding t_first_def t_where_def
  by (auto split: list.splits simp: filter_eq_Cons_iff)

lemma t_first_vals: "t_first P t = Some (i, r) \<Longrightarrow> r \<in> set (t_vals t) \<and> P r"
  using t_first_Some [of P t i r] by (force simp: t_vals_def)

lemma t_first_None: "t_first P t = None \<longleftrightarrow> (\<forall>r \<in> set (t_vals t). \<not> P r)"
proof -
  have "t_first P t = None \<longleftrightarrow> t_where P t = []" by (simp add: t_first_def split: list.splits)
  also have "\<dots> \<longleftrightarrow> filter P (t_vals t) = []" by (simp flip: map_snd_t_where)
  finally show ?thesis by (simp add: filter_empty_conv)
qed

lemma t_first_get: "table_ok t \<Longrightarrow> t_first P t = Some (i, r) \<Longrightarrow> t_get t i = Some r \<and> P r"
  by (auto dest: t_first_Some intro: t_get_rows)

text \<open>The first row of a condition stays the first one when it is rewritten within the condition.\<close>

lemma t_first_put:
  assumes "table_ok t" and "t_first P t = Some (i, r)" and "P r'"
  shows "t_first P (t_put i r' t) = Some (i, r')"
proof -
  have "distinct (map fst xs) \<Longrightarrow> filter (\<lambda>(_, r). P r) xs = (i, r) # ys \<Longrightarrow>
      \<exists>zs. filter (\<lambda>(_, r). P r) (map (\<lambda>(j, x). if j = i then (j, r') else (j, x)) xs) = (i, r') # zs" for xs ys
  proof (induction xs)
    case (Cons x xs)
    obtain k y where x: "x = (k, y)" by fastforce
    show ?case
    proof (cases "P y")
      case True
      with Cons.prems x assms(3) show ?thesis by auto
    next
      case False
      with Cons.prems(2) x have "filter (\<lambda>(_, r). P r) xs = (i, r) # ys" by simp
      then have "(i, r) \<in> set (filter (\<lambda>(_, r). P r) xs)" by simp
      then have "(i, r) \<in> set xs" by simp
      with Cons.prems(1) x have "k \<noteq> i" by force
      with Cons x False show ?thesis by auto
    qed
  qed simp
  with assms(1,2) show ?thesis
    by (fastforce simp: t_first_def t_where_def table_ok_def t_put_def split: list.splits)
qed

lemma t_first_add: "t_first P t = None \<Longrightarrow> P r \<Longrightarrow> t_first P (t_add r t) = Some (next_id t, r)"
  by (simp add: t_first_def t_where_def t_add_def split: list.splits)

lemma t_first_add_Some: "t_first P t = Some x \<Longrightarrow> t_first P (t_add r t) = Some x"
  by (simp add: t_first_def t_where_def t_add_def split: list.splits)

lemma t_first_add_other: "\<not> P r \<Longrightarrow> t_first P (t_add r t) = t_first P t"
  by (simp add: t_first_def t_where_def t_add_def split: list.splits)

lemma t_first_put_other:
  assumes "table_ok t" and "t_get t i = Some r0" and "\<not> P r0" and "\<not> P r"
  shows "t_first P (t_put i r t) = t_first P t"
proof -
  have "distinct (map fst xs) \<Longrightarrow> map_of xs i = Some r0 \<Longrightarrow>
      filter (\<lambda>(_, r). P r) (map (\<lambda>(j, x). if j = i then (j, r) else (j, x)) xs) = filter (\<lambda>(_, r). P r) xs" for xs
  proof (induction xs)
    case (Cons x xs)
    obtain k y where x: "x = (k, y)" by fastforce
    show ?case
    proof (cases "k = i")
      case True
      with Cons.prems x have "y = r0" and "i \<notin> fst ` set xs" by auto
      then have "map (\<lambda>(j, x). if j = i then (j, r) else (j, x)) xs = xs"
        by (intro map_idI) force
      with x True \<open>y = r0\<close> assms(3,4) show ?thesis by simp
    qed (use Cons x in auto)
  qed simp
  with assms(1,2) show ?thesis
    by (simp add: t_first_def t_where_def t_put_def table_ok_def t_get_def)
qed

text \<open>Rewriting one row moves a sum by the difference it makes.\<close>

lemma t_sum_put:
  fixes f :: "'r \<Rightarrow> 'a :: ab_group_add"
  assumes ok: "table_ok t" and r0: "t_get t i = Some r0"
  shows "t_sum f P (t_put i r t) = t_sum f P t - (if P r0 then f r0 else 0) + (if P r then f r else 0)"
proof -
  define g where "g x = (if P x then f x else 0)" for x
  have g: "t_sum f P u = sum_list (map (g \<circ> snd) (rows u))" for u
    unfolding t_sum_def t_vals_def by (induction "rows u") (auto simp: g_def sum_list_map_filter' comp_def)
  have "distinct (map fst xs) \<Longrightarrow> (i, r0) \<in> set xs \<Longrightarrow>
      sum_list (map (g \<circ> snd) (map (\<lambda>(j, x). if j = i then (j, r) else (j, x)) xs))
      = sum_list (map (g \<circ> snd) xs) - g r0 + g r" for xs
  proof (induction xs)
    case (Cons x xs)
    obtain k y where x: "x = (k, y)" by fastforce
    show ?case
    proof (cases "k = i")
      case True
      with Cons.prems x have "y = r0" and "i \<notin> fst ` set xs" by force+
      then have "map (\<lambda>(j, x). if j = i then (j, r) else (j, x)) xs = xs"
        by (intro map_idI) force
      with x True \<open>y = r0\<close> show ?thesis by (simp add: comp_def)
    qed (use Cons x in \<open>auto simp: algebra_simps\<close>)
  qed simp
  with ok t_get_Some_rows [OF r0] show ?thesis
    by (simp add: g table_ok_def t_put_def) (simp add: g_def)
qed

section \<open>Rewriting single rows\<close>

text \<open>
  \<^verbatim>\<open>
  for x in xs:
      row = await session.get(Model, key(x))
      if row is not None:
          row.attr = ...          # upd x
  \<close>
\<close>

fun rewrite_each :: "('s \<Rightarrow> int \<Rightarrow> 'r option) \<Rightarrow> (int \<Rightarrow> 'r \<Rightarrow> 's \<Rightarrow> 's) \<Rightarrow>
    ('a \<Rightarrow> int) \<Rightarrow> ('a \<Rightarrow> 'r \<Rightarrow> 'r) \<Rightarrow> 'a list \<Rightarrow> 's \<Rightarrow> 's" where
  "rewrite_each g p key upd [] s = s"
| "rewrite_each g p key upd (x # xs) s =
     rewrite_each g p key upd xs
       (case g s (key x) of None \<Rightarrow> s | Some r \<Rightarrow> p (key x) (upd x r) s)"

locale row_store =
  fixes get :: "'s \<Rightarrow> int \<Rightarrow> 'r option"
    and put :: "int \<Rightarrow> 'r \<Rightarrow> 's \<Rightarrow> 's"
  assumes get_put: "get (put i r s) j = (if j = i then map_option (\<lambda>_. r) (get s i) else get s j)"
begin

text \<open>After the loop a row holds the updates that named it, applied in order; no other row moved.\<close>

lemma get_rewrite_each:
  "get (rewrite_each get put key upd xs s) i = map_option (fold upd (filter (\<lambda>x. key x = i) xs)) (get s i)"
proof (induction xs arbitrary: s)
  case Nil
  then show ?case by (simp add: option.map_ident)
next
  case (Cons x xs)
  show ?case
  proof (cases "get s (key x)")
    case None
    with Cons show ?thesis by (cases "key x = i") auto
  next
    case (Some r)
    with Cons show ?thesis by (cases "key x = i") (auto simp: get_put comp_def option.map_comp)
  qed
qed

lemma rewrite_each_invariant:
  assumes "I s" and "\<And>t x r. I t \<Longrightarrow> x \<in> set xs \<Longrightarrow> get t (key x) = Some r \<Longrightarrow> I (put (key x) (upd x r) t)"
  shows "I (rewrite_each get put key upd xs s)"
  using assms
proof (induction xs arbitrary: s)
  case Nil
  then show ?case by simp
next
  case (Cons x xs)
  have "I (case get s (key x) of None \<Rightarrow> s | Some r \<Rightarrow> put (key x) (upd x r) s)"
    using Cons.prems by (auto split: option.splits)
  then show ?case using Cons by simp
qed

lemma get_rewrite_each_other:
  "i \<notin> key ` set xs \<Longrightarrow> get (rewrite_each get put key upd xs s) i = get s i"
proof -
  assume "i \<notin> key ` set xs"
  then have "filter (\<lambda>x. key x = i) xs = []" by (auto simp: filter_empty_conv)
  then show ?thesis by (simp add: get_rewrite_each option.map_id)
qed

end

interpretation table_rows: row_store t_get t_put
  by unfold_locales (rule t_get_put)

section \<open>Unique indexes\<close>

text \<open>
  A row written under identifier \<open>i\<close> violates a unique index when another row has its key. The key
  is \<open>None\<close> where the index does not cover the row (a null, or outside the index condition).
\<close>

definition unique_among :: "('r \<Rightarrow> 'k option) \<Rightarrow> int \<Rightarrow> 'r \<Rightarrow> 'r table \<Rightarrow> bool" where
  "unique_among key i r t \<longleftrightarrow>
     (case key r of None \<Rightarrow> True
      | Some k \<Rightarrow> list_all (\<lambda>(j, x). j = i \<or> key x \<noteq> Some k) (rows t))"

definition unique_table :: "('r \<Rightarrow> 'k option) \<Rightarrow> 'r table \<Rightarrow> bool" where
  "unique_table key t \<longleftrightarrow> list_all (\<lambda>(i, r). unique_among key i r t) (rows t)"

definition check_unique :: "string \<Rightarrow> ('r \<Rightarrow> 'k option) \<Rightarrow> int \<Rightarrow> 'r \<Rightarrow> 'r table \<Rightarrow> unit res" where
  "check_unique name key i r t = raise_if (\<not> unique_among key i r t) (IntegrityError name)"

lemma check_unique_Inr [simp]: "check_unique n key i r t = Inr u \<longleftrightarrow> unique_among key i r t"
  by (simp add: check_unique_def)

lemma unique_among_iff:
  "unique_among key i r t \<longleftrightarrow> (\<forall>k j x. key r = Some k \<longrightarrow> (j, x) \<in> set (rows t) \<longrightarrow> key x = Some k \<longrightarrow> j = i)"
  by (auto simp: unique_among_def list_all_iff split: option.splits)

lemma unique_table_iff:
  "unique_table key t \<longleftrightarrow> (\<forall>k i x j y. (i, x) \<in> set (rows t) \<longrightarrow> (j, y) \<in> set (rows t) \<longrightarrow>
     key x = Some k \<longrightarrow> key y = Some k \<longrightarrow> i = j)"
  by (auto simp: unique_table_def list_all_iff unique_among_iff)

text \<open>A write that passes its unique index keeps the index.\<close>

lemma unique_table_add:
  assumes "unique_table key t" and "unique_among key (next_id t) r t" and "table_ok t"
  shows "unique_table key (t_add r t)"
proof -
  have "unique_among key i x (t_add r t)" if "(i, x) \<in> set (rows t)" for i x
  proof -
    have "unique_among key i x t" using assms(1) that by (auto simp: unique_table_def list_all_iff)
    moreover have "key r \<noteq> key x" if "key x = Some k" for k
    proof
      assume "key r = key x"
      with assms(2) \<open>key x = Some k\<close> \<open>(i, x) \<in> set (rows t)\<close> have "i = next_id t"
        by (auto simp: unique_among_def list_all_iff)
      with assms(3) \<open>(i, x) \<in> set (rows t)\<close> show False by (auto simp: table_ok_def list_all_iff)
    qed
    ultimately show ?thesis by (auto simp: unique_among_def t_add_def split: option.splits)
  qed
  moreover have "unique_among key (next_id t) r (t_add r t)"
    using assms(2) by (auto simp: unique_among_def t_add_def split: option.splits)
  ultimately show ?thesis by (auto simp: unique_table_def t_add_def list_all_iff)
qed

lemma unique_table_put:
  assumes "unique_table key t" and "unique_among key i r t"
  shows "unique_table key (t_put i r t)"
proof -
  have "unique_among key j x (t_put i r t)" if "(j, x) \<in> set (rows (t_put i r t))" for j x
  proof (cases "j = i")
    case True
    with that have "x = r" by (auto simp: t_put_def split: if_splits)
    with assms(2) True show ?thesis
      by (auto simp: unique_among_def t_put_def list_all_iff split: option.splits if_splits)
  next
    case False
    with that have x: "(j, x) \<in> set (rows t)" by (auto simp: t_put_def split: if_splits)
    with assms(1) have "unique_among key j x t" by (auto simp: unique_table_def list_all_iff)
    moreover have "key r \<noteq> Some k" if "i \<in> fst ` set (rows t)" "key x = Some k" for k
      using assms(2) x that False by (auto simp: unique_among_def list_all_iff)
    ultimately show ?thesis
      by (force simp: unique_among_def t_put_def list_all_iff split: option.splits if_splits)
  qed
  then show ?thesis by (auto simp: unique_table_def list_all_iff)
qed

lemma unique_table_del: "unique_table key t \<Longrightarrow> unique_table key (t_del i t)"
  unfolding unique_table_iff by (auto simp: t_del_def)

lemma unique_table_empty [simp]: "unique_table key empty_table"
  by (simp add: unique_table_def empty_table_def)

end
