(* ===== verification/FinanceModel.thy ===== *)
theory FinanceModel
  imports Calendar Fx Tables
begin

text \<open>
  The data model of \<open>modules/finance/models.py\<close>, one record per mapped class, and the database \<open>fdb\<close>
  the finance services work on, with the columns of the operations and master-data tables they
  read. Column names carry a prefix per table. Timestamps are integers; a \<open>Numeric\<close> column holds the
  rational the database keeps, so a flush rounds to the column scale and refuses a number too long
  for the column.
\<close>

section \<open>Rows\<close>

record account =
  acc_code :: string
  acc_name :: string
  acc_type :: string
  acc_parent :: "int option"
  acc_normal :: string
  acc_postable :: bool
  acc_status :: string

record fin_account =
  fa_account :: int
  fa_name :: string
  fa_type :: string
  fa_currency :: string
  fa_bank :: "string option"
  fa_masked :: "string option"
  fa_status :: string

record period =
  per_year :: int
  per_month :: int
  per_start :: date
  per_end :: date
  per_status :: string
  per_closed_by :: "int option"
  per_closed_at :: "int option"

record seqn =
  seq_type :: string
  seq_year :: int
  seq_prefix :: string
  seq_last :: int
  seq_padding :: int
  seq_status :: string

record document =
  doc_no :: string
  doc_type :: string
  doc_date :: date
  doc_posting_date :: "date option"
  doc_status :: string
  doc_party :: "int option"
  doc_order :: "int option"
  doc_currency :: string
  doc_rate :: rat
  doc_base_currency :: "string option"
  doc_description :: "string option"
  doc_reference :: "string option"
  doc_due :: "date option"
  doc_method :: "string option"
  doc_fin_account :: "int option"
  doc_value_date :: "date option"
  doc_subtotal :: rat
  doc_discount :: rat
  doc_tax :: rat
  doc_total :: rat
  doc_base_subtotal :: rat
  doc_base_discount :: rat
  doc_base_tax :: rat
  doc_base_total :: rat
  doc_paid :: rat
  doc_created_by :: "int option"
  doc_posted_by :: "int option"
  doc_posted_at :: "int option"
  doc_data :: payload

record doc_line =
  dl_document :: int
  dl_no :: int
  dl_description :: string
  dl_fee_type :: "int option"
  dl_quantity :: rat
  dl_unit_price :: rat
  dl_discount :: rat
  dl_tax_rate :: rat
  dl_tax :: rat
  dl_amount :: rat
  dl_order :: "int option"
  dl_container :: "int option"
  dl_account :: "int option"

record doc_source =
  src_document :: int
  src_type :: string
  src_id :: int
  src_relationship :: string

record allocation =
  al_payment :: int
  al_target :: int
  al_amount :: rat
  al_currency :: string
  al_rate :: rat
  al_created_by :: "int option"
  al_key :: "string option"

record posting_rule =
  pr_type :: string
  pr_fee :: "int option"
  pr_debit :: int
  pr_credit :: int
  pr_tax :: "int option"
  pr_status :: string
  pr_priority :: int
  pr_description :: "string option"

record journal =
  je_no :: string
  je_type :: string
  je_date :: date
  je_posting_date :: date
  je_period :: "int option"
  je_status :: string
  je_description :: "string option"
  je_source :: "int option"
  je_rule :: "int option"
  je_reversal_of :: "int option"
  je_created_by :: "int option"
  je_posted_by :: "int option"
  je_posted_at :: "int option"
  je_debit :: rat
  je_credit :: rat
  je_data :: payload

record jline =
  jl_journal :: int
  jl_no :: int
  jl_account :: int
  jl_party :: "int option"
  jl_order :: "int option"
  jl_document :: "int option"
  jl_description :: "string option"
  jl_debit :: rat
  jl_credit :: rat
  jl_currency :: string
  jl_rate :: rat
  jl_base_debit :: rat
  jl_base_credit :: rat

record posting =
  po_document :: int
  po_journal :: int
  po_role :: string

text \<open>The columns of other modules' tables that the finance services read.\<close>

record currency =
  cur_code :: string
  cur_places :: int
  cur_status :: string

record currency_rate =
  cr_from :: string
  cr_to :: string
  cr_rate :: rat
  cr_effective :: date
  cr_status :: string

record document_type =
  dt_code :: string
  dt_name :: string
  dt_category :: string
  dt_behavior :: string
  dt_available :: "string list"
  dt_status :: string
  dt_deleted :: bool

record party =
  pa_name :: string
  pa_status :: string

record fee_type =
  fee_code :: string
  fee_name :: string
  fee_deleted :: bool

record service_order =
  so_no :: string
  so_customer :: int
  so_currency :: string

record charge =
  ch_order :: int
  ch_no :: string
  ch_currency :: string
  ch_status :: string
  ch_subtotal :: rat
  ch_discount :: rat
  ch_tax :: rat
  ch_total :: rat

record charge_line =
  cl_charge :: int
  cl_no :: int
  cl_fee_type :: "int option"
  cl_container :: "int option"
  cl_description :: string
  cl_quantity :: rat
  cl_unit_price :: rat
  cl_discount :: rat
  cl_tax_rate :: rat
  cl_tax :: rat
  cl_amount :: rat

section \<open>The database and the request\<close>

record fdb =
  f_accounts :: "account table"
  f_fin_accounts :: "fin_account table"
  f_periods :: "period table"
  f_sequences :: "seqn table"
  f_documents :: "document table"
  f_lines :: "doc_line table"
  f_sources :: "doc_source table"
  f_allocations :: "allocation table"
  f_rules :: "posting_rule table"
  f_journals :: "journal table"
  f_jlines :: "jline table"
  f_postings :: "posting table"
  f_currencies :: "currency table"
  f_rates :: "currency_rate table"
  f_doc_types :: "document_type table"
  f_parties :: "party table"
  f_fee_types :: "fee_type table"
  f_orders :: "service_order table"
  f_charges :: "charge table"
  f_charge_lines :: "charge_line table"
  f_default_currency :: string

text \<open>What a request brings: its user, the clock, the calendar day and the year in UTC.\<close>

record request =
  rq_user :: "int option"
  rq_now :: int
  rq_today :: date
  rq_year :: int

text \<open>An operation of a service: the value it returns and the database it leaves.\<close>

type_synonym 'a service = "request \<Rightarrow> fdb \<Rightarrow> ('a \<times> fdb) res"

section \<open>Flushing a row\<close>

text \<open>\<open>x or Decimal("1")\<close>.\<close>

definition or_one :: "rat \<Rightarrow> rat" where
  "or_one x = (if x = 0 then 1 else x)"

definition numeric :: "nat \<Rightarrow> nat \<Rightarrow> rat \<Rightarrow> rat res" where
  "numeric p s x =
     (if fits_column p s (quantize s x) then Inr (quantize s x) else Inl (DataError ''numeric field overflow''))"

definition flush_line :: "doc_line \<Rightarrow> doc_line res" where
  "flush_line l =
     ebind (numeric 12 3 (dl_quantity l)) (\<lambda>q.
     ebind (numeric 19 4 (dl_unit_price l)) (\<lambda>u.
     ebind (numeric 19 4 (dl_discount l)) (\<lambda>d.
     ebind (numeric 7 4 (dl_tax_rate l)) (\<lambda>r.
     ebind (numeric 19 4 (dl_tax l)) (\<lambda>t.
     ebind (numeric 19 4 (dl_amount l)) (\<lambda>a.
       Inr (l\<lparr>dl_quantity := q, dl_unit_price := u, dl_discount := d, dl_tax_rate := r, dl_tax := t,
              dl_amount := a\<rparr>)))))))"

definition flush_document :: "document \<Rightarrow> document res" where
  "flush_document d =
     ebind (numeric 19 8 (doc_rate d)) (\<lambda>r.
     ebind (numeric 19 4 (doc_subtotal d)) (\<lambda>s.
     ebind (numeric 19 4 (doc_discount d)) (\<lambda>di.
     ebind (numeric 19 4 (doc_tax d)) (\<lambda>t.
     ebind (numeric 19 4 (doc_total d)) (\<lambda>to.
     ebind (numeric 19 4 (doc_base_subtotal d)) (\<lambda>bs.
     ebind (numeric 19 4 (doc_base_discount d)) (\<lambda>bd.
     ebind (numeric 19 4 (doc_base_tax d)) (\<lambda>bt.
     ebind (numeric 19 4 (doc_base_total d)) (\<lambda>bo.
     ebind (numeric 19 4 (doc_paid d)) (\<lambda>p.
       Inr (d\<lparr>doc_rate := r, doc_subtotal := s, doc_discount := di, doc_tax := t, doc_total := to,
              doc_base_subtotal := bs, doc_base_discount := bd, doc_base_tax := bt,
              doc_base_total := bo, doc_paid := p\<rparr>)))))))))))"

definition flush_jline :: "jline \<Rightarrow> jline res" where
  "flush_jline l =
     ebind (numeric 19 4 (jl_debit l)) (\<lambda>d.
     ebind (numeric 19 4 (jl_credit l)) (\<lambda>c.
     ebind (numeric 19 8 (jl_rate l)) (\<lambda>r.
     ebind (numeric 19 4 (jl_base_debit l)) (\<lambda>bd.
     ebind (numeric 19 4 (jl_base_credit l)) (\<lambda>bc.
       Inr (l\<lparr>jl_debit := d, jl_credit := c, jl_rate := r, jl_base_debit := bd, jl_base_credit := bc\<rparr>))))))"

definition flush_journal :: "journal \<Rightarrow> journal res" where
  "flush_journal e =
     ebind (numeric 19 4 (je_debit e)) (\<lambda>d.
     ebind (numeric 19 4 (je_credit e)) (\<lambda>c.
       Inr (e\<lparr>je_debit := d, je_credit := c\<rparr>)))"

definition flush_allocation :: "allocation \<Rightarrow> allocation res" where
  "flush_allocation a =
     ebind (numeric 19 4 (al_amount a)) (\<lambda>m.
     ebind (numeric 19 8 (al_rate a)) (\<lambda>r.
       Inr (a\<lparr>al_amount := m, al_rate := r\<rparr>)))"

section \<open>Unique indexes\<close>

definition period_key :: "period \<Rightarrow> (int \<times> int) option" where
  "period_key p = Some (per_year p, per_month p)"

definition sequence_key :: "seqn \<Rightarrow> (string \<times> int) option" where
  "sequence_key s = Some (seq_type s, seq_year s)"

definition rule_key :: "posting_rule \<Rightarrow> (string \<times> int \<times> int) option" where
  "rule_key r =
     (if pr_status r = ''ACTIVE''
      then Some (pr_type r, (case pr_fee r of None \<Rightarrow> 0 | Some i \<Rightarrow> i), pr_priority r) else None)"

section \<open>Lemmas\<close>

named_theorems flush_fields

lemma numeric_Inr_iff: "numeric p s x = Inr y \<longleftrightarrow> fits_column p s (quantize s x) \<and> y = quantize s x"
  by (auto simp: numeric_def)

lemma numeric_column: "numeric p s x = Inr y \<Longrightarrow> in_column p s y"
  by (auto simp: numeric_Inr_iff in_column_def)

lemma numeric_exact: "in_column p s x \<Longrightarrow> numeric p s x = Inr x"
  by (simp add: numeric_def in_column_def quantize_exact)

lemma or_one_pos: "0 \<le> x \<Longrightarrow> 0 < or_one x"
  by (simp add: or_one_def)

lemma flush_line_fields [flush_fields]:
  "flush_line l = Inr l' \<Longrightarrow> dl_document l' = dl_document l"
  "flush_line l = Inr l' \<Longrightarrow> dl_no l' = dl_no l"
  "flush_line l = Inr l' \<Longrightarrow> dl_tax l' = col4 (dl_tax l)"
  "flush_line l = Inr l' \<Longrightarrow> dl_amount l' = col4 (dl_amount l)"
  "flush_line l = Inr l' \<Longrightarrow> dl_account l' = dl_account l"
  "flush_line l = Inr l' \<Longrightarrow> dl_fee_type l' = dl_fee_type l"
  by (auto simp: flush_line_def ebind_Inr_iff numeric_Inr_iff)

lemma flush_document_fields [flush_fields]:
  "flush_document d = Inr d' \<Longrightarrow> doc_no d' = doc_no d"
  "flush_document d = Inr d' \<Longrightarrow> doc_type d' = doc_type d"
  "flush_document d = Inr d' \<Longrightarrow> doc_status d' = doc_status d"
  "flush_document d = Inr d' \<Longrightarrow> doc_currency d' = doc_currency d"
  "flush_document d = Inr d' \<Longrightarrow> doc_base_currency d' = doc_base_currency d"
  "flush_document d = Inr d' \<Longrightarrow> doc_party d' = doc_party d"
  "flush_document d = Inr d' \<Longrightarrow> doc_rate d' = quantize 8 (doc_rate d)"
  "flush_document d = Inr d' \<Longrightarrow> doc_total d' = col4 (doc_total d)"
  "flush_document d = Inr d' \<Longrightarrow> doc_paid d' = col4 (doc_paid d)"
  "flush_document d = Inr d' \<Longrightarrow> doc_base_total d' = col4 (doc_base_total d)"
  by (auto simp: flush_document_def ebind_Inr_iff numeric_Inr_iff)

lemma flush_document_columns:
  assumes "flush_document d = Inr d'"
  shows "money (doc_total d')" and "money (doc_paid d')" and "in_column 19 8 (doc_rate d')"
  using assms by (auto simp: flush_document_def ebind_Inr_iff dest: numeric_column)

lemma flush_jline_fields [flush_fields]:
  "flush_jline l = Inr l' \<Longrightarrow> jl_journal l' = jl_journal l"
  "flush_jline l = Inr l' \<Longrightarrow> jl_no l' = jl_no l"
  "flush_jline l = Inr l' \<Longrightarrow> jl_account l' = jl_account l"
  "flush_jline l = Inr l' \<Longrightarrow> jl_document l' = jl_document l"
  "flush_jline l = Inr l' \<Longrightarrow> jl_debit l' = col4 (jl_debit l)"
  "flush_jline l = Inr l' \<Longrightarrow> jl_credit l' = col4 (jl_credit l)"
  "flush_jline l = Inr l' \<Longrightarrow> jl_base_debit l' = col4 (jl_base_debit l)"
  "flush_jline l = Inr l' \<Longrightarrow> jl_base_credit l' = col4 (jl_base_credit l)"
  by (auto simp: flush_jline_def ebind_Inr_iff numeric_Inr_iff)

lemma flush_jline_money:
  assumes "flush_jline l = Inr l'"
  shows "money (jl_debit l')" and "money (jl_credit l')"
  using assms by (auto simp: flush_jline_def ebind_Inr_iff dest: numeric_column)

lemma flush_journal_fields [flush_fields]:
  "flush_journal e = Inr e' \<Longrightarrow> je_no e' = je_no e"
  "flush_journal e = Inr e' \<Longrightarrow> je_status e' = je_status e"
  "flush_journal e = Inr e' \<Longrightarrow> je_period e' = je_period e"
  "flush_journal e = Inr e' \<Longrightarrow> je_date e' = je_date e"
  "flush_journal e = Inr e' \<Longrightarrow> je_source e' = je_source e"
  "flush_journal e = Inr e' \<Longrightarrow> je_debit e' = col4 (je_debit e)"
  "flush_journal e = Inr e' \<Longrightarrow> je_credit e' = col4 (je_credit e)"
  by (auto simp: flush_journal_def ebind_Inr_iff numeric_Inr_iff)

lemma flush_allocation_fields [flush_fields]:
  "flush_allocation a = Inr a' \<Longrightarrow> al_payment a' = al_payment a"
  "flush_allocation a = Inr a' \<Longrightarrow> al_target a' = al_target a"
  "flush_allocation a = Inr a' \<Longrightarrow> al_amount a' = col4 (al_amount a)"
  "flush_allocation a = Inr a' \<Longrightarrow> al_key a' = al_key a"
  by (auto simp: flush_allocation_def ebind_Inr_iff numeric_Inr_iff)

end
