(* ===== verification/CurrencyRates.thy ===== *)
theory CurrencyRates
  imports FinanceModel
begin

text \<open>
  \<open>modules/master_data/currency_rates.py\<close> and the reference lookup of \<open>master_data/service.py\<close>: the
  stored rate rows, how a document finds its own rate in them, the precision of a currency, and the
  resolution of a fee-type reference.
\<close>

section \<open>Rate rows\<close>

definition RATE_STATUSES :: "string list" where
  "RATE_STATUSES = [''PENDING'', ''APPROVED'', ''INACTIVE'']"

text \<open>\<open>str(v or "").strip().upper()\<close>\<close>

definition text_code :: "pyval \<Rightarrow> string" where
  "text_code v = py_upper (py_strip (py_str (py_or v (PStr []))))"

definition normalize_rate_input :: "payload \<Rightarrow> payload res" where
  "normalize_rate_input data =
     (let from_code = text_code (dget data ''fromCurrencyCode'');
          to_code = text_code (dget data ''toCurrencyCode'')
      in if from_code = [] then Inl (ValidationFailed ''A currency is required.''
             [(''fromCurrencyCode'', ''Choose the currency being converted.'')])
         else if to_code = [] then Inl (ValidationFailed ''A currency is required.''
             [(''toCurrencyCode'', ''Choose the currency to convert into.'')])
         else if from_code = to_code then Inl (ValidationFailed ''A rate needs two different currencies.''
             [(''toCurrencyCode'', ''Choose a currency other than the first one.'')])
         else
           (let data1 = dset (dset data ''fromCurrencyCode'' (PStr from_code)) ''toCurrencyCode'' (PStr to_code)
            in ebind (if has_key data1 ''rate''
                      then (case normalize_rate (dget data1 ''rate'') of
                              Inr q \<Rightarrow> Inr (dset data1 ''rate'' (PDec (DFin q)))
                            | Inl (ValidationFailed msg errs) \<Rightarrow>
                                Inl (ValidationFailed msg
                                  [(''rate'', (case map_of errs ''exchangeRate'' of
                                                 Some (c # m) \<Rightarrow> c # m | _ \<Rightarrow> msg))])
                            | Inl e \<Rightarrow> Inl e)
                      else Inr data1) (\<lambda>data2.
                let status = py_upper (py_strip (py_str (py_or (dget data2 ''status'') (PStr ''APPROVED''))))
                in if status \<notin> set RATE_STATUSES
                   then Inl (ValidationFailed ''Unknown rate status.'' [(''status'', ''Choose one of the statuses.'')])
                   else Inr (dset data2 ''status'' (PStr status)))))"

section \<open>The newest approved rate of a pair\<close>

definition newer_rate :: "int \<times> currency_rate \<Rightarrow> int \<times> currency_rate \<Rightarrow> bool" where
  "newer_rate a b \<longleftrightarrow> cr_effective (snd b) < cr_effective (snd a)
     \<or> (cr_effective (snd a) = cr_effective (snd b) \<and> fst b < fst a)"

definition newest :: "(int \<times> currency_rate) list \<Rightarrow> (int \<times> currency_rate) option" where
  "newest xs = (case xs of [] \<Rightarrow> None
     | x # ys \<Rightarrow> Some (foldl (\<lambda>a b. if newer_rate b a then b else a) x ys))"

definition rate_covers :: "string \<Rightarrow> string \<Rightarrow> date option \<Rightarrow> currency_rate \<Rightarrow> bool" where
  "rate_covers from_currency to_currency on_date r \<longleftrightarrow>
     cr_from r = py_upper (py_strip from_currency) \<and> cr_to r = py_upper (py_strip to_currency)
     \<and> cr_status r = ''APPROVED'' \<and> pred_option (\<lambda>d. cr_effective r \<le> d) on_date"

definition latest_approved :: "string \<Rightarrow> string \<Rightarrow> date option \<Rightarrow> fdb \<Rightarrow> currency_rate option" where
  "latest_approved from_currency to_currency on_date db =
     map_option snd (newest (t_where (rate_covers from_currency to_currency on_date) (f_rates db)))"

text \<open>\<open>x is not None and x.rate > 0\<close>\<close>

definition positive_rate :: "currency_rate option \<Rightarrow> rat option" where
  "positive_rate r = (case r of Some c \<Rightarrow> if 0 < cr_rate c then Some (cr_rate c) else None | None \<Rightarrow> None)"

definition resolve_document_rate :: "string \<Rightarrow> string \<Rightarrow> date option \<Rightarrow> fdb \<Rightarrow> rat option res" where
  "resolve_document_rate document_currency base_currency on_date db =
     (let document_code = py_upper (py_strip document_currency);
          base_code = py_upper (py_strip base_currency)
      in if document_code = [] \<or> base_code = [] then Inr None
         else if same_currency (Some document_code) (Some base_code) then Inr (Some 1)
         else case positive_rate (latest_approved document_code base_code on_date db) of
           Some r \<Rightarrow> ebind (normalize_rate (PDec (DFin r))) (\<lambda>q. Inr (Some q))
         | None \<Rightarrow>
             (case positive_rate (latest_approved base_code document_code on_date db) of
                Some r \<Rightarrow> ebind (normalize_rate (PDec (DFin (ddiv 1 r)))) (\<lambda>q. Inr (Some q))
              | None \<Rightarrow> Inr None))"

section \<open>Currencies\<close>

definition is_currency :: "string \<Rightarrow> currency \<Rightarrow> bool" where
  "is_currency code c \<longleftrightarrow> cur_code c = code"

definition currency_precision :: "string \<Rightarrow> fdb \<Rightarrow> int" where
  "currency_precision code db =
     (let v = py_upper (py_strip code)
      in if v = [] then DEFAULT_CURRENCY_PRECISION
         else case t_first (is_currency v) (f_currencies db) of
           None \<Rightarrow> DEFAULT_CURRENCY_PRECISION
         | Some (i, c) \<Rightarrow> clamp_precision (cur_places c))"

definition assert_currency_code :: "pyval \<Rightarrow> string \<Rightarrow> fdb \<Rightarrow> string res" where
  "assert_currency_code code f db =
     (let v = text_code code
      in if length v \<noteq> 3 \<or> \<not> py_isalpha v
         then Inl (ValidationFailed ''A three-letter currency code is required.''
                [(f, ''Use an ISO 4217 code such as USD.'')])
         else case t_first (is_currency v) (f_currencies db) of
           Some (i, c) \<Rightarrow>
             if py_upper (cur_status c) \<noteq> ''ACTIVE''
             then Inl (ValidationFailed ''That currency is not active.'' [(f, ''Choose an active currency.'')])
             else Inr v
         | None \<Rightarrow> Inr v)"

section \<open>Fee-type references\<close>

text \<open>\<open>resolve_reference(session, "fee_type", value)\<close>: an id, digits, or a code or name.\<close>

definition resolve_fee_type :: "pyval \<Rightarrow> fdb \<Rightarrow> int option" where
  "resolve_fee_type v db =
     (if none_or_empty v then None
      else case v of
        PInt i \<Rightarrow> Some i
      | PBool b \<Rightarrow> Some (if b then 1 else 0)
      | _ \<Rightarrow>
          (let t = py_strip (py_str v)
           in if t = [] then None
              else if py_isdigit t then Some (int (digits_val t))
              else map_option fst
                (t_first (\<lambda>r. (fee_name r = t \<or> fee_code r = t) \<and> \<not> fee_deleted r) (f_fee_types db))))"

definition resolve_fee_type_id :: "pyval \<Rightarrow> pyval \<Rightarrow> fdb \<Rightarrow> int option" where
  "resolve_fee_type_id raw_id v db =
     (case (if none_or_empty raw_id then None else int_of raw_id) of
        Some i \<Rightarrow> Some i
      | None \<Rightarrow> if none_or_empty v then None else resolve_fee_type v db)"

section \<open>Lemmas\<close>

lemma newer_rate_irrefl: "\<not> newer_rate a a"
  by (simp add: newer_rate_def)

lemma lex_not_less:
  fixes d e :: "'a :: linorder" and m n :: int
  shows "\<not> (d < e \<or> (e = d \<and> n < m)) \<longleftrightarrow> e < d \<or> (e = d \<and> m \<le> n)"
  by auto

lemma not_newer_iff:
  "\<not> newer_rate a b \<longleftrightarrow> cr_effective (snd a) < cr_effective (snd b)
     \<or> (cr_effective (snd a) = cr_effective (snd b) \<and> fst a \<le> fst b)"
  unfolding newer_rate_def by (rule lex_not_less)

lemma not_newer_trans: "\<not> newer_rate a b \<Longrightarrow> \<not> newer_rate b c \<Longrightarrow> \<not> newer_rate a c"
  unfolding not_newer_iff by (elim disjE conjE) (simp_all add: order_less_trans order_trans)

lemma fold_newest:
  defines "pick \<equiv> \<lambda>a b. if newer_rate b a then b else a"
  shows "foldl pick x ys \<in> set (x # ys) \<and> (\<forall>y \<in> set (x # ys). \<not> newer_rate y (foldl pick x ys))"
proof (induction ys arbitrary: x)
  case Nil
  then show ?case by (simp add: newer_rate_irrefl)
next
  case (Cons y ys)
  let ?r = "foldl pick (pick x y) ys"
  from Cons.IH [of "pick x y"] have in_set: "?r \<in> set (pick x y # ys)"
    and max: "\<And>z. z \<in> set (pick x y # ys) \<Longrightarrow> \<not> newer_rate z ?r" by blast+
  have "\<not> newer_rate x (pick x y)" and "\<not> newer_rate y (pick x y)"
    unfolding pick_def by (auto simp: newer_rate_irrefl) (auto simp: newer_rate_def)
  with max [of "pick x y"] have "\<not> newer_rate x ?r" and "\<not> newer_rate y ?r"
    using not_newer_trans [of x "pick x y" ?r] not_newer_trans [of y "pick x y" ?r] by simp_all
  with max have "\<forall>z \<in> set (x # y # ys). \<not> newer_rate z ?r" by simp
  moreover from in_set have "?r \<in> set (x # y # ys)" by (auto simp: pick_def split: if_splits)
  ultimately show ?case by simp
qed

lemma newest_Some:
  assumes "newest xs = Some x"
  shows "x \<in> set xs" and "\<And>y. y \<in> set xs \<Longrightarrow> \<not> newer_rate y x"
proof -
  from assms obtain z ys where xs: "xs = z # ys"
    and x: "x = foldl (\<lambda>a b. if newer_rate b a then b else a) z ys"
    by (auto simp: newest_def split: list.splits)
  show "x \<in> set xs" and "\<And>y. y \<in> set xs \<Longrightarrow> \<not> newer_rate y x"
    using fold_newest [of z ys] unfolding xs x by blast+
qed

lemma newest_None: "newest xs = None \<longleftrightarrow> xs = []"
  by (simp add: newest_def split: list.splits)

lemma latest_approved_Some:
  assumes "latest_approved f t d db = Some r"
  shows "rate_covers f t d r"
    and "\<And>s. s \<in> set (t_vals (f_rates db)) \<Longrightarrow> rate_covers f t d s \<Longrightarrow> cr_effective s \<le> cr_effective r"
proof -
  from assms obtain i where i: "newest (t_where (rate_covers f t d) (f_rates db)) = Some (i, r)"
    by (auto simp: latest_approved_def)
  show "rate_covers f t d r" using newest_Some(1) [OF i] by (simp add: t_where_def)
  fix s
  assume "s \<in> set (t_vals (f_rates db))" and "rate_covers f t d s"
  then obtain j where "(j, s) \<in> set (t_where (rate_covers f t d) (f_rates db))"
    by (auto simp: t_vals_def t_where_def)
  from newest_Some(2) [OF i this] show "cr_effective s \<le> cr_effective r"
    by (auto simp: newer_rate_def)
qed

lemma latest_approved_None:
  "latest_approved f t d db = None \<longleftrightarrow> (\<forall>s \<in> set (t_vals (f_rates db)). \<not> rate_covers f t d s)"
proof -
  have "latest_approved f t d db = None \<longleftrightarrow> t_where (rate_covers f t d) (f_rates db) = []"
    by (simp add: latest_approved_def newest_None)
  also have "\<dots> \<longleftrightarrow> filter (rate_covers f t d) (t_vals (f_rates db)) = []"
    by (simp flip: map_snd_t_where)
  finally show ?thesis by (simp add: filter_empty_conv)
qed

lemma currency_precision_range [simp]: "0 \<le> currency_precision c db" "currency_precision c db \<le> 6"
  by (auto simp: currency_precision_def DEFAULT_CURRENCY_PRECISION_def Let_def split: option.splits)

text \<open>The precision is what \<open>fx.currency_precision\<close> makes of the column.\<close>

lemma currency_precision_of_column: "currency_precision_of (PInt p) = Inr (clamp_precision p)"
proof -
  have "trunc_rat (of_int p) = p"
    by (cases "0 \<le> p") (simp_all add: trunc_rat_def flip: of_int_minus)
  then show ?thesis
    by (simp add: currency_precision_of_def to_decimal_def none_or_empty_def)
qed

lemma assert_currency_code_Inr:
  assumes "assert_currency_code code f db = Inr c"
  shows "c = text_code code" and "length c = 3" and "py_isalpha c"
    and "\<And>i r. t_first (is_currency c) (f_currencies db) = Some (i, r) \<Longrightarrow> py_upper (cur_status r) = ''ACTIVE''"
  using assms by (auto simp: assert_currency_code_def Let_def split: if_splits option.splits)

lemma resolve_document_rate_range:
  assumes "resolve_document_rate c b d db = Inr (Some q)"
  shows "0 < q" and "q \<le> MAX_RATE" and "has_places rate_places q"
proof -
  have one: "has_places rate_places (1 :: rat)"
    by (rule has_places_mono [of 0]) (auto simp: has_places_iff intro: exI [of _ 1])
  have "0 < q \<and> q \<le> MAX_RATE \<and> has_places rate_places q"
    using assms one
    by (auto simp: resolve_document_rate_def Let_def ebind_Inr_iff MAX_RATE_def [symmetric]
        dest: normalize_rate_range split: if_splits option.splits)
      (auto simp: MAX_RATE_def)
  then show "0 < q" "q \<le> MAX_RATE" "has_places rate_places q" by auto
qed

end
