(* ===== verification/PostingRules.thy ===== *)
theory PostingRules
  imports FinanceModel
begin

text \<open>
  \<open>modules/finance/posting_rules.py\<close>: which accounts a document type and fee type post to. The most
  specific active rule of the highest priority wins, then the document default, then the legacy
  account codes; a priority tie is refused. Labels only decorate messages and are left out.
\<close>

section \<open>Accounts\<close>

text \<open>A mapped object carries its identifier: an account is a pair of the two.\<close>

type_synonym account_row = "int \<times> account"

definition account_by_code :: "string \<Rightarrow> fdb \<Rightarrow> account_row option" where
  "account_by_code code db = t_first (\<lambda>a. acc_code a = code) (f_accounts db)"

definition account_by_id :: "fdb \<Rightarrow> int \<Rightarrow> account_row option" where
  "account_by_id db i = map_option (Pair i) (t_get (f_accounts db) i)"

definition field_error :: "string option \<Rightarrow> string \<Rightarrow> (string \<times> string) list" where
  "field_error f msg = (case f of None \<Rightarrow> [] | Some k \<Rightarrow> [(k, msg)])"

definition validate_postable :: "account_row option \<Rightarrow> string option \<Rightarrow> account_row res" where
  "validate_postable account f =
     (case account of
        None \<Rightarrow> Inl (ValidationFailed ''No posting account could be resolved.''
                  (field_error f ''Select an active, postable account.''))
      | Some (i, a) \<Rightarrow>
          if \<not> acc_postable a
          then Inl (ValidationFailed ''The account is not postable.''
                 (field_error f ''A header account cannot receive postings.''))
          else if acc_status a \<noteq> ''ACTIVE''
          then Inl (ValidationFailed ''The account must be active.'' (field_error f ''The account is inactive.''))
          else Inr (i, a))"

section \<open>Selecting a rule\<close>

datatype rule_source = EXACT | DOCUMENT_DEFAULT | LEGACY_DEFAULT

record rule_accounts =
  ra_debit :: account_row
  ra_credit :: account_row
  ra_tax :: "account_row option"
  ra_source :: rule_source
  ra_rule_id :: "int option"
  ra_priority :: "int option"

definition rule_matches :: "string \<Rightarrow> int option \<Rightarrow> posting_rule \<Rightarrow> bool" where
  "rule_matches document_type fee_type_id r \<longleftrightarrow>
     pr_type r = document_type \<and> pr_fee r = fee_type_id \<and> pr_status r = ''ACTIVE''"

text \<open>\<open>ORDER BY priority DESC, id\<close>\<close>

definition by_priority :: "(int \<times> posting_rule) list \<Rightarrow> (int \<times> posting_rule) list" where
  "by_priority xs = sort_key (\<lambda>(_, r). - pr_priority r) (sort_key fst xs)"

definition tier :: "fdb \<Rightarrow> string \<Rightarrow> int option \<Rightarrow> (int \<times> posting_rule) option res" where
  "tier db document_type fee_type_id =
     (let matches = take 2 (by_priority (t_where (rule_matches document_type fee_type_id) (f_rules db)))
      in case matches of
           [] \<Rightarrow> Inr None
         | best # others \<Rightarrow>
             if list_ex (\<lambda>x. pr_priority (snd x) = pr_priority (snd best)) others
             then Inl (Conflict ''AMBIGUOUS_POSTING_RULE''
                    ''More than one active posting rule with the same priority matches.''
                    [(if fee_type_id \<noteq> None then ''feeTypeId'' else ''documentType'',
                      ''Two active rules share the same priority.'')])
             else Inr (Some best))"

definition select_rule :: "fdb \<Rightarrow> string \<Rightarrow> int option \<Rightarrow> (int \<times> posting_rule) option res" where
  "select_rule db document_type fee_type_id =
     ebind (if fee_type_id \<noteq> None then tier db document_type fee_type_id else Inr None) (\<lambda>exact.
       if exact \<noteq> None then Inr exact else tier db document_type None)"

definition legacy_accounts ::
    "(string \<times> string \<times> string) list \<Rightarrow> fdb \<Rightarrow> string \<Rightarrow> rule_accounts res" where
  "legacy_accounts legacy db document_type =
     (case map_of legacy document_type of
        None \<Rightarrow> Inl (ValidationFailed ''No posting rule is configured.''
                  [(''documentType'', ''Configure a posting rule for this document type before posting.'')])
      | Some (d, c) \<Rightarrow>
          ebind (validate_postable (account_by_code d db) None) (\<lambda>debit.
          ebind (validate_postable (account_by_code c db) None) (\<lambda>credit.
            Inr \<lparr>ra_debit = debit, ra_credit = credit, ra_tax = None, ra_source = LEGACY_DEFAULT,
                 ra_rule_id = None, ra_priority = None\<rparr>)))"

text \<open>\<open>PostingRuleResolver(session, legacy_defaults=legacy).resolve(...)\<close>; an id of 0 is no tax account.\<close>

definition resolve ::
    "(string \<times> string \<times> string) list \<Rightarrow> fdb \<Rightarrow> string \<Rightarrow> int option \<Rightarrow> rule_accounts res" where
  "resolve legacy db document_type fee_type_id =
     ebind (select_rule db document_type fee_type_id) (\<lambda>rule.
       case rule of
         None \<Rightarrow> legacy_accounts legacy db document_type
       | Some (i, r) \<Rightarrow>
           ebind (validate_postable (account_by_id db (pr_debit r)) None) (\<lambda>debit.
           ebind (validate_postable (account_by_id db (pr_credit r)) None) (\<lambda>credit.
           ebind (case pr_tax r of
                    None \<Rightarrow> Inr None
                  | Some x \<Rightarrow> if x = 0 then Inr None
                      else ebind (validate_postable (account_by_id db x) None) (\<lambda>t. Inr (Some t))) (\<lambda>tax.
             Inr \<lparr>ra_debit = debit, ra_credit = credit, ra_tax = tax,
                  ra_source = (if pr_fee r \<noteq> None then EXACT else DOCUMENT_DEFAULT),
                  ra_rule_id = Some i, ra_priority = Some (pr_priority r)\<rparr>))))"

definition source_text :: "rule_source \<Rightarrow> string" where
  "source_text s = (case s of EXACT \<Rightarrow> ''EXACT'' | DOCUMENT_DEFAULT \<Rightarrow> ''DOCUMENT_DEFAULT''
     | LEGACY_DEFAULT \<Rightarrow> ''LEGACY_DEFAULT'')"

definition explain :: "rule_accounts \<Rightarrow> payload" where
  "explain a =
     [(''ruleId'', (case ra_rule_id a of Some i \<Rightarrow> if i = 0 then PNone else PStr (show_int i) | None \<Rightarrow> PNone)),
      (''source'', PStr (source_text (ra_source a))),
      (''priority'', (case ra_priority a of Some p \<Rightarrow> PInt p | None \<Rightarrow> PNone)),
      (''debitAccount'', PStr (acc_code (snd (ra_debit a)))),
      (''creditAccount'', PStr (acc_code (snd (ra_credit a)))),
      (''taxAccount'', (case ra_tax a of Some t \<Rightarrow> PStr (acc_code (snd t)) | None \<Rightarrow> PNone))]"

section \<open>Lemmas\<close>

definition postable :: "account_row \<Rightarrow> bool" where
  "postable x \<longleftrightarrow> acc_postable (snd x) \<and> acc_status (snd x) = ''ACTIVE''"

lemma validate_postable_Inr_iff:
  "validate_postable x f = Inr y \<longleftrightarrow> x = Some y \<and> postable y"
  by (auto simp: validate_postable_def postable_def split: option.splits if_splits)

lemma account_by_id_Some: "account_by_id db i = Some x \<longleftrightarrow> fst x = i \<and> t_get (f_accounts db) i = Some (snd x)"
  by (cases x) (auto simp: account_by_id_def)

lemma account_by_code_Some:
  "table_ok (f_accounts db) \<Longrightarrow> account_by_code c db = Some x \<Longrightarrow>
     t_get (f_accounts db) (fst x) = Some (snd x) \<and> acc_code (snd x) = c"
  by (cases x) (auto simp: account_by_code_def dest: t_first_get)

text \<open>The rule a tier selects outranks every other rule of the tier.\<close>

lemma set_by_priority [simp]: "set (by_priority xs) = set xs"
  by (simp add: by_priority_def)

lemma length_by_priority [simp]: "length (by_priority xs) = length xs"
  by (simp add: by_priority_def)

lemma distinct_by_priority [simp]: "distinct (by_priority xs) = distinct xs"
  by (simp add: by_priority_def)

lemma sorted_by_priority: "sorted (map (\<lambda>(_, r). - pr_priority r) (by_priority xs))"
  by (simp add: by_priority_def)

lemma by_priority_Cons:
  assumes "by_priority xs = best # rest" and "y \<in> set xs"
  shows "pr_priority (snd y) \<le> pr_priority (snd best)"
proof -
  have "y = best \<or> y \<in> set rest" using assms set_by_priority [of xs] by auto
  moreover have "sorted (map (\<lambda>(_, r). - pr_priority r) (best # rest))"
    using sorted_by_priority [of xs] assms(1) by simp
  ultimately show ?thesis by (auto simp: case_prod_unfold)
qed

lemma by_priority_second:
  assumes "by_priority xs = best # snd' # rest" and "pr_priority (snd snd') \<noteq> pr_priority (snd best)"
    and "y \<in> set xs" and "y \<noteq> best"
  shows "pr_priority (snd y) < pr_priority (snd best)"
proof -
  have s: "sorted (map (\<lambda>(_, r). - pr_priority r) (best # snd' # rest))"
    using sorted_by_priority [of xs] assms(1) by simp
  then have "pr_priority (snd snd') < pr_priority (snd best)"
    using assms(2) by (auto simp: case_prod_unfold)
  moreover have "y = snd' \<or> y \<in> set rest" using assms(1,3,4) set_by_priority [of xs] by auto
  ultimately show ?thesis using s by (auto simp: case_prod_unfold)
qed

lemma distinct_t_where: "table_ok t \<Longrightarrow> distinct (t_where P t)"
  unfolding table_ok_def t_where_def by (auto intro: distinct_filter simp: distinct_map)

lemma in_t_where: "(i, r) \<in> set (t_where P t) \<longleftrightarrow> (i, r) \<in> set (rows t) \<and> P r"
  by (auto simp: t_where_def)

lemma tier_Some:
  assumes "tier db ty fee = Inr (Some (i, r))"
  shows "(i, r) \<in> set (rows (f_rules db))" and "rule_matches ty fee r"
    and "\<And>j s. (j, s) \<in> set (rows (f_rules db)) \<Longrightarrow> rule_matches ty fee s \<Longrightarrow> (j, s) \<noteq> (i, r) \<Longrightarrow>
          pr_priority s < pr_priority r"
proof -
  let ?xs = "t_where (rule_matches ty fee) (f_rules db)"
  from assms obtain rest where rest: "take 2 (by_priority ?xs) = (i, r) # rest"
    and no_tie: "\<not> list_ex (\<lambda>x. pr_priority (snd x) = pr_priority r) rest"
    by (auto simp: tier_def Let_def split: list.splits if_splits)
  then obtain tail where bp: "by_priority ?xs = (i, r) # tail" and "rest = take 1 tail"
    by (cases "by_priority ?xs") (auto simp: numeral_2_eq_2)
  then have "(i, r) \<in> set ?xs" using set_by_priority [of ?xs] by auto
  then show "(i, r) \<in> set (rows (f_rules db))" and "rule_matches ty fee r"
    by (simp_all add: in_t_where)
  fix j s
  assume "(j, s) \<in> set (rows (f_rules db))" and "rule_matches ty fee s" and ne: "(j, s) \<noteq> (i, r)"
  then have in_xs: "(j, s) \<in> set ?xs" by (simp add: in_t_where)
  then have "(j, s) \<in> set tail" using ne bp set_by_priority [of ?xs] by auto
  then obtain x tail' where tail: "tail = x # tail'" by (cases tail) auto
  with no_tie \<open>rest = take 1 tail\<close> have "pr_priority (snd x) \<noteq> pr_priority r" by simp
  with by_priority_second [of ?xs "(i, r)" x tail' "(j, s)"] bp tail in_xs ne
  show "pr_priority s < pr_priority r" by simp
qed

lemma tier_None:
  "tier db ty fee = Inr None \<longleftrightarrow> (\<forall>r \<in> set (t_vals (f_rules db)). \<not> rule_matches ty fee r)"
proof -
  let ?xs = "t_where (rule_matches ty fee) (f_rules db)"
  have "tier db ty fee = Inr None \<longleftrightarrow> by_priority ?xs = []"
    by (auto simp: tier_def Let_def split: list.splits)
  also have "\<dots> \<longleftrightarrow> ?xs = []" by (metis length_0_conv length_by_priority)
  also have "\<dots> \<longleftrightarrow> filter (rule_matches ty fee) (t_vals (f_rules db)) = []"
    by (simp flip: map_snd_t_where)
  finally show ?thesis by (simp add: filter_empty_conv)
qed

text \<open>A tie is reported exactly when two active rules of the tier share its top priority.\<close>

lemma tier_error:
  assumes ok: "table_ok (f_rules db)" and err: "tier db ty fee = Inl e"
  shows "\<exists>i r j s. i \<noteq> j \<and> t_get (f_rules db) i = Some r \<and> t_get (f_rules db) j = Some s
     \<and> rule_matches ty fee r \<and> rule_matches ty fee s \<and> pr_priority r = pr_priority s"
proof -
  let ?xs = "t_where (rule_matches ty fee) (f_rules db)"
  from err obtain best x tail where bp: "by_priority ?xs = best # x # tail"
    and tie: "pr_priority (snd x) = pr_priority (snd best)"
    by (cases "by_priority ?xs" rule: remdups_adj.cases)
      (auto simp: tier_def Let_def numeral_2_eq_2 split: if_splits)
  obtain i r j s where tx: "best = (i, r)" "x = (j, s)" by (metis surj_pair)
  have "distinct (best # x # tail)"
    using distinct_t_where [OF ok, of "rule_matches ty fee"] distinct_by_priority [of ?xs] bp by simp
  moreover have "{best, x} \<subseteq> set ?xs" using set_by_priority [of ?xs] bp by auto
  ultimately have "(i, r) \<noteq> (j, s)" "(i, r) \<in> set (rows (f_rules db))" "(j, s) \<in> set (rows (f_rules db))"
    "rule_matches ty fee r" "rule_matches ty fee s" using tx by (auto simp: in_t_where)
  moreover from this ok have "i \<noteq> j" by (metis option.inject t_get_rows)
  ultimately show ?thesis using ok tie tx by (metis snd_conv t_get_rows)
qed

lemma tier_unambiguous:
  assumes "table_ok (f_rules db)" and "unique_table rule_key (f_rules db)"
  shows "\<exists>x. tier db ty fee = Inr x"
proof (cases "tier db ty fee")
  case (Inl e)
  from tier_error [OF assms(1) Inl] obtain i r j s where "i \<noteq> j"
    and rows: "(i, r) \<in> set (rows (f_rules db))" "(j, s) \<in> set (rows (f_rules db))"
    and m: "rule_matches ty fee r" "rule_matches ty fee s" "pr_priority r = pr_priority s"
    by (metis t_get_Some_rows)
  from m have "rule_key r = rule_key s" and "rule_key r \<noteq> None"
    by (auto simp: rule_key_def rule_matches_def)
  with assms(2) rows \<open>i \<noteq> j\<close> show ?thesis unfolding unique_table_iff by (metis not_None_eq)
qed simp

lemma select_rule_exact:
  "fee \<noteq> None \<Longrightarrow> tier db ty fee = Inr (Some x) \<Longrightarrow> select_rule db ty fee = Inr (Some x)"
  by (simp add: select_rule_def)

lemma select_rule_default:
  "fee = None \<or> tier db ty fee = Inr None \<Longrightarrow> select_rule db ty fee = tier db ty None"
  by (auto simp: select_rule_def)

text \<open>Every account a resolution names was read from the chart of accounts and passed the guard.\<close>

definition chart_account :: "fdb \<Rightarrow> account_row \<Rightarrow> bool" where
  "chart_account db x \<longleftrightarrow> (\<exists>i. account_by_id db i = Some x) \<or> (\<exists>c. account_by_code c db = Some x)"

lemma resolve_accounts:
  assumes "resolve legacy db ty fee = Inr a"
  shows "postable (ra_debit a) \<and> chart_account db (ra_debit a)"
    and "postable (ra_credit a) \<and> chart_account db (ra_credit a)"
    and "pred_option (\<lambda>t. postable t \<and> chart_account db t) (ra_tax a)"
proof -
  from assms obtain rule where sel: "select_rule db ty fee = Inr rule"
    by (auto simp: resolve_def ebind_Inr_iff)
  have "(postable (ra_debit a) \<and> chart_account db (ra_debit a))
      \<and> (postable (ra_credit a) \<and> chart_account db (ra_credit a))
      \<and> pred_option (\<lambda>t. postable t \<and> chart_account db t) (ra_tax a)"
  proof (cases rule)
    case None
    with assms sel show ?thesis
      by (auto simp: resolve_def legacy_accounts_def ebind_Inr_iff validate_postable_Inr_iff
          chart_account_def split: option.splits)
  next
    case (Some ir)
    with assms sel obtain tax where "a = \<lparr>ra_debit = ra_debit a, ra_credit = ra_credit a, ra_tax = tax,
        ra_source = ra_source a, ra_rule_id = ra_rule_id a, ra_priority = ra_priority a\<rparr>"
      and d: "validate_postable (account_by_id db (pr_debit (snd ir))) None = Inr (ra_debit a)"
      and c: "validate_postable (account_by_id db (pr_credit (snd ir))) None = Inr (ra_credit a)"
      and t: "(case pr_tax (snd ir) of None \<Rightarrow> Inr None
          | Some x \<Rightarrow> if x = 0 then Inr None
              else ebind (validate_postable (account_by_id db x) None) (\<lambda>t. Inr (Some t))) = Inr tax"
      by (auto simp: resolve_def ebind_Inr_iff case_prod_unfold)
    from t have "pred_option (\<lambda>t. postable t \<and> chart_account db t) tax"
      by (auto simp: ebind_Inr_iff validate_postable_Inr_iff chart_account_def split: option.splits if_splits)
    moreover have "ra_tax a = tax" using \<open>a = _\<close> by (metis rule_accounts.select_convs(3))
    ultimately show ?thesis using d c by (auto simp: validate_postable_Inr_iff chart_account_def)
  qed
  then show "postable (ra_debit a) \<and> chart_account db (ra_debit a)"
    and "postable (ra_credit a) \<and> chart_account db (ra_credit a)"
    and "pred_option (\<lambda>t. postable t \<and> chart_account db t) (ra_tax a)" by auto
qed

lemma chart_account_exists:
  "table_ok (f_accounts db) \<Longrightarrow> chart_account db x \<Longrightarrow> t_get (f_accounts db) (fst x) = Some (snd x)"
  by (auto simp: chart_account_def account_by_id_Some dest: account_by_code_Some)

end
