(* ===== verification/Posting.thy ===== *)
theory Posting
  imports PostingRules
begin

text \<open>
  \<open>modules/finance/posting.py\<close>: how a document becomes a balanced journal draft. The service is
  handed a resolver; \<open>account_resolver\<close> is what it relies on, and the posting rules of a database
  provide it. Amounts of a document are column values, so sums are exact (\<open>sum_of_columns_exact\<close>).
\<close>

section \<open>Strategies\<close>

datatype journal_side = CONTROL_DEBIT | CONTROL_CREDIT

record strategy =
  st_side :: journal_side
  st_detailed :: bool
  st_splits_tax :: bool
  st_description :: string

definition STRATEGIES :: "(string \<times> strategy) list" where
  "STRATEGIES =
     [(''CUSTOMER_INVOICE'', \<lparr>st_side = CONTROL_DEBIT, st_detailed = True, st_splits_tax = True,
         st_description = ''Receivable control, revenue per fee line''\<rparr>),
      (''CREDIT_NOTE'', \<lparr>st_side = CONTROL_CREDIT, st_detailed = True, st_splits_tax = True,
         st_description = ''Customer credit note mirroring its invoice''\<rparr>),
      (''SUPPLIER_BILL'', \<lparr>st_side = CONTROL_CREDIT, st_detailed = True, st_splits_tax = True,
         st_description = ''Payable control, expense per fee line''\<rparr>),
      (''SUPPLIER_CREDIT_NOTE'', \<lparr>st_side = CONTROL_DEBIT, st_detailed = True, st_splits_tax = True,
         st_description = ''Supplier credit note mirroring its bill''\<rparr>),
      (''CUSTOMER_RECEIPT'', \<lparr>st_side = CONTROL_CREDIT, st_detailed = False, st_splits_tax = False,
         st_description = ''Cash received against receivable''\<rparr>),
      (''SUPPLIER_PAYMENT'', \<lparr>st_side = CONTROL_CREDIT, st_detailed = False, st_splits_tax = False,
         st_description = ''Cash paid against payable''\<rparr>),
      (''OTHER_INCOME'', \<lparr>st_side = CONTROL_DEBIT, st_detailed = False, st_splits_tax = False,
         st_description = ''Other income''\<rparr>),
      (''OTHER_EXPENSE'', \<lparr>st_side = CONTROL_CREDIT, st_detailed = False, st_splits_tax = False,
         st_description = ''Other expense''\<rparr>),
      (''TRANSFER'', \<lparr>st_side = CONTROL_DEBIT, st_detailed = False, st_splits_tax = False,
         st_description = ''Transfer between own accounts''\<rparr>),
      (''ADJUSTMENT'', \<lparr>st_side = CONTROL_CREDIT, st_detailed = False, st_splits_tax = False,
         st_description = ''Adjustment''\<rparr>)]"

definition ALLOCATABLE_TYPES :: "string list" where
  "ALLOCATABLE_TYPES = [''CUSTOMER_INVOICE'', ''SUPPLIER_BILL'']"

definition DEFAULT_STRATEGY :: strategy where
  "DEFAULT_STRATEGY = \<lparr>st_side = CONTROL_DEBIT, st_detailed = False, st_splits_tax = False,
     st_description = ''Default two-sided entry''\<rparr>"

definition strategy_for :: "string \<Rightarrow> strategy" where
  "strategy_for document_type =
     (case map_of STRATEGIES (py_upper document_type) of Some s \<Rightarrow> s | None \<Rightarrow> DEFAULT_STRATEGY)"

definition line_detail_is_credit :: "string \<Rightarrow> bool" where
  "line_detail_is_credit document_type \<longleftrightarrow> st_side (strategy_for document_type) = CONTROL_DEBIT"

section \<open>Drafts\<close>

record line_input =
  li_description :: string
  li_amount :: rat
  li_tax :: rat
  li_fee_type :: "int option"
  li_account :: "int option"

record draft_line =
  dr_account :: account_row
  dr_amount :: rat
  dr_debit :: bool
  dr_description :: string

record draft =
  jd_lines :: "draft_line list"
  jd_rule_id :: "int option"
  jd_resolution :: payload

definition side_total :: "bool \<Rightarrow> draft_line list \<Rightarrow> rat" where
  "side_total debit ls = sum_list (map dr_amount (filter (\<lambda>l. dr_debit l = debit) ls))"

definition debit_total :: "draft \<Rightarrow> rat" where
  "debit_total d = side_total True (jd_lines d)"

definition credit_total :: "draft \<Rightarrow> rat" where
  "credit_total d = side_total False (jd_lines d)"

text \<open>\<open>JournalDraft.add\<close>: a zero or negative amount adds nothing.\<close>

definition add_line :: "account_row \<Rightarrow> rat \<Rightarrow> bool \<Rightarrow> string \<Rightarrow> draft_line list \<Rightarrow> draft_line list" where
  "add_line account amount debit description ls =
     (if amount \<le> 0 then ls
      else ls @ [\<lparr>dr_account = account, dr_amount = amount, dr_debit = debit, dr_description = description\<rparr>])"

definition assert_balanced :: "draft \<Rightarrow> unit res" where
  "assert_balanced d =
     raise_if (debit_total d \<noteq> credit_total d)
       (Conflict ''JOURNAL_UNBALANCED'' ''The generated journal is not balanced.''
          [(''total'', ''Debits do not equal credits.'')])"

section \<open>Building a draft\<close>

type_synonym rule_lookup = "string \<Rightarrow> int option \<Rightarrow> rule_accounts res"
type_synonym account_lookup = "int \<Rightarrow> account_row option"

definition detail_account :: "rule_lookup \<Rightarrow> account_lookup \<Rightarrow> string \<Rightarrow> line_input \<Rightarrow> account_row res" where
  "detail_account rules accounts document_type line =
     (case li_account line of
        Some i \<Rightarrow> require_some (accounts i)
                   (ValidationFailed ''A document line references an account that no longer exists.''
                      [(''lines'', ''Remove the line or pick another account.'')])
      | None \<Rightarrow>
          ebind (rules document_type (li_fee_type line)) (\<lambda>a.
            Inr (if line_detail_is_credit document_type then ra_credit a else ra_debit a)))"

definition detail_account_code :: "rule_lookup \<Rightarrow> account_lookup \<Rightarrow> string \<Rightarrow> line_input \<Rightarrow> string option res" where
  "detail_account_code rules accounts document_type line =
     (case detail_account rules accounts document_type line of
        Inr x \<Rightarrow> Inr (Some (acc_code (snd x)))
      | Inl (ValidationFailed _ _) \<Rightarrow> Inr None
      | Inl (Conflict _ _ _) \<Rightarrow> Inr None
      | Inl e \<Rightarrow> Inl e)"

text \<open>One turn of the loop over the document lines; the flag is \<open>resolved_any\<close>.\<close>

definition add_detail :: "rule_lookup \<Rightarrow> account_lookup \<Rightarrow> strategy \<Rightarrow> string \<Rightarrow> account_row option \<Rightarrow> string \<Rightarrow>
    line_input \<Rightarrow> draft_line list \<times> bool \<Rightarrow> (draft_line list \<times> bool) res" where
  "add_detail rules accounts plan document_type tax_account description line st =
     (let (ls, resolved_any) = st;
          detail_is_credit = (st_side plan = CONTROL_DEBIT);
          line_description = (if li_description line \<noteq> [] then li_description line else description);
          (ls, amount) =
            (case tax_account of
               Some t \<Rightarrow>
                 if st_splits_tax plan
                 then (let tax = min (li_tax line) (li_amount line)
                       in (if 0 < tax then add_line t tax (\<not> detail_is_credit) (''Tax: '' @ line_description) ls
                           else ls, li_amount line - tax))
                 else (ls, li_amount line)
             | None \<Rightarrow> (ls, li_amount line))
      in if amount \<le> 0 then Inr (ls, resolved_any)
         else ebind (detail_account rules accounts document_type line) (\<lambda>account.
                Inr (add_line account amount (\<not> detail_is_credit) line_description ls, True)))"

definition add_detailed :: "rule_lookup \<Rightarrow> account_lookup \<Rightarrow> strategy \<Rightarrow> string \<Rightarrow> rat \<Rightarrow> line_input list \<Rightarrow>
    rule_accounts \<Rightarrow> string \<Rightarrow> draft_line list res" where
  "add_detailed rules accounts plan document_type tot lines control description =
     (let detail_is_credit = (st_side plan = CONTROL_DEBIT);
          ls = add_line (if detail_is_credit then ra_debit control else ra_credit control) tot
                 detail_is_credit description []
      in ebind (efold (add_detail rules accounts plan document_type (ra_tax control) description) lines (ls, False))
           (\<lambda>(ls, resolved_any).
             Inr (if resolved_any then ls else add_line (ra_credit control) tot False description ls)))"

definition add_two_sided :: "rule_accounts \<Rightarrow> rat \<Rightarrow> string \<Rightarrow> draft_line list" where
  "add_two_sided control tot description =
     add_line (ra_credit control) tot False description
       (add_line (ra_debit control) tot True description [])"

definition side_text :: "journal_side \<Rightarrow> string" where
  "side_text s = (case s of CONTROL_DEBIT \<Rightarrow> ''CONTROL_DEBIT'' | CONTROL_CREDIT \<Rightarrow> ''CONTROL_CREDIT'')"

definition build :: "rule_lookup \<Rightarrow> account_lookup \<Rightarrow> string \<Rightarrow> rat \<Rightarrow> line_input list \<Rightarrow> string \<Rightarrow> draft res" where
  "build rules accounts document_type0 tot lines description =
     (let document_type = py_upper document_type0; plan = strategy_for document_type
      in if tot \<le> 0
         then Inl (ValidationFailed ''Document total must be greater than zero before posting.''
                [(''total'', ''Enter a total greater than zero.'')])
         else ebind (rules document_type None) (\<lambda>control.
              ebind (if st_detailed plan \<and> lines \<noteq> []
                     then add_detailed rules accounts plan document_type tot lines control description
                     else Inr (add_two_sided control tot description)) (\<lambda>ls.
                let d = \<lparr>jd_lines = ls, jd_rule_id = ra_rule_id control,
                      jd_resolution = explain control @ [(''strategy'', PStr (st_description plan)),
                        (''side'', PStr (side_text (st_side plan)))]\<rparr>
                in ebind (assert_balanced d) (\<lambda>_. Inr d))))"

section \<open>Lemmas on drafts\<close>

lemma side_total_simps [simp]:
  "side_total b [] = 0"
  "side_total b (ls @ ks) = side_total b ls + side_total b ks"
  "side_total b [l] = (if dr_debit l = b then dr_amount l else 0)"
  by (simp_all add: side_total_def)

lemma side_total_add_line:
  "side_total b (add_line a m d t ls) = side_total b ls + (if d = b \<and> 0 < m then m else 0)"
  by (simp add: add_line_def)

lemma add_line_set: "set (add_line a m d t ls) \<subseteq> insert \<lparr>dr_account = a, dr_amount = m, dr_debit = d, dr_description = t\<rparr> (set ls)"
  by (auto simp: add_line_def)

text \<open>Every line of a draft carries a positive amount.\<close>

definition positive_lines :: "draft_line list \<Rightarrow> bool" where
  "positive_lines ls \<longleftrightarrow> list_all (\<lambda>l. 0 < dr_amount l) ls"

lemma positive_add_line [simp]: "positive_lines ls \<Longrightarrow> positive_lines (add_line a m d t ls)"
  by (auto simp: positive_lines_def add_line_def)

lemma positive_Nil [simp]: "positive_lines []"
  by (simp add: positive_lines_def)

lemma side_total_nonneg: "positive_lines ls \<Longrightarrow> 0 \<le> side_total b ls"
  unfolding side_total_def positive_lines_def
  by (rule sum_list_nonneg_map) (auto simp: list_all_iff intro: less_imp_le)

text \<open>An entry that balances on a positive total has a line on each side.\<close>

lemma side_total_pos_line: "0 < side_total b ls \<Longrightarrow> \<exists>l \<in> set ls. dr_debit l = b"
  unfolding side_total_def by (induction ls) (auto split: if_splits)

lemma two_sides_two_lines:
  assumes "0 < side_total True ls" and "0 < side_total False ls"
  shows "2 \<le> length ls"
proof -
  from assms obtain l k where "l \<in> set ls" "dr_debit l" "k \<in> set ls" "\<not> dr_debit k"
    using side_total_pos_line by metis
  then show ?thesis by (cases ls rule: remdups_adj.cases) auto
qed

subsection \<open>What a document line contributes\<close>

text \<open>
  With a tax that is not negative a line adds exactly its positive amount to the detail side, tax
  split out or not, and nothing to the control side.
\<close>

lemma add_detail_totals:
  assumes "add_detail rules accounts plan ty tax desc line (ls, r) = Inr (ls', r')" and "0 \<le> li_tax line"
  shows "side_total b ls' = side_total b ls
           + (if b = (st_side plan \<noteq> CONTROL_DEBIT) then max 0 (li_amount line) else 0)"
proof (cases "st_splits_tax plan \<and> tax \<noteq> None")
  case True
  then obtain t where t: "tax = Some t" "st_splits_tax plan" by auto
  show ?thesis
    using assms unfolding add_detail_def t Let_def
    by (cases "li_tax line \<le> li_amount line"; cases "0 < li_amount line")
      (auto simp: t(2) ebind_Inr_iff side_total_add_line min_def max_def split: if_splits)
next
  case False
  with assms show ?thesis
    unfolding add_detail_def Let_def
    by (cases tax; cases "0 < li_amount line")
      (auto simp: ebind_Inr_iff side_total_add_line max_def split: if_splits)
qed

lemma add_detail_positive:
  "add_detail rules accounts plan ty tax desc line (ls, r) = Inr (ls', r') \<Longrightarrow> positive_lines ls \<Longrightarrow> positive_lines ls'"
  by (auto simp: add_detail_def Let_def ebind_Inr_iff split: option.splits if_splits)

lemma add_detail_flag:
  "add_detail rules accounts plan ty tax desc line (ls, r) = Inr (ls', r') \<Longrightarrow> r \<Longrightarrow> r'"
  by (auto simp: add_detail_def Let_def ebind_Inr_iff split: option.splits if_splits)

lemma add_details_totals:
  assumes "efold (add_detail rules accounts plan ty tax desc) lines (ls, r) = Inr (ls', r')"
    and "\<And>l. l \<in> set lines \<Longrightarrow> 0 \<le> li_tax l"
  shows "side_total b ls' = side_total b ls
           + (if b = (st_side plan \<noteq> CONTROL_DEBIT) then \<Sum>l\<leftarrow>lines. max 0 (li_amount l) else 0)"
  using assms
proof (induction lines arbitrary: ls r)
  case Nil
  then show ?case by simp
next
  case (Cons l lines)
  from Cons.prems(1) obtain ks q
    where step: "add_detail rules accounts plan ty tax desc l (ls, r) = Inr (ks, q)"
      and rest: "efold (add_detail rules accounts plan ty tax desc) lines (ks, q) = Inr (ls', r')"
    by (auto simp: ebind_Inr_iff)
  from Cons.IH [OF rest] add_detail_totals [OF step, of b] Cons.prems(2) show ?case by auto
qed

text \<open>The lines of a draft, without the case distinction on the strategy.\<close>

definition draft_lines ::
    "rule_lookup \<Rightarrow> account_lookup \<Rightarrow> strategy \<Rightarrow> string \<Rightarrow> rat \<Rightarrow> line_input list \<Rightarrow> rule_accounts \<Rightarrow> string \<Rightarrow>
     draft_line list res" where
  "draft_lines rules accounts plan ty tot lines control desc =
     (if st_detailed plan \<and> lines \<noteq> [] then add_detailed rules accounts plan ty tot lines control desc
      else Inr (add_two_sided control tot desc))"

lemma build_Inr:
  assumes "build rules accounts ty tot lines desc = Inr d"
  obtains control where "0 < tot" and "rules (py_upper ty) None = Inr control"
    and "draft_lines rules accounts (strategy_for (py_upper ty)) (py_upper ty) tot lines control desc = Inr (jd_lines d)"
    and "debit_total d = credit_total d" and "jd_rule_id d = ra_rule_id control"
proof -
  from assms obtain control ls where c: "rules (py_upper ty) None = Inr control"
    and ls: "draft_lines rules accounts (strategy_for (py_upper ty)) (py_upper ty) tot lines control desc = Inr ls"
    and d: "jd_lines d = ls" "jd_rule_id d = ra_rule_id control" "debit_total d = credit_total d" and "0 < tot"
    unfolding build_def Let_def draft_lines_def [symmetric]
    by (auto simp: ebind_Inr_iff assert_balanced_def not_le split: if_splits)
  then show ?thesis by (intro that) auto
qed

lemma add_detailed_Inr:
  assumes "add_detailed rules accounts plan ty tot lines control desc = Inr ls"
  obtains ks r where "efold (add_detail rules accounts plan ty (ra_tax control) desc) lines
        (add_line (if st_side plan = CONTROL_DEBIT then ra_debit control else ra_credit control) tot
           (st_side plan = CONTROL_DEBIT) desc [], False) = Inr (ks, r)"
    and "ls = (if r then ks else add_line (ra_credit control) tot False desc ks)"
  using assms by (auto simp: add_detailed_def Let_def ebind_Inr_iff)

lemma draft_lines_positive:
  assumes "draft_lines rules accounts plan ty tot lines control desc = Inr ls"
  shows "positive_lines ls"
proof (cases "st_detailed plan \<and> lines \<noteq> []")
  case True
  with assms obtain ks r where e: "efold (add_detail rules accounts plan ty (ra_tax control) desc) lines
        (add_line (if st_side plan = CONTROL_DEBIT then ra_debit control else ra_credit control) tot
           (st_side plan = CONTROL_DEBIT) desc [], False) = Inr (ks, r)"
    and ls: "ls = (if r then ks else add_line (ra_credit control) tot False desc ks)"
    by (auto simp: draft_lines_def elim: add_detailed_Inr)
  have "positive_lines (fst (ks, r))"
    by (rule efold_invariant [where I = "\<lambda>st. positive_lines (fst st)", OF e])
      (auto intro: add_detail_positive)
  with ls show ?thesis by simp
qed (use assms in \<open>auto simp: draft_lines_def add_two_sided_def\<close>)

text \<open>
  What the two sides sum to. With a debit control account the debit side is the total of the
  document, whatever its lines are; the credit side is the sum of the positive line amounts, unless
  every line was all tax, when the fallback adds the total once more.
\<close>

lemma draft_lines_totals:
  assumes "draft_lines rules accounts plan ty tot lines control desc = Inr ls" and "0 < tot"
    and "\<And>l. l \<in> set lines \<Longrightarrow> 0 \<le> li_tax l"
  defines "net \<equiv> \<Sum>l\<leftarrow>lines. max 0 (li_amount l)"
  shows "\<exists>r. side_total True ls = (if \<not> (st_detailed plan \<and> lines \<noteq> []) \<or> st_side plan = CONTROL_DEBIT then tot else net)
    \<and> side_total False ls = (if \<not> (st_detailed plan \<and> lines \<noteq> []) then tot
         else (if st_side plan = CONTROL_DEBIT then net else tot) + (if r then 0 else tot))"
proof (cases "st_detailed plan \<and> lines \<noteq> []")
  case True
  with assms(1) obtain ks r where e: "efold (add_detail rules accounts plan ty (ra_tax control) desc) lines
        (add_line (if st_side plan = CONTROL_DEBIT then ra_debit control else ra_credit control) tot
           (st_side plan = CONTROL_DEBIT) desc [], False) = Inr (ks, r)"
    and ls: "ls = (if r then ks else add_line (ra_credit control) tot False desc ks)"
    by (auto simp: draft_lines_def elim: add_detailed_Inr)
  from add_details_totals [OF e assms(3)] True assms(2) show ?thesis
    by (intro exI [of _ r]) (auto simp: ls side_total_add_line net_def)
qed (use assms in \<open>auto simp: draft_lines_def add_two_sided_def side_total_add_line\<close>)

lemma draft_control_side:
  assumes "draft_lines rules accounts plan ty tot lines control desc = Inr ls" and "0 < tot"
    and "\<And>l. l \<in> set lines \<Longrightarrow> 0 \<le> li_tax l"
  shows "tot \<le> side_total True ls \<or> tot \<le> side_total False ls"
  using draft_lines_totals [OF assms] assms(2) by (auto split: if_splits)

section \<open>The contract with the resolver\<close>

locale account_resolver =
  fixes rules :: rule_lookup
    and accounts :: account_lookup
    and known :: "account_row \<Rightarrow> bool"
    and good :: "account_row \<Rightarrow> bool"
  assumes rules_known: "rules ty fee = Inr a \<Longrightarrow> known (ra_debit a) \<and> known (ra_credit a) \<and> pred_option known (ra_tax a)"
    and rules_good: "rules ty fee = Inr a \<Longrightarrow> good (ra_debit a) \<and> good (ra_credit a) \<and> pred_option good (ra_tax a)"
    and accounts_known: "accounts i = Some x \<Longrightarrow> known x \<and> fst x = i"
begin

text \<open>An account of a draft is known, and good unless a document line named it.\<close>

definition allowed :: "line_input list \<Rightarrow> account_row \<Rightarrow> bool" where
  "allowed lines x \<longleftrightarrow> known x \<and> (good x \<or> (\<exists>l \<in> set lines. li_account l = Some (fst x)))"

lemma rules_allowed:
  assumes "rules ty fee = Inr a"
  shows "allowed lines (ra_debit a)" and "allowed lines (ra_credit a)" and "pred_option (allowed lines) (ra_tax a)"
  using rules_known [OF assms] rules_good [OF assms] by (auto simp: allowed_def option.pred_set)

lemma detail_account_allowed:
  assumes "detail_account rules accounts ty line = Inr x" and "line \<in> set lines"
  shows "allowed lines x"
proof (cases "li_account line")
  case None
  with assms(1) show ?thesis
    by (auto simp: detail_account_def ebind_Inr_iff dest: rules_allowed [where lines = lines] split: if_splits)
next
  case (Some i)
  with assms(1) have "accounts i = Some x" by (simp add: detail_account_def)
  with accounts_known [of i x] Some assms(2) show ?thesis by (auto simp: allowed_def)
qed

lemma add_line_allowed:
  "allowed lines a \<Longrightarrow> (\<And>l. l \<in> set ls \<Longrightarrow> allowed lines (dr_account l)) \<Longrightarrow>
     l \<in> set (add_line a m d t ls) \<Longrightarrow> allowed lines (dr_account l)"
  using add_line_set [of a m d t ls] by auto

lemma draft_accounts:
  assumes "draft_lines rules accounts plan ty tot lines control desc = Inr ls"
    and "rules ty None = Inr control" and "l \<in> set ls"
  shows "allowed lines (dr_account l)"
proof (cases "st_detailed plan \<and> lines \<noteq> []")
  case True
  note ctl = rules_allowed [OF assms(2), of lines]
  define I where "I st \<longleftrightarrow> (\<forall>l \<in> set (fst st). allowed lines (dr_account l))"
    for st :: "draft_line list \<times> bool"
  from assms(1) True obtain ks r where e: "efold (add_detail rules accounts plan ty (ra_tax control) desc) lines
        (add_line (if st_side plan = CONTROL_DEBIT then ra_debit control else ra_credit control) tot
           (st_side plan = CONTROL_DEBIT) desc [], False) = Inr (ks, r)"
    and ls: "ls = (if r then ks else add_line (ra_credit control) tot False desc ks)"
    by (auto simp: draft_lines_def elim: add_detailed_Inr)
  have "I (ks, r)"
  proof (rule efold_invariant [OF e])
    show "I (add_line (if st_side plan = CONTROL_DEBIT then ra_debit control else ra_credit control) tot
           (st_side plan = CONTROL_DEBIT) desc [], False)"
      using ctl by (auto simp: I_def add_line_def)
    fix x t t'
    assume x: "x \<in> set lines" and I: "I t" and step: "add_detail rules accounts plan ty (ra_tax control) desc x t = Inr t'"
    obtain us q us' q' where tt: "t = (us, q)" "t' = (us', q')" by (metis surj_pair)
    have tax: "\<And>a. ra_tax control = Some a \<Longrightarrow> allowed lines a" using ctl(3) by simp
    show "I t'"
      using step I unfolding tt add_detail_def Let_def
      by (auto simp: I_def ebind_Inr_iff add_line_def tax detail_account_allowed [OF _ x]
          split: option.splits if_splits)
  qed
  with ls ctl(2) assms(3) show ?thesis by (auto simp: I_def add_line_def split: if_splits)
next
  case False
  with assms rules_allowed [OF assms(2), of lines] show ?thesis
    by (auto simp: draft_lines_def add_two_sided_def add_line_def split: if_splits)
qed

lemma build_draft:
  assumes "build rules accounts ty tot lines desc = Inr d" and "\<And>l. l \<in> set lines \<Longrightarrow> 0 \<le> li_tax l"
  shows "debit_total d = credit_total d" and "0 < debit_total d" and "2 \<le> length (jd_lines d)"
    and "positive_lines (jd_lines d)" and "\<And>l. l \<in> set (jd_lines d) \<Longrightarrow> allowed lines (dr_account l)"
proof -
  obtain control where tot: "0 < tot" and c: "rules (py_upper ty) None = Inr control"
    and ls: "draft_lines rules accounts (strategy_for (py_upper ty)) (py_upper ty) tot lines control desc = Inr (jd_lines d)"
    and bal: "debit_total d = credit_total d"
    by (rule build_Inr [OF assms(1)])
  show "debit_total d = credit_total d" by (rule bal)
  show pos: "0 < debit_total d"
    using draft_control_side [OF ls tot assms(2)] bal tot by (auto simp: debit_total_def credit_total_def)
  then show "2 \<le> length (jd_lines d)"
    using bal two_sides_two_lines [of "jd_lines d"] by (simp add: debit_total_def credit_total_def)
  show "positive_lines (jd_lines d)" by (rule draft_lines_positive [OF ls])
  show "\<And>l. l \<in> set (jd_lines d) \<Longrightarrow> allowed lines (dr_account l)" by (rule draft_accounts [OF ls c])
qed

end

text \<open>The posting rules of a database are such a resolver: known accounts are rows of its chart, good
  ones are postable and active.\<close>

interpretation chart: account_resolver "resolve legacy db" "account_by_id db" "chart_account db" postable
  for legacy db
proof unfold_locales
  fix ty fee a
  assume "resolve legacy db ty fee = Inr a"
  from resolve_accounts [OF this]
  show "chart_account db (ra_debit a) \<and> chart_account db (ra_credit a) \<and> pred_option (chart_account db) (ra_tax a)"
    and "postable (ra_debit a) \<and> postable (ra_credit a) \<and> pred_option postable (ra_tax a)"
    by (auto simp: option.pred_set)
next
  fix i x
  assume "account_by_id db i = Some x"
  then show "chart_account db x \<and> fst x = i"
    by (auto simp: chart_account_def account_by_id_Some)
qed

end
