(* ===== verification/Sequences.thy ===== *)
theory Sequences
  imports FinanceModel FinanceSchemas
begin

text \<open>
  \<open>backend/app/core/sequences.py\<close> and the sequence administration of \<open>finance/service.py\<close>: the
  counter behind every document number, and the interface \<open>number_source\<close> its users rely on.
\<close>

section \<open>Allocating a number\<close>

definition DEFAULT_PREFIXES :: "(string \<times> string) list" where
  "DEFAULT_PREFIXES =
     [(''QUOTATION'', ''Q''), (''SERVICE_ORDER'', ''SO''), (''SERVICE_CHARGE'', ''SC''),
      (''CUSTOMER_INVOICE'', ''INV''), (''CREDIT_NOTE'', ''CN''), (''SUPPLIER_BILL'', ''BILL''),
      (''SUPPLIER_CREDIT_NOTE'', ''SCN''), (''CUSTOMER_RECEIPT'', ''REC''),
      (''SUPPLIER_PAYMENT'', ''PAY''), (''JOURNAL'', ''JE'')]"

definition is_sequence :: "string \<Rightarrow> int \<Rightarrow> seqn \<Rightarrow> bool" where
  "is_sequence ty y s \<longleftrightarrow> seq_type s = ty \<and> seq_year s = y"

definition number_text :: "string \<Rightarrow> int \<Rightarrow> int \<Rightarrow> int \<Rightarrow> string" where
  "number_text prefix year padding n = prefix @ show_int year @ ''-'' @ zfill (show_int n) (nat padding)"

definition new_sequence :: "string \<Rightarrow> string option \<Rightarrow> int \<Rightarrow> seqn" where
  "new_sequence document_type prefix period_year =
     \<lparr>seq_type = document_type, seq_year = period_year,
      seq_prefix = (case prefix of
          Some (c # p) \<Rightarrow> c # p
        | _ \<Rightarrow> (case map_of DEFAULT_PREFIXES document_type of
                 Some p \<Rightarrow> p | None \<Rightarrow> take 2 document_type)),
      seq_last = 0, seq_padding = 6, seq_status = ''ACTIVE''\<rparr>"

definition allocate_number ::
    "string \<Rightarrow> string option \<Rightarrow> int option \<Rightarrow> request \<Rightarrow> fdb \<Rightarrow> string \<times> fdb" where
  "allocate_number document_type prefix year rq db =
     (let period_year = (case year of Some y \<Rightarrow> if y = 0 then rq_year rq else y | None \<Rightarrow> rq_year rq);
          t = f_sequences db;
          (i, s, t') =
            (case t_first (is_sequence document_type period_year) t of
               Some (i, s) \<Rightarrow> (i, s, t)
             | None \<Rightarrow> (let s = new_sequence document_type prefix period_year in (next_id t, s, t_add s t)));
          s' = s\<lparr>seq_last := seq_last s + 1\<rparr>
      in (number_text (seq_prefix s') period_year (seq_padding s') (seq_last s'),
          db\<lparr>f_sequences := t_put i s' t'\<rparr>))"

section \<open>Administering a sequence\<close>

definition sequence_preview :: "seqn \<Rightarrow> string" where
  "sequence_preview s = number_text (seq_prefix s) (seq_year s) (seq_padding s) (seq_last s + 1)"

definition py_capitalize :: "string \<Rightarrow> string" where
  "py_capitalize s = (case s of [] \<Rightarrow> [] | c # r \<Rightarrow> upper_char c # py_lower r)"

definition status_label :: "string \<Rightarrow> string" where
  "status_label s = (if py_isupper s then py_capitalize s else s)"

definition sequence_payload :: "int \<times> seqn \<Rightarrow> payload" where
  "sequence_payload r =
     (case r of (i, s) \<Rightarrow>
       [(''id'', PStr (show_int i)), (''documentType'', PStr (seq_type s)), (''year'', PInt (seq_year s)),
        (''prefix'', PStr (seq_prefix s)), (''lastValue'', PInt (seq_last s)),
        (''paddingLength'', PInt (seq_padding s)), (''nextNumberPreview'', PStr (sequence_preview s)),
        (''status'', PStr (status_label (seq_status s)))])"

text \<open>\<open>int(v)\<close> on a value the schema has made an integer or null.\<close>

definition py_int :: "pyval \<Rightarrow> int res" where
  "py_int v = require_some (int_of v) (PythonError ''TypeError'')"

definition upsert_sequence :: "payload \<Rightarrow> payload service" where
  "upsert_sequence data0 rq db =
     ebind (validate_schema SEQUENCE_WRITE_SCHEMA data0 False) (\<lambda>data.
     ebind (py_int (py_or (dget data ''year'') (PInt (rq_year rq)))) (\<lambda>year.
       let document_type = py_upper (py_str (py_or (dget data ''documentType'') (PStr [])));
           t = f_sequences db
       in case t_first (is_sequence document_type year) t of
            None \<Rightarrow>
              ebind (py_int (py_or (dget data ''lastValue'') (PInt 0))) (\<lambda>last.
              ebind (py_int (py_or (dget data ''paddingLength'') (PInt 6))) (\<lambda>padding.
                let s = \<lparr>seq_type = document_type, seq_year = year,
                      seq_prefix = py_str (py_or (dget data ''prefix'') (PStr (take 2 document_type))),
                      seq_last = last, seq_padding = padding,
                      seq_status = py_upper (py_str (py_or (dget data ''status'') (PStr ''ACTIVE'')))\<rparr>
                in Inr (sequence_payload (next_id t, s), db\<lparr>f_sequences := t_add s t\<rparr>)))
          | Some (i, s) \<Rightarrow>
              ebind (py_int (if dget data ''lastValue'' \<noteq> PNone then dget data ''lastValue''
                             else PInt (seq_last s))) (\<lambda>last.
              ebind (py_int (py_or (dget data ''paddingLength'') (PInt (seq_padding s)))) (\<lambda>padding.
                let s' = s\<lparr>seq_prefix := py_str (py_or (dget data ''prefix'') (PStr (seq_prefix s))),
                      seq_last := last, seq_padding := padding,
                      seq_status := py_upper (py_str (py_or (dget data ''status'') (PStr (seq_status s))))\<rparr>
                in Inr (sequence_payload (i, s'), db\<lparr>f_sequences := t_put i s' t\<rparr>)))))"

section \<open>The text of a number determines it\<close>

lemma number_text_inj:
  assumes "number_text p y w m = number_text p y w n" and "0 \<le> m" and "0 \<le> n"
  shows "m = n"
proof -
  from assms(1) have "zfill (show_int m) (nat w) = zfill (show_int n) (nat w)"
    by (simp add: number_text_def)
  then have "digits_val (show_int m) = digits_val (show_int n)" by (metis digits_val_zfill)
  with assms(2,3) show ?thesis by (simp add: show_int_def)
qed

section \<open>A source of numbers\<close>

text \<open>The numbers issued by \<open>k\<close> successive calls.\<close>

fun issue_times :: "('s \<Rightarrow> 'n \<times> 's) \<Rightarrow> nat \<Rightarrow> 's \<Rightarrow> 'n list \<times> 's" where
  "issue_times issue 0 s = ([], s)"
| "issue_times issue (Suc k) s =
     (let (n, t) = issue s; (ns, u) = issue_times issue k t in (n # ns, u))"

locale number_source =
  fixes issue :: "'s \<Rightarrow> 'n \<times> 's"
    and ok :: "'s \<Rightarrow> bool"
    and counter :: "'s \<Rightarrow> int"
    and shape :: "'s \<Rightarrow> 'c"
    and render :: "'c \<Rightarrow> int \<Rightarrow> 'n"
  assumes ok_issue: "ok s \<Longrightarrow> ok (snd (issue s))"
    and counter_nonneg: "ok s \<Longrightarrow> 0 \<le> counter s"
    and counter_issue: "ok s \<Longrightarrow> counter (snd (issue s)) = counter s + 1"
    and shape_issue: "ok s \<Longrightarrow> shape (snd (issue s)) = shape s"
    and issued: "ok s \<Longrightarrow> fst (issue s) = render (shape s) (counter s + 1)"
    and render_inj: "render c m = render c n \<Longrightarrow> 0 \<le> m \<Longrightarrow> 0 \<le> n \<Longrightarrow> m = n"
begin

lemma issue_times_numbers:
  "ok s \<Longrightarrow> fst (issue_times issue k s) = map (\<lambda>j. render (shape s) (counter s + 1 + int j)) [0..<k]"
proof (induction k arbitrary: s)
  case 0
  then show ?case by simp
next
  case (Suc k)
  have "map (\<lambda>j. render (shape s) (counter s + 1 + int j)) [0..<Suc k]
      = render (shape s) (counter s + 1) # map (\<lambda>j. render (shape s) (counter s + 1 + (1 + int j))) [0..<k]"
    by (simp add: upt_conv_Cons map_Suc_upt [symmetric] comp_def del: upt_Suc)
  with Suc.IH [OF ok_issue [OF Suc.prems]] Suc.prems show ?case
    by (simp add: case_prod_unfold Let_def issued counter_issue shape_issue ac_simps)
qed

lemma issue_times_distinct:
  assumes "ok s"
  shows "distinct (fst (issue_times issue k s))"
proof -
  have "inj_on (\<lambda>j. render (shape s) (counter s + 1 + int j)) (set [0..<k])"
    using counter_nonneg [OF assms] by (auto intro!: inj_onI dest!: render_inj)
  then show ?thesis by (simp add: issue_times_numbers [OF assms] distinct_map)
qed

end

subsection \<open>The sequences table is one\<close>

definition sequences_ok :: "fdb \<Rightarrow> bool" where
  "sequences_ok db \<longleftrightarrow> table_ok (f_sequences db) \<and> list_all (\<lambda>s. 0 \<le> seq_last s) (t_vals (f_sequences db))"

definition current_sequence :: "string \<Rightarrow> int \<Rightarrow> fdb \<Rightarrow> seqn" where
  "current_sequence ty y db =
     (case t_first (is_sequence ty y) (f_sequences db) of
        Some (i, s) \<Rightarrow> s | None \<Rightarrow> new_sequence ty None y)"

definition render_number :: "int \<Rightarrow> string \<times> int \<Rightarrow> int \<Rightarrow> string" where
  "render_number y c n = number_text (fst c) y (snd c) n"

lemma t_vals_put_subset: "set (t_vals (t_put i r t)) \<subseteq> insert r (set (t_vals t))"
  by (auto simp: t_vals_def t_put_def split: if_splits)

lemma is_sequence_step:
  "is_sequence ty y (s\<lparr>seq_last := n\<rparr>) = is_sequence ty y s"
  by (simp add: is_sequence_def)

lemma allocate_number_result:
  fixes rq :: request
  assumes ok: "sequences_ok db"
  defines "y \<equiv> rq_year rq"
  shows "fst (allocate_number ty None None rq db)
      = number_text (seq_prefix (current_sequence ty y db)) y (seq_padding (current_sequence ty y db))
          (seq_last (current_sequence ty y db) + 1)"
    and "current_sequence ty y (snd (allocate_number ty None None rq db))
      = (current_sequence ty y db)\<lparr>seq_last := seq_last (current_sequence ty y db) + 1\<rparr>"
    and "sequences_ok (snd (allocate_number ty None None rq db))"
    and "\<exists>t. snd (allocate_number ty None None rq db) = db\<lparr>f_sequences := t\<rparr>"
proof -
  let ?P = "is_sequence ty y"
  let ?t = "f_sequences db"
  from ok have t: "table_ok ?t" by (simp add: sequences_ok_def)
  have new: "?P (new_sequence ty None y)" by (simp add: is_sequence_def new_sequence_def)
  define s where "s = current_sequence ty y db"
  define s' where "s' = s\<lparr>seq_last := seq_last s + 1\<rparr>"
  have s': "?P s' = ?P s" by (simp add: s'_def is_sequence_step)
  have pos: "0 \<le> seq_last s"
  proof (cases "t_first ?P ?t")
    case None
    then show ?thesis by (simp add: s_def current_sequence_def new_sequence_def)
  next
    case (Some ir)
    then obtain i r where ir: "t_first ?P ?t = Some (i, r)" by (cases ir) auto
    then have "r \<in> set (t_vals ?t)" using t_first_Some [OF ir] by (force simp: t_vals_def)
    with ok show ?thesis by (simp add: s_def current_sequence_def ir sequences_ok_def list_all_iff)
  qed
  have "\<exists>i t'. allocate_number ty None None rq db
        = (number_text (seq_prefix s) y (seq_padding s) (seq_last s + 1), db\<lparr>f_sequences := t_put i s' t'\<rparr>)
      \<and> t_first ?P t' = Some (i, s) \<and> ?P s \<and> table_ok t' \<and> set (t_vals t') \<subseteq> insert s (set (t_vals ?t))"
  proof (cases "t_first ?P ?t")
    case None
    then have "s = new_sequence ty None y" by (simp add: s_def current_sequence_def)
    with None new t show ?thesis
      by (intro exI [of _ "next_id ?t"] exI [of _ "t_add s ?t"])
        (simp add: allocate_number_def Let_def s'_def t_first_add flip: y_def)
  next
    case (Some ir)
    then obtain i r where ir: "t_first ?P ?t = Some (i, r)" by (cases ir) auto
    with t_first_Some [OF ir] have "s = r" "?P s" by (auto simp: s_def current_sequence_def)
    with ir t show ?thesis
      by (intro exI [of _ i] exI [of _ ?t]) (auto simp: allocate_number_def Let_def s'_def simp flip: y_def)
  qed
  then obtain i t' where r: "allocate_number ty None None rq db
        = (number_text (seq_prefix s) y (seq_padding s) (seq_last s + 1), db\<lparr>f_sequences := t_put i s' t'\<rparr>)"
    and f: "t_first ?P t' = Some (i, s)" "?P s" "table_ok t'"
    and v: "set (t_vals t') \<subseteq> insert s (set (t_vals ?t))" by blast
  show "fst (allocate_number ty None None rq db)
      = number_text (seq_prefix (current_sequence ty y db)) y (seq_padding (current_sequence ty y db))
          (seq_last (current_sequence ty y db) + 1)"
    by (simp add: r flip: s_def)
  have "t_first ?P (t_put i s' t') = Some (i, s')"
    using f by (intro t_first_put) (auto simp: s')
  then show "current_sequence ty y (snd (allocate_number ty None None rq db))
      = (current_sequence ty y db)\<lparr>seq_last := seq_last (current_sequence ty y db) + 1\<rparr>"
    by (simp add: r current_sequence_def [of _ _ "db\<lparr>f_sequences := _\<rparr>"] s'_def flip: s_def)
  have "0 \<le> seq_last x" if "x \<in> set (t_vals (t_put i s' t'))" for x
  proof -
    from that t_vals_put_subset [of i s' t'] v have "x = s' \<or> x = s \<or> x \<in> set (t_vals ?t)" by blast
    with pos ok show ?thesis by (auto simp: s'_def sequences_ok_def list_all_iff)
  qed
  with f(3) show "sequences_ok (snd (allocate_number ty None None rq db))"
    by (simp add: r sequences_ok_def list_all_iff)
  show "\<exists>t. snd (allocate_number ty None None rq db) = db\<lparr>f_sequences := t\<rparr>"
    by (auto simp: r)
qed

interpretation numbers: number_source "allocate_number ty None None rq" sequences_ok
  "\<lambda>db. seq_last (current_sequence ty (rq_year rq) db)"
  "\<lambda>db. (seq_prefix (current_sequence ty (rq_year rq) db), seq_padding (current_sequence ty (rq_year rq) db))"
  "render_number (rq_year rq)" for ty rq
proof unfold_locales
  fix db :: fdb
  assume ok: "sequences_ok db"
  note result = allocate_number_result [OF ok, where ty = ty and rq = rq]
  show "sequences_ok (snd (allocate_number ty None None rq db))" by (rule result)
  show "0 \<le> seq_last (current_sequence ty (rq_year rq) db)"
    using ok t_first_Some [of "is_sequence ty (rq_year rq)" "f_sequences db"]
    by (force simp: current_sequence_def sequences_ok_def list_all_iff t_vals_def new_sequence_def
        split: option.splits)
qed (use allocate_number_result in \<open>auto simp: render_number_def dest: number_text_inj\<close>)

end
