(* ===== verification/FinanceBasics.thy ===== *)
theory FinanceBasics
  imports FinanceSchemas CurrencyRates Posting Sequences
begin

text \<open>
  What the services of \<open>finance/service.py\<close> share: the catalogue of document types and default
  accounts, the coercions of payload values, account references, the accounting period of a date and
  the currency inputs of a document.
\<close>

section \<open>Catalogues\<close>

definition DOCUMENT_TYPE_LABELS :: "(string \<times> string) list" where
  "DOCUMENT_TYPE_LABELS =
     [(''CUSTOMER_INVOICE'', ''Customer invoice''), (''CREDIT_NOTE'', ''Customer credit note''),
      (''SUPPLIER_BILL'', ''Supplier bill''), (''SUPPLIER_CREDIT_NOTE'', ''Supplier credit note''),
      (''CUSTOMER_RECEIPT'', ''Customer payment received''), (''SUPPLIER_PAYMENT'', ''Supplier payment made''),
      (''OTHER_INCOME'', ''Other income''), (''OTHER_EXPENSE'', ''Other expense''),
      (''TRANSFER'', ''Transfer between own accounts''), (''ADJUSTMENT'', ''Adjustment'')]"

definition KNOWN_DOCUMENT_TYPES :: "string list" where
  "KNOWN_DOCUMENT_TYPES = map fst DOCUMENT_TYPE_LABELS @ map fst STRATEGIES"

definition DEFAULT_ACCOUNTS :: "(string \<times> string \<times> string) list" where
  "DEFAULT_ACCOUNTS =
     [(''CUSTOMER_INVOICE'', ''1100'', ''4010''), (''SUPPLIER_BILL'', ''5010'', ''2010''),
      (''CUSTOMER_RECEIPT'', ''1020'', ''1100''), (''SUPPLIER_PAYMENT'', ''2010'', ''1020''),
      (''OTHER_INCOME'', ''1020'', ''4020''), (''OTHER_EXPENSE'', ''5030'', ''1020''),
      (''TRANSFER'', ''1020'', ''1010''), (''ADJUSTMENT'', ''5030'', ''1020''),
      (''CREDIT_NOTE'', ''4010'', ''1100''), (''SUPPLIER_CREDIT_NOTE'', ''2010'', ''5010'')]"

definition PAYMENT_TYPES :: "string list" where
  "PAYMENT_TYPES = [''CUSTOMER_RECEIPT'', ''SUPPLIER_PAYMENT'']"

definition INVOICE_TYPES :: "string list" where
  "INVOICE_TYPES = ALLOCATABLE_TYPES"

lemma payment_not_invoice: "ty \<in> set PAYMENT_TYPES \<Longrightarrow> ty \<notin> set INVOICE_TYPES"
  by (auto simp: PAYMENT_TYPES_def INVOICE_TYPES_def ALLOCATABLE_TYPES_def)

section \<open>Coercions\<close>

text \<open>\<open>_decimal(value)\<close>, \<open>_date(value)\<close>, \<open>_int_or_none(value)\<close>.\<close>

definition decimal_or_zero :: "pyval \<Rightarrow> pydecimal" where
  "decimal_or_zero v =
     (if none_or_empty v then DFin 0 else case decimal_of v of Some d \<Rightarrow> d | None \<Rightarrow> DFin 0)"

definition to_date :: "pyval \<Rightarrow> date option" where
  "to_date v = (if truthy v then strptime_date (take 10 (py_str v)) else None)"

definition int_or_none :: "pyval \<Rightarrow> int option" where
  "int_or_none v = (if none_or_empty v then None else int_of v)"

section \<open>Account references\<close>

text \<open>\<open>_resolve_account_ref\<close> and \<open>_resolve_ledger\<close>: a code, else a numeric identifier.\<close>

definition resolve_account_ref :: "pyval \<Rightarrow> fdb \<Rightarrow> account_row option" where
  "resolve_account_ref v db =
     (if none_or_empty v then None
      else case account_by_code (py_str v) db of
        Some x \<Rightarrow> Some x
      | None \<Rightarrow> if py_isdigit (py_str v) then account_by_id db (int (digits_val (py_str v))) else None)"

lemma resolve_account_ref_chart: "resolve_account_ref v db = Some x \<Longrightarrow> chart_account db x"
  by (auto simp: resolve_account_ref_def chart_account_def split: if_splits option.splits)

section \<open>The period of a date\<close>

definition month_period :: "date \<Rightarrow> period" where
  "month_period d =
     \<lparr>per_year = date_year d, per_month = date_month d, per_start = Date (date_year d) (date_month d) 1,
      per_end = (if date_month d = 12 then Date (date_year d) 12 31
                 else previous_day (Date (date_year d) (date_month d + 1) 1)),
      per_status = ''OPEN'', per_closed_by = None, per_closed_at = None\<rparr>"

definition covers :: "date \<Rightarrow> period \<Rightarrow> bool" where
  "covers d p \<longleftrightarrow> per_start p \<le> d \<and> d \<le> per_end p"

definition resolve_period :: "date \<Rightarrow> fdb \<Rightarrow> ((int \<times> period) \<times> fdb) res" where
  "resolve_period posting_date db =
     (case t_first (covers posting_date) (f_periods db) of
        Some x \<Rightarrow> Inr (x, db)
      | None \<Rightarrow>
          (let p = month_period posting_date; i = next_id (f_periods db)
           in ebind (check_unique ''uq_periods_year_month'' period_key i p (f_periods db)) (\<lambda>_.
                Inr ((i, p), db\<lparr>f_periods := t_add p (f_periods db)\<rparr>))))"

text \<open>A period is the calendar month it is named after.\<close>

definition month_ok :: "period \<Rightarrow> bool" where
  "month_ok p \<longleftrightarrow> (let q = month_period (Date (per_year p) (per_month p) 1)
                 in per_start p = per_start q \<and> per_end p = per_end q)"

definition periods_ok :: "period table \<Rightarrow> bool" where
  "periods_ok t \<longleftrightarrow> table_ok t \<and> unique_table period_key t \<and> list_all month_ok (t_vals t)"

section \<open>The currency inputs of a document\<close>

text \<open>\<open>_document_currency_inputs\<close>: the currency, rate, base currency and precision.\<close>

definition document_currency_inputs ::
    "payload \<Rightarrow> string \<Rightarrow> string \<Rightarrow> date option \<Rightarrow> rat option \<Rightarrow> fdb \<Rightarrow> (string \<times> rat \<times> string \<times> int) res" where
  "document_currency_inputs data document_currency base_currency on_date stored_rate db =
     ebind (assert_currency_code (PStr document_currency) ''currency'' db) (\<lambda>currency.
     ebind (assert_currency_code (PStr base_currency) ''baseCurrency'' db) (\<lambda>base.
       let precision = currency_precision currency db
       in if same_currency (Some currency) (Some base) then Inr (currency, 1, base, precision)
          else ebind
            (if \<not> none_or_empty (dget data ''exchangeRate'') then Inr (dget data ''exchangeRate'')
             else case stored_rate of
               Some r \<Rightarrow> Inr (PDec (DFin r))
             | None \<Rightarrow>
                 ebind (resolve_document_rate currency base on_date db) (\<lambda>r.
                   case r of
                     Some q \<Rightarrow> Inr (PDec (DFin q))
                   | None \<Rightarrow> Inl (ValidationFailed ''No approved exchange rate is configured.''
                               [(RATE_FIELD, ''Enter the exchange rate, or add one in Currency Rates.'')]))) (\<lambda>rate.
            ebind (document_rate (Some currency) (Some base) rate) (\<lambda>q.
              Inr (currency, q, base, precision)))))"

section \<open>Lemmas\<close>

lemma month_period_covers: "valid_date d \<Longrightarrow> covers d (month_period d)"
proof (cases d)
  case (Date y m k)
  assume v: "valid_date d"
  show ?thesis
  proof (cases "m = 12")
    case True
    with v Date show ?thesis by (auto simp: covers_def month_period_def valid_date_def days_in_month_def)
  next
    case False
    with v Date have "previous_day (Date y (m + 1) 1) = Date y m (days_in_month y m)"
      by (intro previous_day_first) (simp add: valid_date_def)
    with v Date False show ?thesis by (auto simp: covers_def month_period_def valid_date_def)
  qed
qed

text \<open>What a resolved period is, and that nothing else of the database moved.\<close>

lemma resolve_period_Inr:
  assumes "resolve_period d db = Inr ((i, p), db')"
  shows "\<exists>t. db' = db\<lparr>f_periods := t\<rparr>" and "table_ok (f_periods db) \<Longrightarrow> table_ok (f_periods db')"
    and "table_ok (f_periods db) \<Longrightarrow> t_get (f_periods db') i = Some p"
    and "valid_date d \<Longrightarrow> covers d p"
    and "\<And>j q. t_get (f_periods db) j = Some q \<Longrightarrow> table_ok (f_periods db) \<Longrightarrow> t_get (f_periods db') j = Some q"
proof -
  consider "t_first (covers d) (f_periods db) = Some (i, p)" "db' = db"
    | "t_first (covers d) (f_periods db) = None" "i = next_id (f_periods db)" "p = month_period d"
      "db' = db\<lparr>f_periods := t_add p (f_periods db)\<rparr>"
    using assms by (auto simp: resolve_period_def Let_def ebind_Inr_iff split: option.splits)
  note cases = this
  show "\<exists>t. db' = db\<lparr>f_periods := t\<rparr>"
  proof (cases rule: cases)
    case 1
    then have "db' = db\<lparr>f_periods := f_periods db\<rparr>" by simp
    then show ?thesis by blast
  qed auto
  show "table_ok (f_periods db) \<Longrightarrow> table_ok (f_periods db')" by (cases rule: cases) auto
  show "table_ok (f_periods db) \<Longrightarrow> t_get (f_periods db') i = Some p"
    by (cases rule: cases) (auto dest: t_first_get)
  show "valid_date d \<Longrightarrow> covers d p"
    by (cases rule: cases) (auto dest: t_first_Some month_period_covers)
  show "\<And>j q. t_get (f_periods db) j = Some q \<Longrightarrow> table_ok (f_periods db) \<Longrightarrow> t_get (f_periods db') j = Some q"
    by (cases rule: cases) auto
qed

lemma resolve_period_frame:
  assumes "resolve_period d db = Inr (ip, db')"
  obtains t where "db' = db\<lparr>f_periods := t\<rparr>"
  using resolve_period_Inr(1) [of d db "fst ip" "snd ip" db'] assms by auto

text \<open>The rate a document stores: 1 in the base currency, else a usable rate with 8 decimals.\<close>

lemma document_currency_inputs_Inr:
  assumes "document_currency_inputs data c b d s db = Inr (currency, rate, base, precision)"
  shows "currency = text_code (PStr c)" and "base = text_code (PStr b)"
    and "precision = currency_precision currency db"
    and "same_currency (Some currency) (Some base) \<Longrightarrow> rate = 1"
    and "0 < rate" and "rate \<le> MAX_RATE" and "has_places rate_places rate"
proof -
  from assms have c: "assert_currency_code (PStr c) ''currency'' db = Inr currency"
    and b: "assert_currency_code (PStr b) ''baseCurrency'' db = Inr base"
    and p: "precision = currency_precision currency db"
    by (auto simp: document_currency_inputs_def ebind_Inr_iff Let_def split: if_splits)
  show "currency = text_code (PStr c)" and "base = text_code (PStr b)" and "precision = currency_precision currency db"
    using assert_currency_code_Inr(1) [OF c] assert_currency_code_Inr(1) [OF b] p by auto
  show "same_currency (Some currency) (Some base) \<Longrightarrow> rate = 1"
    using assms c b by (auto simp: document_currency_inputs_def)
  have "document_rate (Some currency) (Some base) v = Inr rate \<Longrightarrow>
      0 < rate \<and> rate \<le> MAX_RATE \<and> has_places rate_places rate" for v
    using document_rate_range by blast
  moreover have "rate = 1 \<and> same_currency (Some currency) (Some base) \<or> (\<exists>v. document_rate (Some currency) (Some base) v = Inr rate)"
    using assms c b by (auto simp: document_currency_inputs_def ebind_Inr_iff Let_def split: if_splits)
  moreover have "document_rate (Some currency) (Some base) PNone = Inr 1"
    if "same_currency (Some currency) (Some base)"
    using that by (simp add: document_rate_def)
  ultimately have "0 < rate \<and> rate \<le> MAX_RATE \<and> has_places rate_places rate"
    by (metis document_rate_range)
  then show "0 < rate" "rate \<le> MAX_RATE" "has_places rate_places rate" by auto
qed

end
