(* ===== verification/Documents.thy ===== *)
theory Documents
  imports FinanceBasics
begin

text \<open>
  \<open>save_document\<close> and \<open>delete_draft_documents\<close> of \<open>finance/service.py\<close>: a draft financial document, its
  lines and its derived totals. The JSON column \<open>data\<close> holds the payload values before encoding;
  foreign keys into the tables of other modules are not checked.
\<close>

section \<open>Columns read from the payload\<close>

record doc_columns =
  co_party :: "int option"
  co_order :: "int option"
  co_description :: "string option"
  co_reference :: "string option"
  co_posting_date :: "date option"
  co_document_date :: "date option"
  co_method :: "string option"
  co_fin_account :: "int option"
  co_value_date :: "date option"
  co_due :: "date option"

definition document_columns :: "payload \<Rightarrow> string \<Rightarrow> doc_columns" where
  "document_columns data document_type =
     (let payment = document_type \<in> set PAYMENT_TYPES
      in \<lparr>co_party = int_or_none (dget data ''partyId''),
          co_order = int_or_none (dget data ''serviceOrderId''),
          co_description = str_or_none (if dget data ''remark'' \<noteq> PNone then dget data ''remark''
                                        else dget data ''description''),
          co_reference = str_or_none (py_or (dget data ''referenceNumber'') (dget data ''referenceNo'')),
          co_posting_date = to_date (dget data ''postingDate''),
          co_document_date = to_date (py_or (dget data ''documentDate'') (dget data ''date'')),
          co_method = (if payment then str_or_none (dget data ''paymentMethod'') else None),
          co_fin_account = (if payment then int_or_none (dget data ''financialAccountId'') else None),
          co_value_date = (if payment then to_date (dget data ''valueDate'') else None),
          co_due = (if document_type \<in> set ALLOCATABLE_TYPES then to_date (dget data ''dueDate'') else None)\<rparr>)"

text \<open>An update keeps the stored value where the payload gave none.\<close>

definition keep :: "'a option \<Rightarrow> 'a option \<Rightarrow> 'a option" where
  "keep new old = (case new of None \<Rightarrow> old | Some _ \<Rightarrow> new)"

definition update_columns :: "doc_columns \<Rightarrow> document \<Rightarrow> document" where
  "update_columns c d =
     d\<lparr>doc_party := keep (co_party c) (doc_party d), doc_order := keep (co_order c) (doc_order d),
       doc_description := keep (co_description c) (doc_description d),
       doc_reference := keep (co_reference c) (doc_reference d),
       doc_posting_date := keep (co_posting_date c) (doc_posting_date d),
       doc_date := (case co_document_date c of Some x \<Rightarrow> x | None \<Rightarrow> doc_date d),
       doc_method := keep (co_method c) (doc_method d),
       doc_fin_account := keep (co_fin_account c) (doc_fin_account d),
       doc_value_date := keep (co_value_date c) (doc_value_date d), doc_due := keep (co_due c) (doc_due d)\<rparr>"

definition new_document ::
    "string \<Rightarrow> string \<Rightarrow> doc_columns \<Rightarrow> date \<Rightarrow> string \<Rightarrow> rat \<Rightarrow> string \<Rightarrow> int option \<Rightarrow> document" where
  "new_document number document_type c today currency_code exchange_rate base_currency user =
     \<lparr>doc_no = number, doc_type = document_type,
      doc_date = (case co_document_date c of Some x \<Rightarrow> x | None \<Rightarrow> today),
      doc_posting_date = co_posting_date c, doc_status = ''DRAFT'', doc_party = co_party c,
      doc_order = co_order c, doc_currency = currency_code, doc_rate = exchange_rate,
      doc_base_currency = Some base_currency, doc_description = co_description c,
      doc_reference = co_reference c, doc_due = co_due c, doc_method = co_method c,
      doc_fin_account = co_fin_account c, doc_value_date = co_value_date c,
      doc_subtotal = 0, doc_discount = 0, doc_tax = 0, doc_total = 0,
      doc_base_subtotal = 0, doc_base_discount = 0, doc_base_tax = 0, doc_base_total = 0,
      doc_paid = 0, doc_created_by = user, doc_posted_by = None, doc_posted_at = None, doc_data = []\<rparr>"

definition document_key :: "document \<Rightarrow> string option" where
  "document_key d = Some (doc_no d)"

section \<open>The document type\<close>

definition find_document_type :: "payload \<Rightarrow> string \<Rightarrow> fdb \<Rightarrow> (int \<times> document_type) option res" where
  "find_document_type data document_type db =
     (case int_or_none (dget data ''documentTypeId'') of
        Some i \<Rightarrow>
          (let refusal = Inl (ValidationFailed ''Choose an active document type.''
                           [(''documentTypeId'', ''Document type is not active.'')])
           in case t_get (f_doc_types db) i of
                None \<Rightarrow> refusal
              | Some t \<Rightarrow> if py_upper (dt_status t) \<noteq> ''ACTIVE'' then refusal else Inr (Some (i, t)))
      | None \<Rightarrow>
          Inr (if truthy (dget data ''documentType'')
               then t_first (\<lambda>t. dt_code t = document_type \<and> \<not> dt_deleted t) (f_doc_types db)
               else None))"

text \<open>The type given by the payload, replaced by the behaviour of the type record when there is one.\<close>

definition document_type_of :: "payload \<Rightarrow> fdb \<Rightarrow> (string \<times> (int \<times> document_type) option) res" where
  "document_type_of data db =
     (let named = py_upper (py_str (py_or (py_or (dget data ''documentType'') (dget data ''document_type''))
                    (PStr ''CUSTOMER_INVOICE'')))
      in ebind (find_document_type data named db) (\<lambda>rec.
           case rec of
             None \<Rightarrow> Inr (named, None)
           | Some (i, t) \<Rightarrow>
               if py_upper (dt_category t) \<noteq> ''FINANCE'' \<or> ''financial_documents'' \<notin> set (dt_available t)
               then Inl (ValidationFailed ''Choose a finance document type that is available for financial documents.''
                      [(''documentType'', ''This type cannot be used on a financial document.'')])
               else Inr (py_upper (dt_behavior t), Some (i, t))))"

section \<open>Dates\<close>

definition DOCUMENT_DATE_FIELDS :: "string list" where
  "DOCUMENT_DATE_FIELDS = [''date'', ''documentDate'', ''postingDate'', ''dueDate'', ''valueDate'']"

definition check_dates :: "payload \<Rightarrow> unit res" where
  "check_dates data =
     (let bad = filter (\<lambda>k. \<not> none_or_empty (dget data k) \<and> to_date (dget data k) = None) DOCUMENT_DATE_FIELDS;
          issued_on = to_date (py_or (dget data ''documentDate'') (dget data ''date''));
          due_on = to_date (dget data ''dueDate'')
      in if bad \<noteq> [] then Inl (ValidationFailed ''Please correct the document dates.''
             (map (\<lambda>k. (k, ''Enter a valid date.'')) bad))
         else case (issued_on, due_on) of
           (Some i, Some d) \<Rightarrow> raise_if (d < i)
             (ValidationFailed ''The due date cannot precede the document date.''
                [(''dueDate'', ''Cannot be before the document date.'')])
         | _ \<Rightarrow> Inr ())"

section \<open>An entry for a service order\<close>

definition check_manual_entry :: "payload \<Rightarrow> int option \<Rightarrow> payload list \<Rightarrow> fdb \<Rightarrow> unit res" where
  "check_manual_entry data manual_order_id lines db =
     (if dget data ''id'' = PNone \<and> manual_order_id \<noteq> None then
        (if t_get (f_orders db) (the manual_order_id) = None
         then Inl (ValidationFailed ''Choose a valid service order.'' [(''serviceOrderId'', ''Service order not found.'')])
         else case int_or_none (dget data ''partyId'') of
           None \<Rightarrow> Inl (ValidationFailed ''Choose a business party for this entry.'' [(''partyId'', ''Required.'')])
         | Some p \<Rightarrow>
             if map_option (\<lambda>r. py_upper (pa_status r)) (t_get (f_parties db) p) \<noteq> Some ''ACTIVE''
             then Inl (ValidationFailed ''Choose an active business party.''
                    [(''partyId'', ''Choose an active business party.'')])
             else raise_if (lines = []) (ValidationFailed ''Add at least one line to the entry.''
                    [(''lines'', ''At least one line is required.'')]))
      else Inr ())"

section \<open>Lines\<close>

definition line_account_id :: "payload \<Rightarrow> fdb \<Rightarrow> int option res" where
  "line_account_id line db =
     (let reference = py_or (dget line ''accountCode'') (dget line ''accountId'')
      in if none_or_empty reference then Inr None
         else case resolve_account_ref reference db of
           None \<Rightarrow> Inl (ValidationFailed ''Unknown account.''
                     [(''lines'', ''Choose an account from the chart of accounts.'')])
         | Some x \<Rightarrow> ebind (validate_postable (Some x) None) (\<lambda>y. Inr (Some (fst y))))"

definition line_path :: "nat \<Rightarrow> string \<Rightarrow> string" where
  "line_path index f = index_path ''lines'' index @ ''.'' @ f"

definition read_document_line :: "fdb \<Rightarrow> int \<Rightarrow> nat \<times> payload \<Rightarrow> (doc_line \<times> rat) res" where
  "read_document_line db document_id item =
     (let (index, line) = item;
          unit_value = (if none_or_empty (dget line ''unitPrice'') then dget line ''unitAmount''
                        else dget line ''unitPrice'')
      in ebind (parse_decimal (dget line ''quantity'') (line_path index ''quantity'') 1 (Some 3)) (\<lambda>quantity.
         ebind (parse_decimal unit_value (line_path index ''unitPrice'') 0 (Some 4)) (\<lambda>unit_price.
         ebind (parse_decimal (dget line ''discount'') (line_path index ''discount'') 0 (Some 4)) (\<lambda>discount.
         let base = dmul quantity unit_price
         in ebind (resolve_line_tax line (dsub base discount) (index_path ''lines'' index)) (\<lambda>(tax_field, tax_amount, tax_rate).
            let errs =
              (if quantity \<le> 0 then [(line_path index ''quantity'', ''Must be greater than zero.'')] else [])
              @ (if unit_price < 0 then [(line_path index ''unitPrice'', ''Cannot be negative.'')] else [])
              @ (if discount < 0 \<or> base < discount
                 then [(line_path index ''discount'', ''Must be between zero and the line subtotal.'')] else [])
              @ (if tax_amount < 0 then [(line_path index ''taxAmount'', ''Cannot be negative.'')] else [])
              @ (if tax_rate < 0 \<or> 100 < tax_rate
                 then [(line_path index tax_field, ''Must be between 0 and 100.'')] else [])
            in if errs \<noteq> [] then Inl (ValidationFailed ''Please correct the document lines.'' errs)
               else ebind (line_account_id line db) (\<lambda>account.
                 Inr (\<lparr>dl_document = document_id, dl_no = int index + 1,
                       dl_description = py_str (py_or (dget line ''description'') (PStr ''Line'')),
                       dl_fee_type = resolve_fee_type_id
                         (py_or (dget line ''feeTypeId'') (dget line ''fee_type_id''))
                         (py_or (dget line ''feeType'') (dget line ''fee_type'')) db,
                       dl_quantity = quantity, dl_unit_price = unit_price, dl_discount = discount,
                       dl_tax_rate = tax_rate, dl_tax = tax_amount,
                       dl_amount = dadd (dsub base discount) tax_amount,
                       dl_order = int_or_none (dget line ''serviceOrderId''),
                       dl_container = int_or_none (dget line ''serviceOrderContainerId''),
                       dl_account = account\<rparr>, base)))))))"

text \<open>The running totals of the loop: subtotal, discount, tax.\<close>

type_synonym totals = "rat \<times> rat \<times> rat"

definition add_totals :: "totals \<Rightarrow> doc_line \<times> rat \<Rightarrow> totals" where
  "add_totals t x =
     (case t of (s, d, v) \<Rightarrow> (dadd s (snd x), dadd d (dl_discount (fst x)), dadd v (dl_tax (fst x))))"

definition read_document_lines :: "fdb \<Rightarrow> int \<Rightarrow> payload list \<Rightarrow> (doc_line list \<times> totals) res" where
  "read_document_lines db document_id lines =
     ebind (emap (read_document_line db document_id) (py_enumerate 0 lines)) (\<lambda>xs.
       Inr (map fst xs, foldl add_totals (0, 0, 0) xs))"

section \<open>Saving\<close>

definition the_document :: "payload \<Rightarrow> fdb \<Rightarrow> (int \<times> document) option" where
  "the_document data db =
     (let v = dget data ''id''
      in if truthy v \<and> py_isdigit (py_str v)
         then (let i = int (digits_val (py_str v)) in map_option (Pair i) (t_get (f_documents db) i))
         else None)"

text \<open>The document row before its lines are read: a fresh draft, or the stored draft updated.\<close>

definition open_document ::
    "payload \<Rightarrow> string \<Rightarrow> (int \<times> document) option \<Rightarrow> string \<times> rat \<times> string \<times> int \<Rightarrow> request \<Rightarrow> fdb \<Rightarrow>
     ((int \<times> document) \<times> fdb) res" where
  "open_document data document_type stored cur rq db =
     (let (currency_code, exchange_rate, base_currency, precision) = cur
      in case stored of
           None \<Rightarrow>
             if document_type \<notin> set KNOWN_DOCUMENT_TYPES
             then Inl (ValidationFailed ''Unknown document type.''
                    [(''documentType'', ''Choose one of the configured financial document types.'')])
             else
               (let typed = py_or (dget data ''documentNo'') (dget data ''debitNoteNo'');
                    (number, db1) =
                      (if \<not> truthy typed \<or> py_strip (py_str typed) = []
                       then allocate_number document_type None None rq db else (py_str typed, db));
                    d = new_document number document_type (document_columns data document_type) (rq_today rq)
                          currency_code exchange_rate base_currency (rq_user rq);
                    i = next_id (f_documents db1)
                in ebind (check_unique ''uq_financial_documents_no'' document_key i d (f_documents db1)) (\<lambda>_.
                   ebind (flush_document d) (\<lambda>d'.
                     Inr ((i, d), db1\<lparr>f_documents := t_add d' (f_documents db1)\<rparr>))))
         | Some (i, d0) \<Rightarrow>
             if doc_status d0 \<noteq> ''DRAFT''
             then Inl (InvalidState ''Only draft documents can be edited; posted documents require a reversal.'')
             else if truthy (py_or (dget data ''documentType'') (dget data ''document_type'')) \<and> document_type \<noteq> doc_type d0
             then Inl (ValidationFailed ''A financial document keeps the type it was created with.''
                    [(''documentType'', ''This document has another type.'')])
             else
               (let d1 = update_columns (document_columns data (doc_type d0)) d0;
                    d2 = (if dget data ''currency'' \<noteq> PNone \<or> dget data ''exchangeRate'' \<noteq> PNone
                          then d1\<lparr>doc_currency := currency_code, doc_rate := exchange_rate\<rparr> else d1)
                in Inr ((i, d2\<lparr>doc_base_currency := Some base_currency, doc_status := ''DRAFT''\<rparr>), db)))"

definition echo_data :: "payload \<Rightarrow> (int \<times> document_type) option \<Rightarrow> payload" where
  "echo_data data rec =
     dmerge (filter (\<lambda>(k, _). k \<notin> {''id'', ''lines'', ''createdAt'', ''updatedAt''}) data)
       (case rec of
          None \<Rightarrow> []
        | Some (i, t) \<Rightarrow> [(''documentTypeId'', PStr (show_int i)), (''documentTypeCode'', PStr (dt_code t)),
                          (''documentTypeName'', PStr (dt_name t))])"

text \<open>The derived amounts, in the document currency and converted.\<close>

definition set_amounts :: "totals \<Rightarrow> rat \<Rightarrow> int \<Rightarrow> string \<Rightarrow> document \<Rightarrow> document res" where
  "set_amounts t exchange_rate precision base_currency d =
     (let (subtotal, discount_total, tax_total) = t;
          total_amount = dadd (dsub subtotal discount_total) tax_total
      in ebind (convert_to_base subtotal exchange_rate precision) (\<lambda>bs.
         ebind (convert_to_base discount_total exchange_rate precision) (\<lambda>bd.
         ebind (convert_to_base tax_total exchange_rate precision) (\<lambda>bt.
         ebind (convert_to_base total_amount exchange_rate precision) (\<lambda>bo.
           Inr (d\<lparr>doc_subtotal := subtotal, doc_discount := discount_total, doc_tax := tax_total,
                  doc_total := total_amount, doc_base_currency := Some base_currency,
                  doc_base_subtotal := bs, doc_base_discount := bd, doc_base_tax := bt,
                  doc_base_total := bo\<rparr>))))))"

definition save_document :: "payload \<Rightarrow> int service" where
  "save_document data0 rq db =
     ebind (validate_schema DOCUMENT_WRITE_SCHEMA data0 (truthy (dget data0 ''id''))) (\<lambda>data.
     ebind (document_type_of data db) (\<lambda>(document_type, type_record).
     ebind (check_dates data) (\<lambda>_.
     ebind (validate_line_items (dget data ''lines'') DOCUMENT_LINE_SCHEMA) (\<lambda>lines.
     let stored = the_document data db;
         manual_order_id = int_or_none (dget data ''serviceOrderId'');
         default_currency = f_default_currency db;
         fallback = (case stored of Some (i, d) \<Rightarrow> PStr (doc_currency d) | None \<Rightarrow> PStr default_currency);
         on_date = (case to_date (py_or (dget data ''documentDate'') (dget data ''date'')) of
                      Some x \<Rightarrow> x
                    | None \<Rightarrow> (case stored of Some (i, d) \<Rightarrow> doc_date d | None \<Rightarrow> rq_today rq))
     in ebind (check_manual_entry data manual_order_id lines db) (\<lambda>_.
        ebind (document_currency_inputs data
                 (py_str (py_or (py_or (dget data ''currency'') fallback) (PStr default_currency)))
                 default_currency (Some on_date) (map_option (\<lambda>(_, d). doc_rate d) stored) db) (\<lambda>cur.
        ebind (open_document data document_type stored cur rq db) (\<lambda>((i, d), db1).
        let db2 = db1\<lparr>f_lines := t_del_where (\<lambda>l. dl_document l = i) (f_lines db1)\<rparr>
        in ebind (read_document_lines db2 i lines) (\<lambda>(ls, tot).
           let (subtotal, discount_total, tax_total) = tot;
               (currency_code, exchange_rate, base_currency, precision) = cur
           in ebind (raise_if (dget data ''id'' = PNone \<and> manual_order_id \<noteq> None
                        \<and> dadd (dsub subtotal discount_total) tax_total \<le> 0)
                      (ValidationFailed ''Enter a positive entry amount.''
                         [(''lines.0.unitPrice'', ''Amount must be greater than zero.'')])) (\<lambda>_.
              ebind (set_amounts tot exchange_rate precision base_currency d) (\<lambda>d'.
              ebind (flush_document (d'\<lparr>doc_data := echo_data data type_record\<rparr>)) (\<lambda>row.
              ebind (emap flush_line ls) (\<lambda>line_rows.
                Inr (i, db2\<lparr>f_documents := t_put i row (f_documents db2),
                            f_lines := t_add_all line_rows (f_lines db2)\<rparr>)))))))))))))"

section \<open>Deleting drafts\<close>

text \<open>
  The database deletes lines and sources with their document and refuses a document that an
  allocation, a posting or a journal still names.
\<close>

definition document_referenced :: "int \<Rightarrow> fdb \<Rightarrow> bool" where
  "document_referenced i db \<longleftrightarrow>
     list_ex (\<lambda>a. al_payment a = i \<or> al_target a = i) (t_vals (f_allocations db))
     \<or> list_ex (\<lambda>p. po_document p = i) (t_vals (f_postings db))
     \<or> list_ex (\<lambda>l. jl_document l = Some i) (t_vals (f_jlines db))
     \<or> list_ex (\<lambda>e. je_source e = Some i) (t_vals (f_journals db))"

definition delete_document :: "int \<Rightarrow> fdb \<Rightarrow> fdb res" where
  "delete_document i db =
     ebind (raise_if (document_referenced i db) (IntegrityError ''financial_documents'')) (\<lambda>_.
       Inr (db\<lparr>f_documents := t_del i (f_documents db),
              f_lines := t_del_where (\<lambda>l. dl_document l = i) (f_lines db),
              f_sources := t_del_where (\<lambda>s. src_document s = i) (f_sources db)\<rparr>))"

definition draft_ids :: "int list \<Rightarrow> fdb \<Rightarrow> int list" where
  "draft_ids ids db = map fst (filter (\<lambda>(i, d). i \<in> set ids \<and> doc_status d = ''DRAFT'') (rows (f_documents db)))"

definition delete_draft_documents :: "int list \<Rightarrow> fdb \<Rightarrow> (nat \<times> fdb) res" where
  "delete_draft_documents ids db =
     ebind (efold delete_document (draft_ids ids db) db) (\<lambda>db'. Inr (length (draft_ids ids db), db'))"

end
