(* ===== verification/PostDocument.thy ===== *)
theory PostDocument
  imports Documents
begin

text \<open>
  The posting engine of \<open>finance/service.py\<close>: posting a draft document as one balanced journal entry
  (\<open>post_document\<close>), reversing a posted document (\<open>reverse_document\<close>) and settling an invoice with a
  payment (\<open>allocate_payment\<close>).
\<close>

section \<open>Posting\<close>

text \<open>The lines of a document and of a journal, in the order of their line numbers.\<close>

definition document_lines :: "fdb \<Rightarrow> int \<Rightarrow> doc_line list" where
  "document_lines db i = sort_key dl_no (filter (\<lambda>l. dl_document l = i) (t_vals (f_lines db)))"

definition journal_lines :: "fdb \<Rightarrow> int \<Rightarrow> jline list" where
  "journal_lines db i = sort_key jl_no (filter (\<lambda>l. jl_journal l = i) (t_vals (f_jlines db)))"

definition or_text :: "string option \<Rightarrow> string \<Rightarrow> string" where
  "or_text a b = (case a of Some (c # s) \<Rightarrow> c # s | _ \<Rightarrow> b)"

definition line_input_of :: "document \<Rightarrow> doc_line \<Rightarrow> line_input" where
  "line_input_of d l =
     \<lparr>li_description = or_text (Some (dl_description l)) (or_text (doc_description d) (doc_no d)),
      li_amount = dl_amount l, li_tax = dl_tax l, li_fee_type = dl_fee_type l, li_account = dl_account l\<rparr>"

definition build_for :: "fdb \<Rightarrow> int \<Rightarrow> document \<Rightarrow> draft res" where
  "build_for db i d =
     build (resolve DEFAULT_ACCOUNTS db) (account_by_id db) (doc_type d) (doc_total d)
       (map (line_input_of d) (document_lines db i)) (or_text (doc_description d) (doc_no d))"

text \<open>\<open>_line_account_codes\<close>: the account each line of a document would post to.\<close>

definition line_account_codes :: "fdb \<Rightarrow> string \<Rightarrow> (int \<times> doc_line) list \<Rightarrow> (int \<times> string) list res" where
  "line_account_codes db document_type lines =
     ebind (emap (\<lambda>(i, l).
         ebind (detail_account_code (resolve DEFAULT_ACCOUNTS db) (account_by_id db) document_type
             \<lparr>li_description = dl_description l, li_amount = dl_amount l, li_tax = dl_tax l,
              li_fee_type = dl_fee_type l, li_account = dl_account l\<rparr>) (\<lambda>c. Inr (i, c))) lines) (\<lambda>cs.
       Inr (List.map_filter (\<lambda>(i, c). case c of Some (x # s) \<Rightarrow> Some (i, x # s) | _ \<Rightarrow> None) cs))"

definition draft_journal :: "string \<Rightarrow> date \<Rightarrow> int \<Rightarrow> int \<Rightarrow> document \<Rightarrow> draft \<Rightarrow> request \<Rightarrow> journal" where
  "draft_journal entry_no posting_date period_id document_id d dr rq =
     \<lparr>je_no = entry_no, je_type = ''AUTOMATIC'', je_date = posting_date, je_posting_date = posting_date,
      je_period = Some period_id, je_status = ''DRAFT'', je_description = Some (''Posting of '' @ doc_no d),
      je_source = Some document_id, je_rule = jd_rule_id dr, je_reversal_of = None,
      je_created_by = rq_user rq, je_posted_by = rq_user rq, je_posted_at = Some (rq_now rq),
      je_debit = 0, je_credit = 0, je_data = jd_resolution dr\<rparr>"

definition posted_jline :: "int \<Rightarrow> int \<Rightarrow> document \<Rightarrow> rat \<Rightarrow> nat \<times> draft_line \<Rightarrow> jline" where
  "posted_jline journal_id document_id d exchange_rate x =
     (let (line_no, l) = x
      in \<lparr>jl_journal = journal_id, jl_no = int line_no, jl_account = fst (dr_account l), jl_party = doc_party d,
          jl_order = doc_order d, jl_document = Some document_id, jl_description = Some (dr_description l),
          jl_debit = (if dr_debit l then dr_amount l else 0), jl_credit = (if dr_debit l then 0 else dr_amount l),
          jl_currency = doc_currency d, jl_rate = exchange_rate,
          jl_base_debit = (if dr_debit l then dmul (dr_amount l) exchange_rate else 0),
          jl_base_credit = (if dr_debit l then 0 else dmul (dr_amount l) exchange_rate)\<rparr>)"

definition entry_key :: "journal \<Rightarrow> string option" where
  "entry_key e = Some (je_no e)"

definition set_base_amounts :: "rat \<Rightarrow> int \<Rightarrow> string \<Rightarrow> document \<Rightarrow> document res" where
  "set_base_amounts exchange_rate precision default_currency d =
     ebind (convert_to_base (doc_subtotal d) exchange_rate precision) (\<lambda>bs.
     ebind (convert_to_base (doc_discount d) exchange_rate precision) (\<lambda>bd.
     ebind (convert_to_base (doc_tax d) exchange_rate precision) (\<lambda>bt.
     ebind (convert_to_base (doc_total d) exchange_rate precision) (\<lambda>bo.
       Inr (d\<lparr>doc_base_currency := Some (or_text (doc_base_currency d) default_currency),
              doc_base_subtotal := bs, doc_base_discount := bd, doc_base_tax := bt, doc_base_total := bo\<rparr>)))))"

definition posting_date_of :: "document \<Rightarrow> date" where
  "posting_date_of d = (case doc_posting_date d of Some x \<Rightarrow> x | None \<Rightarrow> doc_date d)"

definition post_document :: "int \<Rightarrow> int service" where
  "post_document document_id rq db =
     ebind (require_some (t_get (f_documents db) document_id) (NotFound ''Financial document not found.'')) (\<lambda>d.
     if doc_status d = ''POSTED'' then Inr (document_id, db)
     else
       ebind (raise_if (doc_status d \<noteq> ''DRAFT'') (InvalidState ''Cannot post a document in this status.'')) (\<lambda>_.
       ebind (raise_if (t_first (\<lambda>p. po_document p = document_id) (f_postings db) \<noteq> None)
               (Conflict ''DUPLICATE_POSTING'' ''This document has already been posted.'' [])) (\<lambda>_.
       let posting_date = posting_date_of d
       in ebind (resolve_period posting_date db) (\<lambda>((period_id, period), db1).
          ebind (raise_if (per_status period = ''CLOSED'')
                  (Conflict ''PERIOD_CLOSED'' ''The accounting period is closed.'' [])) (\<lambda>_.
          ebind (build_for db1 document_id d) (\<lambda>dr.
          ebind (raise_if (length (jd_lines dr) < 2)
                  (ValidationFailed ''A journal needs at least two lines.''
                     [(''lines'', ''Add the document lines before posting.'')])) (\<lambda>_.
          let (entry_no, db2) = allocate_number ''JOURNAL'' None None rq db1;
              e = draft_journal entry_no posting_date period_id document_id d dr rq;
              j = next_id (f_journals db2);
              exchange_rate = or_one (doc_rate d);
              precision = currency_precision (doc_currency d) db2
          in ebind (check_unique ''uq_journal_entries_no'' entry_key j e (f_journals db2)) (\<lambda>_.
             ebind (set_base_amounts exchange_rate precision (f_default_currency db2)
                      (d\<lparr>doc_posting_date := Some posting_date\<rparr>)) (\<lambda>d1.
             ebind (emap flush_jline
                      (map (posted_jline j document_id d exchange_rate) (py_enumerate 1 (jd_lines dr)))) (\<lambda>jls.
             ebind (assert_balanced dr) (\<lambda>_.
             ebind (flush_journal (e\<lparr>je_debit := debit_total dr, je_credit := credit_total dr,
                                     je_status := ''POSTED''\<rparr>)) (\<lambda>row.
             ebind (flush_document (d1\<lparr>doc_status := ''POSTED'', doc_posted_by := rq_user rq,
                                       doc_posted_at := Some (rq_now rq)\<rparr>)) (\<lambda>d2.
               Inr (document_id,
                 db2\<lparr>f_documents := t_put document_id d2 (f_documents db2),
                     f_journals := t_add row (f_journals db2),
                     f_jlines := t_add_all jls (f_jlines db2),
                     f_postings := t_add \<lparr>po_document = document_id, po_journal = j,
                                          po_role = ''ORIGINAL_POSTING''\<rparr> (f_postings db2)\<rparr>))))))))))))))"

section \<open>Reversing\<close>

definition mirror_jline :: "int \<Rightarrow> int \<Rightarrow> nat \<times> jline \<Rightarrow> jline" where
  "mirror_jline journal_id document_id x =
     (let (index, l) = x
      in \<lparr>jl_journal = journal_id, jl_no = int index, jl_account = jl_account l, jl_party = jl_party l,
          jl_order = jl_order l, jl_document = Some document_id,
          jl_description = Some (''Reversal: '' @ (case jl_description l of Some s \<Rightarrow> s | None \<Rightarrow> [])),
          jl_debit = jl_credit l, jl_credit = jl_debit l, jl_currency = jl_currency l, jl_rate = jl_rate l,
          jl_base_debit = jl_base_credit l, jl_base_credit = jl_base_debit l\<rparr>)"

definition touches :: "int \<Rightarrow> allocation \<Rightarrow> bool" where
  "touches i a \<longleftrightarrow> al_payment a = i \<or> al_target a = i"

definition other_side :: "int \<Rightarrow> allocation \<Rightarrow> int" where
  "other_side i a = (if al_payment a = i then al_target a else al_payment a)"

definition release :: "allocation \<Rightarrow> document \<Rightarrow> document" where
  "release a d = d\<lparr>doc_paid := max 0 (doc_paid d - al_amount a)\<rparr>"

definition reverse_document :: "int \<Rightarrow> string \<Rightarrow> int service" where
  "reverse_document document_id reason rq db =
     ebind (require_some (t_get (f_documents db) document_id) (NotFound ''Financial document not found.'')) (\<lambda>d.
     ebind (raise_if (doc_status d = ''REVERSED'')
             (Conflict ''DOCUMENT_ALREADY_REVERSED'' ''This document is already reversed.'' [])) (\<lambda>_.
     ebind (raise_if (doc_status d \<noteq> ''POSTED'') (InvalidState ''Only posted documents can be reversed.'')) (\<lambda>_.
     ebind (require_some (t_first (\<lambda>p. po_document p = document_id) (f_postings db))
             (NotFound ''Original posting not found.'')) (\<lambda>(_, p).
     let posting_date = rq_today rq
     in ebind (resolve_period posting_date db) (\<lambda>((period_id, period), db1).
        ebind (raise_if (per_status period = ''CLOSED'')
                (Conflict ''PERIOD_CLOSED'' ''The accounting period is closed.'' [])) (\<lambda>_.
        let (entry_no, db2) = allocate_number ''JOURNAL'' None None rq db1;
            j = next_id (f_journals db2)
        in ebind (require_some (t_get (f_journals db2) (po_journal p)) (PythonError ''AttributeError'')) (\<lambda>original.
           let lines = filter (\<lambda>l. jl_journal l = po_journal p) (t_vals (f_jlines db2));
               e = \<lparr>je_no = entry_no, je_type = ''REVERSAL'', je_date = posting_date, je_posting_date = posting_date,
                    je_period = Some period_id, je_status = ''POSTED'',
                    je_description = Some (''Reversal of '' @ je_no original @ '': '' @ reason),
                    je_source = Some document_id, je_rule = je_rule original, je_reversal_of = Some (po_journal p),
                    je_created_by = rq_user rq, je_posted_by = rq_user rq, je_posted_at = Some (rq_now rq),
                    je_debit = sum_list (map jl_credit lines), je_credit = sum_list (map jl_debit lines),
                    je_data = []\<rparr>
           in ebind (check_unique ''uq_journal_entries_no'' entry_key j e (f_journals db2)) (\<lambda>_.
              ebind (emap flush_jline (map (mirror_jline j document_id) (py_enumerate 1 lines))) (\<lambda>jls.
              ebind (flush_journal e) (\<lambda>row.
              let allocations = filter (touches document_id) (t_vals (f_allocations db2));
                  docs = rewrite_each t_get t_put (other_side document_id) release allocations (f_documents db2);
                  docs' = (case t_get docs document_id of
                             None \<Rightarrow> docs
                           | Some d' \<Rightarrow> t_put document_id (d'\<lparr>doc_paid := 0, doc_status := ''REVERSED''\<rparr>) docs)
              in Inr (document_id,
                   db2\<lparr>f_documents := docs',
                       f_journals := t_add row (f_journals db2),
                       f_jlines := t_add_all jls (f_jlines db2),
                       f_allocations := t_del_where (touches document_id) (f_allocations db2)\<rparr>)))))))))))"

section \<open>Allocating a payment\<close>

definition allocation_fx :: "rat \<Rightarrow> rat \<Rightarrow> rat \<Rightarrow> int \<Rightarrow> (rat \<times> rat \<times> rat) res" where
  "allocation_fx amount payment_rate target_rate precision =
     ebind (convert_to_base amount (or_one payment_rate) precision) (\<lambda>payment_base.
     ebind (convert_to_base amount (or_one target_rate) precision) (\<lambda>target_base.
     ebind (quantize_money (dsub payment_base target_base) precision) (\<lambda>difference.
       Inr (payment_base, target_base, difference))))"

text \<open>The answer, before its numbers are written as JSON floats.\<close>

record allocation_answer =
  aa_payment :: int
  aa_target :: int
  aa_amount :: rat
  aa_payment_base :: rat
  aa_target_base :: rat
  aa_difference :: rat
  aa_payment_balance :: rat
  aa_target_outstanding :: rat
  aa_replay :: bool

definition balance_of :: "document option \<Rightarrow> rat" where
  "balance_of d = (case d of Some x \<Rightarrow> doc_total x - doc_paid x | None \<Rightarrow> 0)"

definition replay_allocation :: "allocation \<Rightarrow> fdb \<Rightarrow> allocation_answer res" where
  "replay_allocation a db =
     (let payment = t_get (f_documents db) (al_payment a); target = t_get (f_documents db) (al_target a);
          precision = currency_precision
            (if al_currency a \<noteq> [] then al_currency a
             else case payment of Some d \<Rightarrow> doc_currency d | None \<Rightarrow> []) db
      in ebind (allocation_fx (al_amount a) (al_rate a)
                  (case target of Some t \<Rightarrow> doc_rate t | None \<Rightarrow> al_rate a) precision) (\<lambda>(pb, tb, diff).
           Inr \<lparr>aa_payment = al_payment a, aa_target = al_target a, aa_amount = al_amount a,
                aa_payment_base = pb, aa_target_base = tb, aa_difference = diff,
                aa_payment_balance = balance_of payment, aa_target_outstanding = balance_of target,
                aa_replay = True\<rparr>))"

definition allocation_key :: "allocation \<Rightarrow> string option" where
  "allocation_key a = al_key a"

definition allocated_from :: "fdb \<Rightarrow> int \<Rightarrow> rat" where
  "allocated_from db i = t_sum al_amount (\<lambda>a. al_payment a = i) (f_allocations db)"

text \<open>The amount as a number: a comparison with a not-a-number raises, an infinity never fits.\<close>

definition allocation_amount :: "payload \<Rightarrow> pydecimal" where
  "allocation_amount data = decimal_or_zero (py_or (dget data ''amount'') (dget data ''allocated_amount''))"

definition check_settlement :: "document \<Rightarrow> document \<Rightarrow> pydecimal \<Rightarrow> rat res" where
  "check_settlement payment target amount =
     ebind (raise_if (doc_type payment \<notin> set PAYMENT_TYPES)
             (ValidationFailed ''Only payment or receipt documents can be allocated.'' [])) (\<lambda>_.
     ebind (raise_if (doc_type target \<notin> set INVOICE_TYPES)
             (ValidationFailed ''Allocations must target an invoice or supplier bill.'' [])) (\<lambda>_.
     ebind (raise_if (doc_status payment \<noteq> ''POSTED'' \<or> doc_status target \<noteq> ''POSTED'')
             (InvalidState ''Both payment and target documents must be posted.'')) (\<lambda>_.
     ebind (raise_if (doc_currency payment \<noteq> doc_currency target)
             (Conflict ''CURRENCY_MISMATCH'' ''Payment and target currency must match.'' [])) (\<lambda>_.
     let refusal = Inl (ValidationFailed ''Allocated amount must be greater than zero.'' [])
     in case amount of
          DNaN \<Rightarrow> Inl (PythonError ''InvalidOperation'')
        | DInf negative \<Rightarrow>
            if negative then refusal
            else Inl (Conflict ''ALLOCATION_EXCEEDS_BALANCE'' ''Allocation exceeds the available payment balance.'' [])
        | DFin a \<Rightarrow> if a \<le> 0 then refusal else Inr a))))"

definition allocate_payment :: "int \<Rightarrow> payload \<Rightarrow> string option \<Rightarrow> allocation_answer service" where
  "allocate_payment payment_id data0 idempotency_key rq db =
     ebind (validate_schema ALLOCATION_WRITE_SCHEMA data0 False) (\<lambda>data.
     case (if idempotency_key = None \<or> idempotency_key = Some [] then None
           else t_first (\<lambda>a. al_key a = idempotency_key) (f_allocations db)) of
       Some (_, existing) \<Rightarrow> ebind (replay_allocation existing db) (\<lambda>r. Inr (r, db))
     | None \<Rightarrow>
       ebind (require_some (t_get (f_documents db) payment_id) (NotFound ''Payment document not found.'')) (\<lambda>payment.
       ebind (require_some (int_or_none (py_or (dget data ''target_document_id'') (dget data ''targetDocumentId'')))
               (ValidationFailed ''Target document is required.'' [])) (\<lambda>target_id.
       ebind (require_some (t_get (f_documents db) target_id) (NotFound ''Target document not found.'')) (\<lambda>target.
       ebind (check_settlement payment target (allocation_amount data)) (\<lambda>amount.
       ebind (raise_if (doc_total payment - allocated_from db payment_id < amount)
               (Conflict ''ALLOCATION_EXCEEDS_BALANCE'' ''Allocation exceeds the available payment balance.'' [])) (\<lambda>_.
       ebind (raise_if (doc_total target - doc_paid target < amount)
               (Conflict ''ALLOCATION_EXCEEDS_BALANCE'' ''Allocation exceeds the target outstanding balance.'' [])) (\<lambda>_.
       let a = \<lparr>al_payment = payment_id, al_target = target_id, al_amount = amount,
                al_currency = doc_currency payment, al_rate = doc_rate payment, al_created_by = rq_user rq,
                al_key = idempotency_key\<rparr>
       in ebind (allocation_fx amount (doc_rate payment) (doc_rate target)
                   (currency_precision (doc_currency payment) db)) (\<lambda>(pb, tb, diff).
          ebind (check_unique ''financial_document_allocations_idempotency_key'' allocation_key
                   (next_id (f_allocations db)) a (f_allocations db)) (\<lambda>_.
          ebind (flush_allocation a) (\<lambda>row.
          ebind (flush_document (payment\<lparr>doc_paid := doc_paid payment + amount\<rparr>)) (\<lambda>payment'.
          ebind (flush_document (target\<lparr>doc_paid := doc_paid target + amount\<rparr>)) (\<lambda>target'.
            Inr (\<lparr>aa_payment = payment_id, aa_target = target_id, aa_amount = amount,
                  aa_payment_base = pb, aa_target_base = tb, aa_difference = diff,
                  aa_payment_balance = doc_total payment - (doc_paid payment + amount),
                  aa_target_outstanding = doc_total target - (doc_paid target + amount), aa_replay = False\<rparr>,
                 db\<lparr>f_allocations := t_add row (f_allocations db),
                    f_documents := t_put target_id target' (t_put payment_id payment' (f_documents db))\<rparr>)))))))))))))"

end
