(* ===== verification/Journals.thy ===== *)
theory Journals
  imports PostDocument
begin

text \<open>
  Manual journals of \<open>finance/service.py\<close>: \<open>save_journal\<close>, \<open>post_journal\<close>, \<open>delete_journals\<close>.
\<close>

section \<open>Saving\<close>

definition the_journal :: "payload \<Rightarrow> fdb \<Rightarrow> (int \<times> journal) option" where
  "the_journal data db =
     (let v = dget data ''id''
      in if truthy v \<and> py_isdigit (py_str v)
         then (let i = int (digits_val (py_str v)) in map_option (Pair i) (t_get (f_journals db) i))
         else None)"

definition journal_line_account :: "payload \<Rightarrow> fdb \<Rightarrow> account_row option" where
  "journal_line_account line db =
     (case (case int_or_none (py_or (dget line ''account_id'') (dget line ''accountId'')) of
              Some i \<Rightarrow> account_by_id db i | None \<Rightarrow> None) of
        Some x \<Rightarrow> Some x
      | None \<Rightarrow>
          (let code = py_or (dget line ''account_code'') (dget line ''accountCode'')
           in if truthy code then account_by_code (py_str code) db else None))"

definition read_journal_line :: "fdb \<Rightarrow> int \<Rightarrow> nat \<times> payload \<Rightarrow> jline res" where
  "read_journal_line db journal_id item =
     (let (index, line) = item
      in ebind (require_some (journal_line_account line db)
                  (ValidationFailed ''Every journal line must reference a valid account.''
                     [(''lines'', ''The line has an unknown account.'')])) (\<lambda>account.
         ebind (validate_postable (Some account) None) (\<lambda>_.
         ebind (parse_decimal (py_or (dget line ''debit_amount'') (dget line ''debitAmount''))
                  (line_path index ''debit_amount'') 0 (Some 4)) (\<lambda>debit_amount.
         ebind (parse_decimal (py_or (dget line ''credit_amount'') (dget line ''creditAmount''))
                  (line_path index ''credit_amount'') 0 (Some 4)) (\<lambda>credit_amount.
         ebind (parse_decimal (dget line ''exchangeRate'') (line_path index ''exchangeRate'') 1 (Some 8)) (\<lambda>exchange_rate.
         ebind (raise_if (debit_amount < 0 \<or> credit_amount < 0)
                 (ValidationFailed ''Journal amounts cannot be negative.''
                    [(''lines'', ''The line contains a negative amount.'')])) (\<lambda>_.
         ebind (raise_if ((0 < debit_amount) = (0 < credit_amount))
                 (ValidationFailed ''Each journal line must contain either a debit or a credit.''
                    [(''lines'', ''The line must have exactly one positive side.'')])) (\<lambda>_.
         ebind (raise_if (exchange_rate \<le> 0)
                 (ValidationFailed ''Journal exchange rate must be greater than zero.''
                    [(''lines'', ''The line has an invalid exchange rate.'')])) (\<lambda>_.
         ebind (assert_currency_code (PStr (py_str (py_or (dget line ''currency'') (PStr (f_default_currency db)))))
                  ''currency'' db) (\<lambda>line_currency.
           Inr \<lparr>jl_journal = journal_id, jl_no = int index + 1, jl_account = fst account,
                jl_party = int_or_none (dget line ''party''),
                jl_order = int_or_none (dget line ''serviceOrder''), jl_document = None,
                jl_description = str_or_none (dget line ''description''),
                jl_debit = debit_amount, jl_credit = credit_amount, jl_currency = line_currency,
                jl_rate = exchange_rate, jl_base_debit = dmul debit_amount exchange_rate,
                jl_base_credit = dmul credit_amount exchange_rate\<rparr>))))))))))"

text \<open>The entry before its lines are read: a fresh draft, or the stored entry unless it is posted.\<close>

definition open_journal ::
    "payload \<Rightarrow> (int \<times> journal) option \<Rightarrow> date \<Rightarrow> date \<Rightarrow> int \<Rightarrow> request \<Rightarrow> fdb \<Rightarrow> ((int \<times> journal) \<times> fdb) res" where
  "open_journal data stored entry_date posting_date period_id rq db1 =
     (case stored of
        None \<Rightarrow>
          (let typed = dget data ''entryNo'';
               (number, db2) =
                 (if \<not> truthy typed \<or> py_strip (py_str typed) = []
                  then allocate_number ''JOURNAL'' None None rq db1 else (py_str typed, db1));
               e = \<lparr>je_no = number,
                    je_type = py_upper (py_str (py_or (dget data ''entryType'') (PStr ''MANUAL''))),
                    je_date = entry_date, je_posting_date = posting_date, je_period = Some period_id,
                    je_status = ''DRAFT'', je_description = str_or_none (dget data ''description''),
                    je_source = None, je_rule = None, je_reversal_of = None,
                    je_created_by = rq_user rq, je_posted_by = None, je_posted_at = None,
                    je_debit = 0, je_credit = 0, je_data = []\<rparr>;
               i = next_id (f_journals db2)
           in ebind (check_unique ''uq_journal_entries_no'' entry_key i e (f_journals db2)) (\<lambda>_.
                Inr ((i, e), db2\<lparr>f_journals := t_add e (f_journals db2)\<rparr>)))
      | Some (i, e) \<Rightarrow>
          if je_status e = ''POSTED''
          then Inl (InvalidState ''Posted journals cannot be edited; reverse instead.'')
          else Inr ((i, e\<lparr>je_date := entry_date, je_posting_date := posting_date, je_period := Some period_id,
                          je_description := (if truthy (dget data ''description'')
                            then str_or_none (dget data ''description'') else je_description e)\<rparr>), db1))"

definition save_journal :: "payload \<Rightarrow> int service" where
  "save_journal data0 rq db =
     ebind (validate_schema JOURNAL_WRITE_SCHEMA data0 (truthy (dget data0 ''id''))) (\<lambda>data.
     let stored = the_journal data db;
         entry_date = (case to_date (dget data ''entryDate'') of Some x \<Rightarrow> x | None \<Rightarrow> rq_today rq);
         posting_date = (case to_date (dget data ''postingDate'') of Some x \<Rightarrow> x | None \<Rightarrow> entry_date)
     in ebind (resolve_period posting_date db) (\<lambda>((period_id, _), db1).
        ebind (validate_line_items (dget data ''lines'') JOURNAL_LINE_SCHEMA) (\<lambda>lines.
        ebind (open_journal data stored entry_date posting_date period_id rq db1) (\<lambda>((i, e), db3).
        let db4 = db3\<lparr>f_jlines := t_del_where (\<lambda>l. jl_journal l = i) (f_jlines db3)\<rparr>
        in ebind (emap (read_journal_line db4 i) (py_enumerate 0 lines)) (\<lambda>ls.
           ebind (emap flush_jline ls) (\<lambda>line_rows.
           ebind (flush_journal
                    (e\<lparr>je_debit := foldl dadd 0 (map jl_debit ls), je_credit := foldl dadd 0 (map jl_credit ls),
                       je_data := filter (\<lambda>(k, _). k \<notin> {''id'', ''lines'', ''createdAt'', ''updatedAt''}) data\<rparr>)) (\<lambda>row.
             Inr (i, db4\<lparr>f_journals := t_put i row (f_journals db4),
                         f_jlines := t_add_all line_rows (f_jlines db4)\<rparr>))))))))"

section \<open>Posting\<close>

definition bad_line :: "jline \<Rightarrow> bool" where
  "bad_line l \<longleftrightarrow> jl_debit l < 0 \<or> jl_credit l < 0 \<or> (0 < jl_debit l) = (0 < jl_credit l)"

definition post_journal :: "int \<Rightarrow> int service" where
  "post_journal journal_id rq db =
     ebind (require_some (t_get (f_journals db) journal_id) (NotFound ''Journal entry not found.'')) (\<lambda>e.
     if je_status e = ''POSTED'' then Inr (journal_id, db)
     else
       ebind (raise_if (je_status e \<noteq> ''DRAFT'') (InvalidState ''Cannot post a journal in this status.'')) (\<lambda>_.
       let lines = journal_lines db journal_id;
           debits = sum_list (map jl_debit lines); credits = sum_list (map jl_credit lines)
       in ebind (raise_if (length lines < 2)
                  (ValidationFailed ''A journal must have at least two lines before posting.'' [])) (\<lambda>_.
          ebind (raise_if (list_ex bad_line lines)
                  (ValidationFailed ''Every journal line must contain exactly one positive debit or credit.''
                     [(''lines'', ''A line is invalid.'')])) (\<lambda>_.
          ebind (raise_if (debits \<noteq> credits \<or> debits = 0)
                  (Conflict ''JOURNAL_UNBALANCED'' ''Total debit must equal total credit and be non-zero.'' [])) (\<lambda>_.
          ebind (raise_if (sum_list (map jl_base_debit lines) \<noteq> sum_list (map jl_base_credit lines))
                  (Conflict ''JOURNAL_UNBALANCED''
                     ''Total base-currency debit must equal total base-currency credit.'' [])) (\<lambda>_.
          ebind (raise_if (case je_period e of
                    None \<Rightarrow> False
                  | Some p \<Rightarrow> p \<noteq> 0 \<and> map_option per_status (t_get (f_periods db) p) = Some ''CLOSED'')
                  (Conflict ''PERIOD_CLOSED'' ''The accounting period is closed.'' [])) (\<lambda>_.
          ebind (flush_journal
                   (e\<lparr>je_status := ''POSTED'', je_posted_at := Some (rq_now rq), je_posted_by := rq_user rq,
                      je_debit := debits, je_credit := credits\<rparr>)) (\<lambda>row.
            Inr (journal_id, db\<lparr>f_journals := t_put journal_id row (f_journals db)\<rparr>)))))))))"

section \<open>Deleting\<close>

text \<open>The database keeps a journal that a posting or a reversal names.\<close>

definition journal_referenced :: "int \<Rightarrow> fdb \<Rightarrow> bool" where
  "journal_referenced i db \<longleftrightarrow>
     list_ex (\<lambda>p. po_journal p = i) (t_vals (f_postings db))
     \<or> list_ex (\<lambda>(j, e). j \<noteq> i \<and> je_reversal_of e = Some i) (rows (f_journals db))"

definition delete_journal :: "int \<Rightarrow> fdb \<Rightarrow> fdb res" where
  "delete_journal i db =
     (case t_get (f_journals db) i of
        None \<Rightarrow> Inr db
      | Some e \<Rightarrow>
          ebind (raise_if (je_status e = ''POSTED'')
                  (InvalidState ''Posted journals cannot be deleted; reverse instead.'')) (\<lambda>_.
          ebind (raise_if (journal_referenced i db) (IntegrityError ''journal_entries'')) (\<lambda>_.
            Inr (db\<lparr>f_jlines := t_del_where (\<lambda>l. jl_journal l = i) (f_jlines db),
                   f_journals := t_del i (f_journals db)\<rparr>))))"

definition delete_journals :: "int list \<Rightarrow> fdb \<Rightarrow> fdb res" where
  "delete_journals ids db = efold delete_journal ids db"

end
