(* ===== verification/Accounts.thy ===== *)
theory Accounts
  imports FinanceBasics
begin

text \<open>
  The setup records of \<open>finance/service.py\<close>: the chart of accounts, the cash and bank accounts and the
  accounting periods, with their payloads and the deletion rule of \<open>core/deletion.py\<close> for the tables
  that point at them. The \<open>float\<close> balance of a financial account is the exact sum here.
\<close>

section \<open>Chart of accounts\<close>

definition account_payload :: "int \<times> account \<Rightarrow> string option \<Rightarrow> payload" where
  "account_payload x parent_code =
     (case x of (i, a) \<Rightarrow>
       [(''id'', PStr (show_int i)), (''accountCode'', PStr (acc_code a)), (''accountName'', PStr (acc_name a)),
        (''accountType'', PStr (status_label (acc_type a))),
        (''parentCode'', (case parent_code of Some c \<Rightarrow> PStr c | None \<Rightarrow> PNone)),
        (''parentAccountId'', (case acc_parent a of Some p \<Rightarrow> PInt p | None \<Rightarrow> PNone)),
        (''normalBalance'', PStr (status_label (acc_normal a))), (''postable'', PBool (acc_postable a)),
        (''status'', PStr (status_label (acc_status a)))])"

definition account_key :: "account \<Rightarrow> string option" where
  "account_key a = Some (acc_code a)"

text \<open>\<open>_commit_unique\<close>: the unique index refuses the write, and the refusal becomes a conflict.\<close>

definition commit_unique :: "string \<Rightarrow> string \<Rightarrow> string \<Rightarrow> ('r \<Rightarrow> 'k option) \<Rightarrow> int \<Rightarrow> 'r \<Rightarrow> 'r table \<Rightarrow> unit res" where
  "commit_unique code msg f key i r t =
     raise_if (\<not> unique_among key i r t) (Conflict code msg [(f, msg)])"

definition commit_account :: "int \<Rightarrow> account \<Rightarrow> fdb \<Rightarrow> unit res" where
  "commit_account i a db =
     commit_unique ''DUPLICATE_ACCOUNT_CODE'' ''This account code is already in use.'' ''accountCode''
       account_key i a (f_accounts db)"

definition create_account :: "payload \<Rightarrow> payload service" where
  "create_account data rq db =
     ebind (validate_schema ACCOUNT_SCHEMA data False) (\<lambda>values.
       let a = \<lparr>acc_code = py_str (dget values ''accountCode''), acc_name = py_str (dget values ''accountName''),
              acc_type = py_upper (py_str (py_or (dget values ''accountType'') (PStr ''ASSET''))),
              acc_parent = None,
              acc_normal = py_upper (py_str (py_or (dget values ''normalBalance'') (PStr ''DEBIT''))),
              acc_postable = truthy (if has_key values ''postable'' then dget values ''postable'' else PBool True),
              acc_status = py_upper (py_str (py_or (dget values ''status'') (PStr ''ACTIVE'')))\<rparr>;
           i = next_id (f_accounts db)
       in ebind (commit_account i a db) (\<lambda>_.
            Inr (account_payload (i, a) None, db\<lparr>f_accounts := t_add a (f_accounts db)\<rparr>)))"

text \<open>An assignment \<open>if key in values: row.attr = f(values[key])\<close>.\<close>

definition when_key :: "payload \<Rightarrow> string \<Rightarrow> (pyval \<Rightarrow> 'r \<Rightarrow> 'r) \<Rightarrow> 'r \<Rightarrow> 'r" where
  "when_key values k f r = (if has_key values k then f (dget values k) r else r)"

definition update_account :: "int \<Rightarrow> payload \<Rightarrow> payload service" where
  "update_account account_id data rq db =
     ebind (require_some (t_get (f_accounts db) account_id) (NotFound ''Account not found.'')) (\<lambda>a0.
     ebind (validate_schema ACCOUNT_SCHEMA data True) (\<lambda>values.
       let a = when_key values ''status'' (\<lambda>v. acc_status_update (\<lambda>_. py_upper (py_str v)))
              (when_key values ''postable'' (\<lambda>v. acc_postable_update (\<lambda>_. truthy v))
              (when_key values ''normalBalance'' (\<lambda>v. acc_normal_update (\<lambda>_. py_upper (py_str v)))
              (when_key values ''accountType'' (\<lambda>v. acc_type_update (\<lambda>_. py_upper (py_str v)))
              (when_key values ''accountName'' (\<lambda>v. acc_name_update (\<lambda>_. py_str v))
              (when_key values ''accountCode'' (\<lambda>v. acc_code_update (\<lambda>_. py_str v)) a0)))))
       in ebind (commit_account account_id a db) (\<lambda>_.
            Inr (account_payload (account_id, a) None, db\<lparr>f_accounts := t_put account_id a (f_accounts db)\<rparr>))))"

definition get_account :: "int \<Rightarrow> fdb \<Rightarrow> payload res" where
  "get_account account_id db =
     ebind (require_some (t_get (f_accounts db) account_id) (NotFound ''Account not found.'')) (\<lambda>a.
       Inr (account_payload (account_id, a)
         (case acc_parent a of
            None \<Rightarrow> None
          | Some p \<Rightarrow> if p = 0 then None else map_option acc_code (t_get (f_accounts db) p))))"

section \<open>Financial accounts\<close>

definition fin_account_key :: "fin_account \<Rightarrow> int option" where
  "fin_account_key a = Some (fa_account a)"

definition commit_fin_account :: "int \<Rightarrow> fin_account \<Rightarrow> fdb \<Rightarrow> unit res" where
  "commit_fin_account i a db =
     commit_unique ''DUPLICATE_LEDGER_ACCOUNT'' ''This ledger account is already linked to a financial account.''
       ''ledgerCode'' fin_account_key i a (f_fin_accounts db)"

text \<open>The balance of an account: its posted lines, debit less credit, in the base currency.\<close>

definition posted_line :: "fdb \<Rightarrow> jline \<Rightarrow> bool" where
  "posted_line db l \<longleftrightarrow> map_option je_status (t_get (f_journals db) (jl_journal l)) = Some ''POSTED''"

definition account_balance :: "fdb \<Rightarrow> int \<Rightarrow> rat" where
  "account_balance db a =
     t_sum (\<lambda>l. jl_base_debit l - jl_base_credit l) (\<lambda>l. jl_account l = a \<and> posted_line db l) (f_jlines db)"

definition create_financial_account :: "payload \<Rightarrow> int service" where
  "create_financial_account data rq db =
     ebind (validate_schema FINANCIAL_ACCOUNT_SCHEMA data False) (\<lambda>values.
     ebind (require_some (resolve_account_ref (dget values ''ledgerCode'') db)
         (ValidationFailed ''Ledger account not found.''
            [(''ledgerCode'', ''Choose an account from the chart of accounts.'')])) (\<lambda>ledger.
     ebind (assert_currency_code (py_or (dget values ''currency'') (PStr (f_default_currency db))) ''currency'' db)
       (\<lambda>currency.
       let a = \<lparr>fa_account = fst ledger,
              fa_name = py_str (py_or (dget values ''accountName'') (PStr (acc_name (snd ledger)))),
              fa_type = py_upper (py_str (py_or (dget values ''accountType'') (PStr ''BANK''))),
              fa_currency = currency, fa_bank = str_or_none (dget values ''bankName''),
              fa_masked = str_or_none (dget values ''accountNumberMasked''),
              fa_status = py_upper (py_str (py_or (dget values ''status'') (PStr ''ACTIVE'')))\<rparr>;
           i = next_id (f_fin_accounts db)
       in ebind (commit_fin_account i a db) (\<lambda>_.
            Inr (i, db\<lparr>f_fin_accounts := t_add a (f_fin_accounts db)\<rparr>)))))"

definition update_financial_account :: "int \<Rightarrow> payload \<Rightarrow> int service" where
  "update_financial_account account_id data rq db =
     ebind (require_some (t_get (f_fin_accounts db) account_id) (NotFound ''Financial account not found.'')) (\<lambda>a0.
     ebind (validate_schema FINANCIAL_ACCOUNT_SCHEMA data True) (\<lambda>values.
     ebind (if has_key values ''ledgerCode''
            then ebind (require_some (resolve_account_ref (dget values ''ledgerCode'') db)
                   (ValidationFailed ''Ledger account not found.''
                      [(''ledgerCode'', ''Choose an account from the chart of accounts.'')])) (\<lambda>ledger.
                   Inr (a0\<lparr>fa_account := fst ledger\<rparr>))
            else Inr a0) (\<lambda>a1.
       let a2 = when_key values ''accountType'' (\<lambda>v. fa_type_update (\<lambda>_. py_upper (py_str v)))
               (when_key values ''accountNumberMasked'' (\<lambda>v. fa_masked_update (\<lambda>_. str_or_none v))
               (when_key values ''bankName'' (\<lambda>v. fa_bank_update (\<lambda>_. str_or_none v))
               (when_key values ''accountName'' (\<lambda>v. fa_name_update (\<lambda>_. py_str v)) a1)))
       in ebind (if has_key values ''currency''
                 then ebind (assert_currency_code (dget values ''currency'') ''currency'' db) (\<lambda>c.
                        Inr (a2\<lparr>fa_currency := c\<rparr>))
                 else Inr a2) (\<lambda>a3.
            let a = when_key values ''status'' (\<lambda>v. fa_status_update (\<lambda>_. py_upper (py_str v))) a3
            in ebind (commit_fin_account account_id a db) (\<lambda>_.
                 Inr (account_id, db\<lparr>f_fin_accounts := t_put account_id a (f_fin_accounts db)\<rparr>))))))"

section \<open>Periods\<close>

definition period_payload :: "int \<times> period \<Rightarrow> payload" where
  "period_payload x =
     (case x of (i, p) \<Rightarrow>
       [(''id'', PStr (show_int i)), (''name'', PStr (show_int (per_year p) @ ''-'' @ zfill (show_int (per_month p)) 2)),
        (''year'', PInt (per_year p)), (''month'', PInt (per_month p)),
        (''startDate'', PStr (show_date (per_start p))), (''endDate'', PStr (show_date (per_end p))),
        (''status'', PStr (per_status p)), (''postingCount'', PInt 0), (''closedBy'', PNone),
        (''closedAt'', (case per_closed_at p of Some t \<Rightarrow> PInt t | None \<Rightarrow> PNone))])"

definition with_period :: "int \<Rightarrow> (int \<times> period \<Rightarrow> period res) \<Rightarrow> fdb \<Rightarrow> (payload \<times> fdb) res" where
  "with_period period_id f db =
     ebind (require_some (t_get (f_periods db) period_id) (NotFound ''Accounting period not found.'')) (\<lambda>p0.
     ebind (f (period_id, p0)) (\<lambda>p.
       Inr (period_payload (period_id, p), db\<lparr>f_periods := t_put period_id p (f_periods db)\<rparr>)))"

definition update_period :: "int \<Rightarrow> payload \<Rightarrow> payload service" where
  "update_period period_id data0 rq db =
     with_period period_id (\<lambda>(_, p0).
       ebind (validate_schema PERIOD_WRITE_SCHEMA data0 True) (\<lambda>data.
         let v = dget data ''status''
         in Inr (if v = PNone then p0
                 else (let p = p0\<lparr>per_status := py_upper (py_str v)\<rparr>
                       in if per_status p = ''OPEN'' then p\<lparr>per_closed_at := None, per_closed_by := None\<rparr> else p)))) db"

definition close_period :: "int \<Rightarrow> payload service" where
  "close_period period_id rq db =
     with_period period_id (\<lambda>(_, p).
       Inr (p\<lparr>per_status := ''CLOSED'', per_closed_at := Some (rq_now rq), per_closed_by := rq_user rq\<rparr>)) db"

definition reopen_period :: "int \<Rightarrow> payload service" where
  "reopen_period period_id rq db =
     with_period period_id (\<lambda>(_, p).
       Inr (p\<lparr>per_status := ''OPEN'', per_closed_at := None, per_closed_by := None\<rparr>)) db"

section \<open>Deleting\<close>

text \<open>
  \<open>core/deletion.py\<close>: \<open>require_inactive\<close>, and \<open>dependent_references\<close>, which counts the rows of every
  other table with a foreign key to the record. A table is given here by its name and whether one of
  its rows points at the record.
\<close>

definition require_inactive :: "string \<Rightarrow> string \<Rightarrow> unit res" where
  "require_inactive status_value msg =
     raise_if (py_upper (py_strip status_value) = ''ACTIVE'') (Conflict ''RECORD_ACTIVE'' msg [])"

definition ensure_deletable :: "(string \<times> bool) list \<Rightarrow> unit res" where
  "ensure_deletable references =
     raise_if (list_ex snd references)
       (Conflict ''DELETE_BLOCKED_BY_REFERENCES'' ''The record is still referenced.'' [])"

definition account_references :: "int \<Rightarrow> fdb \<Rightarrow> (string \<times> bool) list" where
  "account_references i db =
     [(''financial_accounts'', list_ex (\<lambda>a. fa_account a = i) (t_vals (f_fin_accounts db))),
      (''financial_document_lines'', list_ex (\<lambda>l. dl_account l = Some i) (t_vals (f_lines db))),
      (''posting_rules'', list_ex (\<lambda>r. pr_debit r = i \<or> pr_credit r = i \<or> pr_tax r = Some i) (t_vals (f_rules db))),
      (''journal_entry_lines'', list_ex (\<lambda>l. jl_account l = i) (t_vals (f_jlines db)))]"

text \<open>The self reference of the hierarchy is left to the foreign key of the database.\<close>

definition delete_account :: "int \<Rightarrow> fdb \<Rightarrow> fdb res" where
  "delete_account i db =
     (case t_get (f_accounts db) i of
        None \<Rightarrow> Inr db
      | Some a \<Rightarrow>
          ebind (require_inactive (acc_status a) ''Active chart of accounts record cannot be deleted.'') (\<lambda>_.
          ebind (ensure_deletable (account_references i db)) (\<lambda>_.
            Inr (db\<lparr>f_accounts := t_del i (f_accounts db)\<rparr>))))"

definition parent_exists :: "fdb \<Rightarrow> account \<Rightarrow> bool" where
  "parent_exists db a = pred_option (\<lambda>p. t_get (f_accounts db) p \<noteq> None) (acc_parent a)"

definition delete_accounts :: "int list \<Rightarrow> fdb \<Rightarrow> fdb res" where
  "delete_accounts ids db =
     ebind (efold delete_account ids db) (\<lambda>db'.
     ebind (raise_if (list_ex (\<lambda>a. \<not> parent_exists db' a \<and> parent_exists db a) (t_vals (f_accounts db')))
         (IntegrityError ''chart_of_accounts_parent_account_id_fkey'')) (\<lambda>_. Inr db'))"

definition fin_account_references :: "int \<Rightarrow> fdb \<Rightarrow> (string \<times> bool) list" where
  "fin_account_references i db =
     [(''financial_documents'', list_ex (\<lambda>d. doc_fin_account d = Some i) (t_vals (f_documents db)))]"

definition delete_financial_account :: "int \<Rightarrow> fdb \<Rightarrow> fdb res" where
  "delete_financial_account i db =
     (case t_get (f_fin_accounts db) i of
        None \<Rightarrow> Inr db
      | Some a \<Rightarrow>
          ebind (require_inactive (fa_status a) ''Active financial account cannot be deleted.'') (\<lambda>_.
          ebind (ensure_deletable (fin_account_references i db)) (\<lambda>_.
            Inr (db\<lparr>f_fin_accounts := t_del i (f_fin_accounts db)\<rparr>))))"

definition delete_financial_accounts :: "int list \<Rightarrow> fdb \<Rightarrow> fdb res" where
  "delete_financial_accounts ids db = efold delete_financial_account ids db"

section \<open>Lemmas\<close>

lemma when_key_dget: "has_key values k \<Longrightarrow> when_key values k f r = f (dget values k) r"
  by (simp add: when_key_def)

lemma ensure_deletable_Inr [simp]: "ensure_deletable refs = Inr u \<longleftrightarrow> \<not> list_ex snd refs"
  by (simp add: ensure_deletable_def)

lemma account_unreferenced:
  "\<not> list_ex snd (account_references i db) \<longleftrightarrow>
     (\<forall>a \<in> set (t_vals (f_fin_accounts db)). fa_account a \<noteq> i)
     \<and> (\<forall>l \<in> set (t_vals (f_lines db)). dl_account l \<noteq> Some i)
     \<and> (\<forall>r \<in> set (t_vals (f_rules db)). pr_debit r \<noteq> i \<and> pr_credit r \<noteq> i \<and> pr_tax r \<noteq> Some i)
     \<and> (\<forall>l \<in> set (t_vals (f_jlines db)). jl_account l \<noteq> i)"
  by (auto simp: account_references_def list_ex_iff)

text \<open>Deleting accounts leaves every account that a row of the finance tables names.\<close>

definition account_named :: "fdb \<Rightarrow> int \<Rightarrow> bool" where
  "account_named db i \<longleftrightarrow> list_ex snd (account_references i db)"

lemma delete_account_Inr:
  assumes "delete_account i db = Inr db'"
  shows "\<exists>t. db' = db\<lparr>f_accounts := t\<rparr>"
    and "t_get (f_accounts db') j = t_get (f_accounts db) j \<or>
         (j = i \<and> \<not> account_named db i \<and> (\<exists>a. t_get (f_accounts db) i = Some a \<and> acc_status a \<noteq> ''ACTIVE''))"
proof -
  have upper: "py_upper (py_strip ''ACTIVE'') = ''ACTIVE''" by code_simp
  show "\<exists>t. db' = db\<lparr>f_accounts := t\<rparr>"
  proof (cases "t_get (f_accounts db) i")
    case None
    with assms have "db' = db\<lparr>f_accounts := f_accounts db\<rparr>" by (simp add: delete_account_def)
    then show ?thesis by blast
  qed (use assms in \<open>auto simp: delete_account_def ebind_Inr_iff\<close>)
  show "t_get (f_accounts db') j = t_get (f_accounts db) j \<or>
         (j = i \<and> \<not> account_named db i \<and> (\<exists>a. t_get (f_accounts db) i = Some a \<and> acc_status a \<noteq> ''ACTIVE''))"
    using assms upper
    by (auto simp: delete_account_def ebind_Inr_iff account_named_def require_inactive_def
        split: option.splits if_splits)
qed

lemma delete_accounts_frame:
  assumes "efold delete_account ids db = Inr db'"
  shows "\<exists>t. db' = db\<lparr>f_accounts := t\<rparr>"
proof (rule efold_invariant [OF assms])
  show "\<exists>t. db = db\<lparr>f_accounts := t\<rparr>" by (rule exI [of _ "f_accounts db"]) simp
  fix x t t'
  assume "\<exists>u. t = db\<lparr>f_accounts := u\<rparr>" and "delete_account x t = Inr t'"
  with delete_account_Inr(1) [of x t t'] show "\<exists>u. t' = db\<lparr>f_accounts := u\<rparr>" by auto
qed

lemma account_named_frame: "account_named (db\<lparr>f_accounts := t\<rparr>) i = account_named db i"
  by (simp add: account_named_def account_references_def)

lemma delete_accounts_keeps:
  assumes "delete_accounts ids db = Inr db'" and "t_get (f_accounts db) i = Some a"
    and "account_named db i \<or> acc_status a = ''ACTIVE'' \<or> i \<notin> set ids"
  shows "t_get (f_accounts db') i = Some a"
proof -
  define I where "I d \<longleftrightarrow> (\<exists>t. d = db\<lparr>f_accounts := t\<rparr>) \<and> t_get (f_accounts d) i = Some a" for d
  from assms(1) have e: "efold delete_account ids db = Inr db'"
    by (auto simp: delete_accounts_def ebind_Inr_iff)
  have "I db'"
  proof (rule efold_invariant [OF e])
    show "I db" unfolding I_def using assms(2) by (auto intro: exI [of _ "f_accounts db"])
    fix x t t'
    assume "x \<in> set ids" and "I t" and step: "delete_account x t = Inr t'"
    then obtain u where t: "t = db\<lparr>f_accounts := u\<rparr>" and r: "t_get (f_accounts t) i = Some a"
      by (auto simp: I_def)
    from delete_account_Inr(1) [OF step] t have "\<exists>u. t' = db\<lparr>f_accounts := u\<rparr>" by auto
    moreover from delete_account_Inr(2) [OF step, of i] r \<open>x \<in> set ids\<close> assms(3)
    have "t_get (f_accounts t') i = Some a" by (auto simp: t account_named_frame)
    ultimately show "I t'" by (simp add: I_def)
  qed
  then show ?thesis by (simp add: I_def)
qed

end
