(* ===== verification/RuleAdmin.thy ===== *)
theory RuleAdmin
  imports Accounts
begin

text \<open>
  The administration of posting rules in \<open>finance/service.py\<close>: the validated column values, the unique
  priority of an active scope, create, update and delete.
\<close>

section \<open>Column values\<close>

type_synonym rule_row = "int \<times> posting_rule"

text \<open>The first message of a refusal's field map, else its own message.\<close>

definition refusal_message :: "domain_error \<Rightarrow> string" where
  "refusal_message e =
     (case e of ValidationFailed msg ((_, m) # _) \<Rightarrow> m | ValidationFailed msg [] \<Rightarrow> msg | _ \<Rightarrow> [])"

definition rule_account ::
    "payload \<Rightarrow> rule_row option \<Rightarrow> string \<Rightarrow> (posting_rule \<Rightarrow> int option) \<Rightarrow> bool \<Rightarrow> fdb \<Rightarrow>
     account_row option \<times> string option" where
  "rule_account data current f column required db =
     (if \<not> has_key data f \<and> current \<noteq> None then
        ((case column (snd (the current)) of
            Some i \<Rightarrow> if i = 0 then None else account_by_id db i
          | None \<Rightarrow> None), None)
      else
        (let v = dget data f
         in if none_or_empty v then (None, if required then Some ''Select the account.'' else None)
            else case resolve_account_ref v db of
              None \<Rightarrow> (None, Some ''That account is not in the chart of accounts.'')
            | Some x \<Rightarrow>
                (case validate_postable (Some x) (Some f) of
                   Inr y \<Rightarrow> (Some y, None)
                 | Inl e \<Rightarrow> (None, Some (refusal_message e)))))"

definition rule_priority :: "payload \<Rightarrow> rule_row option \<Rightarrow> int \<times> (string \<times> string) list" where
  "rule_priority data current =
     (let v = dget data ''priority'';
          (p, errs) =
            (if none_or_empty v then ((case current of Some (_, r) \<Rightarrow> pr_priority r | None \<Rightarrow> 0), [])
             else case int_of v of
               Some i \<Rightarrow> (i, [])
             | None \<Rightarrow> (0, [(''priority'', ''Priority must be a whole number.'')]))
      in (p, if errs = [] \<and> p < 0 then [(''priority'', ''Priority cannot be negative.'')] else errs))"

definition duplicate_priority :: "posting_rule \<Rightarrow> domain_error" where
  "duplicate_priority r =
     Conflict ''DUPLICATE_POSTING_RULE'' ''An active posting rule already uses this document, fee type and priority.''
       [(if pr_fee r \<noteq> None then ''feeTypeId'' else ''documentType'',
         ''Deactivate the existing rule, or give this one a different priority.''),
        (''priority'', ''The priority is already taken for this scope.'')]"

definition assert_unique_priority :: "posting_rule \<Rightarrow> int option \<Rightarrow> fdb \<Rightarrow> unit res" where
  "assert_unique_priority values exclude_id db =
     (if pr_status values \<noteq> ''ACTIVE'' then Inr ()
      else raise_if
        (list_ex (\<lambda>(i, r). pr_type r = pr_type values \<and> pr_fee r = pr_fee values
             \<and> pr_priority r = pr_priority values \<and> pr_status r = ''ACTIVE'' \<and> exclude_id \<noteq> Some i)
           (rows (f_rules db)))
        (duplicate_priority values))"

definition optional_error :: "string \<Rightarrow> string option \<Rightarrow> (string \<times> string) list" where
  "optional_error f m = (case m of Some (c # s) \<Rightarrow> [(f, c # s)] | _ \<Rightarrow> [])"

definition posting_rule_data :: "payload \<Rightarrow> rule_row option \<Rightarrow> fdb \<Rightarrow> posting_rule res" where
  "posting_rule_data data0 current db =
     ebind (validate_schema POSTING_RULE_WRITE_SCHEMA data0 (current \<noteq> None)) (\<lambda>data.
     let cur_type = (case current of Some (_, r) \<Rightarrow> PStr (pr_type r) | None \<Rightarrow> PStr []);
         document_type = py_upper (py_strip (py_str (py_or (dget data ''documentType'') cur_type)));
         cur_status = (case current of Some (_, r) \<Rightarrow> PStr (pr_status r) | None \<Rightarrow> PStr ''ACTIVE'');
         status = py_upper (py_strip (py_str (py_or (dget data ''status'') cur_status)));
         fee_type_id = (if has_key data ''feeTypeId'' then int_or_none (dget data ''feeTypeId'')
                        else case current of Some (_, r) \<Rightarrow> pr_fee r | None \<Rightarrow> None);
         (debit, debit_error) = rule_account data current ''debitAccount'' (\<lambda>r. Some (pr_debit r)) True db;
         (credit, credit_error) = rule_account data current ''creditAccount'' (\<lambda>r. Some (pr_credit r)) True db;
         (tax, tax_error) = rule_account data current ''taxAccount'' pr_tax False db;
         (priority, priority_errors) = rule_priority data current;
         errs =
           (if document_type = [] then [(''documentType'', ''Select the document type this rule applies to.'')]
            else if document_type \<notin> set KNOWN_DOCUMENT_TYPES then [(''documentType'', ''Unknown document type.'')] else [])
           @ (if status \<noteq> ''ACTIVE'' \<and> status \<noteq> ''INACTIVE''
              then [(''status'', ''Status must be ACTIVE or INACTIVE.'')] else [])
           @ optional_error ''debitAccount'' debit_error @ optional_error ''creditAccount'' credit_error
           @ optional_error ''taxAccount'' tax_error @ priority_errors
     in if errs \<noteq> [] then Inl (ValidationFailed ''Please correct the posting rule.'' errs)
        else
          ebind (require_some debit (PythonError ''AssertionError'')) (\<lambda>(d, _).
          ebind (require_some credit (PythonError ''AssertionError'')) (\<lambda>(c, _).
            let values =
              \<lparr>pr_type = document_type, pr_fee = fee_type_id, pr_debit = d, pr_credit = c,
               pr_tax = map_option fst tax, pr_status = status, pr_priority = priority,
               pr_description =
                 (case (if dget data ''description'' \<noteq> PNone then Some (py_strip (py_str (dget data ''description'')))
                        else case current of Some (_, r) \<Rightarrow> pr_description r | None \<Rightarrow> None) of
                    Some (ch # s) \<Rightarrow> Some (ch # s) | _ \<Rightarrow> None)\<rparr>
            in if d = c then Inl (ValidationFailed ''Please correct the posting rule.''
                   [(''creditAccount'', ''The credit account must differ from the debit account.'')])
               else ebind (assert_unique_priority values (map_option fst current) db) (\<lambda>_. Inr values))))"

section \<open>Writing\<close>

text \<open>\<open>_flush_rule\<close>: the partial unique index is the authority.\<close>

definition flush_rule :: "int \<Rightarrow> posting_rule \<Rightarrow> fdb \<Rightarrow> unit res" where
  "flush_rule i r db = raise_if (\<not> unique_among rule_key i r (f_rules db)) (duplicate_priority r)"

definition create_posting_rule :: "payload \<Rightarrow> int service" where
  "create_posting_rule data rq db =
     ebind (posting_rule_data data None db) (\<lambda>r.
     ebind (flush_rule (next_id (f_rules db)) r db) (\<lambda>_.
       Inr (next_id (f_rules db), db\<lparr>f_rules := t_add r (f_rules db)\<rparr>)))"

definition update_posting_rule :: "int \<Rightarrow> payload \<Rightarrow> int service" where
  "update_posting_rule rule_id data rq db =
     ebind (require_some (t_get (f_rules db) rule_id) (NotFound ''Posting rule not found.'')) (\<lambda>r0.
     ebind (posting_rule_data data (Some (rule_id, r0)) db) (\<lambda>r.
     ebind (flush_rule rule_id r db) (\<lambda>_.
       Inr (rule_id, db\<lparr>f_rules := t_put rule_id r (f_rules db)\<rparr>))))"

definition rule_references :: "int \<Rightarrow> fdb \<Rightarrow> (string \<times> bool) list" where
  "rule_references i db =
     [(''journal_entries'', list_ex (\<lambda>e. je_rule e = Some i) (t_vals (f_journals db)))]"

definition delete_posting_rule :: "int \<Rightarrow> fdb \<Rightarrow> fdb res" where
  "delete_posting_rule i db =
     (case t_get (f_rules db) i of
        None \<Rightarrow> Inr db
      | Some r \<Rightarrow>
          ebind (require_inactive (pr_status r) ''Active posting rule cannot be deleted.'') (\<lambda>_.
          ebind (ensure_deletable (rule_references i db)) (\<lambda>_.
            Inr (db\<lparr>f_rules := t_del i (f_rules db)\<rparr>))))"

definition delete_posting_rules :: "int list \<Rightarrow> fdb \<Rightarrow> fdb res" where
  "delete_posting_rules ids db = efold delete_posting_rule ids db"

section \<open>Lemmas\<close>

lemma rule_account_chart:
  assumes "rule_account data current f column required db = (Some x, e)"
  shows "chart_account db x"
  using assms
  by (auto simp: rule_account_def Let_def chart_account_def[of db] validate_postable_Inr_iff
      split: if_splits option.splits sum.splits
      dest!: resolve_account_ref_chart [unfolded chart_account_def])

text \<open>An account the payload names is postable and active.\<close>

lemma rule_account_postable:
  assumes "rule_account data current f column required db = (Some x, e)" and "has_key data f \<or> current = None"
  shows "postable x"
  using assms
  by (auto simp: rule_account_def Let_def validate_postable_Inr_iff split: if_splits option.splits sum.splits)

lemma posting_rule_data_Inr:
  assumes "posting_rule_data data0 current db = Inr r"
  shows "pr_debit r \<noteq> pr_credit r" and "pr_status r = ''ACTIVE'' \<or> pr_status r = ''INACTIVE''"
    and "pr_type r \<in> set KNOWN_DOCUMENT_TYPES" and "0 \<le> pr_priority r"
    and "\<exists>x. chart_account db x \<and> fst x = pr_debit r"
    and "\<exists>x. chart_account db x \<and> fst x = pr_credit r"
    and "assert_unique_priority r (map_option fst current) db = Inr ()"
proof -
  obtain debit de where d: "rule_account (projr (validate_schema POSTING_RULE_WRITE_SCHEMA data0 (current \<noteq> None)))
      current ''debitAccount'' (\<lambda>r. Some (pr_debit r)) True db = (debit, de)" by fastforce
  obtain credit ce where c: "rule_account (projr (validate_schema POSTING_RULE_WRITE_SCHEMA data0 (current \<noteq> None)))
      current ''creditAccount'' (\<lambda>r. Some (pr_credit r)) True db = (credit, ce)" by fastforce
  obtain tax te where t: "rule_account (projr (validate_schema POSTING_RULE_WRITE_SCHEMA data0 (current \<noteq> None)))
      current ''taxAccount'' pr_tax False db = (tax, te)" by fastforce
  obtain p pe where p: "rule_priority (projr (validate_schema POSTING_RULE_WRITE_SCHEMA data0 (current \<noteq> None))) current
      = (p, pe)" by fastforce
  from assms obtain data where v: "validate_schema POSTING_RULE_WRITE_SCHEMA data0 (current \<noteq> None) = Inr data"
    by (auto simp: posting_rule_data_def ebind_Inr_iff)
  have pp: "pe = [] \<Longrightarrow> 0 \<le> p"
    using p by (auto simp: rule_priority_def v Let_def not_less split: if_splits option.splits prod.splits)
  have res: "pr_debit r \<noteq> pr_credit r \<and> (pr_status r = ''ACTIVE'' \<or> pr_status r = ''INACTIVE'')
      \<and> pr_type r \<in> set KNOWN_DOCUMENT_TYPES \<and> pe = [] \<and> pr_priority r = p
      \<and> map_option fst debit = Some (pr_debit r) \<and> map_option fst credit = Some (pr_credit r)
      \<and> assert_unique_priority r (map_option fst current) db = Inr ()"
    using assms d c t p unfolding posting_rule_data_def v ebind_simps Let_def sum.sel
    by (auto simp: ebind_Inr_iff split: if_splits)
  then show "pr_debit r \<noteq> pr_credit r" and "pr_status r = ''ACTIVE'' \<or> pr_status r = ''INACTIVE''"
    and "pr_type r \<in> set KNOWN_DOCUMENT_TYPES" and "0 \<le> pr_priority r"
    and "assert_unique_priority r (map_option fst current) db = Inr ()"
    using pp by auto
  from res obtain x y where "debit = Some x" "fst x = pr_debit r" "credit = Some y" "fst y = pr_credit r" by auto
  with rule_account_chart [of _ _ _ _ _ db] d c
  show "\<exists>x. chart_account db x \<and> fst x = pr_debit r" and "\<exists>x. chart_account db x \<and> fst x = pr_credit r"
    by metis+
qed

lemma create_posting_rule_Inr:
  assumes "create_posting_rule data rq db = Inr (i, db')"
  shows "\<exists>r. posting_rule_data data None db = Inr r \<and> i = next_id (f_rules db)
     \<and> unique_among rule_key i r (f_rules db) \<and> db' = db\<lparr>f_rules := t_add r (f_rules db)\<rparr>"
  using assms by (auto simp: create_posting_rule_def ebind_Inr_iff flush_rule_def)

lemma update_posting_rule_Inr:
  assumes "update_posting_rule rid data rq db = Inr (i, db')"
  shows "\<exists>r0 r. t_get (f_rules db) rid = Some r0 \<and> posting_rule_data data (Some (rid, r0)) db = Inr r \<and> i = rid
     \<and> unique_among rule_key i r (f_rules db) \<and> db' = db\<lparr>f_rules := t_put rid r (f_rules db)\<rparr>"
  using assms by (auto simp: update_posting_rule_def ebind_Inr_iff flush_rule_def)

lemma delete_posting_rule_Inr:
  assumes "delete_posting_rule i db = Inr db'"
  shows "\<exists>t. db' = db\<lparr>f_rules := t\<rparr> \<and> (t = f_rules db \<or> t = t_del i (f_rules db))"
proof (cases "t_get (f_rules db) i")
  case None
  with assms have "db' = db\<lparr>f_rules := f_rules db\<rparr>" by (simp add: delete_posting_rule_def)
  then show ?thesis by blast
qed (use assms in \<open>auto simp: delete_posting_rule_def ebind_Inr_iff\<close>)

end
