(* ===== verification/Invoicing.thy ===== *)
theory Invoicing
  imports PostDocument
begin

text \<open>
  Invoices generated from the operations module by \<open>finance/service.py\<close>: one from an issued service
  charge, or one for all charges of a service order not invoiced yet.
\<close>

section \<open>From a charge\<close>

definition charge_lines :: "fdb \<Rightarrow> int \<Rightarrow> charge_line list" where
  "charge_lines db i = sort_key cl_no (filter (\<lambda>l. cl_charge l = i) (t_vals (f_charge_lines db)))"

definition invoice_line :: "int \<Rightarrow> int option \<Rightarrow> int \<Rightarrow> charge_line \<Rightarrow> doc_line" where
  "invoice_line document_id order_id line_no l =
     \<lparr>dl_document = document_id, dl_no = line_no, dl_description = cl_description l,
      dl_fee_type = cl_fee_type l, dl_quantity = cl_quantity l, dl_unit_price = cl_unit_price l,
      dl_discount = cl_discount l, dl_tax_rate = cl_tax_rate l, dl_tax = cl_tax l, dl_amount = cl_amount l,
      dl_order = order_id, dl_container = cl_container l, dl_account = None\<rparr>"

definition charge_source :: "int \<Rightarrow> int \<Rightarrow> doc_source" where
  "charge_source document_id charge_id =
     \<lparr>src_document = document_id, src_type = ''SERVICE_ORDER_CHARGE'', src_id = charge_id,
      src_relationship = ''GENERATED_FROM''\<rparr>"

text \<open>A draft invoice with its lines and sources, numbered from the invoice sequence.\<close>

definition add_invoice ::
    "document \<Rightarrow> (int \<Rightarrow> doc_line list) \<Rightarrow> (int \<Rightarrow> doc_source list) \<Rightarrow> fdb \<Rightarrow> (int \<times> fdb) res" where
  "add_invoice d lines sources db =
     (let i = next_id (f_documents db)
      in ebind (check_unique ''uq_financial_documents_no'' document_key i d (f_documents db)) (\<lambda>_.
         ebind (flush_document d) (\<lambda>row.
         ebind (emap flush_line (lines i)) (\<lambda>ls.
           Inr (i, db\<lparr>f_documents := t_add row (f_documents db), f_lines := t_add_all ls (f_lines db),
                      f_sources := t_add_all (sources i) (f_sources db)\<rparr>)))))"

definition charge_invoice ::
    "string \<Rightarrow> charge \<Rightarrow> int option \<Rightarrow> string \<times> rat \<times> string \<times> int \<Rightarrow> rat \<times> rat \<times> rat \<times> rat \<Rightarrow> request \<Rightarrow> document" where
  "charge_invoice number c party cur base rq =
     (let (currency, rate, base_currency, precision) = cur; (bs, bd, bt, bo) = base
      in \<lparr>doc_no = number, doc_type = ''CUSTOMER_INVOICE'', doc_date = rq_today rq, doc_posting_date = None,
          doc_status = ''DRAFT'', doc_party = party, doc_order = Some (ch_order c), doc_currency = currency,
          doc_rate = rate, doc_base_currency = Some base_currency,
          doc_description = Some (''Generated from service charge '' @ ch_no c), doc_reference = None,
          doc_due = None, doc_method = None, doc_fin_account = None, doc_value_date = None,
          doc_subtotal = ch_subtotal c, doc_discount = ch_discount c, doc_tax = ch_tax c, doc_total = ch_total c,
          doc_base_subtotal = bs, doc_base_discount = bd, doc_base_tax = bt, doc_base_total = bo, doc_paid = 0,
          doc_created_by = rq_user rq, doc_posted_by = None, doc_posted_at = None,
          doc_data = [(''sourceChargeNo'', PStr (ch_no c))]\<rparr>)"

definition create_invoice_from_charge :: "int \<times> charge \<Rightarrow> int service" where
  "create_invoice_from_charge charge rq db =
     (let (charge_id, c) = charge
      in ebind (raise_if (ch_status c \<noteq> ''ISSUED'')
                 (InvalidState ''Only an issued service charge can create a finance invoice.'')) (\<lambda>_.
         case (case t_first (\<lambda>s. src_type s = ''SERVICE_ORDER_CHARGE'' \<and> src_id s = charge_id) (f_sources db) of
                 Some (_, s) \<Rightarrow> if t_get (f_documents db) (src_document s) = None then None else Some (src_document s)
               | None \<Rightarrow> None) of
           Some i \<Rightarrow> Inr (i, db)
         | None \<Rightarrow>
             (let (number, db1) = allocate_number ''CUSTOMER_INVOICE'' None None rq db;
                  default_currency = f_default_currency db1
              in ebind (document_currency_inputs []
                          (if ch_currency c \<noteq> [] then ch_currency c else default_currency)
                          default_currency (Some (rq_today rq)) None db1) (\<lambda>cur.
                 let (currency, rate, base_currency, precision) = cur
                 in ebind (convert_to_base (ch_subtotal c) rate precision) (\<lambda>bs.
                    ebind (convert_to_base (ch_discount c) rate precision) (\<lambda>bd.
                    ebind (convert_to_base (ch_tax c) rate precision) (\<lambda>bt.
                    ebind (convert_to_base (ch_total c) rate precision) (\<lambda>bo.
                      add_invoice
                        (charge_invoice number c (map_option so_customer (t_get (f_orders db1) (ch_order c)))
                           cur (bs, bd, bt, bo) rq)
                        (\<lambda>i. map (\<lambda>l. invoice_line i (Some (ch_order c)) (cl_no l) l) (charge_lines db1 charge_id))
                        (\<lambda>i. [charge_source i charge_id]) db1))))))))"

section \<open>From a service order\<close>

text \<open>\<open>_service_order_invoice_documents\<close>: the order's own invoice, else those of its charges.\<close>

definition has_source :: "fdb \<Rightarrow> int \<Rightarrow> (doc_source \<Rightarrow> bool) \<Rightarrow> bool" where
  "has_source db document_id P \<longleftrightarrow> list_ex (\<lambda>s. src_document s = document_id \<and> P s) (t_vals (f_sources db))"

definition charge_of_order :: "fdb \<Rightarrow> int \<Rightarrow> int \<Rightarrow> bool" where
  "charge_of_order db order_id charge_id \<longleftrightarrow> map_option ch_order (t_get (f_charges db) charge_id) = Some order_id"

definition live_documents :: "fdb \<Rightarrow> (doc_source \<Rightarrow> bool) \<Rightarrow> int list" where
  "live_documents db P =
     sort_key (\<lambda>i. i) (map fst (filter (\<lambda>(i, d). doc_status d \<noteq> ''REVERSED'' \<and> has_source db i P) (rows (f_documents db))))"

definition service_order_invoice_documents :: "fdb \<Rightarrow> int \<Rightarrow> int list" where
  "service_order_invoice_documents db order_id =
     (let order_level = live_documents db (\<lambda>s. src_type s = ''SERVICE_ORDER'' \<and> src_id s = order_id)
      in if order_level \<noteq> [] then order_level
         else live_documents db (\<lambda>s. src_type s = ''SERVICE_ORDER_CHARGE'' \<and> charge_of_order db order_id (src_id s)))"

definition get_service_order_invoice :: "fdb \<Rightarrow> int \<Rightarrow> int option" where
  "get_service_order_invoice db order_id =
     (case service_order_invoice_documents db order_id of [] \<Rightarrow> None | i # _ \<Rightarrow> Some i)"

definition order_invoice :: "string \<Rightarrow> int \<times> service_order \<Rightarrow> (int \<times> charge) list \<Rightarrow> fdb \<Rightarrow> request \<Rightarrow> document" where
  "order_invoice number order pending db rq =
     (let (order_id, so) = order
      in \<lparr>doc_no = number, doc_type = ''CUSTOMER_INVOICE'', doc_date = rq_today rq, doc_posting_date = None,
          doc_status = ''DRAFT'', doc_party = Some (so_customer so), doc_order = Some order_id,
          doc_currency = (if so_currency so \<noteq> [] then so_currency so else f_default_currency db),
          doc_rate = 1, doc_base_currency = None,
          doc_description = Some (''Service order '' @ so_no so), doc_reference = None,
          doc_due = None, doc_method = None, doc_fin_account = None, doc_value_date = None,
          doc_subtotal = (\<Sum>(_, c)\<leftarrow>pending. ch_subtotal c), doc_discount = (\<Sum>(_, c)\<leftarrow>pending. ch_discount c),
          doc_tax = (\<Sum>(_, c)\<leftarrow>pending. ch_tax c), doc_total = (\<Sum>(_, c)\<leftarrow>pending. ch_total c),
          doc_base_subtotal = 0, doc_base_discount = 0, doc_base_tax = 0, doc_base_total = 0, doc_paid = 0,
          doc_created_by = rq_user rq, doc_posted_by = None, doc_posted_at = None,
          doc_data = [(''sourceChargeNos'', PList (map (\<lambda>(_, c). PStr (ch_no c)) pending))]\<rparr>)"

definition pending_charges :: "fdb \<Rightarrow> int \<Rightarrow> (int \<times> charge) list" where
  "pending_charges db order_id =
     filter (\<lambda>(i, c). ch_order c = order_id
         \<and> \<not> list_ex (\<lambda>s. src_type s = ''SERVICE_ORDER_CHARGE'' \<and> src_id s = i) (t_vals (f_sources db)))
       (sort_key fst (rows (f_charges db)))"

definition create_invoice_from_service_order :: "int \<times> service_order \<Rightarrow> int service" where
  "create_invoice_from_service_order order rq db =
     (let order_id = fst order
      in case get_service_order_invoice db order_id of
           Some i \<Rightarrow> Inr (i, db)
         | None \<Rightarrow>
             ebind (raise_if (\<not> list_ex (\<lambda>c. ch_order c = order_id) (t_vals (f_charges db)))
                     (ValidationFailed ''No service charges to invoice.'' [])) (\<lambda>_.
             let pending = pending_charges db order_id
             in ebind (raise_if (pending = [])
                        (ValidationFailed ''All service charges for this order are already invoiced.'' [])) (\<lambda>_.
                let (number, db1) = allocate_number ''CUSTOMER_INVOICE'' None None rq db
                in add_invoice (order_invoice number order pending db1 rq)
                     (\<lambda>i. map (\<lambda>(n, l). invoice_line i (Some order_id) (int n) l)
                             (py_enumerate 1 (concat (map (\<lambda>(c, _). charge_lines db1 c) pending))))
                     (\<lambda>i. map (\<lambda>(c, _). charge_source i c) pending
                        @ [\<lparr>src_document = i, src_type = ''SERVICE_ORDER'', src_id = order_id,
                            src_relationship = ''GENERATED_FROM''\<rparr>]) db1)))"

section \<open>Lemmas\<close>

lemma add_invoice_Inr:
  assumes "add_invoice d lines sources db = Inr (i, db')"
  shows "\<exists>row ls. i = next_id (f_documents db) \<and> unique_among document_key i d (f_documents db)
     \<and> flush_document d = Inr row \<and> emap flush_line (lines i) = Inr ls
     \<and> db' = db\<lparr>f_documents := t_add row (f_documents db), f_lines := t_add_all ls (f_lines db),
                f_sources := t_add_all (sources i) (f_sources db)\<rparr>"
  using assms by (auto simp: add_invoice_def Let_def ebind_Inr_iff)

lemma live_documents_sound:
  "i \<in> set (live_documents db P) \<longleftrightarrow>
     (\<exists>d. (i, d) \<in> set (rows (f_documents db)) \<and> doc_status d \<noteq> ''REVERSED'' \<and> has_source db i P)"
  by (force simp: live_documents_def)

end
