(* ===== verification/Effects.thy ===== *)
theory Effects
  imports Journals RuleAdmin Invoicing
begin

text \<open>
  What each operation that returns has done to the five tables of the ledger: the documents, the
  allocations, the journals, their lines and the posting links. Every other table is a frame.
\<close>

section \<open>The ledger tables\<close>

type_synonym core = "document table \<times> allocation table \<times> journal table \<times> jline table \<times> posting table"

definition core :: "fdb \<Rightarrow> core" where
  "core db = (f_documents db, f_allocations db, f_journals db, f_jlines db, f_postings db)"

named_theorems core_frame

lemma core_simps [simp]:
  "core (db\<lparr>f_accounts := a\<rparr>) = core db"
  "core (db\<lparr>f_fin_accounts := b\<rparr>) = core db"
  "core (db\<lparr>f_periods := c\<rparr>) = core db"
  "core (db\<lparr>f_sequences := d\<rparr>) = core db"
  "core (db\<lparr>f_lines := e\<rparr>) = core db"
  "core (db\<lparr>f_sources := f\<rparr>) = core db"
  "core (db\<lparr>f_rules := g\<rparr>) = core db"
  by (simp_all add: core_def)

lemma coreD:
  assumes "core db = core db'"
  shows "f_documents db = f_documents db'" and "f_allocations db = f_allocations db'"
    and "f_journals db = f_journals db'" and "f_jlines db = f_jlines db'" and "f_postings db = f_postings db'"
  using assms by (auto simp: core_def)

subsection \<open>Operations that leave them alone\<close>

lemma allocate_number_core [core_frame]: "core (snd (allocate_number ty p y rq db)) = core db"
  by (simp add: allocate_number_def Let_def case_prod_unfold)

lemma allocate_number_core' [core_frame]: "allocate_number ty p y rq db = (n, db') \<Longrightarrow> core db' = core db"
  using allocate_number_core [of ty p y rq db] by simp

lemma resolve_period_core [core_frame]: "resolve_period d db = Inr (x, db') \<Longrightarrow> core db' = core db"
  by (erule resolve_period_frame) simp

lemma upsert_sequence_core [core_frame]: "upsert_sequence data rq db = Inr (x, db') \<Longrightarrow> core db' = core db"
  by (auto simp: upsert_sequence_def ebind_Inr_iff Let_def split: option.splits)

lemma create_account_core [core_frame]: "create_account data rq db = Inr (x, db') \<Longrightarrow> core db' = core db"
  by (auto simp: create_account_def ebind_Inr_iff Let_def)

lemma update_account_core [core_frame]: "update_account i data rq db = Inr (x, db') \<Longrightarrow> core db' = core db"
  by (auto simp: update_account_def ebind_Inr_iff Let_def)

lemma create_financial_account_core [core_frame]:
  "create_financial_account data rq db = Inr (x, db') \<Longrightarrow> core db' = core db"
  by (auto simp: create_financial_account_def ebind_Inr_iff Let_def)

lemma update_financial_account_core [core_frame]:
  "update_financial_account i data rq db = Inr (x, db') \<Longrightarrow> core db' = core db"
  by (auto simp: update_financial_account_def ebind_Inr_iff Let_def)

lemma with_period_core: "with_period i f db = Inr (x, db') \<Longrightarrow> core db' = core db"
  by (auto simp: with_period_def ebind_Inr_iff)

lemma period_ops_core [core_frame]:
  "update_period i data rq db = Inr (x, db') \<Longrightarrow> core db' = core db"
  "close_period i rq db = Inr (x, db') \<Longrightarrow> core db' = core db"
  "reopen_period i rq db = Inr (x, db') \<Longrightarrow> core db' = core db"
  by (auto simp: update_period_def close_period_def reopen_period_def dest: with_period_core)

lemma delete_accounts_core [core_frame]: "delete_accounts ids db = Inr db' \<Longrightarrow> core db' = core db"
  by (auto simp: delete_accounts_def ebind_Inr_iff dest!: delete_accounts_frame)

lemma delete_financial_accounts_core [core_frame]:
  assumes "delete_financial_accounts ids db = Inr db'"
  shows "core db' = core db"
  using assms unfolding delete_financial_accounts_def
  by (rule efold_invariant) (auto simp: delete_financial_account_def ebind_Inr_iff split: option.splits)

lemma rule_ops_core [core_frame]:
  "create_posting_rule data rq db = Inr (x, db') \<Longrightarrow> core db' = core db"
  "update_posting_rule i data rq db = Inr (x, db') \<Longrightarrow> core db' = core db"
  by (auto dest: create_posting_rule_Inr update_posting_rule_Inr)

lemma delete_posting_rules_core [core_frame]:
  assumes "delete_posting_rules ids db = Inr db'"
  shows "core db' = core db"
  using assms unfolding delete_posting_rules_def
  by (rule efold_invariant) (auto dest: delete_posting_rule_Inr)

section \<open>Documents\<close>

lemma update_columns_fields [simp]:
  "doc_status (update_columns c d) = doc_status d" "doc_type (update_columns c d) = doc_type d"
  "doc_paid (update_columns c d) = doc_paid d" "doc_no (update_columns c d) = doc_no d"
  by (simp_all add: update_columns_def)

lemma open_document_Inr:
  assumes "open_document data ty stored cur rq db = Inr ((i, d), db1)"
  obtains (new) r where "stored = None" "i = next_id (f_documents db)" "doc_status d = ''DRAFT''" "doc_paid d = 0"
      "core db1 = (t_add r (f_documents db), f_allocations db, f_journals db, f_jlines db, f_postings db)"
  | (old) d0 where "stored = Some (i, d0)" "doc_status d0 = ''DRAFT''" "doc_status d = ''DRAFT''"
      "doc_paid d = doc_paid d0" "doc_type d = doc_type d0" "doc_no d = doc_no d0" "db1 = db"
proof (cases stored)
  case None
  obtain c r b p where cur: "cur = (c, r, b, p)" by (cases cur)
  define n where "n = (if \<not> truthy (py_or (dget data ''documentNo'') (dget data ''debitNoteNo''))
        \<or> py_strip (py_str (py_or (dget data ''documentNo'') (dget data ''debitNoteNo''))) = []
      then allocate_number ty None None rq db else (py_str (py_or (dget data ''documentNo'') (dget data ''debitNoteNo'')), db))"
  have n: "core (snd n) = core db" by (simp add: n_def allocate_number_core)
  from assms obtain row where d: "d = new_document (fst n) ty (document_columns data ty) (rq_today rq) c r b (rq_user rq)"
    and i: "i = next_id (f_documents (snd n))"
    and db1: "db1 = (snd n)\<lparr>f_documents := t_add row (f_documents (snd n))\<rparr>"
    unfolding open_document_def cur None Let_def n_def [symmetric]
    by (auto simp: ebind_Inr_iff case_prod_unfold split: if_splits)
  show thesis
  proof (rule new)
    show "doc_status d = ''DRAFT''" "doc_paid d = 0" by (simp_all add: d new_document_def)
    show "i = next_id (f_documents db)" using coreD(1) [OF n] by (simp add: i)
    show "core db1 = (t_add row (f_documents db), f_allocations db, f_journals db, f_jlines db, f_postings db)"
      using coreD [OF n] by (simp add: db1 core_def)
  qed (rule None)
next
  case (Some x)
  obtain j d0 where x: "x = (j, d0)" by (cases x)
  obtain c r b p where cur: "cur = (c, r, b, p)" by (cases cur)
  from assms show thesis
    unfolding open_document_def cur Some x Let_def
    by (intro old [of d0]) (auto simp: Some x split: if_splits)
qed

lemma set_amounts_fields:
  assumes "set_amounts t r p b d = Inr d'"
  shows "doc_status d' = doc_status d" and "doc_paid d' = doc_paid d" and "doc_type d' = doc_type d"
    and "doc_no d' = doc_no d"
  using assms by (auto simp: set_amounts_def Let_def ebind_Inr_iff split: prod.splits)

lemma the_document_Some: "the_document data db = Some (i, d) \<Longrightarrow> t_get (f_documents db) i = Some d"
  by (auto simp: the_document_def Let_def split: if_splits)

text \<open>A saved document is a draft; it is a new row, or it was a draft before. Nothing was ever paid on
  a new one.\<close>

lemma save_document_effect:
  assumes "save_document data rq db = Inr (i, db')"
  obtains (new) r row where "i = next_id (f_documents db)" "doc_status row = ''DRAFT''" "doc_paid row = 0"
      "money (doc_total row)"
      "core db' = (t_put i row (t_add r (f_documents db)), f_allocations db, f_journals db, f_jlines db, f_postings db)"
  | (old) d0 row where "t_get (f_documents db) i = Some d0" "doc_status d0 = ''DRAFT''"
      "doc_status row = ''DRAFT''" "doc_paid row = col4 (doc_paid d0)" "doc_type row = doc_type d0"
      "money (doc_total row)"
      "core db' = (t_put i row (f_documents db), f_allocations db, f_journals db, f_jlines db, f_postings db)"
proof -
  from assms obtain data1 ty cur d db1 line_rows tot p b r0 d' echo row where
    opened: "open_document data1 ty (the_document data1 db) cur rq db = Inr ((i, d), db1)"
    and amounts: "set_amounts tot r0 p b d = Inr d'"
    and row: "flush_document (d'\<lparr>doc_data := echo\<rparr>) = Inr row"
    and db': "core db' = core (db1\<lparr>f_documents := t_put i row (f_documents db1)\<rparr>)"
    unfolding save_document_def Let_def
    by (auto simp: ebind_Inr_iff case_prod_unfold core_def)
  have paid: "doc_paid row = col4 (doc_paid d)" and st: "doc_status row = doc_status d"
    and ty': "doc_type row = doc_type d" and m: "money (doc_total row)"
    using set_amounts_fields [OF amounts] row by (auto dest: flush_fields flush_document_columns)
  from opened show thesis
  proof (cases rule: open_document_Inr)
    case (new r)
    show thesis
    proof (rule that(1))
      show "core db' = (t_put i row (t_add r (f_documents db)), f_allocations db, f_journals db, f_jlines db, f_postings db)"
        using new(5) db' by (simp add: core_def)
    qed (use new paid st m in simp_all)
  next
    case (old d0)
    show thesis
    proof (rule that(2))
      show "core db' = (t_put i row (f_documents db), f_allocations db, f_journals db, f_jlines db, f_postings db)"
        using old(7) db' by (simp add: core_def)
      show "t_get (f_documents db) i = Some d0" using old(1) by (rule the_document_Some)
    qed (use old paid st ty' m in simp_all)
  qed
qed

lemma invoice_fields [simp]:
  "doc_status (charge_invoice n c p cur base rq) = ''DRAFT''" "doc_paid (charge_invoice n c p cur base rq) = 0"
  "doc_status (order_invoice n x pending db rq) = ''DRAFT''" "doc_paid (order_invoice n x pending db rq) = 0"
  by (simp_all add: charge_invoice_def order_invoice_def Let_def case_prod_unfold)

lemma create_invoice_from_charge_effect:
  assumes "create_invoice_from_charge c rq db = Inr (i, db')"
  shows "core db' = core db \<or> (\<exists>row. i = next_id (f_documents db) \<and> doc_status row = ''DRAFT'' \<and> doc_paid row = 0
     \<and> money (doc_total row)
     \<and> core db' = (t_add row (f_documents db), f_allocations db, f_journals db, f_jlines db, f_postings db))"
proof (cases "db' = db")
  case False
  then obtain number db1 where n: "allocate_number ''CUSTOMER_INVOICE'' None None rq db = (number, db1)"
    by (cases "allocate_number ''CUSTOMER_INVOICE'' None None rq db")
  from assms False obtain p cur base lines sources where
    "add_invoice (charge_invoice number (snd c) p cur base rq) lines sources db1 = Inr (i, db')"
    unfolding create_invoice_from_charge_def Let_def n
    by (auto simp: ebind_Inr_iff case_prod_unfold split: option.splits if_splits)
  from add_invoice_Inr [OF this] obtain row where i: "i = next_id (f_documents db1)"
    and row: "flush_document (charge_invoice number (snd c) p cur base rq) = Inr row"
    and db': "core db' = core (db1\<lparr>f_documents := t_add row (f_documents db1)\<rparr>)"
    by (auto simp: core_def)
  have "doc_status row = ''DRAFT''" "doc_paid row = 0" "money (doc_total row)"
    using flush_document_fields(3,9) [OF row] flush_document_columns(1) [OF row] by simp_all
  then show ?thesis using i db' coreD [OF allocate_number_core' [OF n]] by (auto simp: core_def)
qed simp

lemma create_invoice_from_service_order_effect:
  assumes "create_invoice_from_service_order x rq db = Inr (i, db')"
  shows "core db' = core db \<or> (\<exists>row. i = next_id (f_documents db) \<and> doc_status row = ''DRAFT'' \<and> doc_paid row = 0
     \<and> money (doc_total row)
     \<and> core db' = (t_add row (f_documents db), f_allocations db, f_journals db, f_jlines db, f_postings db))"
proof (cases "db' = db")
  case False
  then obtain number db1 where n: "allocate_number ''CUSTOMER_INVOICE'' None None rq db = (number, db1)"
    by (cases "allocate_number ''CUSTOMER_INVOICE'' None None rq db")
  from assms False obtain lines sources where
    "add_invoice (order_invoice number x (pending_charges db (fst x)) db1 rq) lines sources db1 = Inr (i, db')"
    unfolding create_invoice_from_service_order_def Let_def n
    by (auto simp: ebind_Inr_iff case_prod_unfold split: option.splits if_splits)
  from add_invoice_Inr [OF this] obtain row where i: "i = next_id (f_documents db1)"
    and row: "flush_document (order_invoice number x (pending_charges db (fst x)) db1 rq) = Inr row"
    and db': "core db' = core (db1\<lparr>f_documents := t_add row (f_documents db1)\<rparr>)"
    by (auto simp: core_def)
  have "doc_status row = ''DRAFT''" "doc_paid row = 0" "money (doc_total row)"
    using flush_document_fields(3,9) [OF row] flush_document_columns(1) [OF row] by simp_all
  then show ?thesis using i db' coreD [OF allocate_number_core' [OF n]] by (auto simp: core_def)
qed simp

lemma delete_document_effect:
  assumes "delete_document i db = Inr db'"
  shows "\<not> document_referenced i db"
    and "core db' = (t_del i (f_documents db), f_allocations db, f_journals db, f_jlines db, f_postings db)"
  using assms by (auto simp: delete_document_def ebind_Inr_iff core_def)

end
