(* ===== verification/LedgerEffects.thy ===== *)
theory LedgerEffects
  imports Effects
begin

text \<open>The effect on the ledger tables of posting, reversing and allocating, and of the journal operations.\<close>

section \<open>The amounts of a draft keep four decimals\<close>

definition stored_amounts :: "draft_line list \<Rightarrow> bool" where
  "stored_amounts ls \<longleftrightarrow> list_all (\<lambda>l. has_places 4 (dr_amount l)) ls"

lemma stored_add_line: "stored_amounts ls \<Longrightarrow> has_places 4 m \<Longrightarrow> stored_amounts (add_line a m d t ls)"
  by (simp add: stored_amounts_def add_line_def)

lemma stored_add_detail:
  assumes "add_detail rules accounts plan ty tax desc l (ls, r) = Inr (ls', r')"
    and "has_places 4 (li_amount l)" and "has_places 4 (li_tax l)" and "stored_amounts ls"
  shows "stored_amounts ls'"
proof -
  have "has_places 4 (min (li_tax l) (li_amount l))" using assms(2,3) by (simp add: min_def)
  then have "has_places 4 (li_amount l - min (li_tax l) (li_amount l))"
    using assms(2) by (intro has_places_diff)
  with \<open>has_places 4 (min (li_tax l) (li_amount l))\<close> assms show ?thesis
    by (auto simp: add_detail_def Let_def ebind_Inr_iff stored_add_line split: option.splits if_splits)
qed

lemma draft_lines_stored:
  assumes "draft_lines rules accounts plan ty tot lines control desc = Inr ls" and "has_places 4 tot"
    and "\<And>l. l \<in> set lines \<Longrightarrow> has_places 4 (li_amount l) \<and> has_places 4 (li_tax l)"
  shows "stored_amounts ls"
proof (cases "st_detailed plan \<and> lines \<noteq> []")
  case True
  with assms(1) obtain ks r where e: "efold (add_detail rules accounts plan ty (ra_tax control) desc) lines
        (add_line (if st_side plan = CONTROL_DEBIT then ra_debit control else ra_credit control) tot
           (st_side plan = CONTROL_DEBIT) desc [], False) = Inr (ks, r)"
    and ls: "ls = (if r then ks else add_line (ra_credit control) tot False desc ks)"
    by (auto simp: draft_lines_def elim: add_detailed_Inr)
  have nil: "stored_amounts []" by (simp add: stored_amounts_def)
  have "stored_amounts (fst (ks, r))"
  proof (rule efold_invariant [where I = "\<lambda>st. stored_amounts (fst st)", OF e])
    show "stored_amounts (fst (add_line (if st_side plan = CONTROL_DEBIT then ra_debit control else ra_credit control) tot
           (st_side plan = CONTROL_DEBIT) desc [], False))"
      using stored_add_line [OF nil assms(2)] by simp
    fix x t t'
    assume "x \<in> set lines" and "stored_amounts (fst t)"
      and "add_detail rules accounts plan ty (ra_tax control) desc x t = Inr t'"
    then show "stored_amounts (fst t')"
      using stored_add_detail [of rules accounts plan ty "ra_tax control" desc x "fst t" "snd t" "fst t'" "snd t'"]
        assms(3) [of x] by simp
  qed
  with ls assms(2) show ?thesis by (simp add: stored_add_line)
qed (use assms in \<open>auto simp: draft_lines_def add_two_sided_def stored_add_line stored_amounts_def [of "[]"]\<close>)

section \<open>Journal lines\<close>

definition sum_of :: "(jline \<Rightarrow> rat) \<Rightarrow> jline list \<Rightarrow> rat" where
  "sum_of f ls = sum_list (map f ls)"

lemma emap_flush_jline_sum:
  assumes "emap flush_jline ls = Inr ks"
  shows "(\<And>l. l \<in> set ls \<Longrightarrow> has_places 4 (jl_debit l)) \<Longrightarrow> sum_of jl_debit ks = sum_of jl_debit ls"
    and "(\<And>l. l \<in> set ls \<Longrightarrow> has_places 4 (jl_credit l)) \<Longrightarrow> sum_of jl_credit ks = sum_of jl_credit ls"
  using assms
  by (induction ls arbitrary: ks) (auto simp: ebind_Inr_iff sum_of_def quantize_exact dest: flush_fields)

lemma emap_flush_jline_journal:
  assumes "emap flush_jline ls = Inr ks" and "\<And>l. l \<in> set ls \<Longrightarrow> jl_journal l = j"
  shows "\<And>k. k \<in> set ks \<Longrightarrow> jl_journal k = j"
  by (metis assms emap_in_set flush_jline_fields(1))

lemma emap_flush_jline_money:
  assumes "emap flush_jline ls = Inr ks" and "k \<in> set ks"
  shows "money (jl_debit k)" and "money (jl_credit k)"
  using assms by (metis emap_in_set flush_jline_money(1)) (metis assms emap_in_set flush_jline_money(2))

lemma posted_jline_simps [simp]:
  "jl_journal (posted_jline j i d r x) = j"
  "jl_debit (posted_jline j i d r x) = (if dr_debit (snd x) then dr_amount (snd x) else 0)"
  "jl_credit (posted_jline j i d r x) = (if dr_debit (snd x) then 0 else dr_amount (snd x))"
  "jl_account (posted_jline j i d r x) = fst (dr_account (snd x))"
  by (simp_all add: posted_jline_def Let_def case_prod_unfold)

lemma sum_posted_jlines:
  "sum_of jl_debit (map (posted_jline j i d r) (py_enumerate n ls)) = side_total True ls"
  "sum_of jl_credit (map (posted_jline j i d r) (py_enumerate n ls)) = side_total False ls"
  unfolding sum_of_def side_total_def by (induction ls arbitrary: n) auto

lemma mirror_jline_simps [simp]:
  "jl_journal (mirror_jline j i x) = j"
  "jl_debit (mirror_jline j i x) = jl_credit (snd x)"
  "jl_credit (mirror_jline j i x) = jl_debit (snd x)"
  "jl_account (mirror_jline j i x) = jl_account (snd x)"
  by (simp_all add: mirror_jline_def Let_def case_prod_unfold)

lemma sum_mirror_jlines:
  "sum_of jl_debit (map (mirror_jline j i) (py_enumerate n ls)) = sum_of jl_credit ls"
  "sum_of jl_credit (map (mirror_jline j i) (py_enumerate n ls)) = sum_of jl_debit ls"
  unfolding sum_of_def by (induction ls arbitrary: n) auto

section \<open>Posting\<close>

lemma set_base_amounts_fields:
  assumes "set_base_amounts r p b d = Inr d'"
  shows "doc_status d' = doc_status d" "doc_paid d' = doc_paid d" "doc_type d' = doc_type d"
    "doc_total d' = doc_total d" "doc_currency d' = doc_currency d" "doc_no d' = doc_no d"
    "doc_base_total d' = quantize (nat (clamp_precision p)) (dmul (doc_total d) r)"
  using assms by (auto simp: set_base_amounts_def ebind_Inr_iff dest: convert_to_base_result)

lemma post_document_effect:
  assumes "post_document i rq db = Inr (k, db')"
  obtains (already) d where "k = i" "t_get (f_documents db) i = Some d" "doc_status d = ''POSTED''" "db' = db"
  | (posted) d pid per db1 dr row jls d2 where "k = i" "t_get (f_documents db) i = Some d"
      "doc_status d = ''DRAFT''" "t_first (\<lambda>p. po_document p = i) (f_postings db) = None"
      "resolve_period (posting_date_of d) db = Inr ((pid, per), db1)" "per_status per \<noteq> ''CLOSED''"
      "build_for db1 i d = Inr dr" "2 \<le> length (jd_lines dr)"
      "unique_among entry_key (next_id (f_journals db)) row (f_journals db)"
      "emap flush_jline (map (posted_jline (next_id (f_journals db)) i d (or_one (doc_rate d)))
         (py_enumerate 1 (jd_lines dr))) = Inr jls"
      "je_status row = ''POSTED''" "je_source row = Some i" "je_period row = Some pid"
      "je_date row = posting_date_of d"
      "je_debit row = col4 (debit_total dr)" "je_credit row = col4 (credit_total dr)"
      "doc_status d2 = ''POSTED''" "doc_paid d2 = col4 (doc_paid d)" "doc_type d2 = doc_type d"
      "doc_total d2 = col4 (doc_total d)" "doc_currency d2 = doc_currency d" "doc_no d2 = doc_no d"
      "f_periods db' = f_periods db1"
      "core db' = (t_put i d2 (f_documents db), f_allocations db, t_add row (f_journals db),
         t_add_all jls (f_jlines db),
         t_add \<lparr>po_document = i, po_journal = next_id (f_journals db), po_role = ''ORIGINAL_POSTING''\<rparr> (f_postings db))"
proof -
  from assms obtain d where d: "t_get (f_documents db) i = Some d"
    by (auto simp: post_document_def ebind_Inr_iff)
  show thesis
  proof (cases "doc_status d = ''POSTED''")
    case True
    with assms d have "k = i" "db' = db" by (auto simp: post_document_def)
    with True d show thesis by (intro already [of d])
  next
    case False
    from assms d False have st: "doc_status d = ''DRAFT''"
      by (auto simp: post_document_def ebind_Inr_iff)
    have np: "t_first (\<lambda>p. po_document p = i) (f_postings db) = None"
    proof (cases "t_first (\<lambda>p. po_document p = i) (f_postings db)")
      case (Some y)
      with assms d st show ?thesis by (simp add: post_document_def)
    qed simp
    from assms d st np obtain pid per db1 dr where
      per: "resolve_period (posting_date_of d) db = Inr ((pid, per), db1)" "per_status per \<noteq> ''CLOSED''"
      and dr: "build_for db1 i d = Inr dr" "2 \<le> length (jd_lines dr)"
      by (auto simp: post_document_def ebind_Inr_iff Let_def not_less)
    obtain n db2 where n: "allocate_number ''JOURNAL'' None None rq db1 = (n, db2)" by fastforce
    from assms obtain d1 jls row0 d2 where
      uq: "unique_among entry_key (next_id (f_journals db2)) (draft_journal n (posting_date_of d) pid i d dr rq) (f_journals db2)"
      and d1: "set_base_amounts (or_one (doc_rate d)) (currency_precision (doc_currency d) db2) (f_default_currency db2)
          (d\<lparr>doc_posting_date := Some (posting_date_of d)\<rparr>) = Inr d1"
      and jls: "emap flush_jline (map (posted_jline (next_id (f_journals db2)) i d (or_one (doc_rate d)))
         (py_enumerate 1 (jd_lines dr))) = Inr jls"
      and row: "flush_journal ((draft_journal n (posting_date_of d) pid i d dr rq)
          \<lparr>je_debit := debit_total dr, je_credit := credit_total dr, je_status := ''POSTED''\<rparr>) = Inr row0"
      and d2: "flush_document (d1\<lparr>doc_status := ''POSTED'', doc_posted_by := rq_user rq,
          doc_posted_at := Some (rq_now rq)\<rparr>) = Inr d2"
      and db': "k = i" "db' = db2\<lparr>f_documents := t_put i d2 (f_documents db2),
                     f_journals := t_add row0 (f_journals db2),
                     f_jlines := t_add_all jls (f_jlines db2),
                     f_postings := t_add \<lparr>po_document = i, po_journal = next_id (f_journals db2),
                                          po_role = ''ORIGINAL_POSTING''\<rparr> (f_postings db2)\<rparr>"
      unfolding post_document_def Let_def
      by (clarsimp simp: d st np per dr n ebind_Inr_iff)
    have "core db2 = core db"
      using allocate_number_core' [OF n] resolve_period_core [OF per(1)] by simp
    note c = coreD [OF this]
    show thesis
    proof (rule posted [OF db'(1) d st np per dr])
      show "unique_among entry_key (next_id (f_journals db)) row0 (f_journals db)"
        using uq c flush_journal_fields(1) [OF row] by (simp add: unique_among_iff entry_key_def)
      show "emap flush_jline (map (posted_jline (next_id (f_journals db)) i d (or_one (doc_rate d)))
         (py_enumerate 1 (jd_lines dr))) = Inr jls" using jls c by simp
      show "je_status row0 = ''POSTED''" "je_source row0 = Some i" "je_period row0 = Some pid"
        "je_date row0 = posting_date_of d" "je_debit row0 = col4 (debit_total dr)" "je_credit row0 = col4 (credit_total dr)"
        using flush_journal_fields [OF row] by (simp_all add: draft_journal_def)
      show "doc_status d2 = ''POSTED''" "doc_paid d2 = col4 (doc_paid d)" "doc_type d2 = doc_type d"
        "doc_total d2 = col4 (doc_total d)" "doc_currency d2 = doc_currency d" "doc_no d2 = doc_no d"
        using flush_document_fields [OF d2] set_base_amounts_fields [OF d1] by simp_all
      show "f_periods db' = f_periods db1"
        using n by (auto simp: db' allocate_number_def Let_def case_prod_unfold)
      show "core db' = (t_put i d2 (f_documents db), f_allocations db, t_add row0 (f_journals db),
         t_add_all jls (f_jlines db),
         t_add \<lparr>po_document = i, po_journal = next_id (f_journals db), po_role = ''ORIGINAL_POSTING''\<rparr> (f_postings db))"
        using c by (simp add: db' core_def)
    qed
  qed
qed

section \<open>Reversing\<close>

definition released :: "int \<Rightarrow> fdb \<Rightarrow> document table" where
  "released i db = rewrite_each t_get t_put (other_side i) release
     (filter (touches i) (t_vals (f_allocations db))) (f_documents db)"

lemma reverse_document_effect:
  assumes "reverse_document i reason rq db = Inr (k, db')"
  obtains d p pid per db1 original row jls where "k = i" "t_get (f_documents db) i = Some d"
      "doc_status d = ''POSTED''" "p \<in> set (t_vals (f_postings db))" "po_document p = i"
      "resolve_period (rq_today rq) db = Inr ((pid, per), db1)" "per_status per \<noteq> ''CLOSED''"
      "t_get (f_journals db) (po_journal p) = Some original"
      "unique_among entry_key (next_id (f_journals db)) row (f_journals db)"
      "emap flush_jline (map (mirror_jline (next_id (f_journals db)) i)
         (py_enumerate 1 (filter (\<lambda>l. jl_journal l = po_journal p) (t_vals (f_jlines db))))) = Inr jls"
      "je_status row = ''POSTED''" "je_source row = Some i" "je_period row = Some pid" "je_date row = rq_today rq"
      "je_reversal_of row = Some (po_journal p)"
      "f_periods db' = f_periods db1"
      "core db' = ((case t_get (released i db) i of None \<Rightarrow> released i db
           | Some d' \<Rightarrow> t_put i (d'\<lparr>doc_paid := 0, doc_status := ''REVERSED''\<rparr>) (released i db)),
         t_del_where (touches i) (f_allocations db), t_add row (f_journals db),
         t_add_all jls (f_jlines db), f_postings db)"
proof -
  from assms obtain d q p pid per db1 where
    d: "t_get (f_documents db) i = Some d" and st: "doc_status d = ''POSTED''"
    and p: "t_first (\<lambda>p. po_document p = i) (f_postings db) = Some (q, p)"
    and per: "resolve_period (rq_today rq) db = Inr ((pid, per), db1)" "per_status per \<noteq> ''CLOSED''"
    by (auto simp: reverse_document_def ebind_Inr_iff Let_def case_prod_unfold)
  obtain n db2 where n: "allocate_number ''JOURNAL'' None None rq db1 = (n, db2)" by fastforce
  define lines where "lines = filter (\<lambda>l. jl_journal l = po_journal p) (t_vals (f_jlines db2))"
  from assms obtain original e row0 jls where
    orig: "t_get (f_journals db2) (po_journal p) = Some original"
    and uq: "unique_among entry_key (next_id (f_journals db2)) e (f_journals db2)"
    and jls: "emap flush_jline (map (mirror_jline (next_id (f_journals db2)) i) (py_enumerate 1 lines)) = Inr jls"
    and row: "flush_journal e = Inr row0"
    and e: "je_status e = ''POSTED''" "je_source e = Some i" "je_period e = Some pid" "je_date e = rq_today rq"
      "je_reversal_of e = Some (po_journal p)"
    and db': "k = i" "db' = db2\<lparr>f_documents := (case t_get (released i db2) i of None \<Rightarrow> released i db2
           | Some d' \<Rightarrow> t_put i (d'\<lparr>doc_paid := 0, doc_status := ''REVERSED''\<rparr>) (released i db2)),
         f_journals := t_add row0 (f_journals db2), f_jlines := t_add_all jls (f_jlines db2),
         f_allocations := t_del_where (touches i) (f_allocations db2)\<rparr>"
    unfolding reverse_document_def Let_def released_def lines_def
    by (clarsimp simp: d st p per n ebind_Inr_iff)
  note jls = jls [unfolded lines_def]
  have "core db2 = core db"
    using allocate_number_core' [OF n] resolve_period_core [OF per(1)] by simp
  note c = coreD [OF this]
  have rel: "released i db2 = released i db" by (simp add: released_def c)
  from p have "p \<in> set (t_vals (f_postings db))" "po_document p = i"
    by (auto dest: t_first_vals)
  show thesis
  proof (rule that [OF db'(1) d st \<open>p \<in> _\<close> \<open>po_document p = i\<close> per])
    show "t_get (f_journals db) (po_journal p) = Some original" using orig c by simp
    show "unique_among entry_key (next_id (f_journals db)) row0 (f_journals db)"
      using uq c flush_journal_fields(1) [OF row] by (simp add: unique_among_iff entry_key_def)
    show "emap flush_jline (map (mirror_jline (next_id (f_journals db)) i)
         (py_enumerate 1 (filter (\<lambda>l. jl_journal l = po_journal p) (t_vals (f_jlines db))))) = Inr jls"
      using jls c by simp
    show "je_status row0 = ''POSTED''" "je_source row0 = Some i" "je_period row0 = Some pid" "je_date row0 = rq_today rq"
      using flush_journal_fields [OF row] e by simp_all
    show "je_reversal_of row0 = Some (po_journal p)"
      using row e(5) by (auto simp: flush_journal_def ebind_Inr_iff)
    show "f_periods db' = f_periods db1"
      using n by (auto simp: db' allocate_number_def Let_def case_prod_unfold)
    show "core db' = ((case t_get (released i db) i of None \<Rightarrow> released i db
           | Some d' \<Rightarrow> t_put i (d'\<lparr>doc_paid := 0, doc_status := ''REVERSED''\<rparr>) (released i db)),
         t_del_where (touches i) (f_allocations db), t_add row0 (f_journals db),
         t_add_all jls (f_jlines db), f_postings db)"
      using c rel by (simp add: db' core_def split: option.splits)
  qed
qed

section \<open>Allocating\<close>

lemma check_settlement_Inr:
  assumes "check_settlement payment target amount = Inr a"
  shows "amount = DFin a" and "0 < a" and "doc_type payment \<in> set PAYMENT_TYPES" and "doc_type target \<in> set INVOICE_TYPES"
    and "doc_status payment = ''POSTED''" and "doc_status target = ''POSTED''" and "doc_currency payment = doc_currency target"
  using assms by (auto simp: check_settlement_def ebind_Inr_iff Let_def split: pydecimal.splits if_splits)

lemma allocate_payment_effect:
  assumes "allocate_payment i data0 key rq db = Inr (ans, db')"
  obtains (replay) a where "a \<in> set (t_vals (f_allocations db))" "key \<noteq> None" "al_key a = key"
      "replay_allocation a db = Inr ans" "db' = db"
  | (fresh) payment t target amount a payment' target' where
      "t_get (f_documents db) i = Some payment" "t_get (f_documents db) t = Some target"
      "check_settlement payment target (DFin amount) = Inr amount"
      "amount \<le> doc_total payment - allocated_from db i" "amount \<le> doc_total target - doc_paid target"
      "al_payment a = i" "al_target a = t" "al_amount a = col4 amount" "al_key a = key"
      "unique_among allocation_key (next_id (f_allocations db)) a (f_allocations db)"
      "flush_document (payment\<lparr>doc_paid := doc_paid payment + amount\<rparr>) = Inr payment'"
      "flush_document (target\<lparr>doc_paid := doc_paid target + amount\<rparr>) = Inr target'"
      "db' = db\<lparr>f_allocations := t_add a (f_allocations db),
         f_documents := t_put t target' (t_put i payment' (f_documents db))\<rparr>"
      "aa_payment ans = i" "aa_target ans = t" "aa_amount ans = amount" "\<not> aa_replay ans"
proof -
  from assms obtain data where v: "validate_schema ALLOCATION_WRITE_SCHEMA data0 False = Inr data"
    by (auto simp: allocate_payment_def ebind_Inr_iff)
  define seen where "seen = (if key = None \<or> key = Some [] then None
           else t_first (\<lambda>a. al_key a = key) (f_allocations db))"
  show thesis
  proof (cases seen)
    case (Some x)
    obtain j a where x: "x = (j, a)" by (cases x)
    from Some x have "key \<noteq> None" and "t_first (\<lambda>a. al_key a = key) (f_allocations db) = Some (j, a)"
      by (auto simp: seen_def split: if_splits)
    moreover from this have "a \<in> set (t_vals (f_allocations db))" and "al_key a = key"
      by (auto dest: t_first_vals)
    moreover from assms Some have "replay_allocation a db = Inr ans" and "db' = db"
      unfolding allocate_payment_def v ebind_simps seen_def [symmetric]
      by (auto simp: x ebind_Inr_iff)
    ultimately show thesis by (intro replay)
  next
    case None
    from assms obtain payment t target amount where
      p: "t_get (f_documents db) i = Some payment" and tgt: "t_get (f_documents db) t = Some target"
      and tid: "int_or_none (py_or (dget data ''target_document_id'') (dget data ''targetDocumentId'')) = Some t"
      and c0: "check_settlement payment target (allocation_amount data) = Inr amount"
      and av: "amount \<le> doc_total payment - allocated_from db i"
      and out: "amount \<le> doc_total target - doc_paid target"
      unfolding allocate_payment_def v ebind_simps seen_def [symmetric] None option.case
      by (clarsimp simp: ebind_Inr_iff Let_def not_less)
    have c: "check_settlement payment target (DFin amount) = Inr amount"
      using c0 check_settlement_Inr(1) [OF c0] by simp
    define a0 where "a0 = \<lparr>al_payment = i, al_target = t, al_amount = amount, al_currency = doc_currency payment,
        al_rate = doc_rate payment, al_created_by = rq_user rq, al_key = key\<rparr>"
    from assms obtain row payment' target' where
      uq: "unique_among allocation_key (next_id (f_allocations db)) a0 (f_allocations db)"
      and row: "flush_allocation a0 = Inr row"
      and d: "flush_document (payment\<lparr>doc_paid := doc_paid payment + amount\<rparr>) = Inr payment'"
        "flush_document (target\<lparr>doc_paid := doc_paid target + amount\<rparr>) = Inr target'"
      and db': "db' = db\<lparr>f_allocations := t_add row (f_allocations db),
         f_documents := t_put t target' (t_put i payment' (f_documents db))\<rparr>"
      and ans: "aa_payment ans = i" "aa_target ans = t" "aa_amount ans = amount" "\<not> aa_replay ans"
      unfolding allocate_payment_def v ebind_simps seen_def [symmetric] None option.case
      by (clarsimp simp: p tgt tid c0 av out ebind_Inr_iff Let_def not_less a0_def)
    have r: "al_payment row = i" "al_target row = t" "al_amount row = col4 amount" "al_key row = key"
      using flush_allocation_fields [OF row] by (simp_all add: a0_def)
    show thesis
    proof (rule fresh [OF p tgt c av out r _ d db' ans])
      show "unique_among allocation_key (next_id (f_allocations db)) row (f_allocations db)"
        using uq r by (simp add: unique_among_iff allocation_key_def a0_def)
    qed
  qed
qed

section \<open>Journals\<close>

lemma the_journal_Some: "the_journal data db = Some (i, e) \<Longrightarrow> t_get (f_journals db) i = Some e"
  by (auto simp: the_journal_def Let_def split: if_splits)

lemma read_journal_line_journal:
  assumes "read_journal_line db j x = Inr l"
  shows "jl_journal l = j"
  using assms unfolding read_journal_line_def Let_def case_prod_unfold ebind_Inr_iff
  by (elim exE conjE) (drule sum.inject(2) [THEN iffD1], erule subst, simp only: jline.select_convs)

text \<open>A saved journal is not posted; its lines replace the ones it had.\<close>

lemma save_journal_effect:
  assumes "save_journal data rq db = Inr (i, db')"
  obtains (new) r row ls where "i = next_id (f_journals db)" "je_status row = ''DRAFT''"
      "\<And>l. l \<in> set ls \<Longrightarrow> jl_journal l = i \<and> money (jl_debit l) \<and> money (jl_credit l)"
      "core db' = (f_documents db, f_allocations db, t_put i row (t_add r (f_journals db)),
         t_add_all ls (t_del_where (\<lambda>l. jl_journal l = i) (f_jlines db)), f_postings db)"
  | (old) e row ls where "t_get (f_journals db) i = Some e" "je_status e \<noteq> ''POSTED''" "je_status row = je_status e"
      "\<And>l. l \<in> set ls \<Longrightarrow> jl_journal l = i \<and> money (jl_debit l) \<and> money (jl_credit l)"
      "core db' = (f_documents db, f_allocations db, t_put i row (f_journals db),
         t_add_all ls (t_del_where (\<lambda>l. jl_journal l = i) (f_jlines db)), f_postings db)"
proof -
  from assms obtain data1 where v: "validate_schema JOURNAL_WRITE_SCHEMA data (truthy (dget data ''id'')) = Inr data1"
    by (auto simp: save_journal_def ebind_Inr_iff)
  define ed where "ed = (case to_date (dget data1 ''entryDate'') of Some x \<Rightarrow> x | None \<Rightarrow> rq_today rq)"
  define pd where "pd = (case to_date (dget data1 ''postingDate'') of Some x \<Rightarrow> x | None \<Rightarrow> ed)"
  note start = save_journal_def v ebind_simps Let_def ed_def [symmetric] pd_def [symmetric]
  from assms obtain x db1 where period0: "resolve_period pd db = Inr (x, db1)"
    unfolding start by (auto simp: ebind_Inr_iff)
  obtain pid per where x: "x = (pid, per)" by (cases x)
  note period = period0 [unfolded x]
  from assms obtain ls where ls0: "validate_line_items (dget data1 ''lines'') JOURNAL_LINE_SCHEMA = Inr ls"
    unfolding start period by (auto simp: ebind_Inr_iff)
  from assms obtain k e db3 where opened0: "open_journal data1 (the_journal data1 db) ed pd pid rq db1 = Inr ((k, e), db3)"
    unfolding start period ls0 by (auto simp: ebind_Inr_iff)
  from assms obtain row0 where
    ls0': "emap (read_journal_line (db3\<lparr>f_jlines := t_del_where (\<lambda>l. jl_journal l = k) (f_jlines db3)\<rparr>) k)
        (py_enumerate 0 ls) = Inr row0"
    unfolding start period ls0 opened0 case_prod_conv ebind_simps by (auto simp only: ebind_Inr_iff)
  from assms obtain line_rows where lr: "emap flush_jline row0 = Inr line_rows"
    unfolding start period ls0 opened0 case_prod_conv ebind_simps ls0' by (auto simp only: ebind_Inr_iff)
  define e1 where "e1 = e\<lparr>je_debit := foldl dadd 0 (map jl_debit row0), je_credit := foldl dadd 0 (map jl_credit row0),
                       je_data := filter (\<lambda>(k, _). k \<notin> {''id'', ''lines'', ''createdAt'', ''updatedAt''}) data1\<rparr>"
  from assms obtain row where row: "flush_journal e1 = Inr row"
    unfolding start period ls0 opened0 case_prod_conv ebind_simps ls0' lr e1_def [symmetric]
    by (auto simp only: ebind_Inr_iff)
  from assms have k: "k = i"
    and db': "core db' = core (db3\<lparr>f_jlines := t_add_all line_rows (t_del_where (\<lambda>l. jl_journal l = i) (f_jlines db3)),
        f_journals := t_put i row (f_journals db3)\<rparr>)"
    unfolding start period ls0 opened0 case_prod_conv ebind_simps ls0' lr e1_def [symmetric] row
    by (auto simp: core_def)
  note ls = ls0' [unfolded k]
  note opened = opened0 [unfolded k]
  have "jl_journal l = i" if "l \<in> set row0" for l
    using emap_in_set [OF ls that] read_journal_line_journal by metis
  with lr have lines: "\<And>l. l \<in> set line_rows \<Longrightarrow> jl_journal l = i \<and> money (jl_debit l) \<and> money (jl_credit l)"
    using emap_flush_jline_journal [OF lr] emap_flush_jline_money [OF lr] by blast
  have st: "je_status row = je_status e" using flush_journal_fields(2) [OF row] by (simp add: e1_def)
  note c1 = coreD [OF resolve_period_core [OF period]]
  show thesis
  proof (cases "the_journal data1 db")
    case None
    define n where "n = (if \<not> truthy (dget data1 ''entryNo'') \<or> py_strip (py_str (dget data1 ''entryNo'')) = []
        then allocate_number ''JOURNAL'' None None rq db1 else (py_str (dget data1 ''entryNo''), db1))"
    have n: "core (snd n) = core db1" by (simp add: n_def allocate_number_core)
    note c = coreD [OF n, unfolded c1]
    from opened obtain r where e: "je_status e = ''DRAFT''" "i = next_id (f_journals (snd n))"
      and db3: "db3 = (snd n)\<lparr>f_journals := t_add r (f_journals (snd n))\<rparr>"
      unfolding open_journal_def None Let_def n_def [symmetric] by (auto simp: ebind_Inr_iff case_prod_unfold)
    show thesis
    proof (rule new)
      show "core db' = (f_documents db, f_allocations db, t_put i row (t_add r (f_journals db)),
         t_add_all line_rows (t_del_where (\<lambda>l. jl_journal l = i) (f_jlines db)), f_postings db)"
        using c db' by (simp add: db3 core_def)
    qed (use e c st lines in simp_all)
  next
    case (Some x)
    obtain k e0 where x: "x = (k, e0)" by (cases x)
    from opened have e: "k = i" "je_status e0 \<noteq> ''POSTED''" "je_status e = je_status e0" "db3 = db1"
      unfolding open_journal_def Some x by (auto split: if_splits)
    show thesis
    proof (rule old)
      show "t_get (f_journals db) i = Some e0" using Some x e(1) by (auto dest: the_journal_Some)
      show "core db' = (f_documents db, f_allocations db, t_put i row (f_journals db),
         t_add_all line_rows (t_del_where (\<lambda>l. jl_journal l = i) (f_jlines db)), f_postings db)"
        using c1 db' by (simp add: e core_def)
    qed (use e st lines in simp_all)
  qed
qed

lemma post_journal_effect:
  assumes "post_journal i rq db = Inr (k, db')"
  obtains (already) e where "k = i" "t_get (f_journals db) i = Some e" "je_status e = ''POSTED''" "db' = db"
  | (posted) e row where "k = i" "t_get (f_journals db) i = Some e" "je_status e = ''DRAFT''"
      "2 \<le> length (journal_lines db i)" "\<not> list_ex bad_line (journal_lines db i)"
      "sum_of jl_debit (journal_lines db i) = sum_of jl_credit (journal_lines db i)"
      "sum_of jl_debit (journal_lines db i) \<noteq> 0"
      "sum_of jl_base_debit (journal_lines db i) = sum_of jl_base_credit (journal_lines db i)"
      "je_status row = ''POSTED''" "je_period row = je_period e" "je_date row = je_date e" "je_no row = je_no e"
      "je_source row = je_source e"
      "db' = db\<lparr>f_journals := t_put i row (f_journals db)\<rparr>"
proof -
  from assms obtain e where e: "t_get (f_journals db) i = Some e"
    by (auto simp: post_journal_def ebind_Inr_iff)
  show thesis
  proof (cases "je_status e = ''POSTED''")
    case True
    with assms e have "k = i" "db' = db" by (auto simp: post_journal_def)
    with True e show thesis by (intro already [of e])
  next
    case False
    with assms e obtain row where st: "je_status e = ''DRAFT''" and "k = i"
      and n: "2 \<le> length (journal_lines db i)" "\<not> list_ex bad_line (journal_lines db i)"
      and s: "sum_of jl_debit (journal_lines db i) = sum_of jl_credit (journal_lines db i)"
        "sum_of jl_debit (journal_lines db i) \<noteq> 0"
        "sum_of jl_base_debit (journal_lines db i) = sum_of jl_base_credit (journal_lines db i)"
      and row: "flush_journal
                   (e\<lparr>je_status := ''POSTED'', je_posted_at := Some (rq_now rq), je_posted_by := rq_user rq,
                      je_debit := sum_list (map jl_debit (journal_lines db i)),
                      je_credit := sum_list (map jl_credit (journal_lines db i))\<rparr>) = Inr row"
      and db': "db' = db\<lparr>f_journals := t_put i row (f_journals db)\<rparr>"
      unfolding post_journal_def Let_def sum_of_def
      by (clarsimp simp: ebind_Inr_iff not_less)
    show thesis
      by (rule posted [OF \<open>k = i\<close> e st n s _ _ _ _ _ db']) (use flush_journal_fields [OF row] in simp_all)
  qed
qed

lemma delete_journal_effect:
  assumes "delete_journal i db = Inr db'"
  obtains (missing) "t_get (f_journals db) i = None" "db' = db"
  | (deleted) e where "t_get (f_journals db) i = Some e" "je_status e \<noteq> ''POSTED''" "\<not> journal_referenced i db"
      "db' = db\<lparr>f_jlines := t_del_where (\<lambda>l. jl_journal l = i) (f_jlines db), f_journals := t_del i (f_journals db)\<rparr>"
  using assms by (auto simp: delete_journal_def ebind_Inr_iff split: option.splits)

end
