(* ===== verification/Ledger.thy ===== *)
theory Ledger
  imports LedgerEffects "HOL-Library.Multiset"
begin

text \<open>
  The invariants of the ledger tables and that every operation keeps them: posted journals balance,
  what was paid on a document is what its allocations say, and a posted document has exactly one
  posting. Each predicate is over the tables it needs, so an operation that leaves those tables alone
  keeps it by rewriting.
\<close>

section \<open>Invariants\<close>

subsection \<open>Journals\<close>

definition entry_lines :: "jline table \<Rightarrow> int \<Rightarrow> jline list" where
  "entry_lines ls i = filter (\<lambda>l. jl_journal l = i) (t_vals ls)"

definition entry_ok :: "jline list \<Rightarrow> bool" where
  "entry_ok xs \<longleftrightarrow> 2 \<le> length xs \<and> sum_of jl_debit xs = sum_of jl_credit xs \<and> 0 < sum_of jl_debit xs"

definition lines_ok :: "journal table \<Rightarrow> jline table \<Rightarrow> bool" where
  "lines_ok js ls \<longleftrightarrow> (\<forall>l \<in> set (t_vals ls). jl_journal l < next_id js \<and> has_places 4 (jl_debit l) \<and> has_places 4 (jl_credit l))"

definition posted_ok :: "journal table \<Rightarrow> jline table \<Rightarrow> bool" where
  "posted_ok js ls \<longleftrightarrow> (\<forall>i e. t_get js i = Some e \<longrightarrow> je_status e = ''POSTED'' \<longrightarrow> entry_ok (entry_lines ls i))"

definition journals_ok :: "journal table \<Rightarrow> jline table \<Rightarrow> bool" where
  "journals_ok js ls \<longleftrightarrow> table_ok js \<and> lines_ok js ls \<and> posted_ok js ls"

subsection \<open>The subledger\<close>

definition settled :: "allocation table \<Rightarrow> int \<Rightarrow> rat" where
  "settled als i = t_sum al_amount (touches i) als"

definition settles :: "document table \<Rightarrow> allocation \<Rightarrow> bool" where
  "settles docs a \<longleftrightarrow> 0 \<le> al_amount a \<and> has_places 4 (al_amount a) \<and>
     (\<exists>p t. t_get docs (al_payment a) = Some p \<and> t_get docs (al_target a) = Some t
        \<and> doc_type p \<in> set PAYMENT_TYPES \<and> doc_type t \<in> set INVOICE_TYPES
        \<and> doc_status p = ''POSTED'' \<and> doc_status t = ''POSTED'')"

definition document_ok :: "allocation table \<Rightarrow> int \<Rightarrow> document \<Rightarrow> bool" where
  "document_ok als i d \<longleftrightarrow> doc_paid d = settled als i \<and> has_places 4 (doc_paid d) \<and> has_places 4 (doc_total d)
     \<and> doc_status d \<in> {''DRAFT'', ''POSTED'', ''REVERSED''}
     \<and> (doc_status d = ''POSTED'' \<longrightarrow> 0 < doc_total d \<and> doc_paid d \<le> doc_total d)"

definition subledger_ok :: "document table \<Rightarrow> allocation table \<Rightarrow> bool" where
  "subledger_ok docs als \<longleftrightarrow> table_ok docs
     \<and> (\<forall>a \<in> set (t_vals als). settles docs a)
     \<and> (\<forall>i d. t_get docs i = Some d \<longrightarrow> document_ok als i d)"

subsection \<open>Posting links\<close>

definition posting_ok :: "document table \<Rightarrow> journal table \<Rightarrow> posting \<Rightarrow> bool" where
  "posting_ok docs js p \<longleftrightarrow>
     (\<exists>d e. t_get docs (po_document p) = Some d \<and> doc_status d \<in> {''POSTED'', ''REVERSED''}
        \<and> t_get js (po_journal p) = Some e \<and> je_status e = ''POSTED'' \<and> je_source e = Some (po_document p))"

definition postings_ok :: "document table \<Rightarrow> journal table \<Rightarrow> posting table \<Rightarrow> bool" where
  "postings_ok docs js ps \<longleftrightarrow>
     (\<forall>p \<in> set (t_vals ps). posting_ok docs js p)
     \<and> distinct (map po_document (t_vals ps))
     \<and> (\<forall>i d. t_get docs i = Some d \<longrightarrow> doc_status d \<in> {''POSTED'', ''REVERSED''} \<longrightarrow>
          (\<exists>p \<in> set (t_vals ps). po_document p = i))"

definition ledger_ok :: "fdb \<Rightarrow> bool" where
  "ledger_ok db \<longleftrightarrow> journals_ok (f_journals db) (f_jlines db)
     \<and> subledger_ok (f_documents db) (f_allocations db)
     \<and> postings_ok (f_documents db) (f_journals db) (f_postings db)"

lemma ledger_ok_core: "core db' = core db \<Longrightarrow> ledger_ok db' = ledger_ok db"
  by (simp add: ledger_ok_def core_def)

section \<open>Keeping the journals balanced\<close>

lemma entry_lines_add_all:
  "entry_lines (t_add_all xs ls) i = entry_lines ls i @ filter (\<lambda>l. jl_journal l = i) xs"
  by (simp add: entry_lines_def)

lemma entry_lines_del:
  "entry_lines (t_del_where (\<lambda>l. jl_journal l = j) ls) i = (if i = j then [] else entry_lines ls i)"
proof -
  have "filter (\<lambda>l. jl_journal l \<noteq> j \<and> jl_journal l = i) xs
      = (if i = j then [] else filter (\<lambda>l. jl_journal l = i) xs)" for xs :: "jline list"
    by (induction xs) auto
  then show ?thesis unfolding entry_lines_def t_vals_del_where filter_filter by simp
qed

lemma entry_lines_fresh: "lines_ok js ls \<Longrightarrow> next_id js \<le> i \<Longrightarrow> entry_lines ls i = []"
  by (auto simp: entry_lines_def lines_ok_def filter_empty_conv)

lemma filter_own: "(\<And>l. l \<in> set xs \<Longrightarrow> jl_journal l = j) \<Longrightarrow>
    filter (\<lambda>l. jl_journal l = i) xs = (if i = j then xs else [])"
  by (auto simp: filter_empty_conv filter_id_conv)

text \<open>A new posted entry with its own balanced lines.\<close>

lemma journals_ok_new_entry:
  assumes ok: "journals_ok js ls" and lines: "\<And>l. l \<in> set xs \<Longrightarrow> jl_journal l = next_id js \<and> money (jl_debit l) \<and> money (jl_credit l)"
    and bal: "je_status e = ''POSTED'' \<Longrightarrow> entry_ok xs"
  shows "journals_ok (t_add e js) (t_add_all xs ls)"
proof -
  from ok have t: "table_ok js" and l: "lines_ok js ls" and p: "posted_ok js ls" by (auto simp: journals_ok_def)
  have own: "filter (\<lambda>l. jl_journal l = i) xs = (if i = next_id js then xs else [])" for i
    using lines by (intro filter_own) auto
  have "lines_ok (t_add e js) (t_add_all xs ls)"
    using l lines by (auto simp: lines_ok_def in_column_def)
  moreover have "posted_ok (t_add e js) (t_add_all xs ls)"
    unfolding posted_ok_def entry_lines_add_all own
    using p bal entry_lines_fresh [OF l, of "next_id js"] t by (auto simp: posted_ok_def)
  ultimately show ?thesis using t by (simp add: journals_ok_def)
qed

text \<open>Rewriting an entry that was not posted, together with its lines.\<close>

lemma journals_ok_rewrite:
  assumes ok: "journals_ok js ls" and old: "t_get js i = Some e0" "je_status e0 \<noteq> ''POSTED''"
    and lines: "\<And>l. l \<in> set xs \<Longrightarrow> jl_journal l = i \<and> money (jl_debit l) \<and> money (jl_credit l)"
    and e: "je_status e \<noteq> ''POSTED''"
  shows "journals_ok (t_put i e js) (t_add_all xs (t_del_where (\<lambda>l. jl_journal l = i) ls))"
proof -
  from ok have t: "table_ok js" and l: "lines_ok js ls" and p: "posted_ok js ls" by (auto simp: journals_ok_def)
  have own: "filter (\<lambda>l. jl_journal l = k) xs = (if k = i then xs else [])" for k
    using lines by (intro filter_own) auto
  have "i < next_id js" using t_get_below [OF t old(1)] .
  then have "lines_ok (t_put i e js) (t_add_all xs (t_del_where (\<lambda>l. jl_journal l = i) ls))"
    using l lines by (auto simp: lines_ok_def in_column_def)
  moreover have "posted_ok (t_put i e js) (t_add_all xs (t_del_where (\<lambda>l. jl_journal l = i) ls))"
    unfolding posted_ok_def entry_lines_add_all own entry_lines_del
    using p e old(1) by (auto simp: posted_ok_def)
  ultimately show ?thesis using t by (simp add: journals_ok_def)
qed

lemma journals_ok_post:
  assumes "journals_ok js ls" and "t_get js i = Some e0" and "entry_ok (entry_lines ls i)"
  shows "journals_ok (t_put i e js) ls"
  using assms by (auto simp: journals_ok_def lines_ok_def posted_ok_def)

lemma journals_ok_delete:
  assumes "journals_ok js ls"
  shows "journals_ok (t_del i js) (t_del_where (\<lambda>l. jl_journal l = i) ls)"
  using assms by (auto simp: journals_ok_def lines_ok_def posted_ok_def entry_lines_del)

subsection \<open>A posted entry passes the check of \<open>post_journal\<close>\<close>

lemma sum_of_sort: "sum_of f (sort_key g xs) = sum_of f xs"
proof -
  have "mset (map f (sort_key g xs)) = mset (map f xs)" by simp
  then have "sum_mset (mset (map f (sort_key g xs))) = sum_mset (mset (map f xs))" by (rule arg_cong)
  then show ?thesis unfolding sum_of_def by (simp only: sum_mset_sum_list)
qed

lemma good_lines_sum:
  assumes "\<not> list_ex bad_line xs"
  shows "0 \<le> sum_of jl_debit xs"
  using assms unfolding sum_of_def
  by (intro sum_list_nonneg_map) (auto simp: list_ex_iff bad_line_def not_less)

lemma journal_lines_entry: "journal_lines db i = sort_key jl_no (entry_lines (f_jlines db) i)"
  by (simp add: journal_lines_def entry_lines_def)

lemma checked_entry_ok:
  assumes "2 \<le> length (journal_lines db i)" and "\<not> list_ex bad_line (journal_lines db i)"
    and "sum_of jl_debit (journal_lines db i) = sum_of jl_credit (journal_lines db i)"
    and "sum_of jl_debit (journal_lines db i) \<noteq> 0"
  shows "entry_ok (entry_lines (f_jlines db) i)"
proof -
  have "0 < sum_of jl_debit (journal_lines db i)"
    using good_lines_sum [OF assms(2)] assms(4) by simp
  then show ?thesis
    using assms(1,3) by (simp add: entry_ok_def journal_lines_entry sum_of_sort)
qed

section \<open>Keeping the subledger\<close>

lemma settled_nonneg: "subledger_ok docs als \<Longrightarrow> 0 \<le> settled als i"
  unfolding settled_def by (rule t_sum_nonneg) (auto simp: subledger_ok_def settles_def)

text \<open>A document that is not posted has no allocation.\<close>

lemma settled_draft:
  assumes "subledger_ok docs als" and "\<And>d. t_get docs i = Some d \<Longrightarrow> doc_status d \<noteq> ''POSTED''"
  shows "settled als i = 0"
proof -
  have "\<not> touches i a" if "a \<in> set (t_vals als)" for a
    using assms that by (force simp: subledger_ok_def settles_def touches_def)
  then have none: "filter (touches i) (t_vals als) = []" by (simp add: filter_empty_conv)
  show ?thesis unfolding settled_def t_sum_def none by simp
qed

lemma settles_mono:
  assumes "settles docs a"
    and "\<And>i d. t_get docs i = Some d \<Longrightarrow> doc_status d = ''POSTED'' \<Longrightarrow>
       \<exists>d'. t_get docs' i = Some d' \<and> doc_status d' = ''POSTED'' \<and> doc_type d' = doc_type d"
  shows "settles docs' a"
proof -
  from assms(1) obtain p t where "t_get docs (al_payment a) = Some p" "t_get docs (al_target a) = Some t"
    and ty: "doc_type p \<in> set PAYMENT_TYPES" "doc_type t \<in> set INVOICE_TYPES"
    and "doc_status p = ''POSTED''" "doc_status t = ''POSTED''" and am: "0 \<le> al_amount a" "has_places 4 (al_amount a)"
    by (auto simp: settles_def)
  with assms(2) [of "al_payment a" p] assms(2) [of "al_target a" t] show ?thesis
    by (auto simp: settles_def)
qed

text \<open>Writing a row that was not posted before and whose paid amount is zero when it was nothing.\<close>

lemma subledger_ok_add:
  assumes ok: "subledger_ok docs als" and d: "doc_status d = ''DRAFT''" "doc_paid d = 0" "money (doc_total d)"
  shows "subledger_ok (t_add d docs) als"
proof -
  from ok have t: "table_ok docs" by (simp add: subledger_ok_def)
  have "settled als (next_id docs) = 0" using settled_draft [OF ok, of "next_id docs"] t by simp
  then have "document_ok als (next_id docs) d" using d by (simp add: document_ok_def in_column_def)
  moreover have "settles (t_add d docs) a" if "a \<in> set (t_vals als)" for a
  proof (rule settles_mono)
    show "settles docs a" using ok that by (simp add: subledger_ok_def)
    show "\<exists>d'. t_get (t_add d docs) i = Some d' \<and> doc_status d' = ''POSTED'' \<and> doc_type d' = doc_type x"
      if "t_get docs i = Some x" "doc_status x = ''POSTED''" for i x
      using that t t_get_below [OF t that(1)] by auto
  qed
  ultimately show ?thesis using ok t by (auto simp: subledger_ok_def)
qed

lemma subledger_ok_put:
  assumes ok: "subledger_ok docs als" and d0: "t_get docs i = Some d0" "doc_status d0 = ''DRAFT''"
    and d: "doc_status d \<in> {''DRAFT'', ''POSTED''}" "doc_paid d = 0 \<or> doc_paid d = col4 (doc_paid d0)"
      "has_places 4 (doc_total d)" "doc_status d = ''POSTED'' \<Longrightarrow> 0 < doc_total d"
  shows "subledger_ok (t_put i d docs) als"
proof -
  from ok have t: "table_ok docs" by (simp add: subledger_ok_def)
  have s: "settled als i = 0" using settled_draft [OF ok, of i] d0 by simp
  moreover from ok d0 have "doc_paid d0 = settled als i" by (auto simp: subledger_ok_def document_ok_def)
  ultimately have "doc_paid d = 0" using d(2) by auto
  then have "document_ok als i d" using d s by (auto simp: document_ok_def)
  moreover have "settles (t_put i d docs) a" if "a \<in> set (t_vals als)" for a
  proof (rule settles_mono)
    show "settles docs a" using ok that by (simp add: subledger_ok_def)
    show "\<exists>d'. t_get (t_put i d docs) k = Some d' \<and> doc_status d' = ''POSTED'' \<and> doc_type d' = doc_type x"
      if "t_get docs k = Some x" "doc_status x = ''POSTED''" for k x
      using that d0 by auto
  qed
  ultimately show ?thesis using ok t d0 by (auto simp: subledger_ok_def)
qed

lemma subledger_ok_del:
  assumes ok: "subledger_ok docs als" and "\<And>d. t_get docs i = Some d \<Longrightarrow> doc_status d \<noteq> ''POSTED''"
  shows "subledger_ok (t_del i docs) als"
proof -
  have "settles (t_del i docs) a" if "a \<in> set (t_vals als)" for a
  proof (rule settles_mono)
    show "settles docs a" using ok that by (simp add: subledger_ok_def)
  qed (use assms(2) in auto)
  then show ?thesis using ok by (auto simp: subledger_ok_def)
qed

subsection \<open>Allocating\<close>

lemma quantize_add_nonneg:
  assumes "has_places p x" and "0 \<le> x" and "0 \<le> y"
  shows "quantize p (x + y) = x + quantize p y"
proof -
  from assms(1) obtain n where x: "x = of_int n / 10 ^ p" by (auto simp: has_places_iff)
  have "(x + y) * 10 ^ p = of_int n + y * 10 ^ p" by (simp add: x field_simps)
  moreover have "round_half_up (of_int n + y * 10 ^ p) = n + round_half_up (y * 10 ^ p)"
  proof -
    have "0 \<le> x * 10 ^ p" using assms(2) by simp
    then have "0 \<le> (of_int n :: rat)" by (simp add: x)
    moreover have "0 \<le> y * 10 ^ p" using assms(3) by simp
    ultimately show ?thesis by (simp add: round_half_up_def add.assoc)
  qed
  ultimately show ?thesis by (simp add: quantize_def x add_divide_distrib)
qed

lemma settled_add: "settled (t_add a als) i = settled als i + (if touches i a then al_amount a else 0)"
  by (simp add: settled_def t_sum_add)

text \<open>A payment is never the target of an allocation, so what was taken from it is all that touches it.\<close>

lemma allocated_from_settled:
  assumes ok: "subledger_ok docs als" and p: "t_get docs i = Some p" "doc_type p \<in> set PAYMENT_TYPES"
  shows "t_sum al_amount (\<lambda>a. al_payment a = i) als = settled als i"
proof -
  have "filter (\<lambda>a. al_payment a = i) (t_vals als) = filter (touches i) (t_vals als)"
  proof (rule filter_cong [OF refl])
    fix a
    assume "a \<in> set (t_vals als)"
    then have "settles docs a" using ok by (simp add: subledger_ok_def)
    then show "(al_payment a = i) = touches i a"
      using p payment_not_invoice by (auto simp: settles_def touches_def)
  qed
  then show ?thesis by (simp add: settled_def t_sum_def)
qed

lemma subledger_ok_allocate:
  assumes ok: "subledger_ok docs als"
    and p: "t_get docs i = Some payment" and t: "t_get docs k = Some target"
    and c: "check_settlement payment target (DFin amount) = Inr amount"
    and av: "amount \<le> doc_total payment - t_sum al_amount (\<lambda>a. al_payment a = i) als"
    and out: "amount \<le> doc_total target - doc_paid target"
    and a: "al_payment a = i" "al_target a = k" "al_amount a = col4 amount"
    and p': "flush_document (payment\<lparr>doc_paid := doc_paid payment + amount\<rparr>) = Inr payment'"
    and t': "flush_document (target\<lparr>doc_paid := doc_paid target + amount\<rparr>) = Inr target'"
  shows "subledger_ok (t_put k target' (t_put i payment' docs)) (t_add a als)"
proof -
  note chk = check_settlement_Inr [OF c]
  have ne: "i \<noteq> k" using p t chk(3,4) payment_not_invoice by auto
  have tab: "table_ok docs" using ok by (simp add: subledger_ok_def)
  from ok p t have dp: "document_ok als i payment" and dt: "document_ok als k target"
    by (auto simp: subledger_ok_def)
  have avail: "doc_paid payment + amount \<le> doc_total payment"
    using av dp allocated_from_settled [OF ok p chk(3)] by (simp add: document_ok_def)
  have outst: "doc_paid target + amount \<le> doc_total target" using out by simp
  have amt: "0 \<le> col4 amount" using chk(2) by (intro quantize_nonneg) simp
  have paid: "doc_paid x' = doc_paid x + col4 amount \<and> doc_paid x' \<le> doc_total x \<and> doc_total x' = doc_total x
      \<and> doc_status x' = doc_status x \<and> doc_type x' = doc_type x"
    if "flush_document (x\<lparr>doc_paid := doc_paid x + amount\<rparr>) = Inr x'" "document_ok als j x"
      "doc_paid x + amount \<le> doc_total x" for x x' j
  proof -
    from that(2) have hp: "has_places 4 (doc_paid x)" "has_places 4 (doc_total x)" and nn: "0 \<le> doc_paid x"
      using settled_nonneg [OF ok, of j] by (auto simp: document_ok_def)
    have "col4 (doc_paid x + amount) = doc_paid x + col4 amount"
      using hp(1) nn chk(2) by (intro quantize_add_nonneg) auto
    moreover have "col4 (doc_paid x + amount) \<le> col4 (doc_total x)" using that(3) by (rule quantize_mono)
    ultimately show ?thesis
      using flush_document_fields [OF that(1)] hp(2) by (simp add: quantize_exact)
  qed
  note pp = paid [OF p' dp avail] and tt = paid [OF t' dt outst]
  have st: "settles (t_put k target' (t_put i payment' docs)) x" if "x \<in> set (t_vals als)" for x
  proof (rule settles_mono)
    show "settles docs x" using ok that by (simp add: subledger_ok_def)
    show "\<exists>d'. t_get (t_put k target' (t_put i payment' docs)) j = Some d' \<and> doc_status d' = ''POSTED'' \<and> doc_type d' = doc_type y"
      if "t_get docs j = Some y" "doc_status y = ''POSTED''" for j y
      using that p t pp tt by auto
  qed
  have "settles (t_put k target' (t_put i payment' docs)) a"
    using a amt p t pp tt chk ne by (auto simp: settles_def)
  moreover have "document_ok (t_add a als) j d"
    if got: "t_get (t_put k target' (t_put i payment' docs)) j = Some d" for j d
  proof -
    have pl: "has_places 4 (col4 amount)" by simp
    consider "j = k" "d = target'" | "j = i" "d = payment'" | "j \<noteq> i" "j \<noteq> k" "t_get docs j = Some d"
      using got p t ne by (auto split: if_splits)
    then show ?thesis
    proof cases
      case 1
      then show ?thesis using dt tt a ne by (auto simp: document_ok_def settled_add touches_def intro: has_places_add)
    next
      case 2
      then show ?thesis using dp pp a ne by (auto simp: document_ok_def settled_add touches_def intro: has_places_add)
    next
      case 3
      with ok have "document_ok als j d" by (auto simp: subledger_ok_def)
      with 3 a show ?thesis by (auto simp: document_ok_def settled_add touches_def)
    qed
  qed
  ultimately show ?thesis using tab st ok by (auto simp: subledger_ok_def)
qed

end
