(* ===== verification/LedgerSteps.thy ===== *)
theory LedgerSteps
  imports Ledger
begin

text \<open>Posting, reversing and deleting keep the subledger and the posting links.\<close>

section \<open>Reversing\<close>

lemma release_fold:
  assumes "\<And>a. a \<in> set as \<Longrightarrow> 0 \<le> al_amount a" and "(\<Sum>a\<leftarrow>as. al_amount a) \<le> doc_paid d"
  shows "doc_paid (fold release as d) = doc_paid d - (\<Sum>a\<leftarrow>as. al_amount a)"
  using assms
proof (induction as arbitrary: d)
  case Nil
  then show ?case by simp
next
  case (Cons a as)
  have nn: "0 \<le> (\<Sum>a\<leftarrow>as. al_amount a)" using Cons.prems(1) by (intro sum_list_nonneg_map) auto
  with Cons.prems have paid: "doc_paid (release a d) = doc_paid d - al_amount a" by (simp add: release_def)
  have "doc_paid (fold release as (release a d)) = doc_paid (release a d) - (\<Sum>a\<leftarrow>as. al_amount a)"
    using Cons.prems paid by (intro Cons.IH) auto
  then show ?case by (simp add: paid)
qed

lemma release_fold_fields [simp]:
  "doc_status (fold release as d) = doc_status d"
  "doc_type (fold release as d) = doc_type d"
  "doc_total (fold release as d) = doc_total d"
  by (induction as arbitrary: d) (auto simp: release_def)

lemma other_side_touches:
  "k \<noteq> i \<Longrightarrow> (touches i a \<and> other_side i a = k) = (touches k a \<and> touches i a)"
  by (auto simp: touches_def other_side_def)

definition releases :: "allocation table \<Rightarrow> int \<Rightarrow> int \<Rightarrow> allocation list" where
  "releases als i k = filter (\<lambda>a. other_side i a = k) (filter (touches i) (t_vals als))"

lemma released_get:
  "t_get (released i db) k = map_option (fold release (releases (f_allocations db) i k)) (t_get (f_documents db) k)"
  unfolding released_def releases_def by (rule table_rows.get_rewrite_each)

lemma released_table_ok:
  assumes "table_ok (f_documents db)"
  shows "table_ok (released i db)"
  unfolding released_def by (rule table_rows.rewrite_each_invariant) (use assms in auto)

lemma settled_split:
  assumes "k \<noteq> i"
  shows "settled als k = (\<Sum>a\<leftarrow>releases als i k. al_amount a) + settled (t_del_where (touches i) als) k"
proof -
  have "releases als i k = filter (touches i) (filter (touches k) (t_vals als))"
    unfolding releases_def filter_filter by (rule filter_cong) (use other_side_touches [OF assms] in auto)
  moreover have "filter (touches k) (t_vals (t_del_where (touches i) als))
      = filter (\<lambda>a. \<not> touches i a) (filter (touches k) (t_vals als))"
    unfolding t_vals_del_where filter_filter by (rule filter_cong) auto
  ultimately show ?thesis
    unfolding settled_def t_sum_def
    using sum_list_filter_partition [of al_amount "filter (touches k) (t_vals als)" "touches i"] by simp
qed

definition reversed_documents :: "int \<Rightarrow> fdb \<Rightarrow> document table" where
  "reversed_documents i db =
     (case t_get (released i db) i of None \<Rightarrow> released i db
      | Some d' \<Rightarrow> t_put i (d'\<lparr>doc_paid := 0, doc_status := ''REVERSED''\<rparr>) (released i db))"

lemma reversed_get:
  assumes "t_get (f_documents db) i = Some d"
  shows "t_get (reversed_documents i db) k =
    (if k = i then Some ((fold release (releases (f_allocations db) i i) d)\<lparr>doc_paid := 0, doc_status := ''REVERSED''\<rparr>)
     else map_option (fold release (releases (f_allocations db) i k)) (t_get (f_documents db) k))"
  using assms by (simp add: reversed_documents_def released_get)

lemma subledger_ok_reverse:
  assumes ok: "subledger_ok (f_documents db) (f_allocations db)" and d: "t_get (f_documents db) i = Some d"
  shows "subledger_ok (reversed_documents i db) (t_del_where (touches i) (f_allocations db))"
proof -
  let ?als = "f_allocations db" and ?docs = "f_documents db"
  note get = reversed_get [OF d]
  have tab: "table_ok ?docs" using ok by (simp add: subledger_ok_def)
  have al: "\<And>a. a \<in> set (t_vals ?als) \<Longrightarrow> settles ?docs a" using ok by (simp add: subledger_ok_def)
  have "table_ok (reversed_documents i db)"
    using released_table_ok [OF tab] by (simp add: reversed_documents_def split: option.splits)
  moreover have "settles (reversed_documents i db) a" if a: "a \<in> set (t_vals ?als)" "\<not> touches i a" for a
    using al [OF a(1)] a(2) by (auto simp: settles_def get touches_def)
  moreover have "document_ok (t_del_where (touches i) ?als) k x"
    if k: "t_get (reversed_documents i db) k = Some x" for k x
  proof (cases "k = i")
    case True
    have none: "filter (touches i) (t_vals (t_del_where (touches i) ?als)) = []"
      by (simp add: filter_empty_conv)
    have "settled (t_del_where (touches i) ?als) i = 0" unfolding settled_def t_sum_def none by simp
    moreover have "has_places 4 (doc_total d)" using ok d by (auto simp: subledger_ok_def document_ok_def)
    ultimately show ?thesis using k True by (auto simp: get document_ok_def)
  next
    case False
    with k obtain y where y: "t_get ?docs k = Some y" and x: "x = fold release (releases ?als i k) y"
      by (auto simp: get)
    from ok y have yo: "document_ok ?als k y" by (auto simp: subledger_ok_def)
    have sub: "set (releases ?als i k) \<subseteq> set (t_vals ?als)" by (auto simp: releases_def)
    let ?r = "\<Sum>a\<leftarrow>releases ?als i k. al_amount a"
    have nn: "0 \<le> al_amount a" and pl: "has_places 4 (al_amount a)" if "a \<in> set (releases ?als i k)" for a
      using al [of a] sub that by (auto simp: settles_def)
    have rest: "0 \<le> settled (t_del_where (touches i) ?als) k"
      unfolding settled_def by (rule t_sum_nonneg) (use al in \<open>auto simp: settles_def\<close>)
    have eq: "settled ?als k = ?r + settled (t_del_where (touches i) ?als) k" by (rule settled_split [OF False])
    have yp: "doc_paid y = settled ?als k" using yo unfolding document_ok_def by blast
    with eq rest have "?r \<le> doc_paid y" by linarith
    then have paid: "doc_paid x = doc_paid y - ?r" unfolding x by (intro release_fold nn)
    have r: "0 \<le> ?r" by (rule sum_list_nonneg_map) (rule nn)
    have "has_places 4 ?r" by (rule has_places_sum_list) (use pl in auto)
    moreover have "has_places 4 (doc_paid y)" using yo unfolding document_ok_def by blast
    ultimately have hp: "has_places 4 (doc_paid x)" unfolding paid by (intro has_places_diff)
    have eq': "doc_paid x = settled (t_del_where (touches i) ?als) k" and le: "doc_paid x \<le> doc_paid y"
      using paid eq yp r by linarith+
    have same: "doc_status x = doc_status y" "doc_total x = doc_total y" unfolding x by simp_all
    have "doc_status x = ''POSTED'' \<Longrightarrow> 0 < doc_total x \<and> doc_paid x \<le> doc_total x"
      using yo le same unfolding document_ok_def by auto
    with yo hp eq' same show ?thesis unfolding document_ok_def by auto
  qed
  ultimately show ?thesis by (auto simp: subledger_ok_def)
qed

section \<open>Posting links\<close>

lemma postings_ok_mono:
  assumes ok: "postings_ok docs js ps"
    and fwd: "\<And>i d. t_get docs i = Some d \<Longrightarrow> doc_status d \<in> {''POSTED'', ''REVERSED''} \<Longrightarrow>
       \<exists>d'. t_get docs' i = Some d' \<and> doc_status d' \<in> {''POSTED'', ''REVERSED''}"
    and bwd: "\<And>i d'. t_get docs' i = Some d' \<Longrightarrow> doc_status d' \<in> {''POSTED'', ''REVERSED''} \<Longrightarrow>
       \<exists>d. t_get docs i = Some d \<and> doc_status d \<in> {''POSTED'', ''REVERSED''}"
    and jrn: "\<And>j e. t_get js j = Some e \<Longrightarrow> je_status e = ''POSTED'' \<Longrightarrow>
       \<exists>e'. t_get js' j = Some e' \<and> je_status e' = ''POSTED'' \<and> je_source e' = je_source e"
  shows "postings_ok docs' js' ps"
proof -
  have "posting_ok docs' js' p" if "p \<in> set (t_vals ps)" for p
  proof -
    from ok that obtain d e where d: "t_get docs (po_document p) = Some d" "doc_status d \<in> {''POSTED'', ''REVERSED''}"
      and e: "t_get js (po_journal p) = Some e" "je_status e = ''POSTED''" "je_source e = Some (po_document p)"
      by (auto simp: postings_ok_def posting_ok_def)
    from fwd [OF d] jrn [OF e(1,2)] e(3) show ?thesis by (auto simp: posting_ok_def)
  qed
  moreover have "\<exists>p \<in> set (t_vals ps). po_document p = i"
    if "t_get docs' i = Some d'" "doc_status d' \<in> {''POSTED'', ''REVERSED''}" for i d'
    using bwd [OF that] ok unfolding postings_ok_def by blast
  ultimately show ?thesis using ok by (auto simp: postings_ok_def)
qed

lemma postings_ok_post:
  assumes ok: "postings_ok docs js ps" and tabs: "table_ok docs" "table_ok js"
    and d0: "t_get docs i = Some d0" "doc_status d0 = ''DRAFT''"
    and d: "doc_status d = ''POSTED''" and e: "je_status e = ''POSTED''" "je_source e = Some i"
    and p: "po_document p = i" "po_journal p = next_id js"
  shows "postings_ok (t_put i d docs) (t_add e js) (t_add p ps)"
proof -
  have old: "posting_ok (t_put i d docs) (t_add e js) q" if "q \<in> set (t_vals ps)" for q
  proof -
    from ok that have "posting_ok docs js q" by (simp add: postings_ok_def)
    then show ?thesis using d d0 tabs t_get_below [OF tabs(2)] by (fastforce simp: posting_ok_def)
  qed
  moreover have "posting_ok (t_put i d docs) (t_add e js) p"
    using d0 d e p tabs by (auto simp: posting_ok_def)
  moreover have "i \<notin> po_document ` set (t_vals ps)"
    using ok d0 by (force simp: postings_ok_def posting_ok_def)
  moreover have "\<exists>q \<in> set (t_vals (t_add p ps)). po_document q = k"
    if "t_get (t_put i d docs) k = Some x" "doc_status x \<in> {''POSTED'', ''REVERSED''}" for k x
  proof (cases "k = i")
    case True
    with p show ?thesis by simp
  next
    case False
    with that ok show ?thesis unfolding postings_ok_def by auto
  qed
  ultimately show ?thesis using ok p by (auto simp: postings_ok_def)
qed

section \<open>The lines of a document\<close>

definition lines_stored :: "fdb \<Rightarrow> bool" where
  "lines_stored db \<longleftrightarrow> (\<forall>l \<in> set (t_vals (f_lines db)). has_places 4 (dl_amount l) \<and> has_places 4 (dl_tax l))"

lemma flush_line_stored:
  assumes "emap flush_line ls = Inr ks" and "k \<in> set ks"
  shows "has_places 4 (dl_amount k) \<and> has_places 4 (dl_tax k)"
proof -
  from emap_in_set [OF assms] obtain l where "flush_line l = Inr k" .
  then show ?thesis by (simp add: flush_line_fields)
qed

lemma allocate_number_lines [simp]: "f_lines (snd (allocate_number ty p y rq db)) = f_lines db"
  by (simp add: allocate_number_def Let_def case_prod_unfold)

lemma allocate_number_lines': "allocate_number ty p y rq db = (n, db') \<Longrightarrow> f_lines db' = f_lines db"
  using allocate_number_lines [of ty p y rq db] by simp

lemma open_document_lines:
  assumes "open_document data ty stored cur rq db = Inr (x, db1)"
  shows "f_lines db1 = f_lines db"
proof (cases stored)
  case None
  obtain c r b p where cur: "cur = (c, r, b, p)" by (cases cur)
  define n where "n = (if \<not> truthy (py_or (dget data ''documentNo'') (dget data ''debitNoteNo''))
        \<or> py_strip (py_str (py_or (dget data ''documentNo'') (dget data ''debitNoteNo''))) = []
      then allocate_number ty None None rq db else (py_str (py_or (dget data ''documentNo'') (dget data ''debitNoteNo'')), db))"
  have "f_lines (snd n) = f_lines db" by (simp add: n_def)
  with assms show ?thesis
    unfolding open_document_def cur None Let_def n_def [symmetric]
    by (auto simp: ebind_Inr_iff case_prod_unfold split: if_splits)
next
  case (Some y)
  with assms show ?thesis
    by (cases y) (auto simp: open_document_def Let_def case_prod_unfold split: if_splits)
qed

lemma save_document_lines:
  assumes "save_document data rq db = Inr (i, db')" and "lines_stored db"
  shows "lines_stored db'"
proof -
  from assms(1) obtain data1 ty cur d db1 ls line_rows where
    opened: "open_document data1 ty (the_document data1 db) cur rq db = Inr ((i, d), db1)"
    and rows: "emap flush_line ls = Inr line_rows"
    and db': "f_lines db' = t_add_all line_rows (t_del_where (\<lambda>l. dl_document l = i) (f_lines db1))"
    unfolding save_document_def Let_def
    by (auto simp: ebind_Inr_iff case_prod_unfold)
  show ?thesis
    using assms(2) open_document_lines [OF opened] flush_line_stored [OF rows] by (auto simp: lines_stored_def db')
qed

lemma add_invoice_lines:
  assumes "add_invoice d lines sources db = Inr (i, db')" and "lines_stored db"
  shows "lines_stored db'"
  using add_invoice_Inr [OF assms(1)] assms(2) by (auto simp: lines_stored_def flush_line_stored)

lemma create_invoice_lines:
  assumes "create_invoice_from_charge c rq db = Inr (i, db') \<or> create_invoice_from_service_order x rq db = Inr (i, db')"
    and "lines_stored db"
  shows "lines_stored db'"
proof (cases "db' = db")
  case False
  obtain number db1 where n: "allocate_number ''CUSTOMER_INVOICE'' None None rq db = (number, db1)"
    by (cases "allocate_number ''CUSTOMER_INVOICE'' None None rq db")
  have l: "lines_stored db1" using assms(2) allocate_number_lines' [OF n] by (simp add: lines_stored_def)
  from assms(1) show ?thesis
  proof
    assume "create_invoice_from_charge c rq db = Inr (i, db')"
    with False obtain p cur base lines sources where
      "add_invoice (charge_invoice number (snd c) p cur base rq) lines sources db1 = Inr (i, db')"
      unfolding create_invoice_from_charge_def Let_def n
      by (auto simp: ebind_Inr_iff case_prod_unfold split: option.splits if_splits)
    then show ?thesis using l by (rule add_invoice_lines)
  next
    assume "create_invoice_from_service_order x rq db = Inr (i, db')"
    with False obtain lines sources where
      "add_invoice (order_invoice number x (pending_charges db (fst x)) db1 rq) lines sources db1 = Inr (i, db')"
      unfolding create_invoice_from_service_order_def Let_def n
      by (auto simp: ebind_Inr_iff case_prod_unfold split: option.splits if_splits)
    then show ?thesis using l by (rule add_invoice_lines)
  qed
qed (use assms in simp)

lemma resolve_period_lines: "resolve_period d db = Inr (x, db') \<Longrightarrow> f_lines db' = f_lines db"
  by (erule resolve_period_frame) simp

section \<open>A built draft becomes a balanced entry\<close>

lemma positive_lines_pos:
  assumes "positive_lines ls" and "ls \<noteq> []" and "side_total True ls = side_total False ls"
  shows "0 < side_total True ls"
proof -
  from assms(2) obtain l where l: "l \<in> set ls" by (cases ls) auto
  have pos: "0 < dr_amount x" if "x \<in> set ls" for x
    using assms(1) that by (simp add: positive_lines_def list_all_iff)
  have "dr_amount l \<le> side_total (dr_debit l) ls"
    unfolding side_total_def
    by (rule sum_list_member_le) (use l pos in \<open>auto intro: less_imp_le\<close>)
  with pos [OF l] have "0 < side_total (dr_debit l) ls" by linarith
  then show ?thesis using assms(3) by (cases "dr_debit l") auto
qed

lemma build_for_draft:
  assumes "build_for db i d = Inr dr" and "lines_stored db" and "has_places 4 (doc_total d)"
  shows "stored_amounts (jd_lines dr)" and "positive_lines (jd_lines dr)"
    and "debit_total dr = credit_total dr" and "0 < doc_total d"
proof -
  obtain control where tot: "0 < doc_total d"
    and ls: "draft_lines (resolve DEFAULT_ACCOUNTS db) (account_by_id db) (strategy_for (py_upper (doc_type d)))
        (py_upper (doc_type d)) (doc_total d) (map (line_input_of d) (document_lines db i)) control
        (or_text (doc_description d) (doc_no d)) = Inr (jd_lines dr)"
    and bal: "debit_total dr = credit_total dr"
    by (rule build_Inr [OF assms(1) [unfolded build_for_def]])
  show "0 < doc_total d" by (rule tot)
  show "debit_total dr = credit_total dr" by (rule bal)
  show "positive_lines (jd_lines dr)" by (rule draft_lines_positive [OF ls])
  show "stored_amounts (jd_lines dr)"
  proof (rule draft_lines_stored [OF ls assms(3)])
    fix l
    assume "l \<in> set (map (line_input_of d) (document_lines db i))"
    then obtain m where "m \<in> set (t_vals (f_lines db))" and "l = line_input_of d m"
      by (auto simp: document_lines_def)
    with assms(2) show "has_places 4 (li_amount l) \<and> has_places 4 (li_tax l)"
      by (auto simp: lines_stored_def line_input_of_def)
  qed
qed

lemma posted_entry_ok:
  assumes dr: "build_for db i d = Inr dr" "lines_stored db" "has_places 4 (doc_total d)" "2 \<le> length (jd_lines dr)"
    and jls: "emap flush_jline (map (posted_jline j i d r) (py_enumerate 1 (jd_lines dr))) = Inr jls"
  shows "entry_ok jls" and "sum_of jl_debit jls = debit_total dr" and "sum_of jl_credit jls = credit_total dr"
proof -
  note b = build_for_draft [OF dr(1-3)]
  have in_lines: "x \<in> set (py_enumerate n ls) \<Longrightarrow> snd x \<in> set ls" for x n and ls :: "draft_line list"
    by (metis list.set_map image_eqI map_snd_py_enumerate)
  have pl: "has_places 4 (jl_debit l) \<and> has_places 4 (jl_credit l)"
    if "l \<in> set (map (posted_jline j i d r) (py_enumerate 1 (jd_lines dr)))" for l
    using that b(1) by (auto simp: stored_amounts_def list_all_iff dest!: in_lines)
  show debit: "sum_of jl_debit jls = debit_total dr"
    using emap_flush_jline_sum(1) [OF jls] pl by (simp only: sum_posted_jlines debit_total_def)
  show credit: "sum_of jl_credit jls = credit_total dr"
    using emap_flush_jline_sum(2) [OF jls] pl by (simp only: sum_posted_jlines credit_total_def)
  have "length jls = length (jd_lines dr)" using emap_length [OF jls] by simp
  moreover have "0 < debit_total dr"
    using positive_lines_pos [OF b(2)] dr(4) b(3) by (fastforce simp: debit_total_def credit_total_def)
  ultimately show "entry_ok jls" using dr(4) b(3) debit credit by (simp add: entry_ok_def)
qed

end
