(* ===== verification/Machines.thy ===== *)
theory Machines
  imports Prelude
begin

text \<open>
  State machines given by an initial predicate and a step relation: the states they reach, the runs
  between two states, and the two contracts the services are proved against. \<open>invariant\<close> is what every
  reachable state satisfies; \<open>evolution\<close> relates an earlier state to every later one.
\<close>

inductive reach :: "('s \<Rightarrow> bool) \<Rightarrow> ('s \<Rightarrow> 's \<Rightarrow> bool) \<Rightarrow> 's \<Rightarrow> bool"
  for init step
where
  reach_init: "init s \<Longrightarrow> reach init step s"
| reach_step: "reach init step s \<Longrightarrow> step s t \<Longrightarrow> reach init step t"

inductive run :: "('s \<Rightarrow> 's \<Rightarrow> bool) \<Rightarrow> 's \<Rightarrow> 's \<Rightarrow> bool"
  for step
where
  run_refl: "run step s s"
| run_step: "run step s t \<Longrightarrow> step t u \<Longrightarrow> run step s u"

lemma run_single: "step s t \<Longrightarrow> run step s t"
  by (rule run_step [OF run_refl])

lemma run_trans: "run step t u \<Longrightarrow> run step s t \<Longrightarrow> run step s u"
  by (induction rule: run.induct) (auto intro: run.intros)

lemma reach_run: "run step s t \<Longrightarrow> reach init step s \<Longrightarrow> reach init step t"
  by (induction rule: run.induct) (auto intro: reach.intros)

locale invariant =
  fixes init :: "'s \<Rightarrow> bool" and step :: "'s \<Rightarrow> 's \<Rightarrow> bool" and inv :: "'s \<Rightarrow> bool"
  assumes start: "init s \<Longrightarrow> inv s"
    and keep: "inv s \<Longrightarrow> step s t \<Longrightarrow> inv t"
begin

lemma always: "reach init step s \<Longrightarrow> inv s"
  by (induction rule: reach.induct) (auto intro: start keep)

lemma along: "run step s t \<Longrightarrow> inv s \<Longrightarrow> inv t"
  by (induction rule: run.induct) (auto intro: keep)

end

text \<open>What holds between a reachable state and the states after it.\<close>

locale evolution = invariant +
  fixes later :: "'s \<Rightarrow> 's \<Rightarrow> bool"
  assumes later_refl: "later s s"
    and later_trans: "later s t \<Longrightarrow> later t u \<Longrightarrow> later s u"
    and advance: "inv s \<Longrightarrow> step s t \<Longrightarrow> later s t"
begin

lemma run_later: "run step s t \<Longrightarrow> inv s \<Longrightarrow> later s t"
proof (induction rule: run.induct)
  case (run_refl s)
  then show ?case by (simp add: later_refl)
next
  case (run_step s t u)
  then have "inv t" by (blast intro: along)
  with run_step show ?case by (blast intro: later_trans advance)
qed

lemma reach_later: "reach init step s \<Longrightarrow> run step s t \<Longrightarrow> later s t"
  by (blast intro: run_later always)

end

end
