(* ===== verification/LedgerMachine.thy ===== *)
theory LedgerMachine
  imports LedgerSteps Machines
begin

text \<open>
  The finance service as a state machine: one rule per operation that commits, and one for the
  writes of the other modules to the tables finance only reads. Every reachable database has a
  consistent ledger.
\<close>

section \<open>The machine\<close>

inductive fstep :: "fdb \<Rightarrow> fdb \<Rightarrow> bool" where
  fs_save_document: "save_document data rq db = Inr (i, db') \<Longrightarrow> fstep db db'"
| fs_delete_documents: "delete_draft_documents ids db = Inr (n, db') \<Longrightarrow> fstep db db'"
| fs_post_document: "post_document i rq db = Inr (k, db') \<Longrightarrow> fstep db db'"
| fs_reverse_document: "reverse_document i reason rq db = Inr (k, db') \<Longrightarrow> fstep db db'"
| fs_allocate: "allocate_payment i data key rq db = Inr (ans, db') \<Longrightarrow> fstep db db'"
| fs_charge_invoice: "create_invoice_from_charge c rq db = Inr (i, db') \<Longrightarrow> fstep db db'"
| fs_order_invoice: "create_invoice_from_service_order x rq db = Inr (i, db') \<Longrightarrow> fstep db db'"
| fs_save_journal: "save_journal data rq db = Inr (i, db') \<Longrightarrow> fstep db db'"
| fs_post_journal: "post_journal i rq db = Inr (k, db') \<Longrightarrow> fstep db db'"
| fs_delete_journals: "delete_journals ids db = Inr db' \<Longrightarrow> fstep db db'"
| fs_create_account: "create_account data rq db = Inr (ans, db') \<Longrightarrow> fstep db db'"
| fs_update_account: "update_account i data rq db = Inr (ans, db') \<Longrightarrow> fstep db db'"
| fs_delete_accounts: "delete_accounts ids db = Inr db' \<Longrightarrow> fstep db db'"
| fs_create_fin_account: "create_financial_account data rq db = Inr (i, db') \<Longrightarrow> fstep db db'"
| fs_update_fin_account: "update_financial_account i data rq db = Inr (k, db') \<Longrightarrow> fstep db db'"
| fs_delete_fin_accounts: "delete_financial_accounts ids db = Inr db' \<Longrightarrow> fstep db db'"
| fs_update_period: "update_period i data rq db = Inr (ans, db') \<Longrightarrow> fstep db db'"
| fs_close_period: "close_period i rq db = Inr (ans, db') \<Longrightarrow> fstep db db'"
| fs_reopen_period: "reopen_period i rq db = Inr (ans, db') \<Longrightarrow> fstep db db'"
| fs_resolve_period: "resolve_period day db = Inr (p, db') \<Longrightarrow> fstep db db'"
| fs_upsert_sequence: "upsert_sequence data rq db = Inr (ans, db') \<Longrightarrow> fstep db db'"
| fs_issue_number: "allocate_number ty prefix year rq db = (number, db') \<Longrightarrow> fstep db db'"
| fs_create_rule: "create_posting_rule data rq db = Inr (i, db') \<Longrightarrow> fstep db db'"
| fs_update_rule: "update_posting_rule i data rq db = Inr (k, db') \<Longrightarrow> fstep db db'"
| fs_delete_rules: "delete_posting_rules ids db = Inr db' \<Longrightarrow> fstep db db'"
| fs_other_modules: "fstep db (db\<lparr>f_currencies := c, f_rates := r, f_doc_types := ty, f_parties := p,
    f_fee_types := f, f_orders := os, f_charges := ch, f_charge_lines := cl, f_default_currency := cur\<rparr>)"

text \<open>A new database: the setup tables may be seeded, within their unique indexes; nothing was booked.\<close>

definition setup_ok :: "fdb \<Rightarrow> bool" where
  "setup_ok db \<longleftrightarrow> table_ok (f_accounts db) \<and> unique_table account_key (f_accounts db)
     \<and> table_ok (f_rules db) \<and> unique_table rule_key (f_rules db)
     \<and> periods_ok (f_periods db)"

definition initial :: "fdb \<Rightarrow> bool" where
  "initial db \<longleftrightarrow> core db = (empty_table, empty_table, empty_table, empty_table, empty_table)
     \<and> f_lines db = empty_table \<and> f_sources db = empty_table \<and> setup_ok db"

section \<open>The ledger invariant\<close>

definition ledger_inv :: "fdb \<Rightarrow> bool" where
  "ledger_inv db \<longleftrightarrow> ledger_ok db \<and> lines_stored db"

lemma ledger_inv_intro:
  assumes "core db = (docs, als, js, ls, ps)" and "journals_ok js ls" and "subledger_ok docs als"
    and "postings_ok docs js ps" and "lines_stored db"
  shows "ledger_inv db"
  using assms by (simp add: ledger_inv_def ledger_ok_def core_def)

lemma ledger_inv_D:
  assumes "ledger_inv db"
  shows "journals_ok (f_journals db) (f_jlines db)" and "subledger_ok (f_documents db) (f_allocations db)"
    and "postings_ok (f_documents db) (f_journals db) (f_postings db)" and "lines_stored db"
    and "table_ok (f_documents db)" and "table_ok (f_journals db)"
  using assms by (simp_all add: ledger_inv_def ledger_ok_def journals_ok_def subledger_ok_def)

lemma ledger_inv_frame:
  "ledger_inv db \<Longrightarrow> core db' = core db \<Longrightarrow> lines_stored db' \<Longrightarrow> ledger_inv db'"
  by (metis ledger_inv_def ledger_ok_core)

lemma lines_stored_frame: "f_lines db' = f_lines db \<Longrightarrow> lines_stored db' = lines_stored db"
  by (simp add: lines_stored_def)

lemma empty_ledger_ok: "journals_ok empty_table empty_table" "subledger_ok empty_table empty_table"
  "postings_ok empty_table empty_table empty_table"
  by (simp_all add: journals_ok_def lines_ok_def posted_ok_def subledger_ok_def postings_ok_def
      t_get_def empty_table_def t_vals_def table_ok_def)

lemma initial_inv: "initial db \<Longrightarrow> ledger_inv db"
  using ledger_inv_intro [OF _ empty_ledger_ok, of db] by (simp add: initial_def lines_stored_def)

section \<open>Operations that write documents\<close>

lemma postings_ok_add_draft:
  assumes "postings_ok docs js ps" and "table_ok docs" and "doc_status d = ''DRAFT''"
  shows "postings_ok (t_add d docs) js ps"
  using assms(1)
proof (rule postings_ok_mono)
  show "\<exists>d'. t_get (t_add d docs) i = Some d' \<and> doc_status d' \<in> {''POSTED'', ''REVERSED''}"
    if "t_get docs i = Some x" "doc_status x \<in> {''POSTED'', ''REVERSED''}" for i x
    using that assms(2) t_get_below [OF assms(2) that(1)] by auto
  show "\<exists>x. t_get docs i = Some x \<and> doc_status x \<in> {''POSTED'', ''REVERSED''}"
    if "t_get (t_add d docs) i = Some d'" "doc_status d' \<in> {''POSTED'', ''REVERSED''}" for i d'
    using that assms(2,3) by (auto split: if_splits)
qed auto

lemma postings_ok_put_draft:
  assumes "postings_ok docs js ps" and "\<And>x. t_get docs i = Some x \<Longrightarrow> doc_status x = ''DRAFT''"
    and "doc_status d = ''DRAFT''"
  shows "postings_ok (t_put i d docs) js ps"
  using assms(1)
proof (rule postings_ok_mono)
  show "\<exists>d'. t_get (t_put i d docs) k = Some d' \<and> doc_status d' \<in> {''POSTED'', ''REVERSED''}"
    if "t_get docs k = Some x" "doc_status x \<in> {''POSTED'', ''REVERSED''}" for k x
    using that assms(2) by auto
  show "\<exists>x. t_get docs k = Some x \<and> doc_status x \<in> {''POSTED'', ''REVERSED''}"
    if "t_get (t_put i d docs) k = Some d'" "doc_status d' \<in> {''POSTED'', ''REVERSED''}" for k d'
    using that assms(3) by (auto split: if_splits)
qed auto

lemma add_draft_inv:
  assumes inv: "ledger_inv db" and d: "doc_status d = ''DRAFT''" "doc_paid d = 0" "money (doc_total d)"
    and c: "core db' = (t_add d (f_documents db), f_allocations db, f_journals db, f_jlines db, f_postings db)"
    and ls: "lines_stored db'"
  shows "ledger_inv db'"
  using ledger_inv_D [OF inv]
  by (intro ledger_inv_intro [OF c _ _ _ ls] subledger_ok_add postings_ok_add_draft d)

lemma t_put_fresh: "table_ok t \<Longrightarrow> t_put (next_id t) x (t_add r t) = t_add x t"
proof -
  assume "table_ok t"
  then have "map (\<lambda>(j, y). if j = next_id t then (j, x) else (j, y)) (rows t) = rows t"
    by (auto simp: table_ok_def list_all_iff intro!: map_idI)
  then show ?thesis by (simp add: t_put_def t_add_def)
qed

lemma save_document_inv:
  assumes inv: "ledger_inv db" and step: "save_document data rq db = Inr (i, db')"
  shows "ledger_inv db'"
proof -
  have ls: "lines_stored db'" using save_document_lines [OF step] ledger_inv_D(4) [OF inv] .
  note D = ledger_inv_D [OF inv]
  from step show ?thesis
  proof (cases rule: save_document_effect)
    case (new r row)
    then show ?thesis using D(5) by (intro add_draft_inv [OF inv, of row]) (simp_all add: t_put_fresh ls)
  next
    case (old d0 row)
    have "subledger_ok (t_put i row (f_documents db)) (f_allocations db)"
      using old by (intro subledger_ok_put [OF D(2) old(1,2)]) (auto simp: in_column_def)
    moreover have "postings_ok (t_put i row (f_documents db)) (f_journals db) (f_postings db)"
      using old by (intro postings_ok_put_draft D) auto
    ultimately show ?thesis using D(1) by (intro ledger_inv_intro [OF old(7) _ _ _ ls])
  qed
qed

lemma create_invoice_inv:
  assumes inv: "ledger_inv db"
    and step: "create_invoice_from_charge c rq db = Inr (i, db') \<or> create_invoice_from_service_order x rq db = Inr (i, db')"
  shows "ledger_inv db'"
proof -
  have ls: "lines_stored db'" using create_invoice_lines [OF step] ledger_inv_D(4) [OF inv] .
  from step have "core db' = core db \<or> (\<exists>row. i = next_id (f_documents db) \<and> doc_status row = ''DRAFT'' \<and> doc_paid row = 0
     \<and> money (doc_total row)
     \<and> core db' = (t_add row (f_documents db), f_allocations db, f_journals db, f_jlines db, f_postings db))"
    using create_invoice_from_charge_effect create_invoice_from_service_order_effect by blast
  with ls show ?thesis by (blast intro: add_draft_inv [OF inv] ledger_inv_frame [OF inv])
qed

lemma delete_document_inv:
  assumes inv: "ledger_inv db" and draft: "\<And>d. t_get (f_documents db) i = Some d \<Longrightarrow> doc_status d = ''DRAFT''"
    and step: "delete_document i db = Inr db'"
  shows "ledger_inv db'"
proof -
  note D = ledger_inv_D [OF inv] and c = delete_document_effect(2) [OF step]
  have "lines_stored db'"
    using D(4) step by (auto simp: delete_document_def ebind_Inr_iff lines_stored_def)
  moreover have "subledger_ok (t_del i (f_documents db)) (f_allocations db)"
    using draft by (intro subledger_ok_del [OF D(2)]) simp
  moreover have "postings_ok (t_del i (f_documents db)) (f_journals db) (f_postings db)"
    by (rule postings_ok_mono [OF D(3)]) (use draft in \<open>force split: if_splits\<close>)+
  ultimately show ?thesis using D(1) by (intro ledger_inv_intro [OF c])
qed

lemma draft_ids_draft:
  "table_ok (f_documents db) \<Longrightarrow> i \<in> set (draft_ids ids db) \<Longrightarrow> t_get (f_documents db) i = Some d \<Longrightarrow> doc_status d = ''DRAFT''"
  by (auto simp: draft_ids_def dest: t_get_rows)

lemma delete_draft_documents_inv:
  assumes inv: "ledger_inv db" and step: "delete_draft_documents ids db = Inr (n, db')"
  shows "ledger_inv db'"
proof -
  define I where "I t \<longleftrightarrow> ledger_inv t \<and>
      (\<forall>i \<in> set (draft_ids ids db). \<forall>d. t_get (f_documents t) i = Some d \<longrightarrow> doc_status d = ''DRAFT'')" for t
  from step have e: "efold delete_document (draft_ids ids db) db = Inr db'"
    by (auto simp: delete_draft_documents_def ebind_Inr_iff)
  have "I db'"
  proof (rule efold_invariant [OF e])
    show "I db" using inv draft_ids_draft [OF ledger_inv_D(5) [OF inv]] by (simp add: I_def)
    fix x t t'
    assume x: "x \<in> set (draft_ids ids db)" and I: "I t" and s: "delete_document x t = Inr t'"
    have "f_documents t' = t_del x (f_documents t)"
      using delete_document_effect(2) [OF s] by (simp add: core_def)
    with I show "I t'"
      using delete_document_inv [OF _ _ s] x by (auto simp: I_def)
  qed
  then show ?thesis by (simp add: I_def)
qed

section \<open>Posting and reversing\<close>

lemma flush_jlines_entry:
  assumes "emap flush_jline ls = Inr ks" and "\<And>l. l \<in> set ls \<Longrightarrow> jl_journal l = j"
    and "k \<in> set ks"
  shows "jl_journal k = j \<and> money (jl_debit k) \<and> money (jl_credit k)"
  using emap_flush_jline_journal [OF assms(1,2)] emap_flush_jline_money [OF assms(1)] assms(3) by blast

lemma posted_jlines_own:
  assumes "emap flush_jline (map (posted_jline j i d r) xs) = Inr jls" and "l \<in> set jls"
  shows "jl_journal l = j \<and> money (jl_debit l) \<and> money (jl_credit l)"
  by (rule flush_jlines_entry [OF assms(1) _ assms(2)]) auto

lemma mirror_jlines_own:
  assumes "emap flush_jline (map (mirror_jline j i) xs) = Inr jls" and "l \<in> set jls"
  shows "jl_journal l = j \<and> money (jl_debit l) \<and> money (jl_credit l)"
  by (rule flush_jlines_entry [OF assms(1) _ assms(2)]) auto

lemma post_document_lines: "post_document i rq db = Inr (k, db') \<Longrightarrow> f_lines db' = f_lines db"
  by (auto simp: post_document_def Let_def ebind_Inr_iff case_prod_unfold dest!: resolve_period_lines split: if_splits)

lemma reverse_document_lines: "reverse_document i reason rq db = Inr (k, db') \<Longrightarrow> f_lines db' = f_lines db"
  by (auto simp: reverse_document_def Let_def ebind_Inr_iff case_prod_unfold dest!: resolve_period_lines split: if_splits)

lemma post_document_inv:
  assumes inv: "ledger_inv db" and step: "post_document i rq db = Inr (k, db')"
  shows "ledger_inv db'"
  using step
proof (cases rule: post_document_effect)
  case (already d)
  with inv show ?thesis by simp
next
  case (posted d pid per db1 dr row jls d2)
  note D = ledger_inv_D [OF inv]
  have ls1: "lines_stored db1" using D(4) resolve_period_lines [OF posted(5)] by (simp add: lines_stored_def)
  have hp: "has_places 4 (doc_total d)" using D(2) posted(2) by (auto simp: subledger_ok_def document_ok_def)
  note entry = posted_entry_ok [OF posted(7) ls1 hp posted(8,10)]
  have pos: "0 < doc_total d" by (rule build_for_draft [OF posted(7) ls1 hp])
  note own = posted_jlines_own [OF posted(10)]
  have js: "journals_ok (t_add row (f_journals db)) (t_add_all jls (f_jlines db))"
    by (rule journals_ok_new_entry [OF D(1) own]) (simp_all add: entry)
  have docs: "subledger_ok (t_put i d2 (f_documents db)) (f_allocations db)"
    by (rule subledger_ok_put [OF D(2) posted(2,3)]) (simp_all add: posted hp pos quantize_exact)
  have ps: "postings_ok (t_put i d2 (f_documents db)) (t_add row (f_journals db))
      (t_add \<lparr>po_document = i, po_journal = next_id (f_journals db), po_role = ''ORIGINAL_POSTING''\<rparr> (f_postings db))"
    by (rule postings_ok_post [OF D(3,5,6) posted(2,3)]) (simp_all add: posted)
  have "lines_stored db'" using D(4) post_document_lines [OF step] by (simp add: lines_stored_def)
  then show ?thesis using posted js docs ps by (intro ledger_inv_intro [of db'])
qed

lemma mirrored_entry_ok:
  assumes ok: "journals_ok js ls" and e: "t_get js k = Some e" "je_status e = ''POSTED''"
    and jls: "emap flush_jline (map (mirror_jline j i) (py_enumerate 1 (entry_lines ls k))) = Inr jls"
  shows "entry_ok jls" and "sum_of jl_debit jls = sum_of jl_credit (entry_lines ls k)"
    and "sum_of jl_credit jls = sum_of jl_debit (entry_lines ls k)"
proof -
  have in_lines: "x \<in> set (py_enumerate n xs) \<Longrightarrow> snd x \<in> set xs" for x n and xs :: "jline list"
    by (metis list.set_map image_eqI map_snd_py_enumerate)
  have pl: "has_places 4 (jl_debit l) \<and> has_places 4 (jl_credit l)"
    if "l \<in> set (map (mirror_jline j i) (py_enumerate 1 (entry_lines ls k)))" for l
    using that ok by (auto simp: journals_ok_def lines_ok_def entry_lines_def dest!: in_lines)
  show debit: "sum_of jl_debit jls = sum_of jl_credit (entry_lines ls k)"
    using emap_flush_jline_sum(1) [OF jls] pl by (simp only: sum_mirror_jlines)
  show credit: "sum_of jl_credit jls = sum_of jl_debit (entry_lines ls k)"
    using emap_flush_jline_sum(2) [OF jls] pl by (simp only: sum_mirror_jlines)
  have "entry_ok (entry_lines ls k)" using ok e by (simp add: journals_ok_def posted_ok_def)
  then show "entry_ok jls" using debit credit emap_length [OF jls] by (simp add: entry_ok_def)
qed

lemma postings_ok_reverse:
  assumes ok: "postings_ok (f_documents db) js ps" and tab: "table_ok js"
    and d: "t_get (f_documents db) i = Some d" "doc_status d = ''POSTED''"
  shows "postings_ok (reversed_documents i db) (t_add e js) ps"
proof (rule postings_ok_mono [OF ok])
  note get = reversed_get [OF d(1)]
  show "\<exists>y. t_get (reversed_documents i db) k = Some y \<and> doc_status y \<in> {''POSTED'', ''REVERSED''}"
    if "t_get (f_documents db) k = Some x" "doc_status x \<in> {''POSTED'', ''REVERSED''}" for k x
    using that by (auto simp: get)
  show "\<exists>x. t_get (f_documents db) k = Some x \<and> doc_status x \<in> {''POSTED'', ''REVERSED''}"
    if "t_get (reversed_documents i db) k = Some y" "doc_status y \<in> {''POSTED'', ''REVERSED''}" for k y
    using that d by (auto simp: get split: if_splits)
  show "\<exists>e'. t_get (t_add e js) j = Some e' \<and> je_status e' = ''POSTED'' \<and> je_source e' = je_source x"
    if "t_get js j = Some x" "je_status x = ''POSTED''" for j x
    using that tab t_get_below [OF tab that(1)] by auto
qed

lemma reverse_document_inv:
  assumes inv: "ledger_inv db" and step: "reverse_document i reason rq db = Inr (k, db')"
  shows "ledger_inv db'"
  using step
proof (cases rule: reverse_document_effect)
  case (1 d p pid per db1 original row jls)
  note D = ledger_inv_D [OF inv]
  from D(3) 1(4) have "posting_ok (f_documents db) (f_journals db) p" by (simp add: postings_ok_def)
  with 1(8) have st: "je_status original = ''POSTED''" by (auto simp: posting_ok_def)
  note own = mirror_jlines_own [OF 1(10)]
  have js: "journals_ok (t_add row (f_journals db)) (t_add_all jls (f_jlines db))"
    using mirrored_entry_ok(1) [OF D(1) 1(8) st 1(10) [folded entry_lines_def]]
    by (intro journals_ok_new_entry [OF D(1) own])
  have ls: "lines_stored db'" using D(4) reverse_document_lines [OF step] by (simp add: lines_stored_def)
  show ?thesis
    by (rule ledger_inv_intro [OF 1(17) [folded reversed_documents_def] js
          subledger_ok_reverse [OF D(2) 1(2)] postings_ok_reverse [OF D(3,6) 1(2,3)] ls])
qed

section \<open>Allocating\<close>

lemma allocate_payment_inv:
  assumes inv: "ledger_inv db" and step: "allocate_payment i data key rq db = Inr (ans, db')"
  shows "ledger_inv db'"
  using step
proof (cases rule: allocate_payment_effect)
  case (replay a)
  with inv show ?thesis by simp
next
  case (fresh payment t target amount a payment' target')
  note D = ledger_inv_D [OF inv]
  let ?docs = "t_put t target' (t_put i payment' (f_documents db))"
  have docs: "subledger_ok ?docs (t_add a (f_allocations db))"
    using fresh by (intro subledger_ok_allocate [OF D(2)]) (simp_all add: allocated_from_def)
  note st = check_settlement_Inr(5,6) [OF fresh(3)]
  have st': "doc_status payment' = ''POSTED''" "doc_status target' = ''POSTED''"
    using flush_document_fields(3) [OF fresh(11)] flush_document_fields(3) [OF fresh(12)] st by simp_all
  have ps: "postings_ok ?docs (f_journals db) (f_postings db)"
  proof (rule postings_ok_mono [OF D(3)])
    show "\<exists>y. t_get ?docs k = Some y \<and> doc_status y \<in> {''POSTED'', ''REVERSED''}"
      if "t_get (f_documents db) k = Some x" "doc_status x \<in> {''POSTED'', ''REVERSED''}" for k x
      using that st' by auto
    show "\<exists>x. t_get (f_documents db) k = Some x \<and> doc_status x \<in> {''POSTED'', ''REVERSED''}"
      if "t_get ?docs k = Some y" "doc_status y \<in> {''POSTED'', ''REVERSED''}" for k y
      using that st fresh(1,2) by (auto split: if_splits)
  qed auto
  have c: "core db' = (?docs, t_add a (f_allocations db), f_journals db, f_jlines db, f_postings db)"
    by (simp add: fresh core_def)
  have "lines_stored db'" using D(4) by (simp add: fresh lines_stored_def)
  with ps docs D(1) show ?thesis by (intro ledger_inv_intro [OF c])
qed

section \<open>Journals\<close>

lemma open_journal_lines: "open_journal data stored ed pd pid rq db = Inr (x, db') \<Longrightarrow> f_lines db' = f_lines db"
  by (auto simp: open_journal_def Let_def ebind_Inr_iff case_prod_unfold split: option.splits if_splits)

lemma save_journal_lines: "save_journal data rq db = Inr (i, db') \<Longrightarrow> f_lines db' = f_lines db"
  by (auto simp: save_journal_def Let_def ebind_Inr_iff case_prod_unfold
      dest!: resolve_period_lines open_journal_lines)

lemma journals_ok_vals: "journals_ok js ls \<Longrightarrow> t_vals ls' = t_vals ls \<Longrightarrow> journals_ok js ls'"
  by (simp add: journals_ok_def lines_ok_def posted_ok_def entry_lines_def)

lemma postings_ok_journals:
  assumes "postings_ok docs js ps"
    and "\<And>j e. t_get js j = Some e \<Longrightarrow> je_status e = ''POSTED'' \<Longrightarrow>
       \<exists>e'. t_get js' j = Some e' \<and> je_status e' = ''POSTED'' \<and> je_source e' = je_source e"
  shows "postings_ok docs js' ps"
  using assms by (intro postings_ok_mono [OF assms(1)]) auto

lemma save_journal_inv:
  assumes inv: "ledger_inv db" and step: "save_journal data rq db = Inr (i, db')"
  shows "ledger_inv db'"
proof -
  note D = ledger_inv_D [OF inv]
  have dl: "lines_stored db'" using D(4) save_journal_lines [OF step] by (simp add: lines_stored_def)
  from step show ?thesis
  proof (cases rule: save_journal_effect)
    case (new r row ls)
    have "entry_lines (f_jlines db) i = []"
      using D(1) new(1) by (intro entry_lines_fresh) (auto simp: journals_ok_def)
    then have gone: "t_vals (t_del_where (\<lambda>l. jl_journal l = i) (f_jlines db)) = t_vals (f_jlines db)"
      by (simp add: entry_lines_def filter_empty_conv filter_id_conv)
    have "journals_ok (t_add row (f_journals db)) (t_add_all ls (t_del_where (\<lambda>l. jl_journal l = i) (f_jlines db)))"
      using new by (intro journals_ok_new_entry journals_ok_vals [OF D(1) gone]) auto
    moreover have "postings_ok (f_documents db) (t_add row (f_journals db)) (f_postings db)"
      using D(6) t_get_below [OF D(6)] by (intro postings_ok_journals [OF D(3)]) fastforce
    ultimately show ?thesis
      using new D by (intro ledger_inv_intro [OF new(4) _ _ _ dl]) (simp_all add: t_put_fresh)
  next
    case (old e row ls)
    have "journals_ok (t_put i row (f_journals db)) (t_add_all ls (t_del_where (\<lambda>l. jl_journal l = i) (f_jlines db)))"
      using old by (intro journals_ok_rewrite [OF D(1) old(1,2)]) auto
    moreover have "postings_ok (f_documents db) (t_put i row (f_journals db)) (f_postings db)"
      using old by (intro postings_ok_journals [OF D(3)]) auto
    ultimately show ?thesis using D by (intro ledger_inv_intro [OF old(5) _ _ _ dl])
  qed
qed

lemma post_journal_inv:
  assumes inv: "ledger_inv db" and step: "post_journal i rq db = Inr (k, db')"
  shows "ledger_inv db'"
  using step
proof (cases rule: post_journal_effect)
  case (already e)
  with inv show ?thesis by simp
next
  case (posted e row)
  note D = ledger_inv_D [OF inv]
  have "journals_ok (t_put i row (f_journals db)) (f_jlines db)"
    using posted by (intro journals_ok_post [OF D(1) posted(2)] checked_entry_ok)
  moreover have "postings_ok (f_documents db) (t_put i row (f_journals db)) (f_postings db)"
    using posted by (intro postings_ok_journals [OF D(3)]) auto
  moreover have "core db' = (f_documents db, f_allocations db, t_put i row (f_journals db), f_jlines db, f_postings db)"
    by (simp add: posted core_def)
  moreover have "lines_stored db'" using D(4) by (simp add: posted lines_stored_def)
  ultimately show ?thesis using D(2) by (intro ledger_inv_intro)
qed

lemma delete_journals_inv:
  assumes inv: "ledger_inv db" and step: "delete_journals ids db = Inr db'"
  shows "ledger_inv db'"
  using step unfolding delete_journals_def
proof (rule efold_invariant)
  show "ledger_inv db" by (rule inv)
  fix x t t'
  assume I: "ledger_inv t" and "delete_journal x t = Inr t'"
  from this(2) show "ledger_inv t'"
  proof (cases rule: delete_journal_effect)
    case missing
    with I show ?thesis by simp
  next
    case (deleted e)
    note D = ledger_inv_D [OF I]
    have "postings_ok (f_documents t) (t_del x (f_journals t)) (f_postings t)"
      using deleted by (intro postings_ok_journals [OF D(3)]) auto
    moreover have "core t' = (f_documents t, f_allocations t, t_del x (f_journals t),
        t_del_where (\<lambda>l. jl_journal l = x) (f_jlines t), f_postings t)"
      by (simp add: deleted core_def)
    moreover have "lines_stored t'" using D(4) by (simp add: deleted lines_stored_def)
    ultimately show ?thesis using D(1,2) by (intro ledger_inv_intro [OF _ journals_ok_delete])
  qed
qed

section \<open>The other operations\<close>

named_theorems lines_frame

lemma setup_lines [lines_frame]:
  "create_account data rq db = Inr (ans, db') \<Longrightarrow> f_lines db' = f_lines db"
  "update_account i data rq db = Inr (ans, db') \<Longrightarrow> f_lines db' = f_lines db"
  "create_financial_account data rq db = Inr (k, db') \<Longrightarrow> f_lines db' = f_lines db"
  "update_financial_account i data rq db = Inr (k, db') \<Longrightarrow> f_lines db' = f_lines db"
  by (auto simp: create_account_def update_account_def create_financial_account_def
      update_financial_account_def ebind_Inr_iff Let_def)

lemma period_lines [lines_frame]:
  "update_period i data rq db = Inr (ans, db') \<Longrightarrow> f_lines db' = f_lines db"
  "close_period i rq db = Inr (ans, db') \<Longrightarrow> f_lines db' = f_lines db"
  "reopen_period i rq db = Inr (ans, db') \<Longrightarrow> f_lines db' = f_lines db"
  by (auto simp: update_period_def close_period_def reopen_period_def with_period_def ebind_Inr_iff)

lemma sequence_lines [lines_frame]: "upsert_sequence data rq db = Inr (ans, db') \<Longrightarrow> f_lines db' = f_lines db"
  by (auto simp: upsert_sequence_def ebind_Inr_iff Let_def split: option.splits)

lemma rule_lines [lines_frame]:
  "create_posting_rule data rq db = Inr (k, db') \<Longrightarrow> f_lines db' = f_lines db"
  "update_posting_rule i data rq db = Inr (k, db') \<Longrightarrow> f_lines db' = f_lines db"
  by (auto dest: create_posting_rule_Inr update_posting_rule_Inr)

lemma delete_setup_lines [lines_frame]:
  "delete_accounts ids db = Inr db' \<Longrightarrow> f_lines db' = f_lines db"
  "delete_financial_accounts ids db = Inr db' \<Longrightarrow> f_lines db' = f_lines db"
  "delete_posting_rules ids db = Inr db' \<Longrightarrow> f_lines db' = f_lines db"
proof -
  show "delete_accounts ids db = Inr db' \<Longrightarrow> f_lines db' = f_lines db"
    by (auto simp: delete_accounts_def ebind_Inr_iff dest!: delete_accounts_frame)
  show "delete_financial_accounts ids db = Inr db' \<Longrightarrow> f_lines db' = f_lines db"
    unfolding delete_financial_accounts_def
    by (erule efold_invariant) (auto simp: delete_financial_account_def ebind_Inr_iff split: option.splits)
  show "delete_posting_rules ids db = Inr db' \<Longrightarrow> f_lines db' = f_lines db"
    unfolding delete_posting_rules_def by (erule efold_invariant) (auto dest: delete_posting_rule_Inr)
qed

lemma other_modules_core [core_frame]:
  "core (db\<lparr>f_currencies := c, f_rates := r, f_doc_types := ty, f_parties := p,
    f_fee_types := f, f_orders := os, f_charges := ch, f_charge_lines := cl, f_default_currency := cur\<rparr>) = core db"
  by (simp add: core_def)

section \<open>Every step keeps the invariant\<close>

lemmas ledger_operations = save_document_inv delete_draft_documents_inv post_document_inv reverse_document_inv
  allocate_payment_inv save_journal_inv post_journal_inv delete_journals_inv

text \<open>A step is one of the operations on the ledger, or leaves its tables and the document lines alone.\<close>

inductive ledger_step :: "fdb \<Rightarrow> fdb \<Rightarrow> bool" where
  ls_save_document: "save_document data rq db = Inr (i, db') \<Longrightarrow> ledger_step db db'"
| ls_delete_documents: "delete_draft_documents ids db = Inr (n, db') \<Longrightarrow> ledger_step db db'"
| ls_post_document: "post_document i rq db = Inr (k, db') \<Longrightarrow> ledger_step db db'"
| ls_reverse_document: "reverse_document i reason rq db = Inr (k, db') \<Longrightarrow> ledger_step db db'"
| ls_allocate: "allocate_payment i data key rq db = Inr (ans, db') \<Longrightarrow> ledger_step db db'"
| ls_charge_invoice: "create_invoice_from_charge c rq db = Inr (i, db') \<Longrightarrow> ledger_step db db'"
| ls_order_invoice: "create_invoice_from_service_order x rq db = Inr (i, db') \<Longrightarrow> ledger_step db db'"
| ls_save_journal: "save_journal data rq db = Inr (i, db') \<Longrightarrow> ledger_step db db'"
| ls_post_journal: "post_journal i rq db = Inr (k, db') \<Longrightarrow> ledger_step db db'"
| ls_delete_journals: "delete_journals ids db = Inr db' \<Longrightarrow> ledger_step db db'"
| ls_frame: "core db' = core db \<Longrightarrow> f_lines db' = f_lines db \<Longrightarrow> ledger_step db db'"

lemmas ledger_writes = ls_save_document ls_delete_documents ls_post_document ls_reverse_document ls_allocate
  ls_charge_invoice ls_order_invoice ls_save_journal ls_post_journal ls_delete_journals

lemma ledger_step_inv: "ledger_step db db' \<Longrightarrow> ledger_inv db \<Longrightarrow> ledger_inv db'"
proof (induction rule: ledger_step.induct)
  case (ls_frame db' db)
  then show ?case using ledger_inv_frame [of db db'] lines_stored_frame [of db' db] ledger_inv_D(4) [of db] by simp
qed (blast intro: ledger_operations create_invoice_inv)+

lemma fstep_ledger_step: "fstep db db' \<Longrightarrow> ledger_step db db'"
proof (induction rule: fstep.induct)
  case (fs_issue_number ty prefix year rq db number db')
  then show ?case by (intro ls_frame) (auto dest: allocate_number_core' allocate_number_lines')
next
  case (fs_resolve_period day db p db')
  then show ?case
    by (cases p) (auto intro!: ls_frame dest: resolve_period_core resolve_period_lines)
next
  case (fs_other_modules db c r ty p f os ch cl cur)
  show ?case by (rule ls_frame) (simp_all add: other_modules_core)
qed (erule ledger_writes | rule ls_frame, erule core_frame, erule lines_frame)+

interpretation ledger: invariant initial fstep ledger_inv
  by unfold_locales (blast intro: initial_inv, blast intro: ledger_step_inv fstep_ledger_step)

end
