(* ===== verification/LedgerHistory.thy ===== *)
theory LedgerHistory
  imports LedgerMachine
begin

text \<open>
  What a later database keeps of an earlier one: posted journals and their lines, the posting links,
  and the identity and amounts of a document once it is posted.
\<close>

section \<open>What is kept\<close>

definition kept_journals :: "fdb \<Rightarrow> fdb \<Rightarrow> bool" where
  "kept_journals db db' \<longleftrightarrow>
     (\<forall>i e. t_get (f_journals db) i = Some e \<longrightarrow> je_status e = ''POSTED'' \<longrightarrow>
        t_get (f_journals db') i = Some e \<and> entry_lines (f_jlines db') i = entry_lines (f_jlines db) i)"

definition kept_document :: "document \<Rightarrow> document \<Rightarrow> bool" where
  "kept_document d d' \<longleftrightarrow>
     (doc_status d = ''REVERSED'' \<longrightarrow> d' = d)
     \<and> (doc_status d = ''POSTED'' \<longrightarrow> doc_status d' \<in> {''POSTED'', ''REVERSED''} \<and> doc_no d' = doc_no d
          \<and> doc_type d' = doc_type d \<and> doc_currency d' = doc_currency d \<and> doc_total d' = doc_total d)"

definition kept_documents :: "document table \<Rightarrow> document table \<Rightarrow> bool" where
  "kept_documents docs docs' \<longleftrightarrow>
     (\<forall>i d. t_get docs i = Some d \<longrightarrow> doc_status d \<in> {''POSTED'', ''REVERSED''} \<longrightarrow>
        (\<exists>d'. t_get docs' i = Some d' \<and> kept_document d d'))"

definition kept_postings :: "posting table \<Rightarrow> posting table \<Rightarrow> bool" where
  "kept_postings ps ps' \<longleftrightarrow> set (t_vals ps) \<subseteq> set (t_vals ps')"

definition kept :: "fdb \<Rightarrow> fdb \<Rightarrow> bool" where
  "kept db db' \<longleftrightarrow> kept_journals db db' \<and> kept_documents (f_documents db) (f_documents db')
     \<and> kept_postings (f_postings db) (f_postings db')"

lemma kept_document_refl [simp]: "kept_document d d"
  by (simp add: kept_document_def)

lemma kept_documents_refl [simp]: "kept_documents docs docs"
  by (simp add: kept_documents_def)

lemma kept_postings_simps [simp]: "kept_postings ps ps" "kept_postings ps (t_add p ps)"
  by (auto simp: kept_postings_def)

lemma kept_document_trans: "kept_document d e \<Longrightarrow> kept_document e f \<Longrightarrow> kept_document d f"
  by (auto simp: kept_document_def)

lemma kept_refl [simp]: "kept db db"
  by (simp add: kept_def kept_journals_def)

lemma kept_core: "core db' = core db \<Longrightarrow> kept db db'"
  by (simp add: core_def kept_def kept_journals_def)

section \<open>Journals\<close>

lemma kept_journals_same:
  "f_journals db' = f_journals db \<Longrightarrow> f_jlines db' = f_jlines db \<Longrightarrow> kept_journals db db'"
  by (simp add: kept_journals_def)

lemma kept_journals_new:
  assumes "journals_ok (f_journals db) (f_jlines db)" and "f_journals db' = t_add e (f_journals db)"
    and "f_jlines db' = t_add_all ls (f_jlines db)" and "\<And>l. l \<in> set ls \<Longrightarrow> jl_journal l = next_id (f_journals db)"
  shows "kept_journals db db'"
proof -
  from assms(1) have t: "table_ok (f_journals db)" by (simp add: journals_ok_def)
  show ?thesis
    using t_get_below [OF t] t assms(4)
    by (fastforce simp: kept_journals_def assms(2,3) entry_lines_add_all filter_empty_conv)
qed

lemma kept_journals_rewrite:
  assumes "\<And>e. t_get (f_journals db) i = Some e \<Longrightarrow> je_status e \<noteq> ''POSTED''"
    and "\<And>j. j \<noteq> i \<Longrightarrow> t_get (f_journals db') j = t_get (f_journals db) j"
    and "f_jlines db' = t_add_all ls (t_del_where (\<lambda>l. jl_journal l = i) (f_jlines db))"
    and "\<And>l. l \<in> set ls \<Longrightarrow> jl_journal l = i"
  shows "kept_journals db db'"
  using assms(1,2,4) unfolding kept_journals_def assms(3) entry_lines_add_all entry_lines_del
  by (fastforce simp: filter_empty_conv)

lemma kept_journals_post:
  assumes "t_get (f_journals db) i = Some e" and "je_status e \<noteq> ''POSTED''"
    and "f_journals db' = t_put i row (f_journals db)" and "f_jlines db' = f_jlines db"
  shows "kept_journals db db'"
  using assms by (auto simp: kept_journals_def)

section \<open>Documents\<close>

lemma kept_documents_add: "table_ok docs \<Longrightarrow> kept_documents docs (t_add d docs)"
  using t_get_below [of docs] by (fastforce simp: kept_documents_def)

lemma kept_documents_put:
  assumes "\<And>x. t_get docs i = Some x \<Longrightarrow> doc_status x \<in> {''POSTED'', ''REVERSED''} \<Longrightarrow> kept_document x d"
  shows "kept_documents docs (t_put i d docs)"
  using assms by (auto simp: kept_documents_def)

lemma kept_documents_del:
  assumes "\<And>d. t_get docs i = Some d \<Longrightarrow> doc_status d = ''DRAFT''"
  shows "kept_documents docs (t_del i docs)"
  using assms by (auto simp: kept_documents_def)

lemma kept_documents_trans:
  assumes "kept_documents docs docs'" and "kept_documents docs' docs''"
  shows "kept_documents docs docs''"
  unfolding kept_documents_def
proof (intro allI impI)
  fix i d
  assume d: "t_get docs i = Some d" "doc_status d \<in> {''POSTED'', ''REVERSED''}"
  with assms(1) obtain e where e: "t_get docs' i = Some e" "kept_document d e" by (auto simp: kept_documents_def)
  with d(2) have "doc_status e \<in> {''POSTED'', ''REVERSED''}" by (auto simp: kept_document_def)
  with assms(2) e show "\<exists>f. t_get docs'' i = Some f \<and> kept_document d f"
    unfolding kept_documents_def by (blast intro: kept_document_trans)
qed

lemma kept_trans: "kept db db' \<Longrightarrow> kept db' db'' \<Longrightarrow> kept db db''"
  using kept_documents_trans
  by (auto simp: kept_def kept_journals_def kept_postings_def)

lemma releases_posted:
  assumes "subledger_ok docs als" and "t_get docs k = Some d" and "doc_status d \<noteq> ''POSTED''"
  shows "releases als i k = []"
proof -
  have "other_side i a \<noteq> k" if "a \<in> set (t_vals als)" for a
  proof -
    have "settles docs a" using assms(1) that by (simp add: subledger_ok_def)
    with assms(2,3) show ?thesis by (auto simp: settles_def other_side_def)
  qed
  then show ?thesis by (simp add: releases_def filter_empty_conv)
qed

lemma fold_release_keeps [simp]:
  "doc_no (fold release as d) = doc_no d" "doc_currency (fold release as d) = doc_currency d"
  by (induction as arbitrary: d) (auto simp: release_def)

lemma kept_documents_reverse:
  assumes ok: "subledger_ok (f_documents db) (f_allocations db)" and d: "t_get (f_documents db) i = Some d"
    and st: "doc_status d = ''POSTED''"
  shows "kept_documents (f_documents db) (reversed_documents i db)"
proof -
  have "\<exists>y. t_get (reversed_documents i db) k = Some y \<and> kept_document x y"
    if x: "t_get (f_documents db) k = Some x" for k x
  proof (cases "doc_status x = ''POSTED''")
    case True
    then show ?thesis using x d by (auto simp: reversed_get [OF d] kept_document_def)
  next
    case False
    then have "k \<noteq> i" using x d st by auto
    moreover have "releases (f_allocations db) i k = []" using releases_posted [OF ok x False] .
    ultimately show ?thesis using x by (simp add: reversed_get [OF d])
  qed
  then show ?thesis by (simp add: kept_documents_def)
qed

section \<open>Every step keeps what was posted\<close>

lemma keptI:
  assumes "core db' = (docs, als, js, ls, ps)" and "kept_journals db db'" and "kept_documents (f_documents db) docs"
    and "kept_postings (f_postings db) ps"
  shows "kept db db'"
  using assms by (simp add: kept_def core_def)

lemma add_draft_kept:
  assumes "ledger_inv db"
    and c: "core db' = (t_add d (f_documents db), f_allocations db, f_journals db, f_jlines db, f_postings db)"
  shows "kept db db'"
  using c ledger_inv_D(5) [OF assms(1)]
  by (intro keptI [OF c] kept_journals_same kept_documents_add) (auto simp: core_def)

lemma save_document_kept:
  assumes inv: "ledger_inv db" and step: "save_document data rq db = Inr (i, db')"
  shows "kept db db'"
  using step
proof (cases rule: save_document_effect)
  case (new r row)
  then show ?thesis using ledger_inv_D(5) [OF inv] by (intro add_draft_kept [OF inv, of _ row]) (simp add: t_put_fresh)
next
  case (old d0 row)
  show ?thesis
    using old(1,2,7) by (intro keptI [OF old(7)] kept_journals_same kept_documents_put) (auto simp: core_def)
qed

lemma create_invoice_kept:
  assumes inv: "ledger_inv db"
    and step: "create_invoice_from_charge c rq db = Inr (i, db') \<or> create_invoice_from_service_order x rq db = Inr (i, db')"
  shows "kept db db'"
proof -
  from step have "core db' = core db \<or> (\<exists>row.
     core db' = (t_add row (f_documents db), f_allocations db, f_journals db, f_jlines db, f_postings db))"
    using create_invoice_from_charge_effect create_invoice_from_service_order_effect by blast
  then show ?thesis by (blast intro: add_draft_kept [OF inv] kept_core)
qed

lemma delete_draft_documents_kept:
  assumes inv: "ledger_inv db" and step: "delete_draft_documents ids db = Inr (n, db')"
  shows "kept db db'"
proof -
  define I where "I t \<longleftrightarrow> kept db t \<and> (\<forall>i \<in> set (draft_ids ids db). \<forall>d. t_get (f_documents t) i = Some d \<longrightarrow> doc_status d = ''DRAFT'')" for t
  from step have e: "efold delete_document (draft_ids ids db) db = Inr db'"
    by (auto simp: delete_draft_documents_def ebind_Inr_iff)
  have "I db'"
  proof (rule efold_invariant [OF e])
    show "I db" using draft_ids_draft [OF ledger_inv_D(5) [OF inv]] by (simp add: I_def)
    fix x t t'
    assume x: "x \<in> set (draft_ids ids db)" and I: "I t" and s: "delete_document x t = Inr t'"
    note c = delete_document_effect(2) [OF s]
    have "kept t t'"
      using I x c by (intro keptI [OF c] kept_journals_same kept_documents_del) (auto simp: I_def core_def)
    moreover have "f_documents t' = t_del x (f_documents t)" using c by (simp add: core_def)
    ultimately show "I t'" using I kept_trans by (auto simp: I_def)
  qed
  then show ?thesis by (simp add: I_def)
qed

lemma core_fields:
  assumes "core db = (docs, als, js, ls, ps)"
  shows "f_documents db = docs" and "f_allocations db = als" and "f_journals db = js" and "f_jlines db = ls"
    and "f_postings db = ps"
  using assms by (auto simp: core_def)

lemma post_document_kept:
  assumes inv: "ledger_inv db" and step: "post_document i rq db = Inr (k, db')"
  shows "kept db db'"
  using step
proof (cases rule: post_document_effect)
  case (posted d pid per db1 dr row jls d2)
  note c = posted(24)
  have "kept_journals db db'"
    by (rule kept_journals_new [OF ledger_inv_D(1) [OF inv] core_fields(3,4) [OF c]])
       (simp add: posted_jlines_own [OF posted(10)])
  moreover have "kept_documents (f_documents db) (t_put i d2 (f_documents db))"
    by (rule kept_documents_put) (simp add: posted)
  ultimately show ?thesis by (intro keptI [OF c]) simp_all
qed simp

lemma reverse_document_kept:
  assumes inv: "ledger_inv db" and step: "reverse_document i reason rq db = Inr (k, db')"
  shows "kept db db'"
  using step
proof (cases rule: reverse_document_effect)
  case (1 d p pid per db1 original row jls)
  note c = 1(17) [folded reversed_documents_def]
  have "kept_journals db db'"
    by (rule kept_journals_new [OF ledger_inv_D(1) [OF inv] core_fields(3,4) [OF c]])
       (simp add: mirror_jlines_own [OF 1(10)])
  then show ?thesis
    by (intro keptI [OF c] kept_documents_reverse [OF ledger_inv_D(2) [OF inv] 1(2,3)]) simp_all
qed

lemma allocate_payment_kept:
  assumes inv: "ledger_inv db" and step: "allocate_payment i data key rq db = Inr (ans, db')"
  shows "kept db db'"
  using step
proof (cases rule: allocate_payment_effect)
  case (fresh payment t target amount a payment' target')
  have paid: "kept_document x x'" if "t_get (f_documents db) j = Some x" "doc_status x = ''POSTED''"
    "flush_document (x\<lparr>doc_paid := doc_paid x + amount\<rparr>) = Inr x'" for j x x'
    using ledger_inv_D(2) [OF inv] that(1,2) flush_document_fields [OF that(3)]
    by (auto simp: kept_document_def subledger_ok_def document_ok_def quantize_exact)
  note st = check_settlement_Inr(5,6) [OF fresh(3)]
  have "kept_documents (f_documents db) (t_put t target' (t_put i payment' (f_documents db)))"
    using paid [OF fresh(1) st(1) fresh(11)] paid [OF fresh(2) st(2) fresh(12)] fresh(1,2)
    by (auto simp: kept_documents_def)
  then show ?thesis by (simp add: fresh kept_def kept_journals_same)
qed simp

lemma save_journal_kept:
  assumes inv: "ledger_inv db" and step: "save_journal data rq db = Inr (i, db')"
  shows "kept db db'"
  using step
proof (cases rule: save_journal_effect)
  case (new r row ls)
  then show ?thesis using ledger_inv_D(6) [OF inv] t_get_below
    by (intro keptI [OF new(4)] kept_journals_rewrite [where i = i and ls = ls]) (auto simp: core_def t_put_fresh)
next
  case (old e row ls)
  then show ?thesis
    by (intro keptI [OF old(5)] kept_journals_rewrite [where i = i and ls = ls]) (auto simp: core_def)
qed

lemma post_journal_kept: "post_journal i rq db = Inr (k, db') \<Longrightarrow> kept db db'"
proof (erule post_journal_effect)
  fix e row
  assume "t_get (f_journals db) i = Some e" "je_status e = ''DRAFT''" "db' = db\<lparr>f_journals := t_put i row (f_journals db)\<rparr>"
  then show "kept db db'" by (simp add: kept_def kept_journals_post [where i = i and e = e and row = row])
qed simp

lemma delete_journals_kept:
  assumes "delete_journals ids db = Inr db'"
  shows "kept db db'"
  using assms unfolding delete_journals_def
proof (rule efold_invariant)
  fix x t t'
  assume I: "kept db t" and "delete_journal x t = Inr t'"
  from this(2) have "kept t t'"
  proof (cases rule: delete_journal_effect)
    case (deleted e)
    then have "kept_journals t t'"
      by (intro kept_journals_rewrite [where i = x and ls = "[]"]) auto
    then show ?thesis by (simp add: kept_def deleted)
  qed simp
  with I show "kept db t'" by (rule kept_trans)
qed simp

lemma ledger_step_kept: "ledger_step db db' \<Longrightarrow> ledger_inv db \<Longrightarrow> kept db db'"
proof (induction rule: ledger_step.induct)
  case (ls_frame db' db)
  then show ?case by (intro kept_core)
qed (blast intro: save_document_kept delete_draft_documents_kept post_document_kept reverse_document_kept
       allocate_payment_kept create_invoice_kept save_journal_kept post_journal_kept delete_journals_kept)+

interpretation history: evolution initial fstep ledger_inv kept
  by unfold_locales (simp, blast intro: kept_trans, blast intro: ledger_step_kept fstep_ledger_step)

end
