(* ===== verification/Demo.thy ===== *)
theory Demo
  imports LedgerHistory
begin

text \<open>
  A small concrete database and a sequence of requests on it: an invoice and a receipt are saved,
  posted, settled and the invoice is reversed. The witnesses of the properties evaluate on these states.
\<close>

section \<open>The database\<close>

definition a_table :: "'r list \<Rightarrow> 'r table" where
  "a_table rs = t_add_all rs empty_table"

definition an_account :: "string \<Rightarrow> string \<Rightarrow> string \<Rightarrow> account" where
  "an_account code ty normal = \<lparr>acc_code = code, acc_name = code, acc_type = ty, acc_parent = None,
     acc_normal = normal, acc_postable = True, acc_status = ''ACTIVE''\<rparr>"

definition demo_charge :: charge where
  "demo_charge = \<lparr>ch_order = 1, ch_no = ''SC-1'', ch_currency = ''USD'', ch_status = ''ISSUED'',
     ch_subtotal = 100, ch_discount = 0, ch_tax = 0, ch_total = 100\<rparr>"

definition demo_charge_line :: charge_line where
  "demo_charge_line = \<lparr>cl_charge = 1, cl_no = 1, cl_fee_type = None, cl_container = None,
     cl_description = ''Freight'', cl_quantity = 2, cl_unit_price = 50, cl_discount = 0, cl_tax_rate = 0,
     cl_tax = 0, cl_amount = 100\<rparr>"

definition demo0 :: fdb where
  "demo0 = \<lparr>f_accounts = a_table [an_account ''1020'' ''ASSET'' ''DEBIT'', an_account ''1100'' ''ASSET'' ''DEBIT'',
       an_account ''4010'' ''REVENUE'' ''CREDIT''],
     f_fin_accounts = empty_table, f_periods = empty_table, f_sequences = empty_table, f_documents = empty_table,
     f_lines = empty_table, f_sources = empty_table, f_allocations = empty_table, f_rules = empty_table,
     f_journals = empty_table, f_jlines = empty_table, f_postings = empty_table,
     f_currencies = a_table [\<lparr>cur_code = ''USD'', cur_places = 2, cur_status = ''ACTIVE''\<rparr>],
     f_rates = empty_table, f_doc_types = empty_table, f_parties = empty_table, f_fee_types = empty_table,
     f_orders = a_table [\<lparr>so_no = ''SO-1'', so_customer = 1, so_currency = ''USD''\<rparr>],
     f_charges = a_table [demo_charge], f_charge_lines = a_table [demo_charge_line],
     f_default_currency = ''USD''\<rparr>"

definition demo_rq :: request where
  "demo_rq = \<lparr>rq_user = Some 7, rq_now = 100, rq_today = Date 2024 5 10, rq_year = 2024\<rparr>"

definition receipt_request :: payload where
  "receipt_request = [(''documentType'', PStr ''CUSTOMER_RECEIPT''), (''lines'', PList [PDict [(''unitPrice'', PInt 80)]])]"

definition allocation_request :: payload where
  "allocation_request = [(''targetDocumentId'', PInt 1), (''amount'', PInt 60)]"

section \<open>The rows it fills\<close>

definition demo_seq :: "string \<Rightarrow> string \<Rightarrow> int \<Rightarrow> seqn" where
  "demo_seq ty prefix n = \<lparr>seq_type = ty, seq_year = 2024, seq_prefix = prefix, seq_last = n, seq_padding = 6,
     seq_status = ''ACTIVE''\<rparr>"

definition demo_period :: period where
  "demo_period = \<lparr>per_year = 2024, per_month = 5, per_start = Date 2024 5 1, per_end = Date 2024 5 31,
     per_status = ''OPEN'', per_closed_by = None, per_closed_at = None\<rparr>"

definition demo_doc :: "string \<Rightarrow> string \<Rightarrow> rat \<Rightarrow> document" where
  "demo_doc no ty amount = \<lparr>doc_no = no, doc_type = ty, doc_date = Date 2024 5 10, doc_posting_date = None,
     doc_status = ''DRAFT'', doc_party = None, doc_order = None, doc_currency = ''USD'', doc_rate = 1,
     doc_base_currency = Some ''USD'', doc_description = None, doc_reference = None, doc_due = None,
     doc_method = None, doc_fin_account = None, doc_value_date = None, doc_subtotal = amount, doc_discount = 0,
     doc_tax = 0, doc_total = amount, doc_base_subtotal = amount, doc_base_discount = 0, doc_base_tax = 0,
     doc_base_total = amount, doc_paid = 0, doc_created_by = Some 7, doc_posted_by = None, doc_posted_at = None,
     doc_data = [(''documentType'', PStr ty)]\<rparr>"

definition demo_invoice :: document where
  "demo_invoice = (demo_doc ''INV2024-000001'' ''CUSTOMER_INVOICE'' 100)
     \<lparr>doc_party := Some 1, doc_order := Some 1, doc_description := Some ''Generated from service charge SC-1'',
      doc_data := [(''sourceChargeNo'', PStr ''SC-1'')]\<rparr>"

definition demo_receipt :: document where
  "demo_receipt = demo_doc ''REC2024-000001'' ''CUSTOMER_RECEIPT'' 80"

definition demo_posted :: "document \<Rightarrow> document" where
  "demo_posted d = d\<lparr>doc_posting_date := Some (Date 2024 5 10), doc_status := ''POSTED'',
     doc_posted_by := Some 7, doc_posted_at := Some 100\<rparr>"

definition demo_line :: "int \<Rightarrow> string \<Rightarrow> rat \<Rightarrow> rat \<Rightarrow> int option \<Rightarrow> doc_line" where
  "demo_line i description quantity price order = \<lparr>dl_document = i, dl_no = 1, dl_description = description,
     dl_fee_type = None, dl_quantity = quantity, dl_unit_price = price, dl_discount = 0, dl_tax_rate = 0, dl_tax = 0,
     dl_amount = quantity * price, dl_order = order, dl_container = None, dl_account = None\<rparr>"

definition demo_entry :: "string \<Rightarrow> string \<Rightarrow> string \<Rightarrow> int \<Rightarrow> rat \<Rightarrow> payload \<Rightarrow> journal" where
  "demo_entry no ty description source amount data = \<lparr>je_no = no, je_type = ty, je_date = Date 2024 5 10,
     je_posting_date = Date 2024 5 10, je_period = Some 1, je_status = ''POSTED'', je_description = Some description,
     je_source = Some source, je_rule = None, je_reversal_of = None, je_created_by = Some 7, je_posted_by = Some 7,
     je_posted_at = Some 100, je_debit = amount, je_credit = amount, je_data = data\<rparr>"

definition demo_explained :: "string \<Rightarrow> string \<Rightarrow> string \<Rightarrow> string \<Rightarrow> payload" where
  "demo_explained debit credit title side =
     [(''ruleId'', PNone), (''source'', PStr ''LEGACY_DEFAULT''), (''priority'', PNone), (''debitAccount'', PStr debit),
      (''creditAccount'', PStr credit), (''taxAccount'', PNone), (''strategy'', PStr title), (''side'', PStr side)]"

definition demo_jline :: "int \<Rightarrow> int \<Rightarrow> int \<Rightarrow> int option \<Rightarrow> int \<Rightarrow> string \<Rightarrow> rat \<Rightarrow> rat \<Rightarrow> jline" where
  "demo_jline j n account party doc description debit credit = \<lparr>jl_journal = j, jl_no = n, jl_account = account,
     jl_party = party, jl_order = party, jl_document = Some doc, jl_description = Some description,
     jl_debit = debit, jl_credit = credit, jl_currency = ''USD'', jl_rate = 1,
     jl_base_debit = debit, jl_base_credit = credit\<rparr>"

definition demo_journals :: "journal list" where
  "demo_journals =
     [demo_entry ''JE2024-000001'' ''AUTOMATIC'' ''Posting of INV2024-000001'' 1 100
        (demo_explained ''1100'' ''4010'' ''Receivable control, revenue per fee line'' ''CONTROL_DEBIT''),
      demo_entry ''JE2024-000002'' ''AUTOMATIC'' ''Posting of REC2024-000001'' 2 80
        (demo_explained ''1020'' ''1100'' ''Cash received against receivable'' ''CONTROL_CREDIT''),
      (demo_entry ''JE2024-000003'' ''REVERSAL'' ''Reversal of JE2024-000001: error'' 1 100 [])\<lparr>je_reversal_of := Some 1\<rparr>]"

definition demo_jlines :: "jline list" where
  "demo_jlines =
     [demo_jline 1 1 2 (Some 1) 1 ''Generated from service charge SC-1'' 100 0,
      demo_jline 1 2 3 (Some 1) 1 ''Freight'' 0 100,
      demo_jline 2 1 1 None 2 ''REC2024-000001'' 80 0,
      demo_jline 2 2 2 None 2 ''REC2024-000001'' 0 80,
      demo_jline 3 1 2 (Some 1) 1 ''Reversal: Generated from service charge SC-1'' 0 100,
      demo_jline 3 2 3 (Some 1) 1 ''Reversal: Freight'' 100 0]"

definition demo_posting :: "int \<Rightarrow> posting" where
  "demo_posting i = \<lparr>po_document = i, po_journal = i, po_role = ''ORIGINAL_POSTING''\<rparr>"

definition demo_allocation :: allocation where
  "demo_allocation = \<lparr>al_payment = 2, al_target = 1, al_amount = 60, al_currency = ''USD'', al_rate = 1,
     al_created_by = Some 7, al_key = Some ''k1''\<rparr>"

section \<open>The run\<close>

definition demo_counters :: "int \<Rightarrow> seqn list" where
  "demo_counters n = [demo_seq ''CUSTOMER_INVOICE'' ''INV'' 1, demo_seq ''CUSTOMER_RECEIPT'' ''REC'' 1,
     demo_seq ''JOURNAL'' ''JE'' n]"

definition demo1 :: fdb where
  "demo1 = demo0\<lparr>f_sequences := a_table [demo_seq ''CUSTOMER_INVOICE'' ''INV'' 1],
     f_documents := a_table [demo_invoice], f_lines := a_table [demo_line 1 ''Freight'' 2 50 (Some 1)],
     f_sources := a_table [\<lparr>src_document = 1, src_type = ''SERVICE_ORDER_CHARGE'', src_id = 1,
       src_relationship = ''GENERATED_FROM''\<rparr>]\<rparr>"

definition demo2 :: fdb where
  "demo2 = demo1\<lparr>f_sequences := a_table (take 2 (demo_counters 0)), f_documents := a_table [demo_invoice, demo_receipt],
     f_lines := a_table [demo_line 1 ''Freight'' 2 50 (Some 1), demo_line 2 ''Line'' 1 80 None]\<rparr>"

definition demo3 :: fdb where
  "demo3 = demo2\<lparr>f_periods := a_table [demo_period], f_sequences := a_table (demo_counters 1),
     f_documents := a_table [demo_posted demo_invoice, demo_receipt], f_journals := a_table (take 1 demo_journals),
     f_jlines := a_table (take 2 demo_jlines), f_postings := a_table [demo_posting 1]\<rparr>"

definition demo4 :: fdb where
  "demo4 = demo3\<lparr>f_sequences := a_table (demo_counters 2),
     f_documents := a_table [demo_posted demo_invoice, demo_posted demo_receipt],
     f_journals := a_table (take 2 demo_journals), f_jlines := a_table (take 4 demo_jlines),
     f_postings := a_table [demo_posting 1, demo_posting 2]\<rparr>"

definition demo5 :: fdb where
  "demo5 = demo4\<lparr>f_documents := a_table [(demo_posted demo_invoice)\<lparr>doc_paid := 60\<rparr>, (demo_posted demo_receipt)\<lparr>doc_paid := 60\<rparr>],
     f_allocations := a_table [demo_allocation]\<rparr>"

definition demo6 :: fdb where
  "demo6 = demo5\<lparr>f_sequences := a_table (demo_counters 3),
     f_documents := a_table [(demo_posted demo_invoice)\<lparr>doc_status := ''REVERSED''\<rparr>, demo_posted demo_receipt],
     f_allocations := t_del 1 (a_table [demo_allocation]),
     f_journals := a_table demo_journals, f_jlines := a_table demo_jlines\<rparr>"

definition demo_answer :: allocation_answer where
  "demo_answer = \<lparr>aa_payment = 2, aa_target = 1, aa_amount = 60, aa_payment_base = 60, aa_target_base = 60,
     aa_difference = 0, aa_payment_balance = 20, aa_target_outstanding = 40, aa_replay = False\<rparr>"

lemma demo_step1: "create_invoice_from_charge (1, demo_charge) demo_rq demo0 = Inr (1, demo1)"
  by code_simp

lemma demo_step2: "save_document receipt_request demo_rq demo1 = Inr (2, demo2)"
  by code_simp

lemma demo_step3: "post_document 1 demo_rq demo2 = Inr (1, demo3)"
  by code_simp

lemma demo_step4: "post_document 2 demo_rq demo3 = Inr (2, demo4)"
  by code_simp

lemma demo_step5: "allocate_payment 2 allocation_request (Some ''k1'') demo_rq demo4 = Inr (demo_answer, demo5)"
  by code_simp

lemma demo_step6: "reverse_document 1 ''error'' demo_rq demo5 = Inr (1, demo6)"
  by code_simp

lemma demo_initial: "initial demo0"
  by code_simp

lemma demo_run:
  "fstep demo0 demo1" "fstep demo1 demo2" "fstep demo2 demo3" "fstep demo3 demo4" "fstep demo4 demo5" "fstep demo5 demo6"
  by (rule fs_charge_invoice [OF demo_step1] fs_save_document [OF demo_step2] fs_post_document [OF demo_step3]
        fs_post_document [OF demo_step4] fs_allocate [OF demo_step5] fs_reverse_document [OF demo_step6])+

lemma demo_runs: "run fstep demo0 demo5" "run fstep demo5 demo6"
proof -
  show "run fstep demo5 demo6" using demo_run(6) by (rule run_single)
  show "run fstep demo0 demo5"
    by (rule run_step, rule run_step, rule run_step, rule run_step, rule run_single) (rule demo_run)+
qed

lemma demo_reach: "reach initial fstep demo0" "reach initial fstep demo5" "reach initial fstep demo6"
proof -
  show start: "reach initial fstep demo0" using demo_initial by (rule reach_init)
  show five: "reach initial fstep demo5" using demo_runs(1) start by (rule reach_run)
  show "reach initial fstep demo6" using demo_runs(2) five by (rule reach_run)
qed

end
