(* ===== verification/SetupMachine.thy ===== *)
theory SetupMachine
  imports LedgerMachine
begin

text \<open>
  The setup tables along the steps of the finance service: the chart of accounts, the posting rules and
  the accounting periods keep their unique indexes, every journal line keeps its account, and so the
  account resolver is never ambiguous and a date has at most one period.
\<close>

section \<open>Which operations touch the setup tables\<close>

definition setup_tables :: "fdb \<Rightarrow> account table \<times> posting_rule table" where
  "setup_tables db = (f_accounts db, f_rules db)"

named_theorems setup_frame and period_frame

lemma setup_simps [simp]:
  "setup_tables (db\<lparr>f_fin_accounts := a\<rparr>) = setup_tables db" "setup_tables (db\<lparr>f_periods := b\<rparr>) = setup_tables db"
  "setup_tables (db\<lparr>f_sequences := c\<rparr>) = setup_tables db" "setup_tables (db\<lparr>f_documents := d\<rparr>) = setup_tables db"
  "setup_tables (db\<lparr>f_lines := e\<rparr>) = setup_tables db" "setup_tables (db\<lparr>f_sources := f\<rparr>) = setup_tables db"
  "setup_tables (db\<lparr>f_allocations := g\<rparr>) = setup_tables db" "setup_tables (db\<lparr>f_journals := h\<rparr>) = setup_tables db"
  "setup_tables (db\<lparr>f_jlines := k\<rparr>) = setup_tables db" "setup_tables (db\<lparr>f_postings := l\<rparr>) = setup_tables db"
  by (simp_all add: setup_tables_def)

lemma setupD: "setup_tables db' = setup_tables db \<Longrightarrow> f_accounts db' = f_accounts db \<and> f_rules db' = f_rules db"
  by (simp add: setup_tables_def)

lemma allocate_number_setup [simp]:
  "setup_tables (snd (allocate_number ty p y rq db)) = setup_tables db" "f_periods (snd (allocate_number ty p y rq db)) = f_periods db"
  by (simp_all add: allocate_number_def Let_def case_prod_unfold)

lemma allocate_number_setup' [setup_frame]: "allocate_number ty p y rq db = (n, db') \<Longrightarrow> setup_tables db' = setup_tables db"
  using allocate_number_setup(1) [of ty p y rq db] by simp

lemma allocate_number_periods [period_frame]: "allocate_number ty p y rq db = (n, db') \<Longrightarrow> f_periods db' = f_periods db"
  using allocate_number_setup(2) [of ty p y rq db] by simp

lemma resolve_period_setup [setup_frame]: "resolve_period d db = Inr (x, db') \<Longrightarrow> setup_tables db' = setup_tables db"
  by (erule resolve_period_frame) simp

lemma open_document_setup:
  assumes "open_document data ty stored cur rq db = Inr (x, db1)"
  shows "setup_tables db1 = setup_tables db \<and> f_periods db1 = f_periods db"
proof (cases stored)
  case None
  obtain c r b p where cur: "cur = (c, r, b, p)" by (cases cur)
  define n where "n = (if \<not> truthy (py_or (dget data ''documentNo'') (dget data ''debitNoteNo''))
        \<or> py_strip (py_str (py_or (dget data ''documentNo'') (dget data ''debitNoteNo''))) = []
      then allocate_number ty None None rq db else (py_str (py_or (dget data ''documentNo'') (dget data ''debitNoteNo'')), db))"
  have "setup_tables (snd n) = setup_tables db \<and> f_periods (snd n) = f_periods db" by (simp add: n_def)
  with assms show ?thesis
    unfolding open_document_def cur None Let_def n_def [symmetric]
    by (auto simp: ebind_Inr_iff case_prod_unfold split: if_splits)
next
  case (Some y)
  with assms show ?thesis
    by (cases y) (auto simp: open_document_def Let_def case_prod_unfold split: if_splits)
qed

lemma save_document_setup:
  assumes "save_document data rq db = Inr (i, db')"
  shows "setup_tables db' = setup_tables db \<and> f_periods db' = f_periods db"
proof -
  from assms obtain data1 ty stored cur x db1 where
    opened: "open_document data1 ty stored cur rq db = Inr (x, db1)"
    and db': "setup_tables db' = setup_tables db1" "f_periods db' = f_periods db1"
    unfolding save_document_def Let_def
    by (auto simp: ebind_Inr_iff case_prod_unfold)
  with open_document_setup [OF opened] show ?thesis by simp
qed

lemma delete_draft_documents_setup:
  assumes "delete_draft_documents ids db = Inr (n, db')"
  shows "setup_tables db' = setup_tables db \<and> f_periods db' = f_periods db"
proof -
  from assms have "efold delete_document (draft_ids ids db) db = Inr db'"
    by (auto simp: delete_draft_documents_def ebind_Inr_iff)
  then show ?thesis by (rule efold_invariant) (auto simp: delete_document_def ebind_Inr_iff)
qed

lemma post_document_setup [setup_frame]: "post_document i rq db = Inr (k, db') \<Longrightarrow> setup_tables db' = setup_tables db"
  by (auto simp: post_document_def Let_def ebind_Inr_iff case_prod_unfold dest!: resolve_period_setup split: if_splits)

lemma reverse_document_setup [setup_frame]: "reverse_document i reason rq db = Inr (k, db') \<Longrightarrow> setup_tables db' = setup_tables db"
  by (auto simp: reverse_document_def Let_def ebind_Inr_iff case_prod_unfold dest!: resolve_period_setup split: if_splits)

lemma allocate_payment_setup:
  assumes "allocate_payment i data key rq db = Inr (ans, db')"
  shows "setup_tables db' = setup_tables db \<and> f_periods db' = f_periods db"
  using assms by (cases rule: allocate_payment_effect) simp_all

lemma add_invoice_setup:
  assumes "add_invoice d lines sources db = Inr (i, db')"
  shows "setup_tables db' = setup_tables db \<and> f_periods db' = f_periods db"
  using add_invoice_Inr [OF assms] by auto

lemma create_invoice_setup:
  assumes "create_invoice_from_charge c rq db = Inr (i, db') \<or> create_invoice_from_service_order x rq db = Inr (i, db')"
  shows "setup_tables db' = setup_tables db \<and> f_periods db' = f_periods db"
  using assms
  by (auto simp: create_invoice_from_charge_def create_invoice_from_service_order_def Let_def ebind_Inr_iff case_prod_unfold
      dest!: add_invoice_setup split: option.splits if_splits)

lemma open_journal_setup: "open_journal data stored ed pd pid rq db = Inr (x, db') \<Longrightarrow>
    setup_tables db' = setup_tables db \<and> f_periods db' = f_periods db"
  by (auto simp: open_journal_def Let_def ebind_Inr_iff case_prod_unfold split: option.splits if_splits)

lemma save_journal_setup [setup_frame]: "save_journal data rq db = Inr (i, db') \<Longrightarrow> setup_tables db' = setup_tables db"
  by (auto simp: save_journal_def Let_def ebind_Inr_iff case_prod_unfold
      dest!: resolve_period_setup open_journal_setup)

lemma post_journal_setup: "post_journal i rq db = Inr (k, db') \<Longrightarrow> setup_tables db' = setup_tables db \<and> f_periods db' = f_periods db"
  by (erule post_journal_effect) simp_all

lemma delete_journals_setup:
  assumes "delete_journals ids db = Inr db'"
  shows "setup_tables db' = setup_tables db \<and> f_periods db' = f_periods db"
  using assms unfolding delete_journals_def
  by (rule efold_invariant) (auto elim: delete_journal_effect)

section \<open>The accounting periods\<close>

lemma month_period_ok: "month_ok (month_period d)"
  by (simp add: month_ok_def month_period_def)

lemma covers_month:
  assumes "month_ok p" and "covers d p"
  shows "per_year p = date_year d \<and> per_month p = date_month d"
proof -
  obtain y m k where d: "d = Date y m k" by (cases d)
  show ?thesis
    using assms
    by (auto simp: d month_ok_def month_period_def covers_def Let_def split: if_splits)
qed

lemma period_of_date_unique:
  assumes ok: "periods_ok t" and i: "t_get t i = Some p" "covers d p" and j: "t_get t j = Some q" "covers d q"
  shows "i = j"
proof -
  have rows: "(i, p) \<in> set (rows t)" "(j, q) \<in> set (rows t)" using i(1) j(1) by (auto dest: t_get_Some_rows)
  then have "month_ok p" "month_ok q" using ok by (auto simp: periods_ok_def list_all_iff t_vals_def)
  then have "period_key p = period_key q" using covers_month i(2) j(2) by (simp add: period_key_def)
  with ok rows show ?thesis by (auto simp: periods_ok_def unique_table_iff period_key_def)
qed

lemma periods_ok_put:
  assumes ok: "periods_ok t" and "t_get t i = Some p"
    and "per_year q = per_year p" "per_month q = per_month p" "per_start q = per_start p" "per_end q = per_end p"
  shows "periods_ok (t_put i q t)"
proof -
  have p: "(i, p) \<in> set (rows t)" using assms(2) by (rule t_get_Some_rows)
  have uq: "unique_among period_key i q t"
    using ok p assms(3,4) by (auto simp: periods_ok_def unique_table_iff unique_among_iff period_key_def)
  have "month_ok p" using ok p by (auto simp: periods_ok_def list_all_iff t_vals_def)
  then have "month_ok q" using assms(3-6) by (simp add: month_ok_def)
  moreover have "set (t_vals (t_put i q t)) \<subseteq> insert q (set (t_vals t))"
    by (force simp: t_vals_def t_put_def)
  ultimately show ?thesis
    using ok uq unfolding periods_ok_def list_all_iff by (auto intro: unique_table_put)
qed

lemma resolve_period_periods:
  assumes "resolve_period d db = Inr (x, db')" and "periods_ok (f_periods db)"
  shows "periods_ok (f_periods db')"
  using assms
  by (auto simp: resolve_period_def Let_def ebind_Inr_iff periods_ok_def check_unique_def month_period_ok
      intro: unique_table_add split: option.splits)

lemma with_period_periods:
  assumes "with_period i f db = Inr (x, db')" and "periods_ok (f_periods db)"
    and "\<And>p q. f (i, p) = Inr q \<Longrightarrow>
       per_year q = per_year p \<and> per_month q = per_month p \<and> per_start q = per_start p \<and> per_end q = per_end p"
  shows "periods_ok (f_periods db')"
proof -
  from assms(1) obtain p q where p: "t_get (f_periods db) i = Some p" and q: "f (i, p) = Inr q"
    and db': "f_periods db' = t_put i q (f_periods db)"
    by (auto simp: with_period_def ebind_Inr_iff)
  show ?thesis unfolding db' using assms(3) [OF q] by (intro periods_ok_put [OF assms(2) p]) auto
qed

lemma period_ops_periods:
  assumes "update_period i data rq db = Inr (x, db') \<or> close_period i rq db = Inr (x, db') \<or> reopen_period i rq db = Inr (x, db')"
    and "periods_ok (f_periods db)"
  shows "periods_ok (f_periods db')"
  using assms(1)
proof (elim disjE)
  assume "update_period i data rq db = Inr (x, db')"
  then show ?thesis
    unfolding update_period_def
    by (rule with_period_periods [OF _ assms(2)]) (auto simp: ebind_Inr_iff Let_def split: if_splits)
next
  assume "close_period i rq db = Inr (x, db')"
  then show ?thesis unfolding close_period_def by (rule with_period_periods [OF _ assms(2)]) auto
next
  assume "reopen_period i rq db = Inr (x, db')"
  then show ?thesis unfolding reopen_period_def by (rule with_period_periods [OF _ assms(2)]) auto
qed

text \<open>What posting, reversing and saving a journal do to the periods is what resolving their date does.\<close>

lemma post_document_periods:
  assumes "post_document i rq db = Inr (k, db')" and "periods_ok (f_periods db)"
  shows "periods_ok (f_periods db')"
  using assms(1)
proof (cases rule: post_document_effect)
  case (already d)
  with assms(2) show ?thesis by simp
next
  case (posted d pid per db1 dr row jls d2)
  with resolve_period_periods [OF posted(5) assms(2)] show ?thesis by simp
qed

lemma reverse_document_periods:
  assumes "reverse_document i reason rq db = Inr (k, db')" and "periods_ok (f_periods db)"
  shows "periods_ok (f_periods db')"
  using assms(1)
proof (cases rule: reverse_document_effect)
  case (1 d p pid per db1 original row jls)
  with resolve_period_periods [OF 1(6) assms(2)] show ?thesis by simp
qed

lemma save_journal_periods:
  assumes "save_journal data rq db = Inr (i, db')" and "periods_ok (f_periods db)"
  shows "periods_ok (f_periods db')"
proof -
  from assms(1) obtain d x db1 data1 stored ed pd pid y db3 where
    p: "resolve_period d db = Inr (x, db1)" and o: "open_journal data1 stored ed pd pid rq db1 = Inr (y, db3)"
    and db': "f_periods db' = f_periods db3"
    unfolding save_journal_def Let_def by (auto simp: ebind_Inr_iff case_prod_unfold)
  show ?thesis
    using resolve_period_periods [OF p assms(2)] open_journal_setup [OF o] by (simp add: db')
qed

section \<open>The chart of accounts and the posting rules\<close>

definition accounts_ok :: "account table \<Rightarrow> bool" where
  "accounts_ok t \<longleftrightarrow> table_ok t \<and> unique_table account_key t"

definition rules_ok :: "posting_rule table \<Rightarrow> bool" where
  "rules_ok t \<longleftrightarrow> table_ok t \<and> unique_table rule_key t"

lemma create_account_Inr:
  assumes "create_account data rq db = Inr (x, db')"
  shows "\<exists>a. unique_among account_key (next_id (f_accounts db)) a (f_accounts db)
     \<and> db' = db\<lparr>f_accounts := t_add a (f_accounts db)\<rparr>"
  using assms unfolding create_account_def Let_def commit_account_def commit_unique_def
  by (clarsimp simp: ebind_Inr_iff simp del: not_not) blast

lemma update_account_Inr:
  assumes "update_account i data rq db = Inr (x, db')"
  shows "\<exists>a. unique_among account_key i a (f_accounts db) \<and> db' = db\<lparr>f_accounts := t_put i a (f_accounts db)\<rparr>"
  using assms unfolding update_account_def Let_def commit_account_def commit_unique_def
  by (clarsimp simp: ebind_Inr_iff) blast

lemma account_ops_accounts:
  assumes "create_account data rq db = Inr (x, db') \<or> update_account j data rq db = Inr (x, db')"
    and "accounts_ok (f_accounts db)"
  shows "accounts_ok (f_accounts db')" and "t_get (f_accounts db) i \<noteq> None \<Longrightarrow> t_get (f_accounts db') i \<noteq> None"
  using assms
  by (auto simp: accounts_ok_def intro: unique_table_add unique_table_put dest!: create_account_Inr update_account_Inr)

lemma delete_account_accounts:
  assumes "delete_account j db = Inr db'" and "accounts_ok (f_accounts db)"
  shows "accounts_ok (f_accounts db')"
  using assms
  by (auto simp: delete_account_def ebind_Inr_iff accounts_ok_def unique_table_del split: option.splits)

lemma delete_accounts_accounts:
  assumes "delete_accounts ids db = Inr db'" and "accounts_ok (f_accounts db)"
  shows "accounts_ok (f_accounts db')"
proof -
  from assms(1) have e: "efold delete_account ids db = Inr db'" by (auto simp: delete_accounts_def ebind_Inr_iff)
  show ?thesis
    by (rule efold_invariant [OF e, where I = "\<lambda>d. accounts_ok (f_accounts d)"])
       (use assms(2) delete_account_accounts in auto)
qed

lemma rule_ops_rules:
  "create_posting_rule data rq db = Inr (k, db') \<Longrightarrow> rules_ok (f_rules db) \<Longrightarrow> rules_ok (f_rules db')"
  "update_posting_rule i data rq db = Inr (k, db') \<Longrightarrow> rules_ok (f_rules db) \<Longrightarrow> rules_ok (f_rules db')"
  by (auto simp: rules_ok_def intro: unique_table_add unique_table_put
      dest!: create_posting_rule_Inr update_posting_rule_Inr)

lemma delete_posting_rules_rules:
  assumes "delete_posting_rules ids db = Inr db'" and "rules_ok (f_rules db)"
  shows "rules_ok (f_rules db')"
  using assms(1) unfolding delete_posting_rules_def
  by (rule efold_invariant [where I = "\<lambda>d. rules_ok (f_rules d)"])
     (use assms(2) in \<open>auto simp: rules_ok_def unique_table_del dest!: delete_posting_rule_Inr\<close>)

section \<open>The accounts of journal lines\<close>

definition lines_on_chart :: "account table \<Rightarrow> jline table \<Rightarrow> bool" where
  "lines_on_chart t ls \<longleftrightarrow> (\<forall>l \<in> set (t_vals ls). t_get t (jl_account l) \<noteq> None)"

lemma lines_on_chart_simps [simp]:
  "lines_on_chart t (t_add_all xs ls) \<longleftrightarrow> lines_on_chart t ls \<and> (\<forall>l \<in> set xs. t_get t (jl_account l) \<noteq> None)"
  "lines_on_chart t ls \<Longrightarrow> lines_on_chart t (t_del_where P ls)"
  by (auto simp: lines_on_chart_def)

lemma flush_jlines_account:
  assumes "emap flush_jline ls = Inr ks" and "k \<in> set ks"
  shows "\<exists>l \<in> set ls. jl_account k = jl_account l"
  using assms by (metis emap_in_set flush_jline_fields(3))

lemma posted_lines_on_chart:
  assumes acc: "accounts_ok (f_accounts db)" and b: "build_for db i d = Inr dr"
    and jls: "emap flush_jline (map (posted_jline j i d r) (py_enumerate n (jd_lines dr))) = Inr jls" and l: "l \<in> set jls"
  shows "t_get (f_accounts db) (jl_account l) \<noteq> None"
proof -
  obtain x where x: "x \<in> set (py_enumerate n (jd_lines dr))" and a: "jl_account l = fst (dr_account (snd x))"
    using flush_jlines_account [OF jls l] by auto
  have "snd x \<in> set (jd_lines dr)" using x by (metis list.set_map image_eqI map_snd_py_enumerate)
  moreover obtain control where c: "resolve DEFAULT_ACCOUNTS db (py_upper (doc_type d)) None = Inr control"
    and ls: "draft_lines (resolve DEFAULT_ACCOUNTS db) (account_by_id db) (strategy_for (py_upper (doc_type d)))
        (py_upper (doc_type d)) (doc_total d) (map (line_input_of d) (document_lines db i)) control
        (or_text (doc_description d) (doc_no d)) = Inr (jd_lines dr)"
    by (rule build_Inr [OF b [unfolded build_for_def]])
  ultimately have "chart_account db (dr_account (snd x))"
    using chart.draft_accounts [OF ls c] by (auto simp: chart.allowed_def)
  then show ?thesis using chart_account_exists acc by (auto simp: a accounts_ok_def)
qed

lemma read_journal_line_account:
  "read_journal_line db j x = Inr m \<Longrightarrow> \<exists>y. journal_line_account (snd x) db = Some y \<and> jl_account m = fst y"
  unfolding read_journal_line_def Let_def case_prod_unfold
  by (clarsimp simp: ebind_Inr_iff)

lemma saved_lines_on_chart:
  assumes acc: "accounts_ok (f_accounts db)" and ls: "emap (read_journal_line db j) (py_enumerate n xs) = Inr ls"
    and jls: "emap flush_jline ls = Inr jls" and l: "l \<in> set jls"
  shows "t_get (f_accounts db) (jl_account l) \<noteq> None"
proof -
  obtain m where m: "m \<in> set ls" and a: "jl_account l = jl_account m" using flush_jlines_account [OF jls l] by auto
  obtain x where "read_journal_line db j x = Inr m" using emap_in_set [OF ls m] by blast
  from read_journal_line_account [OF this] obtain y where y: "journal_line_account (snd x) db = Some y"
    and "jl_account m = fst y" by blast
  moreover from y have "chart_account db y"
    by (auto simp: journal_line_account_def chart_account_def Let_def split: option.splits if_splits)
  ultimately show ?thesis using chart_account_exists acc by (auto simp: a accounts_ok_def)
qed

section \<open>Every step keeps the setup\<close>

definition setup_inv :: "fdb \<Rightarrow> bool" where
  "setup_inv db \<longleftrightarrow> accounts_ok (f_accounts db) \<and> rules_ok (f_rules db) \<and> periods_ok (f_periods db)
     \<and> lines_on_chart (f_accounts db) (f_jlines db)"

lemma setup_inv_frame:
  assumes "setup_inv db" and "setup_tables db' = setup_tables db" and "periods_ok (f_periods db')"
    and "lines_on_chart (f_accounts db) (f_jlines db')"
  shows "setup_inv db'"
  using assms by (simp add: setup_inv_def setup_tables_def)

lemma setup_inv_same:
  assumes "setup_inv db" and "setup_tables db' = setup_tables db" and "f_periods db' = f_periods db"
    and "f_jlines db' = f_jlines db"
  shows "setup_inv db'"
  using assms by (simp add: setup_inv_def setup_tables_def)

lemma setup_inv_D:
  assumes "setup_inv db"
  shows "accounts_ok (f_accounts db)" and "rules_ok (f_rules db)" and "periods_ok (f_periods db)"
    and "lines_on_chart (f_accounts db) (f_jlines db)"
  using assms by (simp_all add: setup_inv_def)

lemma document_ops_setup_inv:
  assumes "setup_inv db"
    and "save_document data rq db = Inr (i, db') \<or> delete_draft_documents ids db = Inr (n, db')
       \<or> allocate_payment i data key rq db = Inr (ans, db')
       \<or> create_invoice_from_charge c rq db = Inr (i, db') \<or> create_invoice_from_service_order x rq db = Inr (i, db')
       \<or> post_journal i rq db = Inr (k, db')"
  shows "setup_inv db'"
  using assms(2)
proof (elim disjE)
  assume s: "save_document data rq db = Inr (i, db')"
  have "f_jlines db' = f_jlines db" using s by (cases rule: save_document_effect) (simp_all add: core_def)
  then show ?thesis using save_document_setup [OF s] by (intro setup_inv_same [OF assms(1)]) auto
next
  assume s: "delete_draft_documents ids db = Inr (n, db')"
  from s have e: "efold delete_document (draft_ids ids db) db = Inr db'"
    by (auto simp: delete_draft_documents_def ebind_Inr_iff)
  have "f_jlines db' = f_jlines db"
    by (rule efold_invariant [OF e]) (auto simp: delete_document_def ebind_Inr_iff)
  then show ?thesis using delete_draft_documents_setup [OF s] by (intro setup_inv_same [OF assms(1)]) auto
next
  assume s: "allocate_payment i data key rq db = Inr (ans, db')"
  have "f_jlines db' = f_jlines db" using s by (cases rule: allocate_payment_effect) simp_all
  then show ?thesis using allocate_payment_setup [OF s] by (intro setup_inv_same [OF assms(1)]) auto
next
  assume s: "create_invoice_from_charge c rq db = Inr (i, db')"
  have "f_jlines db' = f_jlines db" using create_invoice_from_charge_effect [OF s] by (auto simp: core_def)
  moreover have "setup_tables db' = setup_tables db \<and> f_periods db' = f_periods db"
    using s by (intro create_invoice_setup) blast
  ultimately show ?thesis by (intro setup_inv_same [OF assms(1)]) auto
next
  assume s: "create_invoice_from_service_order x rq db = Inr (i, db')"
  have "f_jlines db' = f_jlines db" using create_invoice_from_service_order_effect [OF s] by (auto simp: core_def)
  moreover have "setup_tables db' = setup_tables db \<and> f_periods db' = f_periods db"
    using s by (intro create_invoice_setup) blast
  ultimately show ?thesis by (intro setup_inv_same [OF assms(1)]) auto
next
  assume s: "post_journal i rq db = Inr (k, db')"
  have "f_jlines db' = f_jlines db" using s by (cases rule: post_journal_effect) simp_all
  then show ?thesis using post_journal_setup [OF s] by (intro setup_inv_same [OF assms(1)]) auto
qed

lemma post_document_setup_inv:
  assumes inv: "setup_inv db" and step: "post_document i rq db = Inr (k, db')"
  shows "setup_inv db'"
proof (rule setup_inv_frame [OF inv post_document_setup [OF step] post_document_periods [OF step setup_inv_D(3) [OF inv]]])
  from step show "lines_on_chart (f_accounts db) (f_jlines db')"
  proof (cases rule: post_document_effect)
    case (already d)
    then show ?thesis using setup_inv_D(4) [OF inv] by simp
  next
    case (posted d pid per db1 dr row jls d2)
    have s: "f_accounts db1 = f_accounts db"
      using resolve_period_setup [OF posted(5)] by (simp add: setup_tables_def)
    have "f_jlines db' = t_add_all jls (f_jlines db)" using posted(24) by (simp add: core_def)
    then show ?thesis
      using posted_lines_on_chart [OF _ posted(7,10)] setup_inv_D(1,4) [OF inv] by (simp add: s)
  qed
qed

lemma reverse_document_setup_inv:
  assumes inv: "setup_inv db" and step: "reverse_document i reason rq db = Inr (k, db')"
  shows "setup_inv db'"
proof (rule setup_inv_frame [OF inv reverse_document_setup [OF step] reverse_document_periods [OF step setup_inv_D(3) [OF inv]]])
  note old = setup_inv_D(4) [OF inv]
  from step show "lines_on_chart (f_accounts db) (f_jlines db')"
  proof (cases rule: reverse_document_effect)
    case (1 d p pid per db1 original row jls)
    have "t_get (f_accounts db) (jl_account l) \<noteq> None" if l: "l \<in> set jls" for l
    proof -
      obtain x where x: "x \<in> set (py_enumerate 1 (filter (\<lambda>l. jl_journal l = po_journal p) (t_vals (f_jlines db))))"
        and a: "jl_account l = jl_account (snd x)"
        using flush_jlines_account [OF 1(10) l] by auto
      from x have "snd x \<in> set (filter (\<lambda>l. jl_journal l = po_journal p) (t_vals (f_jlines db)))"
        by (metis list.set_map image_eqI map_snd_py_enumerate)
      with old show ?thesis by (auto simp: a lines_on_chart_def)
    qed
    moreover have "f_jlines db' = t_add_all jls (f_jlines db)" using 1(17) by (simp add: core_def)
    ultimately show ?thesis using old by simp
  qed
qed

lemma allocate_number_jlines [simp]: "f_jlines (snd (allocate_number ty p y rq db)) = f_jlines db"
  by (rule coreD(4) [OF allocate_number_core])

lemma open_journal_jlines: "open_journal data stored ed pd pid rq db = Inr (x, db') \<Longrightarrow> f_jlines db' = f_jlines db"
  by (auto simp: open_journal_def Let_def ebind_Inr_iff case_prod_unfold split: option.splits if_splits)

lemma save_journal_setup_inv:
  assumes inv: "setup_inv db" and step: "save_journal data rq db = Inr (i, db')"
  shows "setup_inv db'"
proof (rule setup_inv_frame [OF inv save_journal_setup [OF step] save_journal_periods [OF step setup_inv_D(3) [OF inv]]])
  from step obtain data1 d x db1 stored ed pd pid k e db3 n xs ls jls where
    p: "resolve_period d db = Inr (x, db1)" and o: "open_journal data1 stored ed pd pid rq db1 = Inr ((k, e), db3)"
    and ls: "emap (read_journal_line (db3\<lparr>f_jlines := t_del_where (\<lambda>l. jl_journal l = k) (f_jlines db3)\<rparr>) k)
        (py_enumerate n xs) = Inr ls"
    and jls: "emap flush_jline ls = Inr jls"
    and db': "f_jlines db' = t_add_all jls (t_del_where (\<lambda>l. jl_journal l = k) (f_jlines db3))"
    unfolding save_journal_def Let_def by (auto simp: ebind_Inr_iff case_prod_unfold)
  have acc: "f_accounts db3 = f_accounts db"
    using open_journal_setup [OF o] resolve_period_setup [OF p] by (simp add: setup_tables_def)
  have "f_jlines db3 = f_jlines db1"
    using o by (rule open_journal_jlines)
  moreover have "f_jlines db1 = f_jlines db" using p by (rule coreD(4) [OF resolve_period_core])
  ultimately show "lines_on_chart (f_accounts db) (f_jlines db')"
    using saved_lines_on_chart [OF _ ls jls] setup_inv_D(1,4) [OF inv] by (simp add: db' acc)
qed

lemma delete_journals_setup_inv:
  assumes inv: "setup_inv db" and step: "delete_journals ids db = Inr db'"
  shows "setup_inv db'"
  using step unfolding delete_journals_def
proof (rule efold_invariant)
  fix x t t'
  assume "setup_inv t" and "delete_journal x t = Inr t'"
  then show "setup_inv t'" by (auto simp: setup_inv_def elim!: delete_journal_effect)
qed (rule inv)

lemma account_ops_setup_inv:
  assumes inv: "setup_inv db"
    and step: "create_account data rq db = Inr (x, db') \<or> update_account i data rq db = Inr (x, db')"
  shows "setup_inv db'"
proof -
  have same: "f_rules db' = f_rules db" "f_periods db' = f_periods db" "f_jlines db' = f_jlines db"
    using step by (auto dest!: create_account_Inr update_account_Inr)
  show ?thesis
    using inv account_ops_accounts [OF step] unfolding setup_inv_def same by (auto simp: lines_on_chart_def)
qed

lemma delete_accounts_setup_inv:
  assumes inv: "setup_inv db" and step: "delete_accounts ids db = Inr db'"
  shows "setup_inv db'"
proof -
  have "\<exists>t. db' = db\<lparr>f_accounts := t\<rparr>"
    using step by (auto simp: delete_accounts_def ebind_Inr_iff dest: delete_accounts_frame)
  then have same: "f_rules db' = f_rules db" "f_periods db' = f_periods db" "f_jlines db' = f_jlines db" by auto
  have "t_get (f_accounts db') (jl_account l) \<noteq> None" if l: "l \<in> set (t_vals (f_jlines db))" for l
  proof -
    from inv l obtain a where a: "t_get (f_accounts db) (jl_account l) = Some a"
      by (auto simp: setup_inv_def lines_on_chart_def)
    moreover have "account_named db (jl_account l)"
      unfolding account_named_def using account_unreferenced [of "jl_account l" db] l by blast
    ultimately show ?thesis using delete_accounts_keeps [OF step] by fastforce
  qed
  then show ?thesis
    using inv delete_accounts_accounts [OF step] unfolding setup_inv_def same by (auto simp: lines_on_chart_def)
qed

lemma rule_ops_setup_inv:
  assumes inv: "setup_inv db"
    and step: "create_posting_rule data rq db = Inr (k, db') \<or> update_posting_rule i data rq db = Inr (k, db')"
  shows "setup_inv db'"
proof -
  have same: "f_accounts db' = f_accounts db" "f_periods db' = f_periods db" "f_jlines db' = f_jlines db"
    using step by (auto dest!: create_posting_rule_Inr update_posting_rule_Inr)
  show ?thesis using inv rule_ops_rules step unfolding setup_inv_def same by blast
qed

lemma delete_rules_setup_inv:
  assumes inv: "setup_inv db" and step: "delete_posting_rules ids db = Inr db'"
  shows "setup_inv db'"
proof -
  have "f_accounts db' = f_accounts db \<and> f_periods db' = f_periods db \<and> f_jlines db' = f_jlines db"
    using step unfolding delete_posting_rules_def
    by (rule efold_invariant) (auto dest!: delete_posting_rule_Inr)
  then show ?thesis using inv delete_posting_rules_rules [OF step] unfolding setup_inv_def by auto
qed

lemma period_ops_setup_inv:
  assumes inv: "setup_inv db"
    and step: "update_period i data rq db = Inr (x, db') \<or> close_period i rq db = Inr (x, db') \<or> reopen_period i rq db = Inr (x, db')"
  shows "setup_inv db'"
proof -
  have same: "f_accounts db' = f_accounts db \<and> f_rules db' = f_rules db \<and> f_jlines db' = f_jlines db"
    using step by (auto simp: update_period_def close_period_def reopen_period_def with_period_def ebind_Inr_iff)
  then show ?thesis using inv period_ops_periods [OF step] unfolding setup_inv_def by auto
qed

lemma small_ops_setup_inv:
  assumes inv: "setup_inv db"
  shows "resolve_period day db = Inr (p, db') \<Longrightarrow> setup_inv db'"
    and "allocate_number ty prefix year rq db = (number, db') \<Longrightarrow> setup_inv db'"
    and "upsert_sequence data rq db = Inr (ans, db') \<Longrightarrow> setup_inv db'"
    and "create_financial_account data rq db = Inr (i, db') \<Longrightarrow> setup_inv db'"
    and "update_financial_account i data rq db = Inr (k, db') \<Longrightarrow> setup_inv db'"
    and "delete_financial_accounts ids db = Inr db' \<Longrightarrow> setup_inv db'"
proof -
  show "setup_inv db'" if "resolve_period day db = Inr (p, db')"
  proof -
    have "f_jlines db' = f_jlines db" by (rule coreD(4) [OF resolve_period_core [OF that]])
    then show ?thesis
      using setup_inv_frame [OF inv resolve_period_setup [OF that] resolve_period_periods [OF that]] setup_inv_D [OF inv]
      by simp
  qed
  show "setup_inv db'" if "allocate_number ty prefix year rq db = (number, db')"
    using allocate_number_setup [of ty prefix year rq db] allocate_number_jlines [of ty prefix year rq db] that
    by (intro setup_inv_same [OF inv]) auto
  show "setup_inv db'" if "upsert_sequence data rq db = Inr (ans, db')"
    using that by (intro setup_inv_same [OF inv])
      (auto simp: upsert_sequence_def ebind_Inr_iff Let_def split: option.splits)
  show "setup_inv db'" if "create_financial_account data rq db = Inr (i, db')"
    using that by (intro setup_inv_same [OF inv]) (auto simp: create_financial_account_def ebind_Inr_iff Let_def)
  show "setup_inv db'" if "update_financial_account i data rq db = Inr (k, db')"
    using that by (intro setup_inv_same [OF inv]) (auto simp: update_financial_account_def ebind_Inr_iff Let_def)
  show "setup_inv db'" if "delete_financial_accounts ids db = Inr db'"
  proof -
    have "setup_tables db' = setup_tables db \<and> f_periods db' = f_periods db \<and> f_jlines db' = f_jlines db"
      using that unfolding delete_financial_accounts_def
      by (rule efold_invariant) (auto simp: delete_financial_account_def ebind_Inr_iff split: option.splits)
    then show ?thesis by (intro setup_inv_same [OF inv]) auto
  qed
qed

lemma fstep_setup_inv: "fstep db db' \<Longrightarrow> setup_inv db \<Longrightarrow> setup_inv db'"
proof (induction rule: fstep.induct)
  case (fs_other_modules db c r ty p f os ch cl cur)
  then show ?case by (simp add: setup_inv_def)
qed (blast intro: document_ops_setup_inv post_document_setup_inv reverse_document_setup_inv save_journal_setup_inv
       delete_journals_setup_inv account_ops_setup_inv delete_accounts_setup_inv rule_ops_setup_inv
       delete_rules_setup_inv period_ops_setup_inv small_ops_setup_inv)+

lemma initial_setup_inv: "initial db \<Longrightarrow> setup_inv db"
  by (simp add: initial_def setup_ok_def setup_inv_def accounts_ok_def rules_ok_def core_def lines_on_chart_def)

interpretation chart_setup: invariant initial fstep setup_inv
  by unfold_locales (blast intro: initial_setup_inv, blast intro: fstep_setup_inv)

end
