(* ===== verification/LedgerProperties.thy ===== *)
theory LedgerProperties
  imports Demo SetupMachine
begin

text \<open>
  The correctness of the ledger: properties of every database the finance service can reach from a
  new one, and of what posting, reversing and allocating do.
\<close>

section \<open>Invariants of every reachable database\<close>

text \<open>C1. In every reachable database each posted journal entry has at least two lines, and its debits
  and its credits are the same positive amount.\<close>

theorem posted_entries_balance:
  assumes "reach initial fstep db" and "t_get (f_journals db) i = Some e" and "je_status e = ''POSTED''"
  shows "2 \<le> length (entry_lines (f_jlines db) i)
     \<and> sum_of jl_debit (entry_lines (f_jlines db) i) = sum_of jl_credit (entry_lines (f_jlines db) i)
     \<and> 0 < sum_of jl_debit (entry_lines (f_jlines db) i)"
proof -
  have "posted_ok (f_journals db) (f_jlines db)"
    using ledger_inv_D(1) [OF ledger.always [OF assms(1)]] by (simp add: journals_ok_def)
  with assms(2,3) have "entry_ok (entry_lines (f_jlines db) i)" by (simp add: posted_ok_def)
  then show ?thesis unfolding entry_ok_def .
qed

theorem posted_entries_balance_witness:
  "sum_of jl_debit (entry_lines (f_jlines demo6) 3) = sum_of jl_credit (entry_lines (f_jlines demo6) 3)"
proof -
  have "t_get (f_journals demo6) 3 = Some (demo_journals ! 2)" and "je_status (demo_journals ! 2) = ''POSTED''"
    by code_simp+
  from posted_entries_balance [OF demo_reach(3) this] show ?thesis by (elim conjE)
qed

text \<open>C2. In every reachable database the paid amount of a document is the sum of the allocations that
  name it; it is never negative, and never more than the total of a posted document.\<close>

theorem paid_is_what_was_settled:
  assumes "reach initial fstep db" and "t_get (f_documents db) i = Some d"
  shows "doc_paid d = t_sum al_amount (touches i) (f_allocations db) \<and> 0 \<le> doc_paid d
     \<and> (doc_status d = ''POSTED'' \<longrightarrow> doc_paid d \<le> doc_total d)"
proof -
  have ok: "subledger_ok (f_documents db) (f_allocations db)" by (rule ledger_inv_D(2) [OF ledger.always [OF assms(1)]])
  with assms(2) have "document_ok (f_allocations db) i d" by (simp add: subledger_ok_def)
  then show ?thesis using settled_nonneg [OF ok, of i] by (auto simp: document_ok_def settled_def)
qed

theorem paid_is_what_was_settled_witness:
  "doc_paid ((demo_posted demo_receipt)\<lparr>doc_paid := 60\<rparr>) = t_sum al_amount (touches 2) (f_allocations demo5)"
proof -
  have "t_get (f_documents demo5) 2 = Some ((demo_posted demo_receipt)\<lparr>doc_paid := 60\<rparr>)" by code_simp
  from paid_is_what_was_settled [OF demo_reach(2) this] show ?thesis by (elim conjE)
qed

text \<open>C3. In every reachable database an allocation links a posted payment to a posted invoice of the
  allocatable types, and all that was allocated from the payment fits its total.\<close>

theorem allocations_within_payment:
  assumes "reach initial fstep db" and "a \<in> set (t_vals (f_allocations db))"
  shows "\<exists>p t. t_get (f_documents db) (al_payment a) = Some p \<and> t_get (f_documents db) (al_target a) = Some t
     \<and> doc_type p \<in> set PAYMENT_TYPES \<and> doc_type t \<in> set INVOICE_TYPES
     \<and> doc_status p = ''POSTED'' \<and> doc_status t = ''POSTED''
     \<and> allocated_from db (al_payment a) \<le> doc_total p"
proof -
  have ok: "subledger_ok (f_documents db) (f_allocations db)" by (rule ledger_inv_D(2) [OF ledger.always [OF assms(1)]])
  with assms(2) obtain p t where p: "t_get (f_documents db) (al_payment a) = Some p" "doc_type p \<in> set PAYMENT_TYPES"
      "doc_status p = ''POSTED''"
    and t: "t_get (f_documents db) (al_target a) = Some t" "doc_type t \<in> set INVOICE_TYPES" "doc_status t = ''POSTED''"
    by (auto simp: subledger_ok_def settles_def)
  have "allocated_from db (al_payment a) = settled (f_allocations db) (al_payment a)"
    unfolding allocated_from_def by (rule allocated_from_settled [OF ok p(1,2)])
  moreover have "settled (f_allocations db) (al_payment a) \<le> doc_total p"
  proof -
    have "document_ok (f_allocations db) (al_payment a) p" using ok p(1) by (simp add: subledger_ok_def)
    with p(3) show ?thesis unfolding document_ok_def by metis
  qed
  ultimately show ?thesis using p t by auto
qed

theorem allocations_within_payment_witness:
  "\<exists>p. t_get (f_documents demo5) 2 = Some p \<and> allocated_from demo5 2 \<le> doc_total p"
proof -
  have "demo_allocation \<in> set (t_vals (f_allocations demo5))" by code_simp
  from allocations_within_payment [OF demo_reach(2) this] show ?thesis by (auto simp: demo_allocation_def)
qed

text \<open>C4. In every reachable database a posted or reversed document has exactly one posting, every other
  document none; the journal of a posting is posted and names the document as its source.\<close>

theorem one_posting_per_document:
  assumes "reach initial fstep db" and "t_get (f_documents db) i = Some d"
  shows "length (filter (\<lambda>p. po_document p = i) (t_vals (f_postings db)))
       = (if doc_status d \<in> {''POSTED'', ''REVERSED''} then 1 else 0)
     \<and> (\<forall>p \<in> set (t_vals (f_postings db)). po_document p = i \<longrightarrow>
       (\<exists>e. t_get (f_journals db) (po_journal p) = Some e \<and> je_status e = ''POSTED'' \<and> je_source e = Some i))"
proof (intro conjI ballI impI)
  have ok: "postings_ok (f_documents db) (f_journals db) (f_postings db)"
    by (rule ledger_inv_D(3) [OF ledger.always [OF assms(1)]])
  let ?ps = "t_vals (f_postings db)"
  have "distinct (map po_document ?ps)" using ok by (simp add: postings_ok_def)
  then have "length (filter (\<lambda>p. po_document p = i) ?ps) = (if i \<in> po_document ` set ?ps then 1 else 0)"
    by (rule length_filter_distinct_key)
  moreover have "i \<in> po_document ` set ?ps \<longleftrightarrow> doc_status d \<in> {''POSTED'', ''REVERSED''}"
    using ok assms(2) unfolding postings_ok_def posting_ok_def by force
  ultimately show "length (filter (\<lambda>p. po_document p = i) ?ps) = (if doc_status d \<in> {''POSTED'', ''REVERSED''} then 1 else 0)"
    by simp
  fix p
  assume "p \<in> set ?ps" and "po_document p = i"
  then show "\<exists>e. t_get (f_journals db) (po_journal p) = Some e \<and> je_status e = ''POSTED'' \<and> je_source e = Some i"
    using ok unfolding postings_ok_def posting_ok_def by force
qed

theorem one_posting_per_document_witness:
  "length (filter (\<lambda>p. po_document p = 1) (t_vals (f_postings demo6))) = 1"
proof -
  have "t_get (f_documents demo6) 1 = Some ((demo_posted demo_invoice)\<lparr>doc_status := ''REVERSED''\<rparr>)" by code_simp
  from one_posting_per_document [OF demo_reach(3) this] show ?thesis by simp
qed

section \<open>History\<close>

text \<open>C5. Once a journal entry is posted, no sequence of operations changes it, its lines, or removes it.\<close>

theorem posted_entries_immutable:
  assumes "reach initial fstep db" and "run fstep db db'"
    and "t_get (f_journals db) i = Some e" and "je_status e = ''POSTED''"
  shows "t_get (f_journals db') i = Some e \<and> entry_lines (f_jlines db') i = entry_lines (f_jlines db) i"
  using history.reach_later [OF assms(1,2)] assms(3,4) by (auto simp: kept_def kept_journals_def)

theorem posted_entries_immutable_witness:
  "entry_lines (f_jlines demo6) 1 = entry_lines (f_jlines demo5) 1"
proof -
  have "t_get (f_journals demo5) 1 = Some (hd demo_journals)" and "je_status (hd demo_journals) = ''POSTED''"
    by code_simp+
  from posted_entries_immutable [OF demo_reach(2) demo_runs(2) this] show ?thesis by (elim conjE)
qed

text \<open>C6. A posted document stays posted until it is reversed and keeps its number, type, currency and
  total; a reversed document never changes again.\<close>

theorem posted_documents_final:
  assumes "reach initial fstep db" and "run fstep db db'" and "t_get (f_documents db) i = Some d"
    and "doc_status d \<in> {''POSTED'', ''REVERSED''}"
  shows "\<exists>d'. t_get (f_documents db') i = Some d' \<and> doc_status d' \<in> {''POSTED'', ''REVERSED''}
     \<and> doc_no d' = doc_no d \<and> doc_type d' = doc_type d \<and> doc_currency d' = doc_currency d
     \<and> doc_total d' = doc_total d \<and> (doc_status d = ''REVERSED'' \<longrightarrow> d' = d)"
proof -
  from history.reach_later [OF assms(1,2)] have "kept_documents (f_documents db) (f_documents db')"
    by (simp add: kept_def)
  with assms(3,4) obtain d' where "t_get (f_documents db') i = Some d'" "kept_document d d'"
    unfolding kept_documents_def by blast
  with assms(4) show ?thesis by (auto simp: kept_document_def)
qed

theorem posted_documents_final_witness:
  "\<exists>d'. t_get (f_documents demo6) 1 = Some d' \<and> doc_total d' = 100 \<and> doc_no d' = ''INV2024-000001''"
proof -
  have "t_get (f_documents demo5) 1 = Some ((demo_posted demo_invoice)\<lparr>doc_paid := 60\<rparr>)"
    and "doc_status ((demo_posted demo_invoice)\<lparr>doc_paid := 60\<rparr>) \<in> {''POSTED'', ''REVERSED''}" by code_simp+
  from posted_documents_final [OF demo_reach(2) demo_runs(2) this] show ?thesis
    by (auto simp: demo_posted_def demo_invoice_def demo_doc_def)
qed

section \<open>The setup\<close>

text \<open>C7. In every reachable database each journal line names an account that is in the chart: an account
  a journal uses is never deleted.\<close>

theorem journal_lines_have_accounts:
  assumes "reach initial fstep db" and "l \<in> set (t_vals (f_jlines db))"
  shows "\<exists>a. t_get (f_accounts db) (jl_account l) = Some a"
  using setup_inv_D(4) [OF chart_setup.always [OF assms(1)]] assms(2) by (auto simp: lines_on_chart_def)

theorem journal_lines_have_accounts_witness:
  "\<exists>a. t_get (f_accounts demo6) (jl_account (demo_jlines ! 4)) = Some a"
proof -
  have "demo_jlines ! 4 \<in> set (t_vals (f_jlines demo6))" by code_simp
  then show ?thesis by (rule journal_lines_have_accounts [OF demo_reach(3)])
qed

text \<open>C8. In every reachable database the choice of a posting rule is never ambiguous: for a document type
  and a fee type there is no active rule, or one whose priority is above that of all the others.\<close>

theorem posting_rule_unambiguous:
  assumes "reach initial fstep db"
  shows "(tier db ty fee = Inr None \<and> (\<forall>r \<in> set (t_vals (f_rules db)). \<not> rule_matches ty fee r))
    \<or> (\<exists>i r. tier db ty fee = Inr (Some (i, r)) \<and> (i, r) \<in> set (rows (f_rules db)) \<and> rule_matches ty fee r
        \<and> (\<forall>j s. (j, s) \<in> set (rows (f_rules db)) \<longrightarrow> rule_matches ty fee s \<longrightarrow> (j, s) \<noteq> (i, r) \<longrightarrow> pr_priority s < pr_priority r))"
proof -
  have "rules_ok (f_rules db)" by (rule setup_inv_D(2) [OF chart_setup.always [OF assms]])
  then obtain x where x: "tier db ty fee = Inr x"
    using tier_unambiguous unfolding rules_ok_def by blast
  show ?thesis
  proof (cases x)
    case None
    with x tier_None show ?thesis by auto
  next
    case (Some y)
    obtain i r where "y = (i, r)" by (cases y)
    with x Some have t: "tier db ty fee = Inr (Some (i, r))" by simp
    show ?thesis using t tier_Some [OF t] by blast
  qed
qed

definition demo_rules :: fdb where
  "demo_rules = demo0\<lparr>f_rules := a_table
     [\<lparr>pr_type = ''CUSTOMER_INVOICE'', pr_fee = None, pr_debit = 2, pr_credit = 3, pr_tax = None, pr_status = ''ACTIVE'',
       pr_priority = 5, pr_description = None\<rparr>,
      \<lparr>pr_type = ''CUSTOMER_INVOICE'', pr_fee = None, pr_debit = 2, pr_credit = 3, pr_tax = None, pr_status = ''ACTIVE'',
       pr_priority = 9, pr_description = None\<rparr>]\<rparr>"

theorem posting_rule_unambiguous_witness:
  "\<exists>i r. tier demo_rules ''CUSTOMER_INVOICE'' None = Inr (Some (i, r)) \<and> rule_matches ''CUSTOMER_INVOICE'' None r"
proof -
  have "initial demo_rules" by code_simp
  then have "reach initial fstep demo_rules" by (rule reach_init)
  moreover have "\<not> (\<forall>r \<in> set (t_vals (f_rules demo_rules)). \<not> rule_matches ''CUSTOMER_INVOICE'' None r)"
    by code_simp
  ultimately show ?thesis
    using posting_rule_unambiguous [of demo_rules "''CUSTOMER_INVOICE''" None] by blast
qed

text \<open>In every reachable database at most one accounting period covers a date.\<close>

theorem one_period_per_date:
  assumes "reach initial fstep db" and "t_get (f_periods db) i = Some p" and "t_get (f_periods db) j = Some q"
    and "covers d p" and "covers d q"
  shows "i = j"
  using period_of_date_unique [OF setup_inv_D(3) [OF chart_setup.always [OF assms(1)]]] assms(2-5) by blast

theorem one_period_per_date_witness:
  "{j. t_get (f_periods demo5) j = Some demo_period} = {1}"
proof -
  have p: "t_get (f_periods demo5) 1 = Some demo_period" "covers (Date 2024 5 10) demo_period" by code_simp+
  have "j = 1" if "t_get (f_periods demo5) j = Some demo_period" for j
    by (rule one_period_per_date [OF demo_reach(2) that p(1) p(2) p(2)])
  with p(1) show ?thesis by blast
qed

end
