(* ===== verification/PostingProperties.thy ===== *)
theory PostingProperties
  imports LedgerProperties
begin

text \<open>
  What posting, reversing and allocating do to the ledger of a reachable database: the functional
  behaviour, the replays and the refusals.
\<close>

section \<open>Net amounts per account\<close>

text \<open>Debit less credit of the lines of an account.\<close>

definition net :: "int \<Rightarrow> jline list \<Rightarrow> rat" where
  "net a ls = (\<Sum>l\<leftarrow>filter (\<lambda>l. jl_account l = a) ls. jl_debit l - jl_credit l)"

lemma net_append [simp]: "net a (xs @ ys) = net a xs + net a ys"
  by (simp add: net_def)

lemma net_mirror:
  assumes "emap flush_jline (map (mirror_jline j i) (py_enumerate n ls)) = Inr ks"
    and "\<And>l. l \<in> set ls \<Longrightarrow> has_places 4 (jl_debit l) \<and> has_places 4 (jl_credit l)"
  shows "net a ks = - net a ls"
  using assms
proof (induction ls arbitrary: n ks)
  case Nil
  then show ?case by (simp add: net_def)
next
  case (Cons l ls)
  from Cons.prems(1) obtain k ks' where k: "flush_jline (mirror_jline j i (n, l)) = Inr k" and ks: "ks = k # ks'"
    and rest: "emap flush_jline (map (mirror_jline j i) (py_enumerate (Suc n) ls)) = Inr ks'"
    by (auto simp: ebind_Inr_iff)
  have IH: "net a ks' = - net a ls" using Cons.IH [OF rest] Cons.prems(2) by simp
  have "jl_account k = jl_account l" "jl_debit k = jl_credit l" "jl_credit k = jl_debit l"
    using flush_jline_fields(3,5,6) [OF k] Cons.prems(2) [of l] by (simp_all add: quantize_exact)
  with IH show ?case by (simp add: ks net_def)
qed

section \<open>Posting\<close>

text \<open>C10. Posting a draft adds one posted journal entry for it, dated with the posting date, in a period
  that is not closed and covers that date; its lines balance and name accounts of the chart. The document
  becomes posted with the total it had, and no other document changes.\<close>

theorem post_document_books:
  assumes "reach initial fstep db" and "post_document i rq db = Inr (k, db')"
    and "t_get (f_documents db) i = Some d" and "doc_status d = ''DRAFT''" and "valid_date (posting_date_of d)"
  shows "\<exists>e ls p per d'. f_journals db' = t_add e (f_journals db) \<and> f_jlines db' = t_add_all ls (f_jlines db)
     \<and> je_source e = Some i \<and> je_status e = ''POSTED'' \<and> je_date e = posting_date_of d
     \<and> je_period e = Some p \<and> t_get (f_periods db') p = Some per \<and> per_status per \<noteq> ''CLOSED'' \<and> covers (posting_date_of d) per
     \<and> sum_of jl_debit ls = sum_of jl_credit ls \<and> 0 < sum_of jl_debit ls
     \<and> (\<forall>l \<in> set ls. jl_journal l = next_id (f_journals db) \<and> t_get (f_accounts db') (jl_account l) \<noteq> None)
     \<and> f_documents db' = t_put i d' (f_documents db) \<and> doc_status d' = ''POSTED'' \<and> doc_total d' = doc_total d"
proof -
  note inv = ledger.always [OF assms(1)] and sinv = chart_setup.always [OF assms(1)]
  note D = ledger_inv_D [OF inv] and S = setup_inv_D [OF sinv]
  from assms(2) show ?thesis
  proof (cases rule: post_document_effect)
    case (already d0)
    with assms(3,4) show ?thesis by simp
  next
    case (posted d0 pid per db1 dr row jls d2)
    have d0: "d0 = d" using assms(3) posted(2) by simp
    note posted = posted [unfolded d0]
    have ls1: "lines_stored db1" using D(4) resolve_period_lines [OF posted(5)] by (simp add: lines_stored_def)
    have hp: "has_places 4 (doc_total d)" using D(2) assms(3) by (auto simp: subledger_ok_def document_ok_def)
    note entry = posted_entry_ok [OF posted(7) ls1 hp posted(8,10)]
    have tp: "table_ok (f_periods db)" using S(3) by (simp add: periods_ok_def)
    have per: "t_get (f_periods db') pid = Some per" "covers (posting_date_of d) per"
      using resolve_period_Inr(3,4) [OF posted(5)] tp assms(5) posted(23) by auto
    have acc: "f_accounts db' = f_accounts db" "f_accounts db1 = f_accounts db"
      using post_document_setup [OF assms(2)] resolve_period_setup [OF posted(5)] by (simp_all add: setup_tables_def)
    have lines: "jl_journal l = next_id (f_journals db) \<and> t_get (f_accounts db') (jl_account l) \<noteq> None" if "l \<in> set jls" for l
      using posted_jlines_own [OF posted(10) that] posted_lines_on_chart [OF _ posted(7,10) that] S(1) by (simp add: acc)
    have "f_journals db' = t_add row (f_journals db)" "f_jlines db' = t_add_all jls (f_jlines db)"
      "f_documents db' = t_put i d2 (f_documents db)"
      using posted(24) by (simp_all add: core_def)
    moreover have "doc_total d2 = doc_total d" using posted(20) hp by (simp add: quantize_exact)
    moreover have "sum_of jl_debit jls = sum_of jl_credit jls" "0 < sum_of jl_debit jls"
      using entry(1) unfolding entry_ok_def by blast+
    ultimately show ?thesis using posted(6,11,12,13,14,17) per lines by blast
  qed
qed

theorem post_document_books_witness:
  "\<exists>e. f_journals demo3 = t_add e (f_journals demo2) \<and> je_source e = Some 1 \<and> je_status e = ''POSTED''"
proof -
  have reach: "reach initial fstep demo2"
    by (rule reach_run [OF _ demo_reach(1)], rule run_step, rule run_single) (rule demo_run)+
  have "t_get (f_documents demo2) 1 = Some demo_invoice" "doc_status demo_invoice = ''DRAFT''"
    "valid_date (posting_date_of demo_invoice)" by code_simp+
  from post_document_books [OF reach demo_step3 this] show ?thesis by blast
qed

text \<open>Posting is idempotent: posting the document again returns the same document and changes nothing.\<close>

theorem post_document_idempotent:
  assumes "post_document i rq db = Inr (k, db')"
  shows "post_document i rq' db' = Inr (k, db')"
  using assms
proof (cases rule: post_document_effect)
  case (already d)
  then show ?thesis by (simp add: post_document_def)
next
  case (posted d pid per db1 dr row jls d2)
  have "t_get (f_documents db') i = Some d2"
    using posted(2,24) by (simp add: core_def)
  then show ?thesis using posted(1,17) by (simp add: post_document_def)
qed

theorem post_document_idempotent_witness: "post_document 1 demo_rq demo3 = Inr (1, demo3)"
  by (rule post_document_idempotent [OF demo_step3])

text \<open>C12. A closed period takes no posting and no reversal: posting a draft dated in it, or reversing a
  posted document on a day in it, is refused with the conflict \<open>PERIOD_CLOSED\<close>.\<close>

lemma resolve_known_period:
  assumes ok: "periods_ok (f_periods db)" and per: "t_get (f_periods db) j = Some per" "covers day per"
  shows "resolve_period day db = Inr ((j, per), db)"
proof (cases "t_first (covers day) (f_periods db)")
  case None
  with per show ?thesis by (auto simp: t_first_None t_vals_def dest!: t_get_Some_rows)
next
  case (Some x)
  obtain i p where x: "x = (i, p)" by (cases x)
  have "table_ok (f_periods db)" using ok by (simp add: periods_ok_def)
  then have p: "t_get (f_periods db) i = Some p" "covers day p" using Some x by (auto dest: t_first_get)
  with period_of_date_unique [OF ok p per] per have "i = j" "p = per" by auto
  with Some x show ?thesis by (simp add: resolve_period_def)
qed

theorem closed_period_refuses:
  assumes "reach initial fstep db" and "t_get (f_periods db) j = Some per" and "per_status per = ''CLOSED''"
    and "covers day per" and "t_get (f_documents db) i = Some d"
  shows "(doc_status d = ''DRAFT'' \<and> posting_date_of d = day \<longrightarrow>
        post_document i rq db = Inl (Conflict ''PERIOD_CLOSED'' ''The accounting period is closed.'' []))
     \<and> (doc_status d = ''POSTED'' \<and> rq_today rq = day \<longrightarrow>
        reverse_document i reason rq db = Inl (Conflict ''PERIOD_CLOSED'' ''The accounting period is closed.'' []))"
proof -
  have per: "resolve_period day db = Inr ((j, per), db)"
    by (rule resolve_known_period [OF setup_inv_D(3) [OF chart_setup.always [OF assms(1)]] assms(2,4)])
  note ok = ledger_inv_D(3) [OF ledger.always [OF assms(1)]]
  have none: "t_first (\<lambda>p. po_document p = i) (f_postings db) = None" if "doc_status d = ''DRAFT''"
    using ok assms(5) that unfolding postings_ok_def posting_ok_def t_first_None by force
  have some: "t_first (\<lambda>p. po_document p = i) (f_postings db) \<noteq> None" if "doc_status d = ''POSTED''"
    using ok assms(5) that unfolding postings_ok_def t_first_None by blast
  show ?thesis
    using per none some assms(3,5)
    by (auto simp: post_document_def reverse_document_def Let_def ebind_def raise_if_def require_some_def)
qed

definition demo_closed :: fdb where
  "demo_closed = demo2\<lparr>f_periods := a_table [demo_period\<lparr>per_status := ''CLOSED'', per_closed_at := Some 100, per_closed_by := Some 7\<rparr>]\<rparr>"

lemma demo_reach2: "reach initial fstep demo2"
  by (rule reach_run [OF _ demo_reach(1)], rule run_step, rule run_single) (rule demo_run)+

lemma demo_closed_reach: "reach initial fstep demo_closed"
proof -
  have "resolve_period (Date 2024 5 10) demo2 = Inr ((1, demo_period), demo2\<lparr>f_periods := a_table [demo_period]\<rparr>)"
    by code_simp
  then have "fstep demo2 (demo2\<lparr>f_periods := a_table [demo_period]\<rparr>)" by (rule fs_resolve_period)
  moreover have "\<exists>ans. close_period 1 demo_rq (demo2\<lparr>f_periods := a_table [demo_period]\<rparr>) = Inr (ans, demo_closed)"
    by (simp add: close_period_def with_period_def ebind_def require_some_def demo_closed_def a_table_def t_get_def
        t_add_def t_put_def empty_table_def demo_rq_def)
  then have "fstep (demo2\<lparr>f_periods := a_table [demo_period]\<rparr>) demo_closed" by (blast intro: fs_close_period)
  ultimately show ?thesis by (blast intro: reach_step demo_reach2)
qed

theorem closed_period_refuses_witness:
  "post_document 1 demo_rq demo_closed = Inl (Conflict ''PERIOD_CLOSED'' ''The accounting period is closed.'' [])"
proof -
  let ?per = "demo_period\<lparr>per_status := ''CLOSED'', per_closed_at := Some 100, per_closed_by := Some 7\<rparr>"
  have "t_get (f_periods demo_closed) 1 = Some ?per" "per_status ?per = ''CLOSED''" "covers (Date 2024 5 10) ?per"
    "t_get (f_documents demo_closed) 1 = Some demo_invoice"
    "doc_status demo_invoice = ''DRAFT''" "posting_date_of demo_invoice = Date 2024 5 10" by code_simp+
  with closed_period_refuses [OF demo_closed_reach this(1-4)] show ?thesis by blast
qed

section \<open>Reversing\<close>

text \<open>C13. Reversing a document adds one posted entry that names the original as the entry it reverses; over
  the original and the reversal together every account nets to zero.\<close>

theorem reversal_nets_to_zero:
  assumes "reach initial fstep db" and "reverse_document i reason rq db = Inr (k, db')"
  shows "\<exists>p e ls. p \<in> set (t_vals (f_postings db)) \<and> po_document p = i
     \<and> f_journals db' = t_add e (f_journals db) \<and> f_jlines db' = t_add_all ls (f_jlines db)
     \<and> je_reversal_of e = Some (po_journal p) \<and> je_status e = ''POSTED''
     \<and> (\<forall>a. net a (entry_lines (f_jlines db') (po_journal p) @ ls) = 0)"
  using assms(2)
proof (cases rule: reverse_document_effect)
  case (1 d p pid per db1 original row jls)
  note J = ledger_inv_D(1) [OF ledger.always [OF assms(1)]]
  note c = core_fields [OF 1(17)]
  have "net a jls = - net a (entry_lines (f_jlines db) (po_journal p))" for a
    unfolding entry_lines_def
    by (rule net_mirror [OF 1(10)]) (use J in \<open>auto simp: journals_ok_def lines_ok_def\<close>)
  moreover have "po_journal p < next_id (f_journals db)"
    using J 1(8) t_get_below by (auto simp: journals_ok_def)
  then have "entry_lines (f_jlines db') (po_journal p) = entry_lines (f_jlines db) (po_journal p)"
    using mirror_jlines_own [OF 1(10)] by (fastforce simp: c(4) entry_lines_add_all filter_empty_conv)
  ultimately have "\<forall>a. net a (entry_lines (f_jlines db') (po_journal p) @ jls) = 0" by simp
  with 1(4,5,11,15) c(3,4) show ?thesis by blast
qed

theorem reversal_nets_to_zero_witness:
  "\<exists>e ls. f_journals demo6 = t_add e (f_journals demo5) \<and> f_jlines demo6 = t_add_all ls (f_jlines demo5)
     \<and> je_status e = ''POSTED''"
  using reversal_nets_to_zero [OF demo_reach(2) demo_step6] by blast

text \<open>C14. Reversing a document ends its settlements: no allocation names it any more, its paid amount is
  zero and it is reversed, and every other document keeps its total and its status and gives back exactly
  what was allocated between the two.\<close>

theorem reversal_releases_settlements:
  assumes "reach initial fstep db" and "reverse_document i reason rq db = Inr (k, db')"
    and "t_get (f_documents db) j = Some x"
  shows "(\<forall>a \<in> set (t_vals (f_allocations db')). \<not> touches i a)
     \<and> (\<exists>y. t_get (f_documents db') j = Some y \<and> doc_total y = doc_total x
         \<and> (if j = i then doc_status y = ''REVERSED'' \<and> doc_paid y = 0
            else doc_status y = doc_status x
              \<and> doc_paid y = doc_paid x - t_sum al_amount (\<lambda>a. touches i a \<and> touches j a) (f_allocations db)))"
  using assms(2)
proof (cases rule: reverse_document_effect)
  case (1 d p pid per db1 original row jls)
  note c = core_fields [OF 1(17) [folded reversed_documents_def]]
  note S = ledger_inv_D(2) [OF ledger.always [OF assms(1)]]
  have S': "subledger_ok (f_documents db') (f_allocations db')"
    unfolding c by (rule subledger_ok_reverse [OF S 1(2)])
  have al: "\<forall>a \<in> set (t_vals (f_allocations db')). \<not> touches i a" by (simp add: c)
  define y where "y = (if j = i then (fold release (releases (f_allocations db) i i) d)\<lparr>doc_paid := 0, doc_status := ''REVERSED''\<rparr>
      else fold release (releases (f_allocations db) i j) x)"
  have y: "t_get (f_documents db') j = Some y" "doc_total y = doc_total x"
    "if j = i then doc_status y = ''REVERSED'' else doc_status y = doc_status x"
    using assms(3) 1(2) by (auto simp: c reversed_get [OF 1(2)] y_def)
  have paid: "doc_paid x = settled (f_allocations db) j" "doc_paid y = settled (f_allocations db') j"
    using S S' assms(3) y(1) unfolding subledger_ok_def document_ok_def by blast+
  show ?thesis
  proof (cases "j = i")
    case True
    have none: "filter (touches i) (t_vals (f_allocations db')) = []" using al by (simp add: filter_empty_conv)
    have "doc_paid y = 0" unfolding paid True settled_def t_sum_def none by simp
    with True al y show ?thesis by simp
  next
    case False
    have "releases (f_allocations db) i j = filter (\<lambda>a. touches i a \<and> touches j a) (t_vals (f_allocations db))"
      unfolding releases_def filter_filter by (rule filter_cong) (use other_side_touches [OF False] in auto)
    then have "(\<Sum>a\<leftarrow>releases (f_allocations db) i j. al_amount a) = t_sum al_amount (\<lambda>a. touches i a \<and> touches j a) (f_allocations db)"
      by (simp only: t_sum_def)
    moreover have "settled (f_allocations db) j
        = (\<Sum>a\<leftarrow>releases (f_allocations db) i j. al_amount a) + settled (f_allocations db') j"
      unfolding c by (rule settled_split [OF False])
    ultimately have "doc_paid y = doc_paid x - t_sum al_amount (\<lambda>a. touches i a \<and> touches j a) (f_allocations db)"
      unfolding paid by linarith
    with False al y show ?thesis by auto
  qed
qed

theorem reversal_releases_settlements_witness:
  "\<exists>y. t_get (f_documents demo6) 2 = Some y \<and> doc_status y = ''POSTED''"
proof -
  have x: "t_get (f_documents demo5) 2 = Some ((demo_posted demo_receipt)\<lparr>doc_paid := 60\<rparr>)"
    "doc_status ((demo_posted demo_receipt)\<lparr>doc_paid := 60\<rparr>) = ''POSTED''" by code_simp+
  from reversal_releases_settlements [OF demo_reach(2) demo_step6 x(1)] x(2) show ?thesis by auto
qed

section \<open>Allocating\<close>

text \<open>C15. A new allocation is positive and fits both what is left of the payment and what is outstanding on
  the target; it is recorded once, rounded to the four decimals of its column, and raises the paid amount of both
  documents by exactly what was recorded, in the same currency.\<close>

theorem allocation_moves_amount:
  assumes "reach initial fstep db" and "allocate_payment i data key rq db = Inr (ans, db')" and "\<not> aa_replay ans"
  shows "\<exists>p t a p' t'. t_get (f_documents db) i = Some p \<and> t_get (f_documents db) (aa_target ans) = Some t
     \<and> doc_currency p = doc_currency t \<and> 0 < aa_amount ans
     \<and> aa_amount ans \<le> doc_total p - allocated_from db i \<and> aa_amount ans \<le> doc_total t - doc_paid t
     \<and> f_allocations db' = t_add a (f_allocations db) \<and> al_payment a = i \<and> al_target a = aa_target ans
     \<and> al_amount a = col4 (aa_amount ans) \<and> al_key a = key
     \<and> t_get (f_documents db') i = Some p' \<and> doc_paid p' = doc_paid p + al_amount a
     \<and> t_get (f_documents db') (aa_target ans) = Some t' \<and> doc_paid t' = doc_paid t + al_amount a"
  using assms(2)
proof (cases rule: allocate_payment_effect)
  case (replay a)
  then have "aa_replay ans" by (auto simp: replay_allocation_def Let_def ebind_Inr_iff case_prod_unfold)
  with assms(3) show ?thesis by simp
next
  case (fresh payment t target amount a payment' target')
  note S = ledger_inv_D(2) [OF ledger.always [OF assms(1)]]
  note chk = check_settlement_Inr [OF fresh(3)]
  have ne: "i \<noteq> t" using fresh(1,2) chk(3,4) payment_not_invoice by auto
  have paid: "doc_paid x' = doc_paid x + col4 amount"
    if "t_get (f_documents db) j = Some x" "flush_document (x\<lparr>doc_paid := doc_paid x + amount\<rparr>) = Inr x'" for j x x'
  proof -
    have "document_ok (f_allocations db) j x" using S that(1) by (simp add: subledger_ok_def)
    then have "has_places 4 (doc_paid x)" "0 \<le> doc_paid x"
      using settled_nonneg [OF S, of j] by (auto simp: document_ok_def)
    then show ?thesis
      using flush_document_fields(9) [OF that(2)] quantize_add_nonneg [of 4 "doc_paid x" amount] chk(2) by simp
  qed
  have docs: "t_get (f_documents db') i = Some payment'" "t_get (f_documents db') t = Some target'"
    using fresh(1,2,13) ne by simp_all
  have als: "f_allocations db' = t_add a (f_allocations db)" using fresh(13) by simp
  show ?thesis
    unfolding fresh(15,16)
    using fresh(1,2,4-9) chk(2,7) paid [OF fresh(1,11)] paid [OF fresh(2,12)] docs als
    by (intro exI conjI) auto
qed

theorem allocation_moves_amount_witness:
  "\<exists>a. f_allocations demo5 = t_add a (f_allocations demo4) \<and> al_payment a = 2 \<and> al_target a = 1"
proof -
  have reach4: "reach initial fstep demo4"
    by (rule reach_step [OF reach_step [OF demo_reach2]]) (rule demo_run)+
  have "\<not> aa_replay demo_answer" "aa_target demo_answer = 1" by (simp_all add: demo_answer_def)
  from allocation_moves_amount [OF reach4 demo_step5 this(1)] this(2) show ?thesis by auto
qed

text \<open>An idempotency key settles once: repeating an allocation with the key of one that was recorded
  returns that allocation, marked as a replay, and changes nothing, whatever the repeated request asks for.\<close>

theorem allocation_replay:
  assumes "allocate_payment i data (Some key) rq db = Inr (ans, db')" and "key \<noteq> []"
    and "allocate_payment i' data' (Some key) rq' db' = Inr (ans', db'')"
  shows "db'' = db' \<and> aa_replay ans'"
proof -
  have "\<exists>a \<in> set (t_vals (f_allocations db')). al_key a = Some key"
    using assms(1) by (cases rule: allocate_payment_effect) auto
  then obtain x where x: "t_first (\<lambda>a. al_key a = Some key) (f_allocations db') = Some x"
    by (cases "t_first (\<lambda>a. al_key a = Some key) (f_allocations db')") (auto simp: t_first_None)
  obtain j a where "x = (j, a)" by (cases x)
  with assms(2,3) x show ?thesis
    by (auto simp: allocate_payment_def ebind_Inr_iff replay_allocation_def Let_def case_prod_unfold)
qed

theorem allocation_replay_witness:
  "\<exists>ans. allocate_payment 2 allocation_request (Some ''k1'') demo_rq demo5 = Inr (ans, demo5) \<and> aa_replay ans"
proof -
  have "case allocate_payment 2 allocation_request (Some ''k1'') demo_rq demo5 of Inl _ \<Rightarrow> False | Inr _ \<Rightarrow> True"
    by code_simp
  then obtain ans db'' where r: "allocate_payment 2 allocation_request (Some ''k1'') demo_rq demo5 = Inr (ans, db'')"
    by (auto split: sum.splits)
  from allocation_replay [OF demo_step5 _ r] r show ?thesis by auto
qed

end
