(* ===== verification/Numbering.thy ===== *)
theory Numbering
  imports SetupMachine
begin

text \<open>
  The counters behind the document numbers along the runs of the finance service. Every operation leaves the
  sequences alone or draws one number; only their administration (\<open>upsert_sequence\<close>) can set a counter back.
  So two numbers given for a type and a year differ as long as that counter was not set back in between.
\<close>

section \<open>A number determines its counter value\<close>

lemma last_dash:
  assumes "u @ ''-'' @ s = v @ ''-'' @ t" and "CHR ''-'' \<notin> set s" and "CHR ''-'' \<notin> set t"
  shows "s = t"
proof -
  have "takeWhile (\<lambda>c. c \<noteq> CHR ''-'') (rev (w @ ''-'' @ x)) = rev x" if "CHR ''-'' \<notin> set x" for w x
    using that by (induction x rule: rev_induct) auto
  from this [OF assms(2), of u] this [OF assms(3), of v] have "rev s = rev t" unfolding assms(1) by metis
  then show ?thesis by simp
qed

lemma zfill_no_dash: "0 \<le> n \<Longrightarrow> CHR ''-'' \<notin> set (zfill (show_int n) w)"
proof
  assume "0 \<le> n" and "CHR ''-'' \<in> set (zfill (show_int n) w)"
  then have "CHR ''-'' \<in> set (show_nat (nat n))" by (auto simp: zfill_def show_int_def split: list.splits if_splits)
  then have "is_digit CHR ''-''" using show_nat_digits [of "nat n"] by (auto simp: list_all_iff)
  then show False by (simp add: is_digit_def)
qed

lemma number_text_value:
  assumes "number_text p y v m = number_text q z w n" and "0 \<le> m" and "0 \<le> n"
  shows "m = n"
proof -
  have "(p @ show_int y) @ ''-'' @ zfill (show_int m) (nat v) = (q @ show_int z) @ ''-'' @ zfill (show_int n) (nat w)"
    using assms(1) by (simp add: number_text_def)
  then have "zfill (show_int m) (nat v) = zfill (show_int n) (nat w)"
    by (rule last_dash) (simp_all add: zfill_no_dash assms(2,3))
  then have "digits_val (show_int m) = digits_val (show_int n)" by (metis digits_val_zfill)
  with assms(2,3) show ?thesis by (simp add: show_int_def)
qed

section \<open>Drawing a number\<close>

definition counter_value :: "string \<Rightarrow> int \<Rightarrow> fdb \<Rightarrow> int" where
  "counter_value ty y db = seq_last (current_sequence ty y db)"

definition period_year_of :: "int option \<Rightarrow> request \<Rightarrow> int" where
  "period_year_of year rq = (case year of Some y \<Rightarrow> if y = 0 then rq_year rq else y | None \<Rightarrow> rq_year rq)"

lemma is_sequence_new: "is_sequence ty' y' (new_sequence ty p y) \<longleftrightarrow> ty' = ty \<and> y' = y"
  by (auto simp: is_sequence_def new_sequence_def)

lemma is_sequence_other: "is_sequence ty y s \<Longrightarrow> is_sequence ty' y' s \<longleftrightarrow> ty' = ty \<and> y' = y"
  by (auto simp: is_sequence_def)

lemma allocate_draws:
  assumes ok: "table_ok (f_sequences db)" and a: "allocate_number ty p year rq db = (m, db')"
  shows "table_ok (f_sequences db')"
    and "\<exists>q w. m = number_text q (period_year_of year rq) w (counter_value ty (period_year_of year rq) db + 1)"
    and "counter_value ty' y' db' =
       (if ty' = ty \<and> y' = period_year_of year rq then counter_value ty' y' db + 1 else counter_value ty' y' db)"
proof -
  let ?y = "period_year_of year rq"
  let ?t = "f_sequences db"
  let ?P = "is_sequence ty ?y"
  obtain i s t' where s: "?P s" "seq_last s = counter_value ty ?y db" "table_ok t'" "t_first ?P t' = Some (i, s)"
    and t': "\<And>P. \<not> P s \<Longrightarrow> t_first P t' = t_first P ?t"
    and m: "m = number_text (seq_prefix s) ?y (seq_padding s) (seq_last s + 1)"
    and db': "db' = db\<lparr>f_sequences := t_put i (s\<lparr>seq_last := seq_last s + 1\<rparr>) t'\<rparr>"
  proof (cases "t_first ?P ?t")
    case None
    let ?s = "new_sequence ty p ?y"
    have "seq_last ?s = counter_value ty ?y db"
      by (simp add: counter_value_def current_sequence_def None new_sequence_def)
    with None a ok show thesis
      by (intro that [of ?s "t_add ?s ?t" "next_id ?t"])
        (auto simp: allocate_number_def Let_def is_sequence_new t_first_add t_first_add_other
          simp flip: period_year_of_def)
  next
    case (Some ir)
    then obtain i r where ir: "t_first ?P ?t = Some (i, r)" by (cases ir) auto
    with a ok t_first_Some [OF ir] show thesis
      by (intro that [of r ?t i])
        (auto simp: allocate_number_def Let_def counter_value_def current_sequence_def simp flip: period_year_of_def)
  qed
  have get: "t_get t' i = Some s" using t_first_get [OF s(3,4)] by simp
  show "table_ok (f_sequences db')" using s(3) by (simp add: db')
  show "\<exists>q w. m = number_text q ?y w (counter_value ty ?y db + 1)" using m s(2) by auto
  let ?s' = "s\<lparr>seq_last := seq_last s + 1\<rparr>"
  show "counter_value ty' y' db' = (if ty' = ty \<and> y' = ?y then counter_value ty' y' db + 1 else counter_value ty' y' db)"
  proof (cases "ty' = ty \<and> y' = ?y")
    case True
    have "t_first ?P (t_put i ?s' t') = Some (i, ?s')"
      using s by (intro t_first_put) (simp_all add: is_sequence_step)
    then show ?thesis using True s(2) by (simp add: counter_value_def current_sequence_def db')
  next
    case False
    then have other: "\<not> is_sequence ty' y' s" "\<not> is_sequence ty' y' ?s'"
      using is_sequence_other [OF s(1)] by (auto simp: is_sequence_step)
    have "t_first (is_sequence ty' y') (t_put i ?s' t') = t_first (is_sequence ty' y') ?t"
      using t_first_put_other [OF s(3) get other] t' other(1) by simp
    then show ?thesis using False by (auto simp: counter_value_def current_sequence_def db')
  qed
qed

lemma allocate_nonneg: "sequences_ok db \<Longrightarrow> 0 \<le> counter_value ty y db"
  using t_first_vals [of "is_sequence ty y" "f_sequences db"]
  by (auto simp: counter_value_def current_sequence_def sequences_ok_def list_all_iff new_sequence_def split: option.splits)

section \<open>What the operations do to the sequences\<close>

text \<open>The sequences are as they were, or one number was drawn.\<close>

definition numbered :: "fdb \<Rightarrow> fdb \<Rightarrow> bool" where
  "numbered db db' \<longleftrightarrow> f_sequences db' = f_sequences db
     \<or> (\<exists>ty p year rq. f_sequences db' = f_sequences (snd (allocate_number ty p year rq db)))"

lemma numbered_same: "f_sequences db' = f_sequences db \<Longrightarrow> numbered db db'"
  by (simp add: numbered_def)

lemma numbered_refl [simp]: "numbered db db"
  by (rule numbered_same) simp

lemma allocate_sequences: "f_sequences d = f_sequences db \<Longrightarrow>
    f_sequences (snd (allocate_number ty p year rq d)) = f_sequences (snd (allocate_number ty p year rq db))"
  by (simp add: allocate_number_def Let_def case_prod_unfold)

lemma numbered_drawn:
  "f_sequences d = f_sequences db \<Longrightarrow> f_sequences db' = f_sequences (snd (allocate_number ty p year rq d)) \<Longrightarrow> numbered db db'"
  unfolding numbered_def by (metis allocate_sequences)

lemma numbered_allocate: "allocate_number ty p year rq db = (m, db') \<Longrightarrow> numbered db db'"
  unfolding numbered_def by (metis snd_conv)

lemma resolve_period_sequences: "resolve_period d db = Inr (x, db') \<Longrightarrow> f_sequences db' = f_sequences db"
  by (erule resolve_period_frame) simp

lemma open_document_numbered:
  assumes "open_document data ty stored cur rq db = Inr (x, db1)"
  shows "numbered db db1"
proof (cases stored)
  case None
  obtain c r b p where cur: "cur = (c, r, b, p)" by (cases cur)
  define n where "n = (if \<not> truthy (py_or (dget data ''documentNo'') (dget data ''debitNoteNo''))
        \<or> py_strip (py_str (py_or (dget data ''documentNo'') (dget data ''debitNoteNo''))) = []
      then allocate_number ty None None rq db else (py_str (py_or (dget data ''documentNo'') (dget data ''debitNoteNo'')), db))"
  have n: "numbered db (snd n)" using numbered_drawn [OF refl refl, of db ty None None rq] by (auto simp: n_def)
  from assms have "f_sequences db1 = f_sequences (snd n)"
    unfolding open_document_def cur None Let_def n_def [symmetric]
    by (auto simp: ebind_Inr_iff case_prod_unfold split: if_splits)
  with n show ?thesis by (simp add: numbered_def)
next
  case (Some y)
  with assms show ?thesis
    by (cases y) (auto simp: open_document_def Let_def case_prod_unfold split: if_splits)
qed

lemma save_document_numbered:
  assumes "save_document data rq db = Inr (i, db')"
  shows "numbered db db'"
proof -
  from assms obtain data1 ty stored cur x db1 where
    opened: "open_document data1 ty stored cur rq db = Inr (x, db1)" and "f_sequences db' = f_sequences db1"
    unfolding save_document_def Let_def
    by (auto simp: ebind_Inr_iff case_prod_unfold)
  with open_document_numbered [OF opened] show ?thesis by (simp add: numbered_def)
qed

lemma delete_draft_documents_sequences:
  assumes "delete_draft_documents ids db = Inr (n, db')"
  shows "f_sequences db' = f_sequences db"
proof -
  from assms have "efold delete_document (draft_ids ids db) db = Inr db'"
    by (auto simp: delete_draft_documents_def ebind_Inr_iff)
  then show ?thesis by (rule efold_invariant) (auto simp: delete_document_def ebind_Inr_iff)
qed

lemma post_document_numbered:
  assumes "post_document i rq db = Inr (k, db')"
  shows "numbered db db'"
proof -
  from assms have "db' = db \<or> (\<exists>d x db1. resolve_period d db = Inr (x, db1)
      \<and> f_sequences db' = f_sequences (snd (allocate_number ''JOURNAL'' None None rq db1)))"
    by (auto simp: post_document_def Let_def ebind_Inr_iff case_prod_unfold split: if_splits) metis+
  then show ?thesis by (auto intro: numbered_drawn dest: resolve_period_sequences)
qed

lemma reverse_document_numbered:
  assumes "reverse_document i reason rq db = Inr (k, db')"
  shows "numbered db db'"
proof -
  from assms have "\<exists>d x db1. resolve_period d db = Inr (x, db1)
      \<and> f_sequences db' = f_sequences (snd (allocate_number ''JOURNAL'' None None rq db1))"
    by (auto simp: reverse_document_def Let_def ebind_Inr_iff case_prod_unfold split: if_splits) metis+
  then show ?thesis by (auto intro: numbered_drawn dest: resolve_period_sequences)
qed

lemma allocate_payment_sequences:
  assumes "allocate_payment i data key rq db = Inr (ans, db')"
  shows "f_sequences db' = f_sequences db"
  using assms by (cases rule: allocate_payment_effect) simp_all

lemma add_invoice_sequences: "add_invoice d lines sources db = Inr (i, db') \<Longrightarrow> f_sequences db' = f_sequences db"
  by (auto dest!: add_invoice_Inr)

lemma create_invoice_numbered:
  assumes "create_invoice_from_charge c rq db = Inr (i, db') \<or> create_invoice_from_service_order x rq db = Inr (i, db')"
  shows "numbered db db'"
proof -
  from assms have "db' = db \<or> f_sequences db' = f_sequences (snd (allocate_number ''CUSTOMER_INVOICE'' None None rq db))"
    by (auto simp: create_invoice_from_charge_def create_invoice_from_service_order_def Let_def ebind_Inr_iff case_prod_unfold
      dest!: add_invoice_sequences split: option.splits if_splits)
  then show ?thesis by (auto intro: numbered_drawn)
qed

lemma open_journal_numbered:
  assumes "open_journal data stored ed pd pid rq db = Inr (x, db')"
  shows "numbered db db'"
proof -
  from assms have "f_sequences db' = f_sequences db \<or> f_sequences db' = f_sequences (snd (allocate_number ''JOURNAL'' None None rq db))"
    by (auto simp: open_journal_def Let_def ebind_Inr_iff case_prod_unfold split: option.splits if_splits)
  then show ?thesis by (auto simp: numbered_def)
qed

lemma save_journal_numbered:
  assumes "save_journal data rq db = Inr (i, db')"
  shows "numbered db db'"
proof -
  from assms obtain d x db1 data1 stored ed pd pid y db3 where
    p: "resolve_period d db = Inr (x, db1)" and o: "open_journal data1 stored ed pd pid rq db1 = Inr (y, db3)"
    and db': "f_sequences db' = f_sequences db3"
    unfolding save_journal_def Let_def by (auto simp: ebind_Inr_iff case_prod_unfold)
  from open_journal_numbered [OF o] resolve_period_sequences [OF p] show ?thesis
    by (auto simp: numbered_def db') (metis allocate_sequences)
qed

lemma post_journal_sequences: "post_journal i rq db = Inr (k, db') \<Longrightarrow> f_sequences db' = f_sequences db"
  by (erule post_journal_effect) simp_all

lemma delete_journals_sequences:
  assumes "delete_journals ids db = Inr db'"
  shows "f_sequences db' = f_sequences db"
  using assms unfolding delete_journals_def
  by (rule efold_invariant) (auto elim: delete_journal_effect)

lemma setup_ops_sequences:
  "create_account data rq db = Inr (x, db') \<Longrightarrow> f_sequences db' = f_sequences db"
  "update_account i data rq db = Inr (x, db') \<Longrightarrow> f_sequences db' = f_sequences db"
  "create_posting_rule data rq db = Inr (k, db') \<Longrightarrow> f_sequences db' = f_sequences db"
  "update_posting_rule i data rq db = Inr (k, db') \<Longrightarrow> f_sequences db' = f_sequences db"
  "update_period i data rq db = Inr (y, db') \<Longrightarrow> f_sequences db' = f_sequences db"
  "close_period i rq db = Inr (y, db') \<Longrightarrow> f_sequences db' = f_sequences db"
  "reopen_period i rq db = Inr (y, db') \<Longrightarrow> f_sequences db' = f_sequences db"
  by (auto dest!: create_account_Inr update_account_Inr create_posting_rule_Inr update_posting_rule_Inr
      simp: update_period_def close_period_def reopen_period_def with_period_def ebind_Inr_iff)

lemma fin_account_sequences:
  "create_financial_account data rq db = Inr (i, db') \<Longrightarrow> f_sequences db' = f_sequences db"
  "update_financial_account i data rq db = Inr (k, db') \<Longrightarrow> f_sequences db' = f_sequences db"
  by (auto simp: create_financial_account_def update_financial_account_def ebind_Inr_iff Let_def)

lemma delete_ops_sequences:
  "delete_accounts ids db = Inr db' \<Longrightarrow> f_sequences db' = f_sequences db"
  "delete_financial_accounts ids db = Inr db' \<Longrightarrow> f_sequences db' = f_sequences db"
  "delete_posting_rules ids db = Inr db' \<Longrightarrow> f_sequences db' = f_sequences db"
proof -
  show "delete_accounts ids db = Inr db' \<Longrightarrow> f_sequences db' = f_sequences db"
    by (auto simp: delete_accounts_def ebind_Inr_iff dest: delete_accounts_frame)
  show "delete_financial_accounts ids db = Inr db' \<Longrightarrow> f_sequences db' = f_sequences db"
    unfolding delete_financial_accounts_def
    by (rule efold_invariant) (auto simp: delete_financial_account_def ebind_Inr_iff split: option.splits)
  show "delete_posting_rules ids db = Inr db' \<Longrightarrow> f_sequences db' = f_sequences db"
    unfolding delete_posting_rules_def
    by (rule efold_invariant) (auto dest!: delete_posting_rule_Inr)
qed

text \<open>Every step of the finance service, the administration of sequences apart.\<close>

lemma fstep_numbered:
  "fstep db db' \<Longrightarrow> numbered db db' \<or> (\<exists>data rq ans. upsert_sequence data rq db = Inr (ans, db'))"
proof (induction rule: fstep.induct)
  case (fs_other_modules db c r ty p f os ch cl cur)
  then show ?case by (simp add: numbered_def)
qed (blast intro: numbered_same numbered_allocate save_document_numbered post_document_numbered reverse_document_numbered
      create_invoice_numbered save_journal_numbered delete_draft_documents_sequences allocate_payment_sequences
      post_journal_sequences delete_journals_sequences setup_ops_sequences fin_account_sequences delete_ops_sequences
      resolve_period_sequences)+

section \<open>Numbers along a run\<close>

text \<open>
  A step of the finance service that does not set back the counter of a type and a year: any operation but
  \<open>upsert_sequence\<close>, and \<open>upsert_sequence\<close> when it leaves that counter where it is or raises it.
\<close>

inductive counting :: "string \<Rightarrow> int \<Rightarrow> fdb \<Rightarrow> fdb \<Rightarrow> bool" for ty y where
  counting_step: "fstep db db' \<Longrightarrow>
    (\<And>data rq ans. upsert_sequence data rq db = Inr (ans, db') \<Longrightarrow> counter_value ty y db \<le> counter_value ty y db') \<Longrightarrow>
    counting ty y db db'"

lemma numbered_counter:
  assumes "numbered db db'" and "table_ok (f_sequences db)"
  shows "table_ok (f_sequences db') \<and> counter_value ty y db \<le> counter_value ty y db'"
proof -
  have eq: "counter_value ty y d = counter_value ty y e" if "f_sequences d = f_sequences e" for d e
    using that by (simp add: counter_value_def current_sequence_def)
  show ?thesis
  proof (cases "f_sequences db' = f_sequences db")
    case True
    with assms(2) eq [OF True] show ?thesis by simp
  next
    case False
    with assms(1) obtain ty' p year rq where s: "f_sequences db' = f_sequences (snd (allocate_number ty' p year rq db))"
      by (auto simp: numbered_def)
    obtain m d where d: "allocate_number ty' p year rq db = (m, d)" by (metis surj_pair)
    have "counter_value ty y db' = counter_value ty y d" using s d by (intro eq) simp
    with allocate_draws [OF assms(2) d] s d show ?thesis by simp
  qed
qed

lemma upsert_table: "upsert_sequence data rq db = Inr (ans, db') \<Longrightarrow> table_ok (f_sequences db) \<Longrightarrow> table_ok (f_sequences db')"
  by (auto simp: upsert_sequence_def ebind_Inr_iff Let_def split: option.splits)

lemma counting_counter:
  assumes "counting ty y db db'" and "table_ok (f_sequences db)"
  shows "table_ok (f_sequences db') \<and> counter_value ty y db \<le> counter_value ty y db'"
  using assms(1)
proof cases
  case counting_step
  from fstep_numbered [OF this(1)] show ?thesis
    using numbered_counter [OF _ assms(2)] counting_step(2) upsert_table assms(2) by blast
qed

interpretation counters: evolution "\<lambda>db. table_ok (f_sequences db)" "counting ty y" "\<lambda>db. table_ok (f_sequences db)"
    "\<lambda>db db'. counter_value ty y db \<le> counter_value ty y db'" for ty y
  by unfold_locales (auto dest: counting_counter)

lemma later_number_differs:
  assumes ok: "sequences_ok db" and first: "allocate_number ty p year rq db = (m, db1)"
    and between: "run (counting ty (period_year_of year rq)) db1 db2"
    and second: "allocate_number ty p' year' rq' db2 = (n, db3)" and same: "period_year_of year' rq' = period_year_of year rq"
  shows "m \<noteq> n"
proof
  assume "m = n"
  let ?y = "period_year_of year rq"
  have t: "table_ok (f_sequences db)" using ok by (simp add: sequences_ok_def)
  note draw = allocate_draws [OF t first]
  have later: "table_ok (f_sequences db2)" "counter_value ty ?y db1 \<le> counter_value ty ?y db2"
    using counters.along [OF between draw(1)] counters.run_later [OF between draw(1)] by auto
  from draw(2) allocate_draws(2) [OF later(1) second] \<open>m = n\<close> same obtain q w q' w' where
    "number_text q ?y w (counter_value ty ?y db + 1) = number_text q' ?y w' (counter_value ty ?y db2 + 1)" by metis
  moreover have "0 \<le> counter_value ty ?y db" using ok by (rule allocate_nonneg)
  moreover have "counter_value ty ?y db + 1 \<le> counter_value ty ?y db2" using draw(3) [of ty ?y] later(2) by simp
  ultimately show False using number_text_value by fastforce
qed

end
