(* ===== verification/FinanceProperties.thy ===== *)
theory FinanceProperties
  imports PostingProperties Numbering
begin

text \<open>
  The correctness of the parts the ledger is built from: numbering, exchange rates, rounding, the
  validation of payloads, the draft of a journal, the chart of accounts, and the invoices created from
  service charges.
\<close>

section \<open>Numbering\<close>

text \<open>C17. Two numbers given for the same document type and year are different, whatever the finance service
  did in between, as long as nobody set that counter back through the administration of sequences
  (\<open>upsert_sequence\<close> may lower the last value; it is the only operation that can).\<close>

theorem allocated_numbers_distinct:
  assumes "sequences_ok db" and "allocate_number ty p year rq db = (m, db1)"
    and "run (counting ty (period_year_of year rq)) db1 db2"
    and "allocate_number ty p' year' rq' db2 = (n, db3)" and "period_year_of year' rq' = period_year_of year rq"
  shows "m \<noteq> n"
  using assms by (rule later_number_differs)

text \<open>Two journal numbers of \<open>demo6\<close>, with an invoice number drawn between them.\<close>

theorem allocated_numbers_distinct_witness:
  "''JE2024-000004'' \<noteq> ''JE2024-000005''"
proof (rule allocated_numbers_distinct [where db = demo6 and ty = "''JOURNAL''" and p = None and year = None and rq = demo_rq
      and p' = None and year' = None and rq' = demo_rq])
  let ?d1 = "snd (allocate_number ''JOURNAL'' None None demo_rq demo6)"
  let ?d2 = "snd (allocate_number ''CUSTOMER_INVOICE'' None None demo_rq ?d1)"
  show "sequences_ok demo6" by code_simp
  show "allocate_number ''JOURNAL'' None None demo_rq demo6 = (''JE2024-000004'', ?d1)"
    by (rule prod_eqI) (code_simp, simp)
  show "allocate_number ''JOURNAL'' None None demo_rq ?d2 = (''JE2024-000005'', snd (allocate_number ''JOURNAL'' None None demo_rq ?d2))"
    by (rule prod_eqI) (code_simp, simp)
  have "counter_value ''JOURNAL'' (period_year_of None demo_rq) ?d1 \<le> counter_value ''JOURNAL'' (period_year_of None demo_rq) ?d2"
    by code_simp
  then show "run (counting ''JOURNAL'' (period_year_of None demo_rq)) ?d1 ?d2"
    by (intro run_single counting_step fs_issue_number [OF surjective_pairing])
qed simp

text \<open>The preview shown with a sequence is the number the next allocation gives.\<close>

theorem preview_is_next_number:
  assumes "t_first (is_sequence ty (rq_year rq)) (f_sequences db) = Some (i, s)"
  shows "fst (allocate_number ty None None rq db) = sequence_preview s"
  using t_first_Some [OF assms]
  by (simp add: allocate_number_def Let_def assms sequence_preview_def is_sequence_def)

theorem preview_is_next_number_witness:
  "fst (allocate_number ''JOURNAL'' None None demo_rq demo6) = sequence_preview (demo_seq ''JOURNAL'' ''JE'' 3)"
proof -
  have "t_first (is_sequence ''JOURNAL'' (rq_year demo_rq)) (f_sequences demo6) = Some (3, demo_seq ''JOURNAL'' ''JE'' 3)"
    by code_simp
  then show ?thesis by (rule preview_is_next_number)
qed

section \<open>Exchange rates and rounding\<close>

text \<open>A converted amount has the places it is asked for (a document asks for those of its own currency) and is
  at most half a unit of the last of them away from the product of amount and rate in 28 digits.\<close>

theorem converted_amount_close:
  assumes "convert_to_base amount rate precision = Inr b"
  shows "has_places (nat (clamp_precision precision)) b
     \<and> \<bar>b - dmul amount rate\<bar> \<le> 1 / (2 * 10 ^ nat (clamp_precision precision))"
  using convert_to_base_result [OF assms] quantize_close by simp

theorem converted_amount_close_witness:
  "convert_to_base (1 / 8) 1 2 = Inr (13 / 100) \<and> has_places 2 (13 / 100)
     \<and> \<bar>13 / 100 - dmul (1 / 8) 1\<bar> \<le> 1 / (2 * 10 ^ 2)"
proof -
  have "convert_to_base (1 / 8) 1 2 = Inr (13 / 100)" by code_simp
  moreover have "nat (clamp_precision 2) = 2" by code_simp
  ultimately show ?thesis using converted_amount_close [of "1 / 8" 1 2 "13 / 100"] by simp
qed

text \<open>A rate that is accepted is positive, within the limit, kept to eight places, and reads back from
  storage as itself.\<close>

theorem accepted_rate_round_trip:
  assumes "normalize_rate v = Inr q"
  shows "0 < q \<and> q \<le> MAX_RATE \<and> has_places rate_places q \<and> normalize_rate (PDec (DFin q)) = Inr q"
  using normalize_rate_range [OF assms] normalize_rate_stored [OF assms] by blast

theorem accepted_rate_round_trip_witness: "normalize_rate (PDec (DFin 4100)) = Inr 4100"
proof -
  have "normalize_rate (PInt 4100) = Inr 4100" by code_simp
  from accepted_rate_round_trip [OF this] show ?thesis by blast
qed

text \<open>C21. The rate a document stores is 1 in the base currency and else positive, within the limit and of
  eight places; its precision is that of its currency.\<close>

theorem document_rate_usable:
  assumes "document_currency_inputs data c b day stored db = Inr (currency, rate, base, precision)"
  shows "0 < rate \<and> rate \<le> MAX_RATE \<and> has_places rate_places rate
     \<and> (same_currency (Some currency) (Some base) \<longrightarrow> rate = 1)
     \<and> precision = currency_precision currency db \<and> 0 \<le> precision \<and> precision \<le> 6"
  using document_currency_inputs_Inr [OF assms] by simp

theorem document_rate_usable_witness:
  "same_currency (Some ''USD'') (Some ''USD'') \<and> 0 < (1 :: rat) \<and> currency_precision ''USD'' demo0 = 2"
proof -
  have "document_currency_inputs [] ''usd'' ''USD'' None None demo0 = Inr (''USD'', 1, ''USD'', 2)" by code_simp
  moreover have "same_currency (Some ''USD'') (Some ''USD'')" by code_simp
  ultimately show ?thesis using document_rate_usable [of "[]" "''usd''" "''USD''" None None demo0] by simp
qed

text \<open>C22. The rate taken from the rate table is an approved one for the pair that is in effect on the day, and
  no other such rate is more recent; there is none exactly when the table has no such rate.\<close>

theorem latest_approved_rate:
  "case latest_approved f t day db of
     None \<Rightarrow> \<not> (\<exists>s \<in> set (t_vals (f_rates db)). rate_covers f t day s)
   | Some r \<Rightarrow> rate_covers f t day r \<and>
       \<not> (\<exists>s \<in> set (t_vals (f_rates db)). rate_covers f t day s \<and> cr_effective r < cr_effective s)"
proof (cases "latest_approved f t day db")
  case None
  then show ?thesis using latest_approved_None [of f t day db] by simp
next
  case (Some r)
  then show ?thesis using latest_approved_Some [OF Some] by (auto simp: not_less)
qed

section \<open>Payloads\<close>

text \<open>C23. A payload that passes a finance schema has, for every field it gives under its key or an alias, a
  value of the kind, the range, the length and the choices the schema declares; a required field is missing
  only from a partial update.\<close>

theorem validated_payload_fields:
  assumes "validate_schema s p partial = Inr out" and "s \<in> set finance_schemas" and "spec \<in> set (sch_fields s)"
  shows "case source_key spec p of None \<Rightarrow> \<not> fs_required spec \<or> partial
       | Some k \<Rightarrow> value_ok spec (dget out (fs_key spec))"
  using validate_schema_field [OF assms(1) finance_schema_wf [OF assms(2)] assms(3)] by (auto split: option.splits)

theorem validated_payload_fields_witness:
  "value_ok (hd (sch_fields ALLOCATION_WRITE_SCHEMA)) (PInt 1)"
proof -
  have v: "validate_schema ALLOCATION_WRITE_SCHEMA [(''targetDocumentId'', PInt 1), (''amount'', PInt 60)] False
      = Inr [(''targetDocumentId'', PInt 1), (''amount'', PDec (DFin 60))]" by code_simp
  have s: "ALLOCATION_WRITE_SCHEMA \<in> set finance_schemas" by (simp add: finance_schemas_def)
  have f: "hd (sch_fields ALLOCATION_WRITE_SCHEMA) \<in> set (sch_fields ALLOCATION_WRITE_SCHEMA)"
    by (simp add: ALLOCATION_WRITE_SCHEMA_def)
  have k: "source_key (hd (sch_fields ALLOCATION_WRITE_SCHEMA)) [(''targetDocumentId'', PInt 1), (''amount'', PInt 60)]
      = Some ''targetDocumentId''" "fs_key (hd (sch_fields ALLOCATION_WRITE_SCHEMA)) = ''targetDocumentId''" by code_simp+
  have "dget [(''targetDocumentId'', PInt 1), (''amount'', PDec (DFin 60))] ''targetDocumentId'' = PInt 1" by code_simp
  with validated_payload_fields [OF v s f] k show ?thesis by simp
qed

text \<open>Normalising a value is idempotent: what was stored passes the same field again and stays what it is.\<close>

theorem normalize_value_idempotent:
  assumes "normalize_value spec v = Inr w"
  shows "normalize_value spec w = Inr w"
  using assms by (rule normalize_idem)

theorem normalize_value_idempotent_witness:
  "normalize_value (field_spec_default ''name'') (PStr ''Rent'') = Inr (PStr ''Rent'')"
proof -
  have "normalize_value (field_spec_default ''name'') (PStr '' Rent '') = Inr (PStr ''Rent'')" by code_simp
  then show ?thesis by (rule normalize_value_idempotent)
qed

section \<open>The draft of a journal\<close>

text \<open>C25. A draft that is built for a document of lines without negative tax balances at a positive amount, has
  at least two lines, all of them positive, and every line goes to an account of the chart that is active and
  postable, unless a document line names that account itself.\<close>

theorem built_draft_balances:
  assumes "build (resolve legacy db) (account_by_id db) ty amount lines desc = Inr d"
    and "\<And>l. l \<in> set lines \<Longrightarrow> 0 \<le> li_tax l"
  shows "debit_total d = credit_total d \<and> 0 < debit_total d \<and> 2 \<le> length (jd_lines d) \<and> positive_lines (jd_lines d)
     \<and> (\<forall>l \<in> set (jd_lines d). chart_account db (dr_account l)
          \<and> (postable (dr_account l) \<or> (\<exists>m \<in> set lines. li_account m = Some (fst (dr_account l)))))"
  using chart.build_draft [OF assms] by (auto simp: chart.allowed_def)

theorem built_draft_balances_witness:
  "\<exists>d. build (resolve DEFAULT_ACCOUNTS demo0) (account_by_id demo0) ''CUSTOMER_RECEIPT'' 80 [] ''x'' = Inr d
     \<and> debit_total d = credit_total d"
proof -
  have "case build (resolve DEFAULT_ACCOUNTS demo0) (account_by_id demo0) ''CUSTOMER_RECEIPT'' 80 [] ''x'' of
      Inl _ \<Rightarrow> False | Inr _ \<Rightarrow> True" by code_simp
  then obtain d where d: "build (resolve DEFAULT_ACCOUNTS demo0) (account_by_id demo0) ''CUSTOMER_RECEIPT'' 80 [] ''x'' = Inr d"
    by (auto split: sum.splits)
  with built_draft_balances [OF d] show ?thesis by auto
qed

section \<open>The chart of accounts\<close>

text \<open>C26. Deleting accounts never removes one that a financial account, a document line, a posting rule or a
  journal line names, nor an active one.\<close>

theorem delete_accounts_keeps_used:
  assumes "delete_accounts ids db = Inr db'" and "t_get (f_accounts db) i = Some a"
    and "account_named db i \<or> acc_status a = ''ACTIVE''"
  shows "t_get (f_accounts db') i = Some a"
  using delete_accounts_keeps [OF assms(1,2)] assms(3) by blast

text \<open>A retired account is deleted beside an active one.\<close>

definition retired_db :: fdb where
  "retired_db = demo6\<lparr>f_accounts := t_add ((an_account ''9999'' ''ASSET'' ''DEBIT'')\<lparr>acc_status := ''INACTIVE''\<rparr>) (f_accounts demo6)\<rparr>"

theorem delete_accounts_keeps_used_witness:
  "delete_accounts [4] retired_db = Inr (retired_db\<lparr>f_accounts := t_del 4 (f_accounts retired_db)\<rparr>)
     \<and> t_get (f_accounts (retired_db\<lparr>f_accounts := t_del 4 (f_accounts retired_db)\<rparr>)) 1
        = Some (an_account ''1020'' ''ASSET'' ''DEBIT'')"
proof -
  have d: "delete_accounts [4] retired_db = Inr (retired_db\<lparr>f_accounts := t_del 4 (f_accounts retired_db)\<rparr>)" by code_simp
  have a: "t_get (f_accounts retired_db) 1 = Some (an_account ''1020'' ''ASSET'' ''DEBIT'')" by code_simp
  have s: "acc_status (an_account ''1020'' ''ASSET'' ''DEBIT'') = ''ACTIVE''" by code_simp
  from d delete_accounts_keeps_used [OF d a disjI2 [OF s]] show ?thesis by blast
qed

end
