(* ===== verification/Permissions.thy ===== *)
theory Permissions
  imports PyValues
begin

text \<open>
  \<open>core/permissions.py\<close>: the permission codes, the pages of the permission matrix, what a page code
  grants, and how the codes an administrator submits become the codes a role stores. The translation
  keys of the pages are left out. A Python set is a set, a dict is the list of its items in insertion
  order.
\<close>

section \<open>Codes\<close>

definition dotted :: "string \<Rightarrow> string \<Rightarrow> string" where
  "dotted prefix a = prefix @ ''.'' @ a"

text \<open>\<open>s.rpartition(".")\<close>: nothing when there is no dot.\<close>

definition rpartition_dot :: "string \<Rightarrow> (string \<times> string) option" where
  "rpartition_dot s =
     (case dropWhile (\<lambda>c. c \<noteq> CHR ''.'') (rev s) of
        [] \<Rightarrow> None
      | _ # h \<Rightarrow> Some (rev h, rev (takeWhile (\<lambda>c. c \<noteq> CHR ''.'') (rev s))))"

definition rsplit_dot :: "string \<Rightarrow> string \<times> string" where
  "rsplit_dot s = (case rpartition_dot s of None \<Rightarrow> (s, s) | Some x \<Rightarrow> x)"

definition SOURCE_PERMISSIONS :: "(string \<times> string \<times> string) list" where
  "SOURCE_PERMISSIONS = [
     (''user.read'', ''user'', ''read''), (''user.manage'', ''user'', ''manage''), (''role.read'', ''role'', ''read''),
     (''role.manage'', ''role'', ''manage''), (''quotation.read'', ''quotation'', ''read''), (''quotation.create'', ''quotation'', ''create''),
     (''quotation.update_draft'', ''quotation'', ''update_draft''), (''quotation.send'', ''quotation'', ''send''),
     (''quotation.accept'', ''quotation'', ''accept''), (''quotation.convert'', ''quotation'', ''convert''),
     (''quotation.update'', ''quotation'', ''update''), (''quotation.delete'', ''quotation'', ''delete''),
     (''quotation.submit'', ''quotation'', ''submit''), (''quotation.revise'', ''quotation'', ''revise''),
     (''service_order.read'', ''service_order'', ''read''), (''service_order.create'', ''service_order'', ''create''),
     (''service_order.update'', ''service_order'', ''update''), (''service_order.complete'', ''service_order'', ''complete''),
     (''service_order.delete'', ''service_order'', ''delete''), (''service_order.submit'', ''service_order'', ''submit''),
     (''service_order_config.view'', ''service_order_config'', ''view''), (''service_order_config.create'', ''service_order_config'', ''create''),
     (''service_order_config.update'', ''service_order_config'', ''update''),
     (''service_order_config.delete'', ''service_order_config'', ''delete''),
     (''service_order_config.publish'', ''service_order_config'', ''publish''), (''configuration.read'', ''configuration'', ''read''),
     (''configuration.manage'', ''configuration'', ''manage''), (''configuration.publish'', ''configuration'', ''publish''),
     (''configuration.activate'', ''configuration'', ''activate''), (''configuration.rollback'', ''configuration'', ''rollback''),
     (''configuration.compare'', ''configuration'', ''compare''), (''service_charge.read'', ''service_charge'', ''read''),
     (''service_charge.create'', ''service_charge'', ''create''), (''service_charge.issue'', ''service_charge'', ''issue''),
     (''service_charge.convert_to_invoice'', ''service_charge'', ''convert_to_invoice''),
     (''service_charge.update'', ''service_charge'', ''update''), (''service_charge.delete'', ''service_charge'', ''delete''),
     (''service_charge.submit'', ''service_charge'', ''submit''), (''financial_document.read'', ''financial_document'', ''read''),
     (''financial_document.create'', ''financial_document'', ''create''),
     (''financial_document.update_draft'', ''financial_document'', ''update_draft''),
     (''financial_document.post'', ''financial_document'', ''post''), (''financial_document.reverse'', ''financial_document'', ''reverse''),
     (''financial_document.allocate'', ''financial_document'', ''allocate''), (''financial_document.update'', ''financial_document'', ''update''),
     (''financial_document.delete'', ''financial_document'', ''delete''), (''financial_document.submit'', ''financial_document'', ''submit''),
     (''journal_entry.read'', ''journal_entry'', ''read''), (''journal_entry.create'', ''journal_entry'', ''create''),
     (''journal_entry.post'', ''journal_entry'', ''post''), (''journal_entry.update'', ''journal_entry'', ''update''),
     (''journal_entry.delete'', ''journal_entry'', ''delete''), (''accounting_period.read'', ''accounting_period'', ''read''),
     (''accounting_period.close'', ''accounting_period'', ''close''), (''accounting_period.update'', ''accounting_period'', ''update''),
     (''chart_of_accounts.manage'', ''chart_of_accounts'', ''manage''), (''chart_of_accounts.read'', ''chart_of_accounts'', ''read''),
     (''chart_of_accounts.create'', ''chart_of_accounts'', ''create''), (''chart_of_accounts.update'', ''chart_of_accounts'', ''update''),
     (''chart_of_accounts.delete'', ''chart_of_accounts'', ''delete''), (''financial_account.read'', ''financial_account'', ''read''),
     (''financial_account.create'', ''financial_account'', ''create''), (''financial_account.update'', ''financial_account'', ''update''),
     (''financial_account.delete'', ''financial_account'', ''delete''), (''posting_rule.read'', ''posting_rule'', ''read''),
     (''posting_rule.manage'', ''posting_rule'', ''manage''), (''posting_rule.create'', ''posting_rule'', ''create''),
     (''posting_rule.update'', ''posting_rule'', ''update''), (''posting_rule.delete'', ''posting_rule'', ''delete''),
     (''customs_credential.retrieve'', ''customs_credential'', ''retrieve''), (''attachment.read'', ''attachment'', ''read''),
     (''attachment.upload'', ''attachment'', ''upload''), (''attachment.delete'', ''attachment'', ''delete''),
     (''audit_log.read'', ''audit_log'', ''read''), (''archive.view'', ''archive'', ''view''), (''archive.restore'', ''archive'', ''restore''),
     (''archive.hard_delete'', ''archive'', ''hard_delete''), (''report.read'', ''report'', ''read''), (''report.export'', ''report'', ''export''),
     (''dashboard.summary'', ''dashboard'', ''summary''), (''document_sequence.read'', ''document_sequence'', ''read''),
     (''document_sequence.create'', ''document_sequence'', ''create''), (''document_sequence.update'', ''document_sequence'', ''update''),
     (''document_sequence.delete'', ''document_sequence'', ''delete''), (''master.reference.view'', ''master'', ''view''),
     (''master.reference.manage'', ''master'', ''manage''), (''settings.manage'', ''settings'', ''manage''), (''backup.read'', ''backup'', ''read''),
     (''backup.manage'', ''backup'', ''manage'')]"

definition CRUD_ACTIONS :: "string list" where
  "CRUD_ACTIONS = [''view'', ''create'', ''update'', ''delete'', ''export'']"

definition READ_ACTIONS :: "string list" where
  "READ_ACTIONS = [''view'', ''export'']"

definition DOCUMENT_ACTIONS :: "string list" where
  "DOCUMENT_ACTIONS = [''view'', ''create'', ''update'', ''delete'', ''submit'', ''export'']"

definition QUOTATION_ACTIONS :: "string list" where
  "QUOTATION_ACTIONS = [''view'', ''create'', ''update'', ''delete'', ''submit'', ''re_quotation'', ''quotation'', ''export'']"

definition MATRIX_PAGES :: "(string \<times> string \<times> string \<times> string list) list" where
  "MATRIX_PAGES = [
     (''dashboard'', ''dashboard'', ''dashboard'', [''view'', ''export'', ''summary'']),
     (''sales_quotations'', ''sales'', ''sales.quotations'', QUOTATION_ACTIONS),
     (''operations_service_orders'', ''operations'', ''operations.service_orders'', DOCUMENT_ACTIONS),
     (''reports_service_order_register'', ''operations'', ''reports.service_order_register'', READ_ACTIONS),
     (''reports_service_order_status'', ''operations'', ''reports.service_order_status'', READ_ACTIONS),
     (''reports_service_order_containers'', ''operations'', ''reports.service_order_containers'', READ_ACTIONS),
     (''reports_service_order_profitability'', ''operations'', ''reports.service_order_profitability'', READ_ACTIONS),
     (''finance_service_charges'', ''finance'', ''finance.service_charges'', DOCUMENT_ACTIONS),
     (''finance_financial_documents'', ''finance'', ''finance.financial_documents'', DOCUMENT_ACTIONS),
     (''finance_chart_of_accounts'', ''finance'', ''finance.chart_of_accounts'', CRUD_ACTIONS),
     (''finance_financial_accounts'', ''finance'', ''finance.financial_accounts'', CRUD_ACTIONS),
     (''finance_journal_entries'', ''finance'', ''finance.journal_entries'', CRUD_ACTIONS),
     (''finance_accounting_periods'', ''finance'', ''finance.accounting_periods'', [''view'', ''update'', ''export'']),
     (''finance_posting_rules'', ''finance'', ''finance.posting_rules'', CRUD_ACTIONS),
     (''reports_revenue_expense'', ''reports'', ''reports.revenue_expense'', READ_ACTIONS),
     (''reports_accounts_receivable'', ''reports'', ''reports.accounts_receivable'', READ_ACTIONS),
     (''reports_accounts_payable'', ''reports'', ''reports.accounts_payable'', READ_ACTIONS),
     (''reports_general_ledger'', ''reports'', ''reports.general_ledger'', READ_ACTIONS),
     (''reports_trial_balance'', ''reports'', ''reports.trial_balance'', READ_ACTIONS),
     (''reports_profit_loss'', ''reports'', ''reports.profit_loss'', READ_ACTIONS),
     (''reports_balance_sheet'', ''reports'', ''reports.balance_sheet'', READ_ACTIONS),
     (''reports_cash_flow'', ''reports'', ''reports.cash_flow'', READ_ACTIONS),
     (''master_business_parties'', ''master'', ''master.business_parties'', CRUD_ACTIONS),
     (''master_party_roles'', ''master'', ''master.party_roles'', CRUD_ACTIONS),
     (''master_place_roles'', ''master'', ''master.place_roles'', CRUD_ACTIONS),
     (''master_trade_directions'', ''master'', ''master.trade_directions'', CRUD_ACTIONS),
     (''master_container_types'', ''master'', ''master.container_types'', CRUD_ACTIONS),
     (''master_transport_types'', ''master'', ''master.transport_types'', CRUD_ACTIONS),
     (''master_transport_assets'', ''master'', ''master.transport_assets'', CRUD_ACTIONS),
     (''master_fee_types'', ''master'', ''master.fee_types'', CRUD_ACTIONS),
     (''master_currencies'', ''master'', ''master.currencies'', CRUD_ACTIONS),
     (''configuration'', ''configuration'', ''configuration'', CRUD_ACTIONS),
     (''admin_document_sequences'', ''admin'', ''admin.document_sequences'', CRUD_ACTIONS),
     (''admin_users'', ''admin'', ''admin.users'', CRUD_ACTIONS), (''admin_roles'', ''admin'', ''admin.roles'', CRUD_ACTIONS),
     (''admin_audit_logs'', ''admin'', ''admin.audit_logs'', READ_ACTIONS),
     (''admin_archive'', ''admin'', ''admin.archive'', [''view'', ''export'', ''restore'']),
     (''settings_app_config'', ''settings'', ''settings.app_config'', [''view'', ''update'']),
     (''settings_backup'', ''settings'', ''settings.backup'', [''view'', ''create'', ''update''])]"

definition PAGE_PERMISSIONS :: "(string \<times> string \<times> string) list" where
  "PAGE_PERMISSIONS =
     concat (map (\<lambda>(v, g, prefix, actions). map (\<lambda>a. (dotted prefix a, prefix, a)) actions) MATRIX_PAGES)"

definition LEGACY_PAGE_PERMISSIONS :: "(string \<times> string \<times> string) list" where
  "LEGACY_PAGE_PERMISSIONS = map (\<lambda>(prefix, a). (dotted prefix a, prefix, a)) [
     (''sales.quotations'', ''edit''), (''operations.service_orders'', ''edit''), (''finance.service_charges'', ''edit''),
     (''finance.financial_documents'', ''edit''), (''finance.accounting'', ''view''), (''finance.accounting'', ''create''),
     (''finance.accounting'', ''edit''), (''finance.accounting'', ''delete''), (''finance.accounting'', ''export''),
     (''finance.posting_rules'', ''edit''), (''operations.reports'', ''view''), (''operations.reports'', ''export''),
     (''finance.reports'', ''view''), (''finance.reports'', ''export''), (''master.reference'', ''view''), (''master.reference'', ''create''),
     (''master.reference'', ''edit''), (''master.reference'', ''delete''), (''master.reference'', ''export''), (''configuration'', ''edit''),
     (''admin.document_sequences'', ''edit''), (''admin.users'', ''edit''), (''admin.roles'', ''edit''), (''admin.archive'', ''edit''),
     (''admin.archive'', ''delete''), (''settings.app_config'', ''edit''), (''settings.backup'', ''edit'')]"

definition NAVIGATION_PAGE_PERMISSIONS :: "(string \<times> string \<times> string) list" where
  "NAVIGATION_PAGE_PERMISSIONS = map (\<lambda>code. (code, fst (rsplit_dot code), snd (rsplit_dot code))) [
     ''sales.companies.view'', ''operations.jobs.view'', ''operations.shipments.view'', ''operations.customs.view'', ''operations.documents.view'',
     ''operations.deliveries.view'', ''finance.debit_notes.view'', ''finance.customer_payments.view'', ''finance.job_charges.view'',
     ''finance.supplier_costs.view'', ''finance.supplier_payments.view'', ''reports.view'', ''finance.accounts_receivable.view'',
     ''finance.accounts_payable.view'', ''finance.job_profitability.view'', ''settings.manage'', ''admin.user_manage'', ''admin.role_manage'',
     ''configuration.configure'']"

section \<open>What a page grants\<close>

text \<open>\<open>d[k] = v\<close> on a dict, and \<open>d.update(...)\<close>.\<close>

fun upsert :: "'k \<Rightarrow> 'v \<Rightarrow> ('k \<times> 'v) list \<Rightarrow> ('k \<times> 'v) list" where
  "upsert k v [] = [(k, v)]"
| "upsert k v ((k', v') # d) = (if k' = k then (k, v) # d else (k', v') # upsert k v d)"

definition dict_update :: "('k \<times> 'v) list \<Rightarrow> ('k \<times> 'v) list \<Rightarrow> ('k \<times> 'v) list" where
  "dict_update d e = fold (\<lambda>(k, v). upsert k v) e d"

definition PAGE_GRANTS_BASE :: "(string \<times> string list) list" where
  "PAGE_GRANTS_BASE = [
     (''dashboard.view'', []), (''dashboard.export'', [''report.export'']), (''dashboard.summary'', []),
     (''sales.quotations.view'', [''quotation.read'']), (''sales.quotations.create'', [''quotation.create'']),
     (''sales.quotations.update'', [''quotation.update'', ''quotation.update_draft'', ''quotation.accept'', ''quotation.convert'']),
     (''sales.quotations.delete'', [''quotation.delete'']), (''sales.quotations.submit'', [''quotation.submit'', ''quotation.send'']),
     (''sales.quotations.re_quotation'', [''quotation.revise'']), (''sales.quotations.quotation'', [''quotation.send'']),
     (''sales.quotations.export'', [''report.export'']), (''operations.service_orders.view'', [''service_order.read'']),
     (''operations.service_orders.create'', [''service_order.create'']),
     (''operations.service_orders.update'', [''service_order.update'', ''service_order.complete'']),
     (''operations.service_orders.delete'', [''service_order.delete'']), (''operations.service_orders.submit'', [''service_order.submit'']),
     (''operations.service_orders.export'', [''report.export'']),
     (''finance.service_charges.view'', [''service_charge.read'', ''financial_document.read'']),
     (''finance.service_charges.create'', [''service_charge.create'', ''financial_document.create'']),
     (''finance.service_charges.update'', [''service_charge.update'', ''service_charge.convert_to_invoice'', ''financial_document.update'', ''financial_document.update_draft'', ''financial_document.allocate'']),
     (''finance.service_charges.delete'', [''service_charge.delete'', ''financial_document.delete'']),
     (''finance.service_charges.submit'', [''service_charge.submit'', ''service_charge.issue'', ''financial_document.submit'', ''financial_document.post'', ''financial_document.reverse'']),
     (''finance.service_charges.export'', [''report.export'']), (''finance.financial_documents.view'', [''financial_document.read'']),
     (''finance.financial_documents.create'', [''financial_document.create'']),
     (''finance.financial_documents.update'', [''financial_document.update'', ''financial_document.update_draft'', ''financial_document.allocate'', ''financial_document.reverse'']),
     (''finance.financial_documents.delete'', [''financial_document.delete'']),
     (''finance.financial_documents.submit'', [''financial_document.submit'', ''financial_document.post'']),
     (''finance.financial_documents.export'', [''report.export'']), (''finance.chart_of_accounts.view'', [''chart_of_accounts.read'']),
     (''finance.chart_of_accounts.create'', [''chart_of_accounts.create'', ''chart_of_accounts.manage'']),
     (''finance.chart_of_accounts.update'', [''chart_of_accounts.update'', ''chart_of_accounts.manage'']),
     (''finance.chart_of_accounts.delete'', [''chart_of_accounts.delete'', ''chart_of_accounts.manage'']),
     (''finance.chart_of_accounts.export'', [''report.export'']), (''finance.financial_accounts.view'', [''financial_account.read'']),
     (''finance.financial_accounts.create'', [''financial_account.create'']),
     (''finance.financial_accounts.update'', [''financial_account.update'']),
     (''finance.financial_accounts.delete'', [''financial_account.delete'']), (''finance.financial_accounts.export'', [''report.export'']),
     (''finance.journal_entries.view'', [''journal_entry.read'']), (''finance.journal_entries.create'', [''journal_entry.create'']),
     (''finance.journal_entries.update'', [''journal_entry.update'', ''journal_entry.post'']),
     (''finance.journal_entries.delete'', [''journal_entry.delete'']), (''finance.journal_entries.export'', [''report.export'']),
     (''finance.accounting_periods.view'', [''accounting_period.read'']),
     (''finance.accounting_periods.update'', [''accounting_period.update'', ''accounting_period.close'']),
     (''finance.accounting_periods.export'', [''report.export'']), (''finance.posting_rules.view'', [''posting_rule.read'']),
     (''finance.posting_rules.create'', [''posting_rule.create'', ''posting_rule.manage'']),
     (''finance.posting_rules.update'', [''posting_rule.update'', ''posting_rule.manage'']),
     (''finance.posting_rules.delete'', [''posting_rule.delete'', ''posting_rule.manage'']), (''finance.posting_rules.export'', [''report.export'']),
     (''master.business_parties.view'', []), (''master.business_parties.create'', []), (''master.business_parties.update'', []),
     (''master.business_parties.delete'', []), (''master.business_parties.export'', [''report.export'']), (''master.place_roles.view'', []),
     (''master.place_roles.create'', []), (''master.place_roles.update'', []), (''master.place_roles.delete'', []),
     (''master.place_roles.export'', [''report.export'']), (''master.party_roles.view'', []), (''master.party_roles.create'', []),
     (''master.party_roles.update'', []), (''master.party_roles.delete'', []), (''master.party_roles.export'', [''report.export'']),
     (''master.trade_directions.view'', []), (''master.trade_directions.create'', []), (''master.trade_directions.update'', []),
     (''master.trade_directions.delete'', []), (''master.trade_directions.export'', [''report.export'']), (''master.container_types.view'', []),
     (''master.container_types.create'', []), (''master.container_types.update'', []), (''master.container_types.delete'', []),
     (''master.container_types.export'', [''report.export'']), (''master.transport_types.view'', []), (''master.transport_types.create'', []),
     (''master.transport_types.update'', []), (''master.transport_types.delete'', []), (''master.transport_types.export'', [''report.export'']),
     (''master.transport_assets.view'', []), (''master.transport_assets.create'', []), (''master.transport_assets.update'', []),
     (''master.transport_assets.delete'', []), (''master.transport_assets.export'', [''report.export'']), (''master.fee_types.view'', []),
     (''master.fee_types.create'', []), (''master.fee_types.update'', []), (''master.fee_types.delete'', []),
     (''master.fee_types.export'', [''report.export'']), (''master.currencies.view'', []), (''master.currencies.create'', []),
     (''master.currencies.update'', []), (''master.currencies.delete'', []), (''master.currencies.export'', [''report.export'']),
     (''configuration.view'', [''configuration.read'', ''configuration.compare'', ''service_order_config.view'']),
     (''configuration.create'', [''service_order_config.create'']),
     (''configuration.update'', [''configuration.configure'', ''configuration.publish'', ''configuration.activate'', ''configuration.rollback'', ''service_order_config.update'', ''service_order_config.publish'']),
     (''configuration.delete'', [''service_order_config.delete'']), (''configuration.export'', [''report.export'']),
     (''configuration.edit'', [''configuration.configure'', ''configuration.publish'', ''configuration.activate'', ''configuration.rollback'', ''service_order_config.create'', ''service_order_config.update'', ''service_order_config.delete'', ''service_order_config.publish'']),
     (''admin.users.view'', [''user.read'']), (''admin.users.create'', [''user.manage'']), (''admin.users.update'', [''user.manage'']),
     (''admin.users.delete'', [''user.manage'']), (''admin.users.export'', [''report.export'']), (''admin.users.edit'', [''user.manage'']),
     (''admin.roles.view'', [''role.read'']), (''admin.roles.create'', [''role.manage'']), (''admin.roles.update'', [''role.manage'']),
     (''admin.roles.delete'', [''role.manage'']), (''admin.roles.export'', [''report.export'']), (''admin.roles.edit'', [''role.manage'']),
     (''admin.document_sequences.view'', [''document_sequence.read'']), (''admin.document_sequences.create'', [''document_sequence.create'']),
     (''admin.document_sequences.update'', [''document_sequence.update'']), (''admin.document_sequences.delete'', [''document_sequence.delete'']),
     (''admin.document_sequences.export'', [''report.export'']), (''admin.document_sequences.edit'', [''document_sequence.update'']),
     (''admin.audit_logs.view'', [''audit_log.read'']), (''admin.audit_logs.export'', [''report.export'']),
     (''admin.archive.view'', [''archive.view'']), (''admin.archive.export'', [''report.export'']),
     (''admin.archive.restore'', [''archive.restore'']), (''admin.archive.edit'', [''archive.restore'']),
     (''admin.archive.delete'', [''archive.hard_delete'']), (''settings.app_config.view'', []), (''settings.app_config.update'', []),
     (''settings.app_config.edit'', []), (''settings.backup.view'', [''backup.read'']), (''settings.backup.create'', [''backup.manage'']),
     (''settings.backup.update'', [''backup.manage'']), (''settings.backup.edit'', [''backup.manage''])]"
definition page_prefixes :: "string \<Rightarrow> string list" where
  "page_prefixes family =
     filter (\<lambda>p. starts_with p family) (map (\<lambda>(v, g, prefix, actions). prefix) MATRIX_PAGES)"

definition REPORT_PREFIXES :: "string list" where
  "REPORT_PREFIXES = page_prefixes ''reports.''"

definition MASTER_PREFIXES :: "string list" where
  "MASTER_PREFIXES = page_prefixes ''master.''"

definition PAGE_GRANTS_AGGREGATES :: "(string \<times> string list) list" where
  "PAGE_GRANTS_AGGREGATES =
     (let each = (\<lambda>ps a. map (\<lambda>p. dotted p a) ps); nothing = (\<lambda>ps a. map (\<lambda>p. (dotted p a, [])) ps);
          exports = (\<lambda>ps. map (\<lambda>p. (dotted p ''export'', [''report.export''])) ps)
      in exports REPORT_PREFIXES @ nothing MASTER_PREFIXES ''view'' @ nothing MASTER_PREFIXES ''create''
         @ nothing MASTER_PREFIXES ''update'' @ nothing MASTER_PREFIXES ''delete'' @ exports MASTER_PREFIXES
         @ [(''master.reference.view'', ''master.reference.view'' # each MASTER_PREFIXES ''view''),
            (''master.reference.manage'', ''master.reference.manage''
               # concat (map (\<lambda>p. map (dotted p) [''create'', ''update'', ''delete'']) MASTER_PREFIXES)),
            (''operations.reports.view'', each (take 4 REPORT_PREFIXES) ''view''),
            (''operations.reports.export'', each (take 4 REPORT_PREFIXES) ''export''),
            (''finance.reports.view'', each (drop 4 REPORT_PREFIXES) ''view''),
            (''finance.reports.export'', each (drop 4 REPORT_PREFIXES) ''export''),
            (''finance.accounting.view'', [''finance.chart_of_accounts.view'', ''finance.financial_accounts.view'', ''finance.journal_entries.view'', ''finance.accounting_periods.view'']),
            (''finance.accounting.create'', [''finance.chart_of_accounts.create'', ''finance.financial_accounts.create'', ''finance.journal_entries.create'']),
            (''finance.accounting.edit'', [''finance.chart_of_accounts.update'', ''finance.financial_accounts.update'', ''finance.journal_entries.update'', ''finance.accounting_periods.update'']),
            (''finance.accounting.delete'', [''finance.chart_of_accounts.delete'', ''finance.financial_accounts.delete'', ''finance.journal_entries.delete'']),
            (''admin.user_manage'', [''user.read'', ''user.manage'', ''admin.users.view'', ''admin.users.create'', ''admin.users.update'', ''admin.users.delete'', ''admin.users.edit'']),
            (''admin.role_manage'', [''role.read'', ''role.manage'', ''admin.roles.view'', ''admin.roles.create'', ''admin.roles.update'', ''admin.roles.delete'', ''admin.roles.edit'']),
            (''configuration.configure'', [''configuration.read'', ''configuration.compare'', ''configuration.publish'', ''configuration.activate'', ''configuration.rollback'', ''service_order_config.view'', ''service_order_config.update'', ''service_order_config.publish'']),
            (''settings.manage'', [''settings.app_config.view'', ''settings.app_config.update'', ''settings.app_config.edit'', ''settings.backup.view'', ''settings.backup.create'', ''settings.backup.update'', ''settings.backup.edit'', ''backup.read'', ''backup.manage'']),
            (''reports.view'', ''report.read'' # each REPORT_PREFIXES ''view''),
            (''finance.accounts_receivable.view'', [''reports.accounts_receivable.view'']),
            (''finance.accounts_payable.view'', [''reports.accounts_payable.view'']),
            (''finance.job_profitability.view'', [''reports.service_order_profitability.view'']),
            (''sales.companies.view'', [''master.reference.view'']),
            (''operations.jobs.view'', [''master.reference.view'']),
            (''operations.shipments.view'', [''master.reference.view'']),
            (''operations.customs.view'', [''master.reference.view'']),
            (''operations.documents.view'', [''master.reference.view'']),
            (''operations.deliveries.view'', [''master.reference.view'']),
            (''finance.debit_notes.view'', [''master.reference.view'']),
            (''finance.customer_payments.view'', [''master.reference.view'']),
            (''finance.job_charges.view'', [''master.reference.view'']),
            (''finance.supplier_costs.view'', [''master.reference.view'']),
            (''finance.supplier_payments.view'', [''master.reference.view''])])"

text \<open>A page of documents carries its files.\<close>

definition add_attachment :: "string \<times> string \<Rightarrow> (string \<times> string list) list \<Rightarrow> (string \<times> string list) list" where
  "add_attachment x d =
     (let (page, capability) = x
      in case map_of d page of None \<Rightarrow> d | Some gs \<Rightarrow> upsert page (gs @ [capability]) d)"

definition ATTACHMENT_GRANTS :: "(string \<times> string) list" where
  "ATTACHMENT_GRANTS = concat (map (\<lambda>p.
     [(dotted p ''view'', ''attachment.read''), (dotted p ''update'', ''attachment.upload''),
      (dotted p ''delete'', ''attachment.delete'')])
     [''sales.quotations'', ''operations.service_orders'', ''finance.service_charges'', ''finance.financial_documents''])"

definition PAGE_PERMISSION_GRANTS :: "(string \<times> string list) list" where
  "PAGE_PERMISSION_GRANTS =
     (let d1 = dict_update PAGE_GRANTS_BASE (map (\<lambda>p. (dotted p ''view'', [])) REPORT_PREFIXES);
          d2 = dict_update d1 PAGE_GRANTS_AGGREGATES;
          d3 = upsert ''report.read'' (map (\<lambda>p. dotted p ''view'') REPORT_PREFIXES @ [''reports.view'']) d2;
          d4 = upsert ''report.export'' (map (\<lambda>p. dotted p ''export'') REPORT_PREFIXES) d3
      in fold add_attachment ATTACHMENT_GRANTS d4)"

section \<open>The catalog\<close>

definition code_of :: "string \<times> string \<times> string \<Rightarrow> string" where
  "code_of x = fst x"

fun dedupe :: "string set \<Rightarrow> (string \<times> string \<times> string) list \<Rightarrow> (string \<times> string \<times> string) list" where
  "dedupe seen [] = []"
| "dedupe seen (x # xs) = (if fst x \<in> seen then dedupe seen xs else x # dedupe (insert (fst x) seen) xs)"

definition PERMISSION_CATALOG :: "(string \<times> string \<times> string) list" where
  "PERMISSION_CATALOG =
     dedupe {} (SOURCE_PERMISSIONS @ PAGE_PERMISSIONS @ LEGACY_PAGE_PERMISSIONS @ NAVIGATION_PAGE_PERMISSIONS)"

definition ALL_PERMISSION_CODES :: "string list" where
  "ALL_PERMISSION_CODES = map fst PERMISSION_CATALOG"

definition SOURCE_PERMISSION_CODES :: "string set" where
  "SOURCE_PERMISSION_CODES = set (map fst SOURCE_PERMISSIONS)"

definition PAGE_PERMISSION_CODES :: "string set" where
  "PAGE_PERMISSION_CODES = set (map fst (PAGE_PERMISSIONS @ LEGACY_PAGE_PERMISSIONS @ NAVIGATION_PAGE_PERMISSIONS))"

section \<open>Compiling a role\<close>

definition grants_of :: "string \<Rightarrow> string list" where
  "grants_of c = (case map_of PAGE_PERMISSION_GRANTS c of None \<Rightarrow> [] | Some gs \<Rightarrow> gs)"

definition PAGE_CODES_BY_GRANTED :: "string \<Rightarrow> string list" where
  "PAGE_CODES_BY_GRANTED c = filter (\<lambda>page. c \<in> set (grants_of page)) (map fst PAGE_PERMISSION_GRANTS)"

definition compile_role_permissions :: "string set \<Rightarrow> string set" where
  "compile_role_permissions codes =
     (let granted = Set.filter (\<lambda>c. py_strip c \<noteq> []) codes;
          declared = \<Union> (set ` grants_of ` granted);
          capabilities = declared \<union> \<Union> (set ` grants_of ` (declared \<inter> PAGE_PERMISSION_CODES));
          covered = granted \<union> capabilities;
          implied_pages = \<Union> ((\<lambda>c.
            case find (\<lambda>page. set (grants_of page) \<subseteq> covered) (PAGE_CODES_BY_GRANTED c) of
              None \<Rightarrow> {} | Some page \<Rightarrow> {page}) ` (covered - PAGE_PERMISSION_CODES))
      in covered \<union> implied_pages)"

definition resolve_role_codes :: "string set \<Rightarrow> string set" where
  "resolve_role_codes codes =
     (let submitted = Set.filter (\<lambda>c. c \<noteq> []) (py_strip ` codes)
      in if ''*'' \<in> submitted then {''*''}
         else let page_codes = submitted \<inter> PAGE_PERMISSION_CODES;
                  granted_by_pages = \<Union> (set ` grants_of ` page_codes);
                  explicit = submitted - page_codes - granted_by_pages
              in compile_role_permissions (page_codes \<union> explicit))"

definition SUPER_ADMIN_ROLE :: string where
  "SUPER_ADMIN_ROLE = ''SUPER_ADMIN''"

definition PROTECTED_ROLE_CODES :: "string set" where
  "PROTECTED_ROLE_CODES = {SUPER_ADMIN_ROLE}"

section \<open>Dictionaries\<close>

lemma map_of_upsert: "map_of (upsert k v d) x = (if x = k then Some v else map_of d x)"
  by (induction d) auto

lemma map_of_dict_update: "map_of (dict_update d e) x = (case map_of (rev e) x of None \<Rightarrow> map_of d x | Some v \<Rightarrow> Some v)"
  unfolding dict_update_def
  by (induction e arbitrary: d) (auto simp: map_of_upsert map_add_def split: option.splits)

lemma map_of_add_attachment:
  "map_of (add_attachment x d) c
     = (if c = fst x then map_option (\<lambda>gs. gs @ [snd x]) (map_of d c) else map_of d c)"
  by (cases x) (auto simp: add_attachment_def map_of_upsert split: option.splits)

lemma map_of_attachments:
  "map_of (fold add_attachment xs d) c
     = map_option (\<lambda>gs. gs @ map snd (filter (\<lambda>x. fst x = c) xs)) (map_of d c)"
  by (induction xs arbitrary: d) (auto simp: map_of_add_attachment option.map_comp comp_def option.map_ident)

lemma upsert_keys: "\<exists>ks. map fst (upsert k v d) = map fst d @ ks"
  by (induction d) auto

lemma dict_update_keys: "\<exists>ks. map fst (dict_update d e) = map fst d @ ks"
  unfolding dict_update_def
proof (induction e arbitrary: d)
  case (Cons x e)
  obtain ks ks' where "map fst (upsert (fst x) (snd x) d) = map fst d @ ks"
      "map fst (fold (\<lambda>(k, v). upsert k v) e (upsert (fst x) (snd x) d)) = map fst (upsert (fst x) (snd x) d) @ ks'"
    using upsert_keys Cons by metis
  then show ?case by (cases x) auto
qed simp

lemma attachment_keys: "\<exists>ks. map fst (fold add_attachment as d) = map fst d @ ks"
proof (induction as arbitrary: d)
  case (Cons x as)
  have "\<exists>ks. map fst (add_attachment x d) = map fst d @ ks"
    using upsert_keys by (cases x) (auto simp: add_attachment_def split: option.splits)
  then obtain ks ks' where "map fst (add_attachment x d) = map fst d @ ks"
      "map fst (fold add_attachment as (add_attachment x d)) = map fst (add_attachment x d) @ ks'"
    using Cons by metis
  then show ?case by auto
qed simp

section \<open>Evaluation\<close>

lemma map_of_grants:
  "map_of PAGE_PERMISSION_GRANTS c
     = map_option (\<lambda>gs. gs @ map snd (filter (\<lambda>x. fst x = c) ATTACHMENT_GRANTS))
         (if c = ''report.export'' then Some (map (\<lambda>p. dotted p ''export'') REPORT_PREFIXES)
          else if c = ''report.read'' then Some (map (\<lambda>p. dotted p ''view'') REPORT_PREFIXES @ [''reports.view''])
          else case map_of (rev PAGE_GRANTS_AGGREGATES) c of
            Some gs \<Rightarrow> Some gs
          | None \<Rightarrow> (case map_of (rev (map (\<lambda>p. (dotted p ''view'', [])) REPORT_PREFIXES)) c of
              Some gs \<Rightarrow> Some gs | None \<Rightarrow> map_of PAGE_GRANTS_BASE c))"
  unfolding PAGE_PERMISSION_GRANTS_def Let_def map_of_attachments map_of_upsert map_of_dict_update
  by (simp split: option.splits)

lemma grants_of_code [code]:
  "grants_of c =
     (case (if c = ''report.export'' then Some (map (\<lambda>p. dotted p ''export'') REPORT_PREFIXES)
          else if c = ''report.read'' then Some (map (\<lambda>p. dotted p ''view'') REPORT_PREFIXES @ [''reports.view''])
          else case map_of (rev PAGE_GRANTS_AGGREGATES) c of
            Some gs \<Rightarrow> Some gs
          | None \<Rightarrow> (case map_of (rev (map (\<lambda>p. (dotted p ''view'', [])) REPORT_PREFIXES)) c of
              Some gs \<Rightarrow> Some gs | None \<Rightarrow> map_of PAGE_GRANTS_BASE c)) of
        None \<Rightarrow> []
      | Some gs \<Rightarrow> gs @ map snd (filter (\<lambda>x. fst x = c) ATTACHMENT_GRANTS))"
  unfolding grants_of_def map_of_grants by (auto split: option.splits)

lemma REPORT_PREFIXES_code [code]:
  "REPORT_PREFIXES =
     [''reports.service_order_register'', ''reports.service_order_status'', ''reports.service_order_containers'',
      ''reports.service_order_profitability'', ''reports.revenue_expense'', ''reports.accounts_receivable'',
      ''reports.accounts_payable'', ''reports.general_ledger'', ''reports.trial_balance'', ''reports.profit_loss'',
      ''reports.balance_sheet'', ''reports.cash_flow'']"
  by code_simp

text \<open>The pages of the dictionary begin with those of its literal.\<close>

lemma grants_keys: "\<exists>ks. map fst PAGE_PERMISSION_GRANTS = map fst PAGE_GRANTS_BASE @ ks"
proof -
  define d1 where "d1 = dict_update PAGE_GRANTS_BASE (map (\<lambda>p. (dotted p ''view'', [] :: string list)) REPORT_PREFIXES)"
  define d2 where "d2 = dict_update d1 PAGE_GRANTS_AGGREGATES"
  define d3 where "d3 = upsert ''report.read'' (map (\<lambda>p. dotted p ''view'') REPORT_PREFIXES @ [''reports.view'']) d2"
  define d4 where "d4 = upsert ''report.export'' (map (\<lambda>p. dotted p ''export'') REPORT_PREFIXES) d3"
  obtain k1 where "map fst d1 = map fst PAGE_GRANTS_BASE @ k1" using dict_update_keys d1_def by metis
  moreover obtain k2 where "map fst d2 = map fst d1 @ k2" using dict_update_keys d2_def by metis
  moreover obtain k3 where "map fst d3 = map fst d2 @ k3" using upsert_keys d3_def by metis
  moreover obtain k4 where "map fst d4 = map fst d3 @ k4" using upsert_keys d4_def by metis
  moreover have "PAGE_PERMISSION_GRANTS = fold add_attachment ATTACHMENT_GRANTS d4"
    by (simp add: PAGE_PERMISSION_GRANTS_def Let_def d1_def d2_def d3_def d4_def)
  then obtain k5 where "map fst PAGE_PERMISSION_GRANTS = map fst d4 @ k5" using attachment_keys by metis
  ultimately show ?thesis by simp
qed

lemma find_filter_append: "find (\<lambda>x. Q x \<and> P x) xs = Some y \<Longrightarrow> find P (filter Q (xs @ ys)) = Some y"
  by (induction xs) (auto split: if_splits)

lemma first_page:
  assumes "find (\<lambda>page. c \<in> set (grants_of page) \<and> P page) (map fst PAGE_GRANTS_BASE) = Some p"
  shows "find P (PAGE_CODES_BY_GRANTED c) = Some p"
proof -
  obtain ks where ks: "map fst PAGE_PERMISSION_GRANTS = map fst PAGE_GRANTS_BASE @ ks" using grants_keys by blast
  show ?thesis unfolding PAGE_CODES_BY_GRANTED_def ks by (rule find_filter_append [OF assms])
qed

section \<open>What compiling adds\<close>

lemma compile_cases:
  assumes "c \<in> compile_role_permissions codes"
  obtains (submitted) "c \<in> codes"
    | (declared) d where "d \<in> codes" "c \<in> set (grants_of d)"
    | (page) d e where "d \<in> codes" "e \<in> set (grants_of d)" "e \<in> PAGE_PERMISSION_CODES" "c \<in> set (grants_of e)"
    | (implied) d where "d \<in> compile_role_permissions codes" "d \<in> set (grants_of c)"
        "set (grants_of c) \<subseteq> compile_role_permissions codes"
proof -
  define granted where "granted = Set.filter (\<lambda>c. py_strip c \<noteq> []) codes"
  define declared where "declared = \<Union> (set ` grants_of ` granted)"
  define covered where "covered = granted \<union> (declared \<union> \<Union> (set ` grants_of ` (declared \<inter> PAGE_PERMISSION_CODES)))"
  define hit where "hit = (\<lambda>c. find (\<lambda>page. set (grants_of page) \<subseteq> covered) (PAGE_CODES_BY_GRANTED c))"
  have r: "compile_role_permissions codes
      = covered \<union> \<Union> ((\<lambda>c. case hit c of None \<Rightarrow> {} | Some page \<Rightarrow> {page}) ` (covered - PAGE_PERMISSION_CODES))"
    by (simp add: compile_role_permissions_def Let_def granted_def declared_def covered_def hit_def)
  show ?thesis
  proof (cases "c \<in> covered")
    case True
    then show ?thesis
      using submitted declared page by (auto simp: covered_def declared_def granted_def)
  next
    case False
    with assms obtain d where d: "d \<in> covered" "hit d = Some c"
      unfolding r by (auto split: option.splits)
    then obtain n where "n < length (PAGE_CODES_BY_GRANTED d)" "PAGE_CODES_BY_GRANTED d ! n = c"
        "set (grants_of c) \<subseteq> covered"
      by (auto simp: hit_def find_Some_iff)
    then have "c \<in> set (PAGE_CODES_BY_GRANTED d)" by (metis nth_mem)
    then have "d \<in> set (grants_of c)" by (simp add: PAGE_CODES_BY_GRANTED_def)
    moreover have "covered \<subseteq> compile_role_permissions codes" unfolding r by blast
    ultimately show ?thesis using implied [of d] d(1) \<open>set (grants_of c) \<subseteq> covered\<close> by blast
  qed
qed

text \<open>Compiling one page that exports, and compiling the outcome.\<close>

lemma export_facts:
  "grants_of ''sales.quotations.export'' = [''report.export'']" "grants_of ''dashboard.export'' = [''report.export'']"
  "''report.export'' \<notin> PAGE_PERMISSION_CODES" "''sales.quotations.export'' \<in> PAGE_PERMISSION_CODES"
  "grants_of ''report.export'' = map (\<lambda>p. dotted p ''export'') REPORT_PREFIXES"
  "py_strip ''sales.quotations.export'' \<noteq> []" "py_strip ''report.export'' \<noteq> []"
  "grants_of ''dashboard.view'' = []"
  by code_simp+

lemma export_page:
  "find (\<lambda>page. set (grants_of page) \<subseteq> {''sales.quotations.export'', ''report.export''})
    (PAGE_CODES_BY_GRANTED ''report.export'') = Some ''dashboard.export''"
  by (rule first_page) code_simp

lemma compile_export:
  "compile_role_permissions {''sales.quotations.export''}
     = {''sales.quotations.export'', ''report.export'', ''dashboard.export''}"
proof -
  have f: "Set.filter (\<lambda>c. py_strip c \<noteq> []) {''sales.quotations.export''} = {''sales.quotations.export''}"
    by code_simp
  have g: "\<Union> (set ` grants_of ` {''sales.quotations.export''}) = {''report.export''}"
    by (simp add: export_facts)
  have c: "{''report.export''} \<inter> PAGE_PERMISSION_CODES = {}" using export_facts(3) by blast
  have d: "{''sales.quotations.export''} \<union> ({''report.export''} \<union> \<Union> (set ` grants_of ` {})) - PAGE_PERMISSION_CODES
      = {''report.export''}" using export_facts(3,4) by blast
  have e: "{''sales.quotations.export''} \<union> ({''report.export''} \<union> \<Union> (set ` grants_of ` {}))
      = {''sales.quotations.export'', ''report.export''}" by blast
  have h: "\<Union> ((\<lambda>c. case find (\<lambda>page. set (grants_of page) \<subseteq> {''sales.quotations.export'', ''report.export''})
          (PAGE_CODES_BY_GRANTED c) of None \<Rightarrow> {} | Some page \<Rightarrow> {page}) ` {''report.export''}) = {''dashboard.export''}"
    by (simp only: image_insert image_empty export_page option.case Union_insert Union_empty Un_empty_right)
  show ?thesis
    unfolding compile_role_permissions_def Let_def f g c d unfolding e h by blast
qed

lemma compile_declared:
  assumes "c \<in> codes" "py_strip c \<noteq> []" "d \<in> set (grants_of c)"
  shows "d \<in> compile_role_permissions codes"
  using assms by (auto simp: compile_role_permissions_def Let_def)

end
