(* ===== verification/Authorization.thy ===== *)
theory Authorization
  imports Permissions Machines "HOL-Library.List_Lexorder" "HOL-Library.Char_ord"
begin

text \<open>
  The authorization engine of \<open>core/authorization/service.py\<close> over the policy table \<open>casbin_rule\<close>
  (\<open>core/authorization/models.py\<close>) and the matcher of \<open>core/authorization/model.conf\<close>. The Casbin
  library is not part of the program: how it closes the role assignments and lists the permissions
  of a subject are parameters (\<open>casbin\<close>), with what its documentation promises as \<open>casbin_ok\<close>.
\<close>

section \<open>Subjects and codes\<close>

definition user_subject :: "int \<Rightarrow> string" where
  "user_subject i = ''user:'' @ show_int i"

definition role_subject :: "string \<Rightarrow> string" where
  "role_subject code = ''role:'' @ code"

definition split_code :: "string \<Rightarrow> string \<times> string" where
  "split_code code =
     (if code = ''*'' then (''*'', ''*'')
      else case rpartition_dot code of None \<Rightarrow> (code, []) | Some x \<Rightarrow> x)"

definition join_code :: "string \<Rightarrow> string \<Rightarrow> string" where
  "join_code obj act = (if obj = ''*'' \<and> (act = [] \<or> act = ''*'') then ''*'' else dotted obj act)"

definition role_code_of :: "string \<Rightarrow> string option" where
  "role_code_of subject = (if starts_with subject ''role:'' then Some (drop 5 subject) else None)"

section \<open>The policy table\<close>

text \<open>One row of \<open>casbin_rule\<close>; a column that is not used holds the empty text.\<close>

record casbin_rule =
  ptype :: string
  v0 :: string
  v1 :: string
  v2 :: string
  v3 :: string
  v4 :: string
  v5 :: string

definition rule_row :: "string \<Rightarrow> string \<Rightarrow> string \<Rightarrow> string \<Rightarrow> casbin_rule" where
  "rule_row p a b c = \<lparr>ptype = p, v0 = a, v1 = b, v2 = c, v3 = [], v4 = [], v5 = []\<rparr>"

text \<open>A loaded line: a grant of a subject, or the assignment of a role to a user.\<close>

datatype policy_line = Grant string string string | Assign string string

definition pop_blanks :: "string list \<Rightarrow> string list" where
  "pop_blanks vs = rev (dropWhile (\<lambda>v. v = []) (rev vs))"

definition subject_active :: "(string \<Rightarrow> string option) \<Rightarrow> string \<Rightarrow> bool" where
  "subject_active statuses subject =
     (case role_code_of subject of None \<Rightarrow> True | Some code \<Rightarrow> statuses code = Some ''ACTIVE'')"

definition load_rule :: "(string \<Rightarrow> string option) \<Rightarrow> casbin_rule \<Rightarrow> policy_line option" where
  "load_rule statuses r =
     (let values = pop_blanks [v0 r, v1 r, v2 r, v3 r, v4 r, v5 r]
      in if ptype r = ''p'' then
           (let values = (if length values = 2 \<and> values ! 1 = ''*'' then values @ [''*''] else values)
            in case values of
                 [sub, obj, act] \<Rightarrow> if subject_active statuses sub then Some (Grant sub obj act) else None
               | _ \<Rightarrow> None)
         else if ptype r = ''g'' then
           (case values of
              [user, role] \<Rightarrow>
                if \<not> subject_active statuses user \<or> \<not> subject_active statuses role then None
                else if starts_with user ''role:'' then None
                else Some (Assign user role)
            | _ \<Rightarrow> None)
         else None)"

text \<open>\<open>statuses\<close> gives the upper-case status of each role.\<close>

definition load_rows :: "(string \<Rightarrow> string option) \<Rightarrow> casbin_rule list \<Rightarrow> policy_line list" where
  "load_rows statuses rules = List.map_filter (load_rule statuses) rules"

section \<open>Decisions\<close>

record casbin =
  has_link :: "(string \<times> string) list \<Rightarrow> string \<Rightarrow> string \<Rightarrow> bool"
  implicit_permissions :: "policy_line list \<Rightarrow> string \<Rightarrow> (string \<times> string \<times> string) list"

definition links :: "policy_line list \<Rightarrow> (string \<times> string) list" where
  "links ls = List.map_filter (\<lambda>l. case l of Assign u r \<Rightarrow> Some (u, r) | Grant _ _ _ \<Rightarrow> None) ls"

text \<open>The matcher, under the effect \<open>some(where (p.eft == allow))\<close>.\<close>

definition enforce :: "casbin \<Rightarrow> policy_line list \<Rightarrow> string \<Rightarrow> string \<Rightarrow> string \<Rightarrow> bool" where
  "enforce cs ls sub obj act =
     list_ex (\<lambda>l. case l of
         Grant s p a \<Rightarrow> has_link cs (links ls) sub s \<and> (p = ''*'' \<or> obj = p) \<and> (a = ''*'' \<or> act = a)
       | Assign _ _ \<Rightarrow> False) ls"

text \<open>
  What the library documents: a subject has the roles it is assigned, directly or through other
  assignments, and itself; the implicit permissions are the grants of all of those.
\<close>

definition casbin_ok :: "casbin \<Rightarrow> bool" where
  "casbin_ok cs \<longleftrightarrow> (\<forall>es a b. has_link cs es a b = ((a, b) \<in> (set es)\<^sup>*))
     \<and> (\<forall>ls u. set (implicit_permissions cs ls u)
          = {(s, p, a). Grant s p a \<in> set ls \<and> has_link cs (links ls) u s})"

text \<open>The policy copy of a worker process.\<close>

record engine =
  en_copy :: "policy_line list option"
  en_version :: "int option"
  en_loaded_at :: int

definition is_loaded :: "engine \<Rightarrow> bool" where
  "is_loaded en \<longleftrightarrow> en_copy en \<noteq> None"

definition can :: "casbin \<Rightarrow> engine \<Rightarrow> int \<Rightarrow> string \<Rightarrow> bool" where
  "can cs en user code =
     (case en_copy en of
        None \<Rightarrow> False
      | Some ls \<Rightarrow> (let (obj, act) = split_code code in enforce cs ls (user_subject user) obj act))"

definition can_any :: "casbin \<Rightarrow> engine \<Rightarrow> int \<Rightarrow> string list \<Rightarrow> bool" where
  "can_any cs en user codes = list_ex (can cs en user) codes"

definition is_super_admin :: "casbin \<Rightarrow> engine \<Rightarrow> int \<Rightarrow> bool" where
  "is_super_admin cs en user =
     (case en_copy en of None \<Rightarrow> False | Some ls \<Rightarrow> enforce cs ls (user_subject user) ''*'' ''*'')"

definition effective_codes :: "casbin \<Rightarrow> engine \<Rightarrow> int \<Rightarrow> string set" where
  "effective_codes cs en user =
     (case en_copy en of
        None \<Rightarrow> {}
      | Some ls \<Rightarrow> set (map (\<lambda>(s, p, a). join_code p a) (implicit_permissions cs ls (user_subject user))))"

section \<open>Loading and refreshing the copy\<close>

text \<open>
  \<open>AuthorizationUnavailable\<close>. A load reads the published version first and the rows after it;
  \<open>rows = None\<close> is a table that cannot be read. The copy is dropped then.
\<close>

definition reload_copy :: "int option \<Rightarrow> policy_line list option \<Rightarrow> int \<Rightarrow> engine \<Rightarrow> bool \<times> engine" where
  "reload_copy version rows now en =
     (case rows of
        None \<Rightarrow> (False, en\<lparr>en_copy := None\<rparr>)
      | Some ls \<Rightarrow> (True, \<lparr>en_copy = Some ls, en_version = version, en_loaded_at = now\<rparr>))"

definition ensure_current ::
    "int \<Rightarrow> int option \<Rightarrow> int option \<Rightarrow> policy_line list option \<Rightarrow> int \<Rightarrow> engine \<Rightarrow> bool \<times> engine" where
  "ensure_current interval published version rows now en =
     (if en_copy en = None then reload_copy version rows now en
      else if published \<noteq> None \<and> published \<noteq> en_version en then reload_copy version rows now en
      else if max interval 1 \<le> now - en_loaded_at en then reload_copy version rows now en
      else (True, en))"

section \<open>Reading and writing policies\<close>

definition is_assignment :: "casbin_rule \<Rightarrow> bool" where
  "is_assignment r \<longleftrightarrow> ptype r = ''g''"

definition user_role_codes :: "casbin_rule list \<Rightarrow> int \<Rightarrow> string list" where
  "user_role_codes rules user =
     sort (map (\<lambda>c. case role_code_of c of Some (x # s) \<Rightarrow> x # s | _ \<Rightarrow> c)
       (filter (\<lambda>c. c \<noteq> [])
         (map v1 (filter (\<lambda>r. is_assignment r \<and> v0 r = user_subject user \<and> starts_with (v1 r) ''role:'') rules))))"

definition subject_id :: "string \<Rightarrow> int option" where
  "subject_id subject =
     (case dropWhile (\<lambda>c. c \<noteq> CHR '':'') subject of [] \<Rightarrow> None | _ # s \<Rightarrow> parse_int_text s)"

definition users_with_role :: "casbin_rule list \<Rightarrow> string \<Rightarrow> int list" where
  "users_with_role rules code =
     List.map_filter subject_id
       (map v0 (filter (\<lambda>r. is_assignment r \<and> v1 r = role_subject code \<and> starts_with (v0 r) ''user:'') rules))"

definition role_permission_codes :: "casbin_rule list \<Rightarrow> string \<Rightarrow> string list" where
  "role_permission_codes rules code =
     sort (map (\<lambda>r. join_code (v1 r) (v2 r)) (filter (\<lambda>r. ptype r = ''p'' \<and> v0 r = role_subject code) rules))"

text \<open>\<open>dict.fromkeys(str(v).strip() for v in codes if str(v).strip())\<close>\<close>

definition stripped_codes :: "string list \<Rightarrow> string list" where
  "stripped_codes codes = rev (remdups (rev (filter (\<lambda>c. c \<noteq> []) (map py_strip codes))))"

text \<open>The unique indexes of the table: no row twice, one role for a user.\<close>

definition single_role_key :: "casbin_rule \<Rightarrow> string option" where
  "single_role_key r = (if is_assignment r \<and> starts_with (v0 r) ''user:'' then Some (v0 r) else None)"

definition rules_unique :: "casbin_rule list \<Rightarrow> bool" where
  "rules_unique rules \<longleftrightarrow> distinct rules \<and> distinct (List.map_filter single_role_key rules)"

definition flush_rules :: "casbin_rule list \<Rightarrow> casbin_rule list res" where
  "flush_rules rules = ebind (raise_if (\<not> rules_unique rules) (IntegrityError ''uq_casbin_rule'')) (\<lambda>_. Inr rules)"

definition set_user_roles :: "int \<Rightarrow> string list \<Rightarrow> casbin_rule list \<Rightarrow> casbin_rule list res" where
  "set_user_roles user codes rules =
     flush_rules (filter (\<lambda>r. \<not> (is_assignment r \<and> v0 r = user_subject user)) rules
       @ map (\<lambda>c. rule_row ''g'' (user_subject user) (role_subject c) []) (stripped_codes codes))"

definition delete_user_policies :: "int \<Rightarrow> casbin_rule list \<Rightarrow> casbin_rule list" where
  "delete_user_policies user rules =
     filter (\<lambda>r. \<not> (ptype r \<in> {''p'', ''g''} \<and> v0 r = user_subject user)) rules"

definition set_role_permissions :: "string \<Rightarrow> string list \<Rightarrow> casbin_rule list \<Rightarrow> casbin_rule list res" where
  "set_role_permissions code codes rules =
     flush_rules (filter (\<lambda>r. \<not> (ptype r = ''p'' \<and> v0 r = role_subject code)) rules
       @ map (\<lambda>c. rule_row ''p'' (role_subject code) (fst (split_code c)) (snd (split_code c))) (stripped_codes codes))"

definition delete_role_policies :: "string \<Rightarrow> casbin_rule list \<Rightarrow> casbin_rule list" where
  "delete_role_policies code rules =
     filter (\<lambda>r. \<not> (is_assignment r \<and> (v0 r = role_subject code \<or> v1 r = role_subject code)))
       (filter (\<lambda>r. \<not> (ptype r = ''p'' \<and> v0 r = role_subject code)) rules)"

section \<open>Codes and their halves\<close>

lemma rpartition_dot_Some:
  assumes "CHR ''.'' \<in> set s"
  obtains a b where "rpartition_dot s = Some (a, b)" "s = dotted a b" "CHR ''.'' \<notin> set b"
proof -
  let ?P = "\<lambda>c. c \<noteq> CHR ''.''"
  have split: "takeWhile ?P (rev s) @ dropWhile ?P (rev s) = rev s" by (rule takeWhile_dropWhile_id)
  have "dropWhile ?P (rev s) \<noteq> []" using assms by (auto simp: dropWhile_eq_Nil_conv)
  then obtain h where h: "dropWhile ?P (rev s) = CHR ''.'' # h"
    using hd_dropWhile [of ?P "rev s"] by (cases "dropWhile ?P (rev s)") auto
  with split have "rev s = takeWhile ?P (rev s) @ CHR ''.'' # h" by simp
  then have "s = rev h @ CHR ''.'' # rev (takeWhile ?P (rev s))"
    by (metis append.assoc append_Cons append_Nil rev.simps(2) rev_append rev_rev_ident)
  moreover have "CHR ''.'' \<notin> set (rev (takeWhile ?P (rev s)))" by (auto dest: set_takeWhileD)
  ultimately show ?thesis
    using that [of "rev h" "rev (takeWhile ?P (rev s))"] h by (simp add: rpartition_dot_def dotted_def)
qed

lemma rpartition_dotted: "CHR ''.'' \<notin> set b \<Longrightarrow> rpartition_dot (dotted a b) = Some (a, b)"
proof -
  assume b: "CHR ''.'' \<notin> set b"
  have t: "takeWhile (\<lambda>c. c \<noteq> CHR ''.'') (rev b @ CHR ''.'' # rev a) = rev b"
    using b by (subst takeWhile_append2) auto
  have d: "dropWhile (\<lambda>c. c \<noteq> CHR ''.'') (rev b @ CHR ''.'' # rev a) = CHR ''.'' # rev a"
    using b by (subst dropWhile_append2) auto
  from t d show ?thesis by (simp add: rpartition_dot_def dotted_def)
qed

lemma dot_in_dotted [simp]: "CHR ''.'' \<in> set (dotted a b)"
  by (simp add: dotted_def)

lemma dotted_not_star [simp]: "dotted a b \<noteq> ''*''"
  by (cases a) (simp_all add: dotted_def)

lemma split_dotted: "CHR ''.'' \<notin> set b \<Longrightarrow> split_code (dotted a b) = (a, b)"
  by (simp add: split_code_def rpartition_dotted)

lemma split_join:
  assumes "CHR ''.'' \<in> set c" and "c \<noteq> ''*.''" and "c \<noteq> ''*.*''"
  shows "split_code c = (a, b) \<Longrightarrow> join_code a b = c"
proof -
  assume s: "split_code c = (a, b)"
  from assms(1) obtain x y where c: "c = dotted x y" "CHR ''.'' \<notin> set y" by (rule rpartition_dot_Some)
  with s have "a = x" "b = y" using split_dotted by auto
  with c assms(2,3) show ?thesis by (auto simp: join_code_def dotted_def)
qed

section \<open>What is shown and what is decided\<close>

text \<open>A grant as the code writes it: all of everything, or one object and one action.\<close>

definition plain_grant :: "policy_line \<Rightarrow> bool" where
  "plain_grant l =
     (case l of Assign _ _ \<Rightarrow> True
      | Grant s p a \<Rightarrow> (p = ''*'' \<and> a = ''*'') \<or> (p \<noteq> ''*'' \<and> a \<noteq> ''*'' \<and> CHR ''.'' \<notin> set a))"

lemma enforce_iff:
  assumes "casbin_ok cs"
  shows "enforce cs ls u obj act
     \<longleftrightarrow> (\<exists>s p a. (s, p, a) \<in> set (implicit_permissions cs ls u) \<and> (p = ''*'' \<or> obj = p) \<and> (a = ''*'' \<or> act = a))"
proof -
  have i: "set (implicit_permissions cs ls u) = {(s, p, a). Grant s p a \<in> set ls \<and> has_link cs (links ls) u s}"
    using assms by (simp add: casbin_ok_def)
  show ?thesis
  proof
    assume "enforce cs ls u obj act"
    then obtain l where "l \<in> set ls" and l: "case l of
         Grant s p a \<Rightarrow> has_link cs (links ls) u s \<and> (p = ''*'' \<or> obj = p) \<and> (a = ''*'' \<or> act = a)
       | Assign _ _ \<Rightarrow> False" by (auto simp: enforce_def list_ex_iff)
    show "\<exists>s p a. (s, p, a) \<in> set (implicit_permissions cs ls u) \<and> (p = ''*'' \<or> obj = p) \<and> (a = ''*'' \<or> act = a)"
    proof (cases l)
      case (Grant s p a)
      with l \<open>l \<in> set ls\<close> show ?thesis unfolding i by auto
    next
      case (Assign x y)
      with l show ?thesis by simp
    qed
  next
    assume "\<exists>s p a. (s, p, a) \<in> set (implicit_permissions cs ls u) \<and> (p = ''*'' \<or> obj = p) \<and> (a = ''*'' \<or> act = a)"
    then show "enforce cs ls u obj act" unfolding i enforce_def list_ex_iff by force
  qed
qed

lemma implicit_plain:
  assumes "casbin_ok cs" and "list_all plain_grant ls" and "(s, p, a) \<in> set (implicit_permissions cs ls u)"
  shows "(p = ''*'' \<and> a = ''*'') \<or> (p \<noteq> ''*'' \<and> a \<noteq> ''*'' \<and> CHR ''.'' \<notin> set a)"
proof -
  have "Grant s p a \<in> set ls" using assms(1,3) by (auto simp: casbin_ok_def)
  with assms(2) show ?thesis by (auto simp: list_all_iff plain_grant_def)
qed

lemma can_effective:
  assumes cs: "casbin_ok cs" and copy: "en_copy en = Some ls" and plain: "list_all plain_grant ls"
    and dot: "CHR ''.'' \<in> set c"
  shows "can cs en u c \<longleftrightarrow> c \<in> effective_codes cs en u \<or> ''*'' \<in> effective_codes cs en u"
proof -
  obtain x y where c: "c = dotted x y" "CHR ''.'' \<notin> set y" using dot by (rule rpartition_dot_Some)
  let ?I = "set (implicit_permissions cs ls (user_subject u))"
  have can: "can cs en u c \<longleftrightarrow> (\<exists>s p a. (s, p, a) \<in> ?I \<and> (p = ''*'' \<or> x = p) \<and> (a = ''*'' \<or> y = a))"
    by (simp add: can_def copy c split_dotted enforce_iff [OF cs])
  have eff: "effective_codes cs en u = (\<lambda>(s, p, a). join_code p a) ` ?I"
    by (simp add: effective_codes_def copy)
  have star: "join_code p a = ''*'' \<longleftrightarrow> p = ''*'' \<and> a = ''*''" if "(s, p, a) \<in> ?I" for s p a
    using implicit_plain [OF cs plain that] by (auto simp: join_code_def)
  have this_code: "join_code p a = c \<longleftrightarrow> p = x \<and> a = y \<and> p \<noteq> ''*''" if "(s, p, a) \<in> ?I" for s p a
  proof -
    from implicit_plain [OF cs plain that] show ?thesis
    proof
      assume "p = ''*'' \<and> a = ''*''"
      then show ?thesis using c(1) dotted_not_star [of x y, symmetric] by (auto simp: join_code_def)
    next
      assume p: "p \<noteq> ''*'' \<and> a \<noteq> ''*'' \<and> CHR ''.'' \<notin> set a"
      then have "join_code p a = dotted p a" by (simp add: join_code_def)
      with p c split_dotted show ?thesis by (metis prod.inject)
    qed
  qed
  have c_in: "c \<in> effective_codes cs en u \<longleftrightarrow> (\<exists>s p a. (s, p, a) \<in> ?I \<and> join_code p a = c)"
    unfolding eff by force
  have star_in: "''*'' \<in> effective_codes cs en u \<longleftrightarrow> (\<exists>s p a. (s, p, a) \<in> ?I \<and> join_code p a = ''*'')"
    unfolding eff by force
  show ?thesis
  proof
    assume "can cs en u c"
    then obtain s p a where i: "(s, p, a) \<in> ?I" and m: "p = ''*'' \<or> x = p" "a = ''*'' \<or> y = a" unfolding can by blast
    from implicit_plain [OF cs plain i] m have "(p = ''*'' \<and> a = ''*'') \<or> (p = x \<and> a = y \<and> p \<noteq> ''*'')" by blast
    with star [OF i] this_code [OF i] i show "c \<in> effective_codes cs en u \<or> ''*'' \<in> effective_codes cs en u"
      unfolding c_in star_in by blast
  next
    assume "c \<in> effective_codes cs en u \<or> ''*'' \<in> effective_codes cs en u"
    then show "can cs en u c" unfolding c_in star_in can using star this_code by blast
  qed
qed

end
