(* ===== verification/PolicySync.thy ===== *)
theory PolicySync
  imports Authorization
begin

text \<open>
  The workers of the service and their policy copies (\<open>core/authorization/service.py\<close>): a policy write
  commits and is published afterwards by raising the version counter; a load reads the counter first
  and the rows later, and anything may happen in between. Workers are numbered.
\<close>

record sync =
  sy_rules :: "policy_line list"
  sy_version :: int
  sy_unpublished :: nat
  sy_workers :: "nat \<Rightarrow> engine"
  sy_reading :: "nat \<Rightarrow> int option"

definition set_worker :: "nat \<Rightarrow> engine \<Rightarrow> sync \<Rightarrow> sync" where
  "set_worker w en s = s\<lparr>sy_workers := (sy_workers s)(w := en), sy_reading := (sy_reading s)(w := None)\<rparr>"

text \<open>The rules are those of \<open>sy_rules\<close> as a load would see them.\<close>

inductive sync_step :: "sync \<Rightarrow> sync \<Rightarrow> bool" where
  commit: "sync_step s (s\<lparr>sy_rules := ls, sy_unpublished := sy_unpublished s + 1\<rparr>)"
| publish: "0 < sy_unpublished s \<Longrightarrow>
    sync_step s (s\<lparr>sy_version := sy_version s + 1, sy_unpublished := sy_unpublished s - 1\<rparr>)"
| begin_load: "sync_step s (s\<lparr>sy_reading := (sy_reading s)(w := Some (sy_version s))\<rparr>)"
| end_load: "sy_reading s w = Some v \<Longrightarrow>
    sync_step s (set_worker w (snd (reload_copy (Some v) (Some (sy_rules s)) now (sy_workers s w))) s)"
| fail_load: "sync_step s (set_worker w (snd (reload_copy v None now (sy_workers s w))) s)"

definition sync_init :: "sync \<Rightarrow> bool" where
  "sync_init s \<longleftrightarrow> (\<forall>w. en_copy (sy_workers s w) = None \<and> sy_reading s w = None)"

text \<open>
  A copy of the published version is the committed one, unless a write has yet to be published; no
  copy is of a version that was not published.
\<close>

definition copy_ok :: "sync \<Rightarrow> nat \<Rightarrow> bool" where
  "copy_ok s w \<longleftrightarrow>
     (\<forall>ls. en_copy (sy_workers s w) = Some ls \<longrightarrow>
        (\<exists>v. en_version (sy_workers s w) = Some v \<and> v \<le> sy_version s
           \<and> (v = sy_version s \<longrightarrow> ls = sy_rules s \<or> 0 < sy_unpublished s)))
     \<and> (\<forall>v. sy_reading s w = Some v \<longrightarrow> v \<le> sy_version s)"

definition sync_inv :: "sync \<Rightarrow> bool" where
  "sync_inv s \<longleftrightarrow> (\<forall>w. copy_ok s w)"

lemma sync_inv_step:
  assumes "sync_inv s" and "sync_step s t"
  shows "sync_inv t"
  using assms(2)
proof (cases rule: sync_step.cases)
  case (commit ls)
  with assms(1) show ?thesis by (fastforce simp: sync_inv_def copy_ok_def)
next
  case publish
  with assms(1) show ?thesis by (fastforce simp: sync_inv_def copy_ok_def)
next
  case (begin_load w)
  with assms(1) show ?thesis by (auto simp: sync_inv_def copy_ok_def)
next
  case (end_load w v now)
  with assms(1) show ?thesis by (auto simp: sync_inv_def copy_ok_def set_worker_def reload_copy_def)
next
  case (fail_load w v now)
  with assms(1) show ?thesis by (auto simp: sync_inv_def copy_ok_def set_worker_def reload_copy_def)
qed

interpretation sync: invariant sync_init sync_step sync_inv
proof
  show "sync_init s \<Longrightarrow> sync_inv s" for s by (simp add: sync_init_def sync_inv_def copy_ok_def)
qed (rule sync_inv_step)

lemma published_copy:
  assumes "reach sync_init sync_step s" and "sy_unpublished s = 0"
    and "en_copy (sy_workers s w) = Some ls" and "en_version (sy_workers s w) = Some (sy_version s)"
  shows "ls = sy_rules s"
proof -
  have "copy_ok s w" using sync.always [OF assms(1)] by (simp add: sync_inv_def)
  with assms(2-4) show ?thesis by (auto simp: copy_ok_def)
qed

end
