(* ===== verification/Identity.thy ===== *)
theory Identity
  imports PolicySync Tables Calendar
begin

text \<open>
  The tables of \<open>modules/auth/models.py\<close>, the environment of a request, and what the functions of
  \<open>modules/auth/service.py\<close> share: the password policy of \<open>core/security.py\<close>, the lockout and
  session settings, and the guards on roles and permissions.

  A time is a number of microseconds. Password hashing (argon2), token hashing (SHA-256) and the
  random tokens are parameters of the model (\<open>crypto\<close>, \<open>ac_fresh\<close>). The Telegram tables are
  outside the model; that an account may recover its password over it is a parameter of the reset.
\<close>

section \<open>Tables\<close>

record user =
  us_code :: string
  us_name :: string
  us_email :: string
  us_display :: string
  us_status :: string
  us_locale :: string
  us_timezone :: string
  us_identity :: "string option"
  us_last_login :: "int option"
  us_token_version :: int

record credential =
  cr_hash :: string
  cr_changed_at :: int
  cr_must_change :: bool
  cr_failed :: int
  cr_locked_until :: "int option"

record user_session =
  se_user :: int
  se_refresh :: string
  se_created :: int
  se_last_used :: "int option"
  se_last_activity :: "int option"
  se_expires :: int
  se_revoked :: "int option"
  se_remember :: bool

record used_token =
  ut_session :: int
  ut_used_at :: int

record role =
  ro_code :: string
  ro_name :: string
  ro_description :: "string option"
  ro_system :: bool
  ro_status :: string

record reset_token =
  rt_user :: int
  rt_email :: string
  rt_hash :: string
  rt_expires :: int
  rt_used :: "int option"
  rt_created :: int

record adb =
  a_users :: "user table"
  a_creds :: "int \<Rightarrow> credential option"
  a_sessions :: "user_session table"
  a_used :: "string \<Rightarrow> used_token option"
  a_roles :: "role table"
  a_rules :: "casbin_rule list"
  a_resets :: "reset_token table"

definition PROTECTED_SYSTEM_ADMIN_IDENTITY :: string where
  "PROTECTED_SYSTEM_ADMIN_IDENTITY = ''DEFAULT_SYSTEM_ADMIN''"

section \<open>The environment of a request\<close>

record crypto =
  hash_password :: "string \<Rightarrow> string"
  verify_password :: "string \<Rightarrow> string \<Rightarrow> bool"
  hash_token :: "string \<Rightarrow> string"

text \<open>The groups \<open>security\<close> and \<open>system\<close> of the stored settings, and the limits of the process.\<close>

record auth_call =
  ac_now :: int
  ac_fresh :: string
  ac_crypto :: crypto
  ac_casbin :: casbin
  ac_engine :: engine
  ac_security :: payload
  ac_system :: payload
  ac_min_length :: nat
  ac_max_length :: nat
  ac_idle_minutes :: int
  ac_absolute_minutes :: int
  ac_token_minutes :: int

record actor =
  at_user :: int
  at_admin :: bool

definition minutes :: "int \<Rightarrow> int" where
  "minutes n = n * 60 * 1000000"

definition has_permission :: "auth_call \<Rightarrow> actor \<Rightarrow> string \<Rightarrow> bool" where
  "has_permission c x code = can (ac_casbin c) (ac_engine c) (at_user x) code"

type_synonym 'a aservice = "auth_call \<Rightarrow> adb \<Rightarrow> ('a \<times> adb) res"

section \<open>Settings\<close>

definition clamped_int :: "pyval \<Rightarrow> int \<Rightarrow> int \<times> int \<Rightarrow> int" where
  "clamped_int v dflt bounds =
     (case int_of v of None \<Rightarrow> dflt | Some n \<Rightarrow> max (fst bounds) (min (snd bounds) n))"

definition MAX_FAILED_ATTEMPTS :: int where "MAX_FAILED_ATTEMPTS = 5"
definition LOCKOUT_MINUTES :: int where "LOCKOUT_MINUTES = 15"

definition lockout_policy :: "payload \<Rightarrow> int \<times> int" where
  "lockout_policy security =
     (clamped_int (dget security ''maxLoginAttempts'') MAX_FAILED_ATTEMPTS (3, 100),
      clamped_int (dget security ''accountLockMinutes'') LOCKOUT_MINUTES (1, 1440))"

definition int_in_range :: "pyval \<Rightarrow> int \<Rightarrow> int \<Rightarrow> int option" where
  "int_in_range v low high =
     (case int_of v of None \<Rightarrow> None | Some n \<Rightarrow> if low \<le> n \<and> n \<le> high then Some n else None)"

text \<open>\<open>d.get(k, default)\<close>, and \<open>n or default\<close> on a number.\<close>

definition dget_default :: "payload \<Rightarrow> string \<Rightarrow> pyval \<Rightarrow> pyval" where
  "dget_default d k v = (if has_key d k then dget d k else v)"

definition int_or :: "int option \<Rightarrow> int \<Rightarrow> int" where
  "int_or n dflt = (case n of Some k \<Rightarrow> if k = 0 then dflt else k | None \<Rightarrow> dflt)"

record access_policy =
  ap_maintenance :: bool
  ap_read_only :: bool
  ap_idle :: int
  ap_token :: int
  ap_absolute :: int
  ap_expiry_days :: int
  ap_require_change :: bool
  ap_require_since :: string

definition get_access_policy :: "auth_call \<Rightarrow> access_policy" where
  "get_access_policy c =
     (let security = ac_security c; system = ac_system c
      in \<lparr>ap_maintenance = truthy (dget_default system ''maintenanceMode'' (PBool False)),
          ap_read_only = truthy (dget_default system ''readOnlyMode'' (PBool False)),
          ap_idle = int_or (int_in_range
             (dget_default security ''sessionTimeoutMinutes'' (PInt (ac_idle_minutes c))) 1 1440) (ac_idle_minutes c),
          ap_token = int_or (int_in_range (dget security ''accessTokenMinutes'') 1 30) (ac_token_minutes c),
          ap_absolute = int_or (int_in_range (dget security ''sessionAbsoluteMinutes'') 15 10080) (ac_absolute_minutes c),
          ap_expiry_days = (case int_in_range (dget_default security ''passwordExpiryDays'' (PInt 0)) 0 3650 of
             Some n \<Rightarrow> n | None \<Rightarrow> 0),
          ap_require_change = truthy (dget_default security ''requirePasswordChange'' (PBool False)),
          ap_require_since = py_str (py_or (dget security ''requirePasswordChangeSince'') (PStr []))\<rparr>)"

section \<open>The password policy\<close>

definition COMMON_PASSWORDS :: "string list" where
  "COMMON_PASSWORDS = [''password'', ''password123'', ''changeme'', ''changeme123'', ''admin123'', ''letmein'', ''qwerty123'']"

definition is_alnum :: "char \<Rightarrow> bool" where
  "is_alnum ch \<longleftrightarrow> is_upper ch \<or> is_lower ch \<or> is_digit ch"

definition validate_password_strength :: "auth_call \<Rightarrow> string \<Rightarrow> string list" where
  "validate_password_strength c p =
     (if length p < ac_min_length c then [''Password must contain at least the minimum of characters.''] else [])
     @ (if ac_max_length c < length p then [''Password must not exceed the maximum of characters.''] else [])
     @ (if py_lower p \<in> set COMMON_PASSWORDS then [''Password is too common.''] else [])
     @ (if \<not> list_ex is_upper p then [''Password must contain at least one uppercase letter.''] else [])
     @ (if \<not> list_ex is_lower p then [''Password must contain at least one lowercase letter.''] else [])
     @ (if \<not> list_ex is_digit p then [''Password must contain at least one number.''] else [])
     @ (if list_all is_alnum p then [''Password must contain at least one special character.''] else [])"

definition check_password :: "auth_call \<Rightarrow> string \<Rightarrow> unit res" where
  "check_password c p =
     (case validate_password_strength c p of
        [] \<Rightarrow> Inr () | e # _ \<Rightarrow> Inl (ValidationFailed e [(''password'', e)]))"

section \<open>Guards\<close>

definition is_active :: "string \<Rightarrow> bool" where
  "is_active status \<longleftrightarrow> py_upper status = ''ACTIVE''"

definition is_protected_system_admin :: "user \<Rightarrow> bool" where
  "is_protected_system_admin u \<longleftrightarrow> us_identity u = Some PROTECTED_SYSTEM_ADMIN_IDENTITY"

definition assert_can_manage_protected_role :: "actor \<Rightarrow> string \<Rightarrow> unit res" where
  "assert_can_manage_protected_role x code =
     raise_if (code \<in> PROTECTED_ROLE_CODES \<and> \<not> at_admin x)
       (AccessDenied ''Only a super administrator can modify the role.'')"

definition assert_can_grant_permissions :: "auth_call \<Rightarrow> actor \<Rightarrow> string list \<Rightarrow> unit res" where
  "assert_can_grant_permissions c x codes =
     (if at_admin x then Inr ()
      else raise_if (\<not> (\<forall>code \<in> resolve_role_codes (set codes). has_permission c x code))
             (AccessDenied ''You cannot grant permissions that you do not hold.''))"

definition assert_can_assign_role :: "auth_call \<Rightarrow> actor \<Rightarrow> role \<Rightarrow> adb \<Rightarrow> unit res" where
  "assert_can_assign_role c x r db =
     (if at_admin x then Inr () else assert_can_grant_permissions c x (role_permission_codes (a_rules db) (ro_code r)))"

definition assert_can_touch_super_admin :: "actor \<Rightarrow> string list \<Rightarrow> string list \<Rightarrow> unit res" where
  "assert_can_touch_super_admin x current requested =
     (if at_admin x then Inr ()
      else raise_if (SUPER_ADMIN_ROLE \<in> set current \<or> SUPER_ADMIN_ROLE \<in> set requested)
             (AccessDenied ''Only a super administrator can change a Super Administrator assignment.''))"

definition active_user :: "adb \<Rightarrow> int \<Rightarrow> bool" where
  "active_user db i = (case t_get (a_users db) i of Some u \<Rightarrow> is_active (us_status u) | None \<Rightarrow> False)"

definition assert_super_admin_remains :: "int \<Rightarrow> string list \<Rightarrow> adb \<Rightarrow> unit res" where
  "assert_super_admin_remains user_id new_codes db =
     (if SUPER_ADMIN_ROLE \<in> set new_codes \<or> SUPER_ADMIN_ROLE \<notin> set (user_role_codes (a_rules db) user_id) then Inr ()
      else raise_if (\<not> list_ex (\<lambda>i. i \<noteq> user_id \<and> active_user db i) (users_with_role (a_rules db) SUPER_ADMIN_ROLE))
             (ValidationFailed ''At least one Super Administrator must remain.'' [(''roles'', ''Required'')]))"

text \<open>Every session of the user ends, and no access token issued before stays valid.\<close>

definition revoke_all_sessions :: "auth_call \<Rightarrow> int \<Rightarrow> adb \<Rightarrow> adb" where
  "revoke_all_sessions c user_id db =
     db\<lparr>a_sessions := (a_sessions db)\<lparr>rows := map (\<lambda>(i, s).
          (i, if se_user s = user_id \<and> se_revoked s = None then s\<lparr>se_revoked := Some (ac_now c)\<rparr> else s))
          (rows (a_sessions db))\<rparr>,
        a_users := (case t_get (a_users db) user_id of
          None \<Rightarrow> a_users db
        | Some u \<Rightarrow> t_put user_id (u\<lparr>us_token_version := us_token_version u + 1\<rparr>) (a_users db))\<rparr>"

definition expire_resets :: "auth_call \<Rightarrow> int \<Rightarrow> adb \<Rightarrow> adb" where
  "expire_resets c user_id db =
     db\<lparr>a_resets := (a_resets db)\<lparr>rows := map (\<lambda>(i, r).
          (i, if rt_user r = user_id \<and> rt_used r = None then r\<lparr>rt_used := Some (ac_now c)\<rparr> else r))
          (rows (a_resets db))\<rparr>\<rparr>"

text \<open>The role statuses a load of the policies sees, and the copy it makes.\<close>

definition role_statuses :: "adb \<Rightarrow> string \<Rightarrow> string option" where
  "role_statuses db code =
     map_option (\<lambda>(i, r). py_upper (ro_status r)) (t_first (\<lambda>r. ro_code r = code) (a_roles db))"

definition loaded_policies :: "adb \<Rightarrow> policy_line list" where
  "loaded_policies db = load_rows (role_statuses db) (a_rules db)"

end
