(* ===== verification/Sessions.thy ===== *)
theory Sessions
  imports Identity
begin

text \<open>
  Signing in, sessions and passwords (\<open>modules/auth/service.py\<close>), and the identity of a request
  (\<open>core/deps.py\<close>, \<open>core/access_modes.py\<close>). Where the code commits before it raises, the operation
  returns the database it leaves together with its outcome. Audit rows and notifications are left
  out. A signed access token is its claims: signing and verifying are the JWT library's.
\<close>

section \<open>Signing in\<close>

text \<open>\<open>AuthRepository.user_by_login\<close>\<close>

definition user_by_login :: "string \<Rightarrow> adb \<Rightarrow> (int \<times> user) option" where
  "user_by_login login db = t_first (\<lambda>u. us_name u = login \<or> us_email u = login) (a_users db)"

definition auth_required :: "'a res" where
  "auth_required = Inl (AuthRequired ''AUTH_REQUIRED'')"

definition locked :: "auth_call \<Rightarrow> credential option \<Rightarrow> bool" where
  "locked c cred = (case cred of
       Some k \<Rightarrow> (case cr_locked_until k of Some t \<Rightarrow> ac_now c < t | None \<Rightarrow> False)
     | None \<Rightarrow> False)"

definition record_failure :: "auth_call \<Rightarrow> credential \<Rightarrow> credential" where
  "record_failure c k =
     (let (max_attempts, lockout_minutes) = lockout_policy (ac_security c); n = cr_failed k + 1
      in if max_attempts \<le> n
         then k\<lparr>cr_failed := 0, cr_locked_until := Some (ac_now c + minutes lockout_minutes)\<rparr>
         else k\<lparr>cr_failed := n\<rparr>)"

definition authenticate :: "string \<Rightarrow> string \<Rightarrow> auth_call \<Rightarrow> adb \<Rightarrow> int res \<times> adb" where
  "authenticate login password c db =
     (case user_by_login login db of
        None \<Rightarrow> (auth_required, db)
      | Some (i, u) \<Rightarrow>
          (let cred = a_creds db i
           in if locked c cred then (auth_required, db)
              else case cred of
                None \<Rightarrow> (auth_required, db)
              | Some k \<Rightarrow>
                  if \<not> verify_password (ac_crypto c) password (cr_hash k)
                  then (auth_required, db\<lparr>a_creds := (a_creds db)(i := Some (record_failure c k))\<rparr>)
                  else if \<not> is_active (us_status u) then (auth_required, db)
                  else (Inr i, db\<lparr>a_creds := (a_creds db)(i := Some (k\<lparr>cr_failed := 0, cr_locked_until := None\<rparr>))\<rparr>)))"

section \<open>Sessions\<close>

record claims =
  cl_type :: string
  cl_sub :: int
  cl_version :: int
  cl_session :: "int option"
  cl_change :: bool
  cl_expires :: int

definition must_change_password :: "adb \<Rightarrow> int \<Rightarrow> bool" where
  "must_change_password db i = (case a_creds db i of Some k \<Rightarrow> cr_must_change k | None \<Rightarrow> False)"

definition session_access :: "auth_call \<Rightarrow> adb \<Rightarrow> int \<Rightarrow> user \<Rightarrow> int \<Rightarrow> claims" where
  "session_access c db i u sid =
     \<lparr>cl_type = ''access'', cl_sub = i, cl_version = us_token_version u, cl_session = Some sid,
      cl_change = must_change_password db i, cl_expires = ac_now c + minutes (ap_token (get_access_policy c))\<rparr>"

definition validate_session :: "auth_call \<Rightarrow> user_session option \<Rightarrow> int \<Rightarrow> user_session res" where
  "validate_session c r user_id =
     (case r of
        None \<Rightarrow> Inl (AuthRequired ''SESSION_REVOKED'')
      | Some s \<Rightarrow>
          if se_user s \<noteq> user_id \<or> se_revoked s \<noteq> None then Inl (AuthRequired ''SESSION_REVOKED'')
          else (let p = get_access_policy c;
                    absolute = min (se_expires s) (se_created s + minutes (ap_absolute p));
                    activity = (case se_last_activity s of Some t \<Rightarrow> t | None \<Rightarrow> se_created s)
                in if absolute \<le> ac_now c \<or> activity + minutes (ap_idle p) \<le> ac_now c
                   then Inl (AuthRequired ''SESSION_EXPIRED'') else Inr s))"

definition refresh_key :: "user_session \<Rightarrow> string option" where
  "refresh_key s = Some (se_refresh s)"

definition create_session :: "int \<Rightarrow> bool \<Rightarrow> (claims \<times> string) aservice" where
  "create_session i remember_me c db =
     ebind (require_some (t_get (a_users db) i) (NotFound ''User not found.'')) (\<lambda>u.
     let now = ac_now c; sid = next_id (a_sessions db);
         s = \<lparr>se_user = i, se_refresh = hash_token (ac_crypto c) (ac_fresh c), se_created = now, se_last_used = None,
              se_last_activity = Some now, se_expires = now + minutes (ap_absolute (get_access_policy c)),
              se_revoked = None, se_remember = remember_me\<rparr>
     in ebind (check_unique ''user_sessions_refresh_token_hash_key'' refresh_key sid s (a_sessions db)) (\<lambda>_.
        Inr ((session_access c db i u sid, ac_fresh c),
             db\<lparr>a_sessions := t_add s (a_sessions db), a_users := t_put i (u\<lparr>us_last_login := Some now\<rparr>) (a_users db)\<rparr>)))"

definition refresh_record :: "auth_call \<Rightarrow> string \<Rightarrow> adb \<Rightarrow> ((int \<times> user_session) \<times> used_token option) option" where
  "refresh_record c token db =
     (let h = hash_token (ac_crypto c) token
      in case t_first (\<lambda>s. se_refresh s = h) (a_sessions db) of
           Some r \<Rightarrow> Some (r, None)
         | None \<Rightarrow> (case a_used db h of
             None \<Rightarrow> None
           | Some used \<Rightarrow> map_option (\<lambda>s. ((ut_session used, s), Some used)) (t_get (a_sessions db) (ut_session used))))"

definition rotate_refresh_token :: "string \<Rightarrow> auth_call \<Rightarrow> adb \<Rightarrow> (int \<times> claims \<times> string \<times> bool) res \<times> adb" where
  "rotate_refresh_token token c db =
     (case refresh_record c token db of
        None \<Rightarrow> (Inl (AuthRequired ''SESSION_INVALID''), db)
      | Some ((sid, s), Some used) \<Rightarrow>
          if se_revoked s = None \<and> ac_now c - ut_used_at used \<le> 5 * 1000000
          then (Inl (Conflict ''REFRESH_CONFLICT'' ''Another request renewed this session. Retry using the current cookie.'' []), db)
          else (Inl (AuthRequired ''SESSION_REVOKED''),
                if se_revoked s = None
                then db\<lparr>a_sessions := t_put sid (s\<lparr>se_revoked := Some (ac_now c)\<rparr>) (a_sessions db)\<rparr> else db)
      | Some ((sid, s), None) \<Rightarrow>
          (case t_get (a_users db) (se_user s) of
             None \<Rightarrow> (Inl (AuthRequired ''SESSION_REVOKED''), db)
           | Some u \<Rightarrow>
               if \<not> is_active (us_status u) then (Inl (AuthRequired ''SESSION_REVOKED''), db)
               else (case validate_session c (Some s) (se_user s) of
                 Inl e \<Rightarrow> (Inl e, db)
               | Inr _ \<Rightarrow>
                   (let h = hash_token (ac_crypto c) (ac_fresh c);
                        s' = s\<lparr>se_refresh := h, se_last_used := Some (ac_now c)\<rparr>
                    in if a_used db (se_refresh s) \<noteq> None
                       then (Inl (IntegrityError ''used_refresh_tokens_pkey''), db)
                       else (case check_unique ''user_sessions_refresh_token_hash_key'' refresh_key sid s' (a_sessions db) of
                         Inl e \<Rightarrow> (Inl e, db)
                       | Inr _ \<Rightarrow>
                           (Inr (se_user s, session_access c db (se_user s) u sid, ac_fresh c, se_remember s),
                            db\<lparr>a_used := (a_used db)(se_refresh s := Some \<lparr>ut_session = sid, ut_used_at = ac_now c\<rparr>),
                               a_sessions := t_put sid s' (a_sessions db)\<rparr>))))))"

definition revoke_one :: "auth_call \<Rightarrow> int \<Rightarrow> adb \<Rightarrow> adb" where
  "revoke_one c sid db =
     (case t_get (a_sessions db) sid of
        None \<Rightarrow> db
      | Some s \<Rightarrow> db\<lparr>a_sessions := t_put sid (s\<lparr>se_revoked := Some (ac_now c)\<rparr>) (a_sessions db)\<rparr>)"

definition revoke_active :: "auth_call \<Rightarrow> int \<Rightarrow> adb \<Rightarrow> adb" where
  "revoke_active c user_id db =
     db\<lparr>a_sessions := (a_sessions db)\<lparr>rows := map (\<lambda>(i, s).
          (i, if se_user s = user_id \<and> se_revoked s = None then s\<lparr>se_revoked := Some (ac_now c)\<rparr> else s))
          (rows (a_sessions db))\<rparr>\<rparr>"

definition revoke_session :: "int option \<Rightarrow> string option \<Rightarrow> int option \<Rightarrow> (int option) aservice" where
  "revoke_session user_id token session_id c db =
     (case (if token = Some [] then None else token) of
        Some t \<Rightarrow>
          (case refresh_record c t db of
             None \<Rightarrow> Inr (user_id, db)
           | Some ((sid, s), _) \<Rightarrow> Inr (Some (se_user s), revoke_one c sid db))
      | None \<Rightarrow>
          (case user_id of
             None \<Rightarrow> Inr (None, db)
           | Some i \<Rightarrow>
               (case session_id of
                  Some sid \<Rightarrow>
                    Inr (Some i, if map_option se_user (t_get (a_sessions db) sid) = Some i then revoke_one c sid db else db)
                | None \<Rightarrow> Inr (Some i, revoke_active c i db))))"

section \<open>The identity of a request\<close>

datatype token = No_Token | Expired_Token | Bad_Token | Token claims

record http_request =
  ht_path :: string
  ht_method :: string
  ht_token :: token
  ht_expected_user :: "string option"
  ht_activity :: bool

definition path_of :: "http_request \<Rightarrow> string" where
  "path_of q = rev (dropWhile (\<lambda>ch. ch = CHR ''/'') (rev (ht_path q)))"

definition PASSWORD_CHANGE_ALLOWED :: "string list" where
  "PASSWORD_CHANGE_ALLOWED = [''/auth/change-password'', ''/auth/logout'', ''/auth/refresh'', ''/auth/me'']"

definition refuse_until_password_changed :: "http_request \<Rightarrow> bool \<Rightarrow> unit res" where
  "refuse_until_password_changed q required =
     raise_if (required \<and> \<not> list_ex (ends_with (path_of q)) PASSWORD_CHANGE_ALLOWED)
       (AccessDenied ''Your password was set by an administrator. Choose a new one to continue.'')"

text \<open>\<open>get_current_context\<close> up to the checks of the token, the account and the session.\<close>

definition identify :: "auth_call \<Rightarrow> http_request \<Rightarrow> adb \<Rightarrow> (claims \<times> int \<times> user_session) res" where
  "identify c q db =
     (case ht_token q of
        No_Token \<Rightarrow> auth_required
      | Expired_Token \<Rightarrow> Inl (AuthRequired ''ACCESS_TOKEN_EXPIRED'')
      | Bad_Token \<Rightarrow> auth_required
      | Token t \<Rightarrow>
          ebind (raise_if (cl_type t \<noteq> ''access'') (AuthRequired ''AUTH_REQUIRED'')) (\<lambda>_.
          ebind (require_some (cl_session t) (AuthRequired ''ACCESS_TOKEN_EXPIRED'')) (\<lambda>sid.
          case (t_get (a_users db) (cl_sub t), t_get (a_sessions db) sid) of
            (Some u, Some s) \<Rightarrow>
              ebind (raise_if (se_user s \<noteq> cl_sub t) (AuthRequired ''SESSION_REVOKED'')) (\<lambda>_.
              ebind (raise_if (ht_expected_user q \<noteq> None \<and> ht_expected_user q \<noteq> Some (show_int (cl_sub t)))
                 (Conflict ''SESSION_ACCOUNT_CHANGED'' ''Another account signed in. Sign in to the original account before submitting this draft.'' [])) (\<lambda>_.
              ebind (raise_if (\<not> is_active (us_status u)) (AuthRequired ''SESSION_REVOKED'')) (\<lambda>_.
              ebind (raise_if (cl_version t \<noteq> us_token_version u) (AuthRequired ''SESSION_REVOKED'')) (\<lambda>_.
              ebind (refuse_until_password_changed q (cl_change t)) (\<lambda>_.
              ebind (validate_session c (Some s) (cl_sub t)) (\<lambda>s.
                Inr (t, sid, s)))))))
          | _ \<Rightarrow> Inl (AuthRequired ''SESSION_REVOKED''))))"

text \<open>Only a marked interaction counts as activity, at most once in fifteen seconds.\<close>

definition note_activity :: "auth_call \<Rightarrow> http_request \<Rightarrow> int \<Rightarrow> user_session \<Rightarrow> adb \<Rightarrow> adb" where
  "note_activity c q sid s db =
     (let previous = (case se_last_activity s of Some t \<Rightarrow> t | None \<Rightarrow> se_created s)
      in if ht_activity q \<and> \<not> ends_with (ht_path q) ''/auth/me'' \<and> 15 * 1000000 \<le> ac_now c - previous
         then db\<lparr>a_sessions := t_put sid (s\<lparr>se_last_activity := Some (ac_now c)\<rparr>) (a_sessions db)\<rparr> else db)"

text \<open>
  A password that is older than the expiry, or than the moment a change was asked of everyone. The
  text of that moment is read by \<open>datetime.fromisoformat\<close>, the parameter \<open>since\<close>.
\<close>

definition password_due :: "auth_call \<Rightarrow> (string \<Rightarrow> int option) \<Rightarrow> credential option \<Rightarrow> bool" where
  "password_due c since cred =
     (let p = get_access_policy c
      in case cred of
           None \<Rightarrow> False
         | Some k \<Rightarrow>
             (0 < ap_expiry_days p \<and> cr_changed_at k + minutes (ap_expiry_days p * 1440) \<le> ac_now c)
             \<or> (ap_require_change p \<and> ap_require_since p \<noteq> []
                \<and> (case since (ap_require_since p) of Some t \<Rightarrow> cr_changed_at k < t | None \<Rightarrow> False)))"

definition SAFE_METHODS :: "string list" where
  "SAFE_METHODS = [''GET'', ''HEAD'', ''OPTIONS'', ''TRACE'']"

definition is_generated_report :: "http_request \<Rightarrow> bool" where
  "is_generated_report q \<longleftrightarrow> starts_with (path_of q) ''/api/v1/reports/''
     \<and> (ends_with (path_of q) ''/generate'' \<or> ends_with (path_of q) ''/export'')"

definition is_recovery_admin :: "auth_call \<Rightarrow> actor \<Rightarrow> bool" where
  "is_recovery_admin c x \<longleftrightarrow> at_admin x \<or> has_permission c x ''settings.app_config.update''
     \<or> has_permission c x ''configuration.manage''"

definition recovery_allowed :: "auth_call \<Rightarrow> http_request \<Rightarrow> actor \<Rightarrow> bool" where
  "recovery_allowed c q x =
     (if starts_with (path_of q) ''/api/v1/auth'' then True
      else if path_of q = ''/api/v1/settings/app-config'' then is_recovery_admin c x else False)"

definition enforce_access_modes :: "auth_call \<Rightarrow> http_request \<Rightarrow> actor \<Rightarrow> unit res" where
  "enforce_access_modes c q x =
     (let p = get_access_policy c
      in ebind (raise_if (ap_maintenance p \<and> \<not> recovery_allowed c q x)
                 (DomainError ''MAINTENANCE_MODE'' ''The application is in maintenance mode. Only administrators can sign in and change settings.'' 503)) (\<lambda>_.
         raise_if (ap_read_only p \<and> py_upper (ht_method q) \<notin> set SAFE_METHODS \<and> \<not> is_generated_report q
                    \<and> \<not> recovery_allowed c q x)
                 (DomainError ''READ_ONLY_MODE'' ''The application is in read-only mode. Business data cannot be changed right now.'' 409)))"

text \<open>\<open>build_context\<close>, over the policy copy of the worker.\<close>

definition build_context :: "auth_call \<Rightarrow> int \<Rightarrow> actor" where
  "build_context c i =
     \<lparr>at_user = i,
      at_admin = (is_super_admin (ac_casbin c) (ac_engine c) i
        \<or> ''*'' \<in> effective_codes (ac_casbin c) (ac_engine c) i)\<rparr>"

definition get_current_context :: "(string \<Rightarrow> int option) \<Rightarrow> auth_call \<Rightarrow> http_request \<Rightarrow> adb \<Rightarrow> actor res \<times> adb" where
  "get_current_context since c q db =
     (case identify c q db of
        Inl e \<Rightarrow> (Inl e, db)
      | Inr (t, sid, s) \<Rightarrow>
          (let db1 = note_activity c q sid s db; i = cl_sub t; cred = a_creds db1 i;
               due = password_due c since cred;
               db2 = (case cred of
                        Some k \<Rightarrow> if due then db1\<lparr>a_creds := (a_creds db1)(i := Some (k\<lparr>cr_must_change := True\<rparr>))\<rparr> else db1
                      | None \<Rightarrow> db1)
           in case refuse_until_password_changed q due of
                Inl e \<Rightarrow> (Inl e, db2)
              | Inr _ \<Rightarrow>
                  if \<not> is_loaded (ac_engine c) then (Inl (DomainError ''AUTHORIZATION_UNAVAILABLE'' ''Authorization policies are unavailable. Try again shortly.'' 503), db2)
                  else (let x = build_context c i
                        in case enforce_access_modes c q x of Inl e \<Rightarrow> (Inl e, db2) | Inr _ \<Rightarrow> (Inr x, db2))))"

section \<open>Passwords\<close>

definition new_credential :: "auth_call \<Rightarrow> string \<Rightarrow> credential" where
  "new_credential c password =
     \<lparr>cr_hash = hash_password (ac_crypto c) password, cr_changed_at = ac_now c, cr_must_change = False,
      cr_failed = 0, cr_locked_until = None\<rparr>"

definition verify_reset_code :: "string \<Rightarrow> auth_call \<Rightarrow> adb \<Rightarrow> bool" where
  "verify_reset_code code c db =
     (if length code < 40 \<or> 128 < length code then False
      else t_first (\<lambda>r. rt_hash r = hash_token (ac_crypto c) code \<and> rt_used r = None \<and> ac_now c < rt_expires r) (a_resets db) \<noteq> None)"

text \<open>\<open>recovery\<close>: that recovery over Telegram is enabled and the account linked to it.\<close>

definition request_password_reset :: "(int \<Rightarrow> bool) \<Rightarrow> int \<Rightarrow> string \<Rightarrow> unit aservice" where
  "request_password_reset recovery cooldown email c db =
     (case user_by_login (py_strip email) db of
        None \<Rightarrow> Inr ((), db)
      | Some (i, u) \<Rightarrow>
          if \<not> is_active (us_status u) \<or> \<not> recovery i then Inr ((), db)
          else if list_ex (\<lambda>r. rt_user r = i \<and> ac_now c - minutes cooldown < rt_created r) (t_vals (a_resets db)) then Inr ((), db)
          else (let db1 = expire_resets c i db;
                    r = \<lparr>rt_user = i, rt_email = us_email u, rt_hash = hash_token (ac_crypto c) (ac_fresh c),
                         rt_expires = ac_now c + minutes 15, rt_used = None, rt_created = ac_now c\<rparr>
                in Inr ((), db1\<lparr>a_resets := t_add r (a_resets db1)\<rparr>)))"

definition invalid_reset :: "'a res" where
  "invalid_reset = Inl (Conflict ''INVALID_RESET_CODE'' ''The recovery link is invalid or has expired.'' [])"

definition reset_password :: "(int \<Rightarrow> bool) \<Rightarrow> string \<Rightarrow> string \<Rightarrow> unit aservice" where
  "reset_password recovery code password c db =
     ebind (check_password c password) (\<lambda>_.
     if length code < 40 \<or> 128 < length code then invalid_reset
     else case t_first (\<lambda>r. rt_hash r = hash_token (ac_crypto c) code) (a_resets db) of
       None \<Rightarrow> invalid_reset
     | Some (rid, r) \<Rightarrow>
         if \<not> active_user db (rt_user r) \<or> \<not> recovery (rt_user r) then invalid_reset
         else if rt_used r \<noteq> None \<or> rt_expires r \<le> ac_now c then invalid_reset
         else (let i = rt_user r;
                   db1 = db\<lparr>a_creds := (a_creds db)(i := Some (new_credential c password))\<rparr>
               in Inr ((), revoke_all_sessions c i (expire_resets c i db1))))"

definition change_password :: "int \<Rightarrow> string \<Rightarrow> string \<Rightarrow> unit aservice" where
  "change_password i current_password new_password c db =
     (case a_creds db i of
        None \<Rightarrow> auth_required
      | Some k \<Rightarrow>
          if \<not> verify_password (ac_crypto c) current_password (cr_hash k) then auth_required
          else ebind (check_password c new_password) (\<lambda>_.
            let k' = k\<lparr>cr_hash := hash_password (ac_crypto c) new_password, cr_changed_at := ac_now c, cr_must_change := False\<rparr>
            in Inr ((), expire_resets c i (revoke_all_sessions c i (db\<lparr>a_creds := (a_creds db)(i := Some k')\<rparr>)))))"

definition set_user_password :: "actor \<Rightarrow> int \<Rightarrow> string \<Rightarrow> bool \<Rightarrow> int aservice" where
  "set_user_password x i password must_change c db =
     ebind (require_some (t_get (a_users db) i) (NotFound ''User not found.'')) (\<lambda>_.
     ebind (assert_can_manage_protected_role x
       (if SUPER_ADMIN_ROLE \<in> set (user_role_codes (a_rules db) i) then SUPER_ADMIN_ROLE else [])) (\<lambda>_.
     ebind (check_password c password) (\<lambda>_.
     let db1 = db\<lparr>a_creds := (a_creds db)(i := Some ((new_credential c password)\<lparr>cr_must_change := must_change\<rparr>))\<rparr>
     in Inr (i, expire_resets c i (revoke_all_sessions c i db1)))))"

definition force_logout_user :: "int \<Rightarrow> unit aservice" where
  "force_logout_user i c db =
     ebind (require_some (t_get (a_users db) i) (NotFound ''User not found.'')) (\<lambda>_.
     Inr ((), revoke_all_sessions c i db))"

end
