(* ===== verification/Users.thy ===== *)
theory Users
  imports Sessions Accounts
begin

text \<open>
  The administration of users and roles (\<open>modules/auth/service.py\<close>). The unique indexes of the user
  and role tables are checked when a row is written last; rows of other modules that name a user are
  not in the model. Publishing a policy change to the workers is in \<open>PolicySync\<close>.
\<close>

section \<open>Roles of a user\<close>

definition requested_role_codes :: "payload \<Rightarrow> string list option" where
  "requested_role_codes data =
     map_option (\<lambda>k. let v = py_strip (py_str (dget data k)) in if v = [] then [] else [v])
       (find (\<lambda>k. dget data k \<noteq> PNone) [''role_code'', ''roleCode'', ''role''])"

definition role_by_code :: "string \<Rightarrow> adb \<Rightarrow> (int \<times> role) option" where
  "role_by_code code db = t_first (\<lambda>r. ro_code r = code) (a_roles db)"

definition load_roles :: "string list \<Rightarrow> adb \<Rightarrow> role list res" where
  "load_roles codes db =
     (let unique = rev (remdups (rev codes))
      in ebind (raise_if (list_ex (\<lambda>k. role_by_code k db = None) unique)
                 (ValidationFailed ''Unknown role.'' [(''roles'', ''Unknown role'')])) (\<lambda>_.
         let found = List.map_filter (\<lambda>k. map_option snd (role_by_code k db)) unique
         in ebind (raise_if (list_ex (\<lambda>r. \<not> is_active (ro_status r)) found)
                    (ValidationFailed ''The selected role is not active.'' [(''roles'', ''Inactive role'')])) (\<lambda>_.
            Inr found)))"

definition assert_all :: "('a \<Rightarrow> unit res) \<Rightarrow> 'a list \<Rightarrow> unit res" where
  "assert_all f xs = ebind (emap f xs) (\<lambda>_. Inr ())"

definition email_key :: "user \<Rightarrow> string option" where "email_key u = Some (us_email u)"
definition name_key :: "user \<Rightarrow> string option" where "name_key u = Some (us_name u)"
definition code_key :: "user \<Rightarrow> string option" where "code_key u = Some (us_code u)"
definition role_key :: "role \<Rightarrow> string option" where "role_key r = Some (ro_code r)"

definition text_field :: "payload \<Rightarrow> string \<Rightarrow> string" where
  "text_field data k = py_str (dget data k)"

definition create_user :: "actor \<Rightarrow> payload \<Rightarrow> int aservice" where
  "create_user x data c db =
     (let i = next_id (a_users db); email = text_field data ''email''; name = text_field data ''username'';
          code = py_strip (py_str (py_or (dget data ''user_code'') (PStr (py_upper name))))
      in ebind (raise_if (t_first (\<lambda>u. us_email u = email) (a_users db) \<noteq> None)
                 (Conflict ''DUPLICATE_EMAIL'' ''A user with this email already exists.'' [(''email'', ''Already in use'')])) (\<lambda>_.
         ebind (raise_if (t_first (\<lambda>u. us_name u = name) (a_users db) \<noteq> None)
                 (Conflict ''DUPLICATE_USERNAME'' ''A user with this username already exists.'' [(''username'', ''Already in use'')])) (\<lambda>_.
         ebind (raise_if (t_first (\<lambda>u. us_code u = code) (a_users db) \<noteq> None)
                 (Conflict ''DUPLICATE_USER_CODE'' ''A user with this code already exists.'' [(''userCode'', ''Already in use'')])) (\<lambda>_.
         let role_codes = (case requested_role_codes data of None \<Rightarrow> [] | Some ks \<Rightarrow> ks)
         in ebind (raise_if (role_codes = []) (ValidationFailed ''At least one role is required.'' [(''roles'', ''Required'')])) (\<lambda>_.
         ebind (assert_all (assert_can_manage_protected_role x) role_codes) (\<lambda>_.
         ebind (load_roles role_codes db) (\<lambda>rs.
         ebind (assert_all (\<lambda>r. assert_can_assign_role c x r db) rs) (\<lambda>_.
         let password = py_str (py_or (dget data ''password'') (PStr []))
         in ebind (check_password c password) (\<lambda>_.
         let u = \<lparr>us_code = code, us_name = name, us_email = email, us_display = text_field data ''display_name'',
                  us_status = py_upper (py_str (py_or (dget data ''status'') (PStr ''ACTIVE''))),
                  us_locale = ''en'', us_timezone = ''UTC'', us_identity = None, us_last_login = None,
                  us_token_version = 0\<rparr>
         in ebind (set_user_roles i role_codes (a_rules db)) (\<lambda>rules.
            Inr (i, db\<lparr>a_users := t_add u (a_users db), a_creds := (a_creds db)(i := Some (new_credential c password)),
                       a_rules := rules\<rparr>)))))))))))"

text \<open>What \<open>update_user\<close> does to the row, its roles and its status.\<close>

definition set_if :: "payload \<Rightarrow> string \<Rightarrow> (string \<Rightarrow> user \<Rightarrow> user) \<Rightarrow> user \<Rightarrow> user" where
  "set_if data k f u = (if dget data k = PNone then u else f (text_field data k) u)"

definition set_user_fields :: "payload \<Rightarrow> user \<Rightarrow> user" where
  "set_user_fields data =
     set_if data ''timezone'' (\<lambda>v u. u\<lparr>us_timezone := v\<rparr>) \<circ> set_if data ''locale'' (\<lambda>v u. u\<lparr>us_locale := v\<rparr>)
     \<circ> set_if data ''displayName'' (\<lambda>v u. u\<lparr>us_display := v\<rparr>) \<circ> set_if data ''display_name'' (\<lambda>v u. u\<lparr>us_display := v\<rparr>)
     \<circ> set_if data ''email'' (\<lambda>v u. u\<lparr>us_email := v\<rparr>)"

definition recode_user :: "int \<Rightarrow> payload \<Rightarrow> user \<Rightarrow> adb \<Rightarrow> user res" where
  "recode_user i data u db =
     (let v = py_or (dget data ''user_code'') (dget data ''userCode''); code = py_strip (py_str v)
      in if v = PNone \<or> code = [] then Inr u
         else ebind (raise_if (list_ex (\<lambda>(j, w). us_code w = code \<and> j \<noteq> i) (rows (a_users db)))
                      (Conflict ''DUPLICATE_USER_CODE'' ''A user with this code already exists.'' [(''userCode'', ''Already in use'')])) (\<lambda>_.
              Inr (u\<lparr>us_code := code\<rparr>)))"

definition reassign_roles :: "actor \<Rightarrow> int \<Rightarrow> string list option \<Rightarrow> auth_call \<Rightarrow> adb \<Rightarrow> casbin_rule list res" where
  "reassign_roles x i requested c db =
     (let current = user_role_codes (a_rules db) i
      in case requested of
           None \<Rightarrow> Inr (a_rules db)
         | Some codes \<Rightarrow>
             if set codes = set current then Inr (a_rules db)
             else ebind (raise_if (at_user x = i) (AccessDenied ''You cannot change your own roles.'')) (\<lambda>_.
                  ebind (assert_can_touch_super_admin x current codes) (\<lambda>_.
                  ebind (assert_all (assert_can_manage_protected_role x) codes) (\<lambda>_.
                  ebind (load_roles codes db) (\<lambda>rs.
                  ebind (assert_all (\<lambda>r. assert_can_assign_role c x r db) rs) (\<lambda>_.
                  ebind (assert_super_admin_remains i codes db) (\<lambda>_.
                  set_user_roles i codes (a_rules db))))))))"

definition change_user_status :: "actor \<Rightarrow> int \<Rightarrow> payload \<Rightarrow> string list \<Rightarrow> auth_call \<Rightarrow> adb \<Rightarrow> adb res" where
  "change_user_status x i data current c db =
     (if dget data ''status'' = PNone then Inr db
      else let new_status = py_upper (text_field data ''status'')
           in ebind (raise_if (at_user x = i \<and> new_status \<noteq> ''ACTIVE'') (AccessDenied ''You cannot deactivate your own account.'')) (\<lambda>_.
              ebind (if new_status = ''ACTIVE'' then Inr () else assert_can_touch_super_admin x current []) (\<lambda>_.
              ebind (if new_status = ''ACTIVE'' then Inr () else assert_super_admin_remains i [] db) (\<lambda>_.
              case t_get (a_users db) i of
                None \<Rightarrow> Inr db
              | Some u \<Rightarrow>
                  (let db1 = db\<lparr>a_users := t_put i (u\<lparr>us_status := new_status\<rparr>) (a_users db)\<rparr>
                   in Inr (if new_status = ''ACTIVE'' then db1 else revoke_all_sessions c i db1))))))"

definition update_user :: "actor \<Rightarrow> int \<Rightarrow> payload \<Rightarrow> int aservice" where
  "update_user x i data c db =
     ebind (require_some (t_get (a_users db) i) (NotFound ''User not found.'')) (\<lambda>u.
     let requested = requested_role_codes data; current = user_role_codes (a_rules db) i
     in ebind (raise_if (is_protected_system_admin u \<and> requested \<noteq> None \<and> requested \<noteq> Some [SUPER_ADMIN_ROLE])
                (AccessDenied ''The built-in System Administrator role cannot be changed.'')) (\<lambda>_.
        ebind (raise_if (is_protected_system_admin u \<and> dget data ''status'' \<noteq> PNone \<and> \<not> is_active (text_field data ''status''))
                (AccessDenied ''The built-in System Administrator cannot be deactivated.'')) (\<lambda>_.
        ebind (recode_user i data (set_user_fields data u) db) (\<lambda>u1.
        let db1 = db\<lparr>a_users := t_put i u1 (a_users db)\<rparr>
        in ebind (reassign_roles x i requested c db1) (\<lambda>rules.
           ebind (change_user_status x i data current c (db1\<lparr>a_rules := rules\<rparr>)) (\<lambda>db2.
           ebind (check_unique ''users_email_key'' email_key i u1 (a_users db)) (\<lambda>_.
             Inr (i, db2))))))))"

definition the_role :: "payload \<Rightarrow> adb \<Rightarrow> (int \<times> role) option" where
  "the_role data db =
     (if truthy (dget data ''role_id'')
      then (case int_of (dget data ''role_id'') of
              None \<Rightarrow> None | Some k \<Rightarrow> map_option (Pair k) (t_get (a_roles db) k))
      else if truthy (dget data ''role_code'') then role_by_code (text_field data ''role_code'') db else None)"

definition assign_role :: "actor \<Rightarrow> int \<Rightarrow> payload \<Rightarrow> string aservice" where
  "assign_role x i data c db =
     ebind (require_some (t_get (a_users db) i) (NotFound ''User not found.'')) (\<lambda>u.
     ebind (require_some (the_role data db) (NotFound ''Role not found.'')) (\<lambda>(k, r).
     ebind (raise_if (\<not> is_active (ro_status r))
             (ValidationFailed ''The selected role is not active.'' [(''role'', ''Role is inactive'')])) (\<lambda>_.
     let current = user_role_codes (a_rules db) i
     in ebind (raise_if (is_protected_system_admin u \<and> ro_code r \<noteq> SUPER_ADMIN_ROLE)
                (AccessDenied ''The built-in System Administrator role cannot be changed.'')) (\<lambda>_.
        ebind (assert_can_manage_protected_role x (ro_code r)) (\<lambda>_.
        if ro_code r \<in> set current then Inr (ro_code r, db)
        else ebind (raise_if (at_user x = i) (AccessDenied ''You cannot change your own roles.'')) (\<lambda>_.
             ebind (assert_can_touch_super_admin x current [ro_code r]) (\<lambda>_.
             ebind (assert_can_assign_role c x r db) (\<lambda>_.
             ebind (assert_super_admin_remains i [ro_code r] db) (\<lambda>_.
             ebind (set_user_roles i [ro_code r] (a_rules db)) (\<lambda>rules.
               Inr (ro_code r, db\<lparr>a_rules := rules\<rparr>)))))))))))"

definition remove_role :: "actor \<Rightarrow> int \<Rightarrow> string \<Rightarrow> (string list) aservice" where
  "remove_role x i code c db =
     ebind (require_some (t_get (a_users db) i) (NotFound ''User not found.'')) (\<lambda>u.
     let current = user_role_codes (a_rules db) i; remaining = filter (\<lambda>k. k \<noteq> code) current
     in ebind (raise_if (code \<notin> set current) (NotFound ''Role assignment not found.'')) (\<lambda>_.
        ebind (raise_if (is_protected_system_admin u)
                (AccessDenied ''The built-in System Administrator role cannot be changed.'')) (\<lambda>_.
        ebind (raise_if (at_user x = i) (AccessDenied ''You cannot change your own roles.'')) (\<lambda>_.
        ebind (assert_can_touch_super_admin x current []) (\<lambda>_.
        ebind (assert_super_admin_remains i remaining db) (\<lambda>_.
        ebind (set_user_roles i remaining (a_rules db)) (\<lambda>rules.
          Inr (remaining, db\<lparr>a_rules := rules\<rparr>))))))))"

section \<open>Deleting users\<close>

definition delete_user_rows :: "int \<Rightarrow> adb \<Rightarrow> adb" where
  "delete_user_rows i db =
     db\<lparr>a_creds := (a_creds db)(i := None),
        a_rules := delete_user_policies i (a_rules db),
        a_used := (\<lambda>h. case a_used db h of
           Some t \<Rightarrow> if map_option se_user (t_get (a_sessions db) (ut_session t)) = Some i then None else Some t
         | None \<Rightarrow> None),
        a_sessions := t_del_where (\<lambda>s. se_user s = i) (a_sessions db),
        a_resets := t_del_where (\<lambda>r. rt_user r = i) (a_resets db),
        a_users := t_del i (a_users db)\<rparr>"

definition delete_users :: "actor \<Rightarrow> int list \<Rightarrow> unit aservice" where
  "delete_users x ids c db =
     (let users = filter (\<lambda>i. t_get (a_users db) i \<noteq> None) (remdups ids);
          user = (\<lambda>i. the (t_get (a_users db) i));
          admins = users_with_role (a_rules db) SUPER_ADMIN_ROLE;
          deleting = filter (\<lambda>i. i \<in> set users) admins;
          others = filter (\<lambda>i. i \<notin> set users) admins
      in ebind (raise_if (list_ex (\<lambda>i. is_protected_system_admin (user i)) users)
                 (AccessDenied ''The built-in System Administrator account cannot be deleted.'')) (\<lambda>_.
         ebind (raise_if (at_user x \<in> set ids) (AccessDenied ''You cannot delete your own account.'')) (\<lambda>_.
         ebind (raise_if (deleting \<noteq> [] \<and> \<not> list_ex (active_user db) others)
                 (ValidationFailed ''At least one Super Administrator must remain.'' [])) (\<lambda>_.
         ebind (assert_all (\<lambda>i. require_inactive (us_status (user i)) ''RECORD_ACTIVE'') users) (\<lambda>_.
         let db1 = fold delete_user_rows users db
         in ebind (raise_if (rows (a_users db1) = []) (ValidationFailed ''At least one user account must remain.'' [])) (\<lambda>_.
            Inr ((), db1)))))))"

section \<open>Roles\<close>

text \<open>\<open>re.sub(r"[^A-Za-z0-9]+", "_", name)\<close>\<close>

fun squash :: "bool \<Rightarrow> string \<Rightarrow> string" where
  "squash gap [] = []"
| "squash gap (ch # s) = (if is_alnum ch then ch # squash False s else if gap then squash True s else CHR ''_'' # squash True s)"

definition strip_underscores :: "string \<Rightarrow> string" where
  "strip_underscores s =
     rev (dropWhile (\<lambda>ch. ch = CHR ''_'') (rev (dropWhile (\<lambda>ch. ch = CHR ''_'') s)))"

definition role_code_base :: "string \<Rightarrow> string" where
  "role_code_base name =
     (let b = take 48 (py_upper (strip_underscores (squash False name))) in if b = [] then ''ROLE'' else b)"

definition role_code_candidate :: "string \<Rightarrow> int \<Rightarrow> string" where
  "role_code_candidate base suffix =
     (let token = CHR ''_'' # show_int suffix in take (64 - length token) base @ token)"

text \<open>The loop over the suffixes; it is shown to end.\<close>

partial_function (option) derive_loop :: "string \<Rightarrow> string list \<Rightarrow> string \<Rightarrow> int \<Rightarrow> string option" where
  [code]: "derive_loop base existing code suffix =
     (if code \<in> set existing then derive_loop base existing (role_code_candidate base suffix) (suffix + 1) else Some code)"

definition derive_role_code :: "string \<Rightarrow> string list \<Rightarrow> string option" where
  "derive_role_code name existing = derive_loop (role_code_base name) existing (role_code_base name) 2"

definition validate_permission_codes :: "string list \<Rightarrow> unit res" where
  "validate_permission_codes codes =
     raise_if (list_ex (\<lambda>k. k \<notin> set ALL_PERMISSION_CODES \<and> k \<noteq> ''*'') codes)
       (ValidationFailed ''Unknown permission(s).'' [(''permissions'', ''Unknown permission'')])"

definition sync_role_permissions :: "string \<Rightarrow> string list \<Rightarrow> adb \<Rightarrow> casbin_rule list res" where
  "sync_role_permissions code codes db =
     ebind (validate_permission_codes codes) (\<lambda>_.
     ebind (raise_if (role_by_code code db \<noteq> None \<and> code \<in> PROTECTED_ROLE_CODES \<and> ''*'' \<notin> set codes)
             (AccessDenied ''The protected super administrator grant cannot be removed.'')) (\<lambda>_.
     set_role_permissions code
       (if ''*'' \<in> set codes then [''*''] else sorted_list_of_set (resolve_role_codes (set codes))) (a_rules db)))"

definition listed_permissions :: "payload \<Rightarrow> string list" where
  "listed_permissions data = (case dget data ''permissions'' of PList vs \<Rightarrow> map py_str vs | _ \<Rightarrow> [])"

definition create_role :: "actor \<Rightarrow> payload \<Rightarrow> int aservice" where
  "create_role x data c db =
     (let name = py_strip (py_str (py_or (dget data ''name'') (PStr [])));
          typed = py_strip (py_str (py_or (dget data ''code'') (PStr [])))
      in ebind (raise_if (name = []) (ValidationFailed ''A role name is required.'' [(''name'', ''Required'')])) (\<lambda>_.
         ebind (require_some (if typed = [] then derive_role_code name (map ro_code (t_vals (a_roles db))) else Some typed)
                 (PythonError ''loop'')) (\<lambda>code0.
         let code = py_upper code0; i = next_id (a_roles db); permissions = listed_permissions data;
             r = \<lparr>ro_code = code, ro_name = name, ro_description = str_or_none (dget data ''description''),
                  ro_system = False, ro_status = ''ACTIVE''\<rparr>;
             db1 = db\<lparr>a_roles := t_add r (a_roles db)\<rparr>
         in ebind (assert_can_manage_protected_role x code) (\<lambda>_.
            ebind (raise_if (role_by_code code db \<noteq> None)
                    (Conflict ''DUPLICATE_ROLE'' ''A role with this code already exists.'' [(''code'', ''Already in use'')])) (\<lambda>_.
            ebind (validate_permission_codes permissions) (\<lambda>_.
            ebind (assert_can_grant_permissions c x permissions) (\<lambda>_.
            ebind (sync_role_permissions code permissions db1) (\<lambda>rules.
              Inr (i, db1\<lparr>a_rules := rules\<rparr>)))))))))"

definition active_members :: "adb \<Rightarrow> string \<Rightarrow> bool" where
  "active_members db code = list_ex (active_user db) (users_with_role (a_rules db) code)"

definition set_role_fields :: "payload \<Rightarrow> role \<Rightarrow> role" where
  "set_role_fields data r =
     r\<lparr>ro_name := (if dget data ''name'' = PNone then ro_name r else text_field data ''name''),
       ro_description := (if dget data ''description'' = PNone then ro_description r else Some (text_field data ''description'')),
       ro_status := (if dget data ''status'' = PNone then ro_status r else py_upper (text_field data ''status''))\<rparr>"

definition update_role :: "actor \<Rightarrow> int \<Rightarrow> payload \<Rightarrow> int aservice" where
  "update_role x i data c db =
     ebind (require_some (t_get (a_roles db) i) (NotFound ''Role not found.'')) (\<lambda>r.
     ebind (assert_can_manage_protected_role x (ro_code r)) (\<lambda>_.
     let closing = dget data ''status'' \<noteq> PNone \<and> \<not> is_active (text_field data ''status'');
         given = dget data ''permissions'' \<noteq> PNone; permissions = listed_permissions data
     in ebind (raise_if (ro_code r \<in> PROTECTED_ROLE_CODES \<and> closing)
                (AccessDenied ''The protected role cannot be deactivated.'')) (\<lambda>_.
        ebind (raise_if (ro_code r \<in> PROTECTED_ROLE_CODES \<and> given \<and> ''*'' \<notin> set permissions)
                (AccessDenied ''The protected super administrator grant cannot be removed.'')) (\<lambda>_.
        ebind (raise_if (closing \<and> active_members db (ro_code r))
                (Conflict ''ROLE_IN_USE'' ''Reassign active users before deactivating this role.'' [])) (\<lambda>_.
        let db1 = db\<lparr>a_roles := t_put i (set_role_fields data r) (a_roles db)\<rparr>
        in if \<not> given then Inr (i, db1)
           else ebind (validate_permission_codes permissions) (\<lambda>_.
                ebind (assert_can_grant_permissions c x permissions) (\<lambda>_.
                ebind (sync_role_permissions (ro_code r) permissions db1) (\<lambda>rules.
                  Inr (i, db1\<lparr>a_rules := rules\<rparr>)))))))))"

definition duplicate_role :: "actor \<Rightarrow> int \<Rightarrow> payload \<Rightarrow> int aservice" where
  "duplicate_role x i data c db =
     ebind (require_some (t_get (a_roles db) i) (NotFound ''Role not found.'')) (\<lambda>source.
     let permissions = role_permission_codes (a_rules db) (ro_code source)
     in ebind (assert_can_grant_permissions c x permissions) (\<lambda>_.
        let name = py_strip (py_str (py_or (dget data ''name'') (PStr (ro_name source @ '' Copy''))));
            requested = py_strip (py_str (py_or (dget data ''code'') (PStr [])))
        in create_role x
             [(''name'', PStr name), (''code'', if requested = [] then PNone else PStr requested),
              (''description'', (case ro_description source of None \<Rightarrow> PNone | Some d \<Rightarrow> PStr d)),
              (''permissions'', PList (map PStr permissions))] c db))"

definition locked_role :: "actor \<Rightarrow> int \<Rightarrow> adb \<Rightarrow> role res" where
  "locked_role x i db =
     ebind (require_some (t_get (a_roles db) i) (NotFound ''Role not found.'')) (\<lambda>r.
     ebind (assert_can_manage_protected_role x (ro_code r)) (\<lambda>_. Inr r))"

definition replace_role_permissions :: "actor \<Rightarrow> int \<Rightarrow> string list \<Rightarrow> unit aservice" where
  "replace_role_permissions x i codes c db =
     ebind (locked_role x i db) (\<lambda>r.
     ebind (validate_permission_codes codes) (\<lambda>_.
     ebind (assert_can_grant_permissions c x codes) (\<lambda>_.
     ebind (sync_role_permissions (ro_code r) codes db) (\<lambda>rules.
       Inr ((), db\<lparr>a_rules := rules\<rparr>)))))"

definition grant_role_permissions :: "actor \<Rightarrow> int \<Rightarrow> string list \<Rightarrow> unit aservice" where
  "grant_role_permissions x i codes c db =
     ebind (locked_role x i db) (\<lambda>r.
     ebind (validate_permission_codes codes) (\<lambda>_.
     ebind (assert_can_grant_permissions c x codes) (\<lambda>_.
     let current = role_permission_codes (a_rules db) (ro_code r)
     in ebind (sync_role_permissions (ro_code r) (sorted_list_of_set (set current \<union> set codes)) db) (\<lambda>rules.
          Inr ((), db\<lparr>a_rules := rules\<rparr>)))))"

definition revoke_role_permissions :: "actor \<Rightarrow> int \<Rightarrow> string list \<Rightarrow> unit aservice" where
  "revoke_role_permissions x i codes c db =
     ebind (locked_role x i db) (\<lambda>r.
     ebind (raise_if (ro_code r \<in> PROTECTED_ROLE_CODES)
             (AccessDenied ''The protected super administrator grant cannot be removed.'')) (\<lambda>_.
     let current = role_permission_codes (a_rules db) (ro_code r);
         targets = \<Union> ((\<lambda>k. insert (py_strip k) (compile_role_permissions {py_strip k})) ` set codes)
     in ebind (sync_role_permissions (ro_code r) (sorted_list_of_set (set current - targets)) db) (\<lambda>rules.
          Inr ((), db\<lparr>a_rules := rules\<rparr>))))"

definition delete_role_row :: "int \<Rightarrow> adb \<Rightarrow> adb" where
  "delete_role_row i db =
     (case t_get (a_roles db) i of
        None \<Rightarrow> db
      | Some r \<Rightarrow> db\<lparr>a_rules := delete_role_policies (ro_code r) (a_rules db), a_roles := t_del i (a_roles db)\<rparr>)"

definition delete_roles :: "int list \<Rightarrow> unit aservice" where
  "delete_roles ids c db =
     (let found = List.map_filter (t_get (a_roles db)) (remdups ids)
      in ebind (raise_if (list_ex (\<lambda>r. ro_code r \<in> PROTECTED_ROLE_CODES) found)
                 (AccessDenied ''The protected super administrator role cannot be deleted.'')) (\<lambda>_.
         ebind (assert_all (\<lambda>r. require_inactive (ro_status r) ''RECORD_ACTIVE'') found) (\<lambda>_.
         ebind (raise_if (list_ex (\<lambda>r. users_with_role (a_rules db) (ro_code r) \<noteq> []) found)
                 (Conflict ''ROLE_IN_USE'' ''A role assigned to a user cannot be deleted. Reassign its users first.'' [])) (\<lambda>_.
         Inr ((), fold delete_role_row ids db)))))"

end
