(* ===== verification/Bootstrap.thy ===== *)
theory Bootstrap
  imports Users
begin

text \<open>
  The built-in roles (\<open>core/permissions.py\<close>), what every start of the service makes of them, and the
  first administrator (\<open>core/bootstrap.py\<close>, \<open>setup_initialize\<close>). The permission rows, which only
  describe the codes, and the baseline configuration of other modules are left out. The built-in roles
  are read in the order of \<open>ROLE_DEFINITIONS\<close>. A \<open>ValueError\<close> of \<open>provision_admin\<close> is the error \<open>setup_initialize\<close> makes of it.
\<close>

section \<open>The built-in roles\<close>

definition page_codes :: "string list \<Rightarrow> string list option \<Rightarrow> string list" where
  "page_codes prefixes wanted =
     concat (map (\<lambda>p. map (dotted p) (filter (\<lambda>a. case wanted of None \<Rightarrow> True | Some as \<Rightarrow> a \<in> set as)
       (case map_of (rev (map (\<lambda>(v, g, prefix, actions). (prefix, actions)) MATRIX_PAGES)) p of None \<Rightarrow> [] | Some as \<Rightarrow> as))) prefixes)"

definition OPERATIONS_REPORT_PREFIXES :: "string list" where
  "OPERATIONS_REPORT_PREFIXES = take 4 REPORT_PREFIXES"

definition FINANCE_REPORT_PREFIXES :: "string list" where
  "FINANCE_REPORT_PREFIXES = drop 4 REPORT_PREFIXES"

definition MASTER_READ :: "string list" where
  "MASTER_READ = page_codes MASTER_PREFIXES (Some [''view''])"

record role_definition =
  rd_code :: string
  rd_name :: string
  rd_description :: string
  rd_permissions :: "string list"

definition FINANCE_PAGES :: "string list" where
  "FINANCE_PAGES =
     [''finance.service_charges'', ''finance.financial_documents'', ''finance.chart_of_accounts'', ''finance.financial_accounts'',
      ''finance.journal_entries'', ''finance.accounting_periods'', ''finance.posting_rules'']"

definition ROLE_DEFINITIONS :: "role_definition list" where
  "ROLE_DEFINITIONS =
    (let view = Some [''view'']; reads = Some [''view'', ''export'']
     in [\<lparr>rd_code = SUPER_ADMIN_ROLE, rd_name = ''Super Administrator'',
           rd_description = ''Unrestricted platform administration. Protected system role.'', rd_permissions = []\<rparr>,
         \<lparr>rd_code = ''ADMIN'', rd_name = ''Administrator'',
           rd_description = ''System administration with the full permission catalog.'', rd_permissions = ALL_PERMISSION_CODES\<rparr>,
         \<lparr>rd_code = ''MANAGER'', rd_name = ''Manager'',
           rd_description = ''Branch manager: operations, sales and finance visibility.'',
           rd_permissions = page_codes [''dashboard''] None @ page_codes [''sales.quotations''] None
             @ page_codes [''operations.service_orders''] None @ page_codes (take 2 FINANCE_PAGES) reads
             @ page_codes (drop 2 FINANCE_PAGES) reads @ page_codes REPORT_PREFIXES None @ [''report.read''] @ MASTER_READ
             @ page_codes [''admin.users'', ''admin.roles''] view\<rparr>,
         \<lparr>rd_code = ''SALES'', rd_name = ''Sales Officer'', rd_description = ''Owns quotations and customer pricing.'',
           rd_permissions = page_codes [''dashboard''] None @ page_codes [''sales.quotations''] None
             @ page_codes [''operations.service_orders''] view @ page_codes REPORT_PREFIXES view @ MASTER_READ\<rparr>,
         \<lparr>rd_code = ''OPERATIONS'', rd_name = ''Operations Officer'',
           rd_description = ''Runs service orders, shipments and milestone updates.'',
           rd_permissions = page_codes [''dashboard''] None @ page_codes [''operations.service_orders''] None
             @ page_codes [''sales.quotations''] view @ page_codes OPERATIONS_REPORT_PREFIXES None @ MASTER_READ
             @ [''master.reference.view'']\<rparr>,
         \<lparr>rd_code = ''ACCOUNTANT'', rd_name = ''Accountant'',
           rd_description = ''Finance documents, journals, periods and financial reports.'',
           rd_permissions = page_codes [''dashboard''] None @ page_codes FINANCE_PAGES None
             @ page_codes FINANCE_REPORT_PREFIXES None @ page_codes [''operations.service_orders''] view
             @ page_codes [''sales.quotations''] view @ MASTER_READ @ [''master.reference.view'']\<rparr>,
         \<lparr>rd_code = ''VIEWER'', rd_name = ''Viewer'', rd_description = ''Read-only access to business data and reports.'',
           rd_permissions = page_codes [''dashboard''] view @ page_codes [''sales.quotations''] view
             @ page_codes [''operations.service_orders''] view @ page_codes FINANCE_PAGES view
             @ page_codes REPORT_PREFIXES view @ [''report.read''] @ MASTER_READ @ [''master.reference.view'']\<rparr>])"

section \<open>Every start of the service\<close>

definition seed_role :: "role_definition \<Rightarrow> adb \<Rightarrow> adb" where
  "seed_role d db =
     db\<lparr>a_roles := (case role_by_code (rd_code d) db of
          None \<Rightarrow> t_add \<lparr>ro_code = rd_code d, ro_name = rd_name d, ro_description = Some (rd_description d),
                        ro_system = True, ro_status = ''ACTIVE''\<rparr> (a_roles db)
        | Some (i, r) \<Rightarrow> t_put i (r\<lparr>ro_system := True, ro_status := ''ACTIVE''\<rparr>) (a_roles db))\<rparr>"

definition seed_grants :: "role_definition \<Rightarrow> casbin_rule list \<Rightarrow> casbin_rule list res" where
  "seed_grants d rules =
     (let current = set (role_permission_codes rules (rd_code d));
          desired = current \<union> (if rd_code d = SUPER_ADMIN_ROLE then {''*''} else compile_role_permissions (set (rd_permissions d)))
      in if desired = current then Inr rules else set_role_permissions (rd_code d) (sorted_list_of_set desired) rules)"

definition protected_admin :: "adb \<Rightarrow> (int \<times> user) option" where
  "protected_admin db = t_first is_protected_system_admin (a_users db)"

definition restore_protected_admin :: "adb \<Rightarrow> adb res" where
  "restore_protected_admin db =
     (case protected_admin db of
        None \<Rightarrow> Inr db
      | Some (i, u) \<Rightarrow>
          (let assigned = user_role_codes (a_rules db) i;
               db1 = db\<lparr>a_users := t_put i (u\<lparr>us_status := ''ACTIVE''\<rparr>) (a_users db)\<rparr>
           in if SUPER_ADMIN_ROLE \<in> set assigned then Inr db1
              else ebind (set_user_roles i (assigned @ [SUPER_ADMIN_ROLE]) (a_rules db)) (\<lambda>rules.
                   Inr (db1\<lparr>a_rules := rules\<rparr>))))"

definition ensure_permission_catalog :: "adb \<Rightarrow> adb res" where
  "ensure_permission_catalog db =
     (let db1 = fold seed_role ROLE_DEFINITIONS db
      in ebind (efold seed_grants ROLE_DEFINITIONS (a_rules db1)) (\<lambda>rules.
         restore_protected_admin (db1\<lparr>a_rules := rules\<rparr>)))"

section \<open>The first administrator\<close>

definition requires_setup :: "adb \<Rightarrow> bool" where
  "requires_setup db \<longleftrightarrow> rows (a_users db) = []"

definition replace_char :: "char \<Rightarrow> char \<Rightarrow> string \<Rightarrow> string" where
  "replace_char a b = map (\<lambda>ch. if ch = a then b else ch)"

fun py_title :: "bool \<Rightarrow> string \<Rightarrow> string" where
  "py_title cased [] = []"
| "py_title cased (ch # s) = (if cased then lower_char ch else upper_char ch) # py_title (is_upper ch \<or> is_lower ch) s"

definition admin_account :: "string \<Rightarrow> string \<Rightarrow> string option \<Rightarrow> bool \<Rightarrow> user" where
  "admin_account email username name protect =
     \<lparr>us_code = take 50 (replace_char CHR ''.'' CHR ''-'' (py_upper username)), us_name = username, us_email = email,
      us_display = (case name of Some n \<Rightarrow> n | None \<Rightarrow> py_title False (replace_char CHR ''.'' CHR '' '' username)),
      us_status = ''ACTIVE'', us_locale = ''en'', us_timezone = ''UTC'',
      us_identity = (if protect then Some PROTECTED_SYSTEM_ADMIN_IDENTITY else None), us_last_login = None,
      us_token_version = 0\<rparr>"

text \<open>The account with the email or the name is taken over, or a new one added.\<close>

definition admin_row :: "string \<Rightarrow> string \<Rightarrow> string option \<Rightarrow> adb \<Rightarrow> (int \<times> adb) res" where
  "admin_row email username name db =
     (let protect = protected_admin db = None
      in case t_first (\<lambda>u. us_email u = email \<or> us_name u = username) (a_users db) of
           Some (i, u) \<Rightarrow>
             Inr (i, if protect then db\<lparr>a_users := t_put i (u\<lparr>us_identity := Some PROTECTED_SYSTEM_ADMIN_IDENTITY\<rparr>) (a_users db)\<rparr>
                     else db)
         | None \<Rightarrow>
             (let u = admin_account email username name protect; i = next_id (a_users db)
              in ebind (check_unique ''users_user_code_key'' code_key i u (a_users db)) (\<lambda>_.
                 Inr (i, db\<lparr>a_users := t_add u (a_users db)\<rparr>))))"

definition admin_credential :: "auth_call \<Rightarrow> string \<Rightarrow> credential option \<Rightarrow> credential" where
  "admin_credential c password cred =
     (case cred of None \<Rightarrow> new_credential c password
      | Some k \<Rightarrow> k\<lparr>cr_hash := hash_password (ac_crypto c) password\<rparr>)"

definition provision_admin :: "string \<Rightarrow> string \<Rightarrow> string option \<Rightarrow> string option \<Rightarrow> int aservice" where
  "provision_admin email password username name c db =
     (case validate_password_strength c password of
        e # _ \<Rightarrow> Inl (ValidationFailed e [(''role'', e)])
      | [] \<Rightarrow>
          (let username = (case username of Some n \<Rightarrow> n | None \<Rightarrow> takeWhile (\<lambda>ch. ch \<noteq> CHR ''@'') email)
           in ebind (ensure_permission_catalog db) (\<lambda>db1.
              ebind (require_some (role_by_code SUPER_ADMIN_ROLE db1)
                      (ValidationFailed ''Unknown role.'' [(''role'', ''Unknown role.'')])) (\<lambda>_.
              ebind (admin_row email username name db1) (\<lambda>(i, db2).
              let db3 = db2\<lparr>a_creds := (a_creds db2)(i := Some (admin_credential c password (a_creds db2 i)))\<rparr>;
                  assigned = user_role_codes (a_rules db3) i
              in if SUPER_ADMIN_ROLE \<in> set assigned then Inr (i, db3)
                 else ebind (set_user_roles i (assigned @ [SUPER_ADMIN_ROLE]) (a_rules db3)) (\<lambda>rules.
                      Inr (i, db3\<lparr>a_rules := rules\<rparr>)))))))"

definition non_empty :: "string \<Rightarrow> string option" where
  "non_empty s = (if s = [] then None else Some s)"

definition setup_initialize :: "payload \<Rightarrow> int aservice" where
  "setup_initialize data c db =
     (let field = (\<lambda>k. py_str (py_or (dget data k) (PStr [])));
          email = py_strip (field ''email''); password = field ''password'';
          errors = (if CHR ''@'' \<notin> set email then [(''email'', ''A valid email address is required.'')] else [])
                   @ (case validate_password_strength c password of [] \<Rightarrow> [] | e # _ \<Rightarrow> [(''password'', e)])
      in ebind (raise_if (errors \<noteq> []) (ValidationFailed ''The submitted data is invalid.'' errors)) (\<lambda>_.
         ebind (raise_if (\<not> requires_setup db)
                 (Conflict ''SETUP_COMPLETED'' ''Setup has already been completed or is in progress.'' [])) (\<lambda>_.
         provision_admin email password (non_empty (py_strip (field ''username''))) (non_empty (py_strip (field ''name''))) c db)))"

end
