(* ===== verification/PlainCodes.thy ===== *)
theory PlainCodes
  imports Bootstrap
begin

text \<open>
  The shape of the permission codes: two halves around a dot, neither blank nor a wildcard. Every code
  of the catalog, of the pages and of the built-in roles has it, and so has what a role is compiled
  to; such a code is stored in the policy table and read back unchanged.
\<close>

section \<open>Codes that are stored as they are\<close>

definition clean :: "string \<Rightarrow> bool" where
  "clean s \<longleftrightarrow> s \<noteq> [] \<and> list_all (\<lambda>ch. \<not> is_space ch \<and> ch \<noteq> CHR ''*'' \<and> ch \<noteq> CHR ''.'') [hd s, last s]"

definition plain_code :: "string \<Rightarrow> bool" where
  "plain_code s \<longleftrightarrow> clean s \<and> list_ex ((=) CHR ''.'') s"

definition plain_entry :: "string \<times> string list \<Rightarrow> bool" where
  "plain_entry x \<longleftrightarrow> plain_code (fst x) \<and> list_all plain_code (snd x)"

lemma plain_dotted: "clean p \<Longrightarrow> clean a \<Longrightarrow> plain_code (dotted p a)"
  by (auto simp: plain_code_def clean_def dotted_def list_ex_iff)

lemma clean_strip: "clean s \<Longrightarrow> py_strip s = s"
proof -
  assume s: "clean s"
  then have "py_lstrip s = s" by (cases s) (simp_all add: clean_def py_lstrip_def)
  moreover from s have "py_lstrip (rev s) = rev s"
    by (cases "rev s") (auto simp: clean_def py_lstrip_def last_conv_nth hd_rev [symmetric] dest: arg_cong [of _ _ hd])
  ultimately show ?thesis by (simp add: py_strip_def py_lstrip_def)
qed

definition storable :: "string \<Rightarrow> bool" where
  "storable c \<longleftrightarrow> c = ''*'' \<or> plain_code c"

lemma star_strip [simp]: "py_strip ''*'' = ''*''"
  by code_simp

lemma storable_strip: "storable c \<Longrightarrow> py_strip c = c \<and> c \<noteq> []"
  by (auto simp: storable_def plain_code_def clean_strip clean_def)

lemma storable_split: "storable c \<Longrightarrow> join_code (fst (split_code c)) (snd (split_code c)) = c"
proof -
  assume c: "storable c"
  show ?thesis
  proof (cases "c = ''*''")
    case True
    then show ?thesis by (simp add: split_code_def join_code_def)
  next
    case False
    with c have "CHR ''.'' \<in> set c" "hd c \<noteq> CHR ''*''" by (auto simp: storable_def plain_code_def clean_def list_ex_iff)
    then show ?thesis by (intro split_join) auto
  qed
qed

section \<open>The codes of the catalog\<close>

lemma base_plain: "list_all plain_entry PAGE_GRANTS_BASE"
  by code_simp

lemma aggregates_plain: "list_all plain_entry PAGE_GRANTS_AGGREGATES"
  by code_simp

lemma source_plain: "list_all plain_code (map fst SOURCE_PERMISSIONS)"
  by code_simp

lemma matrix_clean: "list_all (\<lambda>(v, g, p, as). clean p \<and> list_all clean as) MATRIX_PAGES"
  by code_simp

lemma catalog_plain:
  "list_all plain_code (map fst LEGACY_PAGE_PERMISSIONS)" "list_all plain_code (map fst NAVIGATION_PAGE_PERMISSIONS)"
  "list_all plain_code (map snd ATTACHMENT_GRANTS)" "list_all clean REPORT_PREFIXES" "list_all clean [''view'', ''export'']"
  "list_all plain_code [''report.export'', ''report.read'', ''reports.view'', ''master.reference.view'']"
  by code_simp+

lemma plain_upsert: "list_all plain_entry d \<Longrightarrow> plain_entry (k, v) \<Longrightarrow> list_all plain_entry (upsert k v d)"
  by (induction d) auto

lemma plain_dict_update: "list_all plain_entry e \<Longrightarrow> list_all plain_entry d \<Longrightarrow> list_all plain_entry (dict_update d e)"
  unfolding dict_update_def by (induction e arbitrary: d) (auto intro: plain_upsert)

lemma plain_attachments:
  "list_all plain_code (map snd as) \<Longrightarrow> list_all plain_entry d \<Longrightarrow> list_all plain_entry (fold add_attachment as d)"
proof (induction as arbitrary: d)
  case (Cons x as)
  have "list_all plain_entry (add_attachment x d)"
  proof (cases "map_of d (fst x)")
    case None
    then show ?thesis using Cons.prems by (cases x) (simp add: add_attachment_def)
  next
    case (Some gs)
    then have "(fst x, gs) \<in> set d" by (rule map_of_SomeD)
    with Cons.prems(2) have "plain_entry (fst x, gs)" by (auto simp: list_all_iff)
    with Some Cons.prems have "plain_entry (fst x, gs @ [snd x])" by (simp add: plain_entry_def)
    with Some Cons.prems(2) show ?thesis by (cases x) (simp add: add_attachment_def plain_upsert)
  qed
  with Cons show ?case by simp
qed simp

lemma grants_plain: "list_all plain_entry PAGE_PERMISSION_GRANTS"
proof -
  have r: "clean p \<Longrightarrow> plain_code (dotted p ''view'') \<and> plain_code (dotted p ''export'')" for p
    using plain_dotted catalog_plain(5) by simp
  have rs: "list_all (\<lambda>p. plain_code (dotted p ''view'') \<and> plain_code (dotted p ''export'')) REPORT_PREFIXES"
    using catalog_plain(4) r by (auto simp: list_all_iff)
  have "list_all plain_entry (map (\<lambda>p. (dotted p ''view'', [])) REPORT_PREFIXES)"
    using rs by (simp add: list_all_iff plain_entry_def)
  then have "list_all plain_entry (dict_update (dict_update PAGE_GRANTS_BASE (map (\<lambda>p. (dotted p ''view'', [])) REPORT_PREFIXES)) PAGE_GRANTS_AGGREGATES)"
    using base_plain aggregates_plain by (blast intro: plain_dict_update)
  then show ?thesis
    using rs catalog_plain(3,6) unfolding PAGE_PERMISSION_GRANTS_def Let_def
    by (intro plain_attachments plain_upsert) (auto simp: plain_entry_def list_all_iff)
qed

lemma grants_of_plain: "g \<in> set (grants_of c) \<Longrightarrow> plain_code g"
  using grants_plain unfolding grants_of_def
  by (cases "map_of PAGE_PERMISSION_GRANTS c") (auto simp: plain_entry_def list_all_iff dest!: map_of_SomeD)

lemma page_plain: "d \<in> set (grants_of c) \<Longrightarrow> plain_code c"
  using grants_plain unfolding grants_of_def
  by (cases "map_of PAGE_PERMISSION_GRANTS c") (auto simp: plain_entry_def list_all_iff dest!: map_of_SomeD)

lemma compile_plain:
  assumes "\<And>c. c \<in> codes \<Longrightarrow> plain_code c" and "c \<in> compile_role_permissions codes"
  shows "plain_code c"
  using assms(2) by (cases rule: compile_cases) (auto intro: assms(1) grants_of_plain page_plain)

lemma set_dedupe: "set (dedupe seen xs) \<subseteq> set xs"
  by (induction seen xs rule: dedupe.induct) auto

lemma page_actions: "(v, g, p, as) \<in> set MATRIX_PAGES \<Longrightarrow> a \<in> set as \<Longrightarrow> plain_code (dotted p a)"
  using matrix_clean by (fastforce simp: list_all_iff intro: plain_dotted)

lemma catalog_codes: "c \<in> set ALL_PERMISSION_CODES \<Longrightarrow> plain_code c"
proof -
  assume "c \<in> set ALL_PERMISSION_CODES"
  then have "c \<in> set (map fst (SOURCE_PERMISSIONS @ PAGE_PERMISSIONS @ LEGACY_PAGE_PERMISSIONS @ NAVIGATION_PAGE_PERMISSIONS))"
    using set_dedupe by (force simp: ALL_PERMISSION_CODES_def PERMISSION_CATALOG_def)
  then show "plain_code c"
    using source_plain catalog_plain(1,2) page_actions by (auto simp: list_all_iff PAGE_PERMISSIONS_def)
qed

lemma page_codes_plain:
  assumes "c \<in> set (page_codes ps w)"
  shows "plain_code c"
proof -
  let ?m = "map_of (rev (map (\<lambda>(v, g, prefix, actions). (prefix, actions)) MATRIX_PAGES))"
  from assms obtain p a where p: "a \<in> set (case ?m p of None \<Rightarrow> [] | Some as \<Rightarrow> as)" and a: "c = dotted p a"
    by (auto simp: page_codes_def)
  then obtain as where "?m p = Some as" and as: "a \<in> set as" by (cases "?m p") simp_all
  then have "(p, as) \<in> (\<lambda>(v, g, prefix, actions). (prefix, actions)) ` set MATRIX_PAGES"
    by (force dest: map_of_SomeD)
  with a as show ?thesis by (auto intro: page_actions)
qed

lemma definitions_plain: "d \<in> set ROLE_DEFINITIONS \<Longrightarrow> c \<in> set (rd_permissions d) \<Longrightarrow> plain_code c"
  using catalog_plain(6) catalog_codes page_codes_plain
  by (auto simp: ROLE_DEFINITIONS_def Let_def MASTER_READ_def)

lemma finite_grants [simp]: "finite (compile_role_permissions A)" if "finite A" for A
proof -
  have "finite (Set.filter P A)" for P by (rule finite_subset [OF _ that]) auto
  then show ?thesis by (auto simp: compile_role_permissions_def Let_def split: option.splits)
qed

lemma resolve_plain:
  assumes "\<And>c. c \<in> codes \<Longrightarrow> storable c" and "c \<in> resolve_role_codes codes"
  shows "storable c"
proof (cases "''*'' \<in> codes")
  case True
  have "py_strip x = x \<and> x \<noteq> []" if "x \<in> codes" for x using storable_strip assms(1) that by blast
  then have "''*'' \<in> Set.filter (\<lambda>c. c \<noteq> []) (py_strip ` codes)" using True by force
  with assms(2) show ?thesis by (simp add: resolve_role_codes_def Let_def storable_def)
next
  case False
  have same: "py_strip x = x \<and> x \<noteq> []" if "x \<in> codes" for x using storable_strip assms(1) that by blast
  then have codes: "Set.filter (\<lambda>c. c \<noteq> []) (py_strip ` codes) = codes" by force
  have "plain_code x" if "x \<in> codes" for x using assms(1) [OF that] False that by (auto simp: storable_def)
  moreover define A where "A = codes \<inter> PAGE_PERMISSION_CODES
    \<union> (codes - codes \<inter> PAGE_PERMISSION_CODES - \<Union> (set ` grants_of ` (codes \<inter> PAGE_PERMISSION_CODES)))"
  moreover have "c \<in> compile_role_permissions A"
    using assms(2) False unfolding resolve_role_codes_def codes Let_def A_def by (simp only: if_False)
  ultimately have "plain_code c" using compile_plain [of A c] by blast
  then show ?thesis by (simp add: storable_def)
qed

lemma finite_resolve [simp]: "finite A \<Longrightarrow> finite (resolve_role_codes A)"
  by (auto simp: resolve_role_codes_def Let_def)

lemma valid_codes_storable: "validate_permission_codes codes = Inr u \<Longrightarrow> c \<in> set codes \<Longrightarrow> storable c"
  using catalog_codes by (auto simp: validate_permission_codes_def list_ex_iff storable_def)

text \<open>The halves of a plain code.\<close>

lemma plain_split:
  assumes "plain_code c"
  shows "fst (split_code c) \<noteq> []" "snd (split_code c) \<noteq> []" "fst (split_code c) \<noteq> ''*''" "snd (split_code c) \<noteq> ''*''"
    "CHR ''.'' \<notin> set (snd (split_code c))" "c = dotted (fst (split_code c)) (snd (split_code c))"
proof -
  from assms have "CHR ''.'' \<in> set c" by (auto simp: plain_code_def list_ex_iff)
  then obtain a b where c: "c = dotted a b" "CHR ''.'' \<notin> set b" by (metis rpartition_dot_Some)
  then have s: "split_code c = (a, b)" by (simp add: split_dotted)
  with c show "CHR ''.'' \<notin> set (snd (split_code c))" "c = dotted (fst (split_code c)) (snd (split_code c))" by simp_all
  from assms have "hd c \<noteq> CHR ''.''" "last c \<noteq> CHR ''.''" "hd c \<noteq> CHR ''*''" "last c \<noteq> CHR ''*''"
    by (simp_all add: plain_code_def clean_def)
  with c s show "fst (split_code c) \<noteq> []" "snd (split_code c) \<noteq> []" "fst (split_code c) \<noteq> ''*''" "snd (split_code c) \<noteq> ''*''"
    by (auto simp: dotted_def)
qed

end
