(* ===== verification/PolicyRows.thy ===== *)
theory PolicyRows
  imports PlainCodes
begin

text \<open>
  What the writes of \<open>Authorization\<close> leave of the policy table, in terms of its readers: the roles of a
  user, the users of a role, the permission codes of a role.
\<close>

section \<open>Subjects\<close>

lemma user_subject_not_role [simp]: "user_subject i \<noteq> role_subject k" "role_subject k \<noteq> user_subject i"
  "\<not> starts_with (user_subject i) ''role:''" "\<not> starts_with (role_subject k) ''user:''"
  by (simp_all add: user_subject_def role_subject_def starts_with_def)

lemma user_subject_starts [simp]: "starts_with (user_subject i) ''user:''" "starts_with (role_subject k) ''role:''"
  by (simp_all add: user_subject_def role_subject_def starts_with_def)

lemma role_subject_inject [simp]: "role_subject a = role_subject b \<longleftrightarrow> a = b"
  by (simp add: role_subject_def)

lemma role_code_of_subject [simp]: "role_code_of (role_subject k) = Some k" "role_code_of (user_subject i) = None"
  by (simp_all add: role_code_of_def) (simp add: role_subject_def)

lemma subject_id_user [simp]: "subject_id (user_subject i) = Some i"
  by (simp add: subject_id_def user_subject_def parse_show_int)

lemma user_subject_inject [simp]: "user_subject i = user_subject j \<longleftrightarrow> i = j"
  by (metis option.inject subject_id_user)

section \<open>Well-formed rows\<close>

lemma rule_row_simps [simp]:
  "ptype (rule_row p a b c) = p" "v0 (rule_row p a b c) = a" "v1 (rule_row p a b c) = b" "v2 (rule_row p a b c) = c"
  by (simp_all add: rule_row_def)

text \<open>A row as the code writes it: the assignment of a role to a user, or the grant of a code to a role.\<close>

definition role_row :: "int \<Rightarrow> string \<Rightarrow> casbin_rule" where
  "role_row i k = rule_row ''g'' (user_subject i) (role_subject k) []"

definition grant_row :: "string \<Rightarrow> string \<Rightarrow> casbin_rule" where
  "grant_row k c = rule_row ''p'' (role_subject k) (fst (split_code c)) (snd (split_code c))"

definition rule_ok :: "casbin_rule \<Rightarrow> bool" where
  "rule_ok r \<longleftrightarrow> (\<exists>i k. r = role_row i k) \<or> (\<exists>k c. r = grant_row k c \<and> storable c)"

definition rules_ok :: "casbin_rule list \<Rightarrow> bool" where
  "rules_ok rules \<longleftrightarrow> (\<forall>r \<in> set rules. rule_ok r)"

definition holds_role :: "casbin_rule list \<Rightarrow> int \<Rightarrow> string \<Rightarrow> bool" where
  "holds_role rules i code \<longleftrightarrow> (\<exists>r \<in> set rules. is_assignment r \<and> v0 r = user_subject i \<and> v1 r = role_subject code)"

lemma row_cases [simp]:
  "is_assignment (role_row i k)" "\<not> is_assignment (grant_row k c)" "ptype (role_row i k) = ''g''" "ptype (grant_row k c) = ''p''"
  "v0 (role_row i k) = user_subject i" "v1 (role_row i k) = role_subject k" "v0 (grant_row k c) = role_subject k"
  by (simp_all add: role_row_def grant_row_def is_assignment_def)

lemma flush_rules_Inr: "flush_rules rules = Inr rs \<longleftrightarrow> rules_unique rules \<and> rs = rules"
  by (auto simp: flush_rules_def ebind_Inr_iff)

lemma set_stripped_codes: "set (stripped_codes codes) = {c \<in> py_strip ` set codes. c \<noteq> []}"
  by (auto simp: stripped_codes_def)

lemma in_map_filter: "x \<in> set (List.map_filter f xs) \<longleftrightarrow> (\<exists>y \<in> set xs. f y = Some x)"
  by (induction xs) (auto simp: List.map_filter_simps split: option.splits)

lemma starts_with_split: "starts_with s p \<Longrightarrow> (\<And>d. s = p @ d \<Longrightarrow> thesis) \<Longrightarrow> thesis"
  unfolding starts_with_def by (metis append_take_drop_id)

lemma stored_codes:
  assumes "\<And>c. c \<in> set codes \<Longrightarrow> storable c"
  shows "distinct (stripped_codes codes)" and "set (stripped_codes codes) = set codes"
proof -
  show "distinct (stripped_codes codes)" by (simp add: stripped_codes_def)
  have "py_strip c = c \<and> c \<noteq> []" if "c \<in> set codes" for c using assms [OF that] by (rule storable_strip)
  then have "map py_strip codes = codes" "\<forall>c \<in> set codes. c \<noteq> []" by (auto intro: map_idI)
  then show "set (stripped_codes codes) = set codes" by (auto simp: stripped_codes_def)
qed

lemma join_grant: "storable c \<Longrightarrow> join_code (v1 (grant_row k c)) (v2 (grant_row k c)) = c"
  by (simp add: grant_row_def storable_split)

lemma role_permission_iff:
  assumes "rules_ok rules"
  shows "c \<in> set (role_permission_codes rules k) \<longleftrightarrow> storable c \<and> grant_row k c \<in> set rules"
proof
  assume "c \<in> set (role_permission_codes rules k)"
  then obtain r where r: "r \<in> set rules" "ptype r = ''p''" "v0 r = role_subject k" "c = join_code (v1 r) (v2 r)"
    by (auto simp: role_permission_codes_def)
  from assms r(1) have "rule_ok r" by (simp add: rules_ok_def)
  with r(2,3) obtain d where "r = grant_row k d" "storable d" by (auto simp: rule_ok_def)
  with r(1,4) show "storable c \<and> grant_row k c \<in> set rules" by (simp add: join_grant)
next
  assume g: "storable c \<and> grant_row k c \<in> set rules"
  then have "grant_row k c \<in> set (filter (\<lambda>r. ptype r = ''p'' \<and> v0 r = role_subject k) rules)" by simp
  then have "join_code (v1 (grant_row k c)) (v2 (grant_row k c)) \<in> set (role_permission_codes rules k)"
    unfolding role_permission_codes_def set_sort set_map by (rule imageI)
  with g show "c \<in> set (role_permission_codes rules k)" by (simp add: join_grant)
qed

lemma holds_role_row:
  assumes "rules_ok rules"
  shows "holds_role rules i k \<longleftrightarrow> role_row i k \<in> set rules"
proof
  assume "holds_role rules i k"
  then obtain r where r: "r \<in> set rules" "is_assignment r" "v0 r = user_subject i" "v1 r = role_subject k"
    by (auto simp: holds_role_def)
  then have "rule_ok r" using assms by (simp add: rules_ok_def)
  with r(2-4) have "r = role_row i k" by (auto simp: rule_ok_def)
  with r(1) show "role_row i k \<in> set rules" by simp
qed (force simp: holds_role_def)

lemma users_with_role_iff:
  assumes "rules_ok rules"
  shows "i \<in> set (users_with_role rules code) \<longleftrightarrow> holds_role rules i code"
proof
  assume "i \<in> set (users_with_role rules code)"
  then obtain r where r: "r \<in> set rules" "is_assignment r" "v1 r = role_subject code" "starts_with (v0 r) ''user:''"
      "subject_id (v0 r) = Some i"
    by (auto simp: users_with_role_def in_map_filter)
  with assms obtain j where "v0 r = user_subject j" by (auto simp: rules_ok_def rule_ok_def)
  with r show "holds_role rules i code" by (auto simp: holds_role_def)
next
  assume "holds_role rules i code"
  then obtain r where "r \<in> set rules" "is_assignment r" "v0 r = user_subject i" "v1 r = role_subject code"
    by (auto simp: holds_role_def)
  then have "user_subject i \<in> set (map v0 (filter (\<lambda>r. is_assignment r \<and> v1 r = role_subject code \<and> starts_with (v0 r) ''user:'') rules))"
    by force
  then show "i \<in> set (users_with_role rules code)"
    unfolding users_with_role_def in_map_filter by (rule rev_bexI) (rule subject_id_user)
qed

lemma user_role_codes_iff:
  assumes "code \<noteq> []" and "\<not> starts_with code ''role:''"
  shows "code \<in> set (user_role_codes rules i) \<longleftrightarrow> holds_role rules i code"
proof -
  let ?f = "\<lambda>c. case role_code_of c of Some (x # s) \<Rightarrow> x # s | _ \<Rightarrow> c"
  have f: "?f c = code \<longleftrightarrow> c = role_subject code" if st: "starts_with c ''role:''" for c
  proof -
    obtain d where "c = ''role:'' @ d" using st by (rule starts_with_split)
    then have c: "c = role_subject d" by (simp only: role_subject_def)
    have "?f c = (if d = [] then c else d)" by (cases d) (simp_all add: c)
    moreover have "c \<noteq> code" using st assms(2) by auto
    ultimately show ?thesis using assms(1) c by auto
  qed
  have ne: "role_subject code \<noteq> []" by (simp add: role_subject_def)
  show ?thesis
  proof
    assume "code \<in> set (user_role_codes rules i)"
    then obtain r where r: "r \<in> set rules" "is_assignment r" "v0 r = user_subject i" "starts_with (v1 r) ''role:''" "?f (v1 r) = code"
      by (auto simp: user_role_codes_def)
    with f show "holds_role rules i code" unfolding holds_role_def by blast
  next
    assume "holds_role rules i code"
    then obtain r where r: "r \<in> set rules" "is_assignment r" "v0 r = user_subject i" "v1 r = role_subject code"
      unfolding holds_role_def by blast
    then have "v1 r \<in> set (filter (\<lambda>c. c \<noteq> []) (map v1 (filter (\<lambda>r. is_assignment r \<and> v0 r = user_subject i \<and> starts_with (v1 r) ''role:'') rules)))"
      using ne by (auto intro!: image_eqI [of _ v1 r])
    moreover have "?f (v1 r) = code" using f [of "v1 r"] r(4) by simp
    ultimately show "code \<in> set (user_role_codes rules i)" unfolding user_role_codes_def set_sort set_map by blast
  qed
qed

section \<open>What a write leaves\<close>

text \<open>The role assignments of a user are replaced; nothing else changes.\<close>

lemma set_user_roles_holds:
  assumes "set_user_roles i codes rules = Inr rs"
  shows "holds_role rs j k \<longleftrightarrow> (if j = i then k \<in> set (stripped_codes codes) else holds_role rules j k)"
proof -
  from assms have rs: "rs = filter (\<lambda>r. \<not> (is_assignment r \<and> v0 r = user_subject i)) rules
       @ map (\<lambda>c. rule_row ''g'' (user_subject i) (role_subject c) []) (stripped_codes codes)"
    by (simp add: set_user_roles_def flush_rules_Inr)
  show ?thesis unfolding rs holds_role_def
    by (auto simp: is_assignment_def bex_Un)
qed

lemma set_user_roles_permissions:
  assumes "set_user_roles i codes rules = Inr rs"
  shows "role_permission_codes rs code = role_permission_codes rules code"
proof -
  from assms have rs: "rs = filter (\<lambda>r. \<not> (is_assignment r \<and> v0 r = user_subject i)) rules
       @ map (\<lambda>c. rule_row ''g'' (user_subject i) (role_subject c) []) (stripped_codes codes)"
    by (simp add: set_user_roles_def flush_rules_Inr)
  have "filter (\<lambda>r. ptype r = ''p'' \<and> v0 r = role_subject code) rs = filter (\<lambda>r. ptype r = ''p'' \<and> v0 r = role_subject code) rules"
    unfolding rs by (auto simp: is_assignment_def intro: filter_cong)
  then show ?thesis by (simp add: role_permission_codes_def)
qed

lemma set_user_roles_ok: "set_user_roles i codes rules = Inr rs \<Longrightarrow> rules_ok rules \<Longrightarrow> rules_ok rs"
  unfolding set_user_roles_def flush_rules_Inr rules_ok_def rule_ok_def role_row_def by auto

lemma set_role_permissions_holds: "set_role_permissions k codes rules = Inr rs \<Longrightarrow> holds_role rs j c = holds_role rules j c"
  by (auto simp: set_role_permissions_def flush_rules_Inr holds_role_def is_assignment_def)

lemma set_role_permissions_ok:
  assumes "set_role_permissions k codes rules = Inr rs" and "\<And>c. c \<in> set codes \<Longrightarrow> storable c" and "rules_ok rules"
  shows "rules_ok rs"
proof -
  have "set (stripped_codes codes) = set codes" by (rule stored_codes(2)) (rule assms(2))
  moreover have "rs = filter (\<lambda>r. \<not> (ptype r = ''p'' \<and> v0 r = role_subject k)) rules @ map (grant_row k) (stripped_codes codes)"
    using assms(1) by (simp add: set_role_permissions_def flush_rules_Inr grant_row_def)
  moreover have "rule_ok (grant_row k c)" if "c \<in> set codes" for c using assms(2) [OF that] by (auto simp: rule_ok_def)
  ultimately show ?thesis using assms(3) by (auto simp: rules_ok_def)
qed

lemma set_role_permissions_other:
  assumes "set_role_permissions k codes rules = Inr rs" and "code \<noteq> k"
  shows "role_permission_codes rs code = role_permission_codes rules code"
proof -
  from assms(1) have rs: "rs = filter (\<lambda>r. \<not> (ptype r = ''p'' \<and> v0 r = role_subject k)) rules
       @ map (\<lambda>c. rule_row ''p'' (role_subject k) (fst (split_code c)) (snd (split_code c))) (stripped_codes codes)"
    by (simp add: set_role_permissions_def flush_rules_Inr)
  have "filter (\<lambda>r. ptype r = ''p'' \<and> v0 r = role_subject code) rs = filter (\<lambda>r. ptype r = ''p'' \<and> v0 r = role_subject code) rules"
    unfolding rs using assms(2) by (auto intro: filter_cong)
  then show ?thesis by (simp add: role_permission_codes_def)
qed

lemma set_role_permissions_own:
  assumes "set_role_permissions k codes rules = Inr rs"
  shows "role_permission_codes rs k = sort (map (\<lambda>c. join_code (fst (split_code c)) (snd (split_code c))) (stripped_codes codes))"
proof -
  from assms have rs: "rs = filter (\<lambda>r. \<not> (ptype r = ''p'' \<and> v0 r = role_subject k)) rules
       @ map (\<lambda>c. rule_row ''p'' (role_subject k) (fst (split_code c)) (snd (split_code c))) (stripped_codes codes)"
    by (simp add: set_role_permissions_def flush_rules_Inr)
  have "filter (\<lambda>r. ptype r = ''p'' \<and> v0 r = role_subject k) rs
      = map (\<lambda>c. rule_row ''p'' (role_subject k) (fst (split_code c)) (snd (split_code c))) (stripped_codes codes)"
    unfolding rs by (auto simp: filter_empty_conv)
  then show ?thesis by (simp add: role_permission_codes_def comp_def)
qed

lemma set_role_permissions_codes:
  assumes "set_role_permissions k codes rules = Inr rs" and "\<And>c. c \<in> set codes \<Longrightarrow> storable c"
  shows "set (role_permission_codes rs k) = set codes"
proof -
  have "set (stripped_codes codes) = set codes" by (rule stored_codes(2)) (rule assms(2))
  moreover have "join_code (fst (split_code c)) (snd (split_code c)) = c" if "c \<in> set codes" for c
    using assms(2) [OF that] by (rule storable_split)
  ultimately show ?thesis by (auto simp: set_role_permissions_own [OF assms(1)] image_iff)
qed

lemma delete_user_policies_holds: "holds_role (delete_user_policies i rules) j k \<longleftrightarrow> j \<noteq> i \<and> holds_role rules j k"
  by (auto simp: delete_user_policies_def holds_role_def is_assignment_def)

lemma delete_user_policies_permissions: "role_permission_codes (delete_user_policies i rules) code = role_permission_codes rules code"
proof -
  have "filter (\<lambda>r. ptype r = ''p'' \<and> v0 r = role_subject code) (delete_user_policies i rules)
      = filter (\<lambda>r. ptype r = ''p'' \<and> v0 r = role_subject code) rules"
    unfolding delete_user_policies_def by (auto intro: filter_cong)
  then show ?thesis by (simp add: role_permission_codes_def)
qed

lemma delete_role_policies_holds: "holds_role (delete_role_policies c rules) j k \<longleftrightarrow> k \<noteq> c \<and> holds_role rules j k"
  by (auto simp: delete_role_policies_def holds_role_def is_assignment_def)

lemma delete_role_policies_permissions:
  "code \<noteq> c \<Longrightarrow> role_permission_codes (delete_role_policies c rules) code = role_permission_codes rules code"
proof -
  assume "code \<noteq> c"
  then have "filter (\<lambda>r. ptype r = ''p'' \<and> v0 r = role_subject code) (delete_role_policies c rules)
      = filter (\<lambda>r. ptype r = ''p'' \<and> v0 r = role_subject code) rules"
    unfolding delete_role_policies_def by (auto simp: is_assignment_def intro: filter_cong)
  then show ?thesis by (simp add: role_permission_codes_def)
qed

lemma delete_policies_ok: "rules_ok rules \<Longrightarrow> rules_ok (delete_user_policies i rules)"
  "rules_ok rules \<Longrightarrow> rules_ok (delete_role_policies c rules)"
  by (auto simp: rules_ok_def delete_user_policies_def delete_role_policies_def)

end
