(* ===== verification/AuthMachine.thy ===== *)
theory AuthMachine
  imports PolicyRows
begin

text \<open>
  The accounts of the service as a state machine: one rule for every function of
  \<open>modules/auth/service.py\<close> that writes, the start of the service and the first-run setup. An
  administrator who acts has an active account. \<open>auth_inv\<close> holds of every reachable database, and
  \<open>auth_later\<close> between a database and every later one.
\<close>

section \<open>The machine\<close>

inductive auth_step :: "adb \<Rightarrow> adb \<Rightarrow> bool" where
  as_start: "ensure_permission_catalog db = Inr db' \<Longrightarrow> auth_step db db'"
| as_setup: "setup_initialize data c db = Inr (i, db') \<Longrightarrow> auth_step db db'"
| as_login: "authenticate login password c db = (ans, db') \<Longrightarrow> auth_step db db'"
| as_open: "create_session i remember c db = Inr (ans, db') \<Longrightarrow> auth_step db db'"
| as_rotate: "rotate_refresh_token token c db = (ans, db') \<Longrightarrow> auth_step db db'"
| as_revoke: "revoke_session who token sid c db = Inr (ans, db') \<Longrightarrow> auth_step db db'"
| as_request: "get_current_context since c q db = (ans, db') \<Longrightarrow> auth_step db db'"
| as_ask_reset: "request_password_reset recovery cooldown email c db = Inr (ans, db') \<Longrightarrow> auth_step db db'"
| as_reset: "reset_password recovery code password c db = Inr (ans, db') \<Longrightarrow> auth_step db db'"
| as_change_password: "change_password i old new c db = Inr (ans, db') \<Longrightarrow> auth_step db db'"
| as_set_password: "active_user db (at_user x) \<Longrightarrow> set_user_password x i password must c db = Inr (ans, db') \<Longrightarrow> auth_step db db'"
| as_force_logout: "force_logout_user i c db = Inr (ans, db') \<Longrightarrow> auth_step db db'"
| as_create_user: "active_user db (at_user x) \<Longrightarrow> create_user x data c db = Inr (i, db') \<Longrightarrow> auth_step db db'"
| as_update_user: "active_user db (at_user x) \<Longrightarrow> update_user x i data c db = Inr (ans, db') \<Longrightarrow> auth_step db db'"
| as_assign_role: "active_user db (at_user x) \<Longrightarrow> assign_role x i data c db = Inr (ans, db') \<Longrightarrow> auth_step db db'"
| as_remove_role: "active_user db (at_user x) \<Longrightarrow> remove_role x i code c db = Inr (ans, db') \<Longrightarrow> auth_step db db'"
| as_delete_users: "active_user db (at_user x) \<Longrightarrow> delete_users x ids c db = Inr (ans, db') \<Longrightarrow> auth_step db db'"
| as_create_role: "active_user db (at_user x) \<Longrightarrow> create_role x data c db = Inr (i, db') \<Longrightarrow> auth_step db db'"
| as_update_role: "active_user db (at_user x) \<Longrightarrow> update_role x i data c db = Inr (ans, db') \<Longrightarrow> auth_step db db'"
| as_duplicate_role: "active_user db (at_user x) \<Longrightarrow> duplicate_role x i data c db = Inr (ans, db') \<Longrightarrow> auth_step db db'"
| as_replace: "active_user db (at_user x) \<Longrightarrow> replace_role_permissions x i codes c db = Inr (ans, db') \<Longrightarrow> auth_step db db'"
| as_grant: "active_user db (at_user x) \<Longrightarrow> grant_role_permissions x i codes c db = Inr (ans, db') \<Longrightarrow> auth_step db db'"
| as_withdraw: "active_user db (at_user x) \<Longrightarrow> revoke_role_permissions x i codes c db = Inr (ans, db') \<Longrightarrow> auth_step db db'"
| as_delete_roles: "delete_roles ids c db = Inr (ans, db') \<Longrightarrow> auth_step db db'"

text \<open>The empty database of a new installation.\<close>

definition auth_init :: "adb \<Rightarrow> bool" where
  "auth_init db \<longleftrightarrow> a_users db = empty_table \<and> a_sessions db = empty_table \<and> a_roles db = empty_table \<and> a_rules db = []
     \<and> a_creds db = (\<lambda>_. None)"

section \<open>What stays\<close>

text \<open>Somebody governs: an active account holds the super administrator role, which is active and grants everything.\<close>

definition governor :: "adb \<Rightarrow> int \<Rightarrow> bool" where
  "governor db i \<longleftrightarrow> active_user db i \<and> holds_role (a_rules db) i SUPER_ADMIN_ROLE"

definition governed :: "adb \<Rightarrow> bool" where
  "governed db \<longleftrightarrow> ''*'' \<in> set (role_permission_codes (a_rules db) SUPER_ADMIN_ROLE)
     \<and> (\<exists>k r. role_by_code SUPER_ADMIN_ROLE db = Some (k, r) \<and> is_active (ro_status r))
     \<and> (\<exists>i. governor db i)"

definition auth_inv :: "adb \<Rightarrow> bool" where
  "auth_inv db \<longleftrightarrow> table_ok (a_users db) \<and> table_ok (a_sessions db) \<and> table_ok (a_roles db)
     \<and> unique_table refresh_key (a_sessions db) \<and> unique_table role_key (a_roles db) \<and> rules_ok (a_rules db)
     \<and> (rows (a_users db) \<noteq> [] \<longrightarrow> governed db)"

text \<open>Token versions never fall, a revoked session stays revoked, and identifiers are not used again.\<close>

definition user_later :: "user table \<Rightarrow> user table \<Rightarrow> bool" where
  "user_later t t' \<longleftrightarrow> next_id t \<le> next_id t'
     \<and> (\<forall>i u'. i < next_id t \<longrightarrow> t_get t' i = Some u' \<longrightarrow> (\<exists>u. t_get t i = Some u \<and> us_token_version u \<le> us_token_version u'))"

definition session_later :: "user_session table \<Rightarrow> user_session table \<Rightarrow> bool" where
  "session_later t t' \<longleftrightarrow> next_id t \<le> next_id t'
     \<and> (\<forall>i s'. i < next_id t \<longrightarrow> t_get t' i = Some s'
          \<longrightarrow> (\<exists>s. t_get t i = Some s \<and> se_user s' = se_user s \<and> (se_revoked s \<noteq> None \<longrightarrow> se_revoked s' \<noteq> None)))"

definition auth_later :: "adb \<Rightarrow> adb \<Rightarrow> bool" where
  "auth_later db db' \<longleftrightarrow> user_later (a_users db) (a_users db') \<and> session_later (a_sessions db) (a_sessions db')"

definition moves :: "adb \<Rightarrow> adb \<Rightarrow> bool" where
  "moves db db' \<longleftrightarrow> (auth_inv db \<longrightarrow> auth_inv db' \<and> auth_later db db')"

lemma user_later_refl [simp]: "user_later t t" and session_later_refl [simp]: "session_later u u"
  by (auto simp: user_later_def session_later_def)

lemma user_later_trans: "user_later s t \<Longrightarrow> user_later t u \<Longrightarrow> user_later s u"
  unfolding user_later_def by (meson dual_order.strict_trans1 order_trans)

lemma session_later_trans: "session_later s t \<Longrightarrow> session_later t u \<Longrightarrow> session_later s u"
  unfolding session_later_def by (smt (verit) dual_order.strict_trans1 order_trans)

lemma auth_later_refl: "auth_later db db"
  by (simp add: auth_later_def)

lemma auth_later_trans: "auth_later db db' \<Longrightarrow> auth_later db' db'' \<Longrightarrow> auth_later db db''"
  unfolding auth_later_def by (blast intro: user_later_trans session_later_trans)

lemma moves_refl [simp]: "moves db db"
  by (simp add: moves_def auth_later_refl)

lemma moves_trans [trans]: "moves db db' \<Longrightarrow> moves db' db'' \<Longrightarrow> moves db db''"
  unfolding moves_def by (blast intro: auth_later_trans)

lemma moves_inv: "(auth_inv db \<Longrightarrow> moves db db') \<Longrightarrow> moves db db'"
  by (simp add: moves_def)

section \<open>Single writes\<close>

lemma field_frames [simp]:
  "role_by_code k (db\<lparr>a_users := us\<rparr>) = role_by_code k db" "role_by_code k (db\<lparr>a_sessions := ss\<rparr>) = role_by_code k db"
  "role_by_code k (db\<lparr>a_rules := rs\<rparr>) = role_by_code k db"
  "active_user (db\<lparr>a_sessions := ss\<rparr>) = active_user db" "active_user (db\<lparr>a_rules := rs\<rparr>) = active_user db"
  "active_user (db\<lparr>a_roles := ros\<rparr>) = active_user db"
  by (auto simp: role_by_code_def active_user_def fun_eq_iff)

lemma moves_frame:
  assumes "a_users db' = a_users db" and "a_sessions db' = a_sessions db" and "a_roles db' = a_roles db" and "a_rules db' = a_rules db"
  shows "moves db db'"
proof -
  have "auth_inv db' = auth_inv db"
    using assms by (simp add: auth_inv_def governed_def governor_def role_by_code_def active_user_def)
  with assms show ?thesis by (simp add: moves_def auth_later_def)
qed

lemma moves_sessions:
  assumes "auth_inv db \<Longrightarrow> table_ok ss \<and> unique_table refresh_key ss \<and> session_later (a_sessions db) ss"
  shows "moves db (db\<lparr>a_sessions := ss\<rparr>)"
  using assms by (simp add: moves_def auth_inv_def auth_later_def governed_def governor_def)

lemma moves_session_add:
  assumes "unique_among refresh_key (next_id (a_sessions db)) s (a_sessions db)"
  shows "moves db (db\<lparr>a_sessions := t_add s (a_sessions db)\<rparr>)"
  by (rule moves_sessions) (use assms in \<open>auto simp: auth_inv_def session_later_def unique_table_add\<close>)

lemma unique_among_same:
  assumes "unique_table key t" and "t_get t i = Some s" and "key s' = key s"
  shows "unique_among key i s' t"
proof -
  have "unique_among key i s t"
    using assms(1,2) by (auto simp: unique_table_def list_all_iff dest: t_get_Some_rows)
  with assms(3) show ?thesis by (simp add: unique_among_def)
qed

lemma moves_session_put:
  assumes "t_get (a_sessions db) i = Some s" and "se_user s' = se_user s" and "se_revoked s \<noteq> None \<Longrightarrow> se_revoked s' \<noteq> None"
    and "se_refresh s' = se_refresh s \<or> unique_among refresh_key i s' (a_sessions db)"
  shows "moves db (db\<lparr>a_sessions := t_put i s' (a_sessions db)\<rparr>)"
proof (rule moves_sessions)
  assume "auth_inv db"
  moreover from this have "unique_among refresh_key i s' (a_sessions db)"
    using assms(1,4) unique_among_same [of refresh_key "a_sessions db" i s s'] by (auto simp: auth_inv_def refresh_key_def)
  ultimately show "table_ok (t_put i s' (a_sessions db)) \<and> unique_table refresh_key (t_put i s' (a_sessions db))
      \<and> session_later (a_sessions db) (t_put i s' (a_sessions db))"
    using assms(1-3) by (auto simp: auth_inv_def session_later_def unique_table_put)
qed

lemma unique_table_del_where: "unique_table key t \<Longrightarrow> unique_table key (t_del_where P t)"
  unfolding unique_table_iff by (auto simp: t_del_where_def)

lemma moves_session_del: "moves db (db\<lparr>a_sessions := t_del_where P (a_sessions db)\<rparr>)"
  by (rule moves_sessions)
    (auto simp: auth_inv_def session_later_def t_get_del_where unique_table_del_where split: option.splits if_splits)

text \<open>\<open>UPDATE ... SET ...\<close> over the rows of a table.\<close>

lemma t_get_map_rows:
  "t_get (t\<lparr>rows := map (\<lambda>(i, r). (i, f i r)) (rows t)\<rparr>) i = map_option (f i) (t_get t i)"
proof -
  have "map_of (map (\<lambda>(i, r). (i, f i r)) xs) i = map_option (f i) (map_of xs i)" for xs
    by (induction xs) auto
  then show ?thesis by (simp add: t_get_def)
qed

lemma table_ok_map_rows: "table_ok t \<Longrightarrow> table_ok (t\<lparr>rows := map (\<lambda>(i, r). (i, f i r)) (rows t)\<rparr>)"
  by (auto simp: table_ok_def list_all_iff comp_def case_prod_unfold)

lemma unique_map_rows:
  "unique_table key t \<Longrightarrow> (\<And>i r. key (f i r) = key r) \<Longrightarrow> unique_table key (t\<lparr>rows := map (\<lambda>(i, r). (i, f i r)) (rows t)\<rparr>)"
  unfolding unique_table_iff by auto

lemma moves_session_map:
  assumes "\<And>i s. se_user (f i s) = se_user s" and "\<And>i s. se_refresh (f i s) = se_refresh s"
    and "\<And>i s. se_revoked s \<noteq> None \<Longrightarrow> se_revoked (f i s) \<noteq> None"
  shows "moves db (db\<lparr>a_sessions := (a_sessions db)\<lparr>rows := map (\<lambda>(i, s). (i, f i s)) (rows (a_sessions db))\<rparr>\<rparr>)"
  by (rule moves_sessions) (use assms in \<open>auto simp: auth_inv_def table_ok_map_rows session_later_def t_get_map_rows refresh_key_def
      intro!: unique_map_rows\<close>)

lemma active_user_put: "active_user (db\<lparr>a_users := t_put i u (a_users db)\<rparr>) j
    \<longleftrightarrow> (if j = i then t_get (a_users db) i \<noteq> None \<and> is_active (us_status u) else active_user db j)"
  by (auto simp: active_user_def split: option.splits)

lemma moves_user_put:
  assumes u: "t_get (a_users db) i = Some u" and v: "us_token_version u \<le> us_token_version u'"
    and keep: "auth_inv db \<Longrightarrow> is_active (us_status u) \<Longrightarrow> is_active (us_status u') \<or> \<not> holds_role (a_rules db) i SUPER_ADMIN_ROLE
      \<or> (\<exists>j. j \<noteq> i \<and> governor db j)"
  shows "moves db (db\<lparr>a_users := t_put i u' (a_users db)\<rparr>)"
  unfolding moves_def
proof
  let ?db = "db\<lparr>a_users := t_put i u' (a_users db)\<rparr>"
  assume inv: "auth_inv db"
  have "rows (a_users db) \<noteq> []" using u by (auto simp: t_get_def)
  with inv have g: "governed db" by (simp add: auth_inv_def)
  then obtain k where k: "governor db k" by (auto simp: governed_def)
  have "\<exists>j. governor ?db j"
  proof (cases "k = i")
    case True
    then have "is_active (us_status u)" using k u by (simp add: governor_def active_user_def)
    from keep [OF inv this] k True show ?thesis
      by (auto simp: governor_def active_user_put u)
  next
    case False
    with k have "governor ?db k" by (simp add: governor_def active_user_put)
    then show ?thesis ..
  qed
  with g have "governed ?db" by (auto simp: governed_def)
  with inv show "auth_inv ?db \<and> auth_later db ?db"
    using u v by (auto simp: auth_inv_def auth_later_def user_later_def)
qed

lemma moves_user_add:
  assumes "rows (a_users db) \<noteq> []"
  shows "moves db (db\<lparr>a_users := t_add u (a_users db)\<rparr>)"
  unfolding moves_def
proof
  let ?db = "db\<lparr>a_users := t_add u (a_users db)\<rparr>"
  assume inv: "auth_inv db"
  with assms have g: "governed db" by (simp add: auth_inv_def)
  have "active_user db j \<Longrightarrow> active_user ?db j" for j
    using inv by (auto simp: active_user_def auth_inv_def split: option.splits)
  with g have "governed ?db" by (auto simp: governed_def governor_def)
  with inv show "auth_inv ?db \<and> auth_later db ?db"
    by (auto simp: auth_inv_def auth_later_def user_later_def)
qed

lemma moves_user_del:
  assumes "auth_inv db \<Longrightarrow> \<exists>j. j \<noteq> i \<and> governor db j"
  shows "moves db (db\<lparr>a_users := t_del i (a_users db)\<rparr>)"
  unfolding moves_def
proof
  let ?db = "db\<lparr>a_users := t_del i (a_users db)\<rparr>"
  assume inv: "auth_inv db"
  from assms [OF this] obtain j where j: "j \<noteq> i" "governor db j" by blast
  then have "rows (a_users db) \<noteq> []" by (auto simp: governor_def active_user_def t_get_def split: option.splits)
  with inv have g: "governed db" by (simp add: auth_inv_def)
  have "governor ?db j" using j by (simp add: governor_def active_user_def)
  with g have "governed ?db" by (auto simp: governed_def)
  with inv show "auth_inv ?db \<and> auth_later db ?db"
    by (auto simp: auth_inv_def auth_later_def user_later_def split: if_splits)
qed

lemma moves_rules:
  assumes "auth_inv db \<Longrightarrow> rules_ok rs" and "auth_inv db \<Longrightarrow> governed db \<Longrightarrow> governed (db\<lparr>a_rules := rs\<rparr>)"
  shows "moves db (db\<lparr>a_rules := rs\<rparr>)"
  using assms by (auto simp: moves_def auth_inv_def auth_later_def)

lemma moves_roles:
  assumes "auth_inv db \<Longrightarrow> table_ok ros \<and> unique_table role_key ros"
    and "auth_inv db \<Longrightarrow> governed db \<Longrightarrow> governed (db\<lparr>a_roles := ros\<rparr>)"
  shows "moves db (db\<lparr>a_roles := ros\<rparr>)"
  using assms by (auto simp: moves_def auth_inv_def auth_later_def)

subsection \<open>Policies and roles\<close>

lemma super_admin_plain [simp]: "py_strip SUPER_ADMIN_ROLE = SUPER_ADMIN_ROLE" "SUPER_ADMIN_ROLE \<noteq> []"
  "\<not> starts_with SUPER_ADMIN_ROLE ''role:''"
  by code_simp+

lemma super_stripped: "SUPER_ADMIN_ROLE \<in> set codes \<Longrightarrow> SUPER_ADMIN_ROLE \<in> set (stripped_codes codes)"
  by (force simp: set_stripped_codes intro: rev_image_eqI)

lemma star_stripped: "''*'' \<in> set codes \<Longrightarrow> ''*'' \<in> set (stripped_codes codes)"
  by (force simp: set_stripped_codes intro: rev_image_eqI)

lemma holds_codes: "SUPER_ADMIN_ROLE \<in> set (user_role_codes rules i) \<longleftrightarrow> holds_role rules i SUPER_ADMIN_ROLE"
  by (simp add: user_role_codes_iff)

lemma remains_Inr:
  assumes "auth_inv db" and "assert_super_admin_remains i codes db = Inr u"
  shows "SUPER_ADMIN_ROLE \<in> set codes \<or> \<not> holds_role (a_rules db) i SUPER_ADMIN_ROLE \<or> (\<exists>j. j \<noteq> i \<and> governor db j)"
proof -
  have "rules_ok (a_rules db)" using assms(1) by (simp add: auth_inv_def)
  with assms(2) show ?thesis
    by (auto simp: assert_super_admin_remains_def holds_codes list_ex_iff governor_def users_with_role_iff split: if_splits)
qed

lemma moves_user_roles:
  assumes set: "set_user_roles i codes (a_rules db) = Inr rs"
    and keep: "auth_inv db \<Longrightarrow> SUPER_ADMIN_ROLE \<in> set codes \<or> \<not> holds_role (a_rules db) i SUPER_ADMIN_ROLE \<or> (\<exists>j. j \<noteq> i \<and> governor db j)"
  shows "moves db (db\<lparr>a_rules := rs\<rparr>)"
proof (rule moves_rules)
  show "auth_inv db \<Longrightarrow> rules_ok rs" by (simp add: auth_inv_def set_user_roles_ok [OF set])
  assume inv: "auth_inv db" and g: "governed db"
  from g obtain k where k: "governor db k" by (auto simp: governed_def)
  have "\<exists>j. governor (db\<lparr>a_rules := rs\<rparr>) j"
    using keep [OF inv] k super_stripped [of codes]
    by (cases "k = i") (auto simp: governor_def set_user_roles_holds [OF set])
  with g show "governed (db\<lparr>a_rules := rs\<rparr>)"
    by (simp add: governed_def set_user_roles_permissions [OF set])
qed

lemma moves_role_permissions:
  assumes set: "set_role_permissions k codes (a_rules db) = Inr rs" and codes: "auth_inv db \<Longrightarrow> \<forall>c \<in> set codes. storable c" and keep: "k = SUPER_ADMIN_ROLE \<Longrightarrow> ''*'' \<in> set codes"
  shows "moves db (db\<lparr>a_rules := rs\<rparr>)"
proof (rule moves_rules)
  show "rules_ok rs" if "auth_inv db"
    using codes that by (auto simp: auth_inv_def intro: set_role_permissions_ok [OF set])
  assume g: "governed db"
  have "''*'' \<in> set (role_permission_codes rs SUPER_ADMIN_ROLE)"
  proof (cases "k = SUPER_ADMIN_ROLE")
    case True
    then have "''*'' \<in> set (stripped_codes codes)" using keep by (intro star_stripped)
    then have "join_code (fst (split_code ''*'')) (snd (split_code ''*'')) \<in> set (role_permission_codes rs k)"
      unfolding set_role_permissions_own [OF set] set_sort set_map by blast
    with True show ?thesis by (simp add: split_code_def join_code_def)
  next
    case False
    with g show ?thesis by (simp add: set_role_permissions_other [OF set] governed_def)
  qed
  with g show "governed (db\<lparr>a_rules := rs\<rparr>)"
    by (simp add: governed_def governor_def set_role_permissions_holds [OF set])
qed

lemma moves_delete_user_policies:
  assumes "auth_inv db \<Longrightarrow> \<exists>j. j \<noteq> i \<and> governor db j"
  shows "moves db (db\<lparr>a_rules := delete_user_policies i (a_rules db)\<rparr>)"
proof (rule moves_rules)
  assume "auth_inv db" and g: "governed db"
  with assms obtain j where "j \<noteq> i" "governor db j" by blast
  then have "governor (db\<lparr>a_rules := delete_user_policies i (a_rules db)\<rparr>) j"
    by (simp add: governor_def delete_user_policies_holds)
  with g show "governed (db\<lparr>a_rules := delete_user_policies i (a_rules db)\<rparr>)"
    by (auto simp: governed_def delete_user_policies_permissions)
qed (simp add: auth_inv_def delete_policies_ok)

lemma moves_delete_role_policies:
  assumes "c \<noteq> SUPER_ADMIN_ROLE"
  shows "moves db (db\<lparr>a_rules := delete_role_policies c (a_rules db)\<rparr>)"
  using assms
  by (auto intro!: moves_rules simp: delete_policies_ok auth_inv_def governed_def governor_def delete_role_policies_holds delete_role_policies_permissions)

lemma super_by_code: "table_ok (a_roles db) \<Longrightarrow> unique_table role_key (a_roles db) \<Longrightarrow> role_by_code c db = Some (k, r)
    \<longleftrightarrow> t_get (a_roles db) k = Some r \<and> ro_code r = c"
proof
  assume t: "table_ok (a_roles db)" and "role_by_code c db = Some (k, r)"
  then have "t_first (\<lambda>r. ro_code r = c) (a_roles db) = Some (k, r)" by (simp add: role_by_code_def)
  from t_first_get [OF t this] show "t_get (a_roles db) k = Some r \<and> ro_code r = c" by simp
next
  assume t: "table_ok (a_roles db)" "unique_table role_key (a_roles db)" and g: "t_get (a_roles db) k = Some r \<and> ro_code r = c"
  then have in_rows: "(k, r) \<in> set (rows (a_roles db))" by (blast dest: t_get_Some_rows)
  then have "t_first (\<lambda>r. ro_code r = c) (a_roles db) \<noteq> None"
    using g unfolding t_first_None by (force simp: t_vals_def)
  then obtain j x where f: "t_first (\<lambda>r. ro_code r = c) (a_roles db) = Some (j, x)" by auto
  then have x: "t_get (a_roles db) j = Some x" "ro_code x = c" using t_first_get [OF t(1) f] by auto
  then have "j = k" using t(2) in_rows g
    by (auto simp: unique_table_iff role_key_def dest: t_get_Some_rows)
  with x g f show "role_by_code c db = Some (k, r)" by (simp add: role_by_code_def)
qed

lemma moves_role_put:
  assumes "t_get (a_roles db) i = Some r" and "ro_code r' = ro_code r"
    and "ro_code r = SUPER_ADMIN_ROLE \<Longrightarrow> is_active (ro_status r) \<Longrightarrow> is_active (ro_status r')"
  shows "moves db (db\<lparr>a_roles := t_put i r' (a_roles db)\<rparr>)"
proof (rule moves_roles)
  assume inv: "auth_inv db"
  then have t: "table_ok (a_roles db)" "unique_table role_key (a_roles db)" by (simp_all add: auth_inv_def)
  have "unique_among role_key i r' (a_roles db)"
    using unique_among_same [OF t(2) assms(1)] assms(2) by (simp add: role_key_def)
  with t show ok: "table_ok (t_put i r' (a_roles db)) \<and> unique_table role_key (t_put i r' (a_roles db))"
    by (simp add: unique_table_put)
  assume g: "governed db"
  then obtain k x where x: "t_get (a_roles db) k = Some x" "ro_code x = SUPER_ADMIN_ROLE" "is_active (ro_status x)"
    by (auto simp: governed_def super_by_code [OF t])
  let ?db = "db\<lparr>a_roles := t_put i r' (a_roles db)\<rparr>"
  have "role_by_code SUPER_ADMIN_ROLE ?db = Some (k, if k = i then r' else x)"
    using super_by_code [of ?db] ok x assms by auto
  with g x assms show "governed ?db" by (auto simp: governed_def governor_def)
qed

lemma moves_role_add:
  assumes "role_by_code (ro_code r) db = None"
  shows "moves db (db\<lparr>a_roles := t_add r (a_roles db)\<rparr>)"
proof (rule moves_roles)
  assume inv: "auth_inv db"
  then have t: "table_ok (a_roles db)" "unique_table role_key (a_roles db)" by (simp_all add: auth_inv_def)
  have "unique_among role_key (next_id (a_roles db)) r (a_roles db)"
    using assms by (force simp: unique_among_def list_all_iff role_key_def role_by_code_def t_first_None t_vals_def)
  with t show "table_ok (t_add r (a_roles db)) \<and> unique_table role_key (t_add r (a_roles db))"
    by (simp add: unique_table_add)
  assume "governed db"
  then show "governed (db\<lparr>a_roles := t_add r (a_roles db)\<rparr>)"
    by (auto simp: governed_def governor_def role_by_code_def t_first_add_Some)
qed

lemma moves_role_del:
  assumes "t_get (a_roles db) i = Some r" and "ro_code r \<noteq> SUPER_ADMIN_ROLE"
  shows "moves db (db\<lparr>a_roles := t_del i (a_roles db)\<rparr>)"
proof (rule moves_roles)
  assume inv: "auth_inv db"
  then have t: "table_ok (a_roles db)" "unique_table role_key (a_roles db)" by (simp_all add: auth_inv_def)
  then show ok: "table_ok (t_del i (a_roles db)) \<and> unique_table role_key (t_del i (a_roles db))"
    by (simp add: unique_table_del)
  assume g: "governed db"
  let ?db = "db\<lparr>a_roles := t_del i (a_roles db)\<rparr>"
  from g obtain k x where x: "t_get (a_roles db) k = Some x" "ro_code x = SUPER_ADMIN_ROLE" "is_active (ro_status x)"
    by (auto simp: governed_def super_by_code [OF t])
  with assms have "k \<noteq> i" by auto
  then have "role_by_code SUPER_ADMIN_ROLE ?db = Some (k, x)"
    using super_by_code [of ?db] ok x by auto
  with g x show "governed ?db" by (auto simp: governed_def governor_def)
qed

end
