(* ===== verification/AuthOperations.thy ===== *)
theory AuthOperations
  imports AuthMachine
begin

text \<open>Every operation on the accounts is made of the single writes of \<open>AuthMachine\<close>.\<close>

section \<open>Sessions and passwords\<close>

lemma moves_creds [simp]: "moves db (db\<lparr>a_creds := f\<rparr>)" and moves_used [simp]: "moves db (db\<lparr>a_used := g\<rparr>)"
  and moves_resets [simp]: "moves db (db\<lparr>a_resets := h\<rparr>)"
  by (rule moves_frame; simp)+

lemma moves_expire_resets: "moves db (expire_resets c i db)"
  by (simp add: expire_resets_def)

lemma moves_revoke_active: "moves db (revoke_active c i db)"
  unfolding revoke_active_def by (rule moves_session_map) auto

lemma moves_revoke_all: "moves db (revoke_all_sessions c i db)"
proof -
  have "moves (revoke_active c i db) (revoke_all_sessions c i db)"
  proof (cases "t_get (a_users db) i")
    case None
    then show ?thesis by (simp add: revoke_all_sessions_def revoke_active_def)
  next
    case (Some u)
    then have "t_get (a_users (revoke_active c i db)) i = Some u" by (simp add: revoke_active_def)
    from moves_user_put [OF this, of "u\<lparr>us_token_version := us_token_version u + 1\<rparr>"] Some
    show ?thesis by (simp add: revoke_all_sessions_def revoke_active_def)
  qed
  with moves_revoke_active show ?thesis by (rule moves_trans)
qed

lemma moves_authenticate: "authenticate l p c db = (ans, db') \<Longrightarrow> moves db db'"
  by (auto simp: authenticate_def Let_def split: option.splits if_splits)

lemma moves_create_session:
  assumes "create_session i remember c db = Inr (ans, db')"
  shows "moves db db'"
proof -
  from assms obtain u s where u: "t_get (a_users db) i = Some u"
    and db': "db' = db\<lparr>a_sessions := t_add s (a_sessions db), a_users := t_put i (u\<lparr>us_last_login := Some (ac_now c)\<rparr>) (a_users db)\<rparr>"
    and s: "unique_among refresh_key (next_id (a_sessions db)) s (a_sessions db)"
    by (auto simp: create_session_def Let_def ebind_Inr_iff)
  let ?db = "db\<lparr>a_sessions := t_add s (a_sessions db)\<rparr>"
  have "moves ?db (?db\<lparr>a_users := t_put i (u\<lparr>us_last_login := Some (ac_now c)\<rparr>) (a_users ?db)\<rparr>)"
    using u by (intro moves_user_put) auto
  with moves_session_add [OF s] show ?thesis unfolding db' by (auto intro: moves_trans)
qed

lemma refresh_record_get:
  assumes "auth_inv db" and "refresh_record c token db = Some ((sid, s), used)"
  shows "t_get (a_sessions db) sid = Some s"
proof -
  have "table_ok (a_sessions db)" using assms(1) by (simp add: auth_inv_def)
  with assms(2) show ?thesis
    by (auto simp: refresh_record_def Let_def split: option.splits dest: t_first_get)
qed

lemma moves_rotate:
  assumes "rotate_refresh_token token c db = (ans, db')"
  shows "moves db db'"
proof (rule moves_inv)
  assume inv: "auth_inv db"
  show "moves db db'"
  proof (cases "refresh_record c token db")
    case None
    with assms show ?thesis by (simp add: rotate_refresh_token_def)
  next
    case (Some r)
    obtain sid s used where r: "r = ((sid, s), used)" by (metis prod.exhaust)
    with Some have get: "t_get (a_sessions db) sid = Some s" using refresh_record_get [OF inv] by simp
    have revoke: "moves db (db\<lparr>a_sessions := t_put sid (s\<lparr>se_revoked := Some (ac_now c)\<rparr>) (a_sessions db)\<rparr>)"
      by (rule moves_session_put [OF get]) auto
    have renew: "moves db (db\<lparr>a_used := f, a_sessions := t_put sid (s\<lparr>se_refresh := h, se_last_used := t\<rparr>) (a_sessions db)\<rparr>)"
      if "unique_among refresh_key sid (s\<lparr>se_refresh := h, se_last_used := t\<rparr>) (a_sessions db)" for f h t
    proof -
      have "moves (db\<lparr>a_used := f\<rparr>) (db\<lparr>a_used := f, a_sessions := t_put sid (s\<lparr>se_refresh := h, se_last_used := t\<rparr>) (a_sessions (db\<lparr>a_used := f\<rparr>))\<rparr>)"
        by (rule moves_session_put [where s = s]) (use get that in auto)
      then show ?thesis using moves_trans [OF moves_used] by auto
    qed
    show ?thesis
    proof (cases used)
      case (Some t)
      with assms \<open>refresh_record c token db = Some r\<close> r revoke show ?thesis
        by (auto simp: rotate_refresh_token_def split: if_splits)
    next
      case None
      with assms \<open>refresh_record c token db = Some r\<close> r renew show ?thesis
        by (auto simp: rotate_refresh_token_def Let_def check_unique_def split: option.splits if_splits sum.splits)
    qed
  qed
qed

lemma moves_revoke_one: "moves db (revoke_one c sid db)"
  by (auto simp: revoke_one_def intro: moves_session_put split: option.splits)

lemma moves_revoke_session: "revoke_session who token sid c db = Inr (ans, db') \<Longrightarrow> moves db db'"
  by (auto simp: revoke_session_def moves_revoke_one moves_revoke_active split: option.splits if_splits)

lemma validate_session_Inr:
  "validate_session c (Some s) i = Inr s' \<Longrightarrow> s' = s \<and> se_revoked s = None \<and> se_user s = i"
  by (auto simp: validate_session_def Let_def split: if_splits)

lemma identify_Inr:
  assumes "identify c q db = Inr (t, sid, s)"
  shows "ht_token q = Token t \<and> cl_session t = Some sid \<and> t_get (a_sessions db) sid = Some s \<and> se_user s = cl_sub t
    \<and> se_revoked s = None
    \<and> (\<exists>u. t_get (a_users db) (cl_sub t) = Some u \<and> is_active (us_status u) \<and> cl_version t = us_token_version u)"
proof (cases "ht_token q")
  case (Token k)
  with assms obtain j where j: "cl_session k = Some j" by (auto simp: identify_def ebind_Inr_iff)
  show ?thesis
  proof (cases "t_get (a_users db) (cl_sub k)"; cases "t_get (a_sessions db) j")
    fix u x
    assume "t_get (a_users db) (cl_sub k) = Some u" "t_get (a_sessions db) j = Some x"
    with assms Token j show ?thesis by (auto simp: identify_def ebind_Inr_iff dest!: validate_session_Inr)
  qed (use assms Token j in \<open>auto simp: identify_def ebind_Inr_iff\<close>)
qed (use assms in \<open>auto simp: identify_def auth_required_def\<close>)

lemma moves_note_activity: "t_get (a_sessions db) sid = Some s \<Longrightarrow> moves db (note_activity c q sid s db)"
  by (auto simp: note_activity_def Let_def intro: moves_session_put)

lemma moves_context:
  assumes "get_current_context since c q db = (ans, db')"
  shows "moves db db'"
proof (cases "identify c q db")
  case (Inl e)
  with assms show ?thesis by (simp add: get_current_context_def)
next
  case (Inr r)
  obtain t sid s where r: "r = (t, sid, s)" by (metis prod.exhaust)
  with Inr have activity: "moves db (note_activity c q sid s db)" by (auto dest: identify_Inr intro: moves_note_activity)
  moreover have "moves (note_activity c q sid s db) db'"
    using assms by (auto simp: get_current_context_def Inr r Let_def split: option.splits sum.splits if_splits)
  ultimately show ?thesis by (rule moves_trans)
qed

lemma moves_request_reset:
  assumes "request_password_reset recovery cooldown email c db = Inr (ans, db')"
  shows "moves db db'"
proof -
  have "moves db ((expire_resets c i db)\<lparr>a_resets := h\<rparr>)" for i h
    by (rule moves_trans [OF moves_expire_resets moves_resets])
  with assms show ?thesis
    by (auto simp: request_password_reset_def Let_def split: option.splits if_splits)
qed

lemma moves_new_password: "moves db (revoke_all_sessions c i (expire_resets c i (db\<lparr>a_creds := f\<rparr>)))"
  "moves db (expire_resets c i (revoke_all_sessions c i (db\<lparr>a_creds := f\<rparr>)))"
  by (rule moves_trans [OF moves_trans [OF moves_creds moves_expire_resets] moves_revoke_all],
      rule moves_trans [OF moves_trans [OF moves_creds moves_revoke_all] moves_expire_resets])

lemma moves_reset_password: "reset_password recovery code password c db = Inr (ans, db') \<Longrightarrow> moves db db'"
  by (auto simp: reset_password_def invalid_reset_def Let_def ebind_Inr_iff moves_new_password split: option.splits if_splits)

lemma moves_change_password: "change_password i old new c db = Inr (ans, db') \<Longrightarrow> moves db db'"
  by (auto simp: change_password_def auth_required_def Let_def ebind_Inr_iff moves_new_password split: option.splits if_splits)

lemma moves_set_password: "set_user_password x i password must c db = Inr (ans, db') \<Longrightarrow> moves db db'"
  by (auto simp: set_user_password_def Let_def ebind_Inr_iff moves_new_password split: if_splits)

lemma moves_force_logout: "force_logout_user i c db = Inr (ans, db') \<Longrightarrow> moves db db'"
  by (auto simp: force_logout_user_def ebind_Inr_iff moves_revoke_all)

section \<open>Users\<close>

lemma active_rows: "active_user db i \<Longrightarrow> rows (a_users db) \<noteq> []"
  by (auto simp: active_user_def t_get_def split: option.splits)

lemma somebody_else:
  assumes "auth_inv db" and "rows (a_users db) \<noteq> []" and "t_get (a_users db) i = None"
  shows "\<exists>j. j \<noteq> i \<and> governor db j"
proof -
  from assms(1,2) obtain j where j: "governor db j" by (auto simp: auth_inv_def governed_def)
  with assms(3) have "j \<noteq> i" by (auto simp: governor_def active_user_def)
  with j show ?thesis by blast
qed

lemma moves_create_user:
  assumes x: "active_user db (at_user x)" and "create_user x data c db = Inr (i, db')"
  shows "moves db db'"
proof -
  from assms(2) obtain codes rs u f where rs: "set_user_roles (next_id (a_users db)) codes (a_rules db) = Inr rs"
    and db': "db' = db\<lparr>a_users := t_add u (a_users db), a_creds := f, a_rules := rs\<rparr>"
    by (auto simp: create_user_def Let_def ebind_Inr_iff)
  have "moves db (db\<lparr>a_rules := rs\<rparr>)"
    using somebody_else [OF _ active_rows [OF x]] by (intro moves_user_roles [OF rs]) (auto simp: auth_inv_def)
  moreover have "moves (db\<lparr>a_rules := rs\<rparr>) (db\<lparr>a_rules := rs, a_users := t_add u (a_users (db\<lparr>a_rules := rs\<rparr>))\<rparr>)"
    using active_rows [OF x] by (intro moves_user_add) simp
  moreover have "moves (db\<lparr>a_rules := rs, a_users := t_add u (a_users (db\<lparr>a_rules := rs\<rparr>))\<rparr>) db'"
    unfolding db' by (rule moves_frame) auto
  ultimately show ?thesis by (blast intro: moves_trans)
qed

lemma set_user_fields_keeps [simp]:
  "us_status (set_user_fields data u) = us_status u" "us_token_version (set_user_fields data u) = us_token_version u"
  by (simp_all add: set_user_fields_def set_if_def)

lemma recode_user_keeps: "recode_user i data u db = Inr u' \<Longrightarrow> us_status u' = us_status u \<and> us_token_version u' = us_token_version u"
  by (auto simp: recode_user_def Let_def ebind_Inr_iff split: if_splits)

lemma moves_guarded_roles:
  assumes "assert_super_admin_remains i codes db = Inr u" and "set_user_roles i codes (a_rules db) = Inr rs"
  shows "moves db (db\<lparr>a_rules := rs\<rparr>)"
  by (rule moves_user_roles [OF assms(2)]) (rule remains_Inr [OF _ assms(1)])

lemma moves_reassign:
  assumes "reassign_roles x i requested c db = Inr rs"
  shows "moves db (db\<lparr>a_rules := rs\<rparr>)"
proof -
  from assms consider "rs = a_rules db"
    | codes where "assert_super_admin_remains i codes db = Inr ()" "set_user_roles i codes (a_rules db) = Inr rs"
    by (auto simp: reassign_roles_def Let_def ebind_Inr_iff split: option.splits if_splits)
  then show ?thesis
  proof cases
    case 1
    then show ?thesis by simp
  next
    case 2
    then show ?thesis by (rule moves_guarded_roles)
  qed
qed

lemma moves_change_status:
  assumes "change_user_status x i data current c db = Inr db'"
  shows "moves db db'"
proof (cases "dget data ''status'' = PNone \<or> t_get (a_users db) i = None")
  case True
  with assms show ?thesis by (auto simp: change_user_status_def Let_def ebind_Inr_iff split: if_splits)
next
  case False
  then obtain u where u: "t_get (a_users db) i = Some u" by auto
  let ?v = "py_upper (text_field data ''status'')" and ?db = "\<lambda>v. db\<lparr>a_users := t_put i (u\<lparr>us_status := v\<rparr>) (a_users db)\<rparr>"
  have remains: "?v = ''ACTIVE'' \<or> assert_super_admin_remains i [] db = Inr ()"
    using assms False u by (auto simp: change_user_status_def Let_def ebind_Inr_iff split: if_splits)
  have "is_active ''ACTIVE''" by code_simp
  then have "moves db (?db ?v)"
    using remains remains_Inr [of db i "[]"] by (intro moves_user_put [OF u]) auto
  moreover have "db' = ?db ?v \<or> db' = revoke_all_sessions c i (?db ?v)"
    using assms False u by (auto simp: change_user_status_def Let_def ebind_Inr_iff split: if_splits)
  ultimately show ?thesis using moves_trans moves_revoke_all by blast
qed

lemma moves_update_user:
  assumes "update_user x i data c db = Inr (ans, db')"
  shows "moves db db'"
proof -
  from assms obtain u u1 rs where u: "t_get (a_users db) i = Some u" and u1: "recode_user i data (set_user_fields data u) db = Inr u1"
    and rs: "reassign_roles x i (requested_role_codes data) c (db\<lparr>a_users := t_put i u1 (a_users db)\<rparr>) = Inr rs"
    and db': "change_user_status x i data (user_role_codes (a_rules db) i) c (db\<lparr>a_users := t_put i u1 (a_users db), a_rules := rs\<rparr>) = Inr db'"
    by (auto simp: update_user_def Let_def ebind_Inr_iff)
  have "moves db (db\<lparr>a_users := t_put i u1 (a_users db)\<rparr>)"
    using recode_user_keeps [OF u1] by (intro moves_user_put [OF u]) auto
  with moves_reassign [OF rs] moves_change_status [OF db'] show ?thesis by (auto intro: moves_trans)
qed

lemma moves_assign_role:
  assumes "assign_role x i data c db = Inr (ans, db')"
  shows "moves db db'"
proof -
  from assms consider "db' = db" | codes rs where "assert_super_admin_remains i codes db = Inr ()"
      "set_user_roles i codes (a_rules db) = Inr rs" "db' = db\<lparr>a_rules := rs\<rparr>"
    by (auto simp: assign_role_def Let_def ebind_Inr_iff split: if_splits)
  then show ?thesis
    by cases (auto intro: moves_guarded_roles)
qed

lemma moves_remove_role:
  assumes "remove_role x i code c db = Inr (ans, db')"
  shows "moves db db'"
proof -
  from assms obtain codes rs where "assert_super_admin_remains i codes db = Inr ()"
      "set_user_roles i codes (a_rules db) = Inr rs" "db' = db\<lparr>a_rules := rs\<rparr>"
    by (auto simp: remove_role_def Let_def ebind_Inr_iff)
  then show ?thesis by (auto intro: moves_guarded_roles)
qed

lemma governor_delete: "governor db j \<Longrightarrow> j \<noteq> i \<Longrightarrow> governor (delete_user_rows i db) j"
  by (simp add: governor_def active_user_def delete_user_rows_def delete_user_policies_holds)

lemma moves_delete_user_rows:
  assumes "auth_inv db \<Longrightarrow> \<exists>j. j \<noteq> i \<and> governor db j"
  shows "moves db (delete_user_rows i db)"
proof (rule moves_inv)
  assume inv: "auth_inv db"
  with assms obtain j where j: "j \<noteq> i" "governor db j" by blast
  let ?r = "db\<lparr>a_rules := delete_user_policies i (a_rules db)\<rparr>"
  let ?s = "?r\<lparr>a_sessions := t_del_where (\<lambda>s. se_user s = i) (a_sessions ?r)\<rparr>"
  let ?u = "?s\<lparr>a_users := t_del i (a_users ?s)\<rparr>"
  have gs: "governor ?s j" using j by (simp add: governor_def delete_user_policies_holds)
  have "moves db ?r" using assms by (rule moves_delete_user_policies)
  moreover have "moves ?r ?s" by (rule moves_session_del)
  moreover have "moves ?s ?u" by (rule moves_user_del) (use gs j(1) in blast)
  moreover have "moves ?u (delete_user_rows i db)"
    by (rule moves_frame) (auto simp: delete_user_rows_def)
  ultimately show "moves db (delete_user_rows i db)" by (blast intro: moves_trans)
qed

lemma moves_delete_fold:
  "governor db j \<Longrightarrow> j \<notin> set is \<Longrightarrow> moves db (fold delete_user_rows is db)"
proof (induction "is" arbitrary: db)
  case (Cons i "is")
  then have "moves db (delete_user_rows i db)" by (intro moves_delete_user_rows) auto
  moreover have "moves (delete_user_rows i db) (fold delete_user_rows is (delete_user_rows i db))"
    by (rule Cons.IH) (use Cons.prems governor_delete in auto)
  ultimately show ?case by (auto intro: moves_trans)
qed simp

lemma moves_delete_users:
  assumes x: "active_user db (at_user x)" and "delete_users x ids c db = Inr (ans, db')"
  shows "moves db db'"
proof (rule moves_inv)
  assume inv: "auth_inv db"
  let ?users = "filter (\<lambda>i. t_get (a_users db) i \<noteq> None) (remdups ids)"
  let ?admins = "users_with_role (a_rules db) SUPER_ADMIN_ROLE"
  have iff: "i \<in> set ?admins \<longleftrightarrow> holds_role (a_rules db) i SUPER_ADMIN_ROLE" for i
    using inv by (simp add: auth_inv_def users_with_role_iff)
  from inv active_rows [OF x] obtain k where k: "governor db k" by (auto simp: auth_inv_def governed_def)
  from assms(2) have guard: "filter (\<lambda>i. i \<in> set ?users) ?admins = [] \<or> list_ex (active_user db) (filter (\<lambda>i. i \<notin> set ?users) ?admins)"
    and db': "db' = fold delete_user_rows ?users db"
    unfolding delete_users_def Let_def ebind_Inr_iff raise_if_Inr_iff by auto
  have "\<exists>j. governor db j \<and> j \<notin> set ?users"
  proof (cases "k \<in> set ?users")
    case True
    then have "filter (\<lambda>i. i \<in> set ?users) ?admins \<noteq> []"
      using k iff by (auto simp: governor_def filter_empty_conv)
    with guard have "list_ex (active_user db) (filter (\<lambda>i. i \<notin> set ?users) ?admins)" by blast
    then show ?thesis using iff by (auto simp: list_ex_iff governor_def)
  qed (use k in blast)
  then show "moves db db'" unfolding db' by (blast intro: moves_delete_fold)
qed

section \<open>Roles\<close>

lemma role_by_code_exists: "t_get (a_roles db) i = Some r \<Longrightarrow> role_by_code (ro_code r) db \<noteq> None"
  unfolding role_by_code_def t_first_None by (force simp: t_vals_def dest: t_get_Some_rows)

lemma moves_sync:
  assumes "sync_role_permissions code codes db = Inr rs" and "code = SUPER_ADMIN_ROLE \<Longrightarrow> role_by_code code db \<noteq> None"
  shows "moves db (db\<lparr>a_rules := rs\<rparr>)"
proof -
  from assms(1) have set: "set_role_permissions code
       (if ''*'' \<in> set codes then [''*''] else sorted_list_of_set (resolve_role_codes (set codes))) (a_rules db) = Inr rs"
    and "\<not> (role_by_code code db \<noteq> None \<and> code \<in> PROTECTED_ROLE_CODES \<and> ''*'' \<notin> set codes)"
    unfolding sync_role_permissions_def ebind_Inr_iff raise_if_Inr_iff by blast+
  then have "code = SUPER_ADMIN_ROLE \<Longrightarrow> ''*'' \<in> set codes" using assms(2) by (auto simp: PROTECTED_ROLE_CODES_def)
  moreover have "storable c" if "c \<in> set codes" for c
    using assms(1) that by (auto simp: sync_role_permissions_def ebind_Inr_iff intro: valid_codes_storable)
  then have "storable c" if "c \<in> resolve_role_codes (set codes)" for c using resolve_plain that by blast
  ultimately show ?thesis by (intro moves_role_permissions [OF set]) (auto simp: storable_def)
qed

lemma moves_create_role:
  assumes "create_role x data c db = Inr (i, db')"
  shows "moves db db'"
proof -
  from assms obtain r code codes rs where rs: "sync_role_permissions code codes (db\<lparr>a_roles := t_add r (a_roles db)\<rparr>) = Inr rs"
    and db': "db' = db\<lparr>a_roles := t_add r (a_roles db), a_rules := rs\<rparr>" and new: "role_by_code code db = None" and code: "ro_code r = code"
    unfolding create_role_def Let_def ebind_Inr_iff raise_if_Inr_iff by fastforce
  note new = new [folded code] and rs = rs [folded code]
  have "role_by_code (ro_code r) (db\<lparr>a_roles := t_add r (a_roles db)\<rparr>) \<noteq> None"
    using new by (auto simp: role_by_code_def t_first_add)
  then have "moves (db\<lparr>a_roles := t_add r (a_roles db)\<rparr>) db'" unfolding db' by (rule moves_sync [OF rs])
  with moves_role_add [OF new] show ?thesis by (rule moves_trans)
qed

lemma moves_duplicate_role: "duplicate_role x i data c db = Inr (ans, db') \<Longrightarrow> moves db db'"
  unfolding duplicate_role_def Let_def ebind_Inr_iff by (auto dest: moves_create_role)

lemma set_role_fields_status:
  assumes "dget data ''status'' = PNone \<or> is_active (text_field data ''status'')" and "is_active (ro_status r)"
  shows "is_active (ro_status (set_role_fields data r))"
proof -
  have "is_active ''ACTIVE''" by code_simp
  with assms show ?thesis by (auto simp: set_role_fields_def is_active_def)
qed

lemma moves_update_role:
  assumes "update_role x i data c db = Inr (ans, db')"
  shows "moves db db'"
proof -
  let ?db = "\<lambda>r. db\<lparr>a_roles := t_put i (set_role_fields data r) (a_roles db)\<rparr>"
  from assms obtain r where r: "t_get (a_roles db) i = Some r"
    and open_: "ro_code r \<notin> PROTECTED_ROLE_CODES \<or> dget data ''status'' = PNone \<or> is_active (text_field data ''status'')"
    and out: "db' = ?db r \<or> (\<exists>codes rs. sync_role_permissions (ro_code r) codes (?db r) = Inr rs \<and> db' = (?db r)\<lparr>a_rules := rs\<rparr>)"
    by (auto simp: update_role_def Let_def ebind_Inr_iff split: if_splits)
  have code: "ro_code (set_role_fields data r) = ro_code r" by (simp add: set_role_fields_def)
  have step: "moves db (?db r)"
    using open_ by (intro moves_role_put [OF r code]) (auto simp: PROTECTED_ROLE_CODES_def intro: set_role_fields_status)
  have "t_get (a_roles (?db r)) i = Some (set_role_fields data r)" using r by simp
  from role_by_code_exists [OF this] have ex: "role_by_code (ro_code r) (?db r) \<noteq> None" by (simp add: code)
  from out show ?thesis
  proof
    assume "\<exists>codes rs. sync_role_permissions (ro_code r) codes (?db r) = Inr rs \<and> db' = (?db r)\<lparr>a_rules := rs\<rparr>"
    then obtain codes rs where rs: "sync_role_permissions (ro_code r) codes (?db r) = Inr rs" and db': "db' = (?db r)\<lparr>a_rules := rs\<rparr>"
      by blast
    have "moves (?db r) db'" unfolding db' by (rule moves_sync [OF rs ex])
    with step show ?thesis by (rule moves_trans)
  qed (use step in simp)
qed

lemma moves_locked_sync:
  assumes "locked_role x i db = Inr r" and "sync_role_permissions (ro_code r) codes db = Inr rs"
  shows "moves db (db\<lparr>a_rules := rs\<rparr>)"
  using assms role_by_code_exists [of db i r] by (intro moves_sync [OF assms(2)]) (auto simp: locked_role_def ebind_Inr_iff)

lemma moves_replace: "replace_role_permissions x i codes c db = Inr (ans, db') \<Longrightarrow> moves db db'"
  by (auto simp: replace_role_permissions_def ebind_Inr_iff intro: moves_locked_sync)

lemma moves_grant: "grant_role_permissions x i codes c db = Inr (ans, db') \<Longrightarrow> moves db db'"
  by (auto simp: grant_role_permissions_def Let_def ebind_Inr_iff intro: moves_locked_sync)

lemma moves_withdraw: "revoke_role_permissions x i codes c db = Inr (ans, db') \<Longrightarrow> moves db db'"
  by (auto simp: revoke_role_permissions_def Let_def ebind_Inr_iff intro: moves_locked_sync)

lemma moves_delete_role_row:
  assumes "\<And>r. t_get (a_roles db) i = Some r \<Longrightarrow> ro_code r \<noteq> SUPER_ADMIN_ROLE"
  shows "moves db (delete_role_row i db)"
proof (cases "t_get (a_roles db) i")
  case (Some r)
  let ?db = "db\<lparr>a_rules := delete_role_policies (ro_code r) (a_rules db)\<rparr>"
  have "moves db ?db" by (rule moves_delete_role_policies) (rule assms [OF Some])
  moreover have "moves ?db (?db\<lparr>a_roles := t_del i (a_roles ?db)\<rparr>)"
    by (rule moves_role_del [of _ _ r]) (use Some assms in auto)
  ultimately show ?thesis using Some by (auto simp: delete_role_row_def intro: moves_trans)
qed (simp add: delete_role_row_def)

lemma moves_delete_roles:
  assumes "delete_roles ids c db = Inr (ans, db')"
  shows "moves db db'"
proof -
  from assms have "\<forall>i \<in> set ids. \<forall>r. t_get (a_roles db) i = Some r \<longrightarrow> ro_code r \<noteq> SUPER_ADMIN_ROLE"
    and db': "db' = fold delete_role_row ids db"
    by (auto simp: delete_roles_def Let_def ebind_Inr_iff list_ex_iff in_map_filter PROTECTED_ROLE_CODES_def)
  then have "moves db (fold delete_role_row ids db)"
  proof (induction ids arbitrary: db)
    case (Cons i ids)
    have get: "t_get (a_roles (delete_role_row i db)) j = Some r \<Longrightarrow> t_get (a_roles db) j = Some r" for j r
      by (auto simp: delete_role_row_def split: option.splits if_splits)
    have "moves db (delete_role_row i db)" by (rule moves_delete_role_row) (use Cons.prems in auto)
    moreover have "moves (delete_role_row i db) (fold delete_role_row ids (delete_role_row i db))"
      by (rule Cons.IH) (use Cons.prems get in \<open>auto 0 4\<close>)
    ultimately show ?case by (auto intro: moves_trans)
  qed simp
  with db' show ?thesis by simp
qed

section \<open>The start of the service\<close>

lemma moves_seed_role: "moves db (seed_role d db)"
proof (rule moves_inv)
  assume inv: "auth_inv db"
  show "moves db (seed_role d db)"
  proof (cases "role_by_code (rd_code d) db")
    case None
    then show ?thesis by (auto simp: seed_role_def intro: moves_role_add)
  next
    case (Some x)
    obtain i r where x: "x = (i, r)" by fastforce
    have "is_active ''ACTIVE''" by code_simp
    moreover have "t_get (a_roles db) i = Some r" using inv Some x by (simp add: auth_inv_def super_by_code)
    ultimately show ?thesis using Some x by (auto simp: seed_role_def intro: moves_role_put)
  qed
qed

lemma moves_seed_roles: "moves db (fold seed_role ds db)"
  by (induction ds arbitrary: db) (auto intro: moves_trans moves_seed_role)

lemma desired_storable:
  assumes "\<And>c. c \<in> set (rd_permissions d) \<Longrightarrow> plain_code c" and "\<And>c. c \<in> set current \<Longrightarrow> storable c"
    and "c \<in> set current \<union> (if rd_code d = SUPER_ADMIN_ROLE then {''*''} else compile_role_permissions (set (rd_permissions d)))"
  shows "storable c"
proof -
  from assms(3) consider "c \<in> set current" | "c = ''*''" | "c \<in> compile_role_permissions (set (rd_permissions d))"
    by (cases "rd_code d = SUPER_ADMIN_ROLE") auto
  then show ?thesis
  proof cases
    case 3
    then have "plain_code c" by (rule compile_plain [OF assms(1), rotated])
    then show ?thesis by (simp add: storable_def)
  qed (use assms(2) in \<open>simp_all add: storable_def\<close>)
qed

lemma moves_seed_grants:
  assumes "seed_grants d (a_rules db) = Inr rs" and plain: "\<And>c. c \<in> set (rd_permissions d) \<Longrightarrow> plain_code c"
  shows "moves db (db\<lparr>a_rules := rs\<rparr>)"
proof (cases "rs = a_rules db")
  case False
  let ?current = "set (role_permission_codes (a_rules db) (rd_code d))"
  let ?desired = "?current \<union> (if rd_code d = SUPER_ADMIN_ROLE then {''*''} else compile_role_permissions (set (rd_permissions d)))"
  from assms(1) False have "set_role_permissions (rd_code d) (sorted_list_of_set ?desired) (a_rules db) = Inr rs"
    unfolding seed_grants_def Let_def by (metis sum.inject(2))
  then show ?thesis
  proof (rule moves_role_permissions)
    have fin: "finite ?desired" by simp
    show "\<forall>c \<in> set (sorted_list_of_set ?desired). storable c" if "auth_inv db"
      unfolding set_sorted_list_of_set [OF fin]
    proof
      fix c assume c: "c \<in> ?desired"
      show "storable c"
        by (rule desired_storable [OF plain _ c]) (use that in \<open>auto simp: auth_inv_def role_permission_iff\<close>)
    qed
    from fin show "rd_code d = SUPER_ADMIN_ROLE \<Longrightarrow> ''*'' \<in> set (sorted_list_of_set ?desired)" by (simp only: set_sorted_list_of_set) simp
  qed
qed (auto intro: moves_frame)

lemma moves_seed_all_grants: "efold seed_grants ds (a_rules db) = Inr rs \<Longrightarrow>
    (\<forall>d \<in> set ds. \<forall>c \<in> set (rd_permissions d). plain_code c) \<Longrightarrow> moves db (db\<lparr>a_rules := rs\<rparr>)"
proof (induction ds arbitrary: db)
  case (Cons d ds)
  then obtain rs1 where rs1: "seed_grants d (a_rules db) = Inr rs1" and rest: "efold seed_grants ds rs1 = Inr rs"
    by (auto simp: ebind_Inr_iff)
  have "moves (db\<lparr>a_rules := rs1\<rparr>) (db\<lparr>a_rules := rs1, a_rules := rs\<rparr>)"
    by (rule Cons.IH) (use rest Cons.prems in simp_all)
  moreover have "moves db (db\<lparr>a_rules := rs1\<rparr>)" by (rule moves_seed_grants [OF rs1]) (use Cons.prems in simp)
  ultimately show ?case by (auto intro: moves_trans)
qed (auto intro: moves_frame)

lemma protected_admin_get: "auth_inv db \<Longrightarrow> protected_admin db = Some (i, u) \<Longrightarrow> t_get (a_users db) i = Some u"
proof -
  assume "auth_inv db" and p: "protected_admin db = Some (i, u)"
  then have t: "table_ok (a_users db)" by (simp add: auth_inv_def)
  from t_first_get [OF t p [unfolded protected_admin_def]] show ?thesis by simp
qed

lemma moves_restore_admin:
  assumes "restore_protected_admin db = Inr db'"
  shows "moves db db'"
proof (rule moves_inv)
  assume inv: "auth_inv db"
  show "moves db db'"
  proof (cases "protected_admin db")
    case None
    with assms show ?thesis by (simp add: restore_protected_admin_def)
  next
    case (Some x)
    obtain i u where x: "x = (i, u)" by fastforce
    let ?db = "db\<lparr>a_users := t_put i (u\<lparr>us_status := ''ACTIVE''\<rparr>) (a_users db)\<rparr>"
    have "is_active ''ACTIVE''" by code_simp
    then have "moves db ?db"
      using protected_admin_get [OF inv] Some x by (intro moves_user_put [of _ _ u]) auto
    moreover have "moves ?db db'"
    proof (cases "db' = ?db")
      case False
      with assms Some x obtain rs where "set_user_roles i (user_role_codes (a_rules db) i @ [SUPER_ADMIN_ROLE]) (a_rules ?db) = Inr rs"
          "db' = ?db\<lparr>a_rules := rs\<rparr>"
        by (auto simp: restore_protected_admin_def Let_def ebind_Inr_iff split: if_splits)
      then show ?thesis by (auto intro!: moves_user_roles)
    qed simp
    ultimately show ?thesis by (rule moves_trans)
  qed
qed

lemma moves_start:
  assumes "ensure_permission_catalog db = Inr db'"
  shows "moves db db'"
proof -
  let ?db = "fold seed_role ROLE_DEFINITIONS db"
  from assms obtain rs where rs: "efold seed_grants ROLE_DEFINITIONS (a_rules ?db) = Inr rs"
    and restore: "restore_protected_admin (?db\<lparr>a_rules := rs\<rparr>) = Inr db'"
    by (auto simp: ensure_permission_catalog_def Let_def ebind_Inr_iff)
  have "moves ?db (?db\<lparr>a_rules := rs\<rparr>)"
    by (rule moves_seed_all_grants [OF rs]) (use definitions_plain in blast)
  with moves_seed_roles [of db ROLE_DEFINITIONS] moves_restore_admin [OF restore] show ?thesis
    by (metis moves_trans)
qed

section \<open>The first-run setup\<close>

definition super_active :: "adb \<Rightarrow> bool" where
  "super_active db \<longleftrightarrow> (\<exists>k r. role_by_code SUPER_ADMIN_ROLE db = Some (k, r) \<and> is_active (ro_status r))"

lemma seed_role_super:
  assumes inv: "auth_inv db" and "rd_code d = SUPER_ADMIN_ROLE \<or> super_active db"
  shows "super_active (seed_role d db)"
proof (cases "role_by_code (rd_code d) db")
  case None
  have "is_active ''ACTIVE''" by code_simp
  with None assms(2) show ?thesis
    by (auto simp: super_active_def seed_role_def role_by_code_def t_first_add t_first_add_Some)
next
  case (Some x)
  obtain i r where x: "x = (i, r)" by fastforce
  have t: "table_ok (a_roles db)" "unique_table role_key (a_roles db)" using inv by (simp_all add: auth_inv_def)
  have r: "t_get (a_roles db) i = Some r" "ro_code r = rd_code d" using Some x by (simp_all add: super_by_code [OF t])
  have "auth_inv (seed_role d db)" using moves_seed_role [of db d] inv by (simp add: moves_def)
  then have t': "table_ok (a_roles (seed_role d db))" "unique_table role_key (a_roles (seed_role d db))"
    by (simp_all add: auth_inv_def)
  have roles: "a_roles (seed_role d db) = t_put i (r\<lparr>ro_system := True, ro_status := ''ACTIVE''\<rparr>) (a_roles db)"
    using Some x by (simp add: seed_role_def)
  have a: "is_active ''ACTIVE''" by code_simp
  show ?thesis
  proof (cases "rd_code d = SUPER_ADMIN_ROLE")
    case True
    with a r show ?thesis unfolding super_active_def super_by_code [OF t'] roles by force
  next
    case False
    with assms(2) obtain k y where "t_get (a_roles db) k = Some y" "ro_code y = SUPER_ADMIN_ROLE" "is_active (ro_status y)"
      by (auto simp: super_active_def super_by_code [OF t])
    with r False show ?thesis unfolding super_active_def super_by_code [OF t'] roles
      by (intro exI [of _ k] exI [of _ y]) auto
  qed
qed

lemma seed_roles_super: "auth_inv db \<Longrightarrow> super_active db \<Longrightarrow> super_active (fold seed_role ds db)"
proof (induction ds arbitrary: db)
  case (Cons d ds)
  then have "auth_inv (seed_role d db)" using moves_seed_role [of db d] by (simp add: moves_def)
  with Cons show ?case by (simp add: seed_role_super)
qed simp

lemma seed_grants_super:
  assumes "seed_grants d rules = Inr rs"
    and "rd_code d = SUPER_ADMIN_ROLE \<or> ''*'' \<in> set (role_permission_codes rules SUPER_ADMIN_ROLE)"
  shows "''*'' \<in> set (role_permission_codes rs SUPER_ADMIN_ROLE)"
proof -
  let ?current = "set (role_permission_codes rules (rd_code d))"
  let ?desired = "?current \<union> (if rd_code d = SUPER_ADMIN_ROLE then {''*''} else compile_role_permissions (set (rd_permissions d)))"
  from assms(1) consider "?desired = ?current" "rs = rules" | "set_role_permissions (rd_code d) (sorted_list_of_set ?desired) rules = Inr rs"
    unfolding seed_grants_def Let_def by (metis sum.inject(2))
  then show ?thesis
  proof cases
    case 1
    have "rd_code d = SUPER_ADMIN_ROLE \<Longrightarrow> ''*'' \<in> ?desired" by simp
    with 1 assms(2) show ?thesis by metis
  next
    case set: 2
    show ?thesis
  proof (cases "rd_code d = SUPER_ADMIN_ROLE")
    case True
    have "finite ?desired" by simp
    then have "''*'' \<in> set (sorted_list_of_set ?desired)" by (simp only: set_sorted_list_of_set) (simp add: True)
    then have "''*'' \<in> set (stripped_codes (sorted_list_of_set ?desired))" by (rule star_stripped)
    then have "join_code (fst (split_code ''*'')) (snd (split_code ''*'')) \<in> set (role_permission_codes rs (rd_code d))"
      unfolding set_role_permissions_own [OF set] set_sort set_map by blast
    with True show ?thesis by (simp add: split_code_def join_code_def)
  next
    case False
    with assms(2) show ?thesis by (simp add: set_role_permissions_other [OF set])
  qed
  qed
qed

lemma seed_all_grants_super: "efold seed_grants ds rules = Inr rs \<Longrightarrow>
    ''*'' \<in> set (role_permission_codes rules SUPER_ADMIN_ROLE) \<Longrightarrow> ''*'' \<in> set (role_permission_codes rs SUPER_ADMIN_ROLE)"
  by (rule efold_invariant [of seed_grants ds rules rs "\<lambda>rs. ''*'' \<in> set (role_permission_codes rs SUPER_ADMIN_ROLE)"])
    (auto intro: seed_grants_super)

lemma seed_roles_frame [simp]: "a_users (fold seed_role ds db) = a_users db" "a_rules (fold seed_role ds db) = a_rules db"
  by (induction ds arbitrary: db) (auto simp: seed_role_def)

lemma roles_head: obtains d ds where "ROLE_DEFINITIONS = d # ds" and "rd_code d = SUPER_ADMIN_ROLE"
  by (simp add: ROLE_DEFINITIONS_def Let_def)

lemma seeded:
  assumes inv: "auth_inv db" and none: "requires_setup db" and start: "ensure_permission_catalog db = Inr db'"
  shows "a_users db' = a_users db" "super_active db'" "''*'' \<in> set (role_permission_codes (a_rules db') SUPER_ADMIN_ROLE)"
proof -
  obtain d ds where ds: "ROLE_DEFINITIONS = d # ds" "rd_code d = SUPER_ADMIN_ROLE" by (rule roles_head)
  let ?db = "fold seed_role ROLE_DEFINITIONS db"
  from start obtain rs where rs: "efold seed_grants ROLE_DEFINITIONS (a_rules db) = Inr rs"
    and db': "restore_protected_admin (?db\<lparr>a_rules := rs\<rparr>) = Inr db'"
    by (auto simp: ensure_permission_catalog_def Let_def ebind_Inr_iff)
  have "protected_admin (?db\<lparr>a_rules := rs\<rparr>) = None"
    using none by (simp add: protected_admin_def requires_setup_def t_first_None t_vals_def)
  with db' have db': "db' = ?db\<lparr>a_rules := rs\<rparr>" by (simp add: restore_protected_admin_def)
  then show "a_users db' = a_users db" by simp
  have "auth_inv (seed_role d db)" using moves_seed_role [of db d] inv by (simp add: moves_def)
  moreover have "super_active (seed_role d db)" by (rule seed_role_super [OF inv]) (use ds in simp)
  ultimately have "super_active ?db" unfolding ds(1) by (simp add: seed_roles_super)
  then show "super_active db'" by (simp add: db' super_active_def)
  from rs [unfolded ds(1)] obtain rs1 where "seed_grants d (a_rules db) = Inr rs1" "efold seed_grants ds rs1 = Inr rs"
    by (auto simp: ebind_Inr_iff)
  with ds show "''*'' \<in> set (role_permission_codes (a_rules db') SUPER_ADMIN_ROLE)"
    by (auto simp: db' intro: seed_all_grants_super seed_grants_super)
qed

lemma admin_account_status [simp]: "us_status (admin_account email login name protect) = ''ACTIVE''"
  by (simp add: admin_account_def)

lemma moves_setup:
  assumes "setup_initialize data c db = Inr (i, db')"
  shows "moves db db'"
  unfolding moves_def
proof
  assume inv: "auth_inv db"
  from assms obtain email username name password where none: "requires_setup db"
    and p: "provision_admin email password username name c db = Inr (i, db')"
    by (auto simp: setup_initialize_def Let_def ebind_Inr_iff)
  from p obtain db1 login db2 where start: "ensure_permission_catalog db = Inr db1"
    and row: "admin_row email login name db1 = Inr (i, db2)"
    and out: "(let db3 = db2\<lparr>a_creds := (a_creds db2)(i := Some (admin_credential c password (a_creds db2 i)))\<rparr>;
                  assigned = user_role_codes (a_rules db3) i
              in if SUPER_ADMIN_ROLE \<in> set assigned then Inr (i, db3)
                 else ebind (set_user_roles i (assigned @ [SUPER_ADMIN_ROLE]) (a_rules db3)) (\<lambda>rules.
                      Inr (i, db3\<lparr>a_rules := rules\<rparr>))) = Inr (i, db')"
    unfolding provision_admin_def ebind_Inr_iff
    by (auto simp: Let_def ebind_Inr_iff split: list.splits if_splits)
  have inv1: "auth_inv db1" and later: "auth_later db db1"
    using moves_start [OF start] inv by (simp_all add: moves_def)
  have empty: "rows (a_users db1) = []" using seeded(1) [OF inv none start] none by (simp add: requires_setup_def)
  then have "t_first P (a_users db1) = None" for P by (simp add: t_first_None t_vals_def)
  with row obtain u where db2: "db2 = db1\<lparr>a_users := t_add u (a_users db1)\<rparr>"
    and i: "i = next_id (a_users db1)" and u: "us_status u = ''ACTIVE''"
    by (auto simp: admin_row_def Let_def ebind_Inr_iff)
  have fields: "a_users db' = t_add u (a_users db1)" "a_sessions db' = a_sessions db1" "a_roles db' = a_roles db1"
    using out by (auto simp: db2 Let_def ebind_Inr_iff split: if_splits)
  have rules: "rules_ok (a_rules db') \<and> holds_role (a_rules db') i SUPER_ADMIN_ROLE
      \<and> role_permission_codes (a_rules db') SUPER_ADMIN_ROLE = role_permission_codes (a_rules db1) SUPER_ADMIN_ROLE"
  proof (cases "a_rules db' = a_rules db1")
    case True
    with out inv1 show ?thesis
      by (auto simp: db2 Let_def ebind_Inr_iff holds_codes auth_inv_def set_user_roles_holds super_stripped split: if_splits)
  next
    case False
    with out obtain codes where set: "set_user_roles i (codes @ [SUPER_ADMIN_ROLE]) (a_rules db1) = Inr (a_rules db')"
      by (auto simp: db2 Let_def ebind_Inr_iff split: if_splits)
    have "SUPER_ADMIN_ROLE \<in> set (stripped_codes (codes @ [SUPER_ADMIN_ROLE]))" by (rule super_stripped) simp
    with set inv1 show ?thesis
      by (simp add: set_user_roles_holds [OF set] set_user_roles_permissions [OF set] set_user_roles_ok [OF set] auth_inv_def)
  qed
  have "is_active ''ACTIVE''" by code_simp
  then have "active_user db' i" using inv1 by (simp add: active_user_def fields i u auth_inv_def)
  then have "governed db'"
    using rules seeded(2,3) [OF inv none start] by (auto simp: governed_def governor_def super_active_def role_by_code_def fields)
  then have "auth_inv db'" using inv1 rules by (simp add: auth_inv_def fields)
  moreover have "auth_later db1 db'" using inv1 by (auto simp: auth_later_def user_later_def fields auth_inv_def)
  ultimately show "auth_inv db' \<and> auth_later db db'" using later by (blast intro: auth_later_trans)
qed

section \<open>Every step\<close>

lemma auth_step_moves:
  assumes "auth_step db db'"
  shows "moves db db'"
  using assms
proof (cases rule: auth_step.cases)
qed (blast intro: moves_start moves_setup moves_authenticate moves_create_session moves_rotate moves_revoke_session moves_context
    moves_request_reset moves_reset_password moves_change_password moves_set_password moves_force_logout moves_create_user
    moves_update_user moves_assign_role moves_remove_role moves_delete_users moves_create_role moves_update_role
    moves_duplicate_role moves_replace moves_grant moves_withdraw moves_delete_roles)+

lemma auth_inv_init: "auth_init db \<Longrightarrow> auth_inv db"
  by (simp add: auth_init_def auth_inv_def rules_ok_def) (simp add: empty_table_def)

interpretation accounts: evolution auth_init auth_step auth_inv auth_later
proof
  show "auth_init db \<Longrightarrow> auth_inv db" for db by (rule auth_inv_init)
  show "auth_inv db \<Longrightarrow> auth_step db db' \<Longrightarrow> auth_inv db'" for db db'
    using auth_step_moves [of db db'] by (simp add: moves_def)
  show "auth_inv db \<Longrightarrow> auth_step db db' \<Longrightarrow> auth_later db db'" for db db'
    using auth_step_moves [of db db'] by (simp add: moves_def)
qed (rule auth_later_refl auth_later_trans; assumption)+

end
