(* ===== verification/FirstRun.thy ===== *)
theory FirstRun
  imports AuthOperations
begin

text \<open>
  The first-run setup of an empty database cannot fail once the email and the password are accepted:
  the permission codes are such that no two of them are stored as the same row of the policy table.
\<close>

section \<open>Writes that cannot fail\<close>

lemma distinct_map_filter: "distinct (List.map_filter f xs) \<Longrightarrow> distinct (List.map_filter f (filter P xs))"
proof (induction xs)
  case (Cons x xs)
  have "set (List.map_filter f (filter P xs)) \<subseteq> set (List.map_filter f xs)" by (auto simp: in_map_filter)
  with Cons show ?case by (auto simp: List.map_filter_simps split: option.splits)
qed simp

lemma map_filter_append: "List.map_filter f (xs @ ys) = List.map_filter f xs @ List.map_filter f ys"
  by (simp add: List.map_filter_def)

lemma set_role_permissions_succeeds:
  assumes "rules_unique rules" and codes: "\<And>c. c \<in> set codes \<Longrightarrow> storable c"
  shows "\<exists>rs. set_role_permissions k codes rules = Inr rs"
proof -
  let ?old = "filter (\<lambda>r. \<not> (ptype r = ''p'' \<and> v0 r = role_subject k)) rules"
  let ?row = "\<lambda>c. rule_row ''p'' (role_subject k) (fst (split_code c)) (snd (split_code c))"
  have "inj_on ?row (set codes)"
  proof (rule inj_onI)
    fix c d
    assume c: "c \<in> set codes" "d \<in> set codes" and "?row c = ?row d"
    then have "fst (split_code c) = fst (split_code d)" "snd (split_code c) = snd (split_code d)"
      by (metis rule_row_simps(3)) (metis \<open>?row c = ?row d\<close> rule_row_simps(4))
    with storable_split [OF codes [OF c(1)]] storable_split [OF codes [OF c(2)]] show "c = d" by metis
  qed
  then have new: "distinct (map ?row (stripped_codes codes))"
    using stored_codes [OF codes] by (simp add: distinct_map)
  have keys: "List.map_filter single_role_key (map ?row cs) = []" for cs
    by (induction cs) (simp_all add: List.map_filter_simps single_role_key_def is_assignment_def)
  have "distinct (?old @ map ?row (stripped_codes codes))"
    using assms(1) new by (auto simp: rules_unique_def)
  moreover have "distinct (List.map_filter single_role_key (?old @ map ?row (stripped_codes codes)))"
    using assms(1) by (simp add: map_filter_append keys rules_unique_def distinct_map_filter)
  ultimately show ?thesis
    by (simp add: set_role_permissions_def flush_rules_def rules_unique_def)
qed

text \<open>Rows of permissions only, with codes that can be stored again.\<close>

definition seeded_rules :: "casbin_rule list \<Rightarrow> bool" where
  "seeded_rules rules \<longleftrightarrow> rules_unique rules \<and> (\<forall>r \<in> set rules. ptype r = ''p'')
     \<and> (\<forall>k c. c \<in> set (role_permission_codes rules k) \<longrightarrow> storable c)"

lemma seeded_after_permissions:
  assumes "seeded_rules rules" and "\<And>c. c \<in> set codes \<Longrightarrow> storable c" and set: "set_role_permissions k codes rules = Inr rs"
  shows "seeded_rules rs"
proof -
  have "rules_unique rs" using set by (auto simp: set_role_permissions_def flush_rules_Inr)
  moreover have "\<forall>r \<in> set rs. ptype r = ''p''"
    using assms(1) set by (auto simp: set_role_permissions_def flush_rules_Inr seeded_rules_def)
  moreover have "storable c" if "c \<in> set (role_permission_codes rs j)" for j c
  proof (cases "j = k")
    case True
    with that set_role_permissions_codes [OF set assms(2)] show ?thesis using assms(2) by blast
  next
    case False
    with that assms(1) show ?thesis by (auto simp: set_role_permissions_other [OF set] seeded_rules_def)
  qed
  ultimately show ?thesis by (simp add: seeded_rules_def)
qed

lemma seed_grants_succeeds:
  assumes "seeded_rules rules" and "\<And>c. c \<in> set (rd_permissions d) \<Longrightarrow> plain_code c"
  shows "\<exists>rs. seed_grants d rules = Inr rs \<and> seeded_rules rs"
proof -
  let ?current = "set (role_permission_codes rules (rd_code d))"
  let ?desired = "?current \<union> (if rd_code d = SUPER_ADMIN_ROLE then {''*''} else compile_role_permissions (set (rd_permissions d)))"
  have "finite ?desired" by simp
  have codes: "storable c" if "c \<in> set (sorted_list_of_set ?desired)" for c
  proof -
    have "c \<in> ?desired" using that set_sorted_list_of_set [OF \<open>finite ?desired\<close>] by simp
    moreover have "storable x" if "x \<in> ?current" for x using assms(1) that by (auto simp: seeded_rules_def)
    ultimately show ?thesis using desired_storable [of d "role_permission_codes rules (rd_code d)" c] assms(2) by blast
  qed
  obtain rs where "set_role_permissions (rd_code d) (sorted_list_of_set ?desired) rules = Inr rs"
    using set_role_permissions_succeeds [OF _ codes, where k = "rd_code d" and rules = rules] assms(1)
    unfolding seeded_rules_def by blast
  moreover from seeded_after_permissions [OF assms(1) codes this] have "seeded_rules rs" .
  ultimately show ?thesis unfolding seed_grants_def Let_def using assms(1) by (metis (no_types, lifting))
qed

lemma seed_all_grants_succeeds:
  assumes "\<forall>d \<in> set ds. \<forall>c \<in> set (rd_permissions d). plain_code c" and "seeded_rules rules"
  shows "\<exists>rs. efold seed_grants ds rules = Inr rs \<and> seeded_rules rs"
  using assms
proof (induction ds arbitrary: rules)
  case (Cons d ds)
  then obtain rs where "seed_grants d rules = Inr rs" "seeded_rules rs"
    using seed_grants_succeeds [of rules d] by auto
  moreover have "\<exists>rs'. efold seed_grants ds rs = Inr rs' \<and> seeded_rules rs'"
    by (rule Cons.IH) (use Cons.prems(1) \<open>seeded_rules rs\<close> in \<open>simp_all\<close>)
  ultimately show ?case by simp
qed simp

lemma start_succeeds:
  assumes "auth_init db"
  shows "\<exists>db'. ensure_permission_catalog db = Inr db' \<and> a_users db' = empty_table \<and> seeded_rules (a_rules db')"
proof -
  have "seeded_rules (a_rules db)"
    using assms by (simp add: auth_init_def seeded_rules_def rules_unique_def role_permission_codes_def List.map_filter_simps)
  then obtain rs where rs: "efold seed_grants ROLE_DEFINITIONS (a_rules db) = Inr rs" "seeded_rules rs"
    using seed_all_grants_succeeds definitions_plain by blast
  have "protected_admin ((fold seed_role ROLE_DEFINITIONS db)\<lparr>a_rules := rs\<rparr>) = None"
    using assms by (simp add: protected_admin_def auth_init_def t_first_None)
  with rs assms show ?thesis
    by (simp add: ensure_permission_catalog_def Let_def restore_protected_admin_def auth_init_def)
qed

lemma first_admin_role:
  assumes "seeded_rules rules"
  shows "user_role_codes rules i = []" and "\<exists>rs. set_user_roles i [SUPER_ADMIN_ROLE] rules = Inr rs"
proof -
  have p: "\<forall>r \<in> set rules. ptype r = ''p''" using assms by (simp add: seeded_rules_def)
  have s: "stripped_codes [SUPER_ADMIN_ROLE] = [SUPER_ADMIN_ROLE]" by (simp add: stripped_codes_def)
  have k: "List.map_filter single_role_key rules = []"
    using p by (induction rules) (auto simp: List.map_filter_simps single_role_key_def is_assignment_def)
  show "user_role_codes rules i = []" using p by (auto simp: user_role_codes_def is_assignment_def filter_empty_conv)
  have f: "filter (\<lambda>r. \<not> (is_assignment r \<and> v0 r = user_subject i)) rules = rules"
    using p by (auto simp: is_assignment_def intro!: filter_True)
  have "rule_row ''g'' (user_subject i) (role_subject SUPER_ADMIN_ROLE) [] \<notin> set rules"
  proof
    assume "rule_row ''g'' (user_subject i) (role_subject SUPER_ADMIN_ROLE) [] \<in> set rules"
    with p have "ptype (rule_row ''g'' (user_subject i) (role_subject SUPER_ADMIN_ROLE) []) = ''p''" by blast
    then show False by simp
  qed
  then show "\<exists>rs. set_user_roles i [SUPER_ADMIN_ROLE] rules = Inr rs"
    unfolding set_user_roles_def f s flush_rules_def
    using assms p k by (auto simp: seeded_rules_def rules_unique_def map_filter_append List.map_filter_simps single_role_key_def)
qed

section \<open>The first administrator\<close>

text \<open>What the form of the first-run setup holds.\<close>

definition setup_email :: "payload \<Rightarrow> string" where
  "setup_email data = py_strip (py_str (py_or (dget data ''email'') (PStr [])))"

definition setup_password :: "payload \<Rightarrow> string" where
  "setup_password data = py_str (py_or (dget data ''password'') (PStr []))"

lemma setup_succeeds:
  assumes init: "auth_init db" and email: "CHR ''@'' \<in> set (setup_email data)"
    and strong: "validate_password_strength c (setup_password data) = []"
  shows "\<exists>db' u. setup_initialize data c db = Inr (1, db') \<and> rows (a_users db') = [(1, u)]
    \<and> us_email u = setup_email data \<and> us_status u = ''ACTIVE'' \<and> a_sessions db' = a_sessions db \<and> a_used db' = a_used db
    \<and> a_creds db' 1 = Some (admin_credential c (setup_password data) (a_creds db 1))"
proof -
  obtain db1 where start: "ensure_permission_catalog db = Inr db1" and none: "a_users db1 = empty_table"
    and sr: "seeded_rules (a_rules db1)"
    using start_succeeds [OF init] by blast
  have creds: "a_creds db1 = a_creds db \<and> a_sessions db1 = a_sessions db \<and> a_used db1 = a_used db"
  proof -
    have "a_creds (fold seed_role ds x) = a_creds x \<and> a_sessions (fold seed_role ds x) = a_sessions x
        \<and> a_used (fold seed_role ds x) = a_used x" for ds x
      by (induction ds arbitrary: x) (auto simp: seed_role_def)
    moreover have "restore_protected_admin x = Inr y \<Longrightarrow> a_creds y = a_creds x \<and> a_sessions y = a_sessions x \<and> a_used y = a_used x" for x y
      by (auto simp: restore_protected_admin_def Let_def ebind_Inr_iff split: option.splits if_splits)
    ultimately show ?thesis using start by (force simp: ensure_permission_catalog_def Let_def ebind_Inr_iff)
  qed
  have inv: "auth_inv db" by (rule auth_inv_init [OF init])
  have vacant: "requires_setup db" using init by (simp add: requires_setup_def auth_init_def empty_table_def)
  obtain k r where super: "role_by_code SUPER_ADMIN_ROLE db1 = Some (k, r)"
    using seeded(2) [OF inv vacant start] by (auto simp: super_active_def)
  have new: "next_id (a_users db1) = 1" "rows (a_users db1) = []" by (simp_all add: none empty_table_def)
  then have first: "t_first P (a_users db1) = None" for P by (simp add: t_first_None t_vals_def)
  obtain login name where p: "setup_initialize data c db = provision_admin (setup_email data) (setup_password data) login name c db"
    using email strong vacant by (auto simp: setup_initialize_def setup_email_def setup_password_def Let_def)
  define user where "user = (case login of Some n \<Rightarrow> n | None \<Rightarrow> takeWhile (\<lambda>ch. ch \<noteq> CHR ''@'') (setup_email data))"
  define u where "u = admin_account (setup_email data) user name (protected_admin db1 = None)"
  have row: "admin_row (setup_email data) user name db1 = Inr (1, db1\<lparr>a_users := t_add u (a_users db1)\<rparr>)"
    by (simp add: admin_row_def Let_def first new u_def unique_among_def check_unique_def split: option.splits)
  obtain rs where rs: "set_user_roles 1 [SUPER_ADMIN_ROLE] (a_rules db1) = Inr rs" using first_admin_role(2) [OF sr] by blast
  let ?db = "db1\<lparr>a_users := t_add u (a_users db1), a_creds := (a_creds db1)(1 := Some (admin_credential c (setup_password data) (a_creds db1 1))),
    a_rules := rs\<rparr>"
  have "setup_initialize data c db = Inr (1, ?db)"
    unfolding p provision_admin_def
    using strong start super row rs first_admin_role(1) [OF sr] by (simp add: user_def [symmetric])
  moreover have "rows (a_users ?db) = [(1, u)]" by (simp add: t_add_def new)
  ultimately show ?thesis by (auto simp: u_def creds admin_account_def)
qed

end
