(* ===== verification/AccessControl.thy ===== *)
theory AccessControl
  imports AuthOperations
begin

text \<open>
  What the authorization engine promises: role-based access control. The abstract state knows the
  roles of a user, the codes of a role and the roles that are open; a user may do what an open role of
  theirs grants. The policy table, its loading and the matcher implement it.
\<close>

section \<open>The specification\<close>

record rbac =
  rb_roles :: "int \<Rightarrow> string set"
  rb_codes :: "string \<Rightarrow> string set"
  rb_open :: "string set"

definition allows :: "rbac \<Rightarrow> int \<Rightarrow> string \<Rightarrow> bool" where
  "allows m i c \<longleftrightarrow> (\<exists>k \<in> rb_roles m i. k \<in> rb_open m \<and> (c \<in> rb_codes m k \<or> ''*'' \<in> rb_codes m k))"

definition rbac_of :: "adb \<Rightarrow> rbac" where
  "rbac_of db = \<lparr>rb_roles = (\<lambda>i. {k. holds_role (a_rules db) i k}),
     rb_codes = (\<lambda>k. set (role_permission_codes (a_rules db) k)),
     rb_open = {k. role_statuses db k = Some ''ACTIVE''}\<rparr>"

definition assign_roles :: "int \<Rightarrow> string set \<Rightarrow> rbac \<Rightarrow> rbac" where
  "assign_roles i ks m = m\<lparr>rb_roles := (rb_roles m)(i := ks)\<rparr>"

definition give_codes :: "string \<Rightarrow> string set \<Rightarrow> rbac \<Rightarrow> rbac" where
  "give_codes k cs m = m\<lparr>rb_codes := (rb_codes m)(k := cs)\<rparr>"

section \<open>Loading\<close>

lemma role_subject_not_empty [simp]: "role_subject k \<noteq> []" "user_subject i \<noteq> []"
  by (simp_all add: role_subject_def user_subject_def)

lemma star_split [simp]: "split_code ''*'' = (''*'', ''*'')"
  by (simp add: split_code_def)

lemma load_role_row:
  "load_rule st (role_row i k) = (if st k = Some ''ACTIVE'' then Some (Assign (user_subject i) (role_subject k)) else None)"
  by (simp add: load_rule_def role_row_def rule_row_def pop_blanks_def subject_active_def)

lemma load_grant_row:
  assumes "storable c"
  shows "load_rule st (grant_row k c)
    = (if st k = Some ''ACTIVE'' then Some (Grant (role_subject k) (fst (split_code c)) (snd (split_code c))) else None)"
proof -
  have "fst (split_code c) \<noteq> []" "snd (split_code c) \<noteq> []"
    using assms plain_split(1,2) by (auto simp: storable_def)
  then show ?thesis
    by (simp add: load_rule_def grant_row_def rule_row_def pop_blanks_def subject_active_def)
qed

lemma loaded_assignments:
  assumes "rules_ok (a_rules db)"
  shows "Assign u s \<in> set (loaded_policies db)
    \<longleftrightarrow> (\<exists>i k. u = user_subject i \<and> s = role_subject k \<and> holds_role (a_rules db) i k \<and> role_statuses db k = Some ''ACTIVE'')"
proof
  assume "Assign u s \<in> set (loaded_policies db)"
  then obtain r where r: "r \<in> set (a_rules db)" "load_rule (role_statuses db) r = Some (Assign u s)"
    by (auto simp: loaded_policies_def load_rows_def in_map_filter)
  with assms have "rule_ok r" by (simp add: rules_ok_def)
  then show "\<exists>i k. u = user_subject i \<and> s = role_subject k \<and> holds_role (a_rules db) i k \<and> role_statuses db k = Some ''ACTIVE''"
    using r by (auto simp: rule_ok_def load_role_row load_grant_row holds_role_row [OF assms] split: if_splits)
next
  assume "\<exists>i k. u = user_subject i \<and> s = role_subject k \<and> holds_role (a_rules db) i k \<and> role_statuses db k = Some ''ACTIVE''"
  then obtain i k where *: "u = user_subject i" "s = role_subject k" "role_row i k \<in> set (a_rules db)" "role_statuses db k = Some ''ACTIVE''"
    by (auto simp: holds_role_row [OF assms])
  then have "load_rule (role_statuses db) (role_row i k) = Some (Assign u s)" by (simp add: load_role_row)
  with *(3) show "Assign u s \<in> set (loaded_policies db)" by (auto simp: loaded_policies_def load_rows_def in_map_filter)
qed

lemma loaded_grants:
  assumes "rules_ok (a_rules db)"
  shows "Grant s p a \<in> set (loaded_policies db)
    \<longleftrightarrow> (\<exists>k c. s = role_subject k \<and> (p, a) = split_code c \<and> c \<in> set (role_permission_codes (a_rules db) k)
          \<and> role_statuses db k = Some ''ACTIVE'')"
proof
  assume "Grant s p a \<in> set (loaded_policies db)"
  then obtain r where r: "r \<in> set (a_rules db)" "load_rule (role_statuses db) r = Some (Grant s p a)"
    by (auto simp: loaded_policies_def load_rows_def in_map_filter)
  with assms have "rule_ok r" by (simp add: rules_ok_def)
  with r obtain k c where "r = grant_row k c" "storable c" by (auto simp: rule_ok_def load_role_row split: if_splits)
  with r show "\<exists>k c. s = role_subject k \<and> (p, a) = split_code c \<and> c \<in> set (role_permission_codes (a_rules db) k)
      \<and> role_statuses db k = Some ''ACTIVE''"
    by (intro exI [of _ k] exI [of _ c]) (auto simp: load_grant_row role_permission_iff [OF assms] split: if_splits)
next
  assume "\<exists>k c. s = role_subject k \<and> (p, a) = split_code c \<and> c \<in> set (role_permission_codes (a_rules db) k)
      \<and> role_statuses db k = Some ''ACTIVE''"
  then obtain k c where *: "s = role_subject k" "(p, a) = split_code c" "storable c" "grant_row k c \<in> set (a_rules db)"
      "role_statuses db k = Some ''ACTIVE''"
    by (auto simp: role_permission_iff [OF assms])
  then have "load_rule (role_statuses db) (grant_row k c) = Some (Grant s p a)"
    by (simp add: load_grant_row) (metis fst_conv snd_conv)
  with *(4) show "Grant s p a \<in> set (loaded_policies db)" by (auto simp: loaded_policies_def load_rows_def in_map_filter)
qed

text \<open>No assignment starts at a role, so a user has exactly the roles assigned to them.\<close>

lemma links_iff: "(u, s) \<in> set (links ls) \<longleftrightarrow> Assign u s \<in> set ls"
proof -
  have "(u, s) \<in> set (links ls) \<longleftrightarrow> (\<exists>l \<in> set ls. (case l of Assign u r \<Rightarrow> Some (u, r) | Grant _ _ _ \<Rightarrow> None) = Some (u, s))"
    by (simp add: links_def in_map_filter)
  also have "\<dots> \<longleftrightarrow> (\<exists>l \<in> set ls. l = Assign u s)" by (rule bex_cong [OF refl]) (simp split: policy_line.splits)
  finally show ?thesis by blast
qed

lemma loaded_link:
  assumes "rules_ok (a_rules db)"
  shows "(user_subject i, role_subject k) \<in> (set (links (loaded_policies db)))\<^sup>*
    \<longleftrightarrow> holds_role (a_rules db) i k \<and> role_statuses db k = Some ''ACTIVE''"
proof
  assume "(user_subject i, role_subject k) \<in> (set (links (loaded_policies db)))\<^sup>*"
  then show "holds_role (a_rules db) i k \<and> role_statuses db k = Some ''ACTIVE''"
  proof (cases rule: rtranclE)
    case (step y)
    then obtain j where y: "y = user_subject j" by (auto simp: links_iff loaded_assignments [OF assms])
    have "y = user_subject i"
    proof (rule ccontr)
      assume "y \<noteq> user_subject i"
      with step(1) obtain x where "(x, y) \<in> set (links (loaded_policies db))" by (metis rtranclE)
      with y show False by (auto simp: links_iff loaded_assignments [OF assms])
    qed
    with step(2) show ?thesis by (auto simp: links_iff loaded_assignments [OF assms])
  qed simp
qed (auto simp: links_iff loaded_assignments [OF assms] intro!: r_into_rtrancl)

section \<open>The engine implements it\<close>

lemma engine_allows:
  assumes rules: "rules_ok (a_rules db)" and cs: "casbin_ok cs" and copy: "en_copy en = Some (loaded_policies db)"
  shows "can cs en i code \<longleftrightarrow>
    (\<exists>k c. holds_role (a_rules db) i k \<and> role_statuses db k = Some ''ACTIVE'' \<and> c \<in> set (role_permission_codes (a_rules db) k)
      \<and> (fst (split_code c) = ''*'' \<or> fst (split_code code) = fst (split_code c))
      \<and> (snd (split_code c) = ''*'' \<or> snd (split_code code) = snd (split_code c)))"
proof -
  have link: "has_link cs (links (loaded_policies db)) (user_subject i) (role_subject k)
      \<longleftrightarrow> holds_role (a_rules db) i k \<and> role_statuses db k = Some ''ACTIVE''" for k
    using cs loaded_link [OF rules] by (simp add: casbin_ok_def)
  have implicit: "(s, p, a) \<in> set (implicit_permissions cs ls u) \<longleftrightarrow> Grant s p a \<in> set ls \<and> has_link cs (links ls) u s" for s p a ls u
    using cs by (simp add: casbin_ok_def)
  have "can cs en i code \<longleftrightarrow> (\<exists>s p a. Grant s p a \<in> set (loaded_policies db)
      \<and> has_link cs (links (loaded_policies db)) (user_subject i) s
      \<and> (p = ''*'' \<or> fst (split_code code) = p) \<and> (a = ''*'' \<or> snd (split_code code) = a))"
    by (simp add: can_def copy case_prod_unfold Let_def enforce_iff [OF cs] implicit conj_assoc)
  also have "\<dots> \<longleftrightarrow> (\<exists>k c. holds_role (a_rules db) i k \<and> role_statuses db k = Some ''ACTIVE'' \<and> c \<in> set (role_permission_codes (a_rules db) k)
      \<and> (fst (split_code c) = ''*'' \<or> fst (split_code code) = fst (split_code c))
      \<and> (snd (split_code c) = ''*'' \<or> snd (split_code code) = snd (split_code c)))"
    unfolding loaded_grants [OF rules]
  proof (intro iffI; elim exE conjE)
    fix s p a k c
    assume s: "s = role_subject k" and pa: "(p, a) = split_code c" and *: "c \<in> set (role_permission_codes (a_rules db) k)"
      "has_link cs (links (loaded_policies db)) (user_subject i) s"
      "p = ''*'' \<or> fst (split_code code) = p" "a = ''*'' \<or> snd (split_code code) = a"
    then show "\<exists>k c. holds_role (a_rules db) i k \<and> role_statuses db k = Some ''ACTIVE'' \<and> c \<in> set (role_permission_codes (a_rules db) k)
      \<and> (fst (split_code c) = ''*'' \<or> fst (split_code code) = fst (split_code c))
      \<and> (snd (split_code c) = ''*'' \<or> snd (split_code code) = snd (split_code c))"
    proof -
      have "fst (split_code c) = p" "snd (split_code c) = a" by (simp_all flip: pa)
      with * link [of k] s show ?thesis by (intro exI [of _ k] exI [of _ c]) simp
    qed
  next
    fix k c
    assume *: "holds_role (a_rules db) i k" "role_statuses db k = Some ''ACTIVE''" "c \<in> set (role_permission_codes (a_rules db) k)"
      "fst (split_code c) = ''*'' \<or> fst (split_code code) = fst (split_code c)"
      "snd (split_code c) = ''*'' \<or> snd (split_code code) = snd (split_code c)"
    then show "\<exists>s p a. (\<exists>k c. s = role_subject k \<and> (p, a) = split_code c \<and> c \<in> set (role_permission_codes (a_rules db) k)
          \<and> role_statuses db k = Some ''ACTIVE'')
      \<and> has_link cs (links (loaded_policies db)) (user_subject i) s
      \<and> (p = ''*'' \<or> fst (split_code code) = p) \<and> (a = ''*'' \<or> snd (split_code code) = a)"
      using link [of k]
      by (intro exI [of _ "role_subject k"] exI [of _ "fst (split_code c)"] exI [of _ "snd (split_code c)"] conjI exI [of _ k] exI [of _ c])
        simp_all
  qed
  finally show ?thesis .
qed

lemma engine_refines:
  assumes rules: "rules_ok (a_rules db)" and cs: "casbin_ok cs" and copy: "en_copy en = Some (loaded_policies db)"
    and dot: "CHR ''.'' \<in> set code"
  shows "can cs en i code \<longleftrightarrow> allows (rbac_of db) i code"
proof -
  have match: "(fst (split_code c) = ''*'' \<or> fst (split_code code) = fst (split_code c))
      \<and> (snd (split_code c) = ''*'' \<or> snd (split_code code) = snd (split_code c)) \<longleftrightarrow> c = code \<or> c = ''*''" if "storable c" for c
  proof (cases "c = ''*''")
    case False
    with that have c: "plain_code c" by (simp add: storable_def)
    obtain a b where code: "code = dotted a b" "CHR ''.'' \<notin> set b" using dot by (rule rpartition_dot_Some)
    then have s: "split_code code = (a, b)" by (simp add: split_dotted)
    show ?thesis
    proof
      assume "(fst (split_code c) = ''*'' \<or> fst (split_code code) = fst (split_code c))
        \<and> (snd (split_code c) = ''*'' \<or> snd (split_code code) = snd (split_code c))"
      with plain_split(3,4) [OF c] s have "fst (split_code c) = a" "snd (split_code c) = b" by auto
      with plain_split(6) [OF c] code show "c = code \<or> c = ''*''" by simp
    qed (use False in auto)
  qed simp
  show ?thesis
    unfolding engine_allows [OF assms(1-3)] allows_def rbac_of_def
    using match by (auto simp: role_permission_iff [OF rules]; blast)
qed

lemma governor_can:
  assumes inv: "auth_inv db" and gov: "governed db" and cs: "casbin_ok cs" and copy: "en_copy en = Some (loaded_policies db)"
  shows "\<exists>i. active_user db i \<and> (\<forall>code. can cs en i code)"
proof -
  have rules: "rules_ok (a_rules db)" using inv by (simp add: auth_inv_def)
  from gov obtain i k r where i: "governor db i" and star: "''*'' \<in> set (role_permission_codes (a_rules db) SUPER_ADMIN_ROLE)"
    and r: "role_by_code SUPER_ADMIN_ROLE db = Some (k, r)" "is_active (ro_status r)"
    by (auto simp: governed_def)
  have "role_statuses db SUPER_ADMIN_ROLE = Some ''ACTIVE''"
    using r by (simp add: role_statuses_def role_by_code_def is_active_def)
  then have "can cs en i code" for code
    using i star unfolding engine_allows [OF rules cs copy] governor_def
    by (intro exI [of _ SUPER_ADMIN_ROLE] exI [of _ "''*''"]) simp
  with i show ?thesis by (auto simp: governor_def)
qed

section \<open>Writes\<close>

lemma rbac_set_user_roles:
  assumes "set_user_roles i codes (a_rules db) = Inr rs"
  shows "rbac_of (db\<lparr>a_rules := rs\<rparr>) = assign_roles i (set (stripped_codes codes)) (rbac_of db)"
  by (auto simp: rbac_of_def assign_roles_def role_statuses_def fun_eq_iff set_user_roles_holds [OF assms]
      set_user_roles_permissions [OF assms])

lemma rbac_set_role_permissions:
  assumes "set_role_permissions k codes (a_rules db) = Inr rs" and "\<And>c. c \<in> set codes \<Longrightarrow> storable c"
  shows "rbac_of (db\<lparr>a_rules := rs\<rparr>) = give_codes k (set codes) (rbac_of db)"
  using set_role_permissions_codes [OF assms] set_role_permissions_other [OF assms(1)]
  by (auto simp: rbac_of_def give_codes_def role_statuses_def fun_eq_iff set_role_permissions_holds [OF assms(1)])

end
