(* ===== verification/AuthProperties.thy ===== *)
theory AuthProperties
  imports FirstRun AccessControl
begin

text \<open>
  The properties of accounts, sessions and permissions (C27 on), each with a witness. The witnesses
  start from the database that the first-run setup makes of an empty one.
\<close>

section \<open>A database to start from\<close>

definition plain_crypto :: crypto where
  "plain_crypto = \<lparr>hash_password = (\<lambda>p. ''h'' @ p), verify_password = (\<lambda>p h. h = ''h'' @ p), hash_token = (\<lambda>t. ''t'' @ t)\<rparr>"

text \<open>A Casbin that does what its documentation promises.\<close>

definition closure_casbin :: casbin where
  "closure_casbin = \<lparr>has_link = (\<lambda>es a b. (a, b) \<in> (set es)\<^sup>*),
     implicit_permissions = (\<lambda>ls u. List.map_filter (\<lambda>l. case l of
         Grant s p a \<Rightarrow> if (u, s) \<in> (set (links ls))\<^sup>* then Some (s, p, a) else None
       | Assign _ _ \<Rightarrow> None) ls)\<rparr>"

lemma closure_casbin_ok: "casbin_ok closure_casbin"
proof -
  have "(s, p, a) \<in> set (implicit_permissions closure_casbin ls u) \<longleftrightarrow> Grant s p a \<in> set ls \<and> (u, s) \<in> (set (links ls))\<^sup>*" for s p a ls u
  proof
    assume "(s, p, a) \<in> set (implicit_permissions closure_casbin ls u)"
    then obtain l where l: "l \<in> set ls" "(case l of Grant s p a \<Rightarrow> if (u, s) \<in> (set (links ls))\<^sup>* then Some (s, p, a) else None
         | Assign _ _ \<Rightarrow> None) = Some (s, p, a)"
      by (auto simp: closure_casbin_def in_map_filter)
    show "Grant s p a \<in> set ls \<and> (u, s) \<in> (set (links ls))\<^sup>*"
    proof (cases l)
      case (Grant x y z)
      with l show ?thesis by (auto split: if_splits)
    next
      case (Assign x y)
      with l show ?thesis by simp
    qed
  next
    assume "Grant s p a \<in> set ls \<and> (u, s) \<in> (set (links ls))\<^sup>*"
    then show "(s, p, a) \<in> set (implicit_permissions closure_casbin ls u)"
      by (auto simp: closure_casbin_def in_map_filter intro!: bexI [of _ "Grant s p a"])
  qed
  then have "set (implicit_permissions closure_casbin ls u) = {(s, p, a). Grant s p a \<in> set ls \<and> (u, s) \<in> (set (links ls))\<^sup>*}" for ls u
    by auto
  then show ?thesis by (simp add: casbin_ok_def) (simp add: closure_casbin_def)
qed

text \<open>One that does not follow chains, for the requests of the examples.\<close>

definition flat_casbin :: casbin where
  "flat_casbin = \<lparr>has_link = (\<lambda>es a b. a = b \<or> List.member es (a, b)), implicit_permissions = (\<lambda>ls u. [])\<rparr>"

definition demo_call :: auth_call where
  "demo_call = \<lparr>ac_now = 0, ac_fresh = ''r0'', ac_crypto = plain_crypto, ac_casbin = flat_casbin,
     ac_engine = \<lparr>en_copy = None, en_version = None, en_loaded_at = 0\<rparr>, ac_security = [], ac_system = [],
     ac_min_length = 8, ac_max_length = 128, ac_idle_minutes = 30, ac_absolute_minutes = 600, ac_token_minutes = 10\<rparr>"

definition demo_form :: payload where
  "demo_form = [(''email'', PStr ''a@b.c''), (''password'', PStr ''Str0ng!pass'')]"

definition empty_db :: adb where
  "empty_db = \<lparr>a_users = empty_table, a_creds = (\<lambda>_. None), a_sessions = empty_table, a_used = (\<lambda>_. None),
     a_roles = empty_table, a_rules = [], a_resets = empty_table\<rparr>"

lemma demo_form_accepted:
  "CHR ''@'' \<in> set (setup_email demo_form)" "validate_password_strength demo_call (setup_password demo_form) = []"
  "setup_email demo_form = ''a@b.c''" "setup_password demo_form = ''Str0ng!pass''"
  by code_simp+

lemma empty_db_init: "auth_init empty_db"
  by (simp add: auth_init_def empty_db_def)

lemma demo_db:
  obtains db u where "reach auth_init auth_step db" "rows (a_users db) = [(1, u)]" "us_email u = ''a@b.c''" "us_status u = ''ACTIVE''"
    "a_creds db 1 = Some (new_credential demo_call ''Str0ng!pass'')" "a_sessions db = empty_table" "a_used db = (\<lambda>_. None)"
    "setup_initialize demo_form demo_call empty_db = Inr (1, db)"
proof -
  from setup_succeeds [OF empty_db_init demo_form_accepted(1,2)] obtain db u where
    s: "setup_initialize demo_form demo_call empty_db = Inr (1, db)" and u: "rows (a_users db) = [(1, u)]"
      "us_email u = ''a@b.c''" "us_status u = ''ACTIVE''" "a_creds db 1 = Some (new_credential demo_call ''Str0ng!pass'')"
      "a_sessions db = empty_table" "a_used db = (\<lambda>_. None)"
    unfolding demo_form_accepted(3,4) by (auto simp: admin_credential_def empty_db_def)
  have "reach auth_init auth_step db"
    using empty_db_init s by (blast intro: reach.intros as_setup)
  with u s that show ?thesis by blast
qed

text \<open>Its administrator, signed in; the request their browser sends.\<close>

definition demo_session :: user_session where
  "demo_session = \<lparr>se_user = 1, se_refresh = ''tr0'', se_created = 0, se_last_used = None, se_last_activity = Some 0,
     se_expires = minutes 600, se_revoked = None, se_remember = False\<rparr>"

definition demo_claims :: "int \<Rightarrow> claims" where
  "demo_claims v = \<lparr>cl_type = ''access'', cl_sub = 1, cl_version = v, cl_session = Some 1, cl_change = False, cl_expires = minutes 10\<rparr>"

definition demo_request :: "int \<Rightarrow> http_request" where
  "demo_request v = \<lparr>ht_path = ''/api/v1/users'', ht_method = ''GET'', ht_token = Token (demo_claims v), ht_expected_user = None,
     ht_activity = False\<rparr>"

lemma demo_policy: "ap_absolute (get_access_policy demo_call) = 600" "ap_idle (get_access_policy demo_call) = 30"
  "is_active ''ACTIVE''" "hash_token (ac_crypto demo_call) ''r0'' = ''tr0''" "ac_now demo_call = 0" "ac_fresh demo_call = ''r0''"
  by code_simp+

lemma identify_demo:
  assumes "t_get (a_sessions db) 1 = Some demo_session" and "t_get (a_users db) 1 = Some u" and "us_status u = ''ACTIVE''"
  shows "identify demo_call (demo_request (us_token_version u)) db = Inr (demo_claims (us_token_version u), 1, demo_session)"
  using assms
  by (simp add: identify_def demo_request_def demo_claims_def demo_session_def demo_policy validate_session_def Let_def minutes_def
      refuse_until_password_changed_def)

lemma demo_signed_in:
  obtains db u ans where "reach auth_init auth_step db" "t_get (a_users db) 1 = Some u" "rows (a_sessions db) = [(1, demo_session)]"
    "next_id (a_sessions db) = 2" "us_status u = ''ACTIVE''" "a_used db = (\<lambda>_. None)"
    "a_creds db 1 = Some (new_credential demo_call ''Str0ng!pass'')"
    "identify demo_call (demo_request (us_token_version u)) db = Inr (demo_claims (us_token_version u), 1, demo_session)"
proof -
  obtain db u where db: "reach auth_init auth_step db" "rows (a_users db) = [(1, u)]" "us_status u = ''ACTIVE''"
      "a_sessions db = empty_table" "a_used db = (\<lambda>_. None)" "a_creds db 1 = Some (new_credential demo_call ''Str0ng!pass'')"
    by (rule demo_db) blast
  have get: "t_get (a_users db) 1 = Some u" by (simp add: t_get_def db)
  let ?db = "db\<lparr>a_sessions := t_add demo_session empty_table, a_users := t_put 1 (u\<lparr>us_last_login := Some 0\<rparr>) (a_users db)\<rparr>"
  obtain ans where open_: "create_session 1 False demo_call db = Inr (ans, ?db)"
    by (simp add: create_session_def get Let_def demo_policy db check_unique_def unique_among_def refresh_key_def empty_table_def demo_session_def minutes_def)
  have r: "reach auth_init auth_step ?db" by (rule reach_step [OF db(1)]) (rule as_open [OF open_])
  have rows: "rows (a_sessions ?db) = [(1, demo_session)]" by (simp add: t_add_def empty_table_def)
  have sget: "t_get (a_sessions ?db) 1 = Some demo_session" by (simp add: t_get_def t_add_def empty_table_def)
  have uget: "t_get (a_users ?db) 1 = Some (u\<lparr>us_last_login := Some 0\<rparr>)" using get by simp
  have "identify demo_call (demo_request (us_token_version u)) ?db = Inr (demo_claims (us_token_version u), 1, demo_session)"
    using identify_demo [OF sget uget] db(3) by simp
  then show ?thesis
    using that [of ?db "u\<lparr>us_last_login := Some 0\<rparr>"] r rows get db by (simp add: t_add_def empty_table_def)
qed

section \<open>Somebody can always administer\<close>

text \<open>C27. In every reachable database with an account, an active account can do everything: no sequence of
  administration, deletion, deactivation or restart locks everybody out.\<close>

theorem someone_governs:
  assumes "reach auth_init auth_step db" and "rows (a_users db) \<noteq> []"
    and "casbin_ok cs" and "en_copy en = Some (loaded_policies db)"
  shows "\<exists>i. active_user db i \<and> (\<forall>code. can cs en i code)"
proof -
  have "auth_inv db" using assms(1) by (rule accounts.always)
  then show ?thesis using assms(2-4) by (intro governor_can) (simp_all add: auth_inv_def)
qed

theorem someone_governs_witness:
  "\<exists>db. reach auth_init auth_step db \<and> rows (a_users db) \<noteq> []
     \<and> (\<exists>i. active_user db i \<and> (\<forall>code. can closure_casbin \<lparr>en_copy = Some (loaded_policies db), en_version = None, en_loaded_at = 0\<rparr> i code))"
proof -
  obtain db u where db: "reach auth_init auth_step db" "rows (a_users db) = [(1, u)]" by (rule demo_db)
  let ?en = "\<lparr>en_copy = Some (loaded_policies db), en_version = None, en_loaded_at = 0\<rparr>"
  have "\<exists>i. active_user db i \<and> (\<forall>code. can closure_casbin ?en i code)"
    by (rule someone_governs [OF db(1) _ closure_casbin_ok]) (simp_all add: db(2))
  with db show ?thesis by auto
qed

text \<open>C28. The first-run setup of an empty database succeeds for every email with an at sign and every
  password the policy accepts, and its administrator can sign in with them.\<close>

theorem setup_opens_system:
  assumes init: "auth_init db" and email: "CHR ''@'' \<in> set (setup_email data)"
    and strong: "validate_password_strength c (setup_password data) = []"
    and hash: "verify_password (ac_crypto c) (setup_password data) (hash_password (ac_crypto c) (setup_password data))"
  shows "\<exists>i db'. setup_initialize data c db = Inr (i, db') \<and> reach auth_init auth_step db'
    \<and> fst (authenticate (setup_email data) (setup_password data) c db') = Inr i"
proof -
  from setup_succeeds [OF init email strong] obtain db' u where s: "setup_initialize data c db = Inr (1, db')"
    and u: "rows (a_users db') = [(1, u)]" "us_email u = setup_email data" "us_status u = ''ACTIVE''"
    and k: "a_creds db' 1 = Some (new_credential c (setup_password data))"
    using init by (auto simp: admin_credential_def auth_init_def)
  have "user_by_login (setup_email data) db' = Some (1, u)"
    by (simp add: user_by_login_def t_first_def t_where_def u)
  moreover have "is_active ''ACTIVE''" by code_simp
  ultimately have "fst (authenticate (setup_email data) (setup_password data) c db') = Inr 1"
    using hash by (simp add: authenticate_def k locked_def new_credential_def u Let_def)
  moreover have "reach auth_init auth_step db'" using init s by (blast intro: reach.intros as_setup)
  ultimately show ?thesis using s by blast
qed

theorem setup_opens_system_witness:
  "\<exists>i db'. setup_initialize demo_form demo_call empty_db = Inr (i, db') \<and> reach auth_init auth_step db'
    \<and> fst (authenticate (setup_email demo_form) (setup_password demo_form) demo_call db') = Inr i"
  by (rule setup_opens_system [OF empty_db_init demo_form_accepted(1,2)]) (simp add: demo_call_def plain_crypto_def)

section \<open>Access ends and stays ended\<close>

text \<open>Whatever a token was issued for, it is refused once its version is behind or its session revoked.\<close>

lemma outdated_refused:
  assumes "reach auth_init auth_step db" and run: "run auth_step db db'" and "ht_token q = Token t"
    and behind: "\<And>u. t_get (a_users db) (cl_sub t) = Some u \<Longrightarrow> cl_version t < us_token_version u"
    and known: "cl_sub t < next_id (a_users db)"
  shows "identify c q db' \<noteq> Inr r"
proof
  assume "identify c q db' = Inr r"
  moreover obtain t' sid s where "r = (t', sid, s)" by (metis prod.exhaust)
  ultimately obtain u' where u': "t_get (a_users db') (cl_sub t) = Some u'" "cl_version t = us_token_version u'"
    using assms(3) by (auto dest!: identify_Inr)
  have "auth_later db db'" using assms(1) run by (rule accounts.reach_later)
  with u'(1) known obtain u where "t_get (a_users db) (cl_sub t) = Some u" "us_token_version u \<le> us_token_version u'"
    by (auto simp: auth_later_def user_later_def)
  with behind u'(2) show False by fastforce
qed

definition ends_access :: "int \<Rightarrow> auth_call \<Rightarrow> adb \<Rightarrow> adb \<Rightarrow> bool" where
  "ends_access i c db db' \<longleftrightarrow> force_logout_user i c db = Inr ((), db')
     \<or> (\<exists>old new. change_password i old new c db = Inr ((), db'))
     \<or> (\<exists>x password must. set_user_password x i password must c db = Inr (i, db') \<and> active_user db (at_user x))"

lemma version_after_revoke:
  assumes "t_get (a_users db) i = Some u"
  shows "t_get (a_users (revoke_all_sessions c i db)) i = Some (u\<lparr>us_token_version := us_token_version u + 1\<rparr>)"
  using assms by (simp add: revoke_all_sessions_def)

lemma ends_access_version:
  assumes "ends_access i c db db'" and "t_get (a_users db) i = Some u"
  shows "t_get (a_users db') i = Some (u\<lparr>us_token_version := us_token_version u + 1\<rparr>)"
proof -
  have e: "a_users (expire_resets c i x) = a_users x" for x by (simp add: expire_resets_def)
  show ?thesis
    using assms version_after_revoke [of "db\<lparr>a_creds := f\<rparr>" i u c for f]  version_after_revoke [OF assms(2)]
    by (auto simp: ends_access_def force_logout_user_def change_password_def set_user_password_def auth_required_def Let_def ebind_Inr_iff e
        split: option.splits if_splits)
qed

lemma ends_access_step: "ends_access i c db db' \<Longrightarrow> auth_step db db'"
  by (auto simp: ends_access_def intro: as_force_logout as_change_password as_set_password)

text \<open>C29. After a password change, an administrator's password reset or a forced logout of an account, no
  token it was using is accepted again, whatever happens in between.\<close>

theorem ended_access_stays_ended:
  assumes "reach auth_init auth_step db" and "identify c0 q db = Inr (t, sid, s)" and "ends_access (cl_sub t) c db db1"
    and "run auth_step db1 db'"
  shows "\<exists>e. identify c' q db' = Inl e"
proof -
  from identify_Inr [OF assms(2)] obtain u where u: "t_get (a_users db) (cl_sub t) = Some u" "cl_version t = us_token_version u"
    and q: "ht_token q = Token t" by blast
  have r1: "reach auth_init auth_step db1" using assms(1) ends_access_step [OF assms(3)] by (rule reach.intros)
  have t: "table_ok (a_users db1)" using accounts.always [OF r1] by (simp add: auth_inv_def)
  have v: "t_get (a_users db1) (cl_sub t) = Some (u\<lparr>us_token_version := us_token_version u + 1\<rparr>)"
    by (rule ends_access_version [OF assms(3) u(1)])
  have "identify c' q db' \<noteq> Inr r" for r
    by (rule outdated_refused [OF r1 assms(4) q]) (use v u(2) t_get_below [OF t v] in simp_all)
  then show ?thesis by (cases "identify c' q db'") auto
qed

theorem ended_access_stays_ended_witness:
  "\<exists>db db1 q t sid s. reach auth_init auth_step db \<and> identify demo_call q db = Inr (t, sid, s)
     \<and> ends_access (cl_sub t) demo_call db db1 \<and> (\<exists>e. identify demo_call q db1 = Inl e)"
proof -
  obtain db u where db: "reach auth_init auth_step db" "t_get (a_users db) 1 = Some u"
    "identify demo_call (demo_request (us_token_version u)) db = Inr (demo_claims (us_token_version u), 1, demo_session)"
    by (rule demo_signed_in)
  have e: "ends_access (cl_sub (demo_claims (us_token_version u))) demo_call db (revoke_all_sessions demo_call 1 db)"
    using db(2) by (simp add: ends_access_def demo_claims_def force_logout_user_def)
  have "\<exists>e. identify demo_call (demo_request (us_token_version u)) (revoke_all_sessions demo_call 1 db) = Inl e"
    by (rule ended_access_stays_ended [OF db(1,3) e run_refl])
  with db e show ?thesis by blast
qed

section \<open>The engine is role-based access control\<close>

text \<open>C30. In every reachable database a worker with a current policy copy decides a permission exactly as
  the abstract role-based model: an active role of the user holds the code or the wildcard.\<close>

theorem engine_implements_rbac:
  assumes "reach auth_init auth_step db" and "casbin_ok cs" and "en_copy en = Some (loaded_policies db)" and "CHR ''.'' \<in> set code"
  shows "can cs en i code \<longleftrightarrow> allows (rbac_of db) i code"
proof -
  have "auth_inv db" using assms(1) by (rule accounts.always)
  then show ?thesis by (intro engine_refines [OF _ assms(2-4)]) (simp add: auth_inv_def)
qed

theorem engine_implements_rbac_witness:
  "\<exists>db. reach auth_init auth_step db
     \<and> (can closure_casbin \<lparr>en_copy = Some (loaded_policies db), en_version = None, en_loaded_at = 0\<rparr> 1 ''quotation.read''
          \<longleftrightarrow> allows (rbac_of db) 1 ''quotation.read'')"
proof -
  obtain db where db: "reach auth_init auth_step db" by (rule demo_db)
  have "can closure_casbin \<lparr>en_copy = Some (loaded_policies db), en_version = None, en_loaded_at = 0\<rparr> 1 ''quotation.read''
      \<longleftrightarrow> allows (rbac_of db) 1 ''quotation.read''"
    by (rule engine_implements_rbac [OF db closure_casbin_ok]) simp_all
  with db show ?thesis by blast
qed

text \<open>The single-role index of the policy table leaves a user at most one assignment.\<close>

lemma one_assignment:
  assumes "rules_unique rules"
  shows "length (filter (\<lambda>r. is_assignment r \<and> v0 r = user_subject i) rules) \<le> 1"
proof -
  have key: "single_role_key r = Some (user_subject i)" if "is_assignment r" "v0 r = user_subject i" for r
    using that by (simp add: single_role_key_def user_subject_def starts_with_def)
  have "distinct (List.map_filter single_role_key rules)" using assms by (simp add: rules_unique_def)
  then show ?thesis
  proof (induction rules)
    case (Cons r rules)
    show ?case
    proof (cases "is_assignment r \<and> v0 r = user_subject i")
      case True
      then have "user_subject i \<notin> set (List.map_filter single_role_key rules)"
        using Cons.prems key [of r] by (simp add: List.map_filter_simps)
      then have "filter (\<lambda>r. is_assignment r \<and> v0 r = user_subject i) rules = []"
        using key by (force simp: filter_empty_conv in_map_filter)
      with True show ?thesis by simp
    next
      case False
      with Cons show ?thesis by (auto simp: List.map_filter_simps split: option.splits)
    qed
  qed simp
qed

lemma one_role_left:
  assumes "rules_unique rules" and "old \<in> set (user_role_codes rules i)"
  shows "filter (\<lambda>k. k \<noteq> old) (user_role_codes rules i) = []"
proof -
  have "length (user_role_codes rules i) \<le> length (filter (\<lambda>r. is_assignment r \<and> v0 r = user_subject i) rules)"
    unfolding user_role_codes_def length_sort length_map
    by (rule order_trans [OF length_filter_le]) (induction rules; simp)
  with one_assignment [OF assms(1), of i] have "length (user_role_codes rules i) \<le> 1" by linarith
  with assms(2) show ?thesis by (cases "user_role_codes rules i") auto
qed

text \<open>C31. Assigning a role gives the user exactly the role the request names, unless that user holds it, when
  nothing is written. Removing a role leaves the user the assigned roles without the named one, which under the
  single-role index of the policy table is none. Replacing the permissions of a role sets its codes to those the
  submitted ones stand for. In each case the roles of the other users, the codes of the other roles and every
  table but the policy table stay as they were.\<close>

theorem administration_refines:
  "(assign_role x i data c db = Inr (k, db') \<longrightarrow> (\<exists>j r. the_role data db = Some (j, r) \<and> k = ro_code r \<and> is_active (ro_status r)
       \<and> (if k \<in> set (user_role_codes (a_rules db) i) then db' = db
          else db' = db\<lparr>a_rules := a_rules db'\<rparr> \<and> rbac_of db' = assign_roles i (set (stripped_codes [ro_code r])) (rbac_of db))))
   \<and> (remove_role x i old c db = Inr (ks, db') \<longrightarrow> old \<in> set (user_role_codes (a_rules db) i)
       \<and> db' = db\<lparr>a_rules := a_rules db'\<rparr>
       \<and> rbac_of db' = assign_roles i (set (stripped_codes (filter (\<lambda>k. k \<noteq> old) (user_role_codes (a_rules db) i)))) (rbac_of db)
       \<and> (rules_unique (a_rules db) \<longrightarrow> rb_roles (rbac_of db') i = {}))
   \<and> (replace_role_permissions x j codes c db = Inr ((), db') \<longrightarrow> (\<exists>r. t_get (a_roles db) j = Some r
       \<and> db' = db\<lparr>a_rules := a_rules db'\<rparr>
       \<and> rbac_of db' = give_codes (ro_code r) (if ''*'' \<in> set codes then {''*''} else resolve_role_codes (set codes)) (rbac_of db)))"
proof (intro conjI impI)
  assume "assign_role x i data c db = Inr (k, db')"
  then obtain j r where r: "the_role data db = Some (j, r)" "k = ro_code r" "is_active (ro_status r)"
    and w: "if k \<in> set (user_role_codes (a_rules db) i) then db' = db
      else (\<exists>rs. set_user_roles i [k] (a_rules db) = Inr rs \<and> db' = db\<lparr>a_rules := rs\<rparr>)"
    by (auto simp: assign_role_def Let_def ebind_Inr_iff split: if_splits)
  then show "\<exists>j r. the_role data db = Some (j, r) \<and> k = ro_code r \<and> is_active (ro_status r)
       \<and> (if k \<in> set (user_role_codes (a_rules db) i) then db' = db
          else db' = db\<lparr>a_rules := a_rules db'\<rparr> \<and> rbac_of db' = assign_roles i (set (stripped_codes [ro_code r])) (rbac_of db))"
    by (intro exI [of _ j] exI [of _ r]) (auto simp: rbac_set_user_roles)
next
  assume "remove_role x i old c db = Inr (ks, db')"
  then obtain rs where old: "old \<in> set (user_role_codes (a_rules db) i)"
    and rs: "set_user_roles i (filter (\<lambda>k. k \<noteq> old) (user_role_codes (a_rules db) i)) (a_rules db) = Inr rs"
    and db': "db' = db\<lparr>a_rules := rs\<rparr>"
    by (auto simp: remove_role_def Let_def ebind_Inr_iff)
  show "old \<in> set (user_role_codes (a_rules db) i)" by (rule old)
  show "db' = db\<lparr>a_rules := a_rules db'\<rparr>" by (simp add: db')
  show new: "rbac_of db' = assign_roles i (set (stripped_codes (filter (\<lambda>k. k \<noteq> old) (user_role_codes (a_rules db) i)))) (rbac_of db)"
    unfolding db' by (rule rbac_set_user_roles [OF rs])
  show "rb_roles (rbac_of db') i = {}" if "rules_unique (a_rules db)"
    by (simp add: new assign_roles_def one_role_left [OF that old] stripped_codes_def)
next
  assume "replace_role_permissions x j codes c db = Inr ((), db')"
  then obtain r rs where r: "t_get (a_roles db) j = Some r" and valid: "validate_permission_codes codes = Inr ()"
    and set: "set_role_permissions (ro_code r)
       (if ''*'' \<in> set codes then [''*''] else sorted_list_of_set (resolve_role_codes (set codes))) (a_rules db) = Inr rs"
    and db': "db' = db\<lparr>a_rules := rs\<rparr>"
    by (auto simp: replace_role_permissions_def locked_role_def sync_role_permissions_def ebind_Inr_iff)
  have "storable c" if "c \<in> resolve_role_codes (set codes)" for c
    using resolve_plain valid_codes_storable [OF valid] that by blast
  then have "rbac_of db' = give_codes (ro_code r) (set (if ''*'' \<in> set codes then [''*''] else sorted_list_of_set (resolve_role_codes (set codes))))
      (rbac_of db)"
    unfolding db' by (intro rbac_set_role_permissions [OF set]) (auto simp: storable_def split: if_splits)
  with r show "\<exists>r. t_get (a_roles db) j = Some r \<and> db' = db\<lparr>a_rules := a_rules db'\<rparr>
      \<and> rbac_of db' = give_codes (ro_code r) (if ''*'' \<in> set codes then {''*''} else resolve_role_codes (set codes)) (rbac_of db)"
    by (auto simp: db')
qed

text \<open>A small database with one role, and the caller of the examples, who holds everything.\<close>

definition role_db :: adb where
  "role_db = empty_db\<lparr>a_roles := t_add \<lparr>ro_code = ''A'', ro_name = ''A'', ro_description = None, ro_system = False, ro_status = ''ACTIVE''\<rparr>
     empty_table\<rparr>"

definition holder :: actor where "holder = \<lparr>at_user = 2, at_admin = False\<rparr>"

definition holder_call :: auth_call where
  "holder_call = demo_call\<lparr>ac_engine := \<lparr>en_copy = Some [Grant (user_subject 2) ''*'' ''*''], en_version = None, en_loaded_at = 0\<rparr>\<rparr>"

lemma holder_star: "has_permission holder_call holder ''*''"
  by (simp add: has_permission_def can_def holder_call_def holder_def demo_call_def flat_casbin_def enforce_def)

lemma star_resolved: "resolve_role_codes {''*''} = {''*''}"
  by (simp add: resolve_role_codes_def)

lemma role_db_replace: "\<exists>db'. replace_role_permissions holder 1 [''*''] holder_call role_db = Inr ((), db')"
  using holder_star
  by (simp add: replace_role_permissions_def locked_role_def role_db_def t_get_def t_add_def empty_table_def ebind_Inr_iff
      assert_can_manage_protected_role_def PROTECTED_ROLE_CODES_def SUPER_ADMIN_ROLE_def validate_permission_codes_def
      assert_can_grant_permissions_def star_resolved sync_role_permissions_def set_role_permissions_def flush_rules_def
      rules_unique_def empty_db_def stripped_codes_def List.map_filter_simps single_role_key_def is_assignment_def)

text \<open>The clerk of \<open>assigned_db\<close> loses the role \<open>A\<close>.\<close>

definition clerk :: user where
  "clerk = \<lparr>us_code = ''U1'', us_name = ''clerk'', us_email = ''clerk@lcs'', us_display = ''Clerk'', us_status = ''ACTIVE'',
     us_locale = ''en'', us_timezone = ''UTC'', us_identity = None, us_last_login = None, us_token_version = 0\<rparr>"

definition assigned_db :: adb where
  "assigned_db = role_db\<lparr>a_users := t_add clerk empty_table, a_rules := [role_row 1 ''A'']\<rparr>"

lemma assigned_codes: "user_role_codes (a_rules assigned_db) 1 = [''A'']"
  by code_simp

lemma assigned_remove: "remove_role holder 1 ''A'' holder_call assigned_db = Inr ([], assigned_db\<lparr>a_rules := []\<rparr>)"
proof -
  have "set_user_roles 1 [] (a_rules assigned_db) = Inr []" by code_simp
  moreover have "t_get (a_users assigned_db) 1 = Some clerk" by code_simp
  moreover have "\<not> is_protected_system_admin clerk" by code_simp
  moreover have "SUPER_ADMIN_ROLE \<noteq> ''A''" by code_simp
  ultimately show ?thesis
    by (simp add: remove_role_def assigned_codes holder_def assert_can_touch_super_admin_def assert_super_admin_remains_def)
qed

theorem administration_refines_witness:
  "(\<exists>db'. replace_role_permissions holder 1 [''*''] holder_call role_db = Inr ((), db')
     \<and> rbac_of db' = give_codes ''A'' {''*''} (rbac_of role_db))
   \<and> rb_roles (rbac_of (assigned_db\<lparr>a_rules := []\<rparr>)) 1 = {}"
proof
  obtain db' where r: "replace_role_permissions holder 1 [''*''] holder_call role_db = Inr ((), db')" using role_db_replace by blast
  have "\<exists>r. t_get (a_roles role_db) 1 = Some r \<and> db' = role_db\<lparr>a_rules := a_rules db'\<rparr>
      \<and> rbac_of db' = give_codes (ro_code r) (if ''*'' \<in> set [''*''] then {''*''} else resolve_role_codes (set [''*''])) (rbac_of role_db)"
    using administration_refines [of holder 1 "[]" holder_call role_db "[]" db' "[]" "[]" 1 "[''*'']"] r by blast
  with r show "\<exists>db'. replace_role_permissions holder 1 [''*''] holder_call role_db = Inr ((), db')
     \<and> rbac_of db' = give_codes ''A'' {''*''} (rbac_of role_db)"
    by (auto simp: role_db_def t_get_def t_add_def empty_table_def)
  have "rules_unique (a_rules assigned_db)" by code_simp
  then show "rb_roles (rbac_of (assigned_db\<lparr>a_rules := []\<rparr>)) 1 = {}"
    using administration_refines [of holder 1 "[]" holder_call assigned_db "[]" "assigned_db\<lparr>a_rules := []\<rparr>" "''A''" "[]"]
      assigned_remove by blast
qed

section \<open>Policy copies and lists\<close>

text \<open>C32. When every policy write has been published, a worker that checks its copy and succeeds decides
  over the committed policies, however loads, failures and writes were interleaved before.\<close>

theorem policy_copy_current:
  assumes "reach sync_init sync_step s" and "sy_unpublished s = 0"
    and "ensure_current interval (Some (sy_version s)) (Some (sy_version s)) (Some (sy_rules s)) now (sy_workers s w) = (True, en)"
  shows "en_copy en = Some (sy_rules s)"
proof (cases "en_copy (sy_workers s w)")
  case None
  with assms(3) show ?thesis by (auto simp: ensure_current_def reload_copy_def)
next
  case (Some ls)
  with published_copy [OF assms(1,2) this] assms(3) show ?thesis
    by (auto simp: ensure_current_def reload_copy_def split: if_splits)
qed

definition fresh_workers :: sync where
  "fresh_workers = \<lparr>sy_rules = [Assign ''user:1'' ''role:A''], sy_version = 3, sy_unpublished = 0,
     sy_workers = (\<lambda>_. \<lparr>en_copy = None, en_version = None, en_loaded_at = 0\<rparr>), sy_reading = (\<lambda>_. None)\<rparr>"

theorem policy_copy_current_witness:
  "reach sync_init sync_step fresh_workers
    \<and> en_copy (snd (ensure_current 60 (Some 3) (Some 3) (Some (sy_rules fresh_workers)) 0 (sy_workers fresh_workers 0)))
        = Some (sy_rules fresh_workers)"
proof -
  have r: "reach sync_init sync_step fresh_workers" by (rule reach.reach_init) (simp add: sync_init_def fresh_workers_def)
  have "en_copy (snd (ensure_current 60 (Some 3) (Some 3) (Some (sy_rules fresh_workers)) 0 (sy_workers fresh_workers 0)))
      = Some (sy_rules fresh_workers)"
    by (rule policy_copy_current [OF r, where interval = 60 and now = 0 and w = 0])
      (simp_all add: fresh_workers_def ensure_current_def reload_copy_def)
  with r show ?thesis by blast
qed

text \<open>The policies of a reachable database are plain grants.\<close>

lemma loaded_plain:
  assumes "rules_ok (a_rules db)"
  shows "list_all plain_grant (loaded_policies db)"
proof (unfold list_all_iff, rule ballI)
  fix l
  assume l: "l \<in> set (loaded_policies db)"
  show "plain_grant l"
  proof (cases l)
    case (Grant s p a)
    with l loaded_grants [OF assms] obtain k c where "(p, a) = split_code c" "c \<in> set (role_permission_codes (a_rules db) k)" by blast
    then have "split_code c = (p, a)" "c = ''*'' \<or> plain_code c" by (simp_all add: role_permission_iff [OF assms] storable_def)
    with Grant plain_split(3-5) [of c] show ?thesis by (auto simp: plain_grant_def)
  qed (simp add: plain_grant_def)
qed

text \<open>C33. The codes shown as the effective permissions of a user are those the engine grants: a code is
  allowed exactly when it or the wildcard is on the list.\<close>

theorem shown_is_decided:
  assumes "reach auth_init auth_step db" and "casbin_ok cs" and "en_copy en = Some (loaded_policies db)" and "CHR ''.'' \<in> set code"
  shows "can cs en i code \<longleftrightarrow> code \<in> effective_codes cs en i \<or> ''*'' \<in> effective_codes cs en i"
proof -
  have "rules_ok (a_rules db)" using accounts.always [OF assms(1)] by (simp add: auth_inv_def)
  from can_effective [OF assms(2,3) loaded_plain [OF this] assms(4)] show ?thesis .
qed

theorem shown_is_decided_witness:
  "\<exists>db en. reach auth_init auth_step db \<and> en_copy en = Some (loaded_policies db)
     \<and> (can closure_casbin en 1 ''user.read''
          \<longleftrightarrow> ''user.read'' \<in> effective_codes closure_casbin en 1 \<or> ''*'' \<in> effective_codes closure_casbin en 1)"
proof -
  obtain db where db: "reach auth_init auth_step db" by (rule demo_db)
  let ?en = "\<lparr>en_copy = Some (loaded_policies db), en_version = None, en_loaded_at = 0\<rparr>"
  have "can closure_casbin ?en 1 ''user.read''
      \<longleftrightarrow> ''user.read'' \<in> effective_codes closure_casbin ?en 1 \<or> ''*'' \<in> effective_codes closure_casbin ?en 1"
    by (rule shown_is_decided [OF db closure_casbin_ok]) simp_all
  moreover have "en_copy ?en = Some (loaded_policies db)" by simp
  ultimately show ?thesis using db by blast
qed

end
