(* ===== verification/SignInProperties.thy ===== *)
theory SignInProperties
  imports AuthProperties
begin

text \<open>
  The properties of signing in, of refresh tokens and of what an administrator can give away (C34 on).
\<close>

section \<open>The lockout\<close>

definition attempt :: "auth_call \<Rightarrow> string \<Rightarrow> string \<Rightarrow> adb \<Rightarrow> adb" where
  "attempt c login password db = snd (authenticate login password c db)"

lemma user_by_login_creds [simp]: "user_by_login login (db\<lparr>a_creds := f\<rparr>) = user_by_login login db"
  by (simp add: user_by_login_def)

lemma failed_attempt:
  assumes "user_by_login login db = Some (i, u)" and "a_creds db i = Some k" and "\<not> locked c (Some k)"
    and "\<not> verify_password (ac_crypto c) p (cr_hash k)"
  shows "attempt c login p db = db\<lparr>a_creds := (a_creds db)(i := Some (record_failure c k))\<rparr>"
  using assms by (simp add: attempt_def authenticate_def Let_def)

lemma failures_counted:
  assumes "user_by_login login db = Some (i, u)" and "a_creds db i = Some k" and "\<not> locked c (Some k)"
    and "\<forall>p \<in> set ps. \<not> verify_password (ac_crypto c) p (cr_hash k)"
    and "cr_failed k + int (length ps) < fst (lockout_policy (ac_security c))"
  shows "fold (attempt c login) ps db = db\<lparr>a_creds := (a_creds db)(i := Some (k\<lparr>cr_failed := cr_failed k + int (length ps)\<rparr>))\<rparr>"
  using assms
proof (induction ps arbitrary: db k)
  case Nil
  then have "(a_creds db)(i := Some k) = a_creds db" by auto
  then show ?case by simp
next
  case (Cons p ps)
  let ?k = "k\<lparr>cr_failed := cr_failed k + 1\<rparr>" and ?db = "db\<lparr>a_creds := (a_creds db)(i := Some (k\<lparr>cr_failed := cr_failed k + 1\<rparr>))\<rparr>"
  have "record_failure c k = ?k" using Cons.prems(5) by (auto simp: record_failure_def case_prod_unfold Let_def)
  then have step: "attempt c login p db = ?db" using failed_attempt [OF Cons.prems(1-3), of p] Cons.prems(4) by simp
  have "fold (attempt c login) ps ?db = ?db\<lparr>a_creds := (a_creds ?db)(i := Some (?k\<lparr>cr_failed := cr_failed ?k + int (length ps)\<rparr>))\<rparr>"
    by (rule Cons.IH) (use Cons.prems in \<open>auto simp: locked_def\<close>)
  then have "fold (attempt c login) (p # ps) db = db\<lparr>a_creds := (a_creds db)(i := Some (?k\<lparr>cr_failed := cr_failed ?k + int (length ps)\<rparr>))\<rparr>"
    by (simp add: step)
  moreover have "?k\<lparr>cr_failed := cr_failed ?k + int (length ps)\<rparr> = k\<lparr>cr_failed := cr_failed k + int (length (p # ps))\<rparr>" by simp
  ultimately show ?case by (simp only:)
qed

text \<open>C34. An account is locked by exactly the configured number of wrong passwords: before the last of them
  the right password still signs in, after it even the right one is refused until the lock ends.\<close>

theorem lockout_exact:
  assumes "user_by_login login db = Some (i, u)" and "is_active (us_status u)" and "a_creds db i = Some k"
    and "cr_failed k = 0" and "cr_locked_until k = None"
    and wrong: "\<forall>p \<in> set ps. \<not> verify_password (ac_crypto c) p (cr_hash k)" and right: "verify_password (ac_crypto c) password (cr_hash k)"
  shows "(int (length ps) < fst (lockout_policy (ac_security c)) \<longrightarrow>
           fst (authenticate login password c (fold (attempt c login) ps db)) = Inr i)
    \<and> (int (length ps) = fst (lockout_policy (ac_security c)) \<and> ps \<noteq> [] \<longrightarrow>
           (\<forall>c' p. ac_now c' < ac_now c + minutes (snd (lockout_policy (ac_security c))) \<longrightarrow>
              fst (authenticate login p c' (fold (attempt c login) ps db)) = auth_required))"
proof (intro conjI impI allI)
  assume "int (length ps) < fst (lockout_policy (ac_security c))"
  then have "fold (attempt c login) ps db = db\<lparr>a_creds := (a_creds db)(i := Some (k\<lparr>cr_failed := int (length ps)\<rparr>))\<rparr>"
    using failures_counted [OF assms(1,3) _ wrong] assms(4,5) by (simp add: locked_def)
  then show "fst (authenticate login password c (fold (attempt c login) ps db)) = Inr i"
    using assms by (simp add: authenticate_def locked_def Let_def)
next
  fix c' :: auth_call and p
  assume n: "int (length ps) = fst (lockout_policy (ac_security c)) \<and> ps \<noteq> []"
    and now: "ac_now c' < ac_now c + minutes (snd (lockout_policy (ac_security c)))"
  from n obtain qs q where ps: "ps = qs @ [q]" by (metis rev_exhaust)
  let ?k = "k\<lparr>cr_failed := int (length qs)\<rparr>"
  let ?db = "db\<lparr>a_creds := (a_creds db)(i := Some ?k)\<rparr>"
  have qs: "fold (attempt c login) qs db = ?db"
    using failures_counted [OF assms(1,3), of c qs] assms(4,5) wrong n by (simp add: locked_def ps)
  have "attempt c login q ?db = ?db\<lparr>a_creds := (a_creds ?db)(i := Some (record_failure c ?k))\<rparr>"
    by (rule failed_attempt [of _ _ _ u]) (use assms ps in \<open>auto simp: locked_def\<close>)
  then have "fold (attempt c login) ps db = db\<lparr>a_creds := (a_creds db)(i := Some (record_failure c ?k))\<rparr>" by (simp add: ps qs)
  moreover have "cr_locked_until (record_failure c ?k) = Some (ac_now c + minutes (snd (lockout_policy (ac_security c))))"
    using n by (simp add: record_failure_def case_prod_unfold ps Let_def)
  ultimately show "fst (authenticate login p c' (fold (attempt c login) ps db)) = auth_required"
    using assms(1) now by (simp add: authenticate_def locked_def Let_def)
qed

definition one_user :: adb where
  "one_user = empty_db\<lparr>a_users := t_add (admin_account ''a@b.c'' ''a'' None True) empty_table,
     a_creds := [1 \<mapsto> new_credential demo_call ''Str0ng!pass'']\<rparr>"

theorem lockout_exact_witness:
  "fst (authenticate ''a'' ''Str0ng!pass'' demo_call (fold (attempt demo_call ''a'') [''1'', ''2'', ''3'', ''4''] one_user)) = Inr 1
    \<and> fst (authenticate ''a'' ''Str0ng!pass'' demo_call (fold (attempt demo_call ''a'') [''1'', ''2'', ''3'', ''4'', ''5''] one_user)) = auth_required"
proof -
  let ?u = "admin_account ''a@b.c'' ''a'' None True" and ?k = "new_credential demo_call ''Str0ng!pass''"
  have u: "user_by_login ''a'' one_user = Some (1, ?u)"
    by (simp add: user_by_login_def one_user_def t_first_def t_where_def t_add_def empty_table_def admin_account_def)
  have k: "a_creds one_user 1 = Some ?k" by (simp add: one_user_def)
  have a: "is_active (us_status ?u)" by (simp add: demo_policy)
  have p: "lockout_policy (ac_security demo_call) = (5, 15)" "minutes 15 = 900000000" by code_simp+
  have v: "verify_password (ac_crypto demo_call) x (cr_hash ?k) \<longleftrightarrow> x = ''Str0ng!pass''" for x
    by (auto simp: new_credential_def demo_call_def plain_crypto_def)
  have f: "cr_failed ?k = 0" "cr_locked_until ?k = None" by (simp_all add: new_credential_def)
  have w4: "\<forall>x \<in> set [''1'', ''2'', ''3'', ''4'']. \<not> verify_password (ac_crypto demo_call) x (cr_hash ?k)"
    and w5: "\<forall>x \<in> set [''1'', ''2'', ''3'', ''4'', ''5'']. \<not> verify_password (ac_crypto demo_call) x (cr_hash ?k)"
    by (simp_all add: v)
  have r: "verify_password (ac_crypto demo_call) ''Str0ng!pass'' (cr_hash ?k)" by (simp add: v)
  show ?thesis
    using lockout_exact [OF u a k f w4 r, THEN conjunct1] lockout_exact [OF u a k f w5 r, THEN conjunct2, rule_format, of demo_call]
    by (simp add: p)
qed

section \<open>Refresh tokens\<close>

lemma rotate_Inr:
  assumes "rotate_refresh_token token c db = (Inr (i, cl, new, rem), db')"
  obtains sid s where "refresh_record c token db = Some ((sid, s), None)" "se_revoked s = None" "cl_session cl = Some sid" "new = ac_fresh c"
    "db' = db\<lparr>a_used := (a_used db)(se_refresh s := Some \<lparr>ut_session = sid, ut_used_at = ac_now c\<rparr>),
       a_sessions := t_put sid (s\<lparr>se_refresh := hash_token (ac_crypto c) new, se_last_used := Some (ac_now c)\<rparr>) (a_sessions db)\<rparr>"
proof (cases "refresh_record c token db")
  case None
  with assms show ?thesis by (simp add: rotate_refresh_token_def)
next
  case (Some r)
  obtain sid s used where r: "r = ((sid, s), used)" by (metis prod.exhaust)
  show ?thesis
  proof (cases used)
    case (Some t)
    with assms \<open>refresh_record c token db = _\<close> r show ?thesis by (auto simp: rotate_refresh_token_def split: if_splits)
  next
    case None
    with assms \<open>refresh_record c token db = _\<close> r that [of sid s] show ?thesis
      by (auto simp: rotate_refresh_token_def session_access_def Let_def split: option.splits if_splits sum.splits dest!: validate_session_Inr)
  qed
qed

text \<open>C35. A refresh token is good for one use: presented again it is refused, and after the grace of five
  seconds for parallel requests its session is revoked as well.\<close>

theorem refresh_token_single_use:
  assumes "reach auth_init auth_step db" and "rotate_refresh_token token c db = (Inr (i, cl, new, rem), db')"
    and fresh: "hash_token (ac_crypto c) new \<noteq> hash_token (ac_crypto c) token" and same: "ac_crypto c' = ac_crypto c"
  shows "\<exists>e db''. rotate_refresh_token token c' db' = (Inl e, db'')
    \<and> (5 * 1000000 < ac_now c' - ac_now c \<longrightarrow>
         (\<exists>sid s. cl_session cl = Some sid \<and> t_get (a_sessions db'') sid = Some s \<and> se_revoked s \<noteq> None))"
proof -
  let ?h = "hash_token (ac_crypto c) token"
  obtain sid s where rec: "refresh_record c token db = Some ((sid, s), None)" and live: "se_revoked s = None"
    and sid: "cl_session cl = Some sid" and "new = ac_fresh c" and db': "db' = db\<lparr>a_used := (a_used db)(se_refresh s := Some \<lparr>ut_session = sid, ut_used_at = ac_now c\<rparr>),
       a_sessions := t_put sid (s\<lparr>se_refresh := hash_token (ac_crypto c) new, se_last_used := Some (ac_now c)\<rparr>) (a_sessions db)\<rparr>"
    by (rule rotate_Inr [OF assms(2)]) (rule that; assumption)
  let ?s = "s\<lparr>se_refresh := hash_token (ac_crypto c) new, se_last_used := Some (ac_now c)\<rparr>"
  have inv: "auth_inv db" using assms(1) by (rule accounts.always)
  then have t: "table_ok (a_sessions db)" "unique_table refresh_key (a_sessions db)" by (simp_all add: auth_inv_def)
  from rec have first: "t_first (\<lambda>x. se_refresh x = ?h) (a_sessions db) = Some (sid, s)"
    by (auto simp: refresh_record_def Let_def split: option.splits)
  from t_first_get [OF t(1) first] have get: "t_get (a_sessions db) sid = Some s" and h: "se_refresh s = ?h" by auto
  have "t_first (\<lambda>x. se_refresh x = ?h) (a_sessions db') = None"
    unfolding t_first_None
  proof
    fix x
    assume x: "x \<in> set (t_vals (a_sessions db'))"
    have t': "table_ok (a_sessions db')" using t(1) by (simp add: db')
    from x obtain j where j: "t_get (a_sessions db') j = Some x" unfolding t_vals_get [OF t'] by (rule exE)
    show "se_refresh x \<noteq> ?h"
    proof (cases "j = sid")
      case True
      with j get have "x = ?s" by (simp add: db')
      with fresh show ?thesis by simp
    next
      case False
      with j have x: "t_get (a_sessions db) j = Some x" by (simp add: db')
      show ?thesis
      proof
        assume "se_refresh x = ?h"
        with h have "refresh_key s = Some ?h" "refresh_key x = Some ?h" by (simp_all add: refresh_key_def)
        with t(2) t_get_Some_rows [OF get] t_get_Some_rows [OF x] have "sid = j" unfolding unique_table_iff by blast
        with False show False by simp
      qed
    qed
  qed
  moreover have "a_used db' ?h = Some \<lparr>ut_session = sid, ut_used_at = ac_now c\<rparr>" by (simp add: db' h)
  moreover have get': "t_get (a_sessions db') sid = Some ?s" using get by (simp add: db')
  ultimately have "refresh_record c' token db' = Some ((sid, ?s), Some \<lparr>ut_session = sid, ut_used_at = ac_now c\<rparr>)"
    by (simp add: refresh_record_def same)
  then show ?thesis
    using live sid get' by (auto simp: rotate_refresh_token_def)
qed

theorem refresh_token_single_use_witness:
  "\<exists>db cl db' e db''. reach auth_init auth_step db
     \<and> rotate_refresh_token ''r0'' (demo_call\<lparr>ac_fresh := ''r1''\<rparr>) db = (Inr (1, cl, ''r1'', False), db')
     \<and> rotate_refresh_token ''r0'' demo_call db' = (Inl e, db'')"
proof -
  obtain db u where db: "reach auth_init auth_step db" "t_get (a_users db) 1 = Some u" "rows (a_sessions db) = [(1, demo_session)]"
    "us_status u = ''ACTIVE''" "a_used db = (\<lambda>_. None)" by (rule demo_signed_in)
  let ?c = "demo_call\<lparr>ac_fresh := ''r1''\<rparr>"
  have policy: "get_access_policy ?c = get_access_policy demo_call" by (simp add: get_access_policy_def)
  have hash: "hash_token (ac_crypto demo_call) x = CHR ''t'' # x" for x by (simp add: demo_call_def plain_crypto_def)
  have valid: "validate_session ?c (Some demo_session) 1 = Inr demo_session"
    by (simp add: validate_session_def policy demo_policy demo_session_def Let_def minutes_def)
  have rec: "refresh_record ?c ''r0'' db = Some ((1, demo_session), None)"
    by (simp add: refresh_record_def hash t_first_def t_where_def db demo_session_def)
  have user: "se_user demo_session = 1" "se_refresh demo_session = ''tr0''" "se_remember demo_session = False" by (simp_all add: demo_session_def)
  have unique: "check_unique n refresh_key 1 x (a_sessions db) = Inr ()" for n x
    by (simp add: unique_among_def db refresh_key_def)
  have "\<exists>cl db'. rotate_refresh_token ''r0'' ?c db = (Inr (1, cl, ''r1'', False), db')"
    by (simp add: rotate_refresh_token_def rec user db valid demo_policy unique)
  then obtain cl db' where r: "rotate_refresh_token ''r0'' ?c db = (Inr (1, cl, ''r1'', False), db')" by blast
  have "\<exists>e db''. rotate_refresh_token ''r0'' demo_call db' = (Inl e, db'')
    \<and> (5 * 1000000 < ac_now demo_call - ac_now ?c \<longrightarrow>
         (\<exists>sid s. cl_session cl = Some sid \<and> t_get (a_sessions db'') sid = Some s \<and> se_revoked s \<noteq> None))"
    by (rule refresh_token_single_use [OF db(1) r]) (simp_all add: hash)
  with db(1) r show ?thesis by blast
qed

section \<open>What an administrator can give away\<close>

lemma grantable_held:
  assumes "assert_can_grant_permissions c x codes = Inr ()" and "code \<in> resolve_role_codes (set codes)"
  shows "at_admin x \<or> has_permission c x code"
  using assms by (auto simp: assert_can_grant_permissions_def split: if_splits)

lemma synced_codes:
  assumes "sync_role_permissions k codes db = Inr rs" and "code \<in> set (role_permission_codes rs k)"
  shows "code \<in> resolve_role_codes (set codes)"
proof -
  let ?stored = "if ''*'' \<in> set codes then [''*''] else sorted_list_of_set (resolve_role_codes (set codes))"
  from assms(1) have valid: "validate_permission_codes codes = Inr ()" and set: "set_role_permissions k ?stored (a_rules db) = Inr rs"
    by (simp_all add: sync_role_permissions_def ebind_Inr_iff)
  have st: "storable c" if "c \<in> set codes" for c using valid_codes_storable [OF valid that] .
  then have "storable c" if "c \<in> resolve_role_codes (set codes)" for c using resolve_plain that by blast
  then have "storable c" if "c \<in> set ?stored" for c using that by (auto simp: storable_def split: if_splits)
  from set_role_permissions_codes [OF set this] assms(2) have "code \<in> set ?stored" by simp
  moreover have "''*'' \<in> resolve_role_codes (set codes)" if "''*'' \<in> set codes"
  proof -
    from that have "''*'' \<in> Set.filter (\<lambda>c. c \<noteq> []) (py_strip ` set codes)" by (force intro: rev_image_eqI)
    then show ?thesis by (simp add: resolve_role_codes_def Let_def)
  qed
  ultimately show ?thesis by (auto split: if_splits)
qed

text \<open>C36. Nobody gives away what they do not hold: after a role is created, or its permissions are
  replaced, every code stored for it is held by the caller, unless the caller is a super administrator.\<close>

theorem no_escalation:
  assumes "table_ok (a_roles db)"
    and "create_role x data c db = Inr (i, db') \<or> replace_role_permissions x i codes c db = Inr ((), db')"
    and "t_get (a_roles db') i = Some r" and "code \<in> set (role_permission_codes (a_rules db') (ro_code r))"
  shows "at_admin x \<or> has_permission c x code"
proof -
  have "\<exists>codes db1. assert_can_grant_permissions c x codes = Inr () \<and> sync_role_permissions (ro_code r) codes db1 = Inr (a_rules db')"
    using assms(2)
  proof
    assume "replace_role_permissions x i codes c db = Inr ((), db')"
    then obtain rs where "assert_can_grant_permissions c x codes = Inr ()" "sync_role_permissions (ro_code r) codes db = Inr rs"
        "db' = db\<lparr>a_rules := rs\<rparr>"
      using assms(3) by (auto simp: replace_role_permissions_def locked_role_def ebind_Inr_iff)
    then show ?thesis by auto
  next
    assume "create_role x data c db = Inr (i, db')"
    then obtain k codes rs r' where "assert_can_grant_permissions c x codes = Inr ()" and i: "i = next_id (a_roles db)"
      and sync: "sync_role_permissions k codes (db\<lparr>a_roles := t_add r' (a_roles db)\<rparr>) = Inr rs"
      and db': "db' = db\<lparr>a_roles := t_add r' (a_roles db), a_rules := rs\<rparr>" and k: "ro_code r' = k"
      unfolding create_role_def Let_def ebind_Inr_iff raise_if_Inr_iff by fastforce
    moreover have "r' = r" using assms(1,3) by (simp add: db' i)
    ultimately show ?thesis by auto
  qed
  then obtain codes db1 where grant: "assert_can_grant_permissions c x codes = Inr ()"
    and sync: "sync_role_permissions (ro_code r) codes db1 = Inr (a_rules db')" by blast
  show ?thesis by (rule grantable_held [OF grant synced_codes [OF sync assms(4)]])
qed

theorem no_escalation_witness:
  "\<exists>db'. replace_role_permissions holder 1 [''*''] holder_call role_db = Inr ((), db')
     \<and> ''*'' \<in> set (role_permission_codes (a_rules db') ''A'')
     \<and> (at_admin holder \<or> has_permission holder_call holder ''*'')"
proof -
  obtain db' where r: "replace_role_permissions holder 1 [''*''] holder_call role_db = Inr ((), db')" using role_db_replace by blast
  then obtain rs role where role: "t_get (a_roles role_db) 1 = Some role" and s: "set_role_permissions (ro_code role) [''*''] (a_rules role_db) = Inr rs"
    and db': "db' = role_db\<lparr>a_rules := rs\<rparr>"
    by (auto simp: replace_role_permissions_def locked_role_def sync_role_permissions_def ebind_Inr_iff)
  have code: "ro_code role = ''A''" using role by (auto simp: role_db_def t_get_def t_add_def empty_table_def)
  have "set (role_permission_codes rs (ro_code role)) = set [''*'']"
    by (rule set_role_permissions_codes [OF s]) (simp add: storable_def)
  then have star: "''*'' \<in> set (role_permission_codes (a_rules db') (ro_code role))" by (simp add: db')
  have "at_admin holder \<or> has_permission holder_call holder ''*''"
    by (rule no_escalation [OF _ disjI2 [OF r] _ star]) (use role in \<open>simp_all add: db' role_db_def\<close>)
  with r star code show ?thesis by auto
qed

text \<open>C37. Compiling a role does not widen it: each code it adds is granted by a submitted code, directly or
  through a page code that one grants, or is a page all of whose grants are in the compiled role.\<close>

theorem compile_no_widening:
  assumes "c \<in> compile_role_permissions codes"
  shows "c \<in> codes \<or> (\<exists>d \<in> codes. c \<in> set (grants_of d))
    \<or> (\<exists>d \<in> codes. \<exists>e \<in> set (grants_of d) \<inter> PAGE_PERMISSION_CODES. c \<in> set (grants_of e))
    \<or> (grants_of c \<noteq> [] \<and> set (grants_of c) \<subseteq> compile_role_permissions codes)"
  using assms
proof (cases rule: compile_cases)
  case (implied d)
  then have "grants_of c \<noteq> []" by auto
  with implied show ?thesis by blast
qed blast+

theorem compile_no_widening_witness:
  "''dashboard.export'' \<in> compile_role_permissions {''sales.quotations.export''}
   \<and> ''dashboard.export'' \<notin> {''sales.quotations.export''}
   \<and> set (grants_of ''dashboard.export'') \<subseteq> compile_role_permissions {''sales.quotations.export''}"
proof -
  have "''dashboard.export'' \<in> compile_role_permissions {''sales.quotations.export''}" by (simp add: compile_export)
  from compile_no_widening [OF this] this show ?thesis by (auto simp: export_facts compile_export)
qed

text \<open>Compiling again adds codes; a start of the service gives a built-in role all its codes back.\<close>

lemma compile_not_idempotent:
  "''reports.cash_flow.export'' \<in> compile_role_permissions (compile_role_permissions {''sales.quotations.export''})"
  "''reports.cash_flow.export'' \<notin> compile_role_permissions {''sales.quotations.export''}"
proof -
  have "''reports.cash_flow.export'' \<in> set (grants_of ''report.export'')" by code_simp
  then show "''reports.cash_flow.export'' \<in> compile_role_permissions (compile_role_permissions {''sales.quotations.export''})"
    by (rule compile_declared [rotated 2]) (simp_all add: compile_export export_facts(7))
qed (simp add: compile_export)

lemma restart_grants:
  assumes "rules_ok rules" and "d \<in> set ROLE_DEFINITIONS" and "rd_code d \<noteq> SUPER_ADMIN_ROLE" and "seed_grants d rules = Inr rs"
  shows "compile_role_permissions (set (rd_permissions d)) \<subseteq> set (role_permission_codes rs (rd_code d))"
proof -
  let ?current = "set (role_permission_codes rules (rd_code d))" and ?own = "compile_role_permissions (set (rd_permissions d))"
  have fin: "finite (?current \<union> ?own)" by simp
  have st: "storable c" if "c \<in> set (sorted_list_of_set (?current \<union> ?own))" for c
  proof (rule desired_storable [of d "role_permission_codes rules (rd_code d)"])
    show "c \<in> ?current \<union> (if rd_code d = SUPER_ADMIN_ROLE then {''*''} else ?own)"
      using that assms(3) by (simp only: set_sorted_list_of_set [OF fin] if_False)
  qed (use definitions_plain [OF assms(2)] assms(1) in \<open>simp_all add: role_permission_iff\<close>)
  have "?own \<subseteq> ?current \<and> rs = rules \<or> set_role_permissions (rd_code d) (sorted_list_of_set (?current \<union> ?own)) rules = Inr rs"
    using assms(3,4) unfolding seed_grants_def Let_def by (cases "?current \<union> ?own = ?current") auto
  then consider "?own \<subseteq> ?current" "rs = rules"
    | "set_role_permissions (rd_code d) (sorted_list_of_set (?current \<union> ?own)) rules = Inr rs" by blast
  then show ?thesis
  proof cases
    case 2
    from set_role_permissions_codes [OF 2 st] show ?thesis by (simp add: set_sorted_list_of_set [OF fin])
  qed simp
qed

section \<open>Codes derived from names\<close>

lemma show_int_digits: "0 \<le> n \<Longrightarrow> list_all is_digit (show_int n)"
  using show_nat_digits by (simp add: show_int_def)

lemma candidate_suffix: "0 \<le> n \<Longrightarrow> takeWhile (\<lambda>ch. ch \<noteq> CHR ''_'') (rev (role_code_candidate base n)) = rev (show_int n)"
proof -
  assume "0 \<le> n"
  have "\<not> is_digit CHR ''_''" by code_simp
  then have "\<forall>ch \<in> set (rev (show_int n)). ch \<noteq> CHR ''_''" using show_int_digits [OF \<open>0 \<le> n\<close>] by (auto simp: list_all_iff)
  then have "takeWhile (\<lambda>ch. ch \<noteq> CHR ''_'') (rev (show_int n) @ CHR ''_'' # t) = rev (show_int n)" for t
    by (subst takeWhile_append2) auto
  then show "takeWhile (\<lambda>ch. ch \<noteq> CHR ''_'') (rev (role_code_candidate base n)) = rev (show_int n)"
    by (simp add: role_code_candidate_def Let_def)
qed

lemma candidate_inj: "0 \<le> m \<Longrightarrow> 0 \<le> n \<Longrightarrow> role_code_candidate base m = role_code_candidate base n \<Longrightarrow> m = n"
  by (metis candidate_suffix rev_is_rev_conv show_int_inject)

lemma free_candidate: "0 \<le> n \<Longrightarrow> \<exists>m. n \<le> m \<and> role_code_candidate base m \<notin> set existing"
proof (rule ccontr)
  assume n: "0 \<le> n" and "\<nexists>m. n \<le> m \<and> role_code_candidate base m \<notin> set existing"
  then have "role_code_candidate base ` {n..} \<subseteq> set existing" by auto
  then have "finite (role_code_candidate base ` {n..})" by (rule finite_subset) simp
  moreover have "inj_on (role_code_candidate base) {n..}" using n by (auto intro!: inj_onI candidate_inj)
  ultimately have "finite {n..}" by (rule finite_imageD)
  then show False by (simp add: infinite_Ici)
qed

lemma derive_loop_ends:
  assumes "role_code_candidate base (n + int k) \<notin> set existing"
  shows "\<exists>code'. derive_loop base existing code n = Some code' \<and> code' \<notin> set existing"
  using assms
proof (induction k arbitrary: n code)
  case 0
  then show ?case by (simp add: derive_loop.simps [of base existing code] derive_loop.simps [of base existing "role_code_candidate base n"])
next
  case (Suc k)
  have "\<exists>code'. derive_loop base existing (role_code_candidate base n) (n + 1) = Some code' \<and> code' \<notin> set existing"
    by (rule Suc.IH) (use Suc.prems in \<open>simp add: algebra_simps\<close>)
  then show ?case by (simp add: derive_loop.simps [of base existing code])
qed

text \<open>C38. Deriving a role code from a name ends, and the code is not in use.\<close>

theorem derive_role_code_ends: "\<exists>code. derive_role_code name existing = Some code \<and> code \<notin> set existing"
proof -
  obtain m where "(2::int) \<le> m" and m: "role_code_candidate (role_code_base name) m \<notin> set existing"
    using free_candidate [of 2] by auto
  then have "role_code_candidate (role_code_base name) (2 + int (nat (m - 2))) \<notin> set existing" by simp
  then show ?thesis unfolding derive_role_code_def by (rule derive_loop_ends)
qed

end
