(* ===== verification/CsvExport.thy ===== *)
theory CsvExport
  imports Decimals
begin

text \<open>
  The cells and lines of a report export (\<open>modules/reports/csv_export.py\<close>) and the \<open>csv.writer\<close> of the
  standard library it calls: a field is quoted when it holds a comma, a quote or a line break, and a row
  that is one empty field is quoted so that it is not an empty line.
\<close>

section \<open>Cells\<close>

definition FORMULA_STARTS :: "char list" where
  "FORMULA_STARTS = [CHR ''='', CHR ''+'', CHR ''@'', CHR 0x09, CHR 0x0D]"

text \<open>\<open>is_number(text)\<close>.\<close>

definition is_number :: "string \<Rightarrow> bool" where
  "is_number s \<longleftrightarrow> parse_decimal_text s \<noteq> None"

text \<open>\<open>text(value)\<close>, where an absent value is \<open>None\<close>.\<close>

definition csv_text :: "string option \<Rightarrow> string" where
  "csv_text v =
     (let result = (case v of None \<Rightarrow> [] | Some s \<Rightarrow> s)
      in case result of
           [] \<Rightarrow> []
         | c # _ \<Rightarrow> if c \<in> set FORMULA_STARTS then CHR 0x27 # result
                  else if c = CHR ''-'' \<and> \<not> is_number result then CHR 0x27 # result
                  else result)"

text \<open>
  \<open>f"{x:.4f}"\<close>: rounded half even to four places, all of them written; a negative amount keeps its sign when it
  rounds to zero.
\<close>

definition fixed4 :: "int \<Rightarrow> string" where
  "fixed4 n =
     (let a = nat \<bar>n\<bar>
      in (if n < 0 then ''-'' else []) @ show_nat (a div 10000) @ ''.'' @ zfill (show_nat (a mod 10000)) 4)"

definition csv_money :: "rat \<Rightarrow> string" where
  "csv_money x =
     (let n = round_half_even (x * 10 ^ 4) in if x < 0 \<and> n = 0 then ''-0.0000'' else fixed4 n)"

section \<open>Lines\<close>

definition needs_quotes :: "char \<Rightarrow> bool" where
  "needs_quotes c \<longleftrightarrow> c = CHR '','' \<or> c = CHR 0x22 \<or> c = CHR 0x0A \<or> c = CHR 0x0D"

fun double_quotes :: "string \<Rightarrow> string" where
  "double_quotes [] = []"
| "double_quotes (c # s) = (if c = CHR 0x22 then CHR 0x22 # CHR 0x22 # double_quotes s else c # double_quotes s)"

definition csv_field :: "string \<Rightarrow> string" where
  "csv_field s = (if list_ex needs_quotes s then CHR 0x22 # double_quotes s @ [CHR 0x22] else s)"

definition CRLF :: string where
  "CRLF = [CHR 0x0D, CHR 0x0A]"

fun join_fields :: "string list \<Rightarrow> string" where
  "join_fields [] = []"
| "join_fields [f] = f"
| "join_fields (f # fs) = f @ CHR '','' # join_fields fs"

definition row_to_csv :: "string list \<Rightarrow> string" where
  "row_to_csv cells =
     (if cells = [[]] then [CHR 0x22, CHR 0x22] else join_fields (map csv_field cells)) @ CRLF"

section \<open>Reading a line back\<close>

text \<open>
  A reader of one line, to say what a line means: the fields up to the first line break outside quotes,
  and the text behind it. The second argument is the field being read, the third whether the reader is
  inside quotes; \<open>None\<close> is an unfinished line.
\<close>

fun read_field :: "string \<Rightarrow> string \<Rightarrow> bool \<Rightarrow> (string list \<times> string) option" where
  "read_field [] acc q = None"
| "read_field (c # s) acc True =
     (if c = CHR 0x22 then
        (case s of d # s' \<Rightarrow> if d = CHR 0x22 then read_field s' (acc @ [c]) True else read_field s acc False
         | [] \<Rightarrow> None)
      else read_field s (acc @ [c]) True)"
| "read_field (c # s) acc False =
     (if c = CHR 0x22 then read_field s acc True
      else if c = CHR '','' then map_option (\<lambda>(fs, r). (acc # fs, r)) (read_field s [] False)
      else if c = CHR 0x0D then (case s of d # r \<Rightarrow> if d = CHR 0x0A then Some ([acc], r) else None | [] \<Rightarrow> None)
      else read_field s (acc @ [c]) False)"

definition read_line :: "string \<Rightarrow> (string list \<times> string) option" where
  "read_line s = (if take 2 s = CRLF then Some ([], drop 2 s) else read_field s [] False)"

section \<open>Lemmas\<close>

text \<open>No cell starts the way a spreadsheet takes for a formula, except a negative number.\<close>

lemma csv_text_safe:
  assumes "csv_text v = c # s"
  shows "c \<notin> set FORMULA_STARTS" and "c = CHR ''-'' \<Longrightarrow> is_number (csv_text v)"
  using assms by (auto simp: csv_text_def FORMULA_STARTS_def Let_def split: option.splits list.splits if_splits)

lemma read_quoted:
  "read_field (double_quotes s @ CHR 0x22 # c # r) acc True = read_field (c # r) (acc @ s) False" if "c \<noteq> CHR 0x22"
proof (induction s arbitrary: acc)
  case Nil
  with that show ?case by (simp del: read_field.simps(3))
next
  case (Cons d s)
  then show ?case by (cases "d = CHR 0x22") (simp_all del: read_field.simps(3))
qed

lemma read_plain:
  "\<not> list_ex needs_quotes s \<Longrightarrow> read_field (s @ r) acc False = read_field r (acc @ s) False"
proof (induction s arbitrary: acc)
  case (Cons d s)
  then show ?case by (simp add: needs_quotes_def)
qed simp

lemma read_csv_field:
  "c \<noteq> CHR 0x22 \<Longrightarrow> read_field (csv_field s @ c # r) [] False = read_field (c # r) s False"
  by (simp add: csv_field_def read_quoted read_plain)

lemma read_fields:
  "cells \<noteq> [] \<Longrightarrow> read_field (join_fields (map csv_field cells) @ CRLF @ r) [] False = Some (cells, r)"
proof (induction cells)
  case (Cons f fs)
  show ?case
  proof (cases fs)
    case Nil
    then show ?thesis by (simp add: CRLF_def read_csv_field)
  next
    case (Cons g gs)
    have "read_field (join_fields (map csv_field (f # fs)) @ CRLF @ r) [] False
        = read_field (csv_field f @ CHR '','' # (join_fields (map csv_field fs) @ CRLF @ r)) [] False"
      by (simp add: Cons)
    also have "\<dots> = map_option (\<lambda>(xs, r). (f # xs, r)) (read_field (join_fields (map csv_field fs) @ CRLF @ r) [] False)"
      by (subst read_csv_field) simp_all
    finally show ?thesis using Cons.IH Cons by simp
  qed
qed simp

text \<open>A line never starts with a line break unless its row is empty.\<close>

lemma csv_field_start: "take 2 (csv_field s @ CHR '','' # r) \<noteq> CRLF" "s \<noteq> [] \<Longrightarrow> take 2 (csv_field s @ r) \<noteq> CRLF"
proof -
  have "hd (csv_field s) \<noteq> CHR 0x0D" if "s \<noteq> []"
    using that by (cases s) (auto simp: csv_field_def needs_quotes_def)
  moreover have "csv_field s \<noteq> []" if "s \<noteq> []" using that by (simp add: csv_field_def)
  ultimately have *: "take 2 (csv_field s @ r) \<noteq> CRLF" if "s \<noteq> []" for r
    using that by (cases "csv_field s") (auto simp: CRLF_def)
  show "s \<noteq> [] \<Longrightarrow> take 2 (csv_field s @ r) \<noteq> CRLF" by (rule *)
  show "take 2 (csv_field s @ CHR '','' # r) \<noteq> CRLF"
    by (cases "s = []") (use * in \<open>auto simp: csv_field_def CRLF_def\<close>)
qed

lemma read_row: "read_line (row_to_csv cells @ r) = Some (cells, r)"
proof (cases cells)
  case Nil
  then show ?thesis by (simp add: read_line_def row_to_csv_def CRLF_def)
next
  case (Cons f fs)
  show ?thesis
  proof (cases "cells = [[]]")
    case True
    then show ?thesis by (simp add: read_line_def row_to_csv_def CRLF_def)
  next
    case False
    have "take 2 (join_fields (map csv_field cells) @ CRLF @ r) \<noteq> CRLF"
    proof (cases fs)
      case Nil
      with False Cons have "f \<noteq> []" by simp
      from csv_field_start(2) [OF this, of "CRLF @ r"] show ?thesis using Nil \<open>cells = f # fs\<close> by (simp del: take_append)
    next
      case (Cons g gs)
      with \<open>cells = f # fs\<close> show ?thesis using csv_field_start(1) [of f] by simp
    qed
    moreover have "row_to_csv cells @ r = join_fields (map csv_field cells) @ CRLF @ r"
      using False by (simp add: row_to_csv_def)
    ultimately show ?thesis using read_fields [of cells r] Cons by (simp only: read_line_def if_False) simp
  qed
qed

text \<open>The lines of an export, read one after the other.\<close>

fun read_lines :: "nat \<Rightarrow> string \<Rightarrow> string list list option" where
  "read_lines n [] = Some []"
| "read_lines 0 _ = None"
| "read_lines (Suc n) s = (case read_line s of None \<Rightarrow> None
     | Some (row, r) \<Rightarrow> map_option (\<lambda>rs. row # rs) (read_lines n r))"

lemma row_to_csv_not_empty: "row_to_csv cells \<noteq> []"
  by (simp add: row_to_csv_def CRLF_def)

lemma read_lines_rows: "length rs \<le> n \<Longrightarrow> read_lines n (concat (map row_to_csv rs)) = Some rs"
proof (induction rs arbitrary: n)
  case (Cons row rs)
  then obtain m where n: "n = Suc m" "length rs \<le> m" by (cases n) auto
  obtain c s where s: "concat (map row_to_csv (row # rs)) = c # s"
    using row_to_csv_not_empty [of row] by (cases "concat (map row_to_csv (row # rs))") auto
  have "read_line (c # s) = Some (row, concat (map row_to_csv rs))"
    using read_row [of row "concat (map row_to_csv rs)"] by (simp add: s [symmetric])
  with Cons.IH [OF n(2)] show ?case unfolding s n(1) by simp
qed simp

section \<open>An amount reads back\<close>

lemma digits_val_append: "digits_val (s @ t) = digits_val s * 10 ^ length t + digits_val t"
proof (induction t rule: rev_induct)
  case Nil
  show ?case by (simp add: digits_val_def)
next
  case (snoc c t)
  have "digits_val (s @ t @ [c]) = 10 * digits_val (s @ t) + digit_val c"
    unfolding append_assoc [symmetric] by (rule digits_val_snoc)
  with snoc show ?case by (simp add: algebra_simps)
qed

lemma show_nat_length: "n < 10 ^ Suc k \<Longrightarrow> length (show_nat n) \<le> Suc k"
proof (induction k arbitrary: n)
  case 0
  then show ?case by (simp add: show_nat.simps [of n])
next
  case (Suc k)
  show ?case
  proof (cases "n < 10")
    case True
    then show ?thesis by (simp add: show_nat.simps [of n])
  next
    case False
    have "n div 10 < 10 ^ Suc k" using Suc.prems by (simp add: less_mult_imp_div_less)
    from Suc.IH [OF this] False show ?thesis by (simp add: show_nat.simps [of n])
  qed
qed

lemma is_digit_zero: "is_digit (CHR ''0'')" and point_not_digit: "\<not> is_digit (CHR ''.'')"
  and lower_point: "lower_char (CHR ''.'') = CHR ''.''" and lower_minus: "lower_char (CHR ''-'') = CHR ''-''"
  by code_simp+

lemma zfill_digits: "\<forall>c \<in> set s. is_digit c \<Longrightarrow> \<forall>c \<in> set (zfill s w). is_digit c"
  by (auto simp: zfill_def is_digit_zero)

lemma lower_digit: "is_digit c \<Longrightarrow> lower_char c = c"
  by (auto simp: lower_char_def is_upper_def is_digit_def Let_def)

lemma digit_not: "is_digit c \<Longrightarrow> c \<noteq> CHR ''_'' \<and> c \<noteq> CHR ''-'' \<and> c \<noteq> CHR ''+'' \<and> c \<noteq> CHR ''i'' \<and> c \<noteq> CHR ''n'' \<and> c \<noteq> CHR ''s''"
  by (auto simp: is_digit_def)

lemma parse_fixed:
  assumes d: "ds \<noteq> []" "\<forall>c \<in> set ds. is_digit c" and e: "es \<noteq> []" "\<forall>c \<in> set es. is_digit c"
  shows "parse_decimal_text (ds @ CHR ''.'' # es) = Some (DFin (of_nat (digits_val (ds @ es)) / 10 ^ length es))"
    and "parse_decimal_text (CHR ''-'' # ds @ CHR ''.'' # es) = Some (DFin (- (of_nat (digits_val (ds @ es)) / 10 ^ length es)))"
proof -
  let ?b = "ds @ CHR ''.'' # es"
  have ch: "lower_char c = c \<and> c \<noteq> CHR ''_''" if "c \<in> set ?b" for c
  proof -
    from that consider "c \<in> set ds" | "c = CHR ''.''" | "c \<in> set es" by auto
    then show ?thesis
    proof cases
      case 1
      with d(2) have "is_digit c" by (rule bspec)
      then show ?thesis using lower_digit digit_not by simp
    next
      case 2
      then show ?thesis by (simp add: lower_point)
    next
      case 3
      with e(2) have "is_digit c" by (rule bspec)
      then show ?thesis using lower_digit digit_not by simp
    qed
  qed
  then have low: "py_lower ?b = ?b" unfolding py_lower_def by (intro map_idI) simp
  have und: "filter (\<lambda>c. c \<noteq> CHR ''_'') ?b = ?b" by (rule filter_True) (use ch in blast)
  have last: "\<not> is_space (last ?b)" using e digit_not_space by simp
  have s1: "py_strip ?b = ?b" using d last digit_not_space by (intro py_strip_trimmed) auto
  have s2: "py_strip (CHR ''-'' # ?b) = CHR ''-'' # ?b"
    using d last minus_not_space by (intro py_strip_trimmed) auto
  obtain c t where c: "ds = c # t" "is_digit c" using d by (cases ds) auto
  have sg: "take_sign ?b = (1, ?b)" using c digit_not [OF c(2)] by (simp add: take_sign_def)
  have w: "?b \<noteq> ''inf''" "?b \<noteq> ''infinity''" "\<not> starts_with ?b ''nan''" "\<not> starts_with ?b ''snan''"
    using c digit_not [OF c(2)] by (auto simp: starts_with_def)
  have ip: "takeWhile is_digit ?b = ds" "dropWhile is_digit ?b = CHR ''.'' # es"
    using d point_not_digit by (simp_all add: takeWhile_append2 dropWhile_append2)
  have fp: "takeWhile is_digit es = es" "dropWhile is_digit es = []" using e by (simp_all add: takeWhile_eq_all_conv dropWhile_eq_Nil_conv)
  have pf: "parse_finite ?b = Some (of_nat (digits_val (ds @ es)) / 10 ^ length es)"
    using d(1) e(1) by (simp add: parse_finite_def Let_def ip fp parse_exponent_def scale10_def)
  show "parse_decimal_text ?b = Some (DFin (of_nat (digits_val (ds @ es)) / 10 ^ length es))"
    unfolding parse_decimal_text_def s1 low und Let_def using sg w pf by simp
  have low': "py_lower (CHR ''-'' # ?b) = CHR ''-'' # ?b" using low by (simp add: py_lower_def lower_minus)
  have und': "filter (\<lambda>c. c \<noteq> CHR ''_'') (CHR ''-'' # ?b) = CHR ''-'' # ?b" using und by simp
  have sg': "take_sign (CHR ''-'' # ?b) = (- 1, ?b)" by (simp add: take_sign_def)
  show "parse_decimal_text (CHR ''-'' # ?b) = Some (DFin (- (of_nat (digits_val (ds @ es)) / 10 ^ length es)))"
    unfolding parse_decimal_text_def s2 low' und' Let_def using sg' w pf by simp
qed

lemma parse_fixed4: "parse_decimal_text (fixed4 n) = Some (DFin (of_int n / 10 ^ 4))"
proof -
  define a where "a = nat \<bar>n\<bar>"
  let ?d = "show_nat (a div 10000)" and ?e = "zfill (show_nat (a mod 10000)) 4"
  have d: "?d \<noteq> []" "\<forall>c \<in> set ?d. is_digit c" using show_nat_digits [of "a div 10000"] by (auto simp: list_all_iff)
  have len: "length ?e = 4" using show_nat_length [of "a mod 10000" 3] by (simp add: zfill_def)
  then have e: "?e \<noteq> []" by auto
  have e': "\<forall>c \<in> set ?e. is_digit c"
    by (rule zfill_digits) (use show_nat_digits [of "a mod 10000"] in \<open>auto simp: list_all_iff\<close>)
  have "digits_val (?d @ ?e) = a div 10000 * 10 ^ 4 + a mod 10000"
    unfolding digits_val_append len digits_val_zfill digits_val_show_nat by (rule refl)
  then have v: "digits_val (?d @ ?e) = a" by simp
  show ?thesis
  proof (cases "n < 0")
    case True
    then have "- rat_of_nat a = of_int n" by (simp add: a_def)
    moreover have "fixed4 n = CHR ''-'' # ?d @ CHR ''.'' # ?e" using True by (simp add: fixed4_def a_def Let_def)
    ultimately show ?thesis using parse_fixed(2) [OF d e e'] v len by (simp flip: minus_divide_left)
  next
    case False
    then have "rat_of_nat a = of_int n" by (simp add: a_def)
    moreover have "fixed4 n = ?d @ CHR ''.'' # ?e" using False by (simp add: fixed4_def a_def Let_def)
    ultimately show ?thesis using parse_fixed(1) [OF d e e'] v len by simp
  qed
qed

lemma parse_minus_zero: "parse_decimal_text ''-0.0000'' = Some (DFin 0)"
  by code_simp

lemma csv_money_exact: "has_places 4 x \<Longrightarrow> parse_decimal_text (csv_money x) = Some (DFin x)"
  by (auto simp: has_places_iff csv_money_def parse_fixed4 Let_def)

text \<open>An amount is a number, and starts with a digit or a minus sign.\<close>

lemma csv_money_safe:
  assumes "csv_money x = c # s"
  shows "c \<notin> set FORMULA_STARTS" and "is_number (csv_money x)"
proof -
  have "is_digit c \<or> c = CHR ''-''"
    using assms show_nat_digits [of "nat \<bar>round_half_even (x * 10 ^ 4)\<bar> div 10000"]
    by (cases "show_nat (nat \<bar>round_half_even (x * 10 ^ 4)\<bar> div 10000)") (auto simp: csv_money_def fixed4_def Let_def split: if_splits)
  moreover have "\<not> is_digit d" if "d \<in> set FORMULA_STARTS" for d
    using that by (auto simp: FORMULA_STARTS_def is_digit_def)
  ultimately show "c \<notin> set FORMULA_STARTS" by (auto simp: FORMULA_STARTS_def)
  show "is_number (csv_money x)" by (simp add: is_number_def csv_money_def parse_fixed4 parse_minus_zero Let_def)
qed

end
