(* ===== verification/LedgerReports.thy ===== *)
theory LedgerReports
  imports FinanceModel CsvExport "HOL-Library.List_Lexorder" "HOL-Library.Char_ord" "HOL-Library.Product_Lexorder"
begin

text \<open>
  The trial balance and the general ledger (\<open>modules/reports/ledger_reports.py\<close>), the queries they read
  (\<open>modules/reports/repository.py\<close>), their filters (\<open>modules/reports/schemas.py\<close>) and the registry that
  runs and exports them (\<open>modules/reports/engine.py\<close>). A query is a list: joins, conditions and groups
  are written out, sums in SQL are exact, and the sums made in Python round as \<open>Decimal\<close> does. The order
  in which the database compares account codes is the parameter \<open>le\<close>. The label that joins code and name
  of an account, and the time a report was made, are left out.
\<close>

section \<open>Filters\<close>

record report_filters =
  rf_from :: "date option"
  rf_to :: "date option"
  rf_year :: "int option"
  rf_page :: int
  rf_size :: int

record tb_filters = report_filters +
  tf_from :: "string option"
  tf_to :: "string option"

record gl_filters = report_filters +
  gf_account :: "string option"
  gf_party :: "string option"
  gf_type :: "string option"
  gf_no :: "string option"
  gf_currency :: "string option"

definition REPORT_PAGE_SIZE_MAX :: int where
  "REPORT_PAGE_SIZE_MAX = 200"

text \<open>What the fields of \<open>ReportFilters\<close> demand of a request.\<close>

definition filters_ok :: "('a) report_filters_scheme \<Rightarrow> bool" where
  "filters_ok f \<longleftrightarrow> pred_option (\<lambda>y. 2000 \<le> y \<and> y \<le> 2999) (rf_year f)
     \<and> 1 \<le> rf_page f \<and> 1 \<le> rf_size f \<and> rf_size f \<le> REPORT_PAGE_SIZE_MAX"

text \<open>\<open>if text:\<close> on an optional text.\<close>

definition given :: "string option \<Rightarrow> bool" where
  "given x \<longleftrightarrow> (case x of None \<Rightarrow> False | Some s \<Rightarrow> s \<noteq> [])"

definition if_given :: "string option \<Rightarrow> (string \<Rightarrow> bool) \<Rightarrow> bool" where
  "if_given x P \<longleftrightarrow> (given x \<longrightarrow> P (the x))"

definition resolve_range :: "('a) report_filters_scheme \<Rightarrow> fdb \<Rightarrow> (date option \<times> date option) res" where
  "resolve_range f db =
     ebind (raise_if (case (rf_from f, rf_to f) of (Some a, Some b) \<Rightarrow> b < a | _ \<Rightarrow> False)
       (ValidationFailed ''The report date range is invalid.''
          [(''toDate'', ''The to date must be on or after the from date.'')])) (\<lambda>_.
     case rf_year f of
       None \<Rightarrow> Inr (rf_from f, rf_to f)
     | Some y \<Rightarrow>
         (let ps = filter (\<lambda>p. per_year p = y) (t_vals (f_periods db))
          in if ps = [] then Inl (ValidationFailed ''The requested fiscal year has no accounting periods.''
               [(''fiscalYear'', ''No accounting periods are defined for the year.'')])
             else (let first = Min (set (map per_start ps)); last = Max (set (map per_end ps))
                   in Inr (Some (case rf_from f of Some a \<Rightarrow> max a first | None \<Rightarrow> first),
                           Some (case rf_to f of Some b \<Rightarrow> min b last | None \<Rightarrow> last)))))"

section \<open>Posted lines\<close>

text \<open>A journal line joined with its entry and its account.\<close>

record posted_line =
  pl_id :: int
  pl_line :: jline
  pl_entry :: journal
  pl_account :: account

definition posted_lines :: "fdb \<Rightarrow> posted_line list" where
  "posted_lines db = List.map_filter (\<lambda>(i, l).
     case t_get (f_journals db) (jl_journal l) of
       None \<Rightarrow> None
     | Some e \<Rightarrow>
         (case t_get (f_accounts db) (jl_account l) of
            None \<Rightarrow> None
          | Some a \<Rightarrow> if je_status e = ''POSTED''
              then Some \<lparr>pl_id = i, pl_line = l, pl_entry = e, pl_account = a\<rparr> else None)) (rows (f_jlines db))"

definition account_of :: "posted_line \<Rightarrow> int" where
  "account_of p = jl_account (pl_line p)"

definition base_debit :: "posted_line \<Rightarrow> rat" where
  "base_debit p = jl_base_debit (pl_line p)"

definition base_credit :: "posted_line \<Rightarrow> rat" where
  "base_credit p = jl_base_credit (pl_line p)"

definition net_of :: "posted_line \<Rightarrow> rat" where
  "net_of p = base_debit p - base_credit p"

definition total_of :: "(posted_line \<Rightarrow> rat) \<Rightarrow> posted_line list \<Rightarrow> rat" where
  "total_of f xs = sum_list (map f xs)"

text \<open>\<open>group_by(account_id)\<close>.\<close>

definition accounts_in :: "posted_line list \<Rightarrow> int list" where
  "accounts_in xs = remdups (map account_of xs)"

definition lines_on :: "int \<Rightarrow> posted_line list \<Rightarrow> posted_line list" where
  "lines_on i xs = filter (\<lambda>p. account_of p = i) xs"

section \<open>Trial balance\<close>

record balance_row =
  br_account :: int
  br_code :: string
  br_name :: string
  br_type :: string
  br_opening_debit :: rat
  br_opening_credit :: rat
  br_period_debit :: rat
  br_period_credit :: rat

fun insert_by :: "('a \<Rightarrow> 'a \<Rightarrow> bool) \<Rightarrow> 'a \<Rightarrow> 'a list \<Rightarrow> 'a list" where
  "insert_by le x [] = [x]"
| "insert_by le x (y # ys) = (if le x y then x # y # ys else y # insert_by le x ys)"

definition sort_by :: "('a \<Rightarrow> 'a \<Rightarrow> bool) \<Rightarrow> 'a list \<Rightarrow> 'a list" where
  "sort_by le xs = foldr (insert_by le) xs []"

definition before_from :: "date option \<Rightarrow> posted_line \<Rightarrow> bool" where
  "before_from from p \<longleftrightarrow> (case from of None \<Rightarrow> False | Some d \<Rightarrow> je_posting_date (pl_entry p) < d)"

definition in_trial_balance :: "(string \<Rightarrow> string \<Rightarrow> bool) \<Rightarrow> date option \<Rightarrow> string option \<Rightarrow> string option \<Rightarrow>
    posted_line \<Rightarrow> bool" where
  "in_trial_balance le to lo hi p \<longleftrightarrow>
     pred_option (\<lambda>d. je_posting_date (pl_entry p) \<le> d) to
     \<and> if_given lo (\<lambda>s. le s (acc_code (pl_account p)))
     \<and> if_given hi (\<lambda>s. le (acc_code (pl_account p)) s)"

definition balance_row_of :: "date option \<Rightarrow> posted_line list \<Rightarrow> int \<Rightarrow> balance_row" where
  "balance_row_of from xs i =
     (let a = pl_account (hd (lines_on i xs)); own = lines_on i xs;
          opening = filter (before_from from) own; rest = filter (\<lambda>p. \<not> before_from from p) own
      in \<lparr>br_account = i, br_code = acc_code a, br_name = acc_name a, br_type = acc_type a,
          br_opening_debit = total_of base_debit opening, br_opening_credit = total_of base_credit opening,
          br_period_debit = total_of base_debit rest, br_period_credit = total_of base_credit rest\<rparr>)"

definition trial_balance_balances :: "(string \<Rightarrow> string \<Rightarrow> bool) \<Rightarrow> date option \<Rightarrow> date option \<Rightarrow> string option \<Rightarrow>
    string option \<Rightarrow> fdb \<Rightarrow> balance_row list" where
  "trial_balance_balances le from to lo hi db =
     (let xs = filter (in_trial_balance le to lo hi) (posted_lines db)
      in sort_by (\<lambda>r s. le (br_code r) (br_code s)) (map (\<lambda>i. balance_row_of from xs i) (accounts_in xs)))"

record six =
  opening_debit :: rat
  opening_credit :: rat
  period_debit :: rat
  period_credit :: rat
  closing_debit :: rat
  closing_credit :: rat

record tb_item = six +
  ti_id :: string
  ti_code :: string
  ti_name :: string
  ti_type :: string

definition side :: "rat \<Rightarrow> rat \<times> rat" where
  "side net = (if 0 \<le> net then (net, 0) else (0, - net))"

definition tb_item_of :: "balance_row \<Rightarrow> tb_item" where
  "tb_item_of r =
     (let opening_net = dsub (br_opening_debit r) (br_opening_credit r);
          (od, oc) = side opening_net;
          (cd, cc) = side (dsub (dadd opening_net (br_period_debit r)) (br_period_credit r))
      in \<lparr>opening_debit = od, opening_credit = oc, period_debit = br_period_debit r, period_credit = br_period_credit r,
          closing_debit = cd, closing_credit = cc, ti_id = show_int (br_account r), ti_code = br_code r,
          ti_name = br_name r, ti_type = br_type r\<rparr>)"

record tb_control =
  tc_totals :: six
  tc_balanced :: bool
  tc_imbalance :: rat
  tc_warnings :: "string list"

definition trial_balance_totals :: "tb_item list \<Rightarrow> tb_control" where
  "trial_balance_totals items =
     (let t = \<lparr>opening_debit = dec_sum_from 0 (map opening_debit items), opening_credit = dec_sum_from 0 (map opening_credit items),
               period_debit = dec_sum_from 0 (map period_debit items), period_credit = dec_sum_from 0 (map period_credit items),
               closing_debit = dec_sum_from 0 (map closing_debit items), closing_credit = dec_sum_from 0 (map closing_credit items)\<rparr>;
          imbalance = dsub (closing_debit t) (closing_credit t);
          period_imbalance = dsub (period_debit t) (period_credit t);
          balanced = (imbalance = 0 \<and> period_imbalance = 0)
      in \<lparr>tc_totals = t, tc_balanced = balanced, tc_imbalance = imbalance,
          tc_warnings = (if balanced then [] else [''Trial balance does not balance.''])\<rparr>)"

definition trial_balance_rows :: "(string \<Rightarrow> string \<Rightarrow> bool) \<Rightarrow> 'a tb_filters_scheme \<Rightarrow> fdb \<Rightarrow>
    (tb_item list \<times> tb_control \<times> date option \<times> date option) res" where
  "trial_balance_rows le f db =
     ebind (resolve_range f db) (\<lambda>(from, to).
     ebind (raise_if (given (tf_from f) \<and> given (tf_to f) \<and> the (tf_to f) < the (tf_from f))
       (ValidationFailed ''The account range is invalid.''
          [(''accountTo'', ''The to account must not sort before the from account.'')])) (\<lambda>_.
     let items = map tb_item_of (trial_balance_balances le from to (tf_from f) (tf_to f) db)
     in Inr (items, trial_balance_totals items, from, to)))"

text \<open>\<open>items[offset : offset + size]\<close> of the page that a request asks for.\<close>

definition page_of :: "('a) report_filters_scheme \<Rightarrow> 'b list \<Rightarrow> 'b list" where
  "page_of f xs = take (nat (rf_size f)) (drop (nat ((rf_page f - 1) * rf_size f)) xs)"

record tb_result =
  tr_items :: "tb_item list"
  tr_total :: nat
  tr_control :: tb_control
  tr_from :: "date option"
  tr_to :: "date option"

definition trial_balance :: "(string \<Rightarrow> string \<Rightarrow> bool) \<Rightarrow> 'a tb_filters_scheme \<Rightarrow> fdb \<Rightarrow> tb_result res" where
  "trial_balance le f db =
     ebind (trial_balance_rows le f db) (\<lambda>(items, control, from, to).
     Inr \<lparr>tr_items = page_of f items, tr_total = length items, tr_control = control, tr_from = from, tr_to = to\<rparr>)"

section \<open>Searching text\<close>

text \<open>
  \<open>text ILIKE pattern\<close>: a percent sign stands for any text, an underscore for any character, a
  backslash takes the next character literally.
\<close>

fun like_pattern :: "string \<Rightarrow> string \<Rightarrow> bool" where
  "like_pattern [] t = (t = [])"
| "like_pattern (c # p) t =
     (if c = CHR ''%'' then like_pattern p t \<or> (case t of [] \<Rightarrow> False | _ # t' \<Rightarrow> like_pattern (c # p) t')
      else if c = CHR ''_'' then (case t of [] \<Rightarrow> False | _ # t' \<Rightarrow> like_pattern p t')
      else if c = CHR 0x5C then
        (case (p, t) of (d # p', x # t') \<Rightarrow> x = d \<and> like_pattern p' t' | _ \<Rightarrow> False)
      else (case t of [] \<Rightarrow> False | x # t' \<Rightarrow> x = c \<and> like_pattern p t'))"

definition ilike_within :: "string \<Rightarrow> string \<Rightarrow> bool" where
  "ilike_within term t \<longleftrightarrow> like_pattern (py_lower (''%'' @ term @ ''%'')) (py_lower t)"

section \<open>General ledger\<close>

text \<open>\<open>_ledger_conditions\<close>, with the period or, when \<open>before\<close> is given, with that bound.\<close>

definition in_period :: "date option \<Rightarrow> date option \<Rightarrow> date option \<Rightarrow> posted_line \<Rightarrow> bool" where
  "in_period before from to p \<longleftrightarrow>
     (case before of
        Some d \<Rightarrow> je_posting_date (pl_entry p) < d
      | None \<Rightarrow> pred_option (\<lambda>d. d \<le> je_posting_date (pl_entry p)) from
              \<and> pred_option (\<lambda>d. je_posting_date (pl_entry p) \<le> d) to)"

definition gl_matches :: "'a gl_filters_scheme \<Rightarrow> fdb \<Rightarrow> posted_line \<Rightarrow> bool" where
  "gl_matches f db p \<longleftrightarrow>
     if_given (gf_account f) (\<lambda>s. acc_code (pl_account p) = s)
     \<and> if_given (gf_party f) (\<lambda>s. case jl_party (pl_line p) of None \<Rightarrow> False
          | Some i \<Rightarrow> list_ex (\<lambda>(j, q). j = i \<and> ilike_within s (pa_name q)) (rows (f_parties db)))
     \<and> if_given (gf_type f) (\<lambda>s. py_upper (je_type (pl_entry p)) = py_upper s)
     \<and> if_given (gf_no f) (\<lambda>s. ilike_within s (je_no (pl_entry p)))
     \<and> if_given (gf_currency f) (\<lambda>s. py_upper (jl_currency (pl_line p)) = py_upper s)"

definition ledger_lines :: "'a gl_filters_scheme \<Rightarrow> date option \<Rightarrow> date option \<Rightarrow> date option \<Rightarrow> fdb \<Rightarrow> posted_line list" where
  "ledger_lines f before from to db = filter (\<lambda>p. in_period before from to p \<and> gl_matches f db p) (posted_lines db)"

definition ledger_opening_balances :: "'a gl_filters_scheme \<Rightarrow> date option \<Rightarrow> fdb \<Rightarrow> (int \<times> rat) list" where
  "ledger_opening_balances f from db =
     (case from of
        None \<Rightarrow> []
      | Some d \<Rightarrow>
          (let xs = ledger_lines f (Some d) None None db
           in map (\<lambda>i. (i, total_of net_of (lines_on i xs))) (accounts_in xs)))"

definition general_ledger_totals :: "'a gl_filters_scheme \<Rightarrow> date option \<Rightarrow> date option \<Rightarrow> fdb \<Rightarrow> nat \<times> rat \<times> rat" where
  "general_ledger_totals f from to db =
     (let xs = ledger_lines f None from to db in (length xs, total_of base_debit xs, total_of base_credit xs))"

text \<open>
  One row of \<open>_posted_ledger_statement\<close> with its running balance. The outer join with the cash
  accounts repeats a line for every cash account of its ledger account.
\<close>

record ledger_row =
  lr_line :: posted_line
  lr_document_no :: "string option"
  lr_party_name :: "string option"
  lr_order_no :: "string option"
  lr_fin_account :: "int option"
  lr_running :: rat

definition ledger_key :: "posted_line \<Rightarrow> date \<times> int \<times> int" where
  "ledger_key p = (je_posting_date (pl_entry p), jl_journal (pl_line p), jl_no (pl_line p))"

definition outer_join :: "fdb \<Rightarrow> posted_line \<Rightarrow> ledger_row list" where
  "outer_join db p =
     (let fas = map fst (t_where (\<lambda>a. fa_account a = account_of p) (f_fin_accounts db));
          one = (\<lambda>fa. \<lparr>lr_line = p,
            lr_document_no = map_option doc_no (Option.bind (je_source (pl_entry p)) (t_get (f_documents db))),
            lr_party_name = map_option pa_name (Option.bind (jl_party (pl_line p)) (t_get (f_parties db))),
            lr_order_no = map_option so_no (Option.bind (jl_order (pl_line p)) (t_get (f_orders db))),
            lr_fin_account = fa, lr_running = 0\<rparr>)
      in if fas = [] then [one None] else map (one \<circ> Some) fas)"

text \<open>The window: the rows of the same account up to this one and its peers.\<close>

definition running_balance :: "ledger_row list \<Rightarrow> ledger_row \<Rightarrow> rat" where
  "running_balance rs r = sum_list (map (net_of \<circ> lr_line)
     (filter (\<lambda>x. account_of (lr_line x) = account_of (lr_line r) \<and> ledger_key (lr_line x) \<le> ledger_key (lr_line r)) rs))"

definition general_ledger_statement :: "'a gl_filters_scheme \<Rightarrow> date option \<Rightarrow> date option \<Rightarrow> fdb \<Rightarrow> ledger_row list" where
  "general_ledger_statement f from to db =
     (let rs = concat (map (outer_join db) (ledger_lines f None from to db))
      in sort_key (\<lambda>r. ledger_key (lr_line r)) (map (\<lambda>r. r\<lparr>lr_running := running_balance rs r\<rparr>) rs))"

definition general_ledger_page :: "'a gl_filters_scheme \<Rightarrow> date option \<Rightarrow> date option \<Rightarrow> fdb \<Rightarrow> ledger_row list" where
  "general_ledger_page f from to db = page_of f (general_ledger_statement f from to db)"

record gl_item =
  gi_id :: string
  gi_date :: date
  gi_journal_no :: string
  gi_journal :: string
  gi_type :: string
  gi_document :: "string option"
  gi_document_id :: "string option"
  gi_account :: string
  gi_code :: string
  gi_name :: string
  gi_description :: "string option"
  gi_party_id :: "int option"
  gi_party :: string
  gi_currency :: string
  gi_debit :: rat
  gi_credit :: rat
  gi_running :: rat

definition or_text :: "string option \<Rightarrow> string option \<Rightarrow> string option" where
  "or_text a b = (if given a then a else b)"

definition ledger_item :: "ledger_row \<Rightarrow> rat \<Rightarrow> gl_item" where
  "ledger_item r opening =
     (let p = lr_line r; e = pl_entry p; l = pl_line p
      in \<lparr>gi_id = show_int (pl_id p), gi_date = je_posting_date e, gi_journal_no = je_no e,
          gi_journal = show_int (jl_journal l), gi_type = je_type e, gi_document = lr_document_no r,
          gi_document_id = (case lr_document_no r of None \<Rightarrow> None | Some _ \<Rightarrow> map_option show_int (je_source e)),
          gi_account = show_int (account_of p), gi_code = acc_code (pl_account p), gi_name = acc_name (pl_account p),
          gi_description = or_text (jl_description l) (je_description e), gi_party_id = jl_party l,
          gi_party = the (or_text (lr_party_name r) (Some [])), gi_currency = jl_currency l,
          gi_debit = base_debit p, gi_credit = base_credit p, gi_running = dadd (lr_running r) opening\<rparr>)"

definition opening_of :: "(int \<times> rat) list \<Rightarrow> int \<Rightarrow> rat" where
  "opening_of os i = (case map_of os i of None \<Rightarrow> 0 | Some x \<Rightarrow> x)"

record gl_result =
  gr_items :: "gl_item list"
  gr_total :: nat
  gr_opening :: rat
  gr_debit :: rat
  gr_credit :: rat
  gr_closing :: rat
  gr_from :: "date option"
  gr_to :: "date option"

definition general_ledger :: "'a gl_filters_scheme \<Rightarrow> fdb \<Rightarrow> gl_result res" where
  "general_ledger f db =
     ebind (resolve_range f db) (\<lambda>(from, to).
     let openings = ledger_opening_balances f from db;
         (total, debit, credit) = general_ledger_totals f from to db;
         items = map (\<lambda>r. ledger_item r (opening_of openings (account_of (lr_line r)))) (general_ledger_page f from to db);
         opening = dec_sum_from 0 (map snd openings)
     in Inr \<lparr>gr_items = items, gr_total = total, gr_opening = opening, gr_debit = debit, gr_credit = credit,
          gr_closing = dsub (dadd opening debit) credit, gr_from = from, gr_to = to\<rparr>)"

end
