(* ===== verification/ReportEngine.thy ===== *)
theory ReportEngine
  imports LedgerReports Identity
begin

text \<open>
  The registry of reports (\<open>modules/reports/engine.py\<close>) and the exports of the two ledger reports
  (\<open>modules/reports/ledger_reports.py\<close>). A registered report is run and exported by its kind. The time
  an export was made is the argument \<open>now\<close>, already formatted. An export is a stream: what is refused
  before it starts is the outer error, what fails inside it the inner one.
\<close>

section \<open>Registry\<close>

datatype report_kind = TrialBalance | GeneralLedger

record report_definition =
  rd_title :: string
  rd_permission :: string
  rd_columns :: "(string \<times> string) list"
  rd_kind :: report_kind

definition TRIAL_BALANCE_COLUMNS :: "(string \<times> string) list" where
  "TRIAL_BALANCE_COLUMNS =
     [(''accountCode'', ''Account Code''), (''accountName'', ''Account Name''), (''accountType'', ''Account Type''),
      (''openingDebit'', ''Opening Debit''), (''openingCredit'', ''Opening Credit''),
      (''periodDebit'', ''Period Debit''), (''periodCredit'', ''Period Credit''),
      (''closingDebit'', ''Closing Debit''), (''closingCredit'', ''Closing Credit'')]"

definition TRIAL_BALANCE_NUMERIC :: "string list" where
  "TRIAL_BALANCE_NUMERIC =
     [''openingDebit'', ''openingCredit'', ''periodDebit'', ''periodCredit'', ''closingDebit'', ''closingCredit'']"

definition GENERAL_LEDGER_COLUMNS :: "(string \<times> string) list" where
  "GENERAL_LEDGER_COLUMNS =
     [(''postingDate'', ''Posting Date''), (''accountCode'', ''Account Code''), (''accountName'', ''Account Name''),
      (''journalNo'', ''Voucher No''), (''voucherType'', ''Voucher Type''), (''sourceDocument'', ''Source Document''),
      (''party'', ''Party''), (''description'', ''Description''), (''currency'', ''Currency''),
      (''debit'', ''Debit''), (''credit'', ''Credit''), (''runningBalance'', ''Running Balance'')]"

definition GENERAL_LEDGER_NUMERIC :: "string list" where
  "GENERAL_LEDGER_NUMERIC = [''debit'', ''credit'', ''runningBalance'']"

definition REPORTS :: "(string \<times> report_definition) list" where
  "REPORTS =
     [(''trial-balance'', \<lparr>rd_title = ''Trial Balance'', rd_permission = ''reports.trial_balance.view'',
         rd_columns = TRIAL_BALANCE_COLUMNS, rd_kind = TrialBalance\<rparr>),
      (''general-ledger'', \<lparr>rd_title = ''General Ledger'', rd_permission = ''reports.general_ledger.view'',
         rd_columns = GENERAL_LEDGER_COLUMNS, rd_kind = GeneralLedger\<rparr>)]"

definition report_guard :: "auth_call \<Rightarrow> actor \<Rightarrow> report_definition \<Rightarrow> unit res" where
  "report_guard c x d =
     raise_if (\<not> (has_permission c x (rd_permission d) \<or> has_permission c x ''report.read''))
       (AccessDenied ''You do not have permission to perform this action.'')"

definition selected_columns :: "report_definition \<Rightarrow> string list option \<Rightarrow> (string \<times> string) list res" where
  "selected_columns d requested =
     (case requested of
        None \<Rightarrow> Inr (rd_columns d)
      | Some [] \<Rightarrow> Inr (rd_columns d)
      | Some wanted \<Rightarrow>
          ebind (raise_if (list_ex (\<lambda>f. f \<notin> fst ` set (rd_columns d)) wanted)
            (ValidationFailed ''Unknown export column.'' [(''fields'', ''Unknown column(s).'')])) (\<lambda>_.
          Inr (filter (\<lambda>(k, _). k \<in> set wanted) (rd_columns d))))"

section \<open>Generating a report\<close>

datatype any_filters = TbFilters tb_filters | GlFilters gl_filters
datatype any_result = TbResult tb_result | GlResult gl_result

text \<open>A function given the filters of the other report fails on the attribute it does not find.\<close>

definition wrong_filters :: "'a res" where
  "wrong_filters = Inl (PythonError ''AttributeError'')"

definition run_report :: "(string \<Rightarrow> string \<Rightarrow> bool) \<Rightarrow> report_kind \<Rightarrow> any_filters \<Rightarrow> fdb \<Rightarrow> any_result res" where
  "run_report le k f db =
     (case (k, f) of
        (TrialBalance, TbFilters t) \<Rightarrow> ebind (trial_balance le t db) (\<lambda>r. Inr (TbResult r))
      | (GeneralLedger, GlFilters g) \<Rightarrow> ebind (general_ledger g db) (\<lambda>r. Inr (GlResult r))
      | _ \<Rightarrow> wrong_filters)"

record report_meta =
  mt_key :: string
  mt_title :: string
  mt_page :: int
  mt_size :: int
  mt_total :: nat
  mt_warnings :: "string list"

fun any_page :: "any_filters \<Rightarrow> int \<times> int" where
  "any_page (TbFilters f) = (rf_page f, rf_size f)"
| "any_page (GlFilters f) = (rf_page f, rf_size f)"

fun any_total :: "any_result \<Rightarrow> nat" where
  "any_total (TbResult r) = tr_total r"
| "any_total (GlResult r) = gr_total r"

fun any_warnings :: "any_result \<Rightarrow> string list" where
  "any_warnings (TbResult r) = tc_warnings (tr_control r)"
| "any_warnings (GlResult r) = []"

definition generate :: "auth_call \<Rightarrow> actor \<Rightarrow> (string \<Rightarrow> string \<Rightarrow> bool) \<Rightarrow> string \<Rightarrow> any_filters \<Rightarrow> fdb \<Rightarrow>
    (report_meta \<times> any_result) res" where
  "generate c x le key f db =
     ebind (require_some (map_of REPORTS key) (NotFound ''Unknown report.'')) (\<lambda>d.
     ebind (report_guard c x d) (\<lambda>_.
     ebind (run_report le (rd_kind d) f db) (\<lambda>r.
     Inr (\<lparr>mt_key = key, mt_title = rd_title d, mt_page = fst (any_page f), mt_size = snd (any_page f),
           mt_total = any_total r, mt_warnings = any_warnings r\<rparr>, r))))"

section \<open>Exports\<close>

definition period_label :: "date option \<Rightarrow> date option \<Rightarrow> string" where
  "period_label from to =
     (case (from, to) of
        (Some a, Some b) \<Rightarrow> show_date a @ '' to '' @ show_date b
      | (Some a, None) \<Rightarrow> ''from '' @ show_date a
      | (None, Some b) \<Rightarrow> ''up to '' @ show_date b
      | (None, None) \<Rightarrow> ''all postings'')"

definition scope_rows :: "string \<Rightarrow> string \<Rightarrow> date option \<Rightarrow> date option \<Rightarrow> (string \<times> string option) list \<Rightarrow> string list list" where
  "scope_rows title now from to filters =
     [[title], [''Generated at'', now], [''Period'', period_label from to]]
     @ map (\<lambda>(k, v). [k, csv_text v]) (filter (\<lambda>(k, v). given v) filters)"

definition cells :: "(string \<Rightarrow> rat) \<Rightarrow> (string \<Rightarrow> string option) \<Rightarrow> (string \<times> string) list \<Rightarrow> string list \<Rightarrow> string list" where
  "cells number txt cols numerics =
     map (\<lambda>(k, _). if k \<in> set numerics then csv_money (number k) else csv_text (txt k)) cols"

text \<open>The totals of both reports are amounts.\<close>

fun totals_cells :: "(string \<times> rat) list \<Rightarrow> string \<Rightarrow> bool \<Rightarrow> (string \<times> string) list \<Rightarrow> string list \<times> bool" where
  "totals_cells values label labelled [] = ([], labelled)"
| "totals_cells values label labelled ((k, _) # cols) =
     (case map_of values k of
        Some x \<Rightarrow> (let (cs, b) = totals_cells values label labelled cols in (csv_money x # cs, b))
      | None \<Rightarrow> if \<not> labelled then (let (cs, b) = totals_cells values label True cols in (label # cs, b))
               else (let (cs, b) = totals_cells values label labelled cols in ([] # cs, b)))"

definition totals_row :: "(string \<times> rat) list \<Rightarrow> (string \<times> string) list \<Rightarrow> string \<Rightarrow> string list" where
  "totals_row values cols label =
     (let (cs, labelled) = totals_cells values label False cols in if labelled then cs else cs[0 := label])"

definition six_value :: "'a six_scheme \<Rightarrow> string \<Rightarrow> rat" where
  "six_value t k =
     (if k = ''openingDebit'' then opening_debit t else if k = ''openingCredit'' then opening_credit t
      else if k = ''periodDebit'' then period_debit t else if k = ''periodCredit'' then period_credit t
      else if k = ''closingDebit'' then closing_debit t else if k = ''closingCredit'' then closing_credit t else 0)"

definition tb_text :: "tb_item \<Rightarrow> string \<Rightarrow> string option" where
  "tb_text i k =
     (if k = ''accountCode'' then Some (ti_code i) else if k = ''accountName'' then Some (ti_name i)
      else if k = ''accountType'' then Some (ti_type i) else None)"

definition export_trial_balance :: "(string \<Rightarrow> string \<Rightarrow> bool) \<Rightarrow> string \<Rightarrow> 'a tb_filters_scheme \<Rightarrow> (string \<times> string) list \<Rightarrow>
    fdb \<Rightarrow> string list list res" where
  "export_trial_balance le now f cols db =
     ebind (trial_balance_rows le f db) (\<lambda>(items, control, from, to).
     Inr (scope_rows ''Trial Balance'' now from to
            [(''Account from'', tf_from f), (''Account to'', tf_to f), (''Fiscal year'', map_option show_int (rf_year f)),
             (''Balanced'', Some (if tc_balanced control then ''yes'' else ''no'')),
             (''Imbalance'', Some (csv_money (tc_imbalance control)))]
          @ map (\<lambda>w. [''Warning'', csv_text (Some w)]) (tc_warnings control)
          @ [[], map snd cols]
          @ map (\<lambda>i. cells (six_value i) (tb_text i) cols TRIAL_BALANCE_NUMERIC) items
          @ [[], totals_row (map (\<lambda>k. (k, six_value (tc_totals control) k)) TRIAL_BALANCE_NUMERIC) cols ''Totals'']))"

definition gl_number :: "gl_item \<Rightarrow> string \<Rightarrow> rat" where
  "gl_number i k =
     (if k = ''debit'' then gi_debit i else if k = ''credit'' then gi_credit i
      else if k = ''runningBalance'' then gi_running i else 0)"

definition gl_text :: "gl_item \<Rightarrow> string \<Rightarrow> string option" where
  "gl_text i k =
     (if k = ''postingDate'' then Some (show_date (gi_date i)) else if k = ''accountCode'' then Some (gi_code i)
      else if k = ''accountName'' then Some (gi_name i) else if k = ''journalNo'' then Some (gi_journal_no i)
      else if k = ''voucherType'' then Some (gi_type i) else if k = ''sourceDocument'' then gi_document i
      else if k = ''party'' then Some (gi_party i) else if k = ''description'' then gi_description i
      else if k = ''currency'' then Some (gi_currency i) else None)"

definition export_general_ledger :: "string \<Rightarrow> 'a gl_filters_scheme \<Rightarrow> (string \<times> string) list \<Rightarrow> fdb \<Rightarrow> string list list res" where
  "export_general_ledger now f cols db =
     ebind (resolve_range f db) (\<lambda>(from, to).
     let openings = ledger_opening_balances f from db;
         (total, debit, credit) = general_ledger_totals f from to db;
         opening = dec_sum_from 0 (map snd openings)
     in Inr (scope_rows ''General Ledger'' now from to
            [(''Account'', gf_account f), (''Party'', gf_party f), (''Voucher type'', gf_type f), (''Voucher no'', gf_no f),
             (''Currency'', gf_currency f), (''Rows'', Some (show_int (int total))),
             (''Opening balance'', Some (csv_money opening))]
          @ [[], map snd cols]
          @ map (\<lambda>r. let i = ledger_item r (opening_of openings (account_of (lr_line r)))
                      in cells (gl_number i) (gl_text i) cols GENERAL_LEDGER_NUMERIC)
              (general_ledger_statement f from to db)
          @ [[], totals_row [(''debit'', debit), (''credit'', credit), (''runningBalance'', dsub (dadd opening debit) credit)]
               cols ''Totals'']))"

definition run_export :: "(string \<Rightarrow> string \<Rightarrow> bool) \<Rightarrow> string \<Rightarrow> report_kind \<Rightarrow> any_filters \<Rightarrow> (string \<times> string) list \<Rightarrow>
    fdb \<Rightarrow> string list list res" where
  "run_export le now k f cols db =
     (case (k, f) of
        (TrialBalance, TbFilters t) \<Rightarrow> export_trial_balance le now t cols db
      | (GeneralLedger, GlFilters g) \<Rightarrow> export_general_ledger now g cols db
      | _ \<Rightarrow> wrong_filters)"

definition export_csv :: "auth_call \<Rightarrow> actor \<Rightarrow> (string \<Rightarrow> string \<Rightarrow> bool) \<Rightarrow> string \<Rightarrow> string \<Rightarrow> any_filters \<Rightarrow>
    string list option \<Rightarrow> fdb \<Rightarrow> string res res" where
  "export_csv c x le now key f requested db =
     ebind (require_some (map_of REPORTS key) (NotFound ''Unknown report.'')) (\<lambda>d.
     ebind (report_guard c x d) (\<lambda>_.
     ebind (selected_columns d requested) (\<lambda>cols.
     Inr (ebind (run_export le now (rd_kind d) f cols db) (\<lambda>rows.
       Inr (concat (map row_to_csv rows)))))))"

end
