(* ===== verification/ReportLemmas.thy ===== *)
theory ReportLemmas
  imports ReportEngine LedgerHistory
begin

text \<open>
  Facts about the queries of the ledger reports: sums over groups and over entries, and that the
  \<open>Decimal\<close> arithmetic of a report is exact as long as the ledger has fewer than a hundred million
  lines, so that no total needs more than 28 digits.
\<close>

section \<open>Exact arithmetic\<close>

text \<open>What the amount columns hold, and the size of the table.\<close>

definition columns_hold :: "fdb \<Rightarrow> bool" where
  "columns_hold db \<longleftrightarrow> length (rows (f_jlines db)) < 10 ^ 8
     \<and> (\<forall>l \<in> set (t_vals (f_jlines db)). money (jl_base_debit l) \<and> money (jl_base_credit l))"

definition amount_ok :: "rat \<Rightarrow> bool" where
  "amount_ok x \<longleftrightarrow> has_places 4 x \<and> \<bar>x\<bar> < 10 ^ 24"

lemma dec_round_amount: "amount_ok x \<Longrightarrow> dec_round x = x"
  by (rule dec_round_exact [of 4]) (simp_all add: amount_ok_def)

lemma dec_sum_amounts:
  assumes "\<And>x. x \<in> set xs \<Longrightarrow> has_places 4 x" and "sum_list (map abs xs) < 10 ^ 24"
  shows "dec_sum_from 0 xs = sum_list xs"
proof -
  have "dec_sum_from (sum_list ys) zs = sum_list (ys @ zs)" if "ys @ zs = xs" for ys zs
    using that
  proof (induction zs arbitrary: ys)
    case (Cons z zs)
    have split: "sum_list (map abs xs) = sum_list (map abs ys) + \<bar>z\<bar> + sum_list (map abs zs)"
      using Cons.prems by (simp flip: Cons.prems)
    have nonneg: "0 \<le> sum_list (map abs zs)" by (rule sum_list_nonneg) auto
    have "\<bar>sum_list (ys @ [z])\<bar> \<le> sum_list (map abs (ys @ [z]))" by (rule sum_list_abs)
    also have "\<dots> \<le> sum_list (map abs xs)" using split nonneg by simp
    finally have "\<bar>sum_list (ys @ [z])\<bar> < 10 ^ 24" using assms(2) by simp
    moreover have "has_places 4 (sum_list (ys @ [z]))" using assms(1) Cons.prems by (intro has_places_sum_list) auto
    ultimately have "dec_round (sum_list (ys @ [z])) = sum_list (ys @ [z])"
      by (intro dec_round_amount) (simp add: amount_ok_def)
    with Cons.IH [of "ys @ [z]"] Cons.prems show ?case by simp
  qed simp
  from this [of "[]" xs] show ?thesis by simp
qed

section \<open>Groups\<close>

lemma total_of_simps [simp]:
  "total_of f [] = 0" "total_of f (x # xs) = f x + total_of f xs" "total_of f (xs @ ys) = total_of f xs + total_of f ys"
  by (simp_all add: total_of_def)

lemma total_of_filter: "total_of f (filter P xs) = total_of (\<lambda>p. if P p then f p else 0) xs"
  by (induction xs) simp_all

lemma total_of_split: "total_of f (filter P xs) + total_of f (filter (\<lambda>p. \<not> P p) xs) = total_of f xs"
  by (induction xs) simp_all

lemma total_net: "total_of net_of xs = total_of base_debit xs - total_of base_credit xs"
  by (induction xs) (simp_all add: net_of_def)

lemma sum_list_distinct_single:
  "distinct ks \<Longrightarrow> sum_list (map (\<lambda>i. if i = k then x else 0) ks) = (if k \<in> set ks then x else (0 :: rat))"
  by (induction ks) auto

lemma total_of_groups: "total_of f xs = sum_list (map (\<lambda>i. total_of f (lines_on i xs)) ks)"
  if "distinct ks" "account_of ` set xs \<subseteq> set ks"
  using that(2)
proof (induction xs)
  case Nil
  then show ?case by (simp add: lines_on_def)
next
  case (Cons p xs)
  have "sum_list (map (\<lambda>i. total_of f (lines_on i (p # xs))) ks)
      = sum_list (map (\<lambda>i. (if i = account_of p then f p else 0) + total_of f (lines_on i xs)) ks)"
    by (rule arg_cong [where f = sum_list], rule map_cong) (auto simp: lines_on_def)
  also have "\<dots> = f p + sum_list (map (\<lambda>i. total_of f (lines_on i xs)) ks)"
    using that(1) Cons.prems by (simp add: sum_list_addf sum_list_distinct_single)
  finally show ?case using Cons by simp
qed

lemma total_of_accounts: "sum_list (map (\<lambda>i. total_of f (lines_on i xs)) (accounts_in xs)) = total_of f xs"
  by (rule total_of_groups [symmetric]) (simp_all add: accounts_in_def)

lemma total_of_accounts_filter:
  "sum_list (map (\<lambda>i. total_of f (filter P (lines_on i xs))) (accounts_in xs)) = total_of f (filter P xs)"
  unfolding total_of_filter by (rule total_of_accounts)

lemma mset_insert_by [simp]: "mset (insert_by le x xs) = add_mset x (mset xs)"
  by (induction xs) auto

lemma mset_sort_by [simp]: "mset (sort_by le xs) = mset xs"
  unfolding sort_by_def by (induction xs) auto

lemma sum_list_mset_cong: "mset xs = mset ys \<Longrightarrow> sum_list (map f xs) = sum_list (map (f :: _ \<Rightarrow> rat) ys)"
  by (metis mset_map sum_mset_sum_list)

section \<open>Volume\<close>

definition volume :: "posted_line list \<Rightarrow> rat" where
  "volume xs = total_of (\<lambda>p. \<bar>base_debit p\<bar> + \<bar>base_credit p\<bar>) xs"

definition lines_hold :: "posted_line list \<Rightarrow> bool" where
  "lines_hold xs \<longleftrightarrow> volume xs < 10 ^ 24 \<and> (\<forall>p \<in> set xs. has_places 4 (base_debit p) \<and> has_places 4 (base_credit p))"

lemma volume_nonneg: "0 \<le> volume xs"
  unfolding volume_def by (induction xs) simp_all

lemma volume_filter: "volume (filter P xs) \<le> volume xs"
  unfolding volume_def by (induction xs) auto

lemma lines_hold_filter: "lines_hold xs \<Longrightarrow> lines_hold (filter P xs)"
  using volume_filter [of P xs] by (auto simp: lines_hold_def)

lemma total_bounds:
  "\<bar>total_of base_debit xs\<bar> \<le> volume xs" "\<bar>total_of base_credit xs\<bar> \<le> volume xs" "\<bar>total_of net_of xs\<bar> \<le> volume xs"
proof -
  have "\<bar>total_of base_debit xs\<bar> + \<bar>total_of base_credit xs\<bar> \<le> volume xs"
    unfolding volume_def by (induction xs) auto
  then show "\<bar>total_of base_debit xs\<bar> \<le> volume xs" "\<bar>total_of base_credit xs\<bar> \<le> volume xs" "\<bar>total_of net_of xs\<bar> \<le> volume xs"
    by (auto simp: total_net)
qed

lemma total_places:
  assumes "lines_hold xs"
  shows "has_places 4 (total_of base_debit xs)" "has_places 4 (total_of base_credit xs)" "has_places 4 (total_of net_of xs)"
proof -
  have "has_places 4 (total_of base_debit xs)" "has_places 4 (total_of base_credit xs)"
    using assms unfolding total_of_def lines_hold_def by (auto intro!: has_places_sum_list)
  then show "has_places 4 (total_of base_debit xs)" "has_places 4 (total_of base_credit xs)" "has_places 4 (total_of net_of xs)"
    by (simp_all add: total_net has_places_diff)
qed

lemma total_amounts:
  assumes "lines_hold xs"
  shows "amount_ok (total_of base_debit xs)" "amount_ok (total_of base_credit xs)" "amount_ok (total_of net_of xs)"
  using total_places [OF assms] total_bounds [of xs] assms by (auto simp: amount_ok_def lines_hold_def)

lemma posted_lines_length: "length (posted_lines db) \<le> length (rows (f_jlines db))"
  unfolding posted_lines_def List.map_filter_def by (simp add: le_trans [OF length_filter_le])

lemma posted_line_row:
  assumes "p \<in> set (posted_lines db)"
  shows "(pl_id p, pl_line p) \<in> set (rows (f_jlines db))"
    and "t_get (f_journals db) (jl_journal (pl_line p)) = Some (pl_entry p)"
    and "t_get (f_accounts db) (account_of p) = Some (pl_account p)" and "je_status (pl_entry p) = ''POSTED''"
  using assms by (auto simp: posted_lines_def List.map_filter_def account_of_def split: option.splits if_splits)

lemma posted_lines_hold:
  assumes "columns_hold db"
  shows "lines_hold (posted_lines db)"
proof -
  have col: "money (base_debit p) \<and> money (base_credit p)" if "p \<in> set (posted_lines db)" for p
    using posted_line_row(1) [OF that] assms
    by (force simp: columns_hold_def t_vals_def base_debit_def base_credit_def)
  have "volume xs \<le> of_nat (length xs) * (2 * 10 ^ 15)" if "\<forall>p \<in> set xs. money (base_debit p) \<and> money (base_credit p)" for xs
    using that
  proof (induction xs)
    case (Cons p xs)
    then have "\<bar>base_debit p\<bar> < 10 ^ 15" "\<bar>base_credit p\<bar> < 10 ^ 15" by (auto simp: in_column_def fits_column_def)
    with Cons show ?case by (auto simp: volume_def algebra_simps)
  qed (simp add: volume_def)
  then have "volume (posted_lines db) \<le> of_nat (length (posted_lines db)) * (2 * 10 ^ 15)" using col by blast
  also have "\<dots> < 10 ^ 8 * (2 * 10 ^ 15)"
  proof (rule mult_strict_right_mono)
    have "length (posted_lines db) < 10 ^ 8" using posted_lines_length [of db] assms by (simp add: columns_hold_def)
    then show "rat_of_nat (length (posted_lines db)) < 10 ^ 8" by (metis of_nat_less_iff of_nat_numeral of_nat_power)
  qed simp
  also have "\<dots> < 10 ^ 24" by simp
  finally show ?thesis using col by (auto simp: lines_hold_def in_column_def)
qed

section \<open>The control of the trial balance\<close>

text \<open>The net of an account, opening, in the period and in all, is computed without rounding.\<close>

lemma balance_row_fields:
  "br_opening_debit (balance_row_of from xs i) = total_of base_debit (filter (before_from from) (lines_on i xs))"
  "br_opening_credit (balance_row_of from xs i) = total_of base_credit (filter (before_from from) (lines_on i xs))"
  "br_period_debit (balance_row_of from xs i) = total_of base_debit (filter (\<lambda>p. \<not> before_from from p) (lines_on i xs))"
  "br_period_credit (balance_row_of from xs i) = total_of base_credit (filter (\<lambda>p. \<not> before_from from p) (lines_on i xs))"
  by (simp_all add: balance_row_of_def Let_def)

lemma tb_item_exact:
  fixes start :: "date option" and k :: int
  assumes "lines_hold xs"
  defines "i \<equiv> tb_item_of (balance_row_of start xs k)"
  defines "opening \<equiv> total_of net_of (filter (before_from start) (lines_on k xs))"
  shows "opening_debit i = max opening 0" "opening_credit i = max (- opening) 0"
    "closing_debit i = max (total_of net_of (lines_on k xs)) 0" "closing_credit i = max (- total_of net_of (lines_on k xs)) 0"
    "period_debit i = total_of base_debit (filter (\<lambda>p. \<not> before_from start p) (lines_on k xs))"
    "period_credit i = total_of base_credit (filter (\<lambda>p. \<not> before_from start p) (lines_on k xs))"
proof -
  let ?own = "lines_on k xs"
  let ?open = "filter (before_from start) ?own" and ?rest = "filter (\<lambda>p. \<not> before_from start p) ?own"
  have own: "lines_hold ?own" unfolding lines_on_def by (rule lines_hold_filter [OF assms(1)])
  note h = own lines_hold_filter [OF own, of "before_from start"] lines_hold_filter [OF own, of "\<lambda>p. \<not> before_from start p"]
  have o: "dsub (total_of base_debit ?open) (total_of base_credit ?open) = opening"
    using dec_round_amount [OF total_amounts(3) [OF h(2)]] by (simp add: dsub_def opening_def total_net)
  have v: "volume ?open + volume ?rest = volume ?own" by (simp add: volume_def total_of_split)
  have "amount_ok (opening + total_of base_debit ?rest)"
  proof -
    have "\<bar>opening\<bar> \<le> volume ?open" and "\<bar>total_of base_debit ?rest\<bar> \<le> volume ?rest"
      using total_bounds by (auto simp: opening_def)
    then have "\<bar>opening + total_of base_debit ?rest\<bar> \<le> volume ?own" using v by linarith
    then show ?thesis using total_places(3) [OF h(2)] total_places(1) [OF h(3)] h(1)
      by (auto simp: amount_ok_def opening_def lines_hold_def intro: has_places_add)
  qed
  then have a: "dadd opening (total_of base_debit ?rest) = opening + total_of base_debit ?rest"
    by (simp add: dadd_def dec_round_amount)
  have n: "opening + total_of base_debit ?rest - total_of base_credit ?rest = total_of net_of ?own"
    using total_of_split [of net_of "before_from start" ?own] by (simp add: opening_def total_net)
  have c: "dsub (dadd opening (total_of base_debit ?rest)) (total_of base_credit ?rest) = total_of net_of ?own"
    using dec_round_amount [OF total_amounts(3) [OF h(1)]] by (simp add: dsub_def a n)
  show "opening_debit i = max opening 0" "opening_credit i = max (- opening) 0"
    "closing_debit i = max (total_of net_of ?own) 0" "closing_credit i = max (- total_of net_of ?own) 0"
    "period_debit i = total_of base_debit ?rest" "period_credit i = total_of base_credit ?rest"
    by (simp_all add: i_def tb_item_of_def balance_row_fields o c side_def Let_def split: prod.splits)
qed

lemma max_abs_le: "\<bar>max x 0\<bar> \<le> \<bar>x\<bar>" "\<bar>max (- x) 0\<bar> \<le> \<bar>x\<bar>" for x :: rat
  by (auto simp: max_def)

lemma sum_list_le_mono: "(\<And>x. x \<in> set xs \<Longrightarrow> f x \<le> g x) \<Longrightarrow> sum_list (map f xs) \<le> sum_list (map (g :: _ \<Rightarrow> rat) xs)"
  by (rule sum_list_mono)

text \<open>A column of the report whose entries stay within the volume of their account adds up exactly.\<close>

lemma column_exact:
  assumes "lines_hold xs" and "items = map (\<lambda>i. tb_item_of (balance_row_of from xs i)) ks" and "mset ks = mset (accounts_in xs)"
    and "\<And>i. has_places 4 (f (tb_item_of (balance_row_of from xs i)))"
    and "\<And>i. \<bar>f (tb_item_of (balance_row_of from xs i))\<bar> \<le> volume (lines_on i xs)"
  shows "dec_sum_from 0 (map f items) = sum_list (map (\<lambda>i. f (tb_item_of (balance_row_of from xs i))) (accounts_in xs))"
proof -
  have "dec_sum_from 0 (map f items) = sum_list (map f items)"
  proof (rule dec_sum_amounts)
    show "has_places 4 x" if "x \<in> set (map f items)" for x using that assms(2,4) by auto
    have "sum_list (map abs (map f items)) = sum_list (map (\<lambda>i. \<bar>f (tb_item_of (balance_row_of from xs i))\<bar>) ks)"
      by (simp add: assms(2) comp_def)
    also have "\<dots> \<le> sum_list (map (\<lambda>i. volume (lines_on i xs)) ks)" by (rule sum_list_le_mono) (rule assms(5))
    also have "\<dots> = volume xs"
      using sum_list_mset_cong [OF assms(3)] total_of_accounts by (simp add: volume_def)
    finally show "sum_list (map abs (map f items)) < 10 ^ 24" using assms(1) by (simp add: lines_hold_def)
  qed
  also have "\<dots> = sum_list (map (\<lambda>i. f (tb_item_of (balance_row_of from xs i))) ks)" by (simp add: assms(2) comp_def)
  finally show ?thesis using sum_list_mset_cong [OF assms(3)] by simp
qed

lemma sort_by_map_perm:
  "\<exists>ks. sort_by le (map g xs) = map g ks \<and> mset ks = mset xs"
proof -
  have "\<exists>ks. insert_by le (g x) (map g ys) = map g ks \<and> mset ks = add_mset x (mset ys)" for x ys
  proof (induction ys)
    case Nil
    show ?case by (rule exI [of _ "[x]"]) simp
  next
    case (Cons y ys)
    then obtain ks where "insert_by le (g x) (map g ys) = map g ks" "mset ks = add_mset x (mset ys)" by blast
    then show ?case
      by (cases "le (g x) (g y)") (auto intro: exI [of _ "x # y # ys"] exI [of _ "y # ks"])
  qed
  then show ?thesis
    unfolding sort_by_def by (induction xs) (auto, metis)
qed

lemma trial_balance_control:
  assumes hold: "lines_hold xs"
    and items: "items = map tb_item_of (sort_by le (map (balance_row_of from xs) (accounts_in xs)))"
  shows "tc_imbalance (trial_balance_totals items) = total_of net_of xs"
    and "tc_balanced (trial_balance_totals items)
       \<longleftrightarrow> total_of net_of xs = 0 \<and> total_of net_of (filter (\<lambda>p. \<not> before_from from p) xs) = 0"
proof -
  obtain ks where ks: "sort_by le (map (balance_row_of from xs) (accounts_in xs)) = map (balance_row_of from xs) ks"
    "mset ks = mset (accounts_in xs)" using sort_by_map_perm by blast
  have it: "items = map (\<lambda>i. tb_item_of (balance_row_of from xs i)) ks" by (simp add: items ks(1) comp_def)
  note ex = tb_item_exact [OF hold]
  have own: "lines_hold (lines_on i xs)" for i unfolding lines_on_def by (rule lines_hold_filter [OF hold])
  have within: "\<bar>max (total_of net_of (lines_on i xs)) 0\<bar> \<le> volume (lines_on i xs)"
    "\<bar>max (- total_of net_of (lines_on i xs)) 0\<bar> \<le> volume (lines_on i xs)" for i
    using order_trans [OF max_abs_le(1) total_bounds(3)] order_trans [OF max_abs_le(2) total_bounds(3)] by blast+
  have le: "total_of net_of (lines_on i xs) \<le> volume (lines_on i xs)" "- total_of net_of (lines_on i xs) \<le> volume (lines_on i xs)" for i
    using total_bounds(3) [of "lines_on i xs"] by (simp_all add: abs_le_iff)
  have pl: "has_places 4 (max (total_of net_of (lines_on i xs)) 0)" "has_places 4 (max (- total_of net_of (lines_on i xs)) 0)" for i
    using total_places(3) [OF own [of i]] by (simp_all add: max_def)
  let ?rest = "\<lambda>i. filter (\<lambda>p. \<not> before_from from p) (lines_on i xs)"
  have rb: "\<bar>total_of base_debit (?rest i)\<bar> \<le> volume (lines_on i xs)" "\<bar>total_of base_credit (?rest i)\<bar> \<le> volume (lines_on i xs)" for i
    using total_bounds [of "?rest i"] volume_filter [of "\<lambda>p. \<not> before_from from p" "lines_on i xs"] by linarith+
  have rp: "has_places 4 (total_of base_debit (?rest i))" "has_places 4 (total_of base_credit (?rest i))" for i
    using total_places [OF lines_hold_filter [OF own [of i]]] by auto
  define D C where "D = dec_sum_from 0 (map closing_debit items)" and "C = dec_sum_from 0 (map closing_credit items)"
  define PD PC where "PD = dec_sum_from 0 (map period_debit items)" and "PC = dec_sum_from 0 (map period_credit items)"
  have D: "D = sum_list (map (\<lambda>i. max (total_of net_of (lines_on i xs)) 0) (accounts_in xs))"
    unfolding D_def by (subst column_exact [OF hold it ks(2)]) (simp_all add: ex within pl le volume_nonneg)
  have C: "C = sum_list (map (\<lambda>i. max (- total_of net_of (lines_on i xs)) 0) (accounts_in xs))"
    unfolding C_def by (subst column_exact [OF hold it ks(2)]) (simp_all add: ex within pl le volume_nonneg)
  have PD: "PD = total_of base_debit (filter (\<lambda>p. \<not> before_from from p) xs)"
    unfolding PD_def by (subst column_exact [OF hold it ks(2)]) (simp_all add: ex rb rp total_of_accounts_filter)
  have PC: "PC = total_of base_credit (filter (\<lambda>p. \<not> before_from from p) xs)"
    unfolding PC_def by (subst column_exact [OF hold it ks(2)]) (simp_all add: ex rb rp total_of_accounts_filter)
  have "D - C = sum_list (map (\<lambda>i. total_of net_of (lines_on i xs)) (accounts_in xs))"
    unfolding D C by (simp add: sum_list_subtractf [symmetric] max_def cong: if_cong) (rule arg_cong [where f = sum_list], simp)
  then have DC: "D - C = total_of net_of xs" by (simp add: total_of_accounts)
  then have i: "dsub D C = total_of net_of xs"
    using dec_round_amount [OF total_amounts(3) [OF hold]] by (simp add: dsub_def)
  have p: "dsub PD PC = total_of net_of (filter (\<lambda>p. \<not> before_from from p) xs)"
    using dec_round_amount [OF total_amounts(3) [OF lines_hold_filter [OF hold]]] by (simp add: dsub_def PD PC flip: total_net)
  show "tc_imbalance (trial_balance_totals items) = total_of net_of xs"
    using i by (simp add: trial_balance_totals_def Let_def D_def C_def)
  show "tc_balanced (trial_balance_totals items)
       \<longleftrightarrow> total_of net_of xs = 0 \<and> total_of net_of (filter (\<lambda>p. \<not> before_from from p) xs) = 0"
    using i p by (simp add: trial_balance_totals_def Let_def D_def C_def PD_def PC_def)
qed

section \<open>Entries\<close>

text \<open>A report takes an entry with all its lines or not at all.\<close>

lemma sum_list_by_group:
  assumes "finite S"
  shows "sum_list (map g (filter (\<lambda>l. k l \<in> S) ls)) = (\<Sum>i\<in>S. sum_list (map g (filter (\<lambda>l. k l = i) ls)) :: rat)"
proof (induction ls)
  case (Cons l ls)
  have "(\<Sum>i\<in>S. sum_list (map g (filter (\<lambda>l. k l = i) (l # ls))))
      = (\<Sum>i\<in>S. (if k l = i then g l else 0) + sum_list (map g (filter (\<lambda>l. k l = i) ls)))"
    by (rule sum.cong) auto
  also have "\<dots> = (if k l \<in> S then g l else 0) + (\<Sum>i\<in>S. sum_list (map g (filter (\<lambda>l. k l = i) ls)))"
    using assms by (simp add: sum.distrib)
  finally show ?case using Cons by simp
qed simp

definition entries_where :: "(journal \<Rightarrow> bool) \<Rightarrow> fdb \<Rightarrow> int set" where
  "entries_where P db = {i. \<exists>e. t_get (f_journals db) i = Some e \<and> je_status e = ''POSTED'' \<and> P e}"

lemma bspec_tail: "\<forall>x \<in> set (y # ys). P x \<Longrightarrow> \<forall>x \<in> set ys. P x"
  by simp

lemma posted_total:
  assumes "\<And>l. l \<in> set (t_vals (f_jlines db)) \<Longrightarrow> \<exists>a. t_get (f_accounts db) (jl_account l) = Some a"
  shows "total_of (\<lambda>p. g (pl_line p)) (filter (\<lambda>p. P (pl_entry p)) (posted_lines db))
       = sum_list (map g (filter (\<lambda>l. jl_journal l \<in> entries_where P db) (t_vals (f_jlines db))))"
proof -
  let ?join = "\<lambda>(i, l). case t_get (f_journals db) (jl_journal l) of None \<Rightarrow> None
     | Some e \<Rightarrow> (case t_get (f_accounts db) (jl_account l) of None \<Rightarrow> None
        | Some a \<Rightarrow> if je_status e = ''POSTED'' then Some \<lparr>pl_id = i, pl_line = l, pl_entry = e, pl_account = a\<rparr> else None)"
  have "(\<forall>(i, l) \<in> set xs. \<exists>a. t_get (f_accounts db) (jl_account l) = Some a) \<Longrightarrow>
      total_of (\<lambda>p. g (pl_line p)) (filter (\<lambda>p. P (pl_entry p)) (List.map_filter ?join xs))
      = sum_list (map g (filter (\<lambda>l. jl_journal l \<in> entries_where P db) (map snd xs)))" for xs
  proof (induction xs)
    case (Cons x xs)
    obtain i l where x: "x = (i, l)" by fastforce
    with Cons.prems obtain a where a: "t_get (f_accounts db) (jl_account l) = Some a" by auto
    note IH = Cons.IH [OF bspec_tail [OF Cons.prems]]
    show ?case
    proof (cases "t_get (f_journals db) (jl_journal l)")
      case None
      with IH x show ?thesis by (simp add: map_filter_simps entries_where_def)
    next
      case (Some e)
      with IH x a show ?thesis by (auto simp: map_filter_simps entries_where_def)
    qed
  qed (simp add: List.map_filter_def)
  moreover have "\<forall>(i, l) \<in> set (rows (f_jlines db)). \<exists>a. t_get (f_accounts db) (jl_account l) = Some a"
    using assms by (force simp: t_vals_def)
  ultimately show ?thesis unfolding posted_lines_def t_vals_def by blast
qed

lemma posted_net_zero:
  assumes "\<And>l. l \<in> set (t_vals (f_jlines db)) \<Longrightarrow> \<exists>a. t_get (f_accounts db) (jl_account l) = Some a"
    and bal: "\<And>i e. t_get (f_journals db) i = Some e \<Longrightarrow> je_status e = ''POSTED'' \<Longrightarrow>
       sum_of jl_base_debit (entry_lines (f_jlines db) i) = sum_of jl_base_credit (entry_lines (f_jlines db) i)"
  shows "total_of net_of (filter (\<lambda>p. P (pl_entry p)) (posted_lines db)) = 0"
proof -
  let ?g = "\<lambda>l. jl_base_debit l - jl_base_credit l" and ?ls = "t_vals (f_jlines db)"
  let ?S = "entries_where P db \<inter> jl_journal ` set ?ls"
  have "net_of = (\<lambda>p. ?g (pl_line p))" by (simp add: net_of_def base_debit_def base_credit_def fun_eq_iff)
  then have "total_of net_of (filter (\<lambda>p. P (pl_entry p)) (posted_lines db))
      = sum_list (map ?g (filter (\<lambda>l. jl_journal l \<in> entries_where P db) ?ls))"
    using posted_total [OF assms(1), of ?g P] by simp
  also have "filter (\<lambda>l. jl_journal l \<in> entries_where P db) ?ls = filter (\<lambda>l. jl_journal l \<in> ?S) ?ls"
    by (rule filter_cong) auto
  also have "sum_list (map ?g \<dots>) = (\<Sum>i\<in>?S. sum_list (map ?g (filter (\<lambda>l. jl_journal l = i) ?ls)))"
    by (rule sum_list_by_group) simp
  also have "\<dots> = (\<Sum>i\<in>?S. 0)"
  proof (rule sum.cong [OF refl])
    fix i
    assume "i \<in> ?S"
    with bal show "sum_list (map ?g (filter (\<lambda>l. jl_journal l = i) ?ls)) = 0"
      by (auto simp: entries_where_def entry_lines_def sum_of_def sum_list_subtractf)
  qed
  finally show ?thesis by simp
qed

section \<open>The running balance of the general ledger\<close>

text \<open>A ledger account has at most one cash account, so no line is repeated.\<close>

definition fin_account_key :: "fin_account \<Rightarrow> int option" where
  "fin_account_key a = Some (fa_account a)"

lemma outer_join_single:
  assumes "table_ok (f_fin_accounts db)" and "unique_table fin_account_key (f_fin_accounts db)"
  shows "\<exists>r. outer_join db p = [r] \<and> lr_line r = p"
proof -
  let ?P = "\<lambda>a. fa_account a = account_of p"
  have "length (t_where ?P (f_fin_accounts db)) \<le> 1"
  proof (rule ccontr)
    assume "\<not> ?thesis"
    then obtain x y zs where xs: "t_where ?P (f_fin_accounts db) = x # y # zs"
      by (cases "t_where ?P (f_fin_accounts db)"; cases "tl (t_where ?P (f_fin_accounts db))") auto
    then have "x \<in> set (t_where ?P (f_fin_accounts db))" "y \<in> set (t_where ?P (f_fin_accounts db))" by simp_all
    then have "x \<in> set (rows (f_fin_accounts db))" "y \<in> set (rows (f_fin_accounts db))" "?P (snd x)" "?P (snd y)"
      by (auto simp: t_where_def)
    then have "fst x = fst y"
      using assms(2) unfolding unique_table_iff fin_account_key_def by (metis prod.collapse)
    moreover have "distinct (map fst (t_where ?P (f_fin_accounts db)))"
      using assms(1) unfolding t_where_def table_ok_def by (auto intro: distinct_map_filter)
    ultimately show False by (simp add: xs)
  qed
  then have "map fst (t_where ?P (f_fin_accounts db)) = [] \<or> (\<exists>i. map fst (t_where ?P (f_fin_accounts db)) = [i])"
    by (cases "t_where ?P (f_fin_accounts db)") (auto simp: le_Suc_eq)
  then show ?thesis by (auto simp: outer_join_def Let_def)
qed

lemma ledger_rows_lines:
  assumes "table_ok (f_fin_accounts db)" and "unique_table fin_account_key (f_fin_accounts db)"
  shows "map lr_line (concat (map (outer_join db) xs)) = xs"
proof (induction xs)
  case (Cons p xs)
  then show ?case using outer_join_single [OF assms, of p] by auto
qed simp

lemma total_of_map: "sum_list (map (f \<circ> lr_line) rs) = total_of f (map lr_line rs)"
  by (simp add: total_of_def)

lemma running_total:
  "running_balance rs r = total_of net_of (filter (\<lambda>q. account_of q = account_of (lr_line r) \<and> ledger_key q \<le> ledger_key (lr_line r))
     (map lr_line rs))"
  by (simp add: running_balance_def total_of_def filter_map comp_def)

lemma opening_of_balances:
  "opening_of (ledger_opening_balances f (Some d) db) i = total_of net_of (lines_on i (ledger_lines f (Some d) None None db))"
proof -
  let ?xs = "ledger_lines f (Some d) None None db"
  have "map_of (map (\<lambda>i. (i, total_of net_of (lines_on i ?xs))) ks) i
      = (if i \<in> set ks then Some (total_of net_of (lines_on i ?xs)) else None)" for ks
    by (induction ks) auto
  moreover have "lines_on i ?xs = []" if "i \<notin> set (accounts_in ?xs)"
    using that by (auto simp: accounts_in_def lines_on_def filter_empty_conv)
  ultimately show ?thesis by (auto simp: opening_of_def ledger_opening_balances_def Let_def)
qed

text \<open>Everything of an account up to a line, wherever the report starts.\<close>

definition balance_at :: "'a gl_filters_scheme \<Rightarrow> fdb \<Rightarrow> posted_line \<Rightarrow> rat" where
  "balance_at f db p = total_of net_of (filter (\<lambda>q. gl_matches f db q \<and> account_of q = account_of p \<and> ledger_key q \<le> ledger_key p)
     (posted_lines db))"

lemma ledger_key_date: "ledger_key q \<le> ledger_key p \<Longrightarrow> je_posting_date (pl_entry q) \<le> je_posting_date (pl_entry p)"
  "je_posting_date (pl_entry q) < je_posting_date (pl_entry p) \<Longrightarrow> ledger_key q \<le> ledger_key p"
  by (auto simp: ledger_key_def less_eq_prod_def)

lemma total_of_disjoint:
  assumes "\<And>p. p \<in> set xs \<Longrightarrow> \<not> (P p \<and> Q p)" and "\<And>p. p \<in> set xs \<Longrightarrow> R p = (P p \<or> Q p)"
  shows "total_of f (filter P xs) + total_of f (filter Q xs) = total_of f (filter R xs)"
proof -
  have "map (\<lambda>p. if R p then f p else 0) xs = map (\<lambda>p. (if P p then f p else 0) + (if Q p then f p else 0)) xs"
    by (rule map_cong [OF refl]) (use assms in force)
  then have "total_of f (filter R xs) = total_of (\<lambda>p. (if P p then f p else 0) + (if Q p then f p else 0)) xs"
    unfolding total_of_filter [of f R] unfolding total_of_def by (rule arg_cong [where f = sum_list])
  then show ?thesis by (simp add: total_of_filter) (simp add: total_of_def sum_list_addf)
qed

lemma running_from_opening:
  assumes "p \<in> set (ledger_lines f None from to db)"
  shows "total_of net_of (filter (\<lambda>q. account_of q = account_of p \<and> ledger_key q \<le> ledger_key p) (ledger_lines f None from to db))
       + opening_of (ledger_opening_balances f from db) (account_of p) = balance_at f db p"
proof -
  have p: "in_period None from to p" using assms by (simp add: ledger_lines_def)
  show ?thesis
  proof (cases "from")
    case None
    then have "opening_of (ledger_opening_balances f from db) (account_of p) = 0"
      by (simp add: opening_of_def ledger_opening_balances_def)
    moreover have "in_period None from to q" if "ledger_key q \<le> ledger_key p" for q
      using p ledger_key_date(1) [OF that] None by (cases to) (auto simp: in_period_def)
    then have "filter (\<lambda>q. account_of q = account_of p \<and> ledger_key q \<le> ledger_key p) (ledger_lines f None from to db)
        = filter (\<lambda>q. gl_matches f db q \<and> account_of q = account_of p \<and> ledger_key q \<le> ledger_key p) (posted_lines db)"
      unfolding ledger_lines_def filter_filter by (intro filter_cong) auto
    ultimately show ?thesis by (simp add: balance_at_def)
  next
    case (Some d)
    have d: "d \<le> je_posting_date (pl_entry p)" using p Some by (simp add: in_period_def)
    have upper: "pred_option (\<lambda>d. je_posting_date (pl_entry q) \<le> d) to" if "ledger_key q \<le> ledger_key p" for q
      using p ledger_key_date(1) [OF that] by (cases to) (auto simp: in_period_def)
    have early: "ledger_key q \<le> ledger_key p" if "je_posting_date (pl_entry q) < d" for q
      using ledger_key_date(2) [of q p] that d by auto
    show ?thesis
      unfolding Some opening_of_balances lines_on_def ledger_lines_def filter_filter balance_at_def
      by (rule total_of_disjoint) (use upper early Some in \<open>auto simp: in_period_def\<close>)
  qed
qed

end
