(* ===== verification/ReportProperties.thy ===== *)
theory ReportProperties
  imports ReportLemmas LedgerProperties
begin

text \<open>
  The correctness of the ledger reports: the control of the trial balance tells the truth about the
  books, the general ledger continues its balances across periods and pages, and an export reads back
  as the report it was made from.
\<close>

section \<open>Trial balance\<close>

definition single_currency :: "fdb \<Rightarrow> bool" where
  "single_currency db \<longleftrightarrow> (\<forall>l \<in> set (t_vals (f_jlines db)). jl_base_debit l = jl_debit l \<and> jl_base_credit l = jl_credit l)"

lemma trial_balance_parts:
  assumes "trial_balance le f db = Inr r"
  obtains "resolve_range f db = Inr (tr_from r, tr_to r)"
    and "trial_balance_rows le f db = Inr (map tb_item_of (trial_balance_balances le (tr_from r) (tr_to r) (tf_from f) (tf_to f) db),
       tr_control r, tr_from r, tr_to r)"
    and "tr_control r = trial_balance_totals (map tb_item_of (trial_balance_balances le (tr_from r) (tr_to r) (tf_from f) (tf_to f) db))"
  using assms by (auto simp: trial_balance_def trial_balance_rows_def res_iffs Let_def)

lemma books_net_zero:
  assumes reach: "reach initial fstep db" and "single_currency db"
  shows "total_of net_of (filter (\<lambda>p. P (pl_entry p)) (posted_lines db)) = 0"
proof (rule posted_net_zero)
  show "\<exists>a. t_get (f_accounts db) (jl_account l) = Some a" if "l \<in> set (t_vals (f_jlines db))" for l
    using setup_inv_D(4) [OF chart_setup.always [OF reach]] that by (auto simp: lines_on_chart_def)
  have "posted_ok (f_journals db) (f_jlines db)"
    using ledger_inv_D(1) [OF ledger.always [OF reach]] by (simp add: journals_ok_def)
  moreover have "sum_of jl_base_debit (entry_lines (f_jlines db) i) = sum_of jl_debit (entry_lines (f_jlines db) i)"
    "sum_of jl_base_credit (entry_lines (f_jlines db) i) = sum_of jl_credit (entry_lines (f_jlines db) i)" for i
    using assms(2) unfolding sum_of_def entry_lines_def single_currency_def
    by (auto intro!: arg_cong [where f = sum_list] map_cong)
  ultimately show "sum_of jl_base_debit (entry_lines (f_jlines db) i) = sum_of jl_base_credit (entry_lines (f_jlines db) i)"
    if "t_get (f_journals db) i = Some e" "je_status e = ''POSTED''" for i e
    using that by (simp add: posted_ok_def entry_ok_def)
qed

text \<open>C39. The control of a trial balance is exact: the imbalance it reports is the difference of the base
  debits and credits of the posted lines it covers, and it is balanced exactly when those of the
  period and those up to its end agree. On the books of every reachable database that is kept in one
  currency, a report that is not restricted to some accounts is balanced and warns of nothing.\<close>

theorem trial_balance_control_exact:
  assumes "reach initial fstep db" and "columns_hold db" and "trial_balance le f db = Inr r"
  defines "covered \<equiv> filter (in_trial_balance le (tr_to r) (tf_from f) (tf_to f)) (posted_lines db)"
  shows "tc_imbalance (tr_control r) = total_of base_debit covered - total_of base_credit covered
     \<and> (tc_balanced (tr_control r) \<longleftrightarrow>
          total_of base_debit covered = total_of base_credit covered
          \<and> total_of base_debit (filter (\<lambda>p. \<not> before_from (tr_from r) p) covered)
            = total_of base_credit (filter (\<lambda>p. \<not> before_from (tr_from r) p) covered))
     \<and> (single_currency db \<longrightarrow> \<not> given (tf_from f) \<longrightarrow> \<not> given (tf_to f) \<longrightarrow>
          tc_balanced (tr_control r) \<and> tc_warnings (tr_control r) = [] \<and> tc_imbalance (tr_control r) = 0)"
proof -
  have hold: "lines_hold covered" unfolding covered_def by (rule lines_hold_filter [OF posted_lines_hold [OF assms(2)]])
  have c: "tr_control r = trial_balance_totals (map tb_item_of (sort_by (\<lambda>r s. le (br_code r) (br_code s))
      (map (balance_row_of (tr_from r) covered) (accounts_in covered))))"
    using assms(3) by (rule trial_balance_parts) (simp add: trial_balance_balances_def covered_def Let_def)
  note control = trial_balance_control [OF hold refl, of "\<lambda>r s. le (br_code r) (br_code s)" "tr_from r", folded c]
  have bal: "tc_balanced (tr_control r) \<and> tc_warnings (tr_control r) = [] \<and> tc_imbalance (tr_control r) = 0"
    if sc: "single_currency db" and none: "\<not> given (tf_from f)" "\<not> given (tf_to f)"
  proof -
    define P where "P = (\<lambda>e :: journal. pred_option (\<lambda>d. je_posting_date e \<le> d) (tr_to r))"
    define Q where "Q = (\<lambda>e :: journal. P e \<and> \<not> (case tr_from r of None \<Rightarrow> False | Some d \<Rightarrow> je_posting_date e < d))"
    have "covered = filter (\<lambda>p. P (pl_entry p)) (posted_lines db)"
      and "filter (\<lambda>p. \<not> before_from (tr_from r) p) covered = filter (\<lambda>p. Q (pl_entry p)) (posted_lines db)"
      using none by (auto simp: covered_def in_trial_balance_def if_given_def P_def Q_def before_from_def intro!: filter_cong)
    then have "tc_balanced (tr_control r) \<and> tc_imbalance (tr_control r) = 0"
      using control books_net_zero [OF assms(1) sc] by simp
    moreover from this have "tc_warnings (tr_control r) = []"
      unfolding c by (simp add: trial_balance_totals_def Let_def)
    ultimately show ?thesis by simp
  qed
  show ?thesis
    using control bal by (simp add: total_net)
qed

definition demo_tb :: tb_filters where
  "demo_tb = \<lparr>rf_from = Some (Date 2024 5 11), rf_to = None, rf_year = None, rf_page = 1, rf_size = 50, tf_from = None, tf_to = None\<rparr>"

definition demo_le :: "string \<Rightarrow> string \<Rightarrow> bool" where
  "demo_le s t = (s \<le> t)"

lemma demo_columns: "columns_hold demo6" "single_currency demo6"
proof -
  have "length (rows (f_jlines demo6)) = 6" by code_simp
  moreover have "\<forall>l \<in> set (t_vals (f_jlines demo6)). money (jl_base_debit l) \<and> money (jl_base_credit l)"
    unfolding in_column_def fits_column_def by code_simp
  ultimately show "columns_hold demo6" by (simp add: columns_hold_def)
  show "single_currency demo6" unfolding single_currency_def by code_simp
qed

theorem trial_balance_control_exact_witness:
  "\<exists>r. trial_balance demo_le demo_tb demo6 = Inr r \<and> tc_balanced (tr_control r) \<and> length (posted_lines demo6) = 6"
proof -
  have g: "\<not> given (tf_from demo_tb)" "\<not> given (tf_to demo_tb)" by (simp_all add: demo_tb_def given_def)
  then obtain r where r: "trial_balance demo_le demo_tb demo6 = Inr r"
    by (simp add: trial_balance_def trial_balance_rows_def resolve_range_def demo_tb_def Let_def)
  have "length (posted_lines demo6) = 6" by code_simp
  with trial_balance_control_exact [OF demo_reach(3) demo_columns(1) r] demo_columns(2) r g show ?thesis by blast
qed

section \<open>General ledger\<close>

lemma general_ledger_parts:
  assumes "general_ledger f db = Inr r"
  shows "resolve_range f db = Inr (gr_from r, gr_to r)"
    and "gr_items r = map (\<lambda>x. ledger_item x (opening_of (ledger_opening_balances f (gr_from r) db) (account_of (lr_line x))))
       (general_ledger_page f (gr_from r) (gr_to r) db)"
    and "gr_total r = length (ledger_lines f None (gr_from r) (gr_to r) db)"
    and "gr_closing r = dsub (dadd (dec_sum_from 0 (map snd (ledger_opening_balances f (gr_from r) db)))
       (total_of base_debit (ledger_lines f None (gr_from r) (gr_to r) db))) (total_of base_credit (ledger_lines f None (gr_from r) (gr_to r) db))"
  using assms by (auto simp: general_ledger_def res_iffs Let_def general_ledger_totals_def)

lemma resolve_range_page: "resolve_range (f\<lparr>rf_page := k\<rparr>) db = resolve_range f db"
proof -
  have "rf_from (f\<lparr>rf_page := k\<rparr>) = rf_from f" "rf_to (f\<lparr>rf_page := k\<rparr>) = rf_to f" "rf_year (f\<lparr>rf_page := k\<rparr>) = rf_year f"
    by simp_all
  then show ?thesis unfolding resolve_range_def by (simp only:)
qed

text \<open>The pages are slices of one list.\<close>

definition ledger_items :: "'a gl_filters_scheme \<Rightarrow> date option \<Rightarrow> date option \<Rightarrow> fdb \<Rightarrow> gl_item list" where
  "ledger_items f from to db =
     map (\<lambda>x. ledger_item x (opening_of (ledger_opening_balances f from db) (account_of (lr_line x))))
       (general_ledger_statement f from to db)"

lemma ledger_statement_rows:
  fixes f :: "'a gl_filters_scheme"
  assumes "table_ok (f_fin_accounts db)" and "unique_table fin_account_key (f_fin_accounts db)"
  defines "xs \<equiv> \<lambda>from to. ledger_lines f None from to db"
  shows "length (general_ledger_statement f from to db) = length (xs from to)"
    and "x \<in> set (general_ledger_statement f from to db) \<Longrightarrow> lr_line x \<in> set (xs from to)
       \<and> lr_running x = total_of net_of (filter (\<lambda>q. account_of q = account_of (lr_line x) \<and> ledger_key q \<le> ledger_key (lr_line x)) (xs from to))"
proof -
  let ?rs = "concat (map (outer_join db) (xs from to))"
  have l: "map lr_line ?rs = xs from to" by (rule ledger_rows_lines [OF assms(1,2)])
  then have "length ?rs = length (xs from to)" by (metis length_map)
  then show "length (general_ledger_statement f from to db) = length (xs from to)"
    by (simp add: general_ledger_statement_def Let_def xs_def)
  assume "x \<in> set (general_ledger_statement f from to db)"
  then obtain r where r: "r \<in> set ?rs" "x = r\<lparr>lr_running := running_balance ?rs r\<rparr>"
    by (auto simp: general_ledger_statement_def Let_def xs_def)
  have "lr_line r \<in> set (map lr_line ?rs)" using r(1) by auto
  then show "lr_line x \<in> set (xs from to)
       \<and> lr_running x = total_of net_of (filter (\<lambda>q. account_of q = account_of (lr_line x) \<and> ledger_key q \<le> ledger_key (lr_line x)) (xs from to))"
    using r(2) by (simp add: running_total l)
qed

lemma opening_sum_exact:
  assumes "columns_hold db"
  shows "dec_sum_from 0 (map snd (ledger_opening_balances f start db))
    = total_of net_of (case start of None \<Rightarrow> [] | Some d \<Rightarrow> ledger_lines f (Some d) None None db)"
proof (cases start)
  case (Some d)
  let ?xs = "ledger_lines f (Some d) None None db"
  have hold: "lines_hold ?xs" unfolding ledger_lines_def by (rule lines_hold_filter [OF posted_lines_hold [OF assms]])
  have own: "lines_hold (lines_on i ?xs)" for i unfolding lines_on_def by (rule lines_hold_filter [OF hold])
  let ?ys = "map (\<lambda>i. total_of net_of (lines_on i ?xs)) (accounts_in ?xs)"
  have "dec_sum_from 0 ?ys = sum_list ?ys"
  proof (rule dec_sum_amounts)
    show "has_places 4 y" if "y \<in> set ?ys" for y using that total_places(3) [OF own] by auto
    have "sum_list (map abs ?ys) \<le> sum_list (map (\<lambda>i. volume (lines_on i ?xs)) (accounts_in ?xs))"
      unfolding map_map comp_def by (rule sum_list_le_mono) (rule total_bounds(3))
    also have "\<dots> = volume ?xs" unfolding volume_def by (rule total_of_accounts)
    finally show "sum_list (map abs ?ys) < 10 ^ 24" using hold by (simp add: lines_hold_def)
  qed
  then show ?thesis by (simp add: ledger_opening_balances_def Some Let_def comp_def total_of_accounts)
qed (simp add: ledger_opening_balances_def)

text \<open>Opening and period are what happened up to the end of the period.\<close>

lemma closing_of_range:
  assumes "columns_hold db"
    and "c = dsub (dadd (dec_sum_from 0 (map snd (ledger_opening_balances f start db)))
       (total_of base_debit (ledger_lines f None start to db))) (total_of base_credit (ledger_lines f None start to db))"
    and range: "pred_option (\<lambda>a. pred_option (\<lambda>b. a \<le> b) to) start"
  shows "c = total_of net_of (filter (\<lambda>p. gl_matches f db p
       \<and> pred_option (\<lambda>d. je_posting_date (pl_entry p) \<le> d) to) (posted_lines db))" (is "_ = total_of net_of ?all")
proof -
  let ?old = "case start of None \<Rightarrow> [] | Some d \<Rightarrow> ledger_lines f (Some d) None None db"
  let ?new = "ledger_lines f None start to db"
  have hold: "lines_hold (posted_lines db)" by (rule posted_lines_hold [OF assms(1)])
  have holds: "lines_hold ?old" "lines_hold ?new" "lines_hold ?all"
    using lines_hold_filter [OF hold] by (auto simp: ledger_lines_def lines_hold_def volume_def split: option.splits)
  have sums: "total_of f' ?old + total_of f' ?new = total_of f' ?all" for f'
  proof (cases start)
    case None
    then have "?new = ?all" by (auto simp: ledger_lines_def in_period_def intro!: filter_cong)
    then show ?thesis using None by simp
  next
    case (Some d)
    show ?thesis unfolding Some option.case ledger_lines_def
      by (rule total_of_disjoint) (use range Some in \<open>auto simp: in_period_def pred_option_def\<close>)
  qed
  then have "volume ?old + volume ?new = volume ?all" unfolding volume_def .
  then have "\<bar>total_of net_of ?old + total_of base_debit ?new\<bar> \<le> volume ?all"
    using total_bounds(3) [of ?old] total_bounds(1) [of ?new] by linarith
  then have "amount_ok (total_of net_of ?old + total_of base_debit ?new)"
    using total_places(3) [OF holds(1)] total_places(1) [OF holds(2)] holds(3)
    by (auto simp: amount_ok_def lines_hold_def intro: has_places_add)
  then have "dadd (total_of net_of ?old) (total_of base_debit ?new) = total_of net_of ?old + total_of base_debit ?new"
    by (simp add: dadd_def dec_round_amount)
  moreover have "total_of net_of ?old + total_of base_debit ?new - total_of base_credit ?new = total_of net_of ?all"
    using sums [of net_of] by (simp add: total_net [of ?new])
  ultimately have "c = dec_round (total_of net_of ?all)"
    unfolding assms(2) opening_sum_exact [OF assms(1)] dsub_def by simp
  then show ?thesis using total_amounts(3) [OF holds(3)] by (simp add: dec_round_amount)
qed

text \<open>C40. The general ledger continues its balances. Whatever date the report starts at and whatever page
  is asked for, the running balance of a row is the balance of all posted lines of its account that
  match the filters up to that row; the pages are slices of one list of as many rows as the report
  says; and when the range is in order the closing balance is that of all matching lines up to its end.\<close>

theorem general_ledger_continues:
  fixes f :: "'a gl_filters_scheme"
  assumes "columns_hold db" and "table_ok (f_fin_accounts db)" and "unique_table fin_account_key (f_fin_accounts db)"
    and "general_ledger f db = Inr r"
  defines "items \<equiv> ledger_items f (gr_from r) (gr_to r) db"
  shows "gr_items r = page_of f items \<and> length items = gr_total r
     \<and> (\<forall>k. \<exists>s. general_ledger (f\<lparr>rf_page := k\<rparr>) db = Inr s \<and> gr_items s = page_of (f\<lparr>rf_page := k\<rparr>) items)
     \<and> (\<forall>i \<in> set items. \<exists>p \<in> set (posted_lines db). gi_id i = show_int (pl_id p) \<and> gl_matches f db p
          \<and> gi_running i = balance_at f db p)
     \<and> (pred_option (\<lambda>a. pred_option (\<lambda>b. a \<le> b) (gr_to r)) (gr_from r) \<longrightarrow>
          gr_closing r = total_of net_of (filter (\<lambda>p. gl_matches f db p
            \<and> pred_option (\<lambda>d. je_posting_date (pl_entry p) \<le> d) (gr_to r)) (posted_lines db)))"
proof -
  note parts = general_ledger_parts [OF assms(4)]
  let ?xs = "ledger_lines f None (gr_from r) (gr_to r) db"
  have hold: "lines_hold (posted_lines db)" by (rule posted_lines_hold [OF assms(1)])
  have pages: "gr_items r = page_of f items"
    by (simp add: parts(2) items_def ledger_items_def general_ledger_page_def page_of_def take_map drop_map)
  have total: "length items = gr_total r"
    by (simp add: items_def ledger_items_def parts(3) ledger_statement_rows(1) [OF assms(2,3)])
  have others: "\<exists>s. general_ledger (f\<lparr>rf_page := k\<rparr>) db = Inr s \<and> gr_items s = page_of (f\<lparr>rf_page := k\<rparr>) items" for k
  proof -
    have m: "gl_matches (f\<lparr>rf_page := k\<rparr>) = gl_matches f" by (simp add: gl_matches_def fun_eq_iff)
    have ll: "ledger_lines (f\<lparr>rf_page := k\<rparr>) b d e db' = ledger_lines f b d e db'" for b d e db' by (simp add: ledger_lines_def m)
    have st: "general_ledger_statement (f\<lparr>rf_page := k\<rparr>) = general_ledger_statement f"
      "ledger_opening_balances (f\<lparr>rf_page := k\<rparr>) = ledger_opening_balances f"
      by (simp_all add: general_ledger_statement_def ledger_opening_balances_def ll fun_eq_iff split: option.splits)
    have "resolve_range (f\<lparr>rf_page := k\<rparr>) db = Inr (gr_from r, gr_to r)" using parts(1) by (simp add: resolve_range_page)
    then show ?thesis
      by (simp add: general_ledger_def Let_def general_ledger_totals_def general_ledger_page_def st ll
          items_def ledger_items_def page_of_def take_map drop_map)
  qed
  have running: "\<exists>p \<in> set (posted_lines db). gi_id i = show_int (pl_id p) \<and> gl_matches f db p \<and> gi_running i = balance_at f db p"
    if i: "i \<in> set items" for i
  proof -
    from i obtain x where x: "x \<in> set (general_ledger_statement f (gr_from r) (gr_to r) db)"
      "i = ledger_item x (opening_of (ledger_opening_balances f (gr_from r) db) (account_of (lr_line x)))"
      by (auto simp: items_def ledger_items_def)
    note row = ledger_statement_rows(2) [OF assms(2,3) x(1)]
    then have p: "lr_line x \<in> set ?xs" by simp
    have "lr_running x + opening_of (ledger_opening_balances f (gr_from r) db) (account_of (lr_line x)) = balance_at f db (lr_line x)"
      using running_from_opening [OF p] row by simp
    moreover have "amount_ok (balance_at f db (lr_line x))"
      unfolding balance_at_def by (rule total_amounts(3) [OF lines_hold_filter [OF hold]])
    ultimately have "gi_running i = balance_at f db (lr_line x)"
      by (simp add: x(2) ledger_item_def Let_def dadd_def dec_round_amount)
    then show ?thesis using p by (auto simp: x(2) ledger_item_def Let_def ledger_lines_def)
  qed
  show ?thesis using pages total others running closing_of_range [OF assms(1) parts(4)] by blast
qed

definition demo_gl :: gl_filters where
  "demo_gl = \<lparr>rf_from = Some (Date 2024 5 10), rf_to = Some (Date 2024 5 31), rf_year = None, rf_page = 1, rf_size = 4,
     gf_account = None, gf_party = None, gf_type = None, gf_no = None, gf_currency = None\<rparr>"

theorem general_ledger_continues_witness:
  "\<exists>r. general_ledger demo_gl demo6 = Inr r \<and> gr_total r = 6
     \<and> (\<forall>i \<in> set (ledger_items demo_gl (gr_from r) (gr_to r) demo6). \<exists>p \<in> set (posted_lines demo6). gi_running i = balance_at demo_gl demo6 p)
     \<and> gr_closing r = total_of net_of (filter (\<lambda>p. gl_matches demo_gl demo6 p
            \<and> je_posting_date (pl_entry p) \<le> Date 2024 5 31) (posted_lines demo6))"
proof -
  have range: "resolve_range demo_gl demo6 = Inr (Some (Date 2024 5 10), Some (Date 2024 5 31))"
    by (simp add: resolve_range_def demo_gl_def)
  then obtain r where r: "general_ledger demo_gl demo6 = Inr r" "gr_from r = Some (Date 2024 5 10)" "gr_to r = Some (Date 2024 5 31)"
    by (fastforce simp: general_ledger_def Let_def split: prod.splits)
  have "length (ledger_lines demo_gl None (Some (Date 2024 5 10)) (Some (Date 2024 5 31)) demo6) = 6" by code_simp
  then have n: "gr_total r = 6" using general_ledger_parts(3) [OF r(1)] r(2,3) by simp
  have t: "table_ok (f_fin_accounts demo6)" "unique_table fin_account_key (f_fin_accounts demo6)"
    unfolding table_ok_def by code_simp+
  show ?thesis
    using general_ledger_continues [OF demo_columns(1) t r(1)] r n by (intro exI [of _ r]) auto
qed

end
