(* ===== verification/ExportProperties.thy ===== *)
theory ExportProperties
  imports ReportProperties AuthProperties
begin

text \<open>
  The correctness of an export: only a caller with the permission of the report gets one, and reading
  its text back gives the rows of the report, with no cell a spreadsheet would run.
\<close>

definition cell_safe :: "string \<Rightarrow> bool" where
  "cell_safe s \<longleftrightarrow> (case s of [] \<Rightarrow> True | c # _ \<Rightarrow> c \<notin> set FORMULA_STARTS \<and> (c = CHR ''-'' \<longrightarrow> is_number s))"

lemma cell_safe_text: "cell_safe (csv_text v)"
  using csv_text_safe [of v] by (auto simp: cell_safe_def split: list.splits)

lemma cell_safe_money: "cell_safe (csv_money x)"
  using csv_money_safe [of x] by (auto simp: cell_safe_def split: list.splits)

lemma cell_safe_words:
  "cell_safe []" "cell_safe ''Totals''" "cell_safe ''Warning''"
  by (simp_all add: cell_safe_def FORMULA_STARTS_def)

text \<open>A row of the body is as wide as the columns, and so is the row of the totals.\<close>

definition row_safe :: "nat \<Rightarrow> string list \<Rightarrow> bool" where
  "row_safe n row \<longleftrightarrow> length row = n \<and> list_all cell_safe row"

lemma cells_safe: "row_safe (length cols) (cells num txt cols numerics)"
  by (auto simp: row_safe_def cells_def list_all_iff cell_safe_text cell_safe_money)

lemma totals_cells_safe:
  "cell_safe label \<Longrightarrow> row_safe (length cols) (fst (totals_cells vs label b cols))"
  by (induction vs label b cols rule: totals_cells.induct)
    (auto simp: row_safe_def Let_def cell_safe_money cell_safe_words split: option.splits prod.splits)

lemma totals_row_safe: "row_safe (length cols) (totals_row vs cols ''Totals'')"
proof -
  obtain cs b where cs: "totals_cells vs ''Totals'' False cols = (cs, b)" by fastforce
  then have "row_safe (length cols) cs" using totals_cells_safe [of "''Totals''" cols vs False] cell_safe_words by simp
  then show ?thesis
    using cell_safe_words(2)
    by (auto simp: totals_row_def cs row_safe_def list_all_iff dest: set_update_subset_insert [THEN subsetD])
qed

text \<open>What precedes the table: title, time and period, then a label with a safe value per row.\<close>

definition scope_safe :: "string list list \<Rightarrow> bool" where
  "scope_safe head \<longleftrightarrow> 3 \<le> length head \<and> list_all (\<lambda>row. length row = 2 \<and> cell_safe (last row)) (drop 3 head)"

lemma scope_rows_safe: "scope_safe (scope_rows title now from to fs)"
  by (auto simp: scope_safe_def scope_rows_def list_all_iff cell_safe_text)

lemma scope_safe_warnings: "scope_safe head \<Longrightarrow> scope_safe (head @ map (\<lambda>w. [''Warning'', csv_text (Some w)]) ws)"
  by (auto simp: scope_safe_def list_all_iff cell_safe_text)

lemma run_export_shape:
  assumes "run_export le now k f cols db = Inr out"
  shows "\<exists>head body foot. out = head @ [[], map snd cols] @ body @ [[], foot] \<and> scope_safe head
     \<and> list_all (row_safe (length cols)) body \<and> row_safe (length cols) foot"
proof (cases k; cases f)
  fix t
  assume "k = TrialBalance" "f = TbFilters t"
  with assms obtain items control frm to where t: "trial_balance_rows le t db = Inr (items, control, frm, to)"
    by (auto simp: run_export_def export_trial_balance_def ebind_Inr_iff)
  have r: "out = (scope_rows ''Trial Balance'' now frm to
            [(''Account from'', tf_from t), (''Account to'', tf_to t), (''Fiscal year'', map_option show_int (rf_year t)),
             (''Balanced'', Some (if tc_balanced control then ''yes'' else ''no'')),
             (''Imbalance'', Some (csv_money (tc_imbalance control)))]
          @ map (\<lambda>w. [''Warning'', csv_text (Some w)]) (tc_warnings control))
          @ [[], map snd cols]
          @ map (\<lambda>i. cells (six_value i) (tb_text i) cols TRIAL_BALANCE_NUMERIC) items
          @ [[], totals_row (map (\<lambda>k. (k, six_value (tc_totals control) k)) TRIAL_BALANCE_NUMERIC) cols ''Totals'']"
    using assms \<open>k = TrialBalance\<close> \<open>f = TbFilters t\<close> by (simp add: run_export_def export_trial_balance_def t)
  show ?thesis
    unfolding r by (intro exI conjI, rule refl)
      (simp_all add: scope_safe_warnings scope_rows_safe cells_safe totals_row_safe list_all_iff)
next
  fix g
  assume "k = GeneralLedger" "f = GlFilters g"
  with assms obtain frm to where t: "resolve_range g db = Inr (frm, to)"
    by (auto simp: run_export_def export_general_ledger_def ebind_Inr_iff)
  have "\<exists>fs openings vs. out = scope_rows ''General Ledger'' now frm to fs
          @ [[], map snd cols]
          @ map (\<lambda>r. let i = ledger_item r (opening_of openings (account_of (lr_line r)))
                      in cells (gl_number i) (gl_text i) cols GENERAL_LEDGER_NUMERIC)
              (general_ledger_statement g frm to db)
          @ [[], totals_row vs cols ''Totals'']"
    using assms \<open>k = GeneralLedger\<close> \<open>f = GlFilters g\<close>
    by (auto simp: run_export_def export_general_ledger_def t general_ledger_totals_def Let_def)
  then obtain fs openings vs where r: "out = scope_rows ''General Ledger'' now frm to fs
          @ [[], map snd cols]
          @ map (\<lambda>r. let i = ledger_item r (opening_of openings (account_of (lr_line r)))
                      in cells (gl_number i) (gl_text i) cols GENERAL_LEDGER_NUMERIC)
              (general_ledger_statement g frm to db)
          @ [[], totals_row vs cols ''Totals'']"
    by blast
  show ?thesis
    unfolding r by (intro exI conjI, rule refl)
      (simp_all add: scope_rows_safe cells_safe totals_row_safe list_all_iff Let_def)
qed (use assms in \<open>auto simp: run_export_def wrong_filters_def\<close>)

lemma rows_below_text: "length rs \<le> length (concat (map row_to_csv rs))"
proof (induction rs)
  case (Cons r rs)
  moreover have "1 \<le> length (row_to_csv r)" using row_to_csv_not_empty [of r] by (cases "row_to_csv r") auto
  ultimately show ?case by simp
qed simp

text \<open>C24. An export is given only to a caller with the permission of the report or the one for all
  reports. Reading its text back gives exactly the rows it was made of: what precedes the table, the
  headings of the selected columns, one row as wide as the headings for every row of the report, and
  the totals. None of the cells of the table, nor a filter value shown above it, starts a formula, a
  negative number apart; and every amount of four places is read back as the amount it was.\<close>

theorem export_reads_back:
  assumes "export_csv c x le now key f requested db = Inr (Inr csv)"
  shows "\<exists>d cols head body foot. map_of REPORTS key = Some d
     \<and> (has_permission c x (rd_permission d) \<or> has_permission c x ''report.read'')
     \<and> selected_columns d requested = Inr cols
     \<and> run_export le now (rd_kind d) f cols db = Inr (head @ [[], map snd cols] @ body @ [[], foot])
     \<and> read_lines (length csv) csv = Some (head @ [[], map snd cols] @ body @ [[], foot])
     \<and> scope_safe head \<and> list_all (row_safe (length cols)) body \<and> row_safe (length cols) foot
     \<and> (\<forall>a. money a \<longrightarrow> decimal_of (PStr (csv_money a)) = Some (DFin a))"
proof -
  from assms obtain d cols out where d: "map_of REPORTS key = Some d" "report_guard c x d = Inr ()"
    "selected_columns d requested = Inr cols" and out: "run_export le now (rd_kind d) f cols db = Inr out"
    and csv: "csv = concat (map row_to_csv out)"
    by (auto simp: export_csv_def res_iffs)
  from run_export_shape [OF out] obtain head body foot where shape: "out = head @ [[], map snd cols] @ body @ [[], foot]"
    "scope_safe head" "list_all (row_safe (length cols)) body" "row_safe (length cols) foot" by blast
  have "read_lines (length csv) csv = Some out"
    unfolding csv by (rule read_lines_rows) (rule rows_below_text)
  moreover have "decimal_of (PStr (csv_money a)) = Some (DFin a)" if "money a" for a
    using that csv_money_exact by (simp add: in_column_def)
  ultimately show ?thesis using d out shape by (auto simp: report_guard_def)
qed

theorem export_reads_back_witness:
  "\<exists>csv head body foot. export_csv holder_call holder demo_le ''now'' ''general-ledger'' (GlFilters demo_gl) (Some [''debit'']) demo6 = Inr (Inr csv)
     \<and> read_lines (length csv) csv = Some (head @ [[], [''Debit'']] @ body @ [[], foot]) \<and> list_all (row_safe 1) body"
proof -
  have p: "has_permission holder_call holder ''report.read''"
  proof -
    obtain r a where "split_code ''report.read'' = (r, a)" by fastforce
    then show ?thesis by (simp add: has_permission_def can_def holder_call_def holder_def demo_call_def flat_casbin_def enforce_def)
  qed
  have "\<exists>csv. export_csv holder_call holder demo_le ''now'' ''general-ledger'' (GlFilters demo_gl) (Some [''debit'']) demo6 = Inr (Inr csv)"
    using p by (simp add: export_csv_def report_guard_def REPORTS_def selected_columns_def GENERAL_LEDGER_COLUMNS_def
        run_export_def export_general_ledger_def resolve_range_def demo_gl_def Let_def split: prod.splits)
  then obtain csv where csv: "export_csv holder_call holder demo_le ''now'' ''general-ledger'' (GlFilters demo_gl) (Some [''debit'']) demo6 = Inr (Inr csv)" ..
  from export_reads_back [OF csv] obtain d cols head body foot where e: "map_of REPORTS ''general-ledger'' = Some d"
    "selected_columns d (Some [''debit'']) = Inr cols" "read_lines (length csv) csv = Some (head @ [[], map snd cols] @ body @ [[], foot])"
    "list_all (row_safe (length cols)) body" by (elim exE conjE) (rule that, assumption+)
  have "selected_columns (the (map_of REPORTS ''general-ledger'')) (Some [''debit'']) = Inr [(''debit'', ''Debit'')]" by code_simp
  then have "cols = [(''debit'', ''Debit'')]" using e(1,2) by simp
  with csv e(3,4) show ?thesis by (intro exI [of _ csv] exI [of _ head] exI [of _ body] exI [of _ foot]) simp
qed

end
