(* ===== verification/QuotationModel.thy ===== *)
theory QuotationModel
  imports FinanceBasics
begin

text \<open>
  The data model of the quotation workflow: \<open>modules/quotations/models.py\<close>, the service-order tables of
  \<open>modules/operations/models.py\<close> a conversion writes, the columns of the master-data tables both modules
  read, and the request schemas of \<open>quotations/schemas.py\<close>, \<open>master_data/route_stops.py\<close> and
  \<open>operations/schemas.py\<close>.

  A route stop of a quotation revision and one of a service order are the same record; a revision's stop
  leaves the two columns only an order has at their defaults. The JSON column \<open>data\<close> of a quotation and
  of an order holds the values before encoding: an amount that is stored through \<open>float\<close> is its decimal.
  Document numbers, fee types, currencies and the tables that block the deletion of an order are those of
  the finance database \<open>q_books\<close>.
\<close>

section \<open>Rows\<close>

subsection \<open>Master data\<close>

record trade_party =
  bp_code :: string
  bp_legal :: string
  bp_display :: "string option"
  bp_roles :: "string list"
  bp_status :: string
  bp_deleted :: bool

record direction =
  td_code :: string
  td_name :: string
  td_status :: string
  td_deleted :: bool

record place_role =
  plr_code :: string
  plr_name :: string
  plr_status :: string

record container_type =
  bt_code :: string
  bt_name :: string
  bt_status :: string
  bt_deleted :: bool

record transport_type =
  tt_code :: string
  tt_name :: string
  tt_deleted :: bool

subsection \<open>Quotations\<close>

record quotation =
  qn_no :: string
  qn_party :: int
  qn_direction :: int
  qn_status :: string
  qn_revision_no :: int
  qn_source :: "int option"
  qn_data :: payload

record revision =
  rv_quotation :: int
  rv_no :: int
  rv_status :: string
  rv_date :: date
  rv_valid :: "date option"
  rv_currency :: string
  rv_description :: "string option"
  rv_notes :: "string option"
  rv_subtotal :: rat
  rv_discount :: rat
  rv_tax :: rat
  rv_total :: rat
  rv_created_by :: "int option"
  rv_sent :: "int option"
  rv_accepted :: "int option"
  rv_rejected :: "int option"
  rv_data :: payload

record stop =
  sp_parent :: int
  sp_role_id :: "int option"
  sp_role :: string
  sp_sequence :: int
  sp_planned :: "int option"
  sp_actual :: "int option"
  sp_is_actual :: bool
  sp_text :: "string option"
  sp_notes :: "string option"

record box =
  bx_revision :: int
  bx_type :: int
  bx_quantity :: rat
  bx_gross :: "rat option"
  bx_description :: "string option"
  bx_remarks :: "string option"

record qline =
  ql_revision :: int
  ql_no :: int
  ql_fee_type :: "int option"
  ql_description :: string
  ql_quantity :: rat
  ql_unit :: "string option"
  ql_unit_price :: rat
  ql_discount_rate :: rat
  ql_tax_rate :: rat
  ql_subtotal :: rat
  ql_discount :: rat
  ql_tax :: rat
  ql_total :: rat

record conversion =
  cv_revision :: int
  cv_order :: int
  cv_by :: "int option"
  cv_at :: int
  cv_key :: "string option"

subsection \<open>Service orders\<close>

record order =
  so_number :: string
  so_revision :: "int option"
  so_party :: int
  so_direction :: int
  so_status :: string
  so_currency_code :: string
  so_description :: "string option"
  so_created_by :: "int option"
  so_config :: "int option"
  so_data :: payload

record requirement =
  rm_order :: int
  rm_source :: "int option"
  rm_type :: int
  rm_quantity :: rat
  rm_gross :: "rat option"
  rm_description :: "string option"
  rm_remarks :: "string option"

record container =
  ct_order :: int
  ct_requirement :: "int option"
  ct_type :: int
  ct_number :: "string option"
  ct_status :: string
  ct_gross :: "rat option"
  ct_data :: payload

record pricing =
  pg_order :: int
  pg_subtotal :: rat
  pg_discount :: rat
  pg_tax :: rat
  pg_total :: rat
  pg_currency :: string

record pricing_line =
  pn_pricing :: int
  pn_no :: int
  pn_source :: "int option"
  pn_fee_type :: "int option"
  pn_description :: string
  pn_quantity :: rat
  pn_unit :: "string option"
  pn_unit_price :: rat
  pn_discount_rate :: rat
  pn_tax_rate :: rat
  pn_total :: rat

section \<open>The database and the call\<close>

text \<open>\<open>q_published\<close> is the configuration version \<open>config_versions.current_published_id\<close> returns.\<close>

record qdb =
  q_books :: fdb
  q_parties :: "trade_party table"
  q_directions :: "direction table"
  q_roles :: "place_role table"
  q_types :: "container_type table"
  q_transports :: "transport_type table"
  q_published :: "int option"
  q_quotations :: "quotation table"
  q_revisions :: "revision table"
  q_stops :: "stop table"
  q_boxes :: "box table"
  q_lines :: "qline table"
  q_conversions :: "conversion table"
  q_orders :: "order table"
  q_order_stops :: "stop table"
  q_requirements :: "requirement table"
  q_containers :: "container table"
  q_pricings :: "pricing table"
  q_pricing_lines :: "pricing_line table"

text \<open>
  What a call brings beside its request: the party codes \<open>new_party_code\<close> draws, one per attempt (clock and
  random suffix), and the standard library's \<open>datetime.fromisoformat\<close> and \<open>isoformat\<close>.
\<close>

record qcall =
  qc_request :: request
  qc_code :: "nat \<Rightarrow> string"
  qc_parse :: "string \<Rightarrow> int option"
  qc_iso :: "int \<Rightarrow> string"

type_synonym 'a qservice = "qcall \<Rightarrow> qdb \<Rightarrow> ('a \<times> qdb) res"

abbreviation q_user :: "qcall \<Rightarrow> int option" where
  "q_user c \<equiv> rq_user (qc_request c)"

abbreviation q_now :: "qcall \<Rightarrow> int" where
  "q_now c \<equiv> rq_now (qc_request c)"

abbreviation q_today :: "qcall \<Rightarrow> date" where
  "q_today c \<equiv> rq_today (qc_request c)"

section \<open>Flushing a row\<close>

definition flush_qline :: "qline \<Rightarrow> qline res" where
  "flush_qline l =
     ebind (numeric 12 3 (ql_quantity l)) (\<lambda>q.
     ebind (numeric 19 4 (ql_unit_price l)) (\<lambda>u.
     ebind (numeric 7 4 (ql_discount_rate l)) (\<lambda>dr.
     ebind (numeric 7 4 (ql_tax_rate l)) (\<lambda>tr.
     ebind (numeric 19 4 (ql_subtotal l)) (\<lambda>s.
     ebind (numeric 19 4 (ql_discount l)) (\<lambda>d.
     ebind (numeric 19 4 (ql_tax l)) (\<lambda>t.
     ebind (numeric 19 4 (ql_total l)) (\<lambda>to.
       Inr (l\<lparr>ql_quantity := q, ql_unit_price := u, ql_discount_rate := dr, ql_tax_rate := tr,
              ql_subtotal := s, ql_discount := d, ql_tax := t, ql_total := to\<rparr>)))))))))"

definition flush_revision :: "revision \<Rightarrow> revision res" where
  "flush_revision r =
     ebind (numeric 19 4 (rv_subtotal r)) (\<lambda>s.
     ebind (numeric 19 4 (rv_discount r)) (\<lambda>d.
     ebind (numeric 19 4 (rv_tax r)) (\<lambda>t.
     ebind (numeric 19 4 (rv_total r)) (\<lambda>to.
       Inr (r\<lparr>rv_subtotal := s, rv_discount := d, rv_tax := t, rv_total := to\<rparr>)))))"

definition flush_box :: "box \<Rightarrow> box res" where
  "flush_box b =
     ebind (numeric 12 3 (bx_quantity b)) (\<lambda>q.
     ebind (case bx_gross b of None \<Rightarrow> Inr None
            | Some g \<Rightarrow> ebind (numeric 12 3 g) (\<lambda>g'. Inr (Some g'))) (\<lambda>g.
       Inr (b\<lparr>bx_quantity := q, bx_gross := g\<rparr>)))"

section \<open>Unique indexes\<close>

definition quotation_key :: "quotation \<Rightarrow> string option" where
  "quotation_key q = Some (qn_no q)"

definition container_type_key :: "container_type \<Rightarrow> string option" where
  "container_type_key t = (if bt_deleted t then None else Some (bt_code t))"

definition order_key :: "order \<Rightarrow> string option" where
  "order_key o' = Some (so_number o')"

section \<open>Schemas\<close>

definition REVISION_REASON_SCHEMA :: record_schema where
  "REVISION_REASON_SCHEMA =
     \<lparr>sch_fields = [(field_spec_default ''reason'')\<lparr>fs_max_length := Some 2000, fs_aliases := [''notes'', ''note'']\<rparr>],
      sch_cross_field = [], sch_readonly = [], sch_reject_unknown = True\<rparr>"

definition QUOTATION_WRITE_SCHEMA :: record_schema where
  "QUOTATION_WRITE_SCHEMA =
     \<lparr>sch_fields =
        [(field_spec_default ''quotationNo'')\<lparr>fs_max_length := Some 50, fs_aliases := [''quotation_no'']\<rparr>,
         (field_spec_default ''customerPartyId'')\<lparr>fs_kind := KReference, fs_aliases := [''customer_party_id'']\<rparr>,
         (field_spec_default ''customer'')\<lparr>fs_max_length := Some 255\<rparr>,
         (field_spec_default ''direction'')\<lparr>fs_max_length := Some 64\<rparr>,
         (field_spec_default ''status'')\<lparr>fs_max_length := Some 20\<rparr>,
         (field_spec_default ''date'')\<lparr>fs_kind := KDate\<rparr>,
         (field_spec_default ''quotationDate'')\<lparr>fs_kind := KDate, fs_aliases := [''quotation_date'']\<rparr>,
         (field_spec_default ''validUntil'')\<lparr>fs_kind := KDate, fs_aliases := [''valid_until'']\<rparr>,
         (field_spec_default ''currency'')\<lparr>fs_min_length := Some 3, fs_max_length := Some 3\<rparr>,
         (field_spec_default ''description'')\<lparr>fs_max_length := Some 10000\<rparr>,
         (field_spec_default ''notes'')\<lparr>fs_max_length := Some 10000\<rparr>,
         (field_spec_default ''amount'')\<lparr>fs_kind := KDecimal\<rparr>,
         (field_spec_default ''totalSelling'')\<lparr>fs_kind := KDecimal, fs_aliases := [''total_selling'']\<rparr>,
         (field_spec_default ''totalAmount'')\<lparr>fs_kind := KDecimal, fs_aliases := [''total_amount'']\<rparr>,
         (field_spec_default ''total'')\<lparr>fs_kind := KDecimal\<rparr>],
      sch_cross_field = [],
      sch_readonly = [''id'', ''quotationId'', ''revisionId'', ''revisionNo'', ''rawStatus'', ''createdAt'', ''updatedAt''],
      sch_reject_unknown = False\<rparr>"

definition CONTAINER_REQUIREMENT_SCHEMA :: record_schema where
  "CONTAINER_REQUIREMENT_SCHEMA =
     \<lparr>sch_fields =
        [(field_spec_default ''containerTypeId'')\<lparr>fs_kind := KReference, fs_aliases := [''container_type_id'']\<rparr>,
         (field_spec_default ''containerType'')\<lparr>fs_kind := KReference, fs_max_length := Some 64\<rparr>,
         (field_spec_default ''quantity'')\<lparr>fs_kind := KDecimal, fs_minimum := Some 0, fs_decimal_places := Some 3,
            fs_aliases := [''qty'']\<rparr>,
         (field_spec_default ''grossWeightKg'')\<lparr>fs_kind := KDecimal, fs_minimum := Some 0, fs_decimal_places := Some 3,
            fs_aliases := [''gross_weight_kg'']\<rparr>,
         (field_spec_default ''description'')\<lparr>fs_max_length := Some 2000\<rparr>,
         (field_spec_default ''remarks'')\<lparr>fs_max_length := Some 2000\<rparr>],
      sch_cross_field = [], sch_readonly = [''id'', ''createdAt'', ''updatedAt''],
      sch_reject_unknown = False\<rparr>"

definition PRICING_LINE_SCHEMA :: record_schema where
  "PRICING_LINE_SCHEMA =
     \<lparr>sch_fields =
        [(field_spec_default ''feeTypeId'')\<lparr>fs_kind := KReference, fs_aliases := [''fee_type_id'']\<rparr>,
         (field_spec_default ''feeType'')\<lparr>fs_kind := KReference, fs_max_length := Some 255, fs_aliases := [''fee_type'']\<rparr>,
         (field_spec_default ''transportBy'')\<lparr>fs_kind := KReference, fs_max_length := Some 255,
            fs_aliases := [''transport_by'', ''transportTypeId'', ''transport_type_id'']\<rparr>,
         (field_spec_default ''description'')\<lparr>fs_max_length := Some 1000,
            fs_aliases := [''serviceDescription'', ''service_description'']\<rparr>,
         (field_spec_default ''quantity'')\<lparr>fs_kind := KDecimal, fs_minimum := Some 0, fs_decimal_places := Some 3\<rparr>,
         (field_spec_default ''unitPrice'')\<lparr>fs_kind := KDecimal,
            fs_aliases := [''unit_price'', ''unitAmount'', ''unit_amount'']\<rparr>,
         (field_spec_default ''discount'')\<lparr>fs_kind := KDecimal, fs_minimum := Some 0,
            fs_aliases := [''discountAmount'', ''discount_amount'']\<rparr>,
         (field_spec_default ''tax'')\<lparr>fs_kind := KDecimal, fs_minimum := Some 0,
            fs_aliases := [''taxAmount'', ''tax_amount'']\<rparr>,
         (field_spec_default ''taxRate'')\<lparr>fs_kind := KDecimal, fs_minimum := Some 0, fs_maximum := Some 100,
            fs_aliases := [''tax_rate'']\<rparr>,
         (field_spec_default ''unit'')\<lparr>fs_max_length := Some 32, fs_aliases := [''unitCode'', ''unit_code'']\<rparr>],
      sch_cross_field = [],
      sch_readonly = [''id'', ''lineNo'', ''line_no'', ''subtotal'', ''total'', ''amount'', ''createdAt'', ''updatedAt''],
      sch_reject_unknown = False\<rparr>"

definition SERVICE_ORDER_WRITE_SCHEMA :: record_schema where
  "SERVICE_ORDER_WRITE_SCHEMA =
     \<lparr>sch_fields =
        [(field_spec_default ''jobNo'')\<lparr>fs_max_length := Some 50,
            fs_aliases := [''job_no'', ''serviceOrderNo'', ''service_order_no'']\<rparr>,
         (field_spec_default ''customer'')\<lparr>fs_max_length := Some 255\<rparr>,
         (field_spec_default ''customerPartyId'')\<lparr>fs_kind := KReference, fs_aliases := [''customer_party_id'']\<rparr>,
         (field_spec_default ''direction'')\<lparr>fs_max_length := Some 64\<rparr>,
         (field_spec_default ''currency'')\<lparr>fs_min_length := Some 3, fs_max_length := Some 3\<rparr>,
         (field_spec_default ''status'')\<lparr>fs_max_length := Some 20\<rparr>,
         (field_spec_default ''date'')\<lparr>fs_kind := KDate\<rparr>,
         (field_spec_default ''validUntil'')\<lparr>fs_kind := KDate, fs_aliases := [''valid_until'']\<rparr>,
         (field_spec_default ''pickupDate'')\<lparr>fs_kind := KDate, fs_aliases := [''pickup_date'']\<rparr>,
         (field_spec_default ''deliveryDate'')\<lparr>fs_kind := KDate, fs_aliases := [''delivery_date'']\<rparr>,
         (field_spec_default ''description'')\<lparr>fs_max_length := Some 10000\<rparr>],
      sch_cross_field = [],
      sch_readonly = [''id'', ''serviceOrderId'', ''createdAt'', ''updatedAt'', ''rawStatus'', ''configurationVersionId''],
      sch_reject_unknown = False\<rparr>"

section \<open>Validating the rows of a collection\<close>

text \<open>
  \<open>validate_line_items(value, schema, field=f)\<close> with the row validator as an argument: the rows of a
  route are validated by \<open>validate_stop\<close>, all others by \<open>validate_schema\<close>.
\<close>

definition row_errors :: "string \<Rightarrow> nat \<Rightarrow> domain_error \<Rightarrow> error_item list" where
  "row_errors f i e =
     (case e of
        InvalidPayload _ items \<Rightarrow>
          map (\<lambda>(k, code, msg). (rstrip_dots (index_path f i @ ''.'' @ k), code, msg)) items
      | _ \<Rightarrow> [])"

definition validate_row :: "string \<Rightarrow> (payload \<Rightarrow> 'a res) \<Rightarrow> nat \<times> pyval \<Rightarrow> error_item list \<times> 'a option" where
  "validate_row f check item =
     (case item of (i, v) \<Rightarrow>
       (case v of
          PDict d \<Rightarrow> (case check d of Inr out \<Rightarrow> ([], Some out) | Inl e \<Rightarrow> (row_errors f i e, None))
        | _ \<Rightarrow> ([(index_path f i, ''INVALID_TYPE'', ''Enter a valid row.'')], None)))"

definition validate_rows :: "string \<Rightarrow> (payload \<Rightarrow> 'a res) \<Rightarrow> pyval \<Rightarrow> 'a list res" where
  "validate_rows f check v =
     (if none_or_empty v then Inr []
      else case v of
        PList xs \<Rightarrow>
          (let rs = map (validate_row f check) (py_enumerate 0 xs); errs = concat (map fst rs)
           in if errs \<noteq> [] then Inl (InvalidPayload ''Please correct the document lines.'' errs)
              else Inr (List.map_filter snd rs))
      | _ \<Rightarrow> Inl (ValidationFailed ''Please correct the document lines.'' [(f, ''Provide a list of rows.'')]))"

text \<open>For the collection named \<open>lines\<close> it is the validator of the finance documents.\<close>

lemma validate_rows_lines: "validate_rows ''lines'' (\<lambda>d. validate_schema s d False) v = validate_line_items v s"
proof -
  have eq: "row_errors ''lines'' = line_errors"
    by (intro ext) (simp add: row_errors_def line_errors_def)
  have rows: "validate_row ''lines'' (\<lambda>d. validate_schema s d False) = validate_line s"
    unfolding validate_row_def validate_line_def eq ..
  show ?thesis unfolding validate_rows_def validate_line_items_def rows ..
qed

section \<open>The rows that belong to one parent\<close>

text \<open>What a write to a row outside a selection leaves of it.\<close>

lemma t_where_add [simp]:
  "t_where P (t_add r t) = t_where P t @ (if P r then [(next_id t, r)] else [])"
  by (simp add: t_where_def t_add_def)

lemma t_where_put_other:
  assumes "table_ok t" and "t_get t i = Some r0" and "\<not> P r0" and "\<not> P r"
  shows "t_where P (t_put i r t) = t_where P t"
proof -
  have "(\<And>x. (i, x) \<in> set xs \<Longrightarrow> \<not> P x) \<Longrightarrow>
      filter (\<lambda>(_, r). P r) (map (\<lambda>(j, x). if j = i then (j, r) else (j, x)) xs) = filter (\<lambda>(_, r). P r) xs" for xs
    using assms(4) by (induction xs) (auto split: if_splits)
  moreover have "\<not> P x" if "(i, x) \<in> set (rows t)" for x
    using that assms(1,2,3) by (simp add: t_get_rows)
  ultimately show ?thesis by (simp add: t_where_def t_put_def)
qed

lemma t_where_del_other:
  assumes "table_ok t" and "\<And>r. t_get t i = Some r \<Longrightarrow> \<not> P r"
  shows "t_where P (t_del i t) = t_where P t"
proof -
  have "\<not> P x" if "(i, x) \<in> set (rows t)" for x
    using that assms by (simp add: t_get_rows)
  then show ?thesis by (auto simp: t_where_def t_del_def intro!: filter_cong)
qed

lemma t_where_del_where:
  "t_where P (t_del_where Q t) = filter (\<lambda>(_, r). \<not> Q r) (t_where P t)"
  by (auto simp: t_where_def t_del_where_def intro!: filter_cong)

lemma t_where_del_where_other:
  "(\<And>r. P r \<Longrightarrow> \<not> Q r) \<Longrightarrow> t_where P (t_del_where Q t) = t_where P t"
  by (auto simp: t_where_def t_del_where_def intro!: filter_cong)

lemma t_where_add_all_other:
  "(\<And>r. r \<in> set rs \<Longrightarrow> \<not> P r) \<Longrightarrow> t_where P (t_add_all rs t) = t_where P t"
  by (induction rs t rule: t_add_all.induct) auto

lemma snd_t_where_add_all:
  "map snd (t_where P (t_add_all rs t)) = map snd (t_where P t) @ filter P rs"
  by (induction rs t rule: t_add_all.induct) auto

lemma next_id_add_all [simp]: "next_id (t_add_all rs t) = next_id t + int (length rs)"
  by (induction rs t rule: t_add_all.induct) auto

end
