(* ===== verification/RouteStops.thy ===== *)
theory RouteStops
  imports QuotationModel
begin

text \<open>
  Route stops, shared by quotations and service orders: \<open>master_data/route_stops.py\<close>. A submitted route is
  filtered to the rows the operator started, each row is validated and resolved against the place roles,
  and the stored rows of the document are rewritten in place: a row that names itself keeps its id, the
  others are new, and the stored rows that were not named are deleted.
\<close>

section \<open>Which rows count\<close>

definition ROUTE_ROW_KEYS :: "string list" where
  "ROUTE_ROW_KEYS = [''placeRoleId'', ''placeRole'', ''place'', ''freeText'', ''planned'', ''plannedActual'',
     ''actual'', ''notes'']"

text \<open>\<open>str(v or "").strip()\<close> is not empty.\<close>

definition entered :: "pyval \<Rightarrow> bool" where
  "entered v \<longleftrightarrow> truthy v \<and> (case v of PStr s \<Rightarrow> py_strip s \<noteq> [] | _ \<Rightarrow> True)"

definition route_row_started :: "pyval \<Rightarrow> bool" where
  "route_row_started row =
     (case row of PDict d \<Rightarrow> list_ex (\<lambda>k. entered (dget d k)) ROUTE_ROW_KEYS | _ \<Rightarrow> False)"

definition as_int :: "pyval \<Rightarrow> int option" where
  "as_int v =
     (if is_pybool v \<or> none_or_empty v then None
      else case parse_int_text (py_strip (py_str v)) of
        Some n \<Rightarrow> if 0 < n then Some n else None
      | None \<Rightarrow> None)"

section \<open>Date-time fields\<close>

text \<open>
  \<open>_DATETIME_PATTERN\<close> of \<open>core/validation.py\<close>. In a pattern the letter \<open>d\<close> stands for a digit. What
  \<open>datetime.fromisoformat\<close> makes of a text of that shape is the parameter \<open>parse\<close>.
\<close>

fun eat :: "string \<Rightarrow> string \<Rightarrow> string option" where
  "eat [] s = Some s"
| "eat (p # ps) [] = None"
| "eat (p # ps) (c # s) = (if (if p = CHR ''d'' then is_digit c else c = p) then eat ps s else None)"

definition zone_text :: "string \<Rightarrow> bool" where
  "zone_text s \<longleftrightarrow> s = [] \<or> s = ''Z'' \<or>
     (case s of [] \<Rightarrow> False
      | c # r \<Rightarrow> (c = CHR ''+'' \<or> c = CHR ''-'') \<and> (eat ''dd:dd'' r = Some [] \<or> eat ''dddd'' r = Some []))"

definition fraction_zone :: "string \<Rightarrow> bool" where
  "fraction_zone s \<longleftrightarrow> zone_text s \<or>
     (case s of [] \<Rightarrow> False
      | c # r \<Rightarrow> c = CHR ''.'' \<and> takeWhile is_digit r \<noteq> [] \<and> zone_text (dropWhile is_digit r))"

definition datetime_text :: "string \<Rightarrow> bool" where
  "datetime_text s =
     (case eat ''dddd-dd-dd'' s of
        None \<Rightarrow> False
      | Some [] \<Rightarrow> True
      | Some (c # r) \<Rightarrow> (c = CHR ''T'' \<or> c = CHR '' '') \<and>
          (case eat ''dd:dd'' r of
             None \<Rightarrow> False
           | Some t \<Rightarrow> zone_text t \<or> (case eat '':dd'' t of None \<Rightarrow> False | Some u \<Rightarrow> fraction_zone u)))"

definition utc_offset :: "string \<Rightarrow> string" where
  "utc_offset s = concat (map (\<lambda>c. if c = CHR ''Z'' then ''+00:00'' else [c]) s)"

text \<open>A date-time field of a row: its error, or the time it gives.\<close>

definition check_datetime :: "(string \<Rightarrow> int option) \<Rightarrow> payload \<Rightarrow> field_spec \<Rightarrow> error_item list \<times> int option" where
  "check_datetime parse p f =
     (case source_key f p of
        None \<Rightarrow> ([], None)
      | Some k \<Rightarrow>
          (let v = dget p k; t = py_strip (py_str v)
           in if is_blank v then ([], None)
              else case (if datetime_text t then parse (utc_offset t) else None) of
                     Some x \<Rightarrow> ([], Some x)
                   | None \<Rightarrow> ([(fs_key f, ''INVALID_FORMAT'', ''Enter a valid date and time.'')], None)))"

section \<open>The schema of a stop\<close>

definition STOP_HEAD :: "field_spec list" where
  "STOP_HEAD =
     [(field_spec_default ''placeRoleId'')\<lparr>fs_kind := KReference, fs_aliases := [''place_role_id'']\<rparr>,
      (field_spec_default ''placeRole'')\<lparr>fs_max_length := Some 64, fs_aliases := [''place_role'']\<rparr>,
      (field_spec_default ''place'')\<lparr>fs_max_length := Some 500, fs_aliases := [''freeText'', ''free_text'']\<rparr>]"

definition STOP_PLANNED :: field_spec where
  "STOP_PLANNED = (field_spec_default ''planned'')
     \<lparr>fs_aliases := [''plannedAt'', ''planned_at'', ''plannedActual'', ''planned_actual'']\<rparr>"

definition STOP_ACTUAL :: field_spec where
  "STOP_ACTUAL = (field_spec_default ''actual'')\<lparr>fs_aliases := [''actualAt'', ''actual_at'']\<rparr>"

definition STOP_NOTES :: field_spec where
  "STOP_NOTES = (field_spec_default ''notes'')\<lparr>fs_max_length := Some 2000\<rparr>"

text \<open>
  \<open>ROUTE_STOP_SCHEMA.validate(row)\<close>: the fields in their order. The two times are returned beside the
  validated dictionary.
\<close>

definition validate_stop :: "(string \<Rightarrow> int option) \<Rightarrow> payload \<Rightarrow> (payload \<times> int option \<times> int option) res" where
  "validate_stop parse d =
     (let st = foldl (validate_field d False) ([], d) STOP_HEAD;
          (planned_errors, planned) = check_datetime parse d STOP_PLANNED;
          (actual_errors, actual) = check_datetime parse d STOP_ACTUAL;
          (errs, out) = validate_field d False (fst st @ planned_errors @ actual_errors, snd st) STOP_NOTES
      in if errs \<noteq> [] then Inl (InvalidPayload ''Please correct the highlighted fields.'' errs)
         else Inr (out, planned, actual))"

section \<open>Resolving the submitted rows\<close>

definition role_for :: "pyval \<Rightarrow> place_role table \<Rightarrow> (int \<times> place_role) option" where
  "role_for v roles =
     (case as_int v of
        Some i \<Rightarrow> map_option (Pair i) (t_get roles i)
      | None \<Rightarrow>
          (let text = (if truthy v then py_strip (py_str v) else [])
           in if text = [] then None else t_first (\<lambda>r. plr_code r = text \<or> plr_name r = text) roles))"

record stop_input =
  si_row :: "int option"
  si_role_id :: "int option"
  si_role :: string
  si_place :: string
  si_planned :: "int option"
  si_actual :: "int option"
  si_notes :: "string option"

text \<open>One row of the loop: its errors and the normalised stop. \<open>known\<close> are the stored stops with their role.\<close>

definition resolve_stop ::
    "place_role table \<Rightarrow> (int \<times> int option) list \<Rightarrow> string \<Rightarrow> nat \<times> payload \<times> int option \<times> int option \<Rightarrow>
     (string \<times> string) list \<times> stop_input" where
  "resolve_stop roles known f row =
     (let (index, item, planned, actual) = row;
          row_id = (case as_int (dget item ''id'') of
                      Some i \<Rightarrow> if i \<in> fst ` set known then Some i else None | None \<Rightarrow> None);
          stored_role_id = (case row_id of Some i \<Rightarrow> Option.bind (map_of known i) id | None \<Rightarrow> None);
          role_ref = py_or (dget item ''placeRoleId'') (dget item ''placeRole'');
          role = role_for role_ref roles;
          role_errors =
            (case role of
               None \<Rightarrow> [(index_path f index @ ''.placeRoleId'',
                         if none_or_empty role_ref then ''Required.'' else ''Choose a valid place role.'')]
             | Some (i, r) \<Rightarrow>
                 if py_upper (plr_status r) \<noteq> ''ACTIVE'' \<and> stored_role_id \<noteq> Some i
                 then [(index_path f index @ ''.placeRoleId'', ''This place role is inactive.'')] else []);
          place = (if truthy (dget item ''place'') then py_strip (py_str (dget item ''place'')) else []);
          place_errors = (if place = [] then [(index_path f index @ ''.place'', ''Required.'')] else [])
      in (role_errors @ place_errors,
          \<lparr>si_row = row_id, si_role_id = map_option fst role,
           si_role = take 32 (case role of Some (i, r) \<Rightarrow> plr_name r
             | None \<Rightarrow> if truthy (dget item ''placeRole'') then py_str (dget item ''placeRole'') else []),
           si_place = take 500 place, si_planned = planned, si_actual = actual,
           si_notes = str_or_none (dget item ''notes'')\<rparr>))"

text \<open>\<open>rows or []\<close>, iterated: text and dictionaries yield no rows, other truthy values cannot be iterated.\<close>

definition started_rows :: "pyval \<Rightarrow> pyval res" where
  "started_rows v =
     (if \<not> truthy v then Inr (PList [])
      else case v of
        PList xs \<Rightarrow> Inr (PList (filter route_row_started xs))
      | PStr _ \<Rightarrow> Inr (PList [])
      | PDict _ \<Rightarrow> Inr (PList [])
      | _ \<Rightarrow> Inl (PythonError ''TypeError''))"

definition resolve_route_stops ::
    "(string \<Rightarrow> int option) \<Rightarrow> place_role table \<Rightarrow> (int \<times> int option) list \<Rightarrow> string \<Rightarrow> pyval \<Rightarrow> stop_input list res" where
  "resolve_route_stops parse roles known f v =
     ebind (started_rows v) (\<lambda>supplied.
     ebind (validate_rows f (validate_stop parse) supplied) (\<lambda>items.
       let resolved = map (resolve_stop roles known f) (py_enumerate 0 items);
           errs = concat (map fst resolved)
       in if errs \<noteq> [] then Inl (ValidationFailed ''Please correct the route stops.'' errs)
          else Inr (map snd resolved)))"

section \<open>Writing the rows\<close>

definition blank_stop :: "int \<Rightarrow> stop" where
  "blank_stop parent = \<lparr>sp_parent = parent, sp_role_id = None, sp_role = [], sp_sequence = 1, sp_planned = None,
     sp_actual = None, sp_is_actual = False, sp_text = None, sp_notes = None\<rparr>"

text \<open>The assignments to a row; \<open>timed\<close> says whether the table has the column \<open>actual_at\<close>.\<close>

definition fill_stop :: "bool \<Rightarrow> int \<Rightarrow> stop_input \<Rightarrow> stop \<Rightarrow> stop" where
  "fill_stop timed sequence s r =
     (let r' = r\<lparr>sp_role_id := si_role_id s, sp_role := si_role s, sp_sequence := sequence,
                 sp_planned := si_planned s, sp_text := Some (si_place s), sp_notes := si_notes s\<rparr>
      in if timed then r'\<lparr>sp_actual := si_actual s, sp_is_actual := si_actual s \<noteq> None\<rparr> else r')"

text \<open>The loop over the stops: the id of each one's row and the table with all of them written.\<close>

fun put_stops :: "bool \<Rightarrow> int \<Rightarrow> int list \<Rightarrow> (nat \<times> stop_input) list \<Rightarrow> stop table \<Rightarrow> int list \<times> stop table" where
  "put_stops timed parent used [] t = ([], t)"
| "put_stops timed parent used ((index, s) # ss) t =
     (let sequence = int index + 1;
          old = (case si_row s of Some i \<Rightarrow> if i \<in> set used then None else map_option (Pair i) (t_get t i)
                 | None \<Rightarrow> None);
          (i, t') = (case old of
                       Some (i, r) \<Rightarrow> (i, t_put i (fill_stop timed sequence s r) t)
                     | None \<Rightarrow> (next_id t, t_add (fill_stop timed sequence s (blank_stop parent)) t));
          used' = (case si_row s of Some j \<Rightarrow> j # used | None \<Rightarrow> used);
          (is, t'') = put_stops timed parent used' ss t'
      in (i # is, t''))"

definition stops_of :: "int \<Rightarrow> stop table \<Rightarrow> (int \<times> stop) list" where
  "stops_of parent t = t_where (\<lambda>s. sp_parent s = parent) t"

text \<open>The stops of a document ordered by sequence; rows are kept in the order of their ids.\<close>

definition route_of :: "int \<Rightarrow> stop table \<Rightarrow> (int \<times> stop) list" where
  "route_of parent t = sort_key (\<lambda>(i, s). sp_sequence s) (stops_of parent t)"

text \<open>\<open>route_stop_payload\<close> and \<open>route_stop_payloads\<close>, with the label of the live role.\<close>

definition text_or_empty :: "string option \<Rightarrow> string" where
  "text_or_empty x = (case x of Some t \<Rightarrow> t | None \<Rightarrow> [])"

definition route_stop_payload :: "(int \<Rightarrow> string) \<Rightarrow> place_role table \<Rightarrow> nat \<times> int \<times> stop \<Rightarrow> pyval" where
  "route_stop_payload isoformat roles row =
     (let (index, i, s) = row;
          sequence = (if sp_sequence s = 0 then int index + 1 else sp_sequence s);
          label = (case Option.bind (sp_role_id s) (t_get roles) of Some r \<Rightarrow> plr_name r | None \<Rightarrow> sp_role s);
          time = (\<lambda>x. PStr (case x of Some t \<Rightarrow> isoformat t | None \<Rightarrow> []))
      in PDict [(''id'', PStr (show_int i)), (''sequence'', PInt sequence), (''sequenceNo'', PInt sequence),
                (''placeRoleId'', case sp_role_id s of Some j \<Rightarrow> PStr (show_int j) | None \<Rightarrow> PNone),
                (''placeRole'', PStr label), (''placeRoleName'', PStr label),
                (''place'', PStr (text_or_empty (sp_text s))), (''planned'', time (sp_planned s)),
                (''actual'', time (sp_actual s)), (''notes'', PStr (text_or_empty (sp_notes s)))])"

definition route_stop_payloads :: "(int \<Rightarrow> string) \<Rightarrow> place_role table \<Rightarrow> (int \<times> stop) list \<Rightarrow> pyval list" where
  "route_stop_payloads isoformat roles xs = map (route_stop_payload isoformat roles) (py_enumerate 0 xs)"

text \<open>
  \<open>save_route_stops\<close>. The temporary negative sequence numbers that keep the unique constraint satisfied
  while rows are reordered are all overwritten or deleted within the operation.
\<close>

definition save_route_stops ::
    "bool \<Rightarrow> qcall \<Rightarrow> place_role table \<Rightarrow> int \<Rightarrow> pyval \<Rightarrow> stop table \<Rightarrow> (pyval list \<times> stop table) res" where
  "save_route_stops timed c roles parent v t =
     (let existing = stops_of parent t
      in ebind (resolve_route_stops (qc_parse c) roles (map (\<lambda>(i, s). (i, sp_role_id s)) existing) ''places'' v) (\<lambda>stops.
           let (ids, t') = put_stops timed parent [] (py_enumerate 0 stops) t;
               t'' = fold t_del (filter (\<lambda>i. i \<notin> set ids) (map fst existing)) t'
           in Inr (route_stop_payloads (qc_iso c) roles
                     (List.map_filter (\<lambda>i. map_option (Pair i) (t_get t'' i)) ids), t'')))"

end
