(* ===== verification/Quotations.thy ===== *)
theory Quotations
  imports RouteStops
begin

text \<open>
  Saving a quotation and opening a revision: \<open>save_quotation\<close>, \<open>create_revision\<close> and what they use of
  \<open>quotations/service.py\<close> (the customer, the trade direction, the priced lines, the container requirements,
  the route, the copy of a frozen revision). An operation returns the ids of the quotation and of the
  revision it worked on; the response built from them is not modelled.
\<close>

section \<open>Statuses\<close>

definition IMMUTABLE_STATUSES :: "string list" where
  "IMMUTABLE_STATUSES = [''SENT'', ''ACCEPTED'', ''SUBMITTED'', ''CONVERTED'', ''SUPERSEDED'', ''REJECTED'',
     ''EXPIRED'', ''CANCELLED'']"

definition STATUS_MAP :: "(string \<times> string) list" where
  "STATUS_MAP = [(''draft'', ''DRAFT''), (''submitted'', ''SUBMITTED''), (''sent'', ''SENT''),
     (''accepted'', ''ACCEPTED''), (''converted'', ''CONVERTED''), (''rejected'', ''REJECTED''),
     (''superseded'', ''SUPERSEDED''), (''expired'', ''EXPIRED''), (''cancelled'', ''CANCELLED'')]"

definition normalize_status :: "pyval \<Rightarrow> string \<Rightarrow> string" where
  "normalize_status v dflt =
     (if v = PNone then dflt
      else let text = py_strip (py_str v)
           in case map_of STATUS_MAP (py_lower text) of
                Some s \<Rightarrow> s
              | None \<Rightarrow> if text = [] then dflt else py_upper text)"

section \<open>Parties and directions\<close>

definition resolve_party_by_id :: "pyval \<Rightarrow> qdb \<Rightarrow> (int \<times> trade_party) res" where
  "resolve_party_by_id v db =
     (case int_of v of
        None \<Rightarrow> Inl (ValidationFailed ''The selected company is invalid.'' [(''customerPartyId'', ''Must be a company id.'')])
      | Some i \<Rightarrow>
          (let missing = Inl (ValidationFailed ''The selected company does not exist.'' [(''customerPartyId'', ''Unknown company.'')])
           in case t_get (q_parties db) i of
                None \<Rightarrow> missing
              | Some p \<Rightarrow>
                  if bp_deleted p then missing
                  else if py_upper (if bp_status p = [] then ''ACTIVE'' else bp_status p) \<noteq> ''ACTIVE''
                  then Inl (ValidationFailed ''The selected company is not active.'' [(''customerPartyId'', ''Inactive company.'')])
                  else Inr (i, p)))"

definition new_party :: "string \<Rightarrow> string \<Rightarrow> trade_party" where
  "new_party code name =
     (let label = (if name = [] then ''Unnamed Party'' else name)
      in \<lparr>bp_code = code, bp_legal = label, bp_display = Some label, bp_roles = [''Customer''],
          bp_status = ''ACTIVE'', bp_deleted = False\<rparr>)"

text \<open>
  \<open>resolve_party_by_name\<close> for the role \<open>CUSTOMER\<close>: the party of that legal name, any party when no name is
  given, else a new one under the first of five drawn codes that is free.
\<close>

definition resolve_party_by_name :: "string \<Rightarrow> qcall \<Rightarrow> qdb \<Rightarrow> ((int \<times> trade_party) \<times> qdb) res" where
  "resolve_party_by_name name c db =
     (case t_first (\<lambda>p. (name = [] \<or> bp_legal p = name) \<and> \<not> bp_deleted p) (q_parties db) of
        Some ip \<Rightarrow> Inr (ip, db)
      | None \<Rightarrow>
          (case find (\<lambda>k. t_first (\<lambda>p. bp_code p = qc_code c k \<and> \<not> bp_deleted p) (q_parties db) = None) [0..<5] of
             None \<Rightarrow> Inl (Conflict ''PARTY_CODE_UNAVAILABLE''
                       ''Could not allocate a unique party code; please try again.'' [])
           | Some k \<Rightarrow>
               (let p = new_party (qc_code c k) name
                in Inr ((next_id (q_parties db), p), db\<lparr>q_parties := t_add p (q_parties db)\<rparr>))))"

definition GENERAL_DIRECTION :: direction where
  "GENERAL_DIRECTION = \<lparr>td_code = ''GENERAL'', td_name = ''General'', td_status = ''ACTIVE'', td_deleted = False\<rparr>"

definition resolve_direction :: "pyval \<Rightarrow> qdb \<Rightarrow> (int \<times> qdb) res" where
  "resolve_direction v db =
     (if truthy v then
        (case t_first (\<lambda>d. (td_name d = py_str v \<or> td_code d = py_upper (py_str v)) \<and> \<not> td_deleted d) (q_directions db) of
           Some (i, d) \<Rightarrow> Inr (i, db)
         | None \<Rightarrow> Inl (ValidationFailed ''The selected trade direction does not exist.''
                     [(''direction'', ''Unknown trade direction.'')]))
      else
        (case t_first (\<lambda>d. \<not> td_deleted d) (q_directions db) of
           Some (i, d) \<Rightarrow> Inr (i, db)
         | None \<Rightarrow> Inr (next_id (q_directions db), db\<lparr>q_directions := t_add GENERAL_DIRECTION (q_directions db)\<rparr>)))"

section \<open>Container requirements\<close>

text \<open>\<open>resolve_or_create_container_type\<close> of \<open>master_data/service.py\<close>: by id, by code or name, else created.\<close>

definition resolve_or_create_container_type :: "pyval \<Rightarrow> qdb \<Rightarrow> (int option \<times> qdb) res" where
  "resolve_or_create_container_type v db =
     (case v of
        PInt i \<Rightarrow> Inr (map_option (\<lambda>_. i) (t_get (q_types db) i), db)
      | PBool _ \<Rightarrow> Inr (None, db)
      | PNone \<Rightarrow> Inr (None, db)
      | _ \<Rightarrow>
          (let text = py_strip (py_str v);
               by_id = (if py_isdigit text
                        then (let i = int (digits_val text) in map_option (\<lambda>_. i) (t_get (q_types db) i)) else None)
           in if text = [] then Inr (None, db)
              else case by_id of
                Some i \<Rightarrow> Inr (Some i, db)
              | None \<Rightarrow>
                  (case t_first (\<lambda>t. bt_code t = text \<or> bt_name t = text) (q_types db) of
                     Some (i, t) \<Rightarrow> Inr (Some i, db)
                   | None \<Rightarrow>
                       (let t = \<lparr>bt_code = take 50 text, bt_name = take 255 text, bt_status = ''ACTIVE'', bt_deleted = False\<rparr>;
                            i = next_id (q_types db)
                        in ebind (check_unique ''uq_container_types_code_active'' container_type_key i t (q_types db)) (\<lambda>_.
                             Inr (Some i, db\<lparr>q_types := t_add t (q_types db)\<rparr>))))))"

text \<open>\<open>_decimal(value, default)\<close> on a value the schema normalised.\<close>

definition decimal_or :: "pyval \<Rightarrow> rat \<Rightarrow> rat" where
  "decimal_or v dflt =
     (if none_or_empty v then dflt else case decimal_of v of Some (DFin r) \<Rightarrow> r | _ \<Rightarrow> dflt)"

definition add_box :: "int \<Rightarrow> payload \<Rightarrow> qdb \<Rightarrow> qdb res" where
  "add_box rid item db =
     (let reference = py_or (dget item ''containerTypeId'') (dget item ''container_type_id'')
      in ebind (if truthy reference
                then ebind (require_some (int_of reference) (PythonError ''ValueError'')) (\<lambda>i. Inr (Some i, db))
                else resolve_or_create_container_type (dget item ''containerType'') db) (\<lambda>(type_id, db1).
         ebind (require_some type_id (ValidationFailed ''Container type is required.'' [(''containerType'', ''Required'')])) (\<lambda>i.
         ebind (flush_box \<lparr>bx_revision = rid, bx_type = i, bx_quantity = decimal_or (dget item ''quantity'') 1,
                  bx_gross = (if truthy (dget item ''grossWeightKg'') then Some (decimal_or (dget item ''grossWeightKg'') 0)
                              else None),
                  bx_description = None, bx_remarks = str_or_none (dget item ''remarks'')\<rparr>) (\<lambda>b.
           Inr (db1\<lparr>q_boxes := t_add b (q_boxes db1)\<rparr>)))))"

definition save_boxes :: "int \<Rightarrow> payload \<Rightarrow> qdb \<Rightarrow> (payload \<times> qdb) res" where
  "save_boxes rid data db =
     (if has_key data ''containerRequirements'' then
        ebind (validate_rows ''containerRequirements'' (\<lambda>d. validate_schema CONTAINER_REQUIREMENT_SCHEMA d False)
                 (dget data ''containerRequirements'')) (\<lambda>items.
        ebind (efold (add_box rid) items
                 (db\<lparr>q_boxes := t_del_where (\<lambda>b. bx_revision b = rid) (q_boxes db)\<rparr>)) (\<lambda>db'.
          Inr (dset data ''containerRequirements'' (PList (map PDict items)), db')))
      else Inr (data, db))"

section \<open>The route\<close>

definition save_places :: "qcall \<Rightarrow> int \<Rightarrow> payload \<Rightarrow> qdb \<Rightarrow> (payload \<times> qdb) res" where
  "save_places c rid data db =
     (if has_key data ''places'' then
        ebind (save_route_stops False c (q_roles db) rid (dget data ''places'') (q_stops db)) (\<lambda>(places, t).
          Inr (dset data ''places'' (PList places), db\<lparr>q_stops := t\<rparr>))
      else Inr (data, db))"

section \<open>Priced lines\<close>

text \<open>\<open>_money\<close>: two places; \<open>quantize\<close> raises when the result needs more digits than the context has.\<close>

definition round_money :: "rat \<Rightarrow> rat res" where
  "round_money x =
     (let r = quantize 2 x in if 10 ^ 26 \<le> \<bar>r\<bar> then Inl (PythonError ''InvalidOperation'') else Inr r)"

definition resolve_transport_by :: "pyval \<Rightarrow> qdb \<Rightarrow> string option" where
  "resolve_transport_by v db =
     (if none_or_empty v then None
      else let text = py_strip (py_str v)
           in if py_isdigit text
              then (let i = int (digits_val text) in map_option (\<lambda>_. show_int i) (t_get (q_transports db) i))
              else case t_first (\<lambda>t. (tt_code t = text \<or> tt_name t = text) \<and> \<not> tt_deleted t) (q_transports db) of
                     Some (i, t) \<Rightarrow> Some (show_int i)
                   | None \<Rightarrow> Some text)"

definition price_path :: "nat \<Rightarrow> string \<Rightarrow> string" where
  "price_path index f = index_path ''pricingLines'' index @ ''.'' @ f"

definition not_none :: "pyval \<Rightarrow> pyval \<Rightarrow> pyval" where
  "not_none a b = (if a \<noteq> PNone then a else b)"

text \<open>The tax of a line and its rate: from the given rate, or from the given amount.\<close>

definition line_tax :: "payload \<Rightarrow> nat \<Rightarrow> rat \<Rightarrow> (rat \<times> rat) res" where
  "line_tax line index taxable =
     (let rate_value = dget line ''taxRate''
      in if \<not> none_or_empty rate_value then
           ebind (parse_decimal rate_value (price_path index ''taxRate'') 0 (Some 4)) (\<lambda>tax_rate.
           ebind (round_money (ddiv (dmul taxable tax_rate) 100)) (\<lambda>tax. Inr (tax, tax_rate)))
         else
           ebind (parse_decimal (not_none (dget line ''taxAmount'') (dget line ''tax'')) (price_path index ''tax'') 0 (Some 4)) (\<lambda>amount.
           ebind (round_money amount) (\<lambda>tax.
             Inr (tax, if 0 < taxable then dmul (ddiv tax taxable) 100 else 0))))"

definition pricing_errors :: "nat \<Rightarrow> rat \<Rightarrow> rat \<Rightarrow> rat \<Rightarrow> rat \<Rightarrow> rat \<Rightarrow> rat \<Rightarrow> bool \<Rightarrow> (string \<times> string) list" where
  "pricing_errors index quantity unit_price discount subtotal tax tax_rate transport_missing =
     (if quantity \<le> 0 then [(price_path index ''quantity'', ''Must be greater than zero.'')] else [])
     @ (if unit_price < 0 then [(price_path index ''unitPrice'', ''Cannot be negative.'')] else [])
     @ (if discount < 0 \<or> subtotal < discount
        then [(price_path index ''discount'', ''Must be between zero and the line subtotal.'')] else [])
     @ (if tax < 0 then [(price_path index ''tax'', ''Cannot be negative.'')] else [])
     @ (if tax_rate < 0 \<or> 100 < tax_rate then [(price_path index ''taxRate'', ''Must be between 0 and 100.'')] else [])
     @ (if transport_missing then [(price_path index ''transportBy'', ''Choose a valid transport type.'')] else [])"

text \<open>One turn of the loop: the row of the line and the line as it is echoed.\<close>

definition read_pricing_line :: "qdb \<Rightarrow> int \<Rightarrow> nat \<times> payload \<Rightarrow> (qline \<times> payload) res" where
  "read_pricing_line db rid item =
     (let (index, line) = item;
          unit_value = (if none_or_empty (dget line ''unitPrice'') then dget line ''unitAmount'' else dget line ''unitPrice'')
      in ebind (parse_decimal (dget line ''quantity'') (price_path index ''quantity'') 1 (Some 3)) (\<lambda>quantity.
         ebind (parse_decimal unit_value (price_path index ''unitPrice'') 0 (Some 4)) (\<lambda>unit_price.
         ebind (parse_decimal (not_none (dget line ''discountAmount'') (dget line ''discount''))
                  (price_path index ''discount'') 0 (Some 4)) (\<lambda>typed.
         ebind (round_money typed) (\<lambda>discount.
         ebind (round_money (dmul quantity unit_price)) (\<lambda>subtotal.
         ebind (line_tax line index (max 0 (dsub subtotal discount))) (\<lambda>(tax, tax_rate).
         let transport_by = resolve_transport_by (dget line ''transportBy'') db;
             errs = pricing_errors index quantity unit_price discount subtotal tax tax_rate
                      (\<not> none_or_empty (dget line ''transportBy'') \<and> transport_by = None)
         in if errs \<noteq> [] then Inl (ValidationFailed ''Please correct the quotation lines.'' errs)
            else ebind (round_money (dadd (dsub subtotal discount) tax)) (\<lambda>total.
              Inr (\<lparr>ql_revision = rid, ql_no = int index + 1,
                    ql_fee_type = resolve_fee_type_id
                      (py_or (dget line ''feeTypeId'') (dget line ''fee_type_id''))
                      (py_or (dget line ''feeType'') (dget line ''fee_type'')) (q_books db),
                    ql_description = py_str (py_or (py_or (dget line ''description'') (dget line ''feeType'')) (PStr ''Service'')),
                    ql_quantity = quantity, ql_unit = str_or_none (dget line ''unit''), ql_unit_price = unit_price,
                    ql_discount_rate = discount, ql_tax_rate = tax_rate, ql_subtotal = subtotal,
                    ql_discount = discount, ql_tax = tax, ql_total = total\<rparr>,
                   case transport_by of Some t \<Rightarrow> dset line ''transportBy'' (PStr t) | None \<Rightarrow> line)))))))))"

text \<open>A running total of the loop.\<close>

definition dtotal :: "(qline \<Rightarrow> rat) \<Rightarrow> qline list \<Rightarrow> rat" where
  "dtotal f ls = foldl (\<lambda>a l. dadd a (f l)) 0 ls"

definition set_totals :: "qline list \<Rightarrow> revision \<Rightarrow> revision res" where
  "set_totals ls rv =
     ebind (round_money (dtotal ql_subtotal ls)) (\<lambda>s.
     ebind (round_money (dtotal ql_discount ls)) (\<lambda>d.
     ebind (round_money (dtotal ql_tax ls)) (\<lambda>t.
     ebind (round_money (dtotal ql_total ls)) (\<lambda>to.
       Inr (rv\<lparr>rv_subtotal := s, rv_discount := d, rv_tax := t, rv_total := to\<rparr>)))))"

definition save_lines :: "int \<Rightarrow> payload \<Rightarrow> revision \<Rightarrow> qdb \<Rightarrow> (payload \<times> revision \<times> qdb) res" where
  "save_lines rid data rv db =
     (if has_key data ''pricingLines'' \<or> has_key data ''lines'' then
        (let priced = (if has_key data ''pricingLines'' then dget data ''pricingLines'' else dget data ''lines'')
         in ebind (validate_rows ''pricingLines'' (\<lambda>d. validate_schema PRICING_LINE_SCHEMA d False) priced) (\<lambda>items.
            ebind (emap (read_pricing_line db rid) (py_enumerate 0 items)) (\<lambda>xs.
            ebind (emap flush_qline (map fst xs)) (\<lambda>ls.
            ebind (set_totals (map fst xs) rv) (\<lambda>rv'.
              Inr (dset data ''pricingLines'' (PList (map (PDict \<circ> snd) xs)), rv',
                   db\<lparr>q_lines := t_add_all ls (t_del_where (\<lambda>l. ql_revision l = rid) (q_lines db))\<rparr>))))))
      else Inr (data, rv, db))"

text \<open>\<open>_save_revision_children\<close>, with the flush of the revision.\<close>

definition save_revision_children :: "qcall \<Rightarrow> int \<Rightarrow> revision \<Rightarrow> payload \<Rightarrow> qdb \<Rightarrow> (payload \<times> revision \<times> qdb) res" where
  "save_revision_children c rid rv data db =
     ebind (save_boxes rid data db) (\<lambda>(data1, db1).
     ebind (save_places c rid data1 db1) (\<lambda>(data2, db2).
     ebind (save_lines rid data2 rv db2) (\<lambda>(data3, rv1, db3).
     ebind (flush_revision rv1) (\<lambda>rv2.
       Inr (data3, rv2, db3\<lparr>q_revisions := t_put rid rv2 (q_revisions db3)\<rparr>)))))"

section \<open>Revisions\<close>

definition revisions_of :: "int \<Rightarrow> qdb \<Rightarrow> (int \<times> revision) list" where
  "revisions_of qid db = t_where (\<lambda>r. rv_quotation r = qid) (q_revisions db)"

definition later_revision :: "(int \<times> revision) option \<Rightarrow> int \<times> revision \<Rightarrow> (int \<times> revision) option" where
  "later_revision best x =
     (case best of Some b \<Rightarrow> if rv_no (snd b) < rv_no (snd x) then Some x else Some b | None \<Rightarrow> Some x)"

text \<open>\<open>latest_revision\<close> of the repository: the revision with the highest number.\<close>

definition latest_revision :: "int \<Rightarrow> qdb \<Rightarrow> (int \<times> revision) option" where
  "latest_revision qid db = foldl later_revision None (revisions_of qid db)"

definition next_revision_no :: "int \<Rightarrow> qdb \<Rightarrow> int" where
  "next_revision_no qid db = (case latest_revision qid db of Some (i, r) \<Rightarrow> rv_no r | None \<Rightarrow> 0) + 1"

definition new_revision :: "int \<Rightarrow> date \<Rightarrow> date option \<Rightarrow> string \<Rightarrow> int option \<Rightarrow> revision" where
  "new_revision qid on_date valid currency user =
     \<lparr>rv_quotation = qid, rv_no = 1, rv_status = ''DRAFT'', rv_date = on_date, rv_valid = valid,
      rv_currency = currency, rv_description = None, rv_notes = None, rv_subtotal = 0, rv_discount = 0,
      rv_tax = 0, rv_total = 0, rv_created_by = user, rv_sent = None, rv_accepted = None, rv_rejected = None,
      rv_data = []\<rparr>"

text \<open>\<open>_clone_revision\<close>: a new draft with the terms and the rows of the source.\<close>

definition draft_of :: "revision \<Rightarrow> int \<Rightarrow> int option \<Rightarrow> revision" where
  "draft_of source next_no user =
     source\<lparr>rv_no := next_no, rv_status := ''DRAFT'',
            rv_created_by := (case user of Some u \<Rightarrow> Some u | None \<Rightarrow> rv_created_by source),
            rv_sent := None, rv_accepted := None, rv_rejected := None\<rparr>"

text \<open>The stops are copied in the order of the route; the columns only an order has are not copied.\<close>

definition copy_stop :: "int \<Rightarrow> stop \<Rightarrow> stop" where
  "copy_stop parent s = s\<lparr>sp_parent := parent, sp_actual := None, sp_is_actual := False\<rparr>"

definition clone_revision :: "int \<Rightarrow> int \<times> revision \<Rightarrow> int option \<Rightarrow> qdb \<Rightarrow> (int \<times> revision) \<times> qdb" where
  "clone_revision qid source user db =
     (let (sid, s) = source;
          i = next_id (q_revisions db);
          r = draft_of (s\<lparr>rv_quotation := qid\<rparr>) (next_revision_no qid db) user
      in ((i, r),
          db\<lparr>q_revisions := t_add r (q_revisions db),
             q_boxes := t_add_all (map (\<lambda>(_, b). b\<lparr>bx_revision := i\<rparr>) (t_where (\<lambda>b. bx_revision b = sid) (q_boxes db)))
                          (q_boxes db),
             q_stops := t_add_all (map (\<lambda>(_, p). copy_stop i p) (route_of sid (q_stops db))) (q_stops db),
             q_lines := t_add_all (map (\<lambda>(_, l). l\<lparr>ql_revision := i\<rparr>) (t_where (\<lambda>l. ql_revision l = sid) (q_lines db)))
                          (q_lines db)\<rparr>))"

section \<open>Saving\<close>

definition or_currency :: "pyval \<Rightarrow> string \<Rightarrow> string" where
  "or_currency v dflt = (if truthy v then py_str v else dflt)"

text \<open>The stored quotation a payload names.\<close>

definition named_quotation :: "payload \<Rightarrow> qdb \<Rightarrow> (int \<times> quotation) option" where
  "named_quotation data db =
     (let v = py_or (dget data ''id'') (dget data ''quotationId'')
      in if truthy v \<and> py_isdigit (py_str v)
         then (let i = int (digits_val (py_str v)) in map_option (Pair i) (t_get (q_quotations db) i))
         else None)"

definition create_quotation :: "qcall \<Rightarrow> payload \<Rightarrow> qdb \<Rightarrow> ((int \<times> quotation \<times> trade_party option) \<times> qdb) res" where
  "create_quotation c data db =
     (let party_id = dget data ''customerPartyId'';
          customer = (if truthy (dget data ''customer'') then py_strip (py_str (dget data ''customer'')) else []);
          direction = (if truthy (dget data ''direction'') then py_strip (py_str (dget data ''direction'')) else [])
      in if to_date (dget data ''date'') = None \<and> to_date (dget data ''quotationDate'') = None
         then Inl (ValidationFailed ''A quotation date is required.'' [(''date'', ''Required'')])
         else if none_or_empty party_id \<and> customer = []
         then Inl (ValidationFailed ''A business party is required.'' [(''customerPartyId'', ''Required'')])
         else if direction = []
         then Inl (ValidationFailed ''A trade direction is required.'' [(''direction'', ''Required'')])
         else
           ebind (if \<not> none_or_empty party_id
                  then ebind (resolve_party_by_id party_id db) (\<lambda>ip. Inr (ip, db))
                  else resolve_party_by_name customer c db) (\<lambda>((pid, p), db1).
           ebind (resolve_direction (dget data ''direction'') db1) (\<lambda>(did, db2).
           let typed = dget data ''quotationNo'';
               (number, books) =
                 (if \<not> truthy typed \<or> py_strip (py_str typed) = []
                  then allocate_number ''QUOTATION'' None None (qc_request c) (q_books db2)
                  else (py_str typed, q_books db2));
               q = \<lparr>qn_no = number, qn_party = pid, qn_direction = did,
                    qn_status = normalize_status (dget data ''status'') ''DRAFT'', qn_revision_no = 1,
                    qn_source = None, qn_data = []\<rparr>;
               i = next_id (q_quotations db2)
           in ebind (check_unique ''uq_quotations_no'' quotation_key i q (q_quotations db2)) (\<lambda>_.
                Inr ((i, q, Some p), db2\<lparr>q_books := books, q_quotations := t_add q (q_quotations db2)\<rparr>)))))"

definition reopen_quotation ::
    "qcall \<Rightarrow> payload \<Rightarrow> int \<times> quotation \<Rightarrow> qdb \<Rightarrow> ((int \<times> quotation \<times> trade_party option) \<times> qdb) res" where
  "reopen_quotation c data stored db =
     (let (i, q) = stored; party_id = dget data ''customerPartyId''
      in ebind (if \<not> none_or_empty party_id
                then ebind (resolve_party_by_id party_id db) (\<lambda>ip. Inr (Some ip, db))
                else if has_key data ''customer''
                then ebind (resolve_party_by_name (text_or_empty (str_or_none (dget data ''customer''))) c db) (\<lambda>(ip, db').
                       Inr (Some ip, db'))
                else Inr (None, db)) (\<lambda>(party, db1).
         ebind (if has_key data ''direction''
                then ebind (resolve_direction (dget data ''direction'') db1) (\<lambda>(did, db'). Inr (Some did, db'))
                else Inr (None, db1)) (\<lambda>(direction, db2).
           Inr ((i, q\<lparr>qn_party := (case party of Some (pid, _) \<Rightarrow> pid | None \<Rightarrow> qn_party q),
                       qn_direction := (case direction of Some did \<Rightarrow> did | None \<Rightarrow> qn_direction q),
                       qn_status := normalize_status (dget data ''status'') (qn_status q)\<rparr>,
                 map_option snd party), db2))))"

text \<open>A first revision, added and flushed.\<close>

definition first_revision ::
    "qcall \<Rightarrow> payload \<Rightarrow> int \<Rightarrow> date \<Rightarrow> date option \<Rightarrow> qdb \<Rightarrow> (int \<times> revision) \<times> qdb" where
  "first_revision c data qid on_date valid db =
     (let r = new_revision qid on_date valid
                (or_currency (dget data ''currency'') (f_default_currency (q_books db))) (q_user c)
      in ((next_id (q_revisions db), r), db\<lparr>q_revisions := t_add r (q_revisions db)\<rparr>))"

definition current_revision :: "qcall \<Rightarrow> payload \<Rightarrow> int \<Rightarrow> qdb \<Rightarrow> (int \<times> revision) \<times> qdb" where
  "current_revision c data qid db =
     (case latest_revision qid db of
        Some ir \<Rightarrow> (ir, db)
      | None \<Rightarrow> first_revision c data qid (case to_date (dget data ''date'') of Some d \<Rightarrow> d | None \<Rightarrow> q_today c)
                  (to_date (dget data ''validUntil'')) db)"

text \<open>The revision the save works on: the current one, or a new draft copied from it when it is frozen.\<close>

definition open_revision ::
    "qcall \<Rightarrow> payload \<Rightarrow> int \<Rightarrow> quotation \<Rightarrow> qdb \<Rightarrow> (int \<times> revision) \<times> quotation \<times> qdb" where
  "open_revision c data qid q db =
     (let ((i, r), db1) = current_revision c data qid db
      in if rv_status r \<in> set IMMUTABLE_STATUSES then
           (let ((i', r'), db2) = clone_revision qid (i, r) (q_user c) db1
            in ((i', r'),
                q\<lparr>qn_revision_no := rv_no r', qn_status := (if has_key data ''status'' then qn_status q else ''DRAFT'')\<rparr>,
                db2))
         else ((i, r), q, db1))"

text \<open>The header fields of the revision; a value that is missing or empty keeps the stored one.\<close>

definition edit_terms :: "payload \<Rightarrow> revision \<Rightarrow> revision" where
  "edit_terms data r =
     r\<lparr>rv_date := (case to_date (dget data ''date'') of Some d \<Rightarrow> d | None \<Rightarrow> rv_date r),
       rv_valid := (case to_date (dget data ''validUntil'') of Some d \<Rightarrow> Some d | None \<Rightarrow> rv_valid r),
       rv_currency := or_currency (dget data ''currency'') (rv_currency r),
       rv_description := (if truthy (dget data ''description'') then Some (py_str (dget data ''description'')) else rv_description r),
       rv_notes := (if truthy (dget data ''notes'') then Some (py_str (dget data ''notes'')) else rv_notes r)\<rparr>"

definition check_validity :: "revision \<Rightarrow> unit res" where
  "check_validity r =
     raise_if (case rv_valid r of Some d \<Rightarrow> d < rv_date r | None \<Rightarrow> False)
       (ValidationFailed ''Valid until cannot be earlier than the quotation date.''
          [(''validUntil'', ''Cannot be earlier than the quotation date.'')])"

text \<open>What the JSON copy takes from the payload; the floats of the roll-up are their decimals.\<close>

definition echo_quotation :: "payload \<Rightarrow> revision \<Rightarrow> trade_party option \<Rightarrow> payload" where
  "echo_quotation data r party =
     (let kept = filter (\<lambda>(k, _). k \<notin> {''id'', ''quotationId'', ''createdAt'', ''updatedAt''}) data;
          rolled = (if has_key data ''pricingLines'' \<or> has_key data ''lines''
                    then dmerge kept [(''subtotal'', PDec (DFin (rv_subtotal r))), (''discount'', PDec (DFin (rv_discount r))),
                           (''tax'', PDec (DFin (rv_tax r))), (''total'', PDec (DFin (rv_total r))),
                           (''amount'', PDec (DFin (rv_total r)))]
                    else kept)
      in case party of
           Some p \<Rightarrow> if entered (dget rolled ''customer'') then rolled else dset rolled ''customer'' (PStr (bp_legal p))
         | None \<Rightarrow> rolled)"

definition save_quotation :: "payload \<Rightarrow> (int \<times> int) qservice" where
  "save_quotation raw c db =
     ebind (validate_schema QUOTATION_WRITE_SCHEMA raw
              (truthy (py_or (dget raw ''id'') (dget raw ''quotationId'')))) (\<lambda>data.
     ebind (case named_quotation data db of
              None \<Rightarrow> create_quotation c data db
            | Some stored \<Rightarrow> reopen_quotation c data stored db) (\<lambda>((qid, q, party), db1).
     let ((rid, r), q1, db2) = open_revision c data qid q db1;
         r1 = edit_terms data r
     in ebind (check_validity r1) (\<lambda>_.
        ebind (save_revision_children c rid r1 data db2) (\<lambda>(data', r2, db3).
          Inr ((qid, rid), db3\<lparr>q_quotations := t_put qid
                 (q1\<lparr>qn_data := dmerge (qn_data q1) (echo_quotation data' r2 party)\<rparr>) (q_quotations db3)\<rparr>)))))"

text \<open>The new draft of \<open>create_revision\<close>: a copy of the latest revision, or a first one.\<close>

definition next_draft :: "qcall \<Rightarrow> payload \<Rightarrow> int \<Rightarrow> qdb \<Rightarrow> (int \<times> revision) \<times> qdb" where
  "next_draft c data qid db =
     (case latest_revision qid db of
        Some ir \<Rightarrow> clone_revision qid ir (q_user c) db
      | None \<Rightarrow> first_revision c data qid (q_today c) None db)"

definition create_revision :: "int \<Rightarrow> payload \<Rightarrow> int qservice" where
  "create_revision qid raw c db =
     ebind (validate_schema QUOTATION_WRITE_SCHEMA raw True) (\<lambda>data.
     ebind (require_some (t_get (q_quotations db) qid) (NotFound ''Quotation not found.'')) (\<lambda>q.
       let ((i, r), db1) = next_draft c data qid db;
           reopened = (case latest_revision qid db of Some (_, l) \<Rightarrow> rv_status l \<noteq> ''DRAFT'' | None \<Rightarrow> False)
       in Inr (i, db1\<lparr>q_quotations := t_put qid
            (q\<lparr>qn_revision_no := rv_no r, qn_status := (if reopened then ''DRAFT'' else qn_status q)\<rparr>)
            (q_quotations db1)\<rparr>)))"

end
