(* ===== verification/ServiceOrders.thy ===== *)
theory ServiceOrders
  imports Quotations
begin

text \<open>
  The header of a service order: \<open>save_service_order\<close>, \<open>finish_service_order\<close>, \<open>set_service_order_status\<close>,
  \<open>delete_service_orders\<close> and \<open>create_service_order_from_quotation\<close> of \<open>operations/service.py\<close>. The other
  children of an order (numbered containers, movements, milestones, component rows, attachments) are not
  modelled; deleting an order removes the rows of it that are.
\<close>

section \<open>Statuses and lookup\<close>

definition ORDER_STATUS :: "(string \<times> string) list" where
  "ORDER_STATUS = [(''active'', ''ACTIVE''), (''inactive'', ''INACTIVE''), (''finished'', ''FINISHED''),
     (''completed'', ''FINISHED''), (''complete'', ''FINISHED'')]"

definition LEGACY_INACTIVE :: "string list" where
  "LEGACY_INACTIVE = [''cancelled'', ''canceled'', ''closed'', ''inactive'', ''voided'']"

definition normalize_order_status :: "pyval \<Rightarrow> string \<Rightarrow> string" where
  "normalize_order_status v dflt =
     (if v = PNone then dflt
      else let text = py_strip (py_str v)
           in if text = [] then dflt
              else case map_of ORDER_STATUS (py_lower text) of
                     Some s \<Rightarrow> s
                   | None \<Rightarrow> if py_lower text \<in> set LEGACY_INACTIVE then ''INACTIVE'' else ''ACTIVE'')"

text \<open>\<open>OperationsRepository.resolve_order\<close>: digits are an id first, anything is a number.\<close>

definition find_order :: "pyval \<Rightarrow> qdb \<Rightarrow> (int \<times> order) option" where
  "find_order identifier db =
     (let text = py_str identifier;
          by_id = (if py_isdigit text
                   then (let i = int (digits_val text) in map_option (Pair i) (t_get (q_orders db) i)) else None)
      in case by_id of Some io \<Rightarrow> Some io | None \<Rightarrow> t_first (\<lambda>s. so_number s = text) (q_orders db))"

definition resolve_order :: "pyval \<Rightarrow> qdb \<Rightarrow> (int \<times> order) res" where
  "resolve_order identifier db = require_some (find_order identifier db) (NotFound ''Service order not found.'')"

section \<open>Saving\<close>

definition ORDER_DATE_FIELDS :: "string list" where
  "ORDER_DATE_FIELDS = [''date'', ''validUntil'', ''pickupDate'', ''deliveryDate'']"

definition check_order_dates :: "payload \<Rightarrow> unit res" where
  "check_order_dates data =
     (let bad = filter (\<lambda>k. \<not> none_or_empty (dget data k) \<and> to_date (dget data k) = None) ORDER_DATE_FIELDS
      in if bad \<noteq> [] then Inl (ValidationFailed ''Please correct the service order dates.''
             (map (\<lambda>k. (k, ''Enter a valid date.'')) bad))
         else case (to_date (dget data ''date''), to_date (dget data ''validUntil'')) of
           (Some starts_on, Some valid_until) \<Rightarrow> raise_if (valid_until < starts_on)
             (ValidationFailed ''The valid-until date cannot precede the order date.''
                [(''validUntil'', ''Cannot be before the order date.'')])
         | _ \<Rightarrow> Inr ())"

text \<open>\<open>config_versions.stamp_service_order\<close> on an order that has no version yet.\<close>

definition stamp_service_order :: "qdb \<Rightarrow> order \<Rightarrow> order" where
  "stamp_service_order db s = (case so_config s of Some _ \<Rightarrow> s | None \<Rightarrow> s\<lparr>so_config := q_published db\<rparr>)"

definition create_order :: "qcall \<Rightarrow> payload \<Rightarrow> qdb \<Rightarrow> ((int \<times> order) \<times> qdb) res" where
  "create_order c data db =
     ebind (resolve_party_by_name (text_or_empty (str_or_none (dget data ''customer''))) c db) (\<lambda>((pid, p), db1).
     ebind (resolve_direction (dget data ''direction'') db1) (\<lambda>(did, db2).
     let typed = py_or (dget data ''jobNo'') (dget data ''serviceOrderNo'');
         (number, books) =
           (if \<not> truthy typed \<or> py_strip (py_str typed) = []
            then allocate_number ''SERVICE_ORDER'' None None (qc_request c) (q_books db2)
            else (py_str typed, q_books db2));
         s = stamp_service_order db2
               \<lparr>so_number = number, so_revision = None, so_party = pid, so_direction = did,
                so_status = normalize_order_status (dget data ''status'') ''ACTIVE'',
                so_currency_code = or_currency (dget data ''currency'') (f_default_currency (q_books db)),
                so_description = None, so_created_by = q_user c, so_config = None, so_data = []\<rparr>;
         i = next_id (q_orders db2)
     in ebind (check_unique ''uq_service_orders_no'' order_key i s (q_orders db2)) (\<lambda>_.
          Inr ((i, s), db2\<lparr>q_books := books, q_orders := t_add s (q_orders db2)\<rparr>))))"

definition reopen_order :: "qcall \<Rightarrow> payload \<Rightarrow> int \<times> order \<Rightarrow> qdb \<Rightarrow> ((int \<times> order) \<times> qdb) res" where
  "reopen_order c data stored db =
     (let (i, s) = stored
      in ebind (if has_key data ''customer''
                then ebind (resolve_party_by_name (text_or_empty (str_or_none (dget data ''customer''))) c db) (\<lambda>((pid, p), db').
                       Inr (pid, db'))
                else Inr (so_party s, db)) (\<lambda>(pid, db1).
         ebind (if has_key data ''direction'' then resolve_direction (dget data ''direction'') db1
                else Inr (so_direction s, db1)) (\<lambda>(did, db2).
           Inr ((i, s\<lparr>so_party := pid, so_direction := did,
                      so_status := normalize_order_status (dget data ''status'') (so_status s),
                      so_currency_code := or_currency (dget data ''currency'') (so_currency_code s)\<rparr>), db2))))"

definition save_order_places :: "qcall \<Rightarrow> int \<Rightarrow> payload \<Rightarrow> qdb \<Rightarrow> (payload \<times> qdb) res" where
  "save_order_places c i data db =
     (if has_key data ''places'' then
        ebind (save_route_stops True c (q_roles db) i (dget data ''places'') (q_order_stops db)) (\<lambda>(places, t).
          Inr (dset data ''places'' (PList places), db\<lparr>q_order_stops := t\<rparr>))
      else Inr (data, db))"

definition open_order :: "qcall \<Rightarrow> payload \<Rightarrow> pyval \<Rightarrow> qdb \<Rightarrow> ((int \<times> order) \<times> qdb) res" where
  "open_order c data identifier db =
     (case (if truthy identifier then find_order identifier db else None) of
        None \<Rightarrow> create_order c data db
      | Some stored \<Rightarrow> reopen_order c data stored db)"

text \<open>The route and the JSON copy of an opened order.\<close>

definition write_order :: "qcall \<Rightarrow> payload \<Rightarrow> (int \<times> order) \<times> qdb \<Rightarrow> (int \<times> qdb) res" where
  "write_order c data opened =
     (let ((i, s), db) = opened
      in ebind (save_order_places c i data db) (\<lambda>(data', db').
           Inr (i, db'\<lparr>q_orders := t_put i
                  (s\<lparr>so_data := dmerge (so_data s)
                      (filter (\<lambda>(k, _). k \<notin> {''id'', ''createdAt'', ''updatedAt''}) data')\<rparr>) (q_orders db')\<rparr>)))"

definition save_service_order :: "payload \<Rightarrow> int qservice" where
  "save_service_order raw c db =
     ebind (if none_or_empty (dget raw ''currency'') then Inr raw
            else ebind (assert_currency_code (dget raw ''currency'') ''currency'' (q_books db)) (\<lambda>code.
                   Inr (dset raw ''currency'' (PStr code)))) (\<lambda>typed.
     ebind (check_order_dates typed) (\<lambda>_.
     let identifier = py_or (py_or (dget typed ''id'') (dget typed ''serviceOrderId'')) (dget typed ''jobNo'')
     in ebind (validate_schema SERVICE_ORDER_WRITE_SCHEMA typed (truthy identifier)) (\<lambda>data.
        ebind (open_order c data identifier db) (write_order c data))))"

section \<open>Status changes and deletion\<close>

definition finish_service_order :: "pyval \<Rightarrow> int qservice" where
  "finish_service_order identifier c db =
     ebind (resolve_order identifier db) (\<lambda>(i, s).
       if so_status s = ''INACTIVE'' then Inl (InvalidState ''Cannot finish an inactive service order.'')
       else Inr (i, if so_status s = ''FINISHED'' then db
                    else db\<lparr>q_orders := t_put i (s\<lparr>so_status := ''FINISHED''\<rparr>) (q_orders db)\<rparr>))"

definition set_service_order_status :: "pyval \<Rightarrow> pyval \<Rightarrow> int qservice" where
  "set_service_order_status identifier status c db =
     ebind (resolve_order identifier db) (\<lambda>(i, s).
       Inr (i, db\<lparr>q_orders := t_put i (s\<lparr>so_status := normalize_order_status status (so_status s)\<rparr>) (q_orders db)\<rparr>))"

text \<open>
  The cascade of one order: its rows go with it, and the quotations raised from it lose the reference
  (\<open>ON DELETE SET NULL\<close>).
\<close>

definition pricing_ids :: "int \<Rightarrow> qdb \<Rightarrow> int list" where
  "pricing_ids i db = map fst (t_where (\<lambda>p. pg_order p = i) (q_pricings db))"

definition delete_order :: "int \<Rightarrow> qdb \<Rightarrow> qdb" where
  "delete_order i db =
     db\<lparr>q_orders := t_del i (q_orders db),
        q_order_stops := t_del_where (\<lambda>s. sp_parent s = i) (q_order_stops db),
        q_requirements := t_del_where (\<lambda>r. rm_order r = i) (q_requirements db),
        q_containers := t_del_where (\<lambda>k. ct_order k = i) (q_containers db),
        q_pricing_lines := t_del_where (\<lambda>l. pn_pricing l \<in> set (pricing_ids i db)) (q_pricing_lines db),
        q_pricings := t_del_where (\<lambda>p. pg_order p = i) (q_pricings db),
        q_quotations := (q_quotations db)\<lparr>rows :=
          map (\<lambda>(j, q). (j, if qn_source q = Some i then q\<lparr>qn_source := None\<rparr> else q)) (rows (q_quotations db))\<rparr>\<rparr>"

definition names_order :: "int list \<Rightarrow> int option \<Rightarrow> bool" where
  "names_order is x = (case x of Some i \<Rightarrow> i \<in> set is | None \<Rightarrow> False)"

definition delete_service_orders :: "int list \<Rightarrow> nat qservice" where
  "delete_service_orders is c db =
     (let orders = filter (\<lambda>(i, _). i \<in> set is) (rows (q_orders db))
      in if list_ex (\<lambda>(_, s). py_upper (so_status s) \<noteq> ''INACTIVE'') orders
         then Inl (Conflict ''ORDER_ACTIVE'' ''Active service orders cannot be deleted. Deactivate the order first.'' [])
         else if list_ex (\<lambda>d. names_order is (doc_order d)) (t_vals (f_documents (q_books db)))
         then Inl (Conflict ''ORDER_HAS_FINANCIAL_DOCUMENTS''
                ''Service orders with financial documents cannot be deleted. Delete the documents first.'' [])
         else if list_ex (\<lambda>l. names_order is (jl_order l)) (t_vals (f_jlines (q_books db)))
         then Inl (Conflict ''ORDER_HAS_JOURNAL_ENTRIES''
                ''Service orders with posted journal entries cannot be deleted. Keep the order for audit history.'' [])
         else if list_ex (\<lambda>ch. ch_order ch \<in> set is) (t_vals (f_charges (q_books db)))
         then Inl (Conflict ''ORDER_HAS_SERVICE_CHARGES''
                ''Service orders with service charges cannot be deleted. Delete the charges first.'' [])
         else Inr (length orders, fold delete_order (map fst orders) db))"

section \<open>The order a quotation becomes\<close>

text \<open>The route of the order: the stops of the revision renumbered, else the places named in the header.\<close>

definition renumber_stops :: "int \<Rightarrow> (int \<times> stop) list \<Rightarrow> stop list" where
  "renumber_stops i stops = map (\<lambda>(index, _, s). (copy_stop i s)\<lparr>sp_sequence := int index + 1\<rparr>) (py_enumerate 0 stops)"

definition header_stops :: "int \<Rightarrow> payload \<Rightarrow> stop list" where
  "header_stops i data =
     map (\<lambda>(index, role). (blank_stop i)\<lparr>sp_role := py_upper role, sp_text := Some (py_str (dget data role)),
            sp_sequence := int index + 1\<rparr>)
       (py_enumerate 0 (filter (\<lambda>role. truthy (dget data role)) [''pickup'', ''border'', ''delivery'']))"

definition requirement_of :: "int \<Rightarrow> int \<times> box \<Rightarrow> requirement" where
  "requirement_of i source =
     (let (b, x) = source
      in \<lparr>rm_order = i, rm_source = Some b, rm_type = bx_type x, rm_quantity = bx_quantity x,
          rm_gross = bx_gross x, rm_description = bx_description x, rm_remarks = bx_remarks x\<rparr>)"

text \<open>One pending container per required unit, at least one.\<close>

definition pending_count :: "rat \<Rightarrow> nat" where
  "pending_count quantity = nat (max 1 (trunc_rat (or_one quantity)))"

definition pending_containers :: "int \<Rightarrow> int \<Rightarrow> int \<times> box \<Rightarrow> container list" where
  "pending_containers i requirement_id source =
     (let (b, x) = source
      in replicate (pending_count (bx_quantity x))
           \<lparr>ct_order = i, ct_requirement = Some requirement_id, ct_type = bx_type x, ct_number = None,
            ct_status = ''EXPECTED'', ct_gross = bx_gross x,
            ct_data = [(''sourceQuotationContainerId'', PStr (show_int b)), (''prepared'', PBool True)]\<rparr>)"

definition pricing_of :: "int \<Rightarrow> revision \<Rightarrow> string \<Rightarrow> pricing" where
  "pricing_of i r default_currency =
     \<lparr>pg_order = i, pg_subtotal = rv_subtotal r, pg_discount = rv_discount r, pg_tax = rv_tax r,
      pg_total = rv_total r, pg_currency = (if rv_currency r = [] then default_currency else rv_currency r)\<rparr>"

definition pricing_line_of :: "int \<Rightarrow> int \<times> qline \<Rightarrow> pricing_line" where
  "pricing_line_of pricing_id source =
     (let (j, l) = source
      in \<lparr>pn_pricing = pricing_id, pn_no = ql_no l, pn_source = Some j, pn_fee_type = ql_fee_type l,
          pn_description = ql_description l, pn_quantity = ql_quantity l, pn_unit = ql_unit l,
          pn_unit_price = ql_unit_price l, pn_discount_rate = ql_discount_rate l, pn_tax_rate = ql_tax_rate l,
          pn_total = ql_total l\<rparr>)"

definition lines_of :: "int \<Rightarrow> qdb \<Rightarrow> (int \<times> qline) list" where
  "lines_of rid db = t_where (\<lambda>l. ql_revision l = rid) (q_lines db)"

definition boxes_of :: "int \<Rightarrow> qdb \<Rightarrow> (int \<times> box) list" where
  "boxes_of rid db = t_where (\<lambda>b. bx_revision b = rid) (q_boxes db)"

text \<open>
  \<open>create_service_order_from_quotation\<close>. Amounts and quantities move between columns of the same type. The
  requirements are flushed one by one, so the ids they take are consecutive.
\<close>

definition create_service_order_from_quotation ::
    "int \<times> quotation \<Rightarrow> int \<times> revision \<Rightarrow> qcall \<Rightarrow> qdb \<Rightarrow> ((int \<times> order) \<times> qdb) res" where
  "create_service_order_from_quotation quote source c db =
     (let (qid, q) = quote; (rid, r) = source;
          default_currency = f_default_currency (q_books db);
          (number, books) = allocate_number ''SERVICE_ORDER'' None None (qc_request c) (q_books db);
          i = next_id (q_orders db);
          s = stamp_service_order db
                \<lparr>so_number = number, so_revision = Some rid, so_party = qn_party q, so_direction = qn_direction q,
                 so_status = ''ACTIVE'',
                 so_currency_code = (if rv_currency r = [] then default_currency else rv_currency r),
                 so_description = rv_description r, so_created_by = q_user c, so_config = None, so_data = qn_data q\<rparr>;
          stops = route_of rid (q_stops db);
          copied = renumber_stops i stops;
          stop_base = next_id (q_order_stops db);
          places = route_stop_payloads (qc_iso c) (q_roles db)
                     (map (\<lambda>(index, p). (stop_base + int index, p)) (py_enumerate 0 copied));
          s' = (if stops = [] then s else s\<lparr>so_data := dset (so_data s) ''places'' (PList places)\<rparr>);
          boxes = boxes_of rid db;
          first_requirement = next_id (q_requirements db);
          pricing_id = next_id (q_pricings db)
      in ebind (check_unique ''uq_service_orders_no'' order_key i s (q_orders db)) (\<lambda>_.
           Inr ((i, s'),
             db\<lparr>q_books := books, q_orders := t_add s' (q_orders db),
                q_order_stops := t_add_all (if stops = [] then header_stops i (qn_data q) else copied) (q_order_stops db),
                q_requirements := t_add_all (map (requirement_of i) boxes) (q_requirements db),
                q_containers := t_add_all
                  (concat (map (\<lambda>(k, b). pending_containers i (first_requirement + int k) b) (py_enumerate 0 boxes)))
                  (q_containers db),
                q_pricings := t_add (pricing_of i r default_currency) (q_pricings db),
                q_pricing_lines := t_add_all (map (pricing_line_of pricing_id) (lines_of rid db)) (q_pricing_lines db)\<rparr>)))"

end
