(* ===== verification/QuotationFlow.thy ===== *)
theory QuotationFlow
  imports ServiceOrders
begin

text \<open>
  The life of a revision after it was saved: \<open>send_revision\<close>, \<open>submit_revision\<close>, \<open>accept_revision\<close>,
  \<open>reject_revision\<close>, \<open>cancel_revision\<close>, \<open>convert_revision\<close>, \<open>delete_quotations\<close> and
  \<open>create_quotation_from_service_order\<close> of \<open>quotations/service.py\<close>.
\<close>

section \<open>Moving a revision\<close>

definition revision_with_quotation :: "int \<Rightarrow> qdb \<Rightarrow> ((int \<times> quotation) \<times> revision) res" where
  "revision_with_quotation rid db =
     ebind (require_some (t_get (q_revisions db) rid) (NotFound ''Quotation revision not found.'')) (\<lambda>r.
     ebind (require_some (t_get (q_quotations db) (rv_quotation r)) (NotFound ''Quotation not found.'')) (\<lambda>q.
       Inr ((rv_quotation r, q), r)))"

text \<open>The assignments of a transition: the row of the revision and the status of its quotation.\<close>

definition store_revision :: "int \<Rightarrow> revision \<Rightarrow> qdb \<Rightarrow> qdb" where
  "store_revision rid r db = db\<lparr>q_revisions := t_put rid r (q_revisions db)\<rparr>"

definition store_header :: "int \<times> quotation \<Rightarrow> string \<Rightarrow> qdb \<Rightarrow> qdb" where
  "store_header quote status db =
     db\<lparr>q_quotations := t_put (fst quote) ((snd quote)\<lparr>qn_status := status\<rparr>) (q_quotations db)\<rparr>"

definition send_revision :: "int \<Rightarrow> unit qservice" where
  "send_revision rid c db =
     ebind (revision_with_quotation rid db) (\<lambda>(quote, r).
       if rv_status r = ''SENT'' then Inr ((), db)
       else if rv_status r \<noteq> ''DRAFT'' then Inl (InvalidState ''Cannot send a revision in this status.'')
       else Inr ((), store_header quote ''SENT''
              (store_revision rid (r\<lparr>rv_status := ''SENT'', rv_sent := Some (q_now c)\<rparr>) db)))"

definition submit_revision :: "int \<Rightarrow> unit qservice" where
  "submit_revision rid c db =
     ebind (revision_with_quotation rid db) (\<lambda>(quote, r).
       if rv_status r = ''SUBMITTED'' \<or> rv_status r = ''SENT'' then Inr ((), db)
       else if rv_status r \<noteq> ''DRAFT'' then Inl (InvalidState ''Cannot submit a revision in this status.'')
       else Inr ((), store_header quote ''SUBMITTED''
              (store_revision rid (r\<lparr>rv_status := ''SUBMITTED'',
                 rv_sent := (case rv_sent r of Some t \<Rightarrow> Some t | None \<Rightarrow> Some (q_now c))\<rparr>) db)))"

text \<open>\<open>competing_revisions\<close> of the repository, all marked as superseded.\<close>

definition competes :: "int \<Rightarrow> int \<Rightarrow> int \<Rightarrow> revision \<Rightarrow> bool" where
  "competes qid rid i r \<longleftrightarrow> rv_quotation r = qid \<and> i \<noteq> rid \<and> rv_status r \<in> {''SENT'', ''ACCEPTED'', ''SUBMITTED''}"

definition supersede :: "int \<Rightarrow> int \<Rightarrow> revision table \<Rightarrow> revision table" where
  "supersede qid rid t =
     t\<lparr>rows := map (\<lambda>(i, r). (i, if competes qid rid i r then r\<lparr>rv_status := ''SUPERSEDED''\<rparr> else r)) (rows t)\<rparr>"

definition accept_revision :: "int \<Rightarrow> unit qservice" where
  "accept_revision rid c db =
     ebind (revision_with_quotation rid db) (\<lambda>(quote, r).
       if rv_status r = ''ACCEPTED'' then Inr ((), db)
       else if rv_status r \<noteq> ''SENT'' then Inl (InvalidState ''Only a sent revision can be accepted.'')
       else (let db1 = store_header quote ''ACCEPTED''
                         (store_revision rid (r\<lparr>rv_status := ''ACCEPTED'', rv_accepted := Some (q_now c)\<rparr>) db)
             in Inr ((), db1\<lparr>q_revisions := supersede (fst quote) rid (q_revisions db1)\<rparr>)))"

text \<open>Whether another revision of the quotation can still be accepted or submitted.\<close>

definition live_elsewhere :: "int \<Rightarrow> int \<Rightarrow> qdb \<Rightarrow> bool" where
  "live_elsewhere qid rid db =
     list_ex (\<lambda>(i, r). i \<noteq> rid \<and> rv_status r \<in> {''DRAFT'', ''SENT'', ''ACCEPTED'', ''SUBMITTED''}) (revisions_of qid db)"

definition with_reason :: "string \<Rightarrow> string option \<Rightarrow> revision \<Rightarrow> revision" where
  "with_reason key reason r =
     (case reason of
        Some t \<Rightarrow> if t = [] then r else r\<lparr>rv_data := dset (rv_data r) key (PStr t)\<rparr>
      | None \<Rightarrow> r)"

text \<open>The header follows a withdrawn revision only when that is the current one and no other is live.\<close>

definition withdraw :: "int \<times> quotation \<Rightarrow> int \<Rightarrow> revision \<Rightarrow> qdb \<Rightarrow> qdb" where
  "withdraw quote rid r db =
     (let db1 = store_revision rid r db
      in if qn_revision_no (snd quote) = rv_no r \<and> \<not> live_elsewhere (fst quote) rid db
         then store_header quote (rv_status r) db1 else db1)"

definition reject_revision :: "int \<Rightarrow> string option \<Rightarrow> unit qservice" where
  "reject_revision rid reason c db =
     ebind (revision_with_quotation rid db) (\<lambda>(quote, r).
       if rv_status r = ''REJECTED'' then Inr ((), db)
       else if rv_status r \<notin> {''SUBMITTED'', ''SENT'', ''DRAFT''}
       then Inl (InvalidState ''Cannot reject a revision in this status.'')
       else Inr ((), withdraw quote rid
              (with_reason ''rejectionReason'' reason (r\<lparr>rv_status := ''REJECTED'', rv_rejected := Some (q_now c)\<rparr>)) db))"

definition cancel_revision :: "int \<Rightarrow> string option \<Rightarrow> unit qservice" where
  "cancel_revision rid reason c db =
     ebind (revision_with_quotation rid db) (\<lambda>(quote, r).
       if rv_status r = ''CANCELLED'' then Inr ((), db)
       else if rv_status r \<notin> {''DRAFT'', ''SENT'', ''SUBMITTED''}
       then Inl (InvalidState ''Cannot cancel a revision in this status.'')
       else Inr ((), withdraw quote rid
              (with_reason ''cancellationReason'' reason (r\<lparr>rv_status := ''CANCELLED''\<rparr>)) db))"

section \<open>Conversion\<close>

definition conversion_by_key :: "string \<Rightarrow> qdb \<Rightarrow> (int \<times> conversion) option" where
  "conversion_by_key key db = t_first (\<lambda>v. cv_key v = Some key) (q_conversions db)"

text \<open>The conversion of any revision of a quotation.\<close>

definition converts :: "int \<Rightarrow> qdb \<Rightarrow> conversion \<Rightarrow> bool" where
  "converts qid db v \<longleftrightarrow>
     (case t_get (q_revisions db) (cv_revision v) of Some r \<Rightarrow> rv_quotation r = qid | None \<Rightarrow> False)"

definition conversion_for_quotation :: "int \<Rightarrow> qdb \<Rightarrow> (int \<times> conversion) option" where
  "conversion_for_quotation qid db = t_first (converts qid db) (q_conversions db)"

definition conversion_revision_key :: "conversion \<Rightarrow> int option" where
  "conversion_revision_key v = Some (cv_revision v)"

definition conversion_order_key :: "conversion \<Rightarrow> int option" where
  "conversion_order_key v = Some (cv_order v)"

definition duplicate_conversion :: domain_error where
  "duplicate_conversion = Conflict ''DUPLICATE_CONVERSION'' ''This quotation was already converted to a service order.'' []"

text \<open>A write that the unique constraints of the conversions refuse is rolled back and reported as a duplicate.\<close>

definition add_conversion :: "conversion \<Rightarrow> qdb \<Rightarrow> qdb res" where
  "add_conversion v db =
     (let t = q_conversions db; i = next_id t
      in if unique_among conversion_revision_key i v t \<and> unique_among conversion_order_key i v t
            \<and> unique_among cv_key i v t
         then Inr (db\<lparr>q_conversions := t_add v t\<rparr>) else Inl duplicate_conversion)"

text \<open>The result is the order the quotation became, also for a repeated key.\<close>

definition convert_revision :: "int \<Rightarrow> string option \<Rightarrow> int qservice" where
  "convert_revision rid key c db =
     (let replay = (case key of Some k \<Rightarrow> if k = [] then None else conversion_by_key k db | None \<Rightarrow> None)
      in case replay of
           Some (_, v) \<Rightarrow> ebind (revision_with_quotation (cv_revision v) db) (\<lambda>_. Inr (cv_order v, db))
         | None \<Rightarrow>
             ebind (revision_with_quotation rid db) (\<lambda>(quote, r).
               if conversion_for_quotation (fst quote) db \<noteq> None then Inl duplicate_conversion
               else if rv_status r \<notin> {''SUBMITTED'', ''SENT'', ''ACCEPTED''}
               then Inl (InvalidState ''Only a submitted revision can be converted to a service order.'')
               else ebind (create_service_order_from_quotation quote (rid, r) c db) (\<lambda>((oid, s), db1).
                    ebind (add_conversion \<lparr>cv_revision = rid, cv_order = oid, cv_by = q_user c, cv_at = q_now c, cv_key = key\<rparr> db1) (\<lambda>db2.
                      Inr (oid, store_header quote ''CONVERTED''
                                  (store_revision rid (r\<lparr>rv_status := ''CONVERTED''\<rparr>) db2))))))"

section \<open>Deletion\<close>

definition order_alive :: "qdb \<Rightarrow> int \<Rightarrow> bool" where
  "order_alive db i \<longleftrightarrow> t_get (q_orders db) i \<noteq> None"

text \<open>
  One turn of the loop of \<open>delete_quotations\<close>: refused when the quotation became a living order, else the
  conversions of deleted orders go and the quotation with its revisions and their rows. The foreign keys
  that are not cascaded (a conversion, an order naming a revision) refuse the deletion.
\<close>

definition revision_referenced :: "int set \<Rightarrow> qdb \<Rightarrow> bool" where
  "revision_referenced rids db \<longleftrightarrow>
     list_ex (\<lambda>v. cv_revision v \<in> rids) (t_vals (q_conversions db))
     \<or> list_ex (\<lambda>s. case so_revision s of Some r \<Rightarrow> r \<in> rids | None \<Rightarrow> False) (t_vals (q_orders db))"

definition delete_quotation :: "int \<Rightarrow> qdb \<Rightarrow> qdb res" where
  "delete_quotation qid db =
     (case t_get (q_quotations db) qid of
        None \<Rightarrow> Inr db
      | Some q \<Rightarrow>
          if (case conversion_for_quotation qid db of Some (_, v) \<Rightarrow> order_alive db (cv_order v) | None \<Rightarrow> False)
          then Inl (Conflict ''QUOTATION_HAS_SERVICE_ORDER''
                 ''The quotation is linked to a service order and cannot be deleted.'' [])
          else
            (let rids = set (map fst (revisions_of qid db));
                 db1 = db\<lparr>q_conversions := t_del_where (\<lambda>v. cv_revision v \<in> rids \<and> \<not> order_alive db (cv_order v))
                                             (q_conversions db)\<rparr>
             in if revision_referenced rids db1 then Inl (IntegrityError ''fk_quotation_revisions'')
                else Inr (db1\<lparr>q_quotations := t_del qid (q_quotations db),
                              q_revisions := t_del_where (\<lambda>r. rv_quotation r = qid) (q_revisions db),
                              q_stops := t_del_where (\<lambda>p. sp_parent p \<in> rids) (q_stops db),
                              q_boxes := t_del_where (\<lambda>b. bx_revision b \<in> rids) (q_boxes db),
                              q_lines := t_del_where (\<lambda>l. ql_revision l \<in> rids) (q_lines db)\<rparr>)))"

definition delete_quotations :: "int list \<Rightarrow> unit qservice" where
  "delete_quotations is c db = ebind (efold delete_quotation is db) (\<lambda>db'. Inr ((), db'))"

section \<open>A quotation raised from an order\<close>

text \<open>
  A decimal that is written into the payload as its text is carried as the decimal: the schema reads it
  back to the same number.
\<close>

definition stop_echo :: "qcall \<Rightarrow> nat \<times> int \<times> stop \<Rightarrow> pyval" where
  "stop_echo c row =
     (let (index, _, s) = row
      in PDict (filter (\<lambda>(k, v). \<not> none_or_empty v)
           [(''sequence'', PInt (int index + 1)), (''sequenceNo'', PInt (int index + 1)),
            (''placeRoleId'', case sp_role_id s of Some j \<Rightarrow> PStr (show_int j) | None \<Rightarrow> PNone),
            (''placeRole'', PStr (sp_role s)), (''placeRoleName'', PStr (sp_role s)),
            (''place'', PStr (text_or_empty (sp_text s))),
            (''planned'', PStr (case sp_planned s of Some t \<Rightarrow> qc_iso c t | None \<Rightarrow> [])),
            (''notes'', PStr (text_or_empty (sp_notes s)))]))"

definition or_null :: "string option \<Rightarrow> pyval" where
  "or_null x = (case x of Some t \<Rightarrow> PStr t | None \<Rightarrow> PNone)"

definition requirement_echo :: "requirement \<Rightarrow> pyval" where
  "requirement_echo r =
     PDict [(''containerTypeId'', PStr (show_int (rm_type r))), (''quantity'', PDec (DFin (rm_quantity r))),
            (''grossWeightKg'', case rm_gross r of Some g \<Rightarrow> PDec (DFin g) | None \<Rightarrow> PNone),
            (''remarks'', or_null (rm_remarks r))]"

definition pricing_line_echo :: "pricing_line \<Rightarrow> pyval" where
  "pricing_line_echo l =
     PDict [(''feeTypeId'', case pn_fee_type l of Some i \<Rightarrow> if i = 0 then PNone else PStr (show_int i) | None \<Rightarrow> PNone),
            (''description'', PStr (pn_description l)), (''quantity'', PDec (DFin (pn_quantity l))),
            (''unit'', or_null (pn_unit l)), (''unitPrice'', PDec (DFin (pn_unit_price l))),
            (''discount'', PDec (DFin (pn_discount_rate l))),
            (''tax'', PDec (DFin (max 0 (dsub (pn_total l)
               (dsub (dmul (pn_quantity l) (pn_unit_price l)) (pn_discount_rate l))))))]"

definition requote_payload :: "qcall \<Rightarrow> int \<times> order \<Rightarrow> direction \<Rightarrow> qdb \<Rightarrow> payload" where
  "requote_payload c source d db =
     (let (oid, s) = source;
          pricing = t_first (\<lambda>p. pg_order p = oid) (q_pricings db);
          currency = (case pricing of Some (_, p) \<Rightarrow> pg_currency p | None \<Rightarrow> so_currency_code s);
          priced = (case pricing of
                      Some (j, _) \<Rightarrow> sort_key pn_no (map snd (t_where (\<lambda>l. pn_pricing l = j) (q_pricing_lines db)))
                    | None \<Rightarrow> [])
      in [(''customerPartyId'', PStr (show_int (so_party s))),
          (''direction'', PStr (if td_code d = [] then td_name d else td_code d)),
          (''date'', PStr (show_date (q_today c))),
          (''currency'', PStr (if currency = [] then f_default_currency (q_books db) else currency)),
          (''description'', or_null (so_description s)), (''status'', PStr ''DRAFT''),
          (''places'', PList (map (stop_echo c) (py_enumerate 0 (route_of oid (q_order_stops db))))),
          (''containerRequirements'',
             PList (map (requirement_echo \<circ> snd) (t_where (\<lambda>r. rm_order r = oid) (q_requirements db)))),
          (''pricingLines'', PList (map pricing_line_echo priced))])"

definition create_quotation_from_service_order :: "pyval \<Rightarrow> (int \<times> int) qservice" where
  "create_quotation_from_service_order identifier c db =
     ebind (resolve_order identifier db) (\<lambda>(oid, s).
     ebind (require_some (t_get (q_directions db) (so_direction s))
              (ValidationFailed ''The service order has no trade direction.'' [(''direction'', ''Required'')])) (\<lambda>d.
     ebind (save_quotation (requote_payload c (oid, s) d db) c db) (\<lambda>((qid, rid), db1).
       Inr ((qid, rid),
            case t_get (q_quotations db1) qid of
              Some q \<Rightarrow> db1\<lparr>q_quotations := t_put qid (q\<lparr>qn_source := Some oid\<rparr>) (q_quotations db1)\<rparr>
            | None \<Rightarrow> db1))))"

end
