(* ===== verification/Offers.thy ===== *)
theory Offers
  imports QuotationModel Machines
begin

text \<open>
  What the quotation workflow promises, without tables or requests. The book of offers holds the offers
  (a status and a content), which offer became which order, and the orders alive. An offer is edited only
  while it is a draft, its status moves along \<open>LIFECYCLE\<close>, a quotation is sold once, and an offer leaves the
  book only with its quotation, which no living order may stem from. That the services keep to this
  machine is \<open>QuotationMachine\<close>.
\<close>

section \<open>The machine\<close>

text \<open>The content of an offer: the revision without its status and dates of transition, and its rows.\<close>

definition bare :: "revision \<Rightarrow> revision" where
  "bare r = r\<lparr>rv_status := [], rv_sent := None, rv_accepted := None, rv_rejected := None, rv_data := []\<rparr>"

record content =
  of_terms :: revision
  of_stops :: "(int \<times> stop) list"
  of_boxes :: "(int \<times> box) list"
  of_lines :: "(int \<times> qline) list"

record book =
  bk_next :: int
  bk_offers :: "int \<Rightarrow> (string \<times> content) option"
  bk_sold :: "int \<Rightarrow> (int \<times> int) option"
  bk_orders :: "int \<Rightarrow> int option option"

definition LIFECYCLE :: "(string \<times> string) list" where
  "LIFECYCLE =
     [(''DRAFT'', ''SENT''), (''DRAFT'', ''SUBMITTED''), (''DRAFT'', ''REJECTED''), (''DRAFT'', ''CANCELLED''),
      (''SENT'', ''ACCEPTED''), (''SENT'', ''REJECTED''), (''SENT'', ''CANCELLED''), (''SENT'', ''SUPERSEDED''),
      (''SUBMITTED'', ''REJECTED''), (''SUBMITTED'', ''CANCELLED''), (''SUBMITTED'', ''SUPERSEDED''),
      (''ACCEPTED'', ''SUPERSEDED'')]"

text \<open>The status may move, the content stays.\<close>

fun moves_on :: "(string \<times> content) option \<Rightarrow> (string \<times> content) option \<Rightarrow> bool" where
  "moves_on None after \<longleftrightarrow> after = None"
| "moves_on (Some _) None \<longleftrightarrow> False"
| "moves_on (Some (s, x)) (Some (s', x')) \<longleftrightarrow> x' = x \<and> (s' = s \<or> (s, s') \<in> set LIFECYCLE)"

definition CONVERTIBLE :: "string list" where
  "CONVERTIBLE = [''SUBMITTED'', ''SENT'', ''ACCEPTED'']"

text \<open>The totals of an offer are the sums of its lines, and each line adds up in whole cents.\<close>

definition cents :: "rat \<Rightarrow> bool" where
  "cents x \<longleftrightarrow> 0 \<le> x \<and> has_places 2 x"

definition line_adds_up :: "qline \<Rightarrow> bool" where
  "line_adds_up l \<longleftrightarrow> ql_total l = ql_subtotal l - ql_discount l + ql_tax l \<and> ql_discount l \<le> ql_subtotal l
     \<and> cents (ql_subtotal l) \<and> cents (ql_discount l) \<and> cents (ql_tax l) \<and> cents (ql_total l)"

definition sums_up :: "revision \<Rightarrow> qline list \<Rightarrow> bool" where
  "sums_up r ls \<longleftrightarrow> list_all line_adds_up ls \<and> rv_subtotal r = sum_list (map ql_subtotal ls)
     \<and> rv_discount r = sum_list (map ql_discount ls) \<and> rv_tax r = sum_list (map ql_tax ls)
     \<and> rv_total r = sum_list (map ql_total ls)"

definition adds_up :: "content \<Rightarrow> bool" where
  "adds_up x \<longleftrightarrow> sums_up (of_terms x) (map snd (of_lines x))"

abbreviation quotation_of :: "content \<Rightarrow> int" where
  "quotation_of x \<equiv> rv_quotation (of_terms x)"

text \<open>The offers of a quotation, and the sales of it.\<close>

definition belongs :: "book \<Rightarrow> int \<Rightarrow> int \<Rightarrow> bool" where
  "belongs b qid rid \<longleftrightarrow> (case bk_offers b rid of Some (_, x) \<Rightarrow> quotation_of x = qid | None \<Rightarrow> False)"

definition sold_as :: "book \<Rightarrow> int \<Rightarrow> int \<Rightarrow> bool" where
  "sold_as b qid k \<longleftrightarrow> (case bk_sold b k of Some (rid, _) \<Rightarrow> belongs b qid rid | None \<Rightarrow> False)"

inductive offer_step :: "book \<Rightarrow> book \<Rightarrow> bool" where
  opened: "bk_next b \<le> i \<Longrightarrow> adds_up x \<Longrightarrow>
    offer_step b (b\<lparr>bk_next := i + 1, bk_offers := (bk_offers b)(i \<mapsto> (''DRAFT'', x))\<rparr>)"
| edited: "bk_offers b i = Some (''DRAFT'', x) \<Longrightarrow> quotation_of y = quotation_of x \<Longrightarrow> adds_up y \<Longrightarrow>
    offer_step b (b\<lparr>bk_offers := (bk_offers b)(i \<mapsto> (''DRAFT'', y))\<rparr>)"
| moved: "(\<And>i. moves_on (bk_offers b i) (f i)) \<Longrightarrow> offer_step b (b\<lparr>bk_offers := f\<rparr>)"
| converted: "bk_offers b i = Some (s, x) \<Longrightarrow> s \<in> set CONVERTIBLE \<Longrightarrow>
    (\<And>k. \<not> sold_as b (quotation_of x) k) \<Longrightarrow> bk_sold b k = None \<Longrightarrow> bk_orders b oid = None \<Longrightarrow>
    offer_step b (b\<lparr>bk_offers := (bk_offers b)(i \<mapsto> (''CONVERTED'', x)), bk_sold := (bk_sold b)(k \<mapsto> (i, oid)),
                    bk_orders := (bk_orders b)(oid \<mapsto> Some i)\<rparr>)"
| dropped: "(\<And>k rid oid. bk_sold b k = Some (rid, oid) \<Longrightarrow> belongs b qid rid \<Longrightarrow> bk_orders b oid = None) \<Longrightarrow>
    offer_step b (b\<lparr>bk_offers := (\<lambda>i. if belongs b qid i then None else bk_offers b i),
                    bk_sold := (\<lambda>k. if sold_as b qid k then None else bk_sold b k)\<rparr>)"
| orders_changed: "(\<And>oid i. f oid = Some (Some i) \<Longrightarrow> bk_orders b oid = Some (Some i)) \<Longrightarrow>
    offer_step b (b\<lparr>bk_orders := f\<rparr>)"

definition empty_book :: "book \<Rightarrow> bool" where
  "empty_book b \<longleftrightarrow> bk_offers b = Map.empty \<and> bk_sold b = Map.empty \<and> (\<forall>i r. bk_orders b i \<noteq> Some (Some r))"

section \<open>What every book satisfies\<close>

definition REVISION_STATUSES :: "string list" where
  "REVISION_STATUSES = [''DRAFT'', ''SENT'', ''SUBMITTED'', ''ACCEPTED'', ''CONVERTED'', ''SUPERSEDED'', ''REJECTED'',
     ''CANCELLED'']"

definition book_ok :: "book \<Rightarrow> bool" where
  "book_ok b \<longleftrightarrow>
     (\<forall>i s x. bk_offers b i = Some (s, x) \<longrightarrow> i < bk_next b \<and> s \<in> set REVISION_STATUSES \<and> adds_up x)
     \<and> (\<forall>k i oid. bk_sold b k = Some (i, oid) \<longrightarrow> (\<exists>x. bk_offers b i = Some (''CONVERTED'', x)))
     \<and> (\<forall>qid k k'. sold_as b qid k \<longrightarrow> sold_as b qid k' \<longrightarrow> k = k')
     \<and> (\<forall>oid i. bk_orders b oid = Some (Some i) \<longrightarrow> (\<exists>k. bk_sold b k = Some (i, oid)))"

lemma LIFECYCLE_statuses:
  "(s, s') \<in> set LIFECYCLE \<Longrightarrow> s' \<in> set REVISION_STATUSES \<and> s \<noteq> ''CONVERTED'' \<and> s' \<noteq> ''DRAFT'' \<and> s' \<noteq> ''CONVERTED''"
  by (auto simp: LIFECYCLE_def REVISION_STATUSES_def)

lemma book_ok_D:
  assumes "book_ok b"
  shows "bk_offers b i = Some (s, x) \<Longrightarrow> i < bk_next b" "bk_offers b i = Some (s, x) \<Longrightarrow> s \<in> set REVISION_STATUSES"
    "bk_offers b i = Some (s, x) \<Longrightarrow> adds_up x"
    "bk_sold b k = Some (i, oid) \<Longrightarrow> \<exists>x. bk_offers b i = Some (''CONVERTED'', x)"
    "sold_as b qid k \<Longrightarrow> sold_as b qid k' \<Longrightarrow> k = k'"
    "bk_orders b oid = Some (Some i) \<Longrightarrow> \<exists>k. bk_sold b k = Some (i, oid)"
  using assms unfolding book_ok_def by blast+

lemma belongs_iff: "belongs b qid rid \<longleftrightarrow> (\<exists>s x. bk_offers b rid = Some (s, x) \<and> quotation_of x = qid)"
  by (auto simp: belongs_def split: option.splits)

lemma sold_as_iff: "sold_as b qid k \<longleftrightarrow> (\<exists>rid oid. bk_sold b k = Some (rid, oid) \<and> belongs b qid rid)"
  by (auto simp: sold_as_def split: option.splits)

text \<open>A change of offers that keeps the quotation of the sold ones does not change what is sold.\<close>

lemma sold_as_cong:
  assumes "bk_sold b' = bk_sold b"
    and "\<And>k rid oid qid. bk_sold b k = Some (rid, oid) \<Longrightarrow> belongs b' qid rid = belongs b qid rid"
  shows "sold_as b' qid k = sold_as b qid k"
  using assms by (auto simp: sold_as_iff)

lemma book_ok_offers:
  assumes ok: "book_ok b" and b': "b' = b\<lparr>bk_next := n, bk_offers := (bk_offers b)(i \<mapsto> (s, x))\<rparr>"
    and n: "bk_next b \<le> n" "i < n" and s: "s \<in> set REVISION_STATUSES" and x: "adds_up x"
    and old: "\<And>t y. bk_offers b i = Some (t, y) \<Longrightarrow> t \<noteq> ''CONVERTED''"
  shows "book_ok b'"
proof -
  have other: "rid \<noteq> i" if "bk_sold b k = Some (rid, oid)" for k rid oid
    using book_ok_D(4) [OF ok that] old by blast
  have sold: "sold_as b' qid k = sold_as b qid k" for qid k
    by (rule sold_as_cong) (auto simp: b' belongs_def dest: other)
  show ?thesis
    unfolding book_ok_def
  proof (intro conjI allI impI)
    fix j t y
    assume "bk_offers b' j = Some (t, y)"
    then show "j < bk_next b'" "t \<in> set REVISION_STATUSES" "adds_up y"
      using book_ok_D(1-3) [OF ok, of j t y] n s x by (auto simp: b' split: if_splits)
  next
    fix k rid oid
    assume "bk_sold b' k = Some (rid, oid)"
    then have "bk_sold b k = Some (rid, oid)" by (simp add: b')
    with book_ok_D(4) [OF ok this] other [OF this] show "\<exists>y. bk_offers b' rid = Some (''CONVERTED'', y)"
      by (simp add: b')
  next
    fix qid k k'
    assume "sold_as b' qid k" and "sold_as b' qid k'"
    then show "k = k'" using book_ok_D(5) [OF ok] by (simp add: sold)
  next
    fix oid rid
    assume "bk_orders b' oid = Some (Some rid)"
    then show "\<exists>k. bk_sold b' k = Some (rid, oid)" using book_ok_D(6) [OF ok, of oid rid] by (simp add: b')
  qed
qed

lemma moves_on_Some:
  "moves_on p (Some (s', x)) \<Longrightarrow> \<exists>s. p = Some (s, x) \<and> (s' = s \<or> (s, s') \<in> set LIFECYCLE)"
  by (cases p) auto

lemma moves_on_from:
  "moves_on (Some (s, x)) q \<Longrightarrow> \<exists>s'. q = Some (s', x) \<and> (s' = s \<or> (s, s') \<in> set LIFECYCLE)"
  by (cases q) auto

lemma book_ok_moved:
  assumes ok: "book_ok b" and f: "\<And>i. moves_on (bk_offers b i) (f i)" and b': "b' = b\<lparr>bk_offers := f\<rparr>"
  shows "book_ok b'"
proof -
  have belongs: "belongs b' qid i = belongs b qid i" for qid i
    using moves_on_Some [of "bk_offers b i"] moves_on_from [of _ _ "f i"] f [of i]
    by (cases "f i") (fastforce simp: belongs_iff b')+
  have sold: "sold_as b' qid k = sold_as b qid k" for qid k
    by (simp add: sold_as_iff belongs) (simp add: b')
  show ?thesis
    unfolding book_ok_def
  proof (intro conjI allI impI)
    fix j s' y
    assume "bk_offers b' j = Some (s', y)"
    then obtain s where s: "bk_offers b j = Some (s, y)" "s' = s \<or> (s, s') \<in> set LIFECYCLE"
      using moves_on_Some [of "bk_offers b j" s' y] f [of j] by (auto simp: b')
    with book_ok_D(1-3) [OF ok s(1)] LIFECYCLE_statuses [of s s']
    show "j < bk_next b'" "s' \<in> set REVISION_STATUSES" "adds_up y" by (auto simp: b')
  next
    fix k rid oid
    assume "bk_sold b' k = Some (rid, oid)"
    then obtain x where "bk_offers b rid = Some (''CONVERTED'', x)"
      using book_ok_D(4) [OF ok, of k rid oid] by (auto simp: b')
    with f [of rid] moves_on_from [of "''CONVERTED''" x "f rid"] LIFECYCLE_statuses [of "''CONVERTED''"]
    show "\<exists>x. bk_offers b' rid = Some (''CONVERTED'', x)" by (auto simp: b')
  next
    fix qid k k'
    assume "sold_as b' qid k" and "sold_as b' qid k'"
    then show "k = k'" using book_ok_D(5) [OF ok] by (simp add: sold)
  next
    fix oid rid
    assume "bk_orders b' oid = Some (Some rid)"
    then show "\<exists>k. bk_sold b' k = Some (rid, oid)" using book_ok_D(6) [OF ok, of oid rid] by (simp add: b')
  qed
qed

lemma book_ok_converted:
  assumes ok: "book_ok b" and i: "bk_offers b i = Some (s, x)" and s: "s \<in> set CONVERTIBLE"
    and none: "\<And>k. \<not> sold_as b (quotation_of x) k" and k: "bk_sold b k = None" and oid: "bk_orders b oid = None"
    and b': "b' = b\<lparr>bk_offers := (bk_offers b)(i \<mapsto> (''CONVERTED'', x)), bk_sold := (bk_sold b)(k \<mapsto> (i, oid)),
                    bk_orders := (bk_orders b)(oid \<mapsto> Some i)\<rparr>"
  shows "book_ok b'"
proof -
  have belongs: "belongs b' qid rid = belongs b qid rid" for qid rid
    using i by (simp add: belongs_def b')
  have sold: "sold_as b' qid j \<longleftrightarrow> (if j = k then qid = quotation_of x else sold_as b qid j)" for qid j
    using i by (auto simp: sold_as_iff belongs) (auto simp: b' belongs_iff)
  show ?thesis
    unfolding book_ok_def
  proof (intro conjI allI impI)
    fix j t y
    assume "bk_offers b' j = Some (t, y)"
    then show "j < bk_next b'" "t \<in> set REVISION_STATUSES" "adds_up y"
      using book_ok_D(1-3) [OF ok, of j t y] book_ok_D(1-3) [OF ok i]
      by (auto simp: b' REVISION_STATUSES_def split: if_splits)
  next
    fix j rid o'
    assume "bk_sold b' j = Some (rid, o')"
    then show "\<exists>y. bk_offers b' rid = Some (''CONVERTED'', y)"
      using book_ok_D(4) [OF ok, of j rid o'] by (auto simp: b' split: if_splits)
  next
    fix qid j j'
    assume "sold_as b' qid j" and "sold_as b' qid j'"
    then show "j = j'" using book_ok_D(5) [OF ok, of qid j j'] none by (auto simp: sold split: if_splits)
  next
    fix o' rid
    assume "bk_orders b' o' = Some (Some rid)"
    then show "\<exists>j. bk_sold b' j = Some (rid, o')"
      using book_ok_D(6) [OF ok, of o' rid] k by (force simp: b' split: if_splits)
  qed
qed

lemma book_ok_dropped:
  assumes ok: "book_ok b"
    and dead: "\<And>k rid oid. bk_sold b k = Some (rid, oid) \<Longrightarrow> belongs b qid rid \<Longrightarrow> bk_orders b oid = None"
    and b': "b' = b\<lparr>bk_offers := (\<lambda>i. if belongs b qid i then None else bk_offers b i),
                    bk_sold := (\<lambda>k. if sold_as b qid k then None else bk_sold b k)\<rparr>"
  shows "book_ok b'"
proof -
  have sold: "sold_as b q k" if "sold_as b' q k" for q k
    using that by (auto simp: sold_as_iff belongs_iff b' split: if_splits)
  show ?thesis
    unfolding book_ok_def
  proof (intro conjI allI impI)
    fix j t y
    assume "bk_offers b' j = Some (t, y)"
    then show "j < bk_next b'" "t \<in> set REVISION_STATUSES" "adds_up y"
      using book_ok_D(1-3) [OF ok, of j t y] by (auto simp: b' split: if_splits)
  next
    fix k rid oid
    assume "bk_sold b' k = Some (rid, oid)"
    then have "bk_sold b k = Some (rid, oid)" "\<not> sold_as b qid k" by (auto simp: b' split: if_splits)
    then show "\<exists>y. bk_offers b' rid = Some (''CONVERTED'', y)"
      using book_ok_D(4) [OF ok] by (auto simp: b' sold_as_iff)
  next
    fix q k k'
    assume "sold_as b' q k" and "sold_as b' q k'"
    then show "k = k'" using book_ok_D(5) [OF ok] sold by blast
  next
    fix oid rid
    assume o: "bk_orders b' oid = Some (Some rid)"
    then obtain k where k: "bk_sold b k = Some (rid, oid)" using book_ok_D(6) [OF ok, of oid rid] by (auto simp: b')
    moreover have "\<not> sold_as b qid k" using dead [OF k] o k by (auto simp: sold_as_iff b')
    ultimately show "\<exists>k. bk_sold b' k = Some (rid, oid)" by (auto simp: b')
  qed
qed

lemma book_ok_orders:
  assumes "book_ok b" and "\<And>i rid. f i = Some (Some rid) \<Longrightarrow> bk_orders b i = Some (Some rid)"
  shows "book_ok (b\<lparr>bk_orders := f\<rparr>)"
proof -
  have "sold_as (b\<lparr>bk_orders := f\<rparr>) qid k = sold_as b qid k" for qid k
    by (simp add: sold_as_iff belongs_iff)
  with assms show ?thesis by (simp add: book_ok_def)
qed

lemma draft_status: "''DRAFT'' \<in> set REVISION_STATUSES"
  by (simp add: REVISION_STATUSES_def)

lemma offer_step_ok: "offer_step b b' \<Longrightarrow> book_ok b \<Longrightarrow> book_ok b'"
proof (induction rule: offer_step.induct)
  case (opened b i x)
  have "t \<noteq> ''CONVERTED''" if "bk_offers b i = Some (t, y)" for t y
    using book_ok_D(1) [OF opened(3) that] opened(1) by simp
  then show ?case
    by - (rule book_ok_offers [where b = b and n = "i + 1" and i = i and s = "''DRAFT''" and x = x],
        use opened draft_status in auto)
next
  case (edited b i x y)
  then have "i < bk_next b" by (blast dest: book_ok_D(1))
  then show ?case
    by - (rule book_ok_offers [where b = b and n = "bk_next b" and i = i and s = "''DRAFT''" and x = y],
        use edited draft_status in auto)
next
  case (moved b f)
  show ?case by (rule book_ok_moved [OF moved(2,1) refl])
next
  case (converted b i s x k oid)
  show ?case by (rule book_ok_converted [OF converted(6,1-5) refl])
next
  case (dropped b qid)
  show ?case by (rule book_ok_dropped [OF dropped(2,1) refl])
next
  case (orders_changed f b)
  then show ?case by (intro book_ok_orders)
qed

lemma empty_book_ok: "empty_book b \<Longrightarrow> book_ok b"
  by (simp add: empty_book_def book_ok_def sold_as_iff)

section \<open>What a later book says of an earlier one\<close>

text \<open>
  An offer that left the draft status keeps its content as long as it is in the book, and one that left
  the book does not come back.
\<close>

fun retained :: "(string \<times> content) option \<Rightarrow> (string \<times> content) option \<Rightarrow> bool" where
  "retained None after \<longleftrightarrow> after = None"
| "retained (Some _) None \<longleftrightarrow> True"
| "retained (Some (s, x)) (Some (s', x')) \<longleftrightarrow> quotation_of x' = quotation_of x
     \<and> (s \<noteq> ''DRAFT'' \<longrightarrow> x' = x \<and> s' \<noteq> ''DRAFT'') \<and> (s = ''CONVERTED'' \<longrightarrow> s' = ''CONVERTED'')"

definition frozen_since :: "book \<Rightarrow> book \<Rightarrow> bool" where
  "frozen_since b b' \<longleftrightarrow> bk_next b \<le> bk_next b' \<and> (\<forall>i < bk_next b. retained (bk_offers b i) (bk_offers b' i))"

lemma retained_refl [simp]: "retained o' o'"
  by (cases o') auto

lemma retained_trans: "retained p q \<Longrightarrow> retained q r \<Longrightarrow> retained p r"
  by (cases "(p, q)" rule: retained.cases; cases r) auto

lemma frozen_since_refl: "frozen_since b b"
  by (simp add: frozen_since_def)

lemma frozen_since_trans: "frozen_since b c \<Longrightarrow> frozen_since c d \<Longrightarrow> frozen_since b d"
  unfolding frozen_since_def by (meson retained_trans order_less_le_trans order_trans)

lemma offer_step_frozen: "offer_step b b' \<Longrightarrow> frozen_since b b'"
proof (induction rule: offer_step.induct)
  case (moved b f)
  have "retained p q" if "moves_on p q" for p q
    using that LIFECYCLE_statuses by (cases "(p, q)" rule: moves_on.cases) auto
  with moved show ?case by (simp add: frozen_since_def)
next
  case (converted b i s x k oid)
  then show ?case by (auto simp: frozen_since_def CONVERTIBLE_def)
next
  case (dropped b qid)
  have "retained p None" if "p \<noteq> None" for p :: "(string \<times> content) option" using that by auto
  then show ?case by (auto simp: frozen_since_def belongs_iff)
qed (auto simp: frozen_since_def)

interpretation offers: evolution empty_book offer_step book_ok frozen_since
proof unfold_locales
  fix b c d :: book
  show "empty_book b \<Longrightarrow> book_ok b" by (rule empty_book_ok)
  show "book_ok b \<Longrightarrow> offer_step b c \<Longrightarrow> book_ok c" by (rule offer_step_ok)
  show "frozen_since b b" by (rule frozen_since_refl)
  show "frozen_since b c \<Longrightarrow> frozen_since c d \<Longrightarrow> frozen_since b d" by (rule frozen_since_trans)
  show "offer_step b c \<Longrightarrow> frozen_since b c" by (rule offer_step_frozen)
qed

end
