(* ===== verification/QuotationSums.thy ===== *)
theory QuotationSums
  imports Quotations Offers
begin

text \<open>
  The money of a quotation: what the running \<open>Decimal\<close> totals of \<open>_save_revision_children\<close> are. An
  addition that leaves the digits of the context only grows the total beyond what \<open>_money\<close> accepts, so every
  accepted total is the exact sum, however many lines there are.
\<close>

section \<open>Large results stay large\<close>

lemma adjusted_upper:
  assumes "x \<noteq> 0"
  shows "\<bar>x\<bar> < 10 powi (adjusted x + 1)"
proof -
  obtain p q where pq: "quotient_of x = (p, q)" by (cases "quotient_of x")
  have q: "0 < q" using quotient_of_denom_pos [OF pq] .
  have x: "x = of_int p / of_int q" using quotient_of_div [OF pq] .
  with assms have p: "p \<noteq> 0" by auto
  define a b where "a = ndigits (nat \<bar>p\<bar>)" and "b = ndigits (nat q)"
  have "nat \<bar>p\<bar> < 10 ^ a" and "10 ^ (b - 1) \<le> nat q"
    using ndigits_bounds [of "nat \<bar>p\<bar>"] ndigits_bounds [of "nat q"] p q by (auto simp: a_def b_def)
  then have "\<bar>p\<bar> < 10 ^ a" and "10 ^ (b - 1) \<le> q"
    using p q by (simp_all add: le_nat_iff nat_less_iff)
  then have "rat_of_int \<bar>p\<bar> < rat_of_int (10 ^ a)" and "rat_of_int (10 ^ (b - 1)) \<le> rat_of_int q"
    by (simp_all only: of_int_le_iff of_int_less_iff)
  then have rp: "\<bar>of_int p\<bar> < (10 :: rat) ^ a" and rq: "(10 :: rat) ^ (b - 1) \<le> of_int q" by simp_all
  have b0: "0 < b" using q by (simp add: b_def ndigits.simps [of "nat q"])
  have "\<bar>x\<bar> = \<bar>of_int p\<bar> / of_int q" using q by (simp add: x abs_divide)
  also have "\<dots> < 10 ^ a / 10 ^ (b - 1)" using rp rq q by (intro frac_less) auto
  also have "\<dots> = 10 powi (int a) / 10 powi (int (b - 1))" by (simp only: power_int_of_nat)
  also have "\<dots> = 10 powi (int a - int (b - 1))" by (rule power_int_diff [symmetric]) simp
  also have "int a - int (b - 1) = int a - int b + 1" using b0 by auto
  finally have high: "\<bar>x\<bar> < 10 powi (int a - int b + 1)" .
  then show ?thesis
    by (auto simp: adjusted_def pq Let_def scale10_powi a_def [symmetric] b_def [symmetric])
qed

lemma round_half_even_ge: "of_int n \<le> x \<Longrightarrow> n \<le> round_half_even x"
  by (auto simp: round_half_even_def Let_def le_floor_iff intro: add_increasing2)

lemma dec_round_nonneg: "0 \<le> x \<Longrightarrow> 0 \<le> dec_round x"
proof -
  assume x: "0 \<le> x"
  define k where "k = context_prec - 1 - adjusted x"
  have "of_int 0 \<le> scale10 x k" using x by (simp add: scale10_powi)
  then have "0 \<le> round_half_even (scale10 x k)" by (rule round_half_even_ge)
  then have "0 \<le> scale10 (of_int (round_half_even (scale10 x k))) (- k)" by (simp add: scale10_powi)
  then show ?thesis by (simp add: dec_round_def k_def [symmetric] Let_def)
qed

lemma dec_round_ge:
  assumes x: "10 ^ 26 \<le> x"
  shows "10 ^ 26 \<le> dec_round x"
proof -
  have x0: "x \<noteq> 0" and pos: "\<bar>x\<bar> = x" using x by auto
  define k where "k = context_prec - 1 - adjusted x"
  have e: "26 \<le> adjusted x"
  proof (rule ccontr)
    assume "\<not> 26 \<le> adjusted x"
    then have "(10 :: rat) powi (adjusted x + 1) \<le> 10 powi 26" by (intro power_int_increasing) auto
    with adjusted_upper [OF x0] x show False by (simp add: pos)
  qed
  have "(10 :: rat) powi 27 = 10 powi adjusted x * 10 powi k"
    by (simp add: power_int_add [symmetric] k_def context_prec_def)
  also have "\<dots> \<le> x * 10 powi k"
    using adjusted_lower [OF x0] by (intro mult_right_mono) (simp_all add: pos)
  finally have "of_int (10 ^ 27) \<le> scale10 x k" by (simp add: scale10_powi)
  then have "10 ^ 27 \<le> round_half_even (scale10 x k)" by (rule round_half_even_ge)
  then have n: "(10 :: rat) ^ 27 \<le> of_int (round_half_even (scale10 x k))"
    by (metis of_int_le_iff of_int_numeral of_int_power)
  have "(10 :: rat) ^ 26 = 10 powi 26" by simp
  also have "\<dots> \<le> 10 powi adjusted x" using e by (intro power_int_increasing) auto
  also have "adjusted x = 27 + (- k)" by (simp add: k_def context_prec_def)
  also have "(10 :: rat) powi (27 + - k) = 10 powi 27 * 10 powi (- k)" by (rule power_int_add) simp
  also have "\<dots> \<le> of_int (round_half_even (scale10 x k)) * 10 powi (- k)"
    using n by (intro mult_right_mono) simp_all
  also have "\<dots> = dec_round x" by (simp add: dec_round_def x0 k_def [symmetric] Let_def scale10_powi)
  finally show ?thesis .
qed

section \<open>Accepted amounts\<close>

lemma cents_0 [simp]: "cents 0"
  by (simp add: cents_def)

lemma cents_add: "cents x \<Longrightarrow> cents y \<Longrightarrow> cents (x + y)"
  by (simp add: cents_def has_places_add)

lemma cents_sum_list: "(\<And>x. x \<in> set xs \<Longrightarrow> cents x) \<Longrightarrow> cents (sum_list xs)"
  by (induction xs) (auto intro: cents_add)

lemma round_money_Inr: "round_money x = Inr y \<longleftrightarrow> y = quantize 2 x \<and> \<bar>quantize 2 x\<bar> < 10 ^ 26"
  by (auto simp: round_money_def Let_def)

lemma round_money_cents: "round_money x = Inr y \<Longrightarrow> 0 \<le> x \<Longrightarrow> cents y"
  by (auto simp: round_money_Inr cents_def quantize_nonneg)

lemma round_money_small: "round_money x = Inr y \<Longrightarrow> x < 10 ^ 26"
proof (rule ccontr)
  assume y: "round_money x = Inr y" and "\<not> x < 10 ^ 26"
  then have "quantize 2 (10 ^ 26) \<le> quantize 2 x" by (intro quantize_mono) simp
  moreover have "quantize 2 (10 ^ 26) = (10 ^ 26 :: rat)"
    by (rule quantize_exact) (auto simp: has_places_iff intro!: exI [of _ "10 ^ 28"])
  ultimately show False using y by (simp add: round_money_Inr)
qed

lemma cents_round: "cents x \<Longrightarrow> x < 10 ^ 26 \<Longrightarrow> dec_round x = x"
  by (rule dec_round_exact [of 2]) (simp_all add: cents_def)

lemma running_large: "(\<And>l. l \<in> set ls \<Longrightarrow> cents (f l)) \<Longrightarrow> 10 ^ 26 \<le> a \<Longrightarrow> 10 ^ 26 \<le> foldl (\<lambda>a l. dadd a (f l)) a ls"
proof (induction ls arbitrary: a)
  case Nil
  then show ?case by simp
next
  case (Cons l ls)
  have "10 ^ 26 \<le> dadd a (f l)"
    unfolding dadd_def using Cons.prems by (intro dec_round_ge) (auto simp: cents_def intro: add_increasing2)
  with Cons show ?case by simp
qed

lemma running_exact:
  assumes "\<And>l. l \<in> set ls \<Longrightarrow> cents (f l)" and "cents a" and "foldl (\<lambda>a l. dadd a (f l)) a ls < 10 ^ 26"
  shows "foldl (\<lambda>a l. dadd a (f l)) a ls = a + sum_list (map f ls)"
  using assms
proof (induction ls arbitrary: a)
  case Nil
  then show ?case by simp
next
  case (Cons l ls)
  have c: "cents (a + f l)" using Cons.prems by (auto intro: cents_add)
  have "a + f l < 10 ^ 26"
  proof (rule ccontr)
    assume "\<not> a + f l < 10 ^ 26"
    then have "10 ^ 26 \<le> dadd a (f l)" unfolding dadd_def by (intro dec_round_ge) simp
    then have "10 ^ 26 \<le> foldl (\<lambda>a l. dadd a (f l)) (dadd a (f l)) ls"
      using Cons.prems(1) by (intro running_large) auto
    with Cons.prems(3) show False by simp
  qed
  with c have "dadd a (f l) = a + f l" by (simp add: dadd_def cents_round)
  with Cons.IH [of "a + f l"] Cons.prems c show ?case by (simp add: add.assoc)
qed

lemma round_money_total:
  assumes "round_money (dtotal f ls) = Inr y" and "\<And>l. l \<in> set ls \<Longrightarrow> cents (f l)"
  shows "y = sum_list (map f ls)" and "cents y"
proof -
  have "dtotal f ls = sum_list (map f ls)"
    using running_exact [of ls f 0] assms(2) round_money_small [OF assms(1)] by (simp add: dtotal_def)
  moreover have c: "cents (sum_list (map f ls))" using assms(2) by (auto intro!: cents_sum_list)
  ultimately show "y = sum_list (map f ls)"
    using assms(1) by (simp add: round_money_Inr quantize_exact cents_def)
  with c show "cents y" by simp
qed

section \<open>Lines\<close>

lemma pricing_errors_Nil:
  "pricing_errors i q u d s t r m = [] \<longleftrightarrow> 0 < q \<and> 0 \<le> u \<and> 0 \<le> d \<and> d \<le> s \<and> 0 \<le> t \<and> 0 \<le> r \<and> r \<le> 100 \<and> \<not> m"
  by (auto simp: pricing_errors_def not_less)

lemma line_tax_cents:
  assumes "line_tax line i taxable = Inr (t, r)"
  shows "has_places 2 t"
  using assms by (auto simp: line_tax_def Let_def ebind_Inr_iff round_money_Inr split: if_splits)

lemma read_pricing_line_adds_up:
  assumes "read_pricing_line db rid (i, line) = Inr (l, e)"
  shows "line_adds_up l" and "ql_revision l = rid" and "ql_no l = int i + 1"
proof -
  from assms obtain q u typed d s t r to where
    d: "round_money typed = Inr d" and s: "round_money (dmul q u) = Inr s"
    and t: "line_tax line i (max 0 (dsub s d)) = Inr (t, r)"
    and ok: "0 < q" "0 \<le> u" "0 \<le> d" "d \<le> s" "0 \<le> t"
    and to: "round_money (dadd (dsub s d) t) = Inr to"
    and l: "ql_subtotal l = s" "ql_discount l = d" "ql_tax l = t" "ql_total l = to"
    and "ql_revision l = rid" "ql_no l = int i + 1"
    unfolding read_pricing_line_def
    by (auto simp: Let_def ebind_Inr_iff pricing_errors_Nil split: if_splits)
  show "ql_revision l = rid" and "ql_no l = int i + 1" by fact+
  have cs: "cents s" using s ok by (intro round_money_cents [OF s]) (simp add: dmul_def dec_round_nonneg)
  have cd: "cents d" using d ok by (simp add: cents_def round_money_Inr)
  have ct: "cents t" using ok line_tax_cents [OF t] by (simp add: cents_def)
  have csd: "cents (s - d)" using cs cd ok by (simp add: cents_def has_places_diff)
  have "s < 10 ^ 26" using s by (auto simp: round_money_Inr)
  then have "s - d < 10 ^ 26" using ok by linarith
  with csd have sub: "dsub s d = s - d" by (simp add: dsub_def cents_round)
  have small: "s - d + t < 10 ^ 26"
  proof (rule ccontr)
    assume "\<not> s - d + t < 10 ^ 26"
    then have "10 ^ 26 \<le> dec_round (s - d + t)" by (intro dec_round_ge) simp
    with round_money_small [OF to] show False by (simp add: sub dadd_def)
  qed
  have csdt: "cents (s - d + t)" using csd ct by (rule cents_add)
  with small have "dadd (dsub s d) t = s - d + t" by (simp add: sub dadd_def cents_round)
  with to csdt have "to = s - d + t" by (simp add: round_money_Inr quantize_exact cents_def)
  with l cs cd ct csdt ok show "line_adds_up l" by (simp add: line_adds_up_def)
qed

lemma flush_qline_fields:
  "flush_qline l = Inr l' \<Longrightarrow> ql_revision l' = ql_revision l"
  "flush_qline l = Inr l' \<Longrightarrow> ql_no l' = ql_no l"
  "flush_qline l = Inr l' \<Longrightarrow> ql_subtotal l' = col4 (ql_subtotal l)"
  "flush_qline l = Inr l' \<Longrightarrow> ql_discount l' = col4 (ql_discount l)"
  "flush_qline l = Inr l' \<Longrightarrow> ql_tax l' = col4 (ql_tax l)"
  "flush_qline l = Inr l' \<Longrightarrow> ql_total l' = col4 (ql_total l)"
  by (auto simp: flush_qline_def ebind_Inr_iff numeric_Inr_iff)

lemma cents_col4: "cents x \<Longrightarrow> col4 x = x"
  by (rule quantize_exact) (auto simp: cents_def intro: has_places_mono)

lemma flush_qline_adds_up:
  assumes "flush_qline l = Inr l'" and "line_adds_up l"
  shows "line_adds_up l'" "ql_subtotal l' = ql_subtotal l" "ql_discount l' = ql_discount l" "ql_tax l' = ql_tax l"
    "ql_total l' = ql_total l"
  using assms(2) flush_qline_fields [OF assms(1)] by (auto simp: line_adds_up_def cents_col4)

lemma flush_revision_fields:
  "flush_revision r = Inr r' \<Longrightarrow>
     r' = r\<lparr>rv_subtotal := col4 (rv_subtotal r), rv_discount := col4 (rv_discount r), rv_tax := col4 (rv_tax r),
            rv_total := col4 (rv_total r)\<rparr>"
  by (auto simp: flush_revision_def ebind_Inr_iff numeric_Inr_iff)

end
