(* ===== verification/QuotationRefinement.thy ===== *)
theory QuotationRefinement
  imports QuotationFlow QuotationSums
begin

text \<open>
  The services of quotations and service orders keep to the machine of \<open>Offers\<close>: \<open>book_of\<close> reads the book
  of offers from the tables, and every served request is a run of the machine between the two books.
\<close>

section \<open>The book a database stands for\<close>

definition content_of :: "int \<Rightarrow> revision \<Rightarrow> qdb \<Rightarrow> content" where
  "content_of i r db = \<lparr>of_terms = bare r, of_stops = stops_of i (q_stops db), of_boxes = boxes_of i db,
     of_lines = lines_of i db\<rparr>"

definition book_of :: "qdb \<Rightarrow> book" where
  "book_of db =
     \<lparr>bk_next = next_id (q_revisions db),
      bk_offers = (\<lambda>i. map_option (\<lambda>r. (rv_status r, content_of i r db)) (t_get (q_revisions db) i)),
      bk_sold = (\<lambda>k. map_option (\<lambda>v. (cv_revision v, cv_order v)) (t_get (q_conversions db) k)),
      bk_orders = (\<lambda>i. map_option so_revision (t_get (q_orders db) i))\<rparr>"

definition rows_below :: "('r \<Rightarrow> int) \<Rightarrow> int \<Rightarrow> 'r table \<Rightarrow> bool" where
  "rows_below f n t \<longleftrightarrow> list_all (\<lambda>r. f r < n) (t_vals t)"

text \<open>The tables are well formed, and no row belongs to a revision that is still to come.\<close>

definition shape_ok :: "qdb \<Rightarrow> bool" where
  "shape_ok db \<longleftrightarrow> table_ok (q_revisions db) \<and> table_ok (q_stops db) \<and> table_ok (q_boxes db) \<and> table_ok (q_lines db)
     \<and> table_ok (q_conversions db) \<and> table_ok (q_orders db)
     \<and> rows_below sp_parent (next_id (q_revisions db)) (q_stops db)
     \<and> rows_below bx_revision (next_id (q_revisions db)) (q_boxes db)
     \<and> rows_below ql_revision (next_id (q_revisions db)) (q_lines db)"

definition good :: "qdb \<Rightarrow> bool" where
  "good db \<longleftrightarrow> shape_ok db \<and> book_ok (book_of db)"

definition serves :: "qdb \<Rightarrow> qdb \<Rightarrow> bool" where
  "serves db db' \<longleftrightarrow> good db' \<and> run offer_step (book_of db) (book_of db')"

lemma serves_trans: "serves a b \<Longrightarrow> serves b c \<Longrightarrow> serves a c"
  by (auto simp: serves_def intro: run_trans)

lemma serves_step: "good db \<Longrightarrow> shape_ok db' \<Longrightarrow> offer_step (book_of db) (book_of db') \<Longrightarrow> serves db db'"
  by (auto simp: serves_def good_def intro: run_single offer_step_ok)

text \<open>The tables the book is read from.\<close>

definition quote_core :: "qdb \<Rightarrow> revision table \<times> stop table \<times> box table \<times> qline table \<times> conversion table \<times> order table" where
  "quote_core db = (q_revisions db, q_stops db, q_boxes db, q_lines db, q_conversions db, q_orders db)"

lemma book_of_core: "quote_core db' = quote_core db \<Longrightarrow> book_of db' = book_of db"
  by (simp add: quote_core_def book_of_def content_of_def boxes_of_def lines_of_def)

lemma shape_ok_core: "quote_core db' = quote_core db \<Longrightarrow> shape_ok db' = shape_ok db"
  by (simp add: quote_core_def shape_ok_def)

lemma serves_same: "good db \<Longrightarrow> quote_core db' = quote_core db \<Longrightarrow> serves db db'"
  using book_of_core [of db' db] shape_ok_core [of db' db] by (simp add: serves_def good_def run_refl)

section \<open>Writes to the rows of one revision\<close>

definition own_rows :: "('r \<Rightarrow> int) \<Rightarrow> int \<Rightarrow> 'r table \<Rightarrow> 'r table \<Rightarrow> bool" where
  "own_rows f i t t' \<longleftrightarrow> (table_ok t \<longrightarrow> table_ok t'
     \<and> (\<forall>j. j \<noteq> i \<longrightarrow> t_where (\<lambda>r. f r = j) t' = t_where (\<lambda>r. f r = j) t)
     \<and> (\<forall>r \<in> set (t_vals t'). f r = i \<or> r \<in> set (t_vals t)))"

lemma own_rows_refl [simp]: "own_rows f i t t"
  by (simp add: own_rows_def)

lemma own_rows_D:
  assumes "own_rows f i t t'" and "table_ok t"
  shows "table_ok t'" and "j \<noteq> i \<Longrightarrow> t_where (\<lambda>r. f r = j) t' = t_where (\<lambda>r. f r = j) t"
    and "r \<in> set (t_vals t') \<Longrightarrow> f r = i \<or> r \<in> set (t_vals t)"
  using assms by (auto simp: own_rows_def)

lemma own_rows_trans:
  assumes "own_rows f i t u" and "own_rows f i u v"
  shows "own_rows f i t v"
  unfolding own_rows_def
proof (intro impI conjI allI ballI)
  assume t: "table_ok t"
  note tu = own_rows_D [OF assms(1) t]
  note uv = own_rows_D [OF assms(2) tu(1)]
  show "table_ok v" by (rule uv)
  show "t_where (\<lambda>r. f r = j) v = t_where (\<lambda>r. f r = j) t" if "j \<noteq> i" for j
    using tu(2) uv(2) that by simp
  show "f r = i \<or> r \<in> set (t_vals t)" if "r \<in> set (t_vals v)" for r
    using tu(3) uv(3) that by blast
qed

lemma own_rows_add: "f r = i \<Longrightarrow> own_rows f i t (t_add r t)"
  by (auto simp: own_rows_def)

lemma own_rows_add_all: "(\<And>r. r \<in> set rs \<Longrightarrow> f r = i) \<Longrightarrow> own_rows f i t (t_add_all rs t)"
  by (induction rs t rule: t_add_all.induct) (auto intro: own_rows_trans own_rows_add)

lemma t_vals_put_member: "x \<in> set (t_vals (t_put i r t)) \<Longrightarrow> x = r \<or> x \<in> set (t_vals t)"
  by (auto simp: t_vals_def t_put_def split: if_splits)

lemma own_rows_put:
  assumes "t_get t k = Some r" and "f r = i" and "f r' = i"
  shows "own_rows f i t (t_put k r' t)"
  unfolding own_rows_def
proof (intro impI conjI allI ballI)
  assume ok: "table_ok t"
  then show "table_ok (t_put k r' t)" by simp
  show "t_where (\<lambda>r. f r = j) (t_put k r' t) = t_where (\<lambda>r. f r = j) t" if "j \<noteq> i" for j
    using assms that by (intro t_where_put_other [OF ok assms(1)]) auto
  show "f x = i \<or> x \<in> set (t_vals t)" if "x \<in> set (t_vals (t_put k r' t))" for x
    using t_vals_put_member [OF that] assms(3) by auto
qed

lemma own_rows_del:
  assumes "\<And>r. t_get t k = Some r \<Longrightarrow> f r = i"
  shows "own_rows f i t (t_del k t)"
  unfolding own_rows_def
proof (intro impI conjI allI ballI)
  assume ok: "table_ok t"
  then show "table_ok (t_del k t)" by simp
  show "t_where (\<lambda>r. f r = j) (t_del k t) = t_where (\<lambda>r. f r = j) t" if "j \<noteq> i" for j
    using assms that by (intro t_where_del_other [OF ok]) auto
  show "f x = i \<or> x \<in> set (t_vals t)" if "x \<in> set (t_vals (t_del k t))" for x
    using that by (auto simp: t_vals_def t_del_def)
qed

lemma own_rows_del_where: "own_rows f i t (t_del_where (\<lambda>r. f r = i) t)"
  by (auto simp: own_rows_def intro!: t_where_del_where_other)

lemma own_rows_dels:
  "(\<And>k r. k \<in> set ks \<Longrightarrow> t_get t k = Some r \<Longrightarrow> f r = i) \<Longrightarrow> own_rows f i t (fold t_del ks t)"
proof (induction ks arbitrary: t)
  case Nil
  then show ?case by simp
next
  case (Cons k ks)
  have "own_rows f i t (t_del k t)" using Cons.prems by (intro own_rows_del) auto
  moreover have "own_rows f i (t_del k t) (fold t_del ks (t_del k t))"
    using Cons.prems by (intro Cons.IH) (auto split: if_splits)
  ultimately show ?case by (simp add: own_rows_trans)
qed

lemma rows_below_mono: "rows_below f n t \<Longrightarrow> n \<le> m \<Longrightarrow> rows_below f m t"
  by (auto simp: rows_below_def list_all_iff)

lemma rows_below_own: "own_rows f i t t' \<Longrightarrow> table_ok t \<Longrightarrow> rows_below f n t \<Longrightarrow> i < n \<Longrightarrow> rows_below f n t'"
  by (auto simp: rows_below_def list_all_iff dest!: own_rows_D(3))

lemma rows_below_fresh: "rows_below f n t \<Longrightarrow> t_where (\<lambda>r. f r = n) t = []"
  by (force simp: rows_below_def t_where_def t_vals_def list_all_iff filter_empty_conv)

text \<open>A route is rewritten without touching the stops of another document.\<close>

lemma fill_stop_parent [simp]: "sp_parent (fill_stop timed k s r) = sp_parent r"
  by (simp add: fill_stop_def Let_def)

lemma blank_stop_parent [simp]: "sp_parent (blank_stop p) = p"
  by (simp add: blank_stop_def)

lemma put_stops_own:
  "put_stops timed parent used ss t = (is, t') \<Longrightarrow> table_ok t \<Longrightarrow>
     (\<And>x i r. x \<in> set ss \<Longrightarrow> si_row (snd x) = Some i \<Longrightarrow> t_get t i = Some r \<Longrightarrow> sp_parent r = parent) \<Longrightarrow>
     own_rows sp_parent parent t t'
     \<and> (\<forall>i r. t_get t' i = Some r \<longrightarrow> sp_parent r = parent \<or> t_get t i = Some r)"
proof (induction ss arbitrary: used t "is" t')
  case Nil
  then show ?case by simp
next
  case (Cons x ss)
  obtain index s where x: "x = (index, s)" by (cases x)
  define old where "old = (case si_row s of Some i \<Rightarrow> if i \<in> set used then None else map_option (Pair i) (t_get t i)
      | None \<Rightarrow> None)"
  define u where "u = (case old of Some (i, r) \<Rightarrow> t_put i (fill_stop timed (int index + 1) s r) t
      | None \<Rightarrow> t_add (fill_stop timed (int index + 1) s (blank_stop parent)) t)"
  obtain is' where rest: "put_stops timed parent (case si_row s of Some j \<Rightarrow> j # used | None \<Rightarrow> used) ss u = (is', t')"
    using Cons.prems(1) unfolding x u_def old_def
    by (auto simp: Let_def split: prod.splits option.splits if_splits)
  have old: "t_get t i = Some r \<and> sp_parent r = parent" if "old = Some (i, r)" for i r
    using that Cons.prems(3) [of x i r] by (auto simp: old_def x split: option.splits if_splits)
  have own: "own_rows sp_parent parent t u"
    using old by (auto simp: u_def split: option.splits intro: own_rows_put own_rows_add)
  have ok: "table_ok u" using own Cons.prems(2) by (simp add: own_rows_def)
  have get: "sp_parent r = parent \<or> t_get t i = Some r" if "t_get u i = Some r" for i r
    using that old Cons.prems(2) by (auto simp: u_def split: option.splits if_splits)
  have keep: "sp_parent r = parent" if "y \<in> set ss" "si_row (snd y) = Some i" "t_get u i = Some r" for y i r
    using get [OF that(3)] Cons.prems(3) [of y i r] that by auto
  have "own_rows sp_parent parent u t' \<and> (\<forall>i r. t_get t' i = Some r \<longrightarrow> sp_parent r = parent \<or> t_get u i = Some r)"
    using keep by (intro Cons.IH [OF rest ok]) blast
  with own get show ?case by (blast intro: own_rows_trans)
qed

lemma resolve_stop_row:
  "si_row (snd (resolve_stop roles known f x)) = Some i \<Longrightarrow> i \<in> fst ` set known"
  by (auto simp: resolve_stop_def Let_def split: prod.splits option.splits if_splits)

lemma resolve_route_row:
  assumes "resolve_route_stops parse roles known f v = Inr stops" and "s \<in> set stops" and "si_row s = Some i"
  shows "i \<in> fst ` set known"
  using assms by (auto simp: resolve_route_stops_def Let_def ebind_Inr_iff split: if_splits dest: resolve_stop_row)

lemma save_route_stops_own:
  assumes "save_route_stops timed c roles parent v t = Inr (ps, t')"
  shows "own_rows sp_parent parent t t'"
proof (cases "table_ok t")
  case False
  then show ?thesis by (simp add: own_rows_def)
next
  case True
  obtain stops where
    stops: "resolve_route_stops (qc_parse c) roles (map (\<lambda>(i, s). (i, sp_role_id s)) (stops_of parent t)) ''places'' v = Inr stops"
    using assms unfolding save_route_stops_def Let_def ebind_Inr_iff by blast
  obtain ids u where put: "put_stops timed parent [] (py_enumerate 0 stops) t = (ids, u)" by fastforce
  have t': "t' = fold t_del (filter (\<lambda>i. i \<notin> set ids) (map fst (stops_of parent t))) u"
    using assms by (simp add: save_route_stops_def Let_def stops put)
  have mine: "sp_parent r = parent" if "i \<in> fst ` set (stops_of parent t)" "t_get t i = Some r" for i r
    using that True by (auto simp: stops_of_def t_where_def dest: t_get_rows)
  have row: "sp_parent r = parent" if "x \<in> set (py_enumerate 0 stops)" "si_row (snd x) = Some i" "t_get t i = Some r" for x i r
  proof -
    have "snd x \<in> set stops" using that(1) by (metis list.set_map map_snd_py_enumerate image_eqI)
    from resolve_route_row [OF stops this that(2)] have "i \<in> fst ` set (stops_of parent t)" by force
    then show ?thesis using that(3) by (rule mine)
  qed
  from put_stops_own [OF put True row]
  have own: "own_rows sp_parent parent t u"
    and get: "\<And>i r. t_get u i = Some r \<Longrightarrow> sp_parent r = parent \<or> t_get t i = Some r" by auto
  have "own_rows sp_parent parent u t'"
    unfolding t' using get mine by (intro own_rows_dels) fastforce
  with own show ?thesis by (rule own_rows_trans)
qed

end
