(* ===== verification/QuotationSteps.thy ===== *)
theory QuotationSteps
  imports QuotationRefinement
begin

text \<open>
  What each operation of the two services does to the tables the book is read from: the frames of the
  parts of a save, and for every operation that it is a run of the machine of offers.
\<close>

section \<open>The parts of a save\<close>

lemma resolve_container_type_frame:
  "resolve_or_create_container_type v db = Inr (x, db') \<Longrightarrow> \<exists>T. db' = db\<lparr>q_types := T\<rparr>"
proof -
  have same: "\<exists>T. db = db\<lparr>q_types := T\<rparr>" by (rule exI [of _ "q_types db"]) simp
  assume "resolve_or_create_container_type v db = Inr (x, db')"
  then show ?thesis
    using same
    by (auto simp: resolve_or_create_container_type_def Let_def ebind_Inr_iff
        split: pyval.splits option.splits if_splits prod.splits)
qed

lemma flush_box_revision: "flush_box b = Inr b' \<Longrightarrow> bx_revision b' = bx_revision b"
  by (auto simp: flush_box_def ebind_Inr_iff)

lemma add_box_frame:
  assumes "add_box rid item db = Inr db'"
  shows "\<exists>T B. db' = db\<lparr>q_types := T, q_boxes := B\<rparr> \<and> own_rows bx_revision rid (q_boxes db) B"
proof -
  from assms obtain x db1 b where
    resolved: "(if truthy (py_or (dget item ''containerTypeId'') (dget item ''container_type_id''))
            then ebind (require_some (int_of (py_or (dget item ''containerTypeId'') (dget item ''container_type_id'')))
                   (PythonError ''ValueError'')) (\<lambda>i. Inr (Some i, db))
            else resolve_or_create_container_type (dget item ''containerType'') db) = Inr (x, db1)"
    and b: "bx_revision b = rid" and db': "db' = db1\<lparr>q_boxes := t_add b (q_boxes db1)\<rparr>"
    by (auto simp: add_box_def Let_def ebind_Inr_iff dest: flush_box_revision)
  from resolved obtain T where "db1 = db\<lparr>q_types := T\<rparr>"
  proof (cases "truthy (py_or (dget item ''containerTypeId'') (dget item ''container_type_id''))")
    case True
    with resolved have "db1 = db\<lparr>q_types := q_types db\<rparr>" by (auto simp: ebind_Inr_iff)
    then show ?thesis by (rule that)
  next
    case False
    with resolved have "resolve_or_create_container_type (dget item ''containerType'') db = Inr (x, db1)" by simp
    then show ?thesis using resolve_container_type_frame that by blast
  qed
  then show ?thesis using b by (intro exI [of _ T] exI [of _ "t_add b (q_boxes db)"]) (simp add: db' own_rows_add)
qed

lemma save_boxes_frame:
  assumes "save_boxes rid data db = Inr (data', db')"
  shows "\<exists>T B. db' = db\<lparr>q_types := T, q_boxes := B\<rparr> \<and> own_rows bx_revision rid (q_boxes db) B"
proof (cases "has_key data ''containerRequirements''")
  case False
  with assms show ?thesis
    by (intro exI [of _ "q_types db"] exI [of _ "q_boxes db"]) (simp add: save_boxes_def)
next
  case True
  define db0 where "db0 = db\<lparr>q_boxes := t_del_where (\<lambda>b. bx_revision b = rid) (q_boxes db)\<rparr>"
  from assms True obtain items where loop: "efold (add_box rid) items db0 = Inr db'"
    by (auto simp: save_boxes_def ebind_Inr_iff db0_def)
  let ?I = "\<lambda>d. \<exists>T B. d = db\<lparr>q_types := T, q_boxes := B\<rparr> \<and> own_rows bx_revision rid (q_boxes db) B"
  have "?I db0"
    by (intro exI [of _ "q_types db"] exI [of _ "q_boxes db0"]) (simp add: db0_def own_rows_del_where)
  moreover have "?I d'" if "?I d" and "add_box rid x d = Inr d'" for x d d'
    using that(1) add_box_frame [OF that(2)]
    by (elim exE conjE) (intro exI conjI, simp, auto intro: own_rows_trans)
  ultimately show ?thesis by (intro efold_invariant [where I = ?I, OF loop]) blast+
qed

lemma save_places_frame:
  assumes "save_places c rid data db = Inr (data', db')"
  shows "\<exists>S. db' = db\<lparr>q_stops := S\<rparr> \<and> own_rows sp_parent rid (q_stops db) S"
proof (cases "has_key data ''places''")
  case False
  with assms show ?thesis by (intro exI [of _ "q_stops db"]) (simp add: save_places_def)
next
  case True
  with assms show ?thesis by (auto simp: save_places_def ebind_Inr_iff dest: save_route_stops_own)
qed

section \<open>The totals of a save\<close>

lemma line_cents:
  "line_adds_up l \<Longrightarrow> cents (ql_subtotal l)" "line_adds_up l \<Longrightarrow> cents (ql_discount l)"
  "line_adds_up l \<Longrightarrow> cents (ql_tax l)" "line_adds_up l \<Longrightarrow> cents (ql_total l)"
  unfolding line_adds_up_def by blast+

lemma sums_up_cents:
  assumes "sums_up r ls"
  shows "cents (rv_subtotal r)" "cents (rv_discount r)" "cents (rv_tax r)" "cents (rv_total r)"
proof -
  have "cents (sum_list (map f ls))" if "\<And>l. line_adds_up l \<Longrightarrow> cents (f l)" for f
    by (rule cents_sum_list) (use assms that in \<open>auto simp: sums_up_def list_all_iff\<close>)
  from this [OF line_cents(1)] this [OF line_cents(2)] this [OF line_cents(3)] this [OF line_cents(4)] assms
  show "cents (rv_subtotal r)" "cents (rv_discount r)" "cents (rv_tax r)" "cents (rv_total r)"
    by (simp_all add: sums_up_def)
qed

lemma set_totals_sums:
  assumes t: "set_totals ls r = Inr r'" and ls: "list_all line_adds_up ls"
  shows "sums_up r' ls" and "r' = r\<lparr>rv_subtotal := rv_subtotal r', rv_discount := rv_discount r', rv_tax := rv_tax r',
    rv_total := rv_total r'\<rparr>"
proof -
  from t obtain s d x y where "round_money (dtotal ql_subtotal ls) = Inr s" "round_money (dtotal ql_discount ls) = Inr d"
    "round_money (dtotal ql_tax ls) = Inr x" "round_money (dtotal ql_total ls) = Inr y"
    and r': "r' = r\<lparr>rv_subtotal := s, rv_discount := d, rv_tax := x, rv_total := y\<rparr>"
    by (auto simp: set_totals_def ebind_Inr_iff)
  then have "s = sum_list (map ql_subtotal ls)" "d = sum_list (map ql_discount ls)" "x = sum_list (map ql_tax ls)"
    "y = sum_list (map ql_total ls)"
    using ls by (auto simp: list_all_iff intro!: round_money_total(1) intro: line_cents)
  with ls show "sums_up r' ls" by (simp add: sums_up_def r')
  show "r' = r\<lparr>rv_subtotal := rv_subtotal r', rv_discount := rv_discount r', rv_tax := rv_tax r',
    rv_total := rv_total r'\<rparr>" by (simp add: r')
qed

lemma t_where_replace:
  assumes "\<And>r. r \<in> set rs \<Longrightarrow> f r = i"
  shows "map snd (t_where (\<lambda>r. f r = i) (t_add_all rs (t_del_where (\<lambda>r. f r = i) t))) = rs"
proof -
  have "t_where (\<lambda>r. f r = i) (t_del_where (\<lambda>r. f r = i) t) = []"
    by (auto simp: t_where_def t_del_where_def filter_empty_conv)
  then show ?thesis using assms by (simp add: snd_t_where_add_all filter_id_conv)
qed

lemma read_lines:
  assumes "emap (read_pricing_line db rid) (py_enumerate 0 items) = Inr xs" and "emap flush_qline (map fst xs) = Inr ls"
  shows "list_all line_adds_up (map fst xs)" and "list_all line_adds_up ls"
    and "\<forall>l \<in> set ls. ql_revision l = rid" and "sums_up r (map fst xs) = sums_up r ls"
proof -
  have each: "line_adds_up (fst x) \<and> ql_revision (fst x) = rid" if "x \<in> set xs" for x
  proof -
    from emap_in_set [OF assms(1) that] obtain y where "read_pricing_line db rid y = Inr x" by blast
    then show ?thesis using read_pricing_line_adds_up [of db rid "fst y" "snd y" "fst x" "snd x"] by simp
  qed
  then show "list_all line_adds_up (map fst xs)" by (auto simp: list_all_iff)
  have all2: "list_all2 (\<lambda>l l'. flush_qline l = Inr l') (map fst xs) ls" using assms(2) by (simp add: emap_list_all2)
  have pair: "line_adds_up l' \<and> ql_revision l' = rid \<and> ql_subtotal l' = ql_subtotal l \<and> ql_discount l' = ql_discount l
      \<and> ql_tax l' = ql_tax l \<and> ql_total l' = ql_total l"
    if "l \<in> set (map fst xs)" "flush_qline l = Inr l'" for l l'
    using that each flush_qline_adds_up [OF that(2)] flush_qline_fields(1) [OF that(2)] by auto
  have 2: "list_all2 (\<lambda>l l'. line_adds_up l' \<and> ql_revision l' = rid \<and> ql_subtotal l' = ql_subtotal l
      \<and> ql_discount l' = ql_discount l \<and> ql_tax l' = ql_tax l \<and> ql_total l' = ql_total l) (map fst xs) ls"
    by (rule list.rel_mono_strong [OF all2]) (use pair in blast)
  then show "list_all line_adds_up ls" and "\<forall>l \<in> set ls. ql_revision l = rid"
    by (auto simp: list_all_iff list_all2_conv_all_nth in_set_conv_nth)
  have eq: "map f ls = map f (map fst xs)"
    if "\<And>l l'. ql_subtotal l' = ql_subtotal l \<Longrightarrow> ql_discount l' = ql_discount l \<Longrightarrow> ql_tax l' = ql_tax l
      \<Longrightarrow> ql_total l' = ql_total l \<Longrightarrow> f l' = f l" for f :: "qline \<Rightarrow> rat"
    using 2 by (induction rule: list_all2_induct) (auto intro: that)
  have "map ql_subtotal ls = map ql_subtotal (map fst xs)" "map ql_discount ls = map ql_discount (map fst xs)"
    "map ql_tax ls = map ql_tax (map fst xs)" "map ql_total ls = map ql_total (map fst xs)"
    by (rule eq, assumption)+
  with \<open>list_all line_adds_up (map fst xs)\<close> \<open>list_all line_adds_up ls\<close> show "sums_up r (map fst xs) = sums_up r ls"
    by (simp add: sums_up_def)
qed

lemma save_lines_none:
  "\<not> (has_key data ''pricingLines'' \<or> has_key data ''lines'') \<Longrightarrow> save_lines rid data r db = Inr (data, r, db)"
  by (simp add: save_lines_def)

lemma save_lines_given:
  assumes save: "save_lines rid data r db = Inr (data', r', db')"
    and given: "has_key data ''pricingLines'' \<or> has_key data ''lines''"
  obtains items xs ls where "emap (read_pricing_line db rid) (py_enumerate 0 items) = Inr xs"
    "emap flush_qline (map fst xs) = Inr ls" "set_totals (map fst xs) r = Inr r'"
    "db' = db\<lparr>q_lines := t_add_all ls (t_del_where (\<lambda>l. ql_revision l = rid) (q_lines db))\<rparr>"
    "data' = dset data ''pricingLines'' (PList (map (PDict \<circ> snd) xs))"
proof -
  from save given have "\<exists>items xs ls. emap (read_pricing_line db rid) (py_enumerate 0 items) = Inr xs
    \<and> emap flush_qline (map fst xs) = Inr ls \<and> set_totals (map fst xs) r = Inr r'
    \<and> db' = db\<lparr>q_lines := t_add_all ls (t_del_where (\<lambda>l. ql_revision l = rid) (q_lines db))\<rparr>
    \<and> data' = dset data ''pricingLines'' (PList (map (PDict \<circ> snd) xs))"
    unfolding save_lines_def Let_def if_P [OF given] ebind_Inr_iff sum.inject prod.inject
    by clarify (intro exI conjI, (assumption | rule refl)+)
  then show thesis by (elim exE conjE) (rule that, assumption+)
qed

lemma save_lines_frame:
  assumes save: "save_lines rid data r db = Inr (data', r', db')" and old: "sums_up r (map snd (lines_of rid db))"
  shows "\<exists>L. db' = db\<lparr>q_lines := L\<rparr> \<and> own_rows ql_revision rid (q_lines db) L
      \<and> sums_up r' (map snd (t_where (\<lambda>l. ql_revision l = rid) L))"
    and "r' = r\<lparr>rv_subtotal := rv_subtotal r', rv_discount := rv_discount r', rv_tax := rv_tax r',
      rv_total := rv_total r'\<rparr>"
proof -
  have "(\<exists>L. db' = db\<lparr>q_lines := L\<rparr> \<and> own_rows ql_revision rid (q_lines db) L
      \<and> sums_up r' (map snd (t_where (\<lambda>l. ql_revision l = rid) L)))
    \<and> r' = r\<lparr>rv_subtotal := rv_subtotal r', rv_discount := rv_discount r', rv_tax := rv_tax r', rv_total := rv_total r'\<rparr>"
  proof (cases "has_key data ''pricingLines'' \<or> has_key data ''lines''")
    case False
    with save save_lines_none [OF False] have "r' = r" "db' = db" by simp_all
    with old show ?thesis by (auto simp: lines_of_def intro!: exI [of _ "q_lines db"])
  next
    case True
    from save True obtain items xs ls where
      2: "emap (read_pricing_line db rid) (py_enumerate 0 items) = Inr xs"
      "emap flush_qline (map fst xs) = Inr ls" "set_totals (map fst xs) r = Inr r'"
      "db' = db\<lparr>q_lines := t_add_all ls (t_del_where (\<lambda>l. ql_revision l = rid) (q_lines db))\<rparr>"
      by (rule save_lines_given)
    note lines = read_lines [OF 2(1,2)]
    let ?L = "t_add_all ls (t_del_where (\<lambda>l. ql_revision l = rid) (q_lines db))"
    have "own_rows ql_revision rid (q_lines db) ?L"
      using lines(3) by (intro own_rows_trans [OF own_rows_del_where own_rows_add_all]) auto
    moreover have "map snd (t_where (\<lambda>l. ql_revision l = rid) ?L) = ls"
      using lines(3) by (intro t_where_replace) auto
    moreover have "sums_up r' ls" using set_totals_sums(1) [OF 2(3) lines(1)] lines(4) by simp
    ultimately show ?thesis using 2(4) set_totals_sums(2) [OF 2(3) lines(1)] by (auto intro!: exI [of _ ?L])
  qed
  then show "\<exists>L. db' = db\<lparr>q_lines := L\<rparr> \<and> own_rows ql_revision rid (q_lines db) L
      \<and> sums_up r' (map snd (t_where (\<lambda>l. ql_revision l = rid) L))"
    and "r' = r\<lparr>rv_subtotal := rv_subtotal r', rv_discount := rv_discount r', rv_tax := rv_tax r',
      rv_total := rv_total r'\<rparr>" by blast+
qed

lemma flush_revision_cents: "flush_revision r = Inr r' \<Longrightarrow> sums_up r ls \<Longrightarrow> r' = r"
  using sums_up_cents [of r ls] flush_revision_fields [of r r'] by (simp add: cents_col4)

text \<open>All of it: only rows of the revision change, and its totals are the sums of its lines again.\<close>

lemma save_children_frame:
  assumes save: "save_revision_children c rid r data db = Inr (data', r', db')"
    and old: "sums_up r (map snd (lines_of rid db))"
  shows "\<exists>T B S L. db' = db\<lparr>q_types := T, q_boxes := B, q_stops := S, q_lines := L,
        q_revisions := t_put rid r' (q_revisions db)\<rparr>
      \<and> own_rows bx_revision rid (q_boxes db) B \<and> own_rows sp_parent rid (q_stops db) S
      \<and> own_rows ql_revision rid (q_lines db) L \<and> sums_up r' (map snd (lines_of rid db'))"
    and "r' = r\<lparr>rv_subtotal := rv_subtotal r', rv_discount := rv_discount r', rv_tax := rv_tax r',
      rv_total := rv_total r'\<rparr>"
proof -
  from save obtain d1 db1 d2 db2 db3 r1 r2 where
    1: "save_boxes rid data db = Inr (d1, db1)" and 2: "save_places c rid d1 db1 = Inr (d2, db2)"
    and 3: "save_lines rid d2 r db2 = Inr (data', r1, db3)" and 4: "flush_revision r1 = Inr r2"
    and db': "db' = db3\<lparr>q_revisions := t_put rid r2 (q_revisions db3)\<rparr>" and r': "r' = r2"
    unfolding save_revision_children_def by (auto simp: ebind_Inr_iff)
  from save_boxes_frame [OF 1] obtain T B where db1: "db1 = db\<lparr>q_types := T, q_boxes := B\<rparr>"
    and B: "own_rows bx_revision rid (q_boxes db) B" by blast
  from save_places_frame [OF 2] obtain S where db2: "db2 = db1\<lparr>q_stops := S\<rparr>"
    and S: "own_rows sp_parent rid (q_stops db1) S" by blast
  have "lines_of rid db2 = lines_of rid db" by (simp add: lines_of_def db1 db2)
  with old have old2: "sums_up r (map snd (lines_of rid db2))" by simp
  note lines = save_lines_frame [OF 3 old2]
  from lines(1) obtain L where db3: "db3 = db2\<lparr>q_lines := L\<rparr>"
    and L: "own_rows ql_revision rid (q_lines db2) L"
    and sums: "sums_up r1 (map snd (t_where (\<lambda>l. ql_revision l = rid) L))" by blast
  have r2: "r2 = r1" using flush_revision_cents [OF 4 sums] .
  have eq: "db' = db\<lparr>q_types := T, q_boxes := B, q_stops := S, q_lines := L,
      q_revisions := t_put rid r' (q_revisions db)\<rparr>"
    by (simp add: db' db3 db2 db1 r')
  have "sums_up r' (map snd (lines_of rid db'))" using sums by (simp add: lines_of_def eq r' r2)
  with eq B S L show "\<exists>T B S L. db' = db\<lparr>q_types := T, q_boxes := B, q_stops := S, q_lines := L,
        q_revisions := t_put rid r' (q_revisions db)\<rparr>
      \<and> own_rows bx_revision rid (q_boxes db) B \<and> own_rows sp_parent rid (q_stops db) S
      \<and> own_rows ql_revision rid (q_lines db) L \<and> sums_up r' (map snd (lines_of rid db'))"
    by (auto simp: db1 db2)
  show "r' = r\<lparr>rv_subtotal := rv_subtotal r', rv_discount := rv_discount r', rv_tax := rv_tax r',
      rv_total := rv_total r'\<rparr>"
    using lines(2) by (simp add: r' r2)
qed

end
