(* ===== verification/QuotationServes.thy ===== *)
theory QuotationServes
  imports QuotationSteps
begin

text \<open>
  Every operation on quotations is a run of the machine of offers: saving, opening a revision, sending,
  submitting, accepting, rejecting, cancelling and deleting.
\<close>

section \<open>Reading the book\<close>

lemma good_D:
  assumes "good db"
  shows "shape_ok db" "book_ok (book_of db)" "table_ok (q_revisions db)" "table_ok (q_stops db)" "table_ok (q_boxes db)"
    "table_ok (q_lines db)" "table_ok (q_conversions db)" "table_ok (q_orders db)"
    "rows_below sp_parent (next_id (q_revisions db)) (q_stops db)"
    "rows_below bx_revision (next_id (q_revisions db)) (q_boxes db)"
    "rows_below ql_revision (next_id (q_revisions db)) (q_lines db)"
  using assms by (simp_all add: good_def shape_ok_def)

lemma book_offer: "t_get (q_revisions db) i = Some r \<Longrightarrow> bk_offers (book_of db) i = Some (rv_status r, content_of i r db)"
  by (simp add: book_of_def)

lemma good_revision:
  assumes "good db" and "t_get (q_revisions db) i = Some r"
  shows "rv_status r \<in> set REVISION_STATUSES" and "sums_up r (map snd (lines_of i db))" and "i < next_id (q_revisions db)"
proof -
  note offer = book_offer [OF assms(2)]
  note ok = good_D(2) [OF assms(1)]
  show "rv_status r \<in> set REVISION_STATUSES" by (rule book_ok_D(2) [OF ok offer])
  have "sums_up (bare r) (map snd (lines_of i db))"
    using book_ok_D(3) [OF ok offer] by (simp add: adds_up_def content_of_def)
  then show "sums_up r (map snd (lines_of i db))" by (simp add: sums_up_def bare_def)
  show "i < next_id (q_revisions db)" using good_D(3) [OF assms(1)] assms(2) by (rule t_get_below)
qed

lemma adds_up_content: "adds_up (content_of i r db) = sums_up r (map snd (lines_of i db))"
  by (simp add: adds_up_def content_of_def sums_up_def bare_def)

lemma quotation_of_content [simp]: "quotation_of (content_of i r db) = rv_quotation r"
  by (simp add: content_of_def bare_def)

lemma draft_or_immutable: "s \<in> set REVISION_STATUSES \<Longrightarrow> s \<notin> set IMMUTABLE_STATUSES \<Longrightarrow> s = ''DRAFT''"
  by (auto simp: REVISION_STATUSES_def IMMUTABLE_STATUSES_def)

lemma content_own:
  assumes "own_rows sp_parent i (q_stops db) (q_stops db')" and "own_rows bx_revision i (q_boxes db) (q_boxes db')"
    and "own_rows ql_revision i (q_lines db) (q_lines db')" and "shape_ok db" and "j \<noteq> i"
  shows "content_of j r db' = content_of j r db"
  using assms by (simp add: content_of_def stops_of_def boxes_of_def lines_of_def shape_ok_def own_rows_D(2))

section \<open>Editing and opening\<close>

text \<open>A revision whose rows alone were written: a draft that was edited, or a new one.\<close>

lemma own_shape:
  assumes g: "good db"
    and own: "own_rows sp_parent i (q_stops db) (q_stops db')" "own_rows bx_revision i (q_boxes db) (q_boxes db')"
      "own_rows ql_revision i (q_lines db) (q_lines db')"
    and n: "next_id (q_revisions db) \<le> next_id (q_revisions db')" "i < next_id (q_revisions db')"
    and t: "table_ok (q_revisions db')" "q_conversions db' = q_conversions db" "q_orders db' = q_orders db"
  shows "shape_ok db'"
proof -
  note d = good_D [OF g]
  have "rows_below sp_parent (next_id (q_revisions db')) (q_stops db')"
    by (rule rows_below_own [OF own(1) d(4) rows_below_mono [OF d(9) n(1)] n(2)])
  moreover have "rows_below bx_revision (next_id (q_revisions db')) (q_boxes db')"
    by (rule rows_below_own [OF own(2) d(5) rows_below_mono [OF d(10) n(1)] n(2)])
  moreover have "rows_below ql_revision (next_id (q_revisions db')) (q_lines db')"
    by (rule rows_below_own [OF own(3) d(6) rows_below_mono [OF d(11) n(1)] n(2)])
  ultimately show ?thesis
    using d t own_rows_D(1) [OF own(1)] own_rows_D(1) [OF own(2)] own_rows_D(1) [OF own(3)] by (simp add: shape_ok_def)
qed

lemma edit_serves:
  assumes g: "good db" and r: "t_get (q_revisions db) i = Some r" "rv_status r = ''DRAFT''"
    and r': "rv_status r' = ''DRAFT''" "rv_quotation r' = rv_quotation r"
    and own: "own_rows sp_parent i (q_stops db) (q_stops db')" "own_rows bx_revision i (q_boxes db) (q_boxes db')"
      "own_rows ql_revision i (q_lines db) (q_lines db')"
    and t: "q_revisions db' = t_put i r' (q_revisions db)" "q_conversions db' = q_conversions db"
      "q_orders db' = q_orders db"
    and sums: "sums_up r' (map snd (lines_of i db'))"
  shows "serves db db'"
proof (rule serves_step [OF g])
  show "shape_ok db'"
    using good_revision(3) [OF g r(1)] good_D(3) [OF g] t by (intro own_shape [OF g own]) auto
  have "book_of db' = (book_of db)\<lparr>bk_offers := (bk_offers (book_of db))(i \<mapsto> (''DRAFT'', content_of i r' db'))\<rparr>"
    using r content_own [OF own good_D(1) [OF g]] by (auto simp: book_of_def t r' fun_eq_iff option.map_comp intro!: map_option_cong)
  moreover have "offer_step (book_of db) \<dots>"
    by (rule edited [where x = "content_of i r db"]) (use book_offer [OF r(1)] r r' sums in \<open>simp_all add: adds_up_content\<close>)
  ultimately show "offer_step (book_of db) (book_of db')" by simp
qed

lemma open_serves:
  assumes g: "good db" and i: "i = next_id (q_revisions db)" and r: "rv_status r = ''DRAFT''"
    and own: "own_rows sp_parent i (q_stops db) (q_stops db')" "own_rows bx_revision i (q_boxes db) (q_boxes db')"
      "own_rows ql_revision i (q_lines db) (q_lines db')"
    and t: "q_revisions db' = t_add r (q_revisions db)" "q_conversions db' = q_conversions db"
      "q_orders db' = q_orders db"
    and sums: "sums_up r (map snd (lines_of i db'))"
  shows "serves db db'"
proof (rule serves_step [OF g])
  show "shape_ok db'" using good_D(3) [OF g] t i by (intro own_shape [OF g own]) auto
  have "book_of db' = (book_of db)\<lparr>bk_next := i + 1, bk_offers := (bk_offers (book_of db))(i \<mapsto> (''DRAFT'', content_of i r db'))\<rparr>"
    using r i good_D(3) [OF g] content_own [OF own good_D(1) [OF g]]
    by (auto simp: book_of_def t fun_eq_iff intro!: map_option_cong)
  moreover have "offer_step (book_of db) \<dots>"
    using sums i by (intro opened) (simp_all add: adds_up_content book_of_def)
  ultimately show "offer_step (book_of db) (book_of db')" by simp
qed

lemma latest_member:
  assumes "latest_revision qid db = Some (i, r)"
  shows "(i, r) \<in> set (rows (q_revisions db)) \<and> rv_quotation r = qid"
proof -
  have "foldl later_revision b xs = Some x \<Longrightarrow> b = Some x \<or> x \<in> set xs" for b xs x
    by (induction xs arbitrary: b) (auto simp: later_revision_def split: option.splits if_splits)
  from this [of None "revisions_of qid db" "(i, r)"] assms show ?thesis
    by (auto simp: latest_revision_def revisions_of_def t_where_def)
qed

lemma latest_get:
  "good db \<Longrightarrow> latest_revision qid db = Some (i, r) \<Longrightarrow> t_get (q_revisions db) i = Some r \<and> rv_quotation r = qid"
  using latest_member [of qid db i r] by (auto dest: good_D(3) intro: t_get_rows)

lemma first_revision_serves:
  assumes g: "good db" and f: "first_revision c data qid d v db = ((i, r), db')"
  shows "serves db db'" and "t_get (q_revisions db') i = Some r"
proof -
  from f have r: "i = next_id (q_revisions db)" "rv_status r = ''DRAFT''" "sums_up r []"
    and db': "db' = db\<lparr>q_revisions := t_add r (q_revisions db)\<rparr>"
    by (auto simp: first_revision_def Let_def new_revision_def sums_up_def)
  then show "serves db db'"
    using good_D(11) [OF g] by (intro open_serves [OF g r(1,2)]) (simp_all add: lines_of_def rows_below_fresh)
  show "t_get (q_revisions db') i = Some r" using good_D(3) [OF g] by (simp add: db' r(1))
qed

lemma line_adds_up_moved [simp]: "line_adds_up (l\<lparr>ql_revision := i\<rparr>) = line_adds_up l"
  by (simp add: line_adds_up_def)

lemma clone_serves:
  assumes g: "good db" and s: "t_get (q_revisions db) sid = Some s"
    and c: "clone_revision qid (sid, s) user db = ((i, r), db')"
  shows "serves db db'" and "i = next_id (q_revisions db)" and "t_get (q_revisions db') i = Some r"
    and "rv_status r = ''DRAFT''" and "rv_quotation r = qid"
proof -
  let ?i = "next_id (q_revisions db)"
  let ?ls = "map (\<lambda>(_, l). l\<lparr>ql_revision := ?i\<rparr>) (t_where (\<lambda>l. ql_revision l = sid) (q_lines db))"
  from c have i: "i = ?i" and r: "r = draft_of (s\<lparr>rv_quotation := qid\<rparr>) (next_revision_no qid db) user"
    and db': "q_revisions db' = t_add r (q_revisions db)" "q_conversions db' = q_conversions db"
      "q_orders db' = q_orders db" "q_lines db' = t_add_all ?ls (q_lines db)"
    and rows: "own_rows sp_parent i (q_stops db) (q_stops db')" "own_rows bx_revision i (q_boxes db) (q_boxes db')"
      "own_rows ql_revision i (q_lines db) (q_lines db')"
    by (auto simp: clone_revision_def Let_def copy_stop_def intro!: own_rows_add_all)
  show "i = ?i" by (rule i)
  show "rv_status r = ''DRAFT''" "rv_quotation r = qid" by (simp_all add: r draft_of_def)
  show "t_get (q_revisions db') i = Some r" using good_D(3) [OF g] by (simp add: db' i)
  have "map snd (lines_of i db') = ?ls"
    using good_D(11) [OF g] by (auto simp: lines_of_def db' i snd_t_where_add_all rows_below_fresh filter_id_conv)
  also have "?ls = map (\<lambda>l. l\<lparr>ql_revision := ?i\<rparr>) (map snd (lines_of sid db))"
    by (simp add: lines_of_def case_prod_unfold)
  finally have lines: "map snd (lines_of i db') = map (\<lambda>l. l\<lparr>ql_revision := ?i\<rparr>) (map snd (lines_of sid db))" .
  have "sums_up r (map snd (lines_of i db'))"
    using good_revision(2) [OF g s] unfolding lines
    by (simp add: sums_up_def r draft_of_def list_all_iff comp_def)
  then show "serves db db'"
    by (intro open_serves [OF g i _ rows db'(1,2,3)]) (simp add: r draft_of_def)
qed

section \<open>Saving a quotation\<close>

lemma resolve_party_core: "resolve_party_by_name name c db = Inr (x, db') \<Longrightarrow> quote_core db' = quote_core db"
  by (auto simp: resolve_party_by_name_def Let_def quote_core_def split: option.splits prod.splits)

lemma resolve_direction_core: "resolve_direction v db = Inr (x, db') \<Longrightarrow> quote_core db' = quote_core db"
  by (auto simp: resolve_direction_def quote_core_def split: option.splits prod.splits if_splits)

lemma create_quotation_core:
  assumes "create_quotation c data db = Inr (x, db')"
  shows "quote_core db' = quote_core db"
proof -
  from assms obtain p db1 did db2 where
    1: "(if \<not> none_or_empty (dget data ''customerPartyId'')
      then ebind (resolve_party_by_id (dget data ''customerPartyId'') db) (\<lambda>ip. Inr (ip, db))
      else resolve_party_by_name (if truthy (dget data ''customer'') then py_strip (py_str (dget data ''customer'')) else []) c db)
      = Inr (p, db1)"
    and 2: "resolve_direction (dget data ''direction'') db1 = Inr (did, db2)"
    and 3: "quote_core db' = quote_core db2"
    unfolding create_quotation_def Let_def
    by (auto simp: ebind_Inr_iff quote_core_def split: if_splits prod.splits)
  have "quote_core db1 = quote_core db"
    using 1 by (cases "none_or_empty (dget data ''customerPartyId'')") (auto simp: ebind_Inr_iff dest: resolve_party_core)
  with resolve_direction_core [OF 2] 3 show ?thesis by simp
qed

lemma reopen_quotation_core:
  assumes "reopen_quotation c data stored db = Inr (x, db')"
  shows "quote_core db' = quote_core db"
  using assms unfolding reopen_quotation_def Let_def
  by (auto simp: ebind_Inr_iff split: if_splits prod.splits dest!: resolve_party_core resolve_direction_core)

lemma open_revision_serves:
  assumes g: "good db" and o: "open_revision c data qid q db = ((i, r), q', db')"
  shows "serves db db' \<and> t_get (q_revisions db') i = Some r \<and> rv_status r = ''DRAFT''"
proof -
  obtain j s db1 where first: "current_revision c data qid db = ((j, s), db1)" by (metis surj_pair)
  have 1: "serves db db1 \<and> t_get (q_revisions db1) j = Some s"
  proof (cases "latest_revision qid db")
    case None
    with first show ?thesis by (auto simp: current_revision_def intro: first_revision_serves [OF g])
  next
    case (Some ir)
    with first have "db1 = db" "latest_revision qid db = Some (j, s)" by (auto simp: current_revision_def)
    with latest_get [OF g] serves_same [OF g] show ?thesis by auto
  qed
  then have g1: "good db1" by (simp add: serves_def)
  show ?thesis
  proof (cases "rv_status s \<in> set IMMUTABLE_STATUSES")
    case True
    obtain i' r' db2 where c: "clone_revision qid (j, s) (q_user c) db1 = ((i', r'), db2)" by (metis surj_pair)
    with o first True have "i' = i" "r' = r" "db2 = db'" by (auto simp: open_revision_def)
    with clone_serves [OF g1 _ c] 1 show ?thesis by (auto intro: serves_trans)
  next
    case False
    with o first have "j = i" "s = r" "db1 = db'" by (auto simp: open_revision_def)
    with 1 False good_revision(1) [OF g1, of j s] show ?thesis by (auto intro: draft_or_immutable)
  qed
qed

lemma edit_terms_status [simp]:
  "rv_status (edit_terms data r) = rv_status r" "rv_quotation (edit_terms data r) = rv_quotation r"
  "sums_up (edit_terms data r) ls = sums_up r ls"
  by (simp_all add: edit_terms_def sums_up_def)

lemma children_serves:
  assumes g: "good db" and r: "t_get (q_revisions db) i = Some r" "rv_status r = ''DRAFT''"
    and save: "save_revision_children c i (edit_terms data r) data db = Inr (data', r', db')"
  shows "serves db db'"
proof -
  have sums: "sums_up (edit_terms data r) (map snd (lines_of i db))" using good_revision(2) [OF g r(1)] by simp
  note frame = save_children_frame [OF save sums]
  have "rv_status r' = rv_status (edit_terms data r)" "rv_quotation r' = rv_quotation (edit_terms data r)"
    by (subst frame(2), simp)+
  with r(2) have r': "rv_status r' = ''DRAFT''" "rv_quotation r' = rv_quotation r" by simp_all
  from frame(1) obtain T B S L where db': "db' = db\<lparr>q_types := T, q_boxes := B, q_stops := S, q_lines := L,
      q_revisions := t_put i r' (q_revisions db)\<rparr>"
    and "own_rows bx_revision i (q_boxes db) B" "own_rows sp_parent i (q_stops db) S" "own_rows ql_revision i (q_lines db) L"
    and "sums_up r' (map snd (lines_of i db'))" by blast
  then show ?thesis by (intro edit_serves [OF g r r']) simp_all
qed

lemma save_quotation_serves:
  assumes g: "good db" and s: "save_quotation raw c db = Inr (x, db')"
  shows "serves db db'"
proof -
  from s obtain data qid q party db1 where
    party: "(case named_quotation data db of None \<Rightarrow> create_quotation c data db
      | Some stored \<Rightarrow> reopen_quotation c data stored db) = Inr ((qid, q, party), db1)"
    and rest: "(let ((rid, r), q1, db2) = open_revision c data qid q db1; r1 = edit_terms data r
      in ebind (check_validity r1) (\<lambda>_.
         ebind (save_revision_children c rid r1 data db2) (\<lambda>(data', r2, db3).
           Inr ((qid, rid), db3\<lparr>q_quotations := t_put qid
             (q1\<lparr>qn_data := dmerge (qn_data q1) (echo_quotation data' r2 party)\<rparr>) (q_quotations db3)\<rparr>)))) = Inr (x, db')"
    unfolding save_quotation_def by (auto simp: ebind_Inr_iff)
  have 1: "serves db db1"
    using party by (intro serves_same [OF g]) (auto split: option.splits dest: create_quotation_core reopen_quotation_core)
  then have g1: "good db1" by (simp add: serves_def)
  obtain rid r q1 db2 where o: "open_revision c data qid q db1 = ((rid, r), q1, db2)" by (metis surj_pair)
  from open_revision_serves [OF g1 o] have 2: "serves db1 db2" "t_get (q_revisions db2) rid = Some r" "rv_status r = ''DRAFT''"
    by simp_all
  then have g2: "good db2" by (simp add: serves_def)
  from rest obtain data' r2 db3 where ch: "save_revision_children c rid (edit_terms data r) data db2 = Inr (data', r2, db3)"
    and db': "db' = db3\<lparr>q_quotations := t_put qid
             (q1\<lparr>qn_data := dmerge (qn_data q1) (echo_quotation data' r2 party)\<rparr>) (q_quotations db3)\<rparr>"
    unfolding o by (auto simp: Let_def ebind_Inr_iff)
  have 3: "serves db2 db3" by (rule children_serves [OF g2 2(2,3) ch])
  then have "serves db3 db'" by (intro serves_same) (simp_all add: serves_def db' quote_core_def)
  with 1 2(1) 3 show ?thesis by (blast intro: serves_trans)
qed

lemma create_revision_serves:
  assumes g: "good db" and s: "create_revision qid raw c db = Inr (x, db')"
  shows "serves db db'"
proof -
  from s obtain data q where rest: "(let ((i, r), db1) = next_draft c data qid db;
           reopened = (case latest_revision qid db of Some (_, l) \<Rightarrow> rv_status l \<noteq> ''DRAFT'' | None \<Rightarrow> False)
       in Inr (i, db1\<lparr>q_quotations := t_put qid
            (q\<lparr>qn_revision_no := rv_no r, qn_status := (if reopened then ''DRAFT'' else qn_status q)\<rparr>)
            (q_quotations db1)\<rparr>)) = (Inr (x, db') :: (int \<times> qdb) res)"
    unfolding create_revision_def ebind_Inr_iff by blast
  obtain i r db1 where n: "next_draft c data qid db = ((i, r), db1)" by (metis surj_pair)
  from rest obtain t where db': "db' = db1\<lparr>q_quotations := t\<rparr>" by (auto simp: n Let_def)
  have 1: "serves db db1"
  proof (cases "latest_revision qid db")
    case None
    with n show ?thesis by (auto simp: next_draft_def intro: first_revision_serves [OF g])
  next
    case (Some ir)
    obtain j s where "ir = (j, s)" by (cases ir)
    with Some n latest_get [OF g] show ?thesis by (auto simp: next_draft_def intro: clone_serves(1) [OF g])
  qed
  then have "serves db1 db'" by (intro serves_same) (auto simp: serves_def quote_core_def db')
  with 1 show ?thesis by (rule serves_trans)
qed

end
