(* ===== verification/OfferMoves.thy ===== *)
theory OfferMoves
  imports QuotationServes
begin

text \<open>
  The remaining operations as runs of the machine of offers: the transitions of a revision, the conversion
  into an order, the deletion of quotations, and what the service orders do on their own.
\<close>

section \<open>Transitions\<close>

definition progressed :: "revision \<Rightarrow> revision \<Rightarrow> bool" where
  "progressed r r' \<longleftrightarrow> bare r' = bare r \<and> (rv_status r' = rv_status r \<or> (rv_status r, rv_status r') \<in> set LIFECYCLE)"

lemma progressed_refl [simp]: "progressed r r"
  by (simp add: progressed_def)

lemma move_serves:
  assumes g: "good db" and t: "table_ok (q_revisions db')" "next_id (q_revisions db') = next_id (q_revisions db)"
    and same: "q_stops db' = q_stops db" "q_boxes db' = q_boxes db" "q_lines db' = q_lines db"
      "q_conversions db' = q_conversions db" "q_orders db' = q_orders db"
    and moved: "\<And>i. rel_option progressed (t_get (q_revisions db) i) (t_get (q_revisions db') i)"
  shows "serves db db'"
proof (rule serves_step [OF g])
  show "shape_ok db'" using good_D [OF g] by (simp add: shape_ok_def t same)
  have "moves_on (bk_offers (book_of db) i) (bk_offers (book_of db') i)" for i
    using moved [of i]
    by (cases rule: option.rel_cases)
      (auto simp: book_of_def progressed_def content_of_def same boxes_of_def lines_of_def)
  moreover have "book_of db' = (book_of db)\<lparr>bk_offers := bk_offers (book_of db')\<rparr>"
    by (simp add: book_of_def t same)
  ultimately show "offer_step (book_of db) (book_of db')" using offer_step.moved by metis
qed

lemma store_revision_serves:
  assumes g: "good db" and r: "t_get (q_revisions db) i = Some r" and p: "progressed r r'"
  shows "serves db (store_revision i r' db)"
  using good_D(3) [OF g] r p
  by (intro move_serves [OF g]) (auto simp: store_revision_def option.rel_refl)

lemma store_header_serves: "good db \<Longrightarrow> serves db (store_header quote s db)"
  by (intro serves_same) (simp_all add: store_header_def quote_core_def)

lemma serves_good: "serves db db' \<Longrightarrow> good db'"
  by (simp add: serves_def)

lemma transition_serves:
  assumes "good db" and "t_get (q_revisions db) i = Some r" and "progressed r r'"
  shows "serves db (store_header quote s (store_revision i r' db))"
  using store_revision_serves [OF assms] by (meson serves_good serves_trans store_header_serves)

lemma revision_with_quotation_D:
  "revision_with_quotation i db = Inr (quote, r) \<Longrightarrow>
     t_get (q_revisions db) i = Some r \<and> fst quote = rv_quotation r
     \<and> t_get (q_quotations db) (rv_quotation r) = Some (snd quote)"
  by (auto simp: revision_with_quotation_def ebind_Inr_iff)

lemma send_serves: "good db \<Longrightarrow> send_revision i c db = Inr (x, db') \<Longrightarrow> serves db db'"
  by (auto simp: send_revision_def ebind_Inr_iff progressed_def bare_def LIFECYCLE_def serves_same
      split: if_splits dest!: revision_with_quotation_D intro!: transition_serves)

lemma submit_serves: "good db \<Longrightarrow> submit_revision i c db = Inr (x, db') \<Longrightarrow> serves db db'"
  by (auto simp: submit_revision_def ebind_Inr_iff progressed_def bare_def LIFECYCLE_def serves_same
      split: if_splits dest!: revision_with_quotation_D intro!: transition_serves)

lemma withdraw_serves:
  assumes "good db" and "t_get (q_revisions db) i = Some r" and "progressed r r'"
  shows "serves db (withdraw quote i r' db)"
  using store_revision_serves [OF assms] transition_serves [OF assms] by (simp add: withdraw_def Let_def)

lemma with_reason_bare [simp]: "bare (with_reason k reason r) = bare r" "rv_status (with_reason k reason r) = rv_status r"
  by (auto simp: with_reason_def bare_def split: option.splits)

lemma reject_serves: "good db \<Longrightarrow> reject_revision i reason c db = Inr (x, db') \<Longrightarrow> serves db db'"
  by (auto simp: reject_revision_def ebind_Inr_iff progressed_def LIFECYCLE_def serves_same
      split: if_splits dest!: revision_with_quotation_D intro!: withdraw_serves) (auto simp: bare_def)

lemma cancel_serves: "good db \<Longrightarrow> cancel_revision i reason c db = Inr (x, db') \<Longrightarrow> serves db db'"
  by (auto simp: cancel_revision_def ebind_Inr_iff progressed_def LIFECYCLE_def serves_same
      split: if_splits dest!: revision_with_quotation_D intro!: withdraw_serves) (auto simp: bare_def)

lemma t_get_supersede:
  "t_get (supersede qid rid t) i =
     map_option (\<lambda>r. if competes qid rid i r then r\<lparr>rv_status := ''SUPERSEDED''\<rparr> else r) (t_get t i)"
proof -
  have "map_of (map (\<lambda>(i, r). (i, f i r)) xs) i = map_option (f i) (map_of xs i)"
    for f :: "int \<Rightarrow> revision \<Rightarrow> revision" and xs
    by (induction xs) auto
  then show ?thesis by (simp add: t_get_def supersede_def)
qed

lemma supersede_table [simp]:
  "table_ok (supersede qid rid t) = table_ok t" "next_id (supersede qid rid t) = next_id t"
proof -
  have 1: "map fst (rows (supersede qid rid t)) = map fst (rows t)" by (simp add: supersede_def case_prod_unfold)
  have 2: "list_all (\<lambda>(i, _). i < b) xs = list_all (\<lambda>i. i < b) (map fst xs)" for xs :: "(int \<times> revision) list" and b
    by (induction xs) auto
  show n: "next_id (supersede qid rid t) = next_id t" by (simp add: supersede_def)
  show "table_ok (supersede qid rid t) = table_ok t" by (simp only: table_ok_def 1 2 n)
qed

lemma supersede_serves:
  assumes g: "good db"
  shows "serves db (db\<lparr>q_revisions := supersede qid rid (q_revisions db)\<rparr>)"
proof (rule move_serves [OF g])
  fix i
  show "rel_option progressed (t_get (q_revisions db) i)
      (t_get (q_revisions (db\<lparr>q_revisions := supersede qid rid (q_revisions db)\<rparr>)) i)"
    by (cases "t_get (q_revisions db) i")
      (auto simp: t_get_supersede competes_def progressed_def bare_def LIFECYCLE_def)
qed (use good_D(3) [OF g] in simp_all)

lemma accept_serves:
  assumes g: "good db" and a: "accept_revision i c db = Inr (x, db')"
  shows "serves db db'"
proof -
  from a obtain quote r where q: "revision_with_quotation i db = Inr (quote, r)"
    unfolding accept_revision_def ebind_Inr_iff by fast
  then have r: "t_get (q_revisions db) i = Some r" by (simp add: revision_with_quotation_D)
  show ?thesis
  proof (cases "db' = db")
    case True
    then show ?thesis by (simp add: serves_same [OF g])
  next
    case False
    define db1 where "db1 = store_header quote ''ACCEPTED''
      (store_revision i (r\<lparr>rv_status := ''ACCEPTED'', rv_accepted := Some (q_now c)\<rparr>) db)"
    from False a have s: "rv_status r = ''SENT''" and db': "db' = db1\<lparr>q_revisions := supersede (fst quote) i (q_revisions db1)\<rparr>"
      by (auto simp: accept_revision_def q Let_def db1_def split: if_splits)
    have "serves db db1"
      unfolding db1_def by (intro transition_serves [OF g r]) (simp add: progressed_def bare_def LIFECYCLE_def s)
    then show ?thesis using supersede_serves [OF serves_good] by (auto simp: db' intro: serves_trans)
  qed
qed

section \<open>Conversion\<close>

lemma create_service_order_frame:
  assumes "create_service_order_from_quotation (qid, q) (rid, r) c db = Inr ((oid, s), db')"
  shows "oid = next_id (q_orders db)" "so_revision s = Some rid" "q_orders db' = t_add s (q_orders db)"
    "q_revisions db' = q_revisions db" "q_stops db' = q_stops db" "q_boxes db' = q_boxes db" "q_lines db' = q_lines db"
    "q_conversions db' = q_conversions db" "q_quotations db' = q_quotations db"
  using assms
  by (auto simp: create_service_order_from_quotation_def Let_def ebind_Inr_iff stamp_service_order_def
      split: prod.splits option.splits if_splits)

lemma sold_as_book:
  "sold_as (book_of db) qid k \<longleftrightarrow>
     (\<exists>v r. t_get (q_conversions db) k = Some v \<and> t_get (q_revisions db) (cv_revision v) = Some r \<and> rv_quotation r = qid)"
  by (auto simp: sold_as_iff belongs_iff book_of_def)

lemma no_conversion:
  assumes "good db" and "conversion_for_quotation qid db = None"
  shows "\<not> sold_as (book_of db) qid k"
proof
  assume "sold_as (book_of db) qid k"
  then obtain v where "t_get (q_conversions db) k = Some v" "converts qid db v"
    by (auto simp: sold_as_book converts_def)
  moreover from this have "v \<in> set (t_vals (q_conversions db))"
    using t_vals_get [OF good_D(7) [OF assms(1)]] by blast
  ultimately show False using assms(2) by (auto simp: conversion_for_quotation_def t_first_None)
qed

lemma add_conversion_D:
  "add_conversion v db = Inr db' \<Longrightarrow> db' = db\<lparr>q_conversions := t_add v (q_conversions db)\<rparr>"
  by (auto simp: add_conversion_def Let_def split: if_splits)

text \<open>A conversion that is not a replay.\<close>

lemma convert_cases:
  assumes "convert_revision rid key c db = Inr (oid, db')"
  obtains (replay) k v where "db' = db" "key = Some k" "conversion_by_key k db = Some v" "oid = cv_order (snd v)"
  | (sold) quote r s db1 where "revision_with_quotation rid db = Inr (quote, r)"
      "conversion_for_quotation (fst quote) db = None" "rv_status r \<in> set CONVERTIBLE"
      "create_service_order_from_quotation quote (rid, r) c db = Inr ((oid, s), db1)"
      "db' = store_header quote ''CONVERTED'' (store_revision rid (r\<lparr>rv_status := ''CONVERTED''\<rparr>)
         (db1\<lparr>q_conversions := t_add \<lparr>cv_revision = rid, cv_order = oid, cv_by = q_user c, cv_at = q_now c, cv_key = key\<rparr>
            (q_conversions db1)\<rparr>))"
proof -
  define replayed where "replayed = (case key of Some k \<Rightarrow> if k = [] then None else conversion_by_key k db | None \<Rightarrow> None)"
  show thesis
  proof (cases replayed)
    case (Some v)
    then obtain k where k: "key = Some k" "conversion_by_key k db = Some v"
      by (auto simp: replayed_def split: option.splits if_splits)
    from Some assms have "db' = db" "oid = cv_order (snd v)"
      by (cases v; auto simp: convert_revision_def replayed_def [symmetric] ebind_Inr_iff)+
    with k show thesis by (intro replay)
  next
    case None
    with assms show thesis
      by (auto simp: convert_revision_def replayed_def [symmetric] ebind_Inr_iff CONVERTIBLE_def simp del: not_None_eq
          split: if_splits dest!: add_conversion_D intro!: sold)
  qed
qed

lemma convert_serves:
  assumes g: "good db" and a: "convert_revision rid key c db = Inr (oid, db')"
  shows "serves db db'"
  using a
proof (cases rule: convert_cases)
  case replay
  then show ?thesis by (simp add: serves_same [OF g])
next
  case (sold quote r s db1)
  obtain qid q where quote: "quote = (qid, q)" by (cases quote)
  from revision_with_quotation_D [OF sold(1)] have r: "t_get (q_revisions db) rid = Some r" "qid = rv_quotation r"
    by (simp_all add: quote)
  note frame = create_service_order_frame [OF sold(4) [unfolded quote]]
  let ?k = "next_id (q_conversions db)"
  have db': "q_revisions db' = t_put rid (r\<lparr>rv_status := ''CONVERTED''\<rparr>) (q_revisions db)"
    "q_stops db' = q_stops db" "q_boxes db' = q_boxes db" "q_lines db' = q_lines db"
    "q_conversions db' = t_add \<lparr>cv_revision = rid, cv_order = oid, cv_by = q_user c, cv_at = q_now c, cv_key = key\<rparr>
       (q_conversions db)"
    "q_orders db' = t_add s (q_orders db)"
    by (simp_all add: sold(5) store_header_def store_revision_def frame)
  show ?thesis
  proof (rule serves_step [OF g])
    show "shape_ok db'" using good_D [OF g] by (simp add: shape_ok_def db')
    have c: "content_of j x db' = content_of j x db" for j x
      by (simp add: content_of_def boxes_of_def lines_of_def db')
    have "bare (r\<lparr>rv_status := ''CONVERTED''\<rparr>) = bare r" by (simp add: bare_def)
    then have cr: "content_of rid (r\<lparr>rv_status := ''CONVERTED''\<rparr>) db = content_of rid r db" by (simp add: content_of_def)
    have "book_of db' = (book_of db)\<lparr>bk_offers := (bk_offers (book_of db))(rid \<mapsto> (''CONVERTED'', content_of rid r db)),
        bk_sold := (bk_sold (book_of db))(?k \<mapsto> (rid, oid)), bk_orders := (bk_orders (book_of db))(oid \<mapsto> Some rid)\<rparr>"
      using good_D(7,8) [OF g] r(1) frame(1,2) by (auto simp: book_of_def db' c cr fun_eq_iff)
    moreover have "offer_step (book_of db) \<dots>"
    proof (rule converted)
      show "bk_offers (book_of db) rid = Some (rv_status r, content_of rid r db)" by (rule book_offer [OF r(1)])
      show "\<not> sold_as (book_of db) (quotation_of (content_of rid r db)) k" for k
        using no_conversion [OF g] sold(2) r(2) by (simp add: quote)
    qed (use sold(3) good_D(7,8) [OF g] frame(1) in \<open>simp_all add: book_of_def\<close>)
    ultimately show "offer_step (book_of db) (book_of db')" by simp
  qed
qed

section \<open>Deleting quotations\<close>

lemma revisions_of_ids:
  "table_ok (q_revisions db) \<Longrightarrow>
     i \<in> set (map fst (revisions_of qid db)) \<longleftrightarrow> (\<exists>r. t_get (q_revisions db) i = Some r \<and> rv_quotation r = qid)"
  by (force simp: revisions_of_def t_where_def intro: t_get_rows dest: t_get_Some_rows)

lemma belongs_ids:
  assumes "good db"
  shows "belongs (book_of db) qid i \<longleftrightarrow> i \<in> set (map fst (revisions_of qid db))"
  unfolding revisions_of_ids [OF good_D(3) [OF assms]] belongs_iff by (auto simp: book_of_def)

text \<open>All sales of a quotation that may be deleted are to orders that are gone.\<close>

lemma sales_dead:
  assumes g: "good db" and ok: "\<not> (case conversion_for_quotation qid db of Some (_, v) \<Rightarrow> order_alive db (cv_order v) | None \<Rightarrow> False)"
    and k: "t_get (q_conversions db) k = Some v" "cv_revision v \<in> set (map fst (revisions_of qid db))"
  shows "\<not> order_alive db (cv_order v)"
proof -
  have sold: "sold_as (book_of db) qid k"
    using k(2) unfolding sold_as_iff belongs_ids [OF g] by (simp add: book_of_def k(1))
  then have "conversion_for_quotation qid db \<noteq> None" using no_conversion [OF g] by blast
  then obtain k' v' where first: "conversion_for_quotation qid db = Some (k', v')" by auto
  then have "t_get (q_conversions db) k' = Some v'" "converts qid db v'"
    using t_first_get [OF good_D(7) [OF g]] by (auto simp: conversion_for_quotation_def)
  then have "sold_as (book_of db) qid k'" by (auto simp: sold_as_book converts_def split: option.splits)
  with sold have "k' = k" using book_ok_D(5) [OF good_D(2) [OF g]] by blast
  with \<open>t_get (q_conversions db) k' = Some v'\<close> k(1) have "v' = v" by simp
  with ok first show ?thesis by simp
qed

lemma delete_quotation_cases:
  assumes "delete_quotation qid db = Inr db'" and "db' \<noteq> db"
  obtains "\<not> (case conversion_for_quotation qid db of Some (_, v) \<Rightarrow> order_alive db (cv_order v) | None \<Rightarrow> False)"
    "db' = db\<lparr>q_conversions := t_del_where (\<lambda>v. cv_revision v \<in> set (map fst (revisions_of qid db))
                               \<and> \<not> order_alive db (cv_order v)) (q_conversions db),
       q_quotations := t_del qid (q_quotations db),
       q_revisions := t_del_where (\<lambda>r. rv_quotation r = qid) (q_revisions db),
       q_stops := t_del_where (\<lambda>p. sp_parent p \<in> set (map fst (revisions_of qid db))) (q_stops db),
       q_boxes := t_del_where (\<lambda>b. bx_revision b \<in> set (map fst (revisions_of qid db))) (q_boxes db),
       q_lines := t_del_where (\<lambda>l. ql_revision l \<in> set (map fst (revisions_of qid db))) (q_lines db)\<rparr>"
proof (cases "t_get (q_quotations db) qid")
  case None
  with assms show thesis by (simp add: delete_quotation_def)
next
  case (Some q)
  show thesis
  proof (cases "case conversion_for_quotation qid db of Some (_, v) \<Rightarrow> order_alive db (cv_order v) | None \<Rightarrow> False")
    case True
    with assms Some show thesis by (simp add: delete_quotation_def)
  next
    case False
    with assms Some show thesis
      by (auto simp: delete_quotation_def Let_def split: if_splits intro: that)
  qed
qed

lemma rows_below_del_where: "rows_below f n t \<Longrightarrow> rows_below f n (t_del_where P t)"
  by (auto simp: rows_below_def list_all_iff)

lemma delete_serves:
  assumes g: "good db" and d: "delete_quotation qid db = Inr db'"
  shows "serves db db'"
proof (cases "db' = db")
  case True
  then show ?thesis by (simp add: serves_same [OF g])
next
  case False
  let ?ids = "set (map fst (revisions_of qid db))"
  from d False show ?thesis
  proof (cases rule: delete_quotation_cases)
    case 1
    have n: "next_id (q_revisions db') = next_id (q_revisions db)" by (simp add: 1(2))
    show ?thesis
    proof (rule serves_step [OF g])
      show "shape_ok db'" using good_D [OF g] by (simp add: shape_ok_def 1(2) rows_below_del_where)
      have keep: "content_of i r db' = content_of i r db" if "i \<notin> ?ids" for i r
        using that by (simp add: content_of_def stops_of_def boxes_of_def lines_of_def 1(2))
          (auto intro!: t_where_del_where_other)
      have offers: "bk_offers (book_of db') i = (if belongs (book_of db) qid i then None else bk_offers (book_of db) i)" for i
      proof (cases "t_get (q_revisions db) i")
        case None
        then show ?thesis using good_D(3) [OF g] by (simp add: book_of_def 1(2) t_get_del_where)
      next
        case (Some r)
        then have "belongs (book_of db) qid i \<longleftrightarrow> rv_quotation r = qid" by (simp add: belongs_iff book_of_def)
        moreover have "i \<in> ?ids \<longleftrightarrow> rv_quotation r = qid" using Some
          unfolding revisions_of_ids [OF good_D(3) [OF g]] by simp
        moreover have "t_get (q_revisions db') i = (if rv_quotation r = qid then None else Some r)"
          using Some good_D(3) [OF g] by (simp add: 1(2) t_get_del_where)
        ultimately show ?thesis using Some keep [of i r] by (simp add: book_of_def)
      qed
      have sold: "bk_sold (book_of db') k = (if sold_as (book_of db) qid k then None else bk_sold (book_of db) k)" for k
      proof (cases "t_get (q_conversions db) k")
        case None
        then show ?thesis using good_D(7) [OF g] by (simp add: book_of_def 1(2) t_get_del_where)
      next
        case (Some v)
        then have s: "sold_as (book_of db) qid k \<longleftrightarrow> cv_revision v \<in> ?ids"
          unfolding sold_as_iff belongs_ids [OF g] by (simp add: book_of_def)
        have "t_get (q_conversions db') k = (if cv_revision v \<in> ?ids then None else Some v)"
          using Some good_D(7) [OF g] sales_dead [OF g 1(1) Some] by (simp add: 1(2) t_get_del_where)
        then show ?thesis using Some by (simp add: s) (simp add: book_of_def)
      qed
      have "book_of db' = (book_of db)\<lparr>bk_offers := bk_offers (book_of db'), bk_sold := bk_sold (book_of db')\<rparr>"
        by (simp add: book_of_def 1(2))
      also have "bk_offers (book_of db') = (\<lambda>i. if belongs (book_of db) qid i then None else bk_offers (book_of db) i)"
        using offers by (rule ext)
      also have "bk_sold (book_of db') = (\<lambda>k. if sold_as (book_of db) qid k then None else bk_sold (book_of db) k)"
        using sold by (rule ext)
      finally have eq: "book_of db' = (book_of db)\<lparr>bk_offers := (\<lambda>i. if belongs (book_of db) qid i then None else bk_offers (book_of db) i),
          bk_sold := (\<lambda>k. if sold_as (book_of db) qid k then None else bk_sold (book_of db) k)\<rparr>" .
      show "offer_step (book_of db) (book_of db')"
        unfolding eq
      proof (rule dropped)
        fix k rid oid
        assume "bk_sold (book_of db) k = Some (rid, oid)" and b: "belongs (book_of db) qid rid"
        then obtain v where "t_get (q_conversions db) k = Some v" "rid = cv_revision v" "oid = cv_order v"
          by (auto simp: book_of_def)
        with sales_dead [OF g 1(1), of k v] b show "bk_orders (book_of db) oid = None"
          by (simp add: belongs_ids [OF g] order_alive_def) (simp add: book_of_def)
      qed
    qed
  qed
qed

lemma serves_refl: "good db \<Longrightarrow> serves db db"
  by (rule serves_same) simp_all

lemma delete_quotations_serves:
  assumes g: "good db" and d: "delete_quotations ids c db = Inr (x, db')"
  shows "serves db db'"
proof -
  from d have loop: "efold delete_quotation ids db = Inr db'" by (auto simp: delete_quotations_def ebind_Inr_iff)
  show ?thesis
    by (rule efold_invariant [where I = "serves db", OF loop serves_refl [OF g]])
      (blast intro: serves_trans delete_serves serves_good)
qed

section \<open>Service orders on their own\<close>

lemma orders_serves:
  assumes g: "good db"
    and same: "q_revisions db' = q_revisions db" "q_stops db' = q_stops db" "q_boxes db' = q_boxes db"
      "q_lines db' = q_lines db" "q_conversions db' = q_conversions db"
    and ok: "table_ok (q_orders db')"
    and old: "\<And>i s r. t_get (q_orders db') i = Some s \<Longrightarrow> so_revision s = Some r \<Longrightarrow>
      \<exists>s0. t_get (q_orders db) i = Some s0 \<and> so_revision s0 = Some r"
  shows "serves db db'"
proof (rule serves_step [OF g])
  show "shape_ok db'" using good_D [OF g] ok by (simp add: shape_ok_def same)
  have "book_of db' = (book_of db)\<lparr>bk_orders := bk_orders (book_of db')\<rparr>"
    by (simp add: book_of_def same content_of_def boxes_of_def lines_of_def)
  moreover have "offer_step (book_of db) \<dots>" by (rule orders_changed) (use old in \<open>force simp: book_of_def\<close>)
  ultimately show "offer_step (book_of db) (book_of db')" by simp
qed

end
