(* ===== verification/QuotationMachine.thy ===== *)
theory QuotationMachine
  imports OfferMoves
begin

text \<open>
  The services of quotations and service orders as one state machine: a call per endpoint that changes
  state, and the writes of the other modules to the tables these services only read. Every run of it is a
  run of the machine of offers, so what holds of every book of offers holds of every database.
\<close>

section \<open>Service orders\<close>

lemma create_order_frame:
  assumes "create_order c data db = Inr ((i, s), db')"
  shows "q_orders db' = t_add s (q_orders db) \<and> i = next_id (q_orders db) \<and> so_revision s = None
    \<and> q_revisions db' = q_revisions db \<and> q_stops db' = q_stops db \<and> q_boxes db' = q_boxes db
    \<and> q_lines db' = q_lines db \<and> q_conversions db' = q_conversions db"
proof -
  from assms obtain p db1 did db2 where
    1: "resolve_party_by_name (text_or_empty (str_or_none (dget data ''customer''))) c db = Inr (p, db1)"
    and 2: "resolve_direction (dget data ''direction'') db1 = Inr (did, db2)"
    and 3: "q_orders db' = t_add s (q_orders db2) \<and> i = next_id (q_orders db2) \<and> so_revision s = None
      \<and> q_revisions db' = q_revisions db2 \<and> q_stops db' = q_stops db2 \<and> q_boxes db' = q_boxes db2
      \<and> q_lines db' = q_lines db2 \<and> q_conversions db' = q_conversions db2"
    unfolding create_order_def Let_def
    by (auto simp: ebind_Inr_iff stamp_service_order_def split: if_splits prod.splits option.splits)
  from resolve_party_core [OF 1] resolve_direction_core [OF 2] 3 show ?thesis by (simp add: quote_core_def)
qed

lemma reopen_order_frame:
  assumes "reopen_order c data (i, s0) db = Inr ((j, s), db')"
  shows "j = i \<and> so_revision s = so_revision s0 \<and> quote_core db' = quote_core db"
  using assms unfolding reopen_order_def Let_def
  by (auto simp: ebind_Inr_iff split: if_splits prod.splits dest!: resolve_party_core resolve_direction_core)

lemma find_order_get: "good db \<Longrightarrow> find_order v db = Some (i, s) \<Longrightarrow> t_get (q_orders db) i = Some s"
  using good_D(8) [of db] by (auto simp: find_order_def Let_def split: option.splits if_splits dest: t_first_get)

lemma save_order_places_frame:
  "save_order_places c i data db = Inr (data', db') \<Longrightarrow>
     \<exists>S. db' = db\<lparr>q_order_stops := S\<rparr> \<and> own_rows sp_parent i (q_order_stops db) S"
proof (cases "has_key data ''places''")
  case False
  then show "save_order_places c i data db = Inr (data', db') \<Longrightarrow> ?thesis"
    by (intro exI [of _ "q_order_stops db"]) (simp add: save_order_places_def)
next
  case True
  then show "save_order_places c i data db = Inr (data', db') \<Longrightarrow> ?thesis"
    by (auto simp: save_order_places_def ebind_Inr_iff dest: save_route_stops_own)
qed

lemma put_order_serves:
  assumes g: "good db" and s0: "t_get (q_orders db) i = Some s0" and s: "so_revision s = so_revision s0"
    and db': "quote_core db' = quote_core (db\<lparr>q_orders := t_put i s (q_orders db)\<rparr>)"
  shows "serves db db'"
proof (rule orders_serves [OF g])
  show "table_ok (q_orders db')" using good_D(8) [OF g] db' by (simp add: quote_core_def)
  fix j x r
  assume "t_get (q_orders db') j = Some x" and "so_revision x = Some r"
  then show "\<exists>y. t_get (q_orders db) j = Some y \<and> so_revision y = Some r"
    using db' s0 s by (auto simp: quote_core_def split: if_splits)
qed (use db' in \<open>simp_all add: quote_core_def\<close>)

lemma save_order_serves:
  assumes g: "good db" and s: "save_service_order raw c db = Inr (x, db')"
  shows "serves db db'"
proof -
  from s obtain data v y where opened: "open_order c data v db = Inr y" and w: "write_order c data y = Inr (x, db')"
    unfolding save_service_order_def Let_def ebind_Inr_iff by blast
  obtain i s db1 where y: "y = ((i, s), db1)" by (metis surj_pair)
  from opened have find: "(case (if truthy v then find_order v db else None) of
       None \<Rightarrow> create_order c data db | Some stored \<Rightarrow> reopen_order c data stored db) = Inr ((i, s), db1)"
    by (simp add: open_order_def y)
  from w obtain data' db2 where places: "save_order_places c i data db1 = Inr (data', db2)"
    and db': "db' = db2\<lparr>q_orders := t_put i (s\<lparr>so_data := dmerge (so_data s)
                     (filter (\<lambda>(k, _). k \<notin> {''id'', ''createdAt'', ''updatedAt''}) data')\<rparr>) (q_orders db2)\<rparr>"
    by (auto simp: write_order_def y ebind_Inr_iff)
  from save_order_places_frame [OF places] obtain S where db2: "db2 = db1\<lparr>q_order_stops := S\<rparr>" by blast
  show ?thesis
  proof (cases "if truthy v then find_order v db else None")
    case None
    with find have "create_order c data db = Inr ((i, s), db1)" by simp
    from create_order_frame [OF this] show ?thesis
      using good_D(8) [OF g]
      by (intro orders_serves [OF g]) (auto simp: db' db2 split: if_splits)
  next
    case (Some io)
    then obtain s0 where "find_order v db = Some (i, s0)" and "reopen_order c data (i, s0) db = Inr ((i, s), db1)"
      using find by (cases io) (auto split: if_splits dest: reopen_order_frame)
    with reopen_order_frame find_order_get [OF g] show ?thesis
      by (intro put_order_serves [OF g]) (auto simp: db' db2 quote_core_def)
  qed
qed

lemma set_order_status_serves:
  assumes g: "good db" and f: "find_order v db = Some (i, s)"
    and db': "db' = db\<lparr>q_orders := t_put i (s\<lparr>so_status := st\<rparr>) (q_orders db)\<rparr>"
  shows "serves db db'"
  by (rule put_order_serves [OF g find_order_get [OF g f], where s = "s\<lparr>so_status := st\<rparr>"]) (simp_all add: db')

lemma finish_serves:
  assumes g: "good db" and f: "finish_service_order v c db = Inr (x, db')"
  shows "serves db db'"
proof -
  from f obtain i s where s: "find_order v db = Some (i, s)"
    and "db' = db \<or> db' = db\<lparr>q_orders := t_put i (s\<lparr>so_status := ''FINISHED''\<rparr>) (q_orders db)\<rparr>"
    by (auto simp: finish_service_order_def resolve_order_def ebind_Inr_iff split: if_splits option.splits)
  then show ?thesis using serves_refl [OF g] set_order_status_serves [OF g s] by blast
qed

lemma set_status_serves:
  assumes g: "good db" and f: "set_service_order_status v st c db = Inr (x, db')"
  shows "serves db db'"
proof -
  from f obtain i s t where s: "find_order v db = Some (i, s)"
    and "db' = db\<lparr>q_orders := t_put i (s\<lparr>so_status := t\<rparr>) (q_orders db)\<rparr>"
    by (auto simp: set_service_order_status_def resolve_order_def ebind_Inr_iff split: if_splits option.splits)
  then show ?thesis using set_order_status_serves [OF g s] by blast
qed

lemma delete_order_serves: "good db \<Longrightarrow> serves db (delete_order i db)"
  using good_D(8) [of db] by (auto simp: delete_order_def split: if_splits intro!: orders_serves)

lemma delete_orders_fold: "serves db d \<Longrightarrow> serves db (fold delete_order js d)"
proof (induction js arbitrary: d)
  case (Cons j js)
  show ?case using Cons.IH [OF serves_trans [OF Cons.prems delete_order_serves [OF serves_good [OF Cons.prems]]]] by simp
qed simp

lemma delete_orders_serves:
  assumes g: "good db" and d: "delete_service_orders is c db = Inr (x, db')"
  shows "serves db db'"
  using d delete_orders_fold [OF serves_refl [OF g]]
  by (auto simp: delete_service_orders_def Let_def split: if_splits)

lemma requote_serves:
  assumes g: "good db" and s: "create_quotation_from_service_order v c db = Inr (x, db')"
  shows "serves db db'"
proof -
  from s obtain p y db1 where 1: "save_quotation p c db = Inr (y, db1)" and "quote_core db' = quote_core db1"
    by (auto simp: create_quotation_from_service_order_def ebind_Inr_iff quote_core_def split: option.splits)
  with save_quotation_serves [OF g 1] show ?thesis by (meson serves_same serves_trans serves_good)
qed

section \<open>Calls\<close>

datatype quotation_call =
    SaveQuotation payload
  | CreateRevision int payload
  | SendRevision int
  | SubmitRevision int
  | AcceptRevision int
  | RejectRevision int "string option"
  | CancelRevision int "string option"
  | ConvertRevision int "string option"
  | DeleteQuotations "int list"
  | QuoteOrder pyval
  | SaveOrder payload
  | FinishOrder pyval
  | SetOrderStatus pyval pyval
  | DeleteOrders "int list"

definition stored :: "('a \<times> qdb) res \<Rightarrow> qdb res" where
  "stored m = ebind m (\<lambda>x. Inr (snd x))"

fun perform :: "quotation_call \<Rightarrow> qcall \<Rightarrow> qdb \<Rightarrow> qdb res" where
  "perform (SaveQuotation p) c db = stored (save_quotation p c db)"
| "perform (CreateRevision q p) c db = stored (create_revision q p c db)"
| "perform (SendRevision r) c db = stored (send_revision r c db)"
| "perform (SubmitRevision r) c db = stored (submit_revision r c db)"
| "perform (AcceptRevision r) c db = stored (accept_revision r c db)"
| "perform (RejectRevision r t) c db = stored (reject_revision r t c db)"
| "perform (CancelRevision r t) c db = stored (cancel_revision r t c db)"
| "perform (ConvertRevision r k) c db = stored (convert_revision r k c db)"
| "perform (DeleteQuotations is) c db = stored (delete_quotations is c db)"
| "perform (QuoteOrder v) c db = stored (create_quotation_from_service_order v c db)"
| "perform (SaveOrder p) c db = stored (save_service_order p c db)"
| "perform (FinishOrder v) c db = stored (finish_service_order v c db)"
| "perform (SetOrderStatus v s) c db = stored (set_service_order_status v s c db)"
| "perform (DeleteOrders is) c db = stored (delete_service_orders is c db)"

lemma stored_Inr: "stored m = Inr db' \<longleftrightarrow> (\<exists>x. m = Inr (x, db'))"
  by (auto simp: stored_def ebind_Inr_iff)

lemma perform_serves: "good db \<Longrightarrow> perform x c db = Inr db' \<Longrightarrow> serves db db'"
  by (cases x)
    (auto simp: stored_Inr dest: save_quotation_serves create_revision_serves send_serves submit_serves accept_serves
      reject_serves cancel_serves convert_serves delete_quotations_serves requote_serves save_order_serves
      finish_serves set_status_serves delete_orders_serves)

section \<open>The machine\<close>

inductive qstep :: "qdb \<Rightarrow> qdb \<Rightarrow> bool" where
  qs_served: "perform x c db = Inr db' \<Longrightarrow> qstep db db'"
| qs_elsewhere: "qstep db (db\<lparr>q_books := b, q_parties := p, q_directions := d, q_roles := ro, q_types := ty,
    q_transports := tr, q_published := v, q_containers := k\<rparr>)"

inductive_cases qstep_E: "qstep db db'"

definition q_initial :: "qdb \<Rightarrow> bool" where
  "q_initial db \<longleftrightarrow> q_quotations db = empty_table \<and> q_revisions db = empty_table \<and> q_stops db = empty_table
     \<and> q_boxes db = empty_table \<and> q_lines db = empty_table \<and> q_conversions db = empty_table
     \<and> q_orders db = empty_table \<and> q_order_stops db = empty_table \<and> q_requirements db = empty_table
     \<and> q_pricings db = empty_table \<and> q_pricing_lines db = empty_table"

lemma q_initial_good: "q_initial db \<Longrightarrow> good db"
proof -
  have [simp]: "t_get (empty_table :: 'r table) i = None" for i by (simp add: t_get_def empty_table_def)
  have [simp]: "rows_below f n (empty_table :: 'r table)" for f :: "'r \<Rightarrow> int" and n by (simp add: rows_below_def)
  assume "q_initial db"
  then show ?thesis
    by (auto simp: good_def shape_ok_def q_initial_def book_of_def empty_book_def intro!: empty_book_ok)
qed

lemma qstep_serves: "good db \<Longrightarrow> qstep db db' \<Longrightarrow> serves db db'"
  by (auto elim!: qstep_E intro: perform_serves serves_same simp: quote_core_def)

definition q_later :: "qdb \<Rightarrow> qdb \<Rightarrow> bool" where
  "q_later db db' \<longleftrightarrow> frozen_since (book_of db) (book_of db')"

interpretation quotes: evolution q_initial qstep good q_later
proof unfold_locales
  fix s t u :: qdb
  show "q_initial s \<Longrightarrow> good s" by (rule q_initial_good)
  show "good s \<Longrightarrow> qstep s t \<Longrightarrow> good t" by (blast dest: qstep_serves serves_good)
  show "q_later s s" by (simp add: q_later_def frozen_since_refl)
  show "q_later s t \<Longrightarrow> q_later t u \<Longrightarrow> q_later s u" by (simp add: q_later_def) (rule frozen_since_trans)
  show "q_later s t" if "good s" "qstep s t"
    using qstep_serves [OF that] that(1) offers.run_later
    by (auto simp: q_later_def serves_def good_def)
qed

end
