(* ===== verification/QuotationDemo.thy ===== *)
theory QuotationDemo
  imports QuotationMachine Demo
begin

text \<open>
  A small quotation: saved with a priced line, a container and a stop, submitted, and converted into a
  service order. The witnesses of the properties of quotations evaluate on these states.
\<close>

definition quote0 :: qdb where
  "quote0 = \<lparr>q_books = demo0,
     q_parties = a_table [\<lparr>bp_code = ''C-1'', bp_legal = ''Angkor Co'', bp_display = None, bp_roles = [''Customer''],
       bp_status = ''ACTIVE'', bp_deleted = False\<rparr>],
     q_directions = a_table [\<lparr>td_code = ''EXPORT'', td_name = ''Export'', td_status = ''ACTIVE'', td_deleted = False\<rparr>],
     q_roles = a_table [\<lparr>plr_code = ''PICKUP'', plr_name = ''Pickup'', plr_status = ''ACTIVE''\<rparr>],
     q_types = a_table [\<lparr>bt_code = ''20GP'', bt_name = ''20 GP'', bt_status = ''ACTIVE'', bt_deleted = False\<rparr>],
     q_transports = empty_table, q_published = Some 4, q_quotations = empty_table, q_revisions = empty_table,
     q_stops = empty_table, q_boxes = empty_table, q_lines = empty_table, q_conversions = empty_table,
     q_orders = empty_table, q_order_stops = empty_table, q_requirements = empty_table, q_containers = empty_table,
     q_pricings = empty_table, q_pricing_lines = empty_table\<rparr>"

definition quote_call :: qcall where
  "quote_call = \<lparr>qc_request = demo_rq, qc_code = (\<lambda>_. ''P-1''), qc_parse = (\<lambda>_. None), qc_iso = (\<lambda>_. [])\<rparr>"

definition quote_request :: payload where
  "quote_request =
     [(''customerPartyId'', PStr ''1''), (''direction'', PStr ''EXPORT''), (''date'', PStr ''2024-05-10''),
      (''places'', PList [PDict [(''placeRoleId'', PStr ''1''), (''place'', PStr ''Phnom Penh'')]]),
      (''containerRequirements'', PList [PDict [(''containerTypeId'', PStr ''1''), (''quantity'', PInt 2)]]),
      (''pricingLines'', PList [PDict [(''description'', PStr ''Freight''), (''quantity'', PInt 2), (''unitPrice'', PInt 50),
         (''discount'', PInt 10), (''taxRate'', PInt 10)]])]"

section \<open>The rows it fills\<close>

definition quote_echo :: payload where
  "quote_echo =
     [(''customerPartyId'', PStr ''1''), (''direction'', PStr ''EXPORT''), (''date'', PDate (Date 2024 5 10)),
      (''places'', PList [PDict [(''id'', PStr ''1''), (''sequence'', PInt 1), (''sequenceNo'', PInt 1),
         (''placeRoleId'', PStr ''1''), (''placeRole'', PStr ''Pickup''), (''placeRoleName'', PStr ''Pickup''),
         (''place'', PStr ''Phnom Penh''), (''planned'', PStr []), (''actual'', PStr []), (''notes'', PStr [])]]),
      (''containerRequirements'', PList [PDict [(''containerTypeId'', PStr ''1''), (''quantity'', PDec (DFin 2))]]),
      (''pricingLines'', PList [PDict [(''description'', PStr ''Freight''), (''quantity'', PDec (DFin 2)),
         (''unitPrice'', PDec (DFin 50)), (''discount'', PDec (DFin 10)), (''taxRate'', PDec (DFin 10))]]),
      (''subtotal'', PDec (DFin 100)), (''discount'', PDec (DFin 10)), (''tax'', PDec (DFin 9)),
      (''total'', PDec (DFin 99)), (''amount'', PDec (DFin 99)), (''customer'', PStr ''Angkor Co'')]"

definition quote_header :: "string \<Rightarrow> quotation" where
  "quote_header status = \<lparr>qn_no = ''Q2024-000001'', qn_party = 1, qn_direction = 1, qn_status = status,
     qn_revision_no = 1, qn_source = None, qn_data = quote_echo\<rparr>"

definition quote_revision :: "string \<Rightarrow> int option \<Rightarrow> revision" where
  "quote_revision status sent = \<lparr>rv_quotation = 1, rv_no = 1, rv_status = status, rv_date = Date 2024 5 10,
     rv_valid = None, rv_currency = ''USD'', rv_description = None, rv_notes = None, rv_subtotal = 100,
     rv_discount = 10, rv_tax = 9, rv_total = 99, rv_created_by = Some 7, rv_sent = sent, rv_accepted = None,
     rv_rejected = None, rv_data = []\<rparr>"

definition quote_stop :: stop where
  "quote_stop = \<lparr>sp_parent = 1, sp_role_id = Some 1, sp_role = ''Pickup'', sp_sequence = 1, sp_planned = None,
     sp_actual = None, sp_is_actual = False, sp_text = Some ''Phnom Penh'', sp_notes = None\<rparr>"

definition quote_order :: "string \<Rightarrow> order" where
  "quote_order status = \<lparr>so_number = ''SO2024-000001'', so_revision = Some 1, so_party = 1, so_direction = 1,
     so_status = status, so_currency_code = ''USD'', so_description = None, so_created_by = Some 7,
     so_config = Some 4, so_data = quote_echo\<rparr>"

definition quote_container :: container where
  "quote_container = \<lparr>ct_order = 1, ct_requirement = Some 1, ct_type = 1, ct_number = None,
     ct_status = ''EXPECTED'', ct_gross = None,
     ct_data = [(''sourceQuotationContainerId'', PStr ''1''), (''prepared'', PBool True)]\<rparr>"

section \<open>The run\<close>

definition quote1 :: qdb where
  "quote1 = quote0\<lparr>q_books := demo0\<lparr>f_sequences := a_table [demo_seq ''QUOTATION'' ''Q'' 1]\<rparr>,
     q_quotations := a_table [quote_header ''DRAFT''], q_revisions := a_table [quote_revision ''DRAFT'' None],
     q_stops := a_table [quote_stop],
     q_boxes := a_table [\<lparr>bx_revision = 1, bx_type = 1, bx_quantity = 2, bx_gross = None, bx_description = None,
       bx_remarks = None\<rparr>],
     q_lines := a_table [\<lparr>ql_revision = 1, ql_no = 1, ql_fee_type = None, ql_description = ''Freight'',
       ql_quantity = 2, ql_unit = None, ql_unit_price = 50, ql_discount_rate = 10, ql_tax_rate = 10,
       ql_subtotal = 100, ql_discount = 10, ql_tax = 9, ql_total = 99\<rparr>]\<rparr>"

definition quote2 :: qdb where
  "quote2 = quote1\<lparr>q_quotations := a_table [quote_header ''SUBMITTED''],
     q_revisions := a_table [quote_revision ''SUBMITTED'' (Some 100)]\<rparr>"

definition quote3 :: qdb where
  "quote3 = quote2\<lparr>
     q_books := demo0\<lparr>f_sequences := a_table [demo_seq ''QUOTATION'' ''Q'' 1, demo_seq ''SERVICE_ORDER'' ''SO'' 1]\<rparr>,
     q_quotations := a_table [quote_header ''CONVERTED''],
     q_revisions := a_table [quote_revision ''CONVERTED'' (Some 100)],
     q_conversions := a_table [\<lparr>cv_revision = 1, cv_order = 1, cv_by = Some 7, cv_at = 100, cv_key = Some ''k''\<rparr>],
     q_orders := a_table [(quote_order ''ACTIVE'')\<lparr>so_data := dset quote_echo ''places'' (dget quote_echo ''places'')\<rparr>],
     q_order_stops := a_table [quote_stop],
     q_requirements := a_table [\<lparr>rm_order = 1, rm_source = Some 1, rm_type = 1, rm_quantity = 2, rm_gross = None,
       rm_description = None, rm_remarks = None\<rparr>],
     q_containers := a_table [quote_container, quote_container],
     q_pricings := a_table [\<lparr>pg_order = 1, pg_subtotal = 100, pg_discount = 10, pg_tax = 9, pg_total = 99,
       pg_currency = ''USD''\<rparr>],
     q_pricing_lines := a_table [\<lparr>pn_pricing = 1, pn_no = 1, pn_source = Some 1, pn_fee_type = None,
       pn_description = ''Freight'', pn_quantity = 2, pn_unit = None, pn_unit_price = 50, pn_discount_rate = 10,
       pn_tax_rate = 10, pn_total = 99\<rparr>]\<rparr>"

text \<open>The first step in pieces: the payload, the header, the revision and its rows.\<close>

definition quote_data :: payload where
  "quote_data = dset quote_request ''date'' (PDate (Date 2024 5 10))"

definition quote_party :: trade_party where
  "quote_party = \<lparr>bp_code = ''C-1'', bp_legal = ''Angkor Co'', bp_display = None, bp_roles = [''Customer''],
     bp_status = ''ACTIVE'', bp_deleted = False\<rparr>"

definition quote_opened :: qdb where
  "quote_opened = quote0\<lparr>q_books := demo0\<lparr>f_sequences := a_table [demo_seq ''QUOTATION'' ''Q'' 1]\<rparr>,
     q_quotations := a_table [(quote_header ''DRAFT'')\<lparr>qn_data := []\<rparr>],
     q_revisions := a_table [(quote_revision ''DRAFT'' None)\<lparr>rv_subtotal := 0, rv_discount := 0, rv_tax := 0, rv_total := 0\<rparr>]\<rparr>"

definition quote_echoed :: payload where
  "quote_echoed = take 6 quote_echo"

lemma quote_valid: "validate_schema QUOTATION_WRITE_SCHEMA quote_request False = Inr quote_data"
  by code_simp

lemma quote_created:
  "create_quotation quote_call quote_data quote0 =
     Inr ((1, (quote_header ''DRAFT'')\<lparr>qn_data := []\<rparr>, Some quote_party), quote_opened\<lparr>q_revisions := empty_table\<rparr>)"
  by code_simp

lemma quote_open:
  "open_revision quote_call quote_data 1 ((quote_header ''DRAFT'')\<lparr>qn_data := []\<rparr>) (quote_opened\<lparr>q_revisions := empty_table\<rparr>) =
     ((1, (quote_revision ''DRAFT'' None)\<lparr>rv_subtotal := 0, rv_discount := 0, rv_tax := 0, rv_total := 0\<rparr>),
      (quote_header ''DRAFT'')\<lparr>qn_data := []\<rparr>, quote_opened)"
  by code_simp

lemma quote_terms:
  "edit_terms quote_data ((quote_revision ''DRAFT'' None)\<lparr>rv_subtotal := 0, rv_discount := 0, rv_tax := 0, rv_total := 0\<rparr>) =
     (quote_revision ''DRAFT'' None)\<lparr>rv_subtotal := 0, rv_discount := 0, rv_tax := 0, rv_total := 0\<rparr>"
  by code_simp

lemma quote_boxes:
  "save_boxes 1 quote_data quote_opened =
     Inr (dset quote_data ''containerRequirements'' (dget quote_echo ''containerRequirements''),
          quote_opened\<lparr>q_boxes := q_boxes quote1\<rparr>)"
  by code_simp

lemma quote_places:
  "save_places quote_call 1 (dset quote_data ''containerRequirements'' (dget quote_echo ''containerRequirements''))
       (quote_opened\<lparr>q_boxes := q_boxes quote1\<rparr>) =
     Inr (dset (dset quote_data ''containerRequirements'' (dget quote_echo ''containerRequirements'')) ''places'' (dget quote_echo ''places''),
          quote_opened\<lparr>q_boxes := q_boxes quote1, q_stops := q_stops quote1\<rparr>)"
  by code_simp

lemma quote_lines:
  "save_lines 1 (dset (dset quote_data ''containerRequirements'' (dget quote_echo ''containerRequirements'')) ''places'' (dget quote_echo ''places''))
       ((quote_revision ''DRAFT'' None)\<lparr>rv_subtotal := 0, rv_discount := 0, rv_tax := 0, rv_total := 0\<rparr>)
       (quote_opened\<lparr>q_boxes := q_boxes quote1, q_stops := q_stops quote1\<rparr>) =
     Inr (quote_echoed, quote_revision ''DRAFT'' None,
          quote_opened\<lparr>q_boxes := q_boxes quote1, q_stops := q_stops quote1, q_lines := q_lines quote1\<rparr>)"
  by code_simp

lemma quote_stored:
  "flush_revision (quote_revision ''DRAFT'' None) = Inr (quote_revision ''DRAFT'' None)"
  "check_validity ((quote_revision ''DRAFT'' None)\<lparr>rv_subtotal := 0, rv_discount := 0, rv_tax := 0, rv_total := 0\<rparr>) = Inr ()"
  "truthy (py_or (dget quote_request ''id'') (dget quote_request ''quotationId'')) = False"
  "named_quotation quote_data quote0 = None"
  "quote_opened\<lparr>q_boxes := q_boxes quote1, q_stops := q_stops quote1, q_lines := q_lines quote1,
     q_revisions := t_put 1 (quote_revision ''DRAFT'' None) (q_revisions quote_opened),
     q_quotations := t_put 1 (((quote_header ''DRAFT'')\<lparr>qn_data := []\<rparr>)\<lparr>qn_data :=
       dmerge [] (echo_quotation quote_echoed (quote_revision ''DRAFT'' None) (Some quote_party))\<rparr>) (q_quotations quote_opened)\<rparr>
     = quote1"
  by code_simp+

lemma quote_step1: "save_quotation quote_request quote_call quote0 = Inr ((1, 1), quote1)"
proof -
  have children: "save_revision_children quote_call 1
      ((quote_revision ''DRAFT'' None)\<lparr>rv_subtotal := 0, rv_discount := 0, rv_tax := 0, rv_total := 0\<rparr>) quote_data quote_opened
    = Inr (quote_echoed, quote_revision ''DRAFT'' None, quote_opened\<lparr>q_boxes := q_boxes quote1, q_stops := q_stops quote1,
        q_lines := q_lines quote1, q_revisions := t_put 1 (quote_revision ''DRAFT'' None) (q_revisions quote_opened)\<rparr>)"
    unfolding save_revision_children_def quote_boxes ebind_simps prod.case quote_places quote_lines quote_stored(1) by simp
  show ?thesis
    unfolding save_quotation_def quote_stored(3) quote_valid ebind_simps prod.case quote_stored(4) option.case quote_created
      Let_def quote_open quote_terms quote_stored(2) children
    using quote_stored(5) by simp
qed

lemma quote_step2: "submit_revision 1 quote_call quote1 = Inr ((), quote2)"
  by code_simp

lemma quote_step3: "convert_revision 1 (Some ''k'') quote_call quote2 = Inr (1, quote3)"
  by code_simp

lemma quote_initial: "q_initial quote0"
  by code_simp

lemma quote_performs:
  "perform (SaveQuotation quote_request) quote_call quote0 = Inr quote1"
  "perform (SubmitRevision 1) quote_call quote1 = Inr quote2"
  "perform (ConvertRevision 1 (Some ''k'')) quote_call quote2 = Inr quote3"
  by (simp_all add: stored_def quote_step1 quote_step2 quote_step3)

lemma quote_runs: "run qstep quote0 quote2" "run qstep quote2 quote3"
proof -
  show "run qstep quote0 quote2"
    by (rule run_step, rule run_single) (rule qs_served [OF quote_performs(1)] qs_served [OF quote_performs(2)])+
  show "run qstep quote2 quote3" by (rule run_single) (rule qs_served [OF quote_performs(3)])
qed

lemma quote_reach: "reach q_initial qstep quote0" "reach q_initial qstep quote2" "reach q_initial qstep quote3"
proof -
  show start: "reach q_initial qstep quote0" using quote_initial by (rule reach_init)
  show two: "reach q_initial qstep quote2" using quote_runs(1) start by (rule reach_run)
  show "reach q_initial qstep quote3" using quote_runs(2) two by (rule reach_run)
qed

end
