(* ===== verification/OrderRows.thy ===== *)
theory OrderRows
  imports QuotationMachine
begin

text \<open>
  The rows below a service order: in every reachable database each of them belongs to an order that was
  created, and each priced line to a pricing that was. So the order a conversion opens starts with none, and
  after it has exactly the rows copied from the offer.
\<close>

section \<open>Calls that leave the orders alone\<close>

definition order_side :: "qdb \<Rightarrow> order table \<times> stop table \<times> requirement table \<times> pricing table \<times> pricing_line table" where
  "order_side db = (q_orders db, q_order_stops db, q_requirements db, q_pricings db, q_pricing_lines db)"

lemma resolve_party_side: "resolve_party_by_name name c db = Inr (x, db') \<Longrightarrow> order_side db' = order_side db"
  by (auto simp: resolve_party_by_name_def Let_def order_side_def split: option.splits prod.splits)

lemma resolve_direction_side: "resolve_direction v db = Inr (x, db') \<Longrightarrow> order_side db' = order_side db"
  by (auto simp: resolve_direction_def order_side_def split: option.splits prod.splits if_splits)

lemma create_quotation_side:
  assumes "create_quotation c data db = Inr (x, db')"
  shows "order_side db' = order_side db"
proof -
  from assms obtain p db1 did db2 where
    1: "(if \<not> none_or_empty (dget data ''customerPartyId'')
      then ebind (resolve_party_by_id (dget data ''customerPartyId'') db) (\<lambda>ip. Inr (ip, db))
      else resolve_party_by_name (if truthy (dget data ''customer'') then py_strip (py_str (dget data ''customer'')) else []) c db)
      = Inr (p, db1)"
    and 2: "resolve_direction (dget data ''direction'') db1 = Inr (did, db2)"
    and 3: "order_side db' = order_side db2"
    unfolding create_quotation_def Let_def
    by (auto simp: ebind_Inr_iff order_side_def split: if_splits prod.splits)
  have "order_side db1 = order_side db"
    using 1 by (cases "none_or_empty (dget data ''customerPartyId'')") (auto simp: ebind_Inr_iff dest: resolve_party_side)
  with resolve_direction_side [OF 2] 3 show ?thesis by simp
qed

lemma reopen_quotation_side:
  assumes "reopen_quotation c data old db = Inr (x, db')"
  shows "order_side db' = order_side db"
  using assms unfolding reopen_quotation_def Let_def
  by (auto simp: ebind_Inr_iff split: if_splits prod.splits dest!: resolve_party_side resolve_direction_side)

lemma drafts_side:
  "first_revision c data qid d v db = (ir, db') \<Longrightarrow> order_side db' = order_side db"
  "clone_revision qid source user db = (ir, db') \<Longrightarrow> order_side db' = order_side db"
  by (auto simp: first_revision_def clone_revision_def Let_def order_side_def split: prod.splits)

lemma current_revision_side: "current_revision c data qid db = (ir, db') \<Longrightarrow> order_side db' = order_side db"
  by (auto simp: current_revision_def split: option.splits dest: drafts_side)

lemma open_revision_side:
  assumes "open_revision c data qid q db = (ir, q', db')"
  shows "order_side db' = order_side db"
proof -
  obtain i r db1 where 1: "current_revision c data qid db = ((i, r), db1)" by (metis surj_pair)
  obtain ir' db2 where 2: "clone_revision qid (i, r) (q_user c) db1 = (ir', db2)" by (metis surj_pair)
  from assms have "db' = db1 \<or> db' = db2" by (auto simp: open_revision_def 1 2 split: if_splits prod.splits)
  with current_revision_side [OF 1] drafts_side(2) [OF 2] show ?thesis by auto
qed

lemma add_box_side: "add_box rid item db = Inr db' \<Longrightarrow> order_side db' = order_side db"
proof -
  have "order_side d' = order_side d" if "resolve_or_create_container_type v d = Inr (i, d')" for v d i d'
    using that by (auto simp: resolve_or_create_container_type_def Let_def ebind_Inr_iff order_side_def
        split: pyval.splits if_splits option.splits)
  then show "add_box rid item db = Inr db' \<Longrightarrow> ?thesis"
    by (force simp: add_box_def Let_def ebind_Inr_iff order_side_def split: if_splits prod.splits)
qed

lemma save_boxes_side:
  assumes "save_boxes rid data db = Inr (data', db')"
  shows "order_side db' = order_side db"
proof (cases "has_key data ''containerRequirements''")
  case True
  with assms obtain items where
    loop: "efold (add_box rid) items (db\<lparr>q_boxes := t_del_where (\<lambda>b. bx_revision b = rid) (q_boxes db)\<rparr>) = Inr db'"
    by (auto simp: save_boxes_def ebind_Inr_iff)
  show ?thesis
    by (rule efold_invariant [where I = "\<lambda>d. order_side d = order_side db", OF loop])
      (auto simp: order_side_def dest: add_box_side [unfolded order_side_def])
qed (use assms in \<open>simp add: save_boxes_def\<close>)

lemma save_children_side:
  assumes "save_revision_children c rid rv data db = Inr (data', rv', db')"
  shows "order_side db' = order_side db"
proof -
  from assms obtain d1 db1 d2 db2 d3 r1 db3 where "save_boxes rid data db = Inr (d1, db1)"
    and 2: "save_places c rid d1 db1 = Inr (d2, db2)" and 3: "save_lines rid d2 rv db2 = Inr (d3, r1, db3)"
    and 4: "order_side db' = order_side db3"
    by (auto simp: save_revision_children_def ebind_Inr_iff order_side_def)
  note save_boxes_side [OF this(1)]
  moreover have "order_side db2 = order_side db1"
    using 2 by (auto simp: save_places_def ebind_Inr_iff order_side_def split: if_splits)
  moreover have "order_side db3 = order_side db2"
    using 3 by (auto simp: save_lines_def Let_def ebind_Inr_iff order_side_def split: if_splits)
  ultimately show ?thesis using 4 by simp
qed

lemma save_quotation_side:
  assumes s: "save_quotation raw c db = Inr (x, db')"
  shows "order_side db' = order_side db"
proof -
  from s obtain data qid q party db1 where
    party: "(case named_quotation data db of None \<Rightarrow> create_quotation c data db
      | Some old \<Rightarrow> reopen_quotation c data old db) = Inr ((qid, q, party), db1)"
    and rest: "(let ((rid, r), q1, db2) = open_revision c data qid q db1; r1 = edit_terms data r
      in ebind (check_validity r1) (\<lambda>_.
         ebind (save_revision_children c rid r1 data db2) (\<lambda>(data', r2, db3).
           Inr ((qid, rid), db3\<lparr>q_quotations := t_put qid
             (q1\<lparr>qn_data := dmerge (qn_data q1) (echo_quotation data' r2 party)\<rparr>) (q_quotations db3)\<rparr>)))) = Inr (x, db')"
    unfolding save_quotation_def by (auto simp: ebind_Inr_iff)
  have 1: "order_side db1 = order_side db"
    using party by (auto split: option.splits dest: create_quotation_side reopen_quotation_side)
  obtain rid r q1 db2 where o: "open_revision c data qid q db1 = ((rid, r), q1, db2)" by (metis surj_pair)
  from rest obtain data' r2 db3 where ch: "save_revision_children c rid (edit_terms data r) data db2 = Inr (data', r2, db3)"
    and "order_side db' = order_side db3"
    unfolding o by (auto simp: Let_def ebind_Inr_iff order_side_def)
  with 1 open_revision_side [OF o] save_children_side [OF ch] show ?thesis by simp
qed

lemma create_revision_side:
  assumes "create_revision qid raw c db = Inr (x, db')"
  shows "order_side db' = order_side db"
proof -
  from assms obtain data q where rest: "(let ((i, r), db1) = next_draft c data qid db;
           reopened = (case latest_revision qid db of Some (_, l) \<Rightarrow> rv_status l \<noteq> ''DRAFT'' | None \<Rightarrow> False)
       in Inr (i, db1\<lparr>q_quotations := t_put qid
            (q\<lparr>qn_revision_no := rv_no r, qn_status := (if reopened then ''DRAFT'' else qn_status q)\<rparr>)
            (q_quotations db1)\<rparr>)) = (Inr (x, db') :: (int \<times> qdb) res)"
    unfolding create_revision_def ebind_Inr_iff by blast
  obtain i r db1 where n: "next_draft c data qid db = ((i, r), db1)" by (metis surj_pair)
  from rest have "order_side db' = order_side db1" by (auto simp: n Let_def order_side_def)
  moreover have "order_side db1 = order_side db"
    using n by (auto simp: next_draft_def split: option.splits dest: drafts_side)
  ultimately show ?thesis by simp
qed

lemma store_side [simp]:
  "order_side (store_header quote st db) = order_side db" "order_side (store_revision i r db) = order_side db"
  "order_side (db\<lparr>q_revisions := t\<rparr>) = order_side db"
  by (simp_all add: order_side_def store_header_def store_revision_def)

lemma withdraw_side [simp]: "order_side (withdraw quote i r db) = order_side db"
  by (simp add: withdraw_def Let_def)

lemma send_side: "send_revision i c db = Inr (x, db') \<Longrightarrow> order_side db' = order_side db"
  unfolding send_revision_def by (auto simp: ebind_Inr_iff split: if_splits)

lemma submit_side: "submit_revision i c db = Inr (x, db') \<Longrightarrow> order_side db' = order_side db"
  unfolding submit_revision_def by (auto simp: ebind_Inr_iff split: if_splits)

lemma accept_side: "accept_revision i c db = Inr (x, db') \<Longrightarrow> order_side db' = order_side db"
  unfolding accept_revision_def by (auto simp: ebind_Inr_iff Let_def split: if_splits)

lemma reject_side: "reject_revision i t c db = Inr (x, db') \<Longrightarrow> order_side db' = order_side db"
  unfolding reject_revision_def by (auto simp: ebind_Inr_iff split: if_splits)

lemma cancel_side: "cancel_revision i t c db = Inr (x, db') \<Longrightarrow> order_side db' = order_side db"
  unfolding cancel_revision_def by (auto simp: ebind_Inr_iff split: if_splits)

lemma delete_quotation_side: "delete_quotation qid db = Inr db' \<Longrightarrow> order_side db' = order_side db"
  by (auto simp: delete_quotation_def Let_def order_side_def split: option.splits if_splits)

lemma delete_quotations_side:
  assumes "delete_quotations ids c db = Inr (x, db')"
  shows "order_side db' = order_side db"
proof -
  from assms have loop: "efold delete_quotation ids db = Inr db'" by (auto simp: delete_quotations_def ebind_Inr_iff)
  show ?thesis
    by (rule efold_invariant [where I = "\<lambda>d. order_side d = order_side db", OF loop]) (auto dest: delete_quotation_side)
qed

lemma requote_side:
  assumes "create_quotation_from_service_order v c db = Inr (x, db')"
  shows "order_side db' = order_side db"
proof -
  from assms obtain p y db1 where "save_quotation p c db = Inr (y, db1)" and "order_side db' = order_side db1"
    by (auto simp: create_quotation_from_service_order_def ebind_Inr_iff order_side_def split: option.splits)
  with save_quotation_side show ?thesis by auto
qed

section \<open>The rows of orders that exist or existed\<close>

definition rows_kept :: "qdb \<Rightarrow> bool" where
  "rows_kept db \<longleftrightarrow> table_ok (q_order_stops db) \<and> table_ok (q_requirements db) \<and> table_ok (q_pricings db)
     \<and> table_ok (q_pricing_lines db)
     \<and> rows_below sp_parent (next_id (q_orders db)) (q_order_stops db)
     \<and> rows_below rm_order (next_id (q_orders db)) (q_requirements db)
     \<and> rows_below pg_order (next_id (q_orders db)) (q_pricings db)
     \<and> rows_below pn_pricing (next_id (q_pricings db)) (q_pricing_lines db)"

lemma rows_kept_side: "order_side db' = order_side db \<Longrightarrow> rows_kept db' = rows_kept db"
  by (simp add: order_side_def rows_kept_def)

lemma rows_below_add: "rows_below f n t \<Longrightarrow> n \<le> m \<Longrightarrow> (\<And>r. r \<in> set rs \<Longrightarrow> f r < m) \<Longrightarrow> rows_below f m (t_add_all rs t)"
  by (auto simp: rows_below_def list_all_iff)

lemma rows_below_add1: "rows_below f n t \<Longrightarrow> n \<le> m \<Longrightarrow> f r < m \<Longrightarrow> rows_below f m (t_add r t)"
  by (auto simp: rows_below_def list_all_iff)

lemma created_rows:
  assumes "create_service_order_from_quotation (qid, q) (rid, r) c db = Inr ((oid, s), db')"
  shows "q_orders db' = t_add s (q_orders db)"
    and "q_order_stops db' = t_add_all (if route_of rid (q_stops db) = [] then header_stops oid (qn_data q)
           else renumber_stops oid (route_of rid (q_stops db))) (q_order_stops db)"
    and "q_requirements db' = t_add_all (map (requirement_of oid) (boxes_of rid db)) (q_requirements db)"
    and "q_pricings db' = t_add (pricing_of oid r (f_default_currency (q_books db))) (q_pricings db)"
    and "q_pricing_lines db' = t_add_all (map (pricing_line_of (next_id (q_pricings db))) (lines_of rid db)) (q_pricing_lines db)"
    and "oid = next_id (q_orders db)"
  using assms
  by (auto simp: create_service_order_from_quotation_def Let_def ebind_Inr_iff split: prod.splits)

lemma copied_parents:
  "x \<in> set (header_stops i data) \<Longrightarrow> sp_parent x = i" "x \<in> set (renumber_stops i xs) \<Longrightarrow> sp_parent x = i"
  "rm_order (requirement_of i b) = i" "pn_pricing (pricing_line_of j l) = j"
  by (auto simp: header_stops_def renumber_stops_def copy_stop_def requirement_of_def pricing_line_of_def split: prod.splits)

lemma convert_rows:
  assumes k: "rows_kept db" and a: "convert_revision rid key c db = Inr (oid, db')"
  shows "rows_kept db'"
  using a
proof (cases rule: convert_cases)
  case replay
  with k show ?thesis by simp
next
  case (sold quote r s db1)
  obtain qid q where quote: "quote = (qid, q)" by (cases quote)
  note rows = created_rows [OF sold(4) [unfolded quote]]
  have "rows_kept db1"
    using k unfolding rows_kept_def rows(1-5)
    by (auto simp: rows(6) pricing_of_def copied_parents intro!: rows_below_add rows_below_add1)
  moreover have "order_side db' = order_side db1" unfolding sold(5) store_side by (simp add: order_side_def)
  ultimately show ?thesis using rows_kept_side by blast
qed

lemma delete_order_rows: "rows_kept db \<Longrightarrow> rows_kept (delete_order i db)"
  by (simp add: rows_kept_def delete_order_def rows_below_del_where)

lemma delete_orders_rows:
  assumes k: "rows_kept db" and d: "delete_service_orders is c db = Inr (x, db')"
  shows "rows_kept db'"
proof -
  have "rows_kept d \<Longrightarrow> rows_kept (fold delete_order js d)" for js d
    by (induction js arbitrary: d) (simp_all add: delete_order_rows)
  with d k show ?thesis by (auto simp: delete_service_orders_def Let_def split: if_splits)
qed

lemma order_status_rows:
  "rows_kept db \<Longrightarrow> finish_service_order v c db = Inr (x, db') \<Longrightarrow> rows_kept db'"
  "rows_kept db \<Longrightarrow> set_service_order_status v st c db = Inr (x, db') \<Longrightarrow> rows_kept db'"
  by (auto simp: finish_service_order_def set_service_order_status_def resolve_order_def ebind_Inr_iff rows_kept_def
      split: if_splits option.splits)

lemma create_order_rows:
  assumes k: "rows_kept db" and a: "create_order c data db = Inr ((i, s), db')"
  shows "rows_kept db' \<and> i < next_id (q_orders db')"
proof -
  from a obtain p db1 did db2 where
    1: "resolve_party_by_name (text_or_empty (str_or_none (dget data ''customer''))) c db = Inr (p, db1)"
    and 2: "resolve_direction (dget data ''direction'') db1 = Inr (did, db2)"
    and 3: "order_side db' = (t_add s (q_orders db2), q_order_stops db2, q_requirements db2, q_pricings db2, q_pricing_lines db2)"
    and i: "i = next_id (q_orders db2)"
    unfolding create_order_def Let_def
    by (auto simp: ebind_Inr_iff order_side_def split: if_splits prod.splits option.splits)
  have "rows_kept db2" using k rows_kept_side resolve_party_side [OF 1] resolve_direction_side [OF 2] by metis
  with 3 i show ?thesis by (auto simp: rows_kept_def order_side_def elim: rows_below_mono)
qed

lemma reopen_order_rows:
  "reopen_order c data old db = Inr (x, db') \<Longrightarrow> order_side db' = order_side db"
  unfolding reopen_order_def Let_def
  by (auto simp: ebind_Inr_iff split: if_splits prod.splits dest!: resolve_party_side resolve_direction_side)

lemma open_order_rows:
  assumes g: "good db" and k: "rows_kept db" and a: "open_order c data v db = Inr ((i, s), db')"
  shows "rows_kept db' \<and> i < next_id (q_orders db')"
proof (cases "if truthy v then find_order v db else None")
  case None
  with a create_order_rows [OF k] show ?thesis by (simp add: open_order_def)
next
  case (Some io)
  obtain j s0 where io: "io = (j, s0)" by (cases io)
  from Some io have found: "find_order v db = Some (j, s0)" by (simp split: if_splits)
  from a Some io have r: "reopen_order c data (j, s0) db = Inr ((i, s), db')" by (simp add: open_order_def)
  then have "i = j" by (auto dest: reopen_order_frame)
  with find_order_get [OF g found] have "i < next_id (q_orders db)" using t_get_below [OF good_D(8) [OF g]] by blast
  with reopen_order_rows [OF r] k rows_kept_side [of db' db] show ?thesis by (simp add: order_side_def)
qed

lemma save_order_rows:
  assumes g: "good db" and k: "rows_kept db" and a: "save_service_order raw c db = Inr (x, db')"
  shows "rows_kept db'"
proof -
  from a obtain data v y where opened: "open_order c data v db = Inr y" and w: "write_order c data y = Inr (x, db')"
    unfolding save_service_order_def Let_def ebind_Inr_iff by blast
  obtain i s db1 where y: "y = ((i, s), db1)" by (metis surj_pair)
  from w obtain data' db2 t where places: "save_order_places c i data db1 = Inr (data', db2)"
    and db': "db' = db2\<lparr>q_orders := t_put i t (q_orders db2)\<rparr>"
    by (auto simp: write_order_def y ebind_Inr_iff)
  from save_order_places_frame [OF places] obtain S where
    db2: "db2 = db1\<lparr>q_order_stops := S\<rparr>" and S: "own_rows sp_parent i (q_order_stops db1) S" by blast
  have 1: "rows_kept db1" "i < next_id (q_orders db1)" using open_order_rows [OF g k opened [unfolded y]] by auto
  then show ?thesis
    using own_rows_D(1) [OF S] rows_below_own [OF S] by (simp add: rows_kept_def db' db2)
qed

lemma perform_rows:
  assumes "good db" and "rows_kept db" and "perform x c db = Inr db'"
  shows "rows_kept db'"
proof (cases "order_side db' = order_side db")
  case True
  with assms(2) rows_kept_side show ?thesis by blast
next
  case False
  with assms show ?thesis
    by (cases x)
      (auto simp: stored_Inr dest: save_quotation_side create_revision_side send_side submit_side accept_side
        reject_side cancel_side delete_quotations_side requote_side
        intro: convert_rows save_order_rows order_status_rows delete_orders_rows)
qed

interpretation order_rows: invariant q_initial qstep "\<lambda>db. good db \<and> rows_kept db"
proof unfold_locales
  show "good db \<and> rows_kept db" if "q_initial db" for db
    using q_initial_good [OF that] that by (simp add: q_initial_def rows_kept_def rows_below_def)
  fix db db'
  assume i: "good db \<and> rows_kept db" and s: "qstep db db'"
  have "good db'" using qstep_serves [OF _ s] i by (blast intro: serves_good)
  moreover have "rows_kept db'"
    using s
  proof (cases rule: qstep.cases)
    case (qs_served x c)
    with i show ?thesis by (blast intro: perform_rows)
  next
    case qs_elsewhere
    with i show ?thesis by (simp add: rows_kept_def)
  qed
  ultimately show "good db' \<and> rows_kept db'" ..
qed

section \<open>What a conversion copies\<close>

lemma conversion_rows:
  assumes k: "rows_kept db" and ok: "table_ok (q_orders db)"
    and a: "create_service_order_from_quotation (qid, q) (rid, r) c db = Inr ((oid, s), db1)"
  shows "map snd (stops_of oid (q_order_stops db1)) =
           (if route_of rid (q_stops db) = [] then header_stops oid (qn_data q) else renumber_stops oid (route_of rid (q_stops db)))"
    and "map snd (t_where (\<lambda>x. rm_order x = oid) (q_requirements db1)) = map (requirement_of oid) (boxes_of rid db)"
    and "t_where (\<lambda>p. pg_order p = oid) (q_pricings db1) =
           [(next_id (q_pricings db), pricing_of oid r (f_default_currency (q_books db)))]"
    and "map snd (t_where (\<lambda>l. pn_pricing l = next_id (q_pricings db)) (q_pricing_lines db1)) =
           map (pricing_line_of (next_id (q_pricings db))) (lines_of rid db)"
proof -
  note rows = created_rows [OF a]
  have none: "t_where (\<lambda>x. sp_parent x = oid) (q_order_stops db) = []"
    "t_where (\<lambda>x. rm_order x = oid) (q_requirements db) = []" "t_where (\<lambda>p. pg_order p = oid) (q_pricings db) = []"
    "t_where (\<lambda>l. pn_pricing l = next_id (q_pricings db)) (q_pricing_lines db) = []"
    using k by (simp_all add: rows_kept_def rows(6) rows_below_fresh)
  show "map snd (stops_of oid (q_order_stops db1)) =
           (if route_of rid (q_stops db) = [] then header_stops oid (qn_data q) else renumber_stops oid (route_of rid (q_stops db)))"
    by (auto simp: rows(2) stops_of_def snd_t_where_add_all none(1) copied_parents filter_id_conv)
  show "map snd (t_where (\<lambda>x. rm_order x = oid) (q_requirements db1)) = map (requirement_of oid) (boxes_of rid db)"
    by (auto simp: rows(3) snd_t_where_add_all none(2) copied_parents filter_id_conv)
  show "t_where (\<lambda>p. pg_order p = oid) (q_pricings db1) =
           [(next_id (q_pricings db), pricing_of oid r (f_default_currency (q_books db)))]"
    by (simp add: rows(4) none(3)) (simp add: pricing_of_def)
  show "map snd (t_where (\<lambda>l. pn_pricing l = next_id (q_pricings db)) (q_pricing_lines db1)) =
           map (pricing_line_of (next_id (q_pricings db))) (lines_of rid db)"
    by (auto simp: rows(5) snd_t_where_add_all none(4) copied_parents filter_id_conv)
qed

end
