(* ===== verification/QuotationProperties.thy ===== *)
theory QuotationProperties
  imports QuotationDemo OrderRows
begin

text \<open>
  The properties of quotations and of the orders they become. A database is reachable when it comes from
  one without quotations by served calls and by writes of the other modules to the tables these services
  only read (\<open>qstep\<close>).
\<close>

section \<open>The machine of offers\<close>

text \<open>Where a call that moves a revision leaves it. A submission of a revision that was sent is answered as it
  stands.\<close>

fun lands :: "quotation_call \<Rightarrow> (int \<times> string set) option" where
  "lands (SendRevision i) = Some (i, {''SENT''})"
| "lands (SubmitRevision i) = Some (i, {''SUBMITTED'', ''SENT''})"
| "lands (AcceptRevision i) = Some (i, {''ACCEPTED''})"
| "lands (RejectRevision i _) = Some (i, {''REJECTED''})"
| "lands (CancelRevision i _) = Some (i, {''CANCELLED''})"
| "lands (ConvertRevision i None) = Some (i, {''CONVERTED''})"
| "lands _ = None"

lemma with_reason_status [simp]: "rv_status (with_reason k t r) = rv_status r"
  by (simp add: with_reason_def split: option.split)

lemma withdraw_revision [simp]: "t_get (q_revisions (withdraw quote i r db)) i = map_option (\<lambda>_. r) (t_get (q_revisions db) i)"
  by (simp add: withdraw_def Let_def store_revision_def store_header_def split: option.split)

lemma reject_lands:
  assumes "reject_revision i t c db = Inr (u, db')"
  shows "\<exists>r. t_get (q_revisions db') i = Some r \<and> rv_status r = ''REJECTED''"
proof -
  from assms obtain quote r where r: "revision_with_quotation i db = Inr (quote, r)"
    by (auto simp: reject_revision_def ebind_Inr_iff simp del: insert_iff)
  show ?thesis
    using assms revision_with_quotation_D [OF r] by (auto simp: reject_revision_def r simp del: insert_iff split: if_split_asm)
qed

lemma cancel_lands:
  assumes "cancel_revision i t c db = Inr (u, db')"
  shows "\<exists>r. t_get (q_revisions db') i = Some r \<and> rv_status r = ''CANCELLED''"
proof -
  from assms obtain quote r where r: "revision_with_quotation i db = Inr (quote, r)"
    by (auto simp: cancel_revision_def ebind_Inr_iff simp del: insert_iff)
  show ?thesis
    using assms revision_with_quotation_D [OF r] by (auto simp: cancel_revision_def r simp del: insert_iff split: if_split_asm)
qed

lemma perform_lands:
  assumes "perform x c db = Inr db'" and "lands x = Some (i, ss)"
  shows "\<exists>r. t_get (q_revisions db') i = Some r \<and> rv_status r \<in> ss"
proof (cases x)
  case (SendRevision j)
  with assms show ?thesis
    by (auto simp: stored_Inr send_revision_def ebind_Inr_iff store_header_def store_revision_def
        dest!: revision_with_quotation_D split: if_splits)
next
  case (SubmitRevision j)
  with assms show ?thesis
    by (auto simp: stored_Inr submit_revision_def ebind_Inr_iff store_header_def store_revision_def
        dest!: revision_with_quotation_D split: if_splits)
next
  case (AcceptRevision j)
  with assms show ?thesis
    by (auto simp: stored_Inr accept_revision_def ebind_Inr_iff Let_def store_header_def store_revision_def
        t_get_supersede competes_def dest!: revision_with_quotation_D split: if_splits)
next
  case (RejectRevision j t)
  with assms reject_lands show ?thesis by (fastforce simp: stored_Inr)
next
  case (CancelRevision j t)
  with assms cancel_lands show ?thesis by (fastforce simp: stored_Inr)
next
  case (ConvertRevision j k)
  with assms have k: "k = None" and i: "j = i" "ss = {''CONVERTED''}" by (cases k; simp)+
  from assms(1) obtain oid where conv: "convert_revision i None c db = Inr (oid, db')"
    by (auto simp: ConvertRevision k i stored_Inr)
  then show ?thesis
  proof (cases rule: convert_cases)
    case (sold quote r s db1)
    obtain qid q where "quote = (qid, q)" by (cases quote)
    with revision_with_quotation_D [OF sold(1)] create_service_order_frame(4) [of qid q i r c db oid s db1] sold(4)
    have "t_get (q_revisions db1) i = Some r" by simp
    then show ?thesis by (simp add: sold(5) i store_header_def store_revision_def)
  qed simp
qed (use assms(2) in simp_all)

text \<open>C11. Every served call on quotations and service orders (saving, revising, sending, submitting,
  accepting, rejecting, cancelling, converting, deleting, quoting an order, and the calls on orders) is a
  sequence of steps of the machine of offers between the books the two databases stand for, and a call that
  moves a revision leaves it in the status the call is for.\<close>

theorem quotation_calls_refine:
  assumes "reach q_initial qstep db" and "perform x c db = Inr db'"
  shows "run offer_step (book_of db) (book_of db') \<and> book_ok (book_of db')
     \<and> (\<forall>i ss. lands x = Some (i, ss) \<longrightarrow> (\<exists>s y. bk_offers (book_of db') i = Some (s, y) \<and> s \<in> ss))"
  using perform_serves [OF quotes.always [OF assms(1)] assms(2)] perform_lands [OF assms(2)] book_offer
  by (fastforce simp: serves_def good_def)

lemma quotation_calls_refine_witness:
  "run offer_step (book_of quote1) (book_of quote2)
     \<and> (\<exists>s y. bk_offers (book_of quote2) 1 = Some (s, y) \<and> s \<in> {''SUBMITTED'', ''SENT''})"
proof -
  from qs_served [OF quote_performs(1)] have "run qstep quote0 quote1" by (rule run_single)
  then have "reach q_initial qstep quote1" using quote_reach(1) by (rule reach_run)
  from quotation_calls_refine [OF this quote_performs(2)] show ?thesis by simp
qed

text \<open>C16. A revision that left the draft status keeps its terms, its stops, its containers and its lines
  along every run of calls, whatever is saved later, and never returns to the draft status; a converted one
  stays converted. It can only leave the database.\<close>

theorem issued_revision_frozen:
  assumes "reach q_initial qstep db" and "run qstep db db'"
    and "t_get (q_revisions db) i = Some r" and "rv_status r \<noteq> ''DRAFT''"
  shows "case t_get (q_revisions db') i of
      None \<Rightarrow> True
    | Some r' \<Rightarrow> bare r' = bare r \<and> stops_of i (q_stops db') = stops_of i (q_stops db)
        \<and> boxes_of i db' = boxes_of i db \<and> lines_of i db' = lines_of i db
        \<and> rv_status r' \<noteq> ''DRAFT'' \<and> (rv_status r = ''CONVERTED'' \<longrightarrow> rv_status r' = ''CONVERTED'')"
proof (cases "t_get (q_revisions db') i")
  case (Some r')
  have "frozen_since (book_of db) (book_of db')"
    using quotes.reach_later [OF assms(1,2)] by (simp add: q_later_def)
  moreover have "i < bk_next (book_of db)"
    using good_revision(3) [OF quotes.always [OF assms(1)] assms(3)] by (simp add: book_of_def)
  ultimately have "retained (bk_offers (book_of db) i) (bk_offers (book_of db') i)" by (simp add: frozen_since_def)
  with assms(4) show ?thesis by (simp add: book_offer [OF assms(3)] book_offer [OF Some] Some content_of_def)
qed simp

lemma issued_revision_frozen_witness:
  "case t_get (q_revisions quote3) 1 of
      None \<Rightarrow> True
    | Some r' \<Rightarrow> bare r' = bare (quote_revision ''SUBMITTED'' (Some 100)) \<and> stops_of 1 (q_stops quote3) = stops_of 1 (q_stops quote2)
        \<and> boxes_of 1 quote3 = boxes_of 1 quote2 \<and> lines_of 1 quote3 = lines_of 1 quote2
        \<and> rv_status r' \<noteq> ''DRAFT''
        \<and> (rv_status (quote_revision ''SUBMITTED'' (Some 100)) = ''CONVERTED'' \<longrightarrow> rv_status r' = ''CONVERTED'')"
  by (rule issued_revision_frozen [OF quote_reach(2) quote_runs(2)]) code_simp+

section \<open>Conversion\<close>

text \<open>C9. In every reachable database a conversion names a converted revision, no other conversion is of
  any revision of the same quotation, and every living order that names a revision is the order of the one
  conversion of it: a quotation is sold once.\<close>

theorem quotation_sold_once:
  assumes "reach q_initial qstep db"
  shows "(\<forall>k v. t_get (q_conversions db) k = Some v \<longrightarrow>
            (\<exists>r. t_get (q_revisions db) (cv_revision v) = Some r \<and> rv_status r = ''CONVERTED''
               \<and> (\<forall>k' v'. t_get (q_conversions db) k' = Some v' \<longrightarrow> converts (rv_quotation r) db v' \<longrightarrow> k' = k)))
       \<and> (\<forall>oid s rid. t_get (q_orders db) oid = Some s \<longrightarrow> so_revision s = Some rid \<longrightarrow>
            (\<exists>k v. t_get (q_conversions db) k = Some v \<and> cv_revision v = rid \<and> cv_order v = oid))"
proof (intro conjI allI impI)
  note ok = good_D(2) [OF quotes.always [OF assms]]
  fix k v
  assume k: "t_get (q_conversions db) k = Some v"
  then have "bk_sold (book_of db) k = Some (cv_revision v, cv_order v)" by (simp add: book_of_def)
  from book_ok_D(4) [OF ok this] obtain r
    where r: "t_get (q_revisions db) (cv_revision v) = Some r" "rv_status r = ''CONVERTED''" by (auto simp: book_of_def)
  have sold: "sold_as (book_of db) (rv_quotation r) k" using k r(1) by (auto simp: sold_as_book)
  have "k' = k" if "t_get (q_conversions db) k' = Some v'" "converts (rv_quotation r) db v'" for k' v'
    using that book_ok_D(5) [OF ok _ sold, of k'] by (auto simp: sold_as_book converts_def split: option.splits)
  with r show "\<exists>r. t_get (q_revisions db) (cv_revision v) = Some r \<and> rv_status r = ''CONVERTED''
      \<and> (\<forall>k' v'. t_get (q_conversions db) k' = Some v' \<longrightarrow> converts (rv_quotation r) db v' \<longrightarrow> k' = k)" by blast
next
  fix oid s rid
  assume "t_get (q_orders db) oid = Some s" and "so_revision s = Some rid"
  then have "bk_orders (book_of db) oid = Some (Some rid)" by (simp add: book_of_def)
  from book_ok_D(6) [OF good_D(2) [OF quotes.always [OF assms]] this]
  show "\<exists>k v. t_get (q_conversions db) k = Some v \<and> cv_revision v = rid \<and> cv_order v = oid" by (auto simp: book_of_def)
qed

lemma quotation_sold_once_witness:
  "\<exists>k v. t_get (q_conversions quote3) k = Some v \<and> cv_revision v = 1 \<and> cv_order v = 1"
proof -
  have "t_get (q_orders quote3) 1 \<noteq> None" "map_option so_revision (t_get (q_orders quote3) 1) = Some (Some 1)" by code_simp+
  with quotation_sold_once [OF quote_reach(3)] show ?thesis by (auto simp del: not_None_eq)
qed

text \<open>C19. A conversion that is not a replay opens one active order for the customer and the direction of the
  quotation, which names the revision. The order has exactly the rows copied from the offer: its stops in the
  order of the route (the header places when the revision has none), one requirement for each container row,
  and one pricing with the totals of the revision, whose lines are those of the offer and add up to its total.\<close>

theorem conversion_copies_offer:
  assumes "reach q_initial qstep db" and "convert_revision rid key c db = Inr (oid, db')" and "db' \<noteq> db"
    and "t_get (q_revisions db) rid = Some r" and "t_get (q_quotations db) (rv_quotation r) = Some q"
  shows "(\<exists>s. t_get (q_orders db') oid = Some s \<and> t_get (q_orders db) oid = None \<and> so_revision s = Some rid
      \<and> so_party s = qn_party q \<and> so_direction s = qn_direction q \<and> so_status s = ''ACTIVE'')
    \<and> map snd (stops_of oid (q_order_stops db')) =
        (if route_of rid (q_stops db) = [] then header_stops oid (qn_data q) else renumber_stops oid (route_of rid (q_stops db)))
    \<and> map snd (t_where (\<lambda>x. rm_order x = oid) (q_requirements db')) = map (requirement_of oid) (boxes_of rid db)
    \<and> (\<exists>i p. t_where (\<lambda>p. pg_order p = oid) (q_pricings db') = [(i, p)]
        \<and> pg_subtotal p = rv_subtotal r \<and> pg_discount p = rv_discount r \<and> pg_tax p = rv_tax r \<and> pg_total p = rv_total r
        \<and> map snd (t_where (\<lambda>l. pn_pricing l = i) (q_pricing_lines db')) = map (pricing_line_of i) (lines_of rid db)
        \<and> pg_total p = sum_list (map (pn_total \<circ> snd) (t_where (\<lambda>l. pn_pricing l = i) (q_pricing_lines db'))))"
  using assms(2)
proof (cases rule: convert_cases)
  case replay
  with assms(3) show ?thesis by simp
next
  case (sold quote r' s db1)
  have inv: "good db" "rows_kept db" using order_rows.always [OF assms(1)] by auto
  from revision_with_quotation_D [OF sold(1)] assms(4,5) have quote: "quote = (rv_quotation r, q)" "r' = r"
    by (auto simp: prod_eq_iff)
  note new = sold(4) [unfolded quote]
  note rows = conversion_rows [OF inv(2) good_D(8) [OF inv(1)] new]
  have same: "q_orders db' = q_orders db1" "q_order_stops db' = q_order_stops db1" "q_requirements db' = q_requirements db1"
    "q_pricings db' = q_pricings db1" "q_pricing_lines db' = q_pricing_lines db1"
    by (simp_all add: sold(5) store_header_def store_revision_def)
  have order: "t_get (q_orders db') oid = Some s" "t_get (q_orders db) oid = None"
    using good_D(8) [OF inv(1)] create_service_order_frame [OF new] by (simp_all add: same)
  moreover have "so_revision s = Some rid \<and> so_party s = qn_party q \<and> so_direction s = qn_direction q \<and> so_status s = ''ACTIVE''"
    using new by (auto simp: create_service_order_from_quotation_def Let_def ebind_Inr_iff stamp_service_order_def
        split: prod.splits option.splits if_splits)
  moreover have "rv_total r = sum_list (map (pn_total \<circ> snd)
      (t_where (\<lambda>l. pn_pricing l = next_id (q_pricings db)) (q_pricing_lines db1)))"
    (is "_ = sum_list (map _ ?ls)")
  proof -
    have "rv_total r = sum_list (map (ql_total \<circ> snd) (lines_of rid db))"
      using good_revision(2) [OF inv(1) assms(4)] by (simp add: sums_up_def)
    also have "map (ql_total \<circ> snd) (lines_of rid db) = map pn_total (map snd ?ls)"
      unfolding rows(4) by (simp add: pricing_line_of_def case_prod_unfold)
    finally show ?thesis by simp
  qed
  ultimately show ?thesis using rows by (auto simp: same pricing_of_def)
qed

lemma conversion_copies_offer_witness:
  "\<exists>p. t_where (\<lambda>p. pg_order p = 1) (q_pricings quote3) = [(1, p)] \<and> pg_total p = 99"
proof -
  have ne: "quote3 \<noteq> quote2"
  proof
    assume "quote3 = quote2"
    then have "rows (q_orders quote3) = rows (q_orders quote2)" by simp
    moreover have "rows (q_orders quote2) = []" "rows (q_orders quote3) \<noteq> []" by code_simp+
    ultimately show False by simp
  qed
  have r: "t_get (q_revisions quote2) 1 = Some (quote_revision ''SUBMITTED'' (Some 100))"
    and q: "t_get (q_quotations quote2) (rv_quotation (quote_revision ''SUBMITTED'' (Some 100))) = Some (quote_header ''SUBMITTED'')"
    by code_simp+
  from conversion_copies_offer [OF quote_reach(2) quote_step3 ne r q] obtain i p where
    p: "t_where (\<lambda>p. pg_order p = 1) (q_pricings quote3) = [(i, p)]" "pg_total p = rv_total (quote_revision ''SUBMITTED'' (Some 100))"
    by auto
  have "map fst (t_where (\<lambda>p. pg_order p = 1) (q_pricings quote3)) = [1]" by code_simp
  with p show ?thesis by (simp add: quote_revision_def)
qed

text \<open>C18. In every reachable database the subtotal, discount, tax and total of a revision are exactly the
  sums over its lines, and of every line the total is subtotal less discount plus tax, all of them whole
  cents that are not negative.\<close>

theorem revision_totals_exact:
  assumes "reach q_initial qstep db" and "t_get (q_revisions db) i = Some r"
  shows "sums_up r (map snd (lines_of i db))"
  using good_revision(2) [OF quotes.always [OF assms(1)] assms(2)] .

lemma revision_totals_exact_witness:
  "sums_up (quote_revision ''CONVERTED'' (Some 100)) (map snd (lines_of 1 quote3))"
  by (rule revision_totals_exact [OF quote_reach(3)]) code_simp

text \<open>Accepting a sent revision leaves no other revision of its quotation open to acceptance or
  conversion: it alone is among the submitted, sent and accepted ones.\<close>

theorem acceptance_supersedes:
  assumes "accept_revision rid c db = Inr (u, db')"
    and "t_get (q_revisions db) rid = Some r" and "rv_status r = ''SENT''"
    and "t_get (q_revisions db') i = Some r'" and "rv_quotation r' = rv_quotation r" and "rv_status r' \<in> set CONVERTIBLE"
  shows "i = rid \<and> rv_status r' = ''ACCEPTED''"
proof -
  from assms(1-3) have db': "q_revisions db' =
      supersede (rv_quotation r) rid (t_put rid (r\<lparr>rv_status := ''ACCEPTED'', rv_accepted := Some (q_now c)\<rparr>) (q_revisions db))"
    by (auto simp: accept_revision_def ebind_Inr_iff Let_def store_header_def store_revision_def
        dest!: revision_with_quotation_D)
  show ?thesis
    using assms(2,4,5,6)
    by (auto simp: db' t_get_supersede competes_def CONVERTIBLE_def split: if_splits dest!: arg_cong [of _ _ rv_status])
qed

text \<open>The revision of \<open>quote1\<close> once it was sent.\<close>

definition quote_sent :: qdb where
  "quote_sent = quote1\<lparr>q_revisions := a_table [quote_revision ''SENT'' (Some 100)]\<rparr>"

definition quote_accepted :: qdb where
  "quote_accepted = quote1\<lparr>q_quotations := a_table [quote_header ''ACCEPTED''],
     q_revisions := a_table [(quote_revision ''ACCEPTED'' (Some 100))\<lparr>rv_accepted := Some 100\<rparr>]\<rparr>"

lemma acceptance_supersedes_witness:
  "(1 :: int) = 1 \<and> rv_status ((quote_revision ''ACCEPTED'' (Some 100))\<lparr>rv_accepted := Some 100\<rparr>) = ''ACCEPTED''"
proof (rule acceptance_supersedes)
  show "accept_revision 1 quote_call quote_sent = Inr ((), quote_accepted)" by code_simp
  show "t_get (q_revisions quote_sent) 1 = Some (quote_revision ''SENT'' (Some 100))" by code_simp
  show "t_get (q_revisions quote_accepted) 1 = Some ((quote_revision ''ACCEPTED'' (Some 100))\<lparr>rv_accepted := Some 100\<rparr>)"
    by code_simp
qed code_simp+

section \<open>Deletion\<close>












end
