(* ===== verification/Spec2Isabelle.thy ===== *)
theory Spec2Isabelle
  imports FinanceProperties SignInProperties ExportProperties QuotationProperties
begin

text \<open>
  A formal model of the backend of LCS, the logistics and customs system under
  \<open>src/backend/app\<close>: its finance module, its quotations and the service orders they become, and its
  user accounts, sessions and permissions, with the theorems that make them correct.

  The program. LCS is a FastAPI service over PostgreSQL. Its modules are service orders
  (\<open>modules/operations\<close>), quotations, finance, master data, reports, user accounts and permissions
  (\<open>modules/auth\<close>, \<open>core/authorization\<close>), spreadsheets, backup, archive, Telegram, settings and
  audit. A request is first given a context: its token names a user and a session row, the session
  must be live, and the permissions of the user are decided by a policy engine whose rules are compiled
  from roles and page grants. The service function then validates the payload (a dict), reads and writes
  rows, and commits or raises. What keeps the books right is the finance module: documents (invoices,
  receipts, payments, notes, expenses) are saved as drafts, posted as balanced double-entry journals,
  settled against one another and reversed. What an order is priced at comes from the quotation workflow: a
  quotation is revised while it is a draft, sent, accepted, and converted once into a service order, from
  which finance raises the invoice. What keeps all of it closed to others is the auth module: passwords,
  lock-out, sessions with rotating refresh tokens, roles, and the policy table that every change of a role
  rewrites.

  The model. A Python exception is the \<open>Inl\<close> of a sum (\<open>domain_error\<close> in \<open>Prelude\<close>, one constructor
  per class of \<open>core/exceptions.py\<close> and three for the refusals of the database and for uncaught
  errors). An operation takes the payload, the request context and the database (\<open>fdb\<close> of
  \<open>FinanceModel\<close> for the books, \<open>qdb\<close> of \<open>QuotationModel\<close> for quotations and orders with the books inside
  it, \<open>adb\<close> of \<open>Identity\<close> for the accounts), a record with one table per mapped class, and returns the
  error, or the result with the new database; the \<open>Inl\<close> has no database because the session is rolled back on every exception. The exceptions are the
  operations of \<open>Sessions\<close> that commit before they raise (a failed sign-in is counted, a replayed
  refresh token revokes its session): they return the outcome and the database. A table is its rows in
  the order of their keys with the next key (\<open>Tables\<close>). \<open>Decimal\<close> values are rationals: in-memory
  arithmetic rounds to 28 digits, half even (\<open>Decimals\<close>), a \<open>Numeric(19, 4)\<close> column rounds half away
  from zero when it is flushed and refuses what does not fit. Text is \<open>string\<close>, an integer \<open>int\<close>, a
  point in time an \<open>int\<close> of microseconds.

  The theories, in the order of the code.
  \<^item> \<open>Prelude\<close>, \<open>PyValues\<close>, \<open>Calendar\<close>, \<open>Decimals\<close>, \<open>Tables\<close>: errors and their sequencing, Python
    values and text, dates, decimal arithmetic, tables.
  \<^item> \<open>Fx\<close> (\<open>core/fx.py\<close>), \<open>Validation\<close> (\<open>core/validation.py\<close>), \<open>FinanceSchemas\<close>
    (\<open>finance/schemas.py\<close>): exchange rates and conversion; the payload validator; its schemas as data.
  \<^item> \<open>FinanceModel\<close> (\<open>finance/models.py\<close> and the columns of other modules finance reads),
    \<open>FinanceBasics\<close> (what the functions of \<open>finance/service.py\<close> share), \<open>Sequences\<close>
    (\<open>core/sequences.py\<close>), \<open>CurrencyRates\<close> (\<open>master_data/currency_rates.py\<close>).
  \<^item> \<open>PostingRules\<close> (\<open>finance/posting_rules.py\<close>), \<open>Posting\<close> (\<open>finance/posting.py\<close>): which accounts a
    document posts to, and the balanced draft; the draft is built over the locale \<open>account_resolver\<close>,
    which the rule engine interprets.
  \<^item> \<open>Accounts\<close>, \<open>RuleAdmin\<close>, \<open>Documents\<close>, \<open>PostDocument\<close>, \<open>Journals\<close>, \<open>Invoicing\<close>: the operations
    of \<open>finance/service.py\<close>.
  \<^item> \<open>Effects\<close>, \<open>LedgerEffects\<close>: what each operation does to the five ledger tables (documents,
    allocations, journals, journal lines, postings). \<open>Ledger\<close>, \<open>LedgerSteps\<close>: the invariants of those
    tables and that each effect keeps them. \<open>Machines\<close>: the two contracts (\<open>invariant\<close>, \<open>evolution\<close>)
    of a state machine. \<open>LedgerMachine\<close>, \<open>LedgerHistory\<close>, \<open>SetupMachine\<close>: the finance service as a step
    relation \<open>fstep\<close> with one rule per operation, and the interpretations of the contracts on it.
    \<open>Numbering\<close>: the counters of document numbers along a run, as one more interpretation.
  \<^item> \<open>CsvExport\<close> (\<open>reports/csv_export.py\<close>), \<open>LedgerReports\<close> (\<open>reports/ledger_reports.py\<close>, the queries of
    \<open>reports/repository.py\<close> it reads, \<open>reports/schemas.py\<close>), \<open>ReportEngine\<close> (\<open>reports/engine.py\<close>): the
    trial balance, the general ledger and their exports. A query is a list comprehension; \<open>posted_line\<close> is
    a journal line joined with its entry and account. \<open>ReportLemmas\<close>: sums over groups and entries, and
    that the decimal arithmetic of a report is exact below a hundred million lines (\<open>columns_hold\<close>).
    \<open>ReportProperties\<close>, \<open>ExportProperties\<close>: the properties C24, C39 and C40.
  \<^item> \<open>Demo\<close>: a run of six requests on a small database, on which the witnesses evaluate.
    \<open>LedgerProperties\<close>, \<open>PostingProperties\<close>, \<open>FinanceProperties\<close>: the other properties up to C26, but C24.
  \<^item> \<open>QuotationModel\<close> (\<open>quotations/models.py\<close>, \<open>quotations/schemas.py\<close>, the order tables of
    \<open>operations/models.py\<close>), \<open>RouteStops\<close> (\<open>master_data/route_stops.py\<close>), \<open>Quotations\<close> (saving and revising,
    \<open>quotations/service.py\<close> and \<open>repository.py\<close>), \<open>ServiceOrders\<close> (the header of an order and the order a
    quotation becomes, \<open>operations/service.py\<close>), \<open>QuotationFlow\<close> (sending, submitting, accepting, rejecting,
    cancelling, converting, deleting, and quoting an order).
  \<^item> \<open>Offers\<close>: the abstract specification, a book of offers with a status and a content each and the sales
    made of them, as the step relation \<open>offer_step\<close>; its invariant and what it never changes.
    \<open>QuotationSums\<close>: every total of a revision that is accepted is the exact sum of its lines. \<open>QuotationRefinement\<close>: the book a database stands for (\<open>book_of\<close>).
    \<open>QuotationSteps\<close>, \<open>QuotationServes\<close>, \<open>OfferMoves\<close>: what each operation does to the tables, and that it is
    a run of the machine of offers. \<open>QuotationMachine\<close>: the calls served (\<open>perform\<close>) and the writes of other
    modules as the step relation \<open>qstep\<close>, and the interpretation of \<open>evolution\<close> on it. \<open>OrderRows\<close>: the rows
    below an order belong to it. \<open>QuotationDemo\<close>: a quotation saved, submitted and converted.
    \<open>QuotationProperties\<close>: the properties C9, C11, C16 and C18 to C20.
  \<^item> \<open>Permissions\<close> (\<open>core/permissions.py\<close>): the catalogue of codes and pages, what a page grants, the
    compilation of a role to codes and back. \<open>Authorization\<close> (\<open>core/authorization/service.py\<close>,
    \<open>models.py\<close>, \<open>model.conf\<close>): the policy table, its loading, the matcher that decides a request, the
    writes. \<open>PolicySync\<close> (the same file): the workers and their policy copies, as a step relation.
  \<^item> \<open>Identity\<close> (\<open>auth/models.py\<close>, \<open>core/context.py\<close>, \<open>core/deps.py\<close>): the tables of accounts and the
    environment of a request. \<open>Sessions\<close>, \<open>Users\<close> (\<open>auth/service.py\<close>, \<open>core/deps.py\<close>,
    \<open>core/access_modes.py\<close>): sign-in with lock-out, refresh-token rotation, sign-out, passwords, the
    identity of a request; users, roles and grants. \<open>Bootstrap\<close> (\<open>core/bootstrap.py\<close>, the built-in
    roles of \<open>core/permissions.py\<close>, \<open>setup_initialize\<close>): the first run and what every restart does.
  \<^item> \<open>PlainCodes\<close>: the shape of permission codes, under which the policy compiler's text rules read them
    back. \<open>PolicyRows\<close>: what a rule row says and that the policy table agrees with users and grants.
    \<open>AuthMachine\<close>: the auth service as a step relation \<open>auth_step\<close>, its invariant \<open>auth_inv\<close> and what a
    later state keeps. \<open>AuthOperations\<close>: each operation is a move of that machine, and the
    interpretation of \<open>evolution\<close> on it. \<open>FirstRun\<close>: the setup runs to its end on an empty database.
    \<open>AccessControl\<close>: the abstract specification (who holds which role, what the role grants) and that
    the policy engine refines it. \<open>AuthProperties\<close>, \<open>SignInProperties\<close>: the properties C27 to C38.

  What the properties show. In every database the finance service can reach, posted entries balance,
  their accounts exist, settlements agree with the allocations and never exceed a payment or an invoice,
  and each posted document has one posting; what is posted is never changed again. Posting books the
  total of the document and is idempotent, a closed period refuses it, a reversal nets every account to
  zero and releases the settlements. Two numbers of a type and a year differ unless the administration of
  sequences set the counter back between them; rates and amounts keep their places; a validated payload
  has the types, ranges and lengths its schema declares.
  Every call on quotations and orders is a run of the machine of offers: an issued revision keeps its
  content, a quotation is sold once and to one order, which copies the offer and its totals, the totals of
  a revision are exactly those of its lines, and a quotation whose order lives cannot be deleted.
  In every database the auth service can reach after its setup somebody can still govern it; a session
  that ended and an account that was deleted never come back; the compiled policy is current and the
  engine decides what the roles grant, no more; administration changes that relation as the request
  says; the lock-out counts exactly, a refresh token works once, and an administrator gives no page
  outside what the grant allows. The first run always ends in a usable system.
  A trial balance reports an imbalance exactly when the books it covers have one, and the reachable
  books in one currency have none; the general ledger continues its balances across start dates and
  pages; an export reads back as the rows of its report, with no cell a spreadsheet would run.

  Bounds. No definition needs fuel: every loop of the code runs over a list. The step relations have no
  bound on the number of steps.

  Parameters. Code that is not under \<open>src\<close> is an argument of the definitions that use it: the password
  and token hashes, the random tokens, the JSON web token codec, the Casbin library (its documented
  decision is the hypothesis \<open>casbin_ok\<close>, met by a concrete engine in the witnesses), the parser
  \<open>datetime.fromisoformat\<close> and its inverse, and the generator of party codes (\<open>qc_code\<close>, \<open>qc_parse\<close> and
  \<open>qc_iso\<close> of \<open>qcall\<close>). So is the eligibility of a Telegram recovery, which is outside the model.

  Not modelled. Text interpolated into messages; the lengths of text columns; foreign keys into
  tables of other modules; the database triggers of \<open>alembic/versions\<close>; the payloads returned to the
  client where they carry floats (\<open>document_payload\<close>, \<open>journal_payload\<close>); the event, audit and
  notification records a request leaves; concurrency (the row locks, and the advisory lock of the setup,
  make each request atomic, and a request is one step). The JSON \<open>data\<close> column holds the values before
  they are encoded. The Redis copy of an identity is left out, so a context is always built from the
  database. An administrator who acts in \<open>auth_step\<close> has an active account. The setup's permission rows
  are modelled as the catalogue that produces them, and the configuration it seeds for other modules is
  left out. Of a service order the charges, the numbered containers, movements, milestones, component rows
  and attachments are left out, and of quotations the responses and the comparison of revisions.
  The status service writes the status of a sequence directly (\<open>_apply_sequence\<close> of
  \<open>master_data/status_service.py\<close>); \<open>fstep\<close> has no rule for it, and no property depends on that column.
  The reports other than the two ledger reports, master data apart from
  its rate functions and route stops, spreadsheets, backup, archive, Telegram and settings are not modelled;
  \<open>fs_other_modules\<close> lets them write the columns finance reads freely at any time.
\<close>

end
